(* ===== verification/Prelude.thy ===== *)
theory Prelude
  imports Main "HOL-Library.Word" "HOL-Library.List_Lexorder" "HOL-Library.Char_ord"
begin

text \<open>
  Shared vocabulary of the development: Rust results as sums and the combinators the sources
  use on them, fixed-width counters and their checked arithmetic, and UTF-8 strings as byte
  strings with the predicates the sources apply to them. A Rust \<open>String\<close> is the list of its
  bytes, so \<open>len\<close> is \<open>length\<close>, and \<open>cmp\<close> is the lexicographic order on bytes
  (\<open>List_Lexorder\<close> over \<open>Char_ord\<close>).
\<close>

named_theorems result_simps \<open>how an outcome of a chain of fallible calls decomposes\<close>
named_theorems word_bridge \<open>checked word arithmetic read on natural numbers\<close>

section \<open>Results\<close>

text \<open>\<open>Inl\<close> is Rust's \<open>Err\<close>, \<open>Inr\<close> is \<open>Ok\<close>; \<open>and_then\<close> is what the \<open>?\<close> operator does.\<close>

definition and_then :: "'e + 'a \<Rightarrow> ('a \<Rightarrow> 'e + 'b) \<Rightarrow> 'e + 'b" where
  "and_then m f = (case m of Inl e \<Rightarrow> Inl e | Inr x \<Rightarrow> f x)"

definition ok_or :: "'e \<Rightarrow> 'a option \<Rightarrow> 'e + 'a" where
  "ok_or e m = (case m of None \<Rightarrow> Inl e | Some x \<Rightarrow> Inr x)"

definition map_err :: "('e \<Rightarrow> 'f) \<Rightarrow> 'e + 'a \<Rightarrow> 'f + 'a" where
  "map_err g m = (case m of Inl e \<Rightarrow> Inl (g e) | Inr x \<Rightarrow> Inr x)"

text \<open>An early return \<open>if b { return Err(e) }\<close> is \<open>reject_if b e\<close>.\<close>

definition reject_if :: "bool \<Rightarrow> 'e \<Rightarrow> 'e + unit" where
  "reject_if b e = (if b then Inl e else Inr ())"

text \<open>A \<open>for\<close> loop that may return early threads its accumulator through \<open>try_fold\<close>.\<close>

fun try_fold :: "('x \<Rightarrow> 'a \<Rightarrow> 'e + 'a) \<Rightarrow> 'x list \<Rightarrow> 'a \<Rightarrow> 'e + 'a" where
  "try_fold f [] a = Inr a"
| "try_fold f (x # xs) a = and_then (f x a) (\<lambda>a'. try_fold f xs a')"

lemma and_then_simps [simp]:
  "and_then (Inl e) f = Inl e"
  "and_then (Inr x) f = f x"
  by (simp_all add: and_then_def)

lemma and_then_Inr_iff [result_simps]:
  "and_then m f = Inr y \<longleftrightarrow> (\<exists>x. m = Inr x \<and> f x = Inr y)"
  by (cases m) auto

lemma and_then_Inl_iff:
  "and_then m f = Inl e \<longleftrightarrow> m = Inl e \<or> (\<exists>x. m = Inr x \<and> f x = Inl e)"
  by (cases m) auto

lemma and_then_assoc:
  "and_then (and_then m f) g = and_then m (\<lambda>x. and_then (f x) g)"
  by (cases m) auto

text \<open>\<open>Option::filter\<close> of the standard library.\<close>

definition option_filter :: "('a \<Rightarrow> bool) \<Rightarrow> 'a option \<Rightarrow> 'a option" where
  "option_filter P m = (case m of None \<Rightarrow> None | Some x \<Rightarrow> if P x then Some x else None)"

lemma option_filter_Some_iff [simp]: "option_filter P m = Some x \<longleftrightarrow> m = Some x \<and> P x"
  by (cases m) (auto simp: option_filter_def)

lemma and_then_cong [fundef_cong]:
  "m = m' \<Longrightarrow> (\<And>x. m' = Inr x \<Longrightarrow> f x = f' x) \<Longrightarrow> and_then m f = and_then m' f'"
  by (cases m') (auto simp: and_then_def)

lemma ok_or_simps [simp]:
  "ok_or e None = Inl e"
  "ok_or e (Some x) = Inr x"
  by (simp_all add: ok_or_def)

lemma ok_or_Inr_iff [result_simps]: "ok_or e m = Inr x \<longleftrightarrow> m = Some x"
  by (cases m) auto

lemma ok_or_Inl_iff: "ok_or e m = Inl e' \<longleftrightarrow> m = None \<and> e' = e"
  by (cases m) auto

lemma map_err_simps [simp]:
  "map_err g (Inl e) = Inl (g e)"
  "map_err g (Inr x) = Inr x"
  by (simp_all add: map_err_def)

lemma map_err_Inr_iff [result_simps]: "map_err g m = Inr x \<longleftrightarrow> m = Inr x"
  by (cases m) auto

lemma reject_if_simps [simp]:
  "reject_if True e = Inl e"
  "reject_if False e = Inr ()"
  by (simp_all add: reject_if_def)

lemma reject_if_Inr_iff [result_simps]: "reject_if b e = Inr u \<longleftrightarrow> \<not> b"
  by (simp add: reject_if_def)

lemma reject_if_Inl_iff: "reject_if b e = Inl e' \<longleftrightarrow> b \<and> e' = e"
  by (auto simp: reject_if_def)

lemma try_fold_append:
  "try_fold f (xs @ ys) a = and_then (try_fold f xs a) (try_fold f ys)"
proof (induction xs arbitrary: a)
  case Nil
  show ?case by simp
next
  case (Cons x xs)
  show ?case by (cases "f x a") (simp_all add: Cons.IH)
qed

lemma try_fold_invariant:
  assumes "try_fold f xs a = Inr b" and "P a"
    and "\<And>x a a'. x \<in> set xs \<Longrightarrow> P a \<Longrightarrow> f x a = Inr a' \<Longrightarrow> P a'"
  shows "P b"
  using assms
proof (induction xs arbitrary: a)
  case Nil
  then show ?case by simp
next
  case (Cons x xs)
  from Cons.prems(1) obtain a' where a': "f x a = Inr a'" "try_fold f xs a' = Inr b"
    by (auto simp: and_then_Inr_iff)
  moreover have "P a'"
    using Cons.prems(2,3) a'(1) by auto
  ultimately show ?case
    using Cons.prems(3) by (auto intro: Cons.IH)
qed

text \<open>A loop that only checks its elements.\<close>

definition try_each :: "('x \<Rightarrow> 'e + unit) \<Rightarrow> 'x list \<Rightarrow> 'e + unit" where
  "try_each f xs = try_fold (\<lambda>x _. f x) xs ()"

lemma try_each_simps [simp]:
  "try_each f [] = Inr ()"
  "try_each f (x # xs) = and_then (f x) (\<lambda>_. try_each f xs)"
  by (simp_all add: try_each_def)

lemma try_each_Inr_iff [result_simps]: "try_each f xs = Inr u \<longleftrightarrow> (\<forall>x \<in> set xs. f x = Inr ())"
  by (induction xs) (auto simp: and_then_Inr_iff)

section \<open>Fixed-width counters\<close>

type_synonym u32 = "32 word"
type_synonym u64 = "64 word"
type_synonym usize = nat

definition checked_add :: "'a::len word \<Rightarrow> 'a word \<Rightarrow> 'a word option" where
  "checked_add a b = (if unat a + unat b < 2 ^ LENGTH('a) then Some (a + b) else None)"

definition saturating_add :: "'a::len word \<Rightarrow> 'a word \<Rightarrow> 'a word" where
  "saturating_add a b = (case checked_add a b of None \<Rightarrow> - 1 | Some c \<Rightarrow> c)"

text \<open>\<open>usize\<close> values are lengths; the target has 64-bit \<open>usize\<close>.\<close>

definition usize_checked_add :: "usize \<Rightarrow> usize \<Rightarrow> usize option" where
  "usize_checked_add a b = (if a + b < 2 ^ 64 then Some (a + b) else None)"

definition u32_try_from :: "usize \<Rightarrow> u32 option" where
  "u32_try_from n = (if n < 2 ^ 32 then Some (of_nat n) else None)"

definition u64_try_from :: "usize \<Rightarrow> u64 option" where
  "u64_try_from n = (if n < 2 ^ 64 then Some (of_nat n) else None)"

lemma checked_add_Some_iff [word_bridge]:
  fixes a b c :: "'a::len word"
  shows "checked_add a b = Some c \<longleftrightarrow> unat c = unat a + unat b"
proof
  assume "checked_add a b = Some c"
  then show "unat c = unat a + unat b"
    by (auto simp: checked_add_def unat_word_ariths split: if_splits)
next
  assume c: "unat c = unat a + unat b"
  have "unat c < 2 ^ LENGTH('a)" by (rule unsigned_less)
  with c show "checked_add a b = Some c"
    by (simp add: checked_add_def word_unat_eq_iff unat_word_ariths)
qed

lemma checked_add_None_iff:
  fixes a b :: "'a::len word"
  shows "checked_add a b = None \<longleftrightarrow> 2 ^ LENGTH('a) \<le> unat a + unat b"
  by (auto simp: checked_add_def)

lemma usize_checked_add_Some_iff [word_bridge]:
  "usize_checked_add a b = Some c \<longleftrightarrow> c = a + b \<and> a + b < 2 ^ 64"
  by (auto simp: usize_checked_add_def)

lemma u32_try_from_Some_iff [word_bridge]: "u32_try_from n = Some w \<longleftrightarrow> n = unat w"
proof -
  have "unat w < 2 ^ 32" using unsigned_less [of w] by simp
  then show ?thesis by (auto simp: u32_try_from_def unat_of_nat)
qed

lemma u64_try_from_Some_iff [word_bridge]: "u64_try_from n = Some w \<longleftrightarrow> n = unat w"
proof -
  have "unat w < 2 ^ 64" using unsigned_less [of w] by simp
  then show ?thesis by (auto simp: u64_try_from_def unat_of_nat)
qed

lemmas word_order_nat [word_bridge] = word_less_nat_alt word_le_nat_alt

section \<open>UTF-8 strings as byte strings\<close>

definition byte_val :: "char \<Rightarrow> nat" where
  "byte_val c = of_char c"

definition is_ascii_digit :: "char \<Rightarrow> bool" where
  "is_ascii_digit c \<longleftrightarrow> 48 \<le> byte_val c \<and> byte_val c \<le> 57"

definition is_ascii_lowercase :: "char \<Rightarrow> bool" where
  "is_ascii_lowercase c \<longleftrightarrow> 97 \<le> byte_val c \<and> byte_val c \<le> 122"

definition is_ascii_uppercase :: "char \<Rightarrow> bool" where
  "is_ascii_uppercase c \<longleftrightarrow> 65 \<le> byte_val c \<and> byte_val c \<le> 90"

definition is_ascii_alphanumeric :: "char \<Rightarrow> bool" where
  "is_ascii_alphanumeric c \<longleftrightarrow> is_ascii_digit c \<or> is_ascii_lowercase c \<or> is_ascii_uppercase c"

definition in_a_to_f :: "char \<Rightarrow> bool" where
  "in_a_to_f c \<longleftrightarrow> 97 \<le> byte_val c \<and> byte_val c \<le> 102"

definition is_ascii_hexdigit :: "char \<Rightarrow> bool" where
  "is_ascii_hexdigit c \<longleftrightarrow>
     is_ascii_digit c \<or> in_a_to_f c \<or> (65 \<le> byte_val c \<and> byte_val c \<le> 70)"

text \<open>
  \<open>char::is_control\<close> holds of U+0000--U+001F, U+007F and U+0080--U+009F. The last range is
  encoded as the byte C2 followed by 80--9F; in UTF-8 the byte C2 only occurs as the lead of a
  two-byte sequence, so a scan over adjacent bytes finds exactly the control characters. The
  scan reports the code points for which \<open>P\<close> holds.
\<close>

fun any_control :: "(nat \<Rightarrow> bool) \<Rightarrow> string \<Rightarrow> bool" where
  "any_control P [] = False"
| "any_control P (c # cs) =
     ((byte_val c < 32 \<or> byte_val c = 127) \<and> P (byte_val c)
      \<or> byte_val c = 194 \<and>
        (case cs of [] \<Rightarrow> False
         | d # _ \<Rightarrow> 128 \<le> byte_val d \<and> byte_val d \<le> 159 \<and> P (byte_val d))
      \<or> any_control P cs)"

definition has_control :: "string \<Rightarrow> bool" where
  "has_control s = any_control (\<lambda>_. True) s"

text \<open>\<open>chars().count()\<close>: every byte that is not a continuation byte 80--BF starts a character.\<close>

definition char_count :: "string \<Rightarrow> nat" where
  "char_count s = length (filter (\<lambda>c. \<not> (128 \<le> byte_val c \<and> byte_val c \<le> 191)) s)"

lemma char_count_le_length: "char_count s \<le> length s"
  by (simp add: char_count_def)

lemma no_control_byte:
  "\<not> has_control s \<Longrightarrow> c \<in> set s \<Longrightarrow> 32 \<le> byte_val c \<and> byte_val c \<noteq> 127"
  unfolding has_control_def by (induction s) auto

lemma printable_no_control:
  "\<forall>b \<in> set s. 32 \<le> byte_val b \<and> byte_val b < 127 \<Longrightarrow> \<not> has_control s"
  unfolding has_control_def by (induction s) (auto split: list.splits)

definition strip_prefix :: "string \<Rightarrow> string \<Rightarrow> string option" where
  "strip_prefix p s = (if take (length p) s = p then Some (drop (length p) s) else None)"

lemma strip_prefix_append [simp]: "strip_prefix p (p @ s) = Some s"
  by (simp add: strip_prefix_def)

lemma strip_prefix_Some_iff: "strip_prefix p s = Some r \<longleftrightarrow> s = p @ r"
proof
  assume "strip_prefix p s = Some r"
  then have "take (length p) s = p" and "drop (length p) s = r"
    by (simp_all add: strip_prefix_def split: if_splits)
  then show "s = p @ r"
    using append_take_drop_id [of "length p" s] by simp
qed simp

section \<open>Hexadecimal digests\<close>

definition hex_digit :: "nat \<Rightarrow> char" where
  "hex_digit n = char_of (if n < 10 then 48 + n else 87 + n)"

definition hex_byte :: "char \<Rightarrow> string" where
  "hex_byte c = [hex_digit (byte_val c div 16), hex_digit (byte_val c mod 16)]"

definition is_lower_hex :: "char \<Rightarrow> bool" where
  "is_lower_hex c \<longleftrightarrow> is_ascii_digit c \<or> in_a_to_f c"

lemma byte_val_less: "byte_val c < 256"
  unfolding byte_val_def by (cases c) (simp add: of_char_def horner_sum_simps split: if_splits)

lemma byte_val_char_of: "n < 256 \<Longrightarrow> byte_val (char_of n) = n"
  by (simp add: byte_val_def)

lemma byte_val_inject: "byte_val c = byte_val d \<longleftrightarrow> c = d"
  by (simp add: byte_val_def)

lemma hex_digit_val: "n < 16 \<Longrightarrow> byte_val (hex_digit n) = (if n < 10 then 48 + n else 87 + n)"
  by (simp add: hex_digit_def byte_val_char_of)

lemma hex_digit_lower: "n < 16 \<Longrightarrow> is_lower_hex (hex_digit n)"
  by (auto simp: is_lower_hex_def is_ascii_digit_def in_a_to_f_def hex_digit_val)

lemma hex_digit_inject:
  assumes "m < 16" and "n < 16" and "hex_digit m = hex_digit n"
  shows "m = n"
proof -
  have "byte_val (hex_digit m) = byte_val (hex_digit n)" using assms(3) by simp
  with assms(1,2) show ?thesis by (simp add: hex_digit_val split: if_splits)
qed

lemma hex_byte_inject: "hex_byte c = hex_byte d \<Longrightarrow> c = d"
proof -
  assume "hex_byte c = hex_byte d"
  then have "hex_digit (byte_val c div 16) = hex_digit (byte_val d div 16)"
    and "hex_digit (byte_val c mod 16) = hex_digit (byte_val d mod 16)"
    by (simp_all add: hex_byte_def)
  moreover have "byte_val c div 16 < 16" "byte_val d div 16 < 16"
    using byte_val_less [of c] byte_val_less [of d] by auto
  ultimately have "byte_val c div 16 = byte_val d div 16" "byte_val c mod 16 = byte_val d mod 16"
    by (auto intro: hex_digit_inject)
  then have "byte_val c = byte_val d"
    by (metis div_mult_mod_eq)
  then show "c = d" by (simp add: byte_val_inject)
qed

lemma hex_bytes_inject: "concat (map hex_byte xs) = concat (map hex_byte ys) \<Longrightarrow> xs = ys"
proof (induction xs arbitrary: ys)
  case Nil
  then show ?case by (cases ys) (simp_all add: hex_byte_def)
next
  case (Cons x xs)
  then obtain y ys' where ys: "ys = y # ys'"
    by (cases ys) (simp_all add: hex_byte_def)
  with Cons.prems have "hex_byte x @ concat (map hex_byte xs) = hex_byte y @ concat (map hex_byte ys')"
    by simp
  moreover have "length (hex_byte x) = length (hex_byte y)" by (simp add: hex_byte_def)
  ultimately have "hex_byte x = hex_byte y" "concat (map hex_byte xs) = concat (map hex_byte ys')"
    by simp_all
  with ys Cons.IH show ?case by (auto dest: hex_byte_inject)
qed

lemma length_hex_bytes: "length (concat (map hex_byte xs)) = 2 * length xs"
  by (induction xs) (simp_all add: hex_byte_def)

lemma lower_hex_bytes: "list_all is_lower_hex (concat (map hex_byte xs))"
proof (induction xs)
  case (Cons x xs)
  have "byte_val x div 16 < 16" using byte_val_less [of x] by simp
  then have "is_lower_hex (hex_digit (byte_val x div 16))"
    "is_lower_hex (hex_digit (byte_val x mod 16))"
    by (auto intro: hex_digit_lower)
  with Cons.IH show ?case by (simp add: hex_byte_def)
qed simp

end
