(* ===== verification/Ordered_Collections.thy ===== *)
theory Ordered_Collections
  imports Prelude
begin

text \<open>
  \<open>std::collections::BTreeMap\<close> and \<open>BTreeSet\<close>, which every stateful component of the program
  uses: a map is its list of entries in strictly increasing key order, so that iteration order,
  \<open>len\<close>, \<open>first\<close> and equality are those of the standard library. The interface the
  components rely on is the locale \<open>ordered_map\<close>; its consequences are proved there once and
  reach the components through the interpretation \<open>bm\<close>.
\<close>

section \<open>Entries in key order\<close>

fun put_entry :: "'k::linorder \<Rightarrow> 'v \<Rightarrow> ('k \<times> 'v) list \<Rightarrow> ('k \<times> 'v) list" where
  "put_entry k v [] = [(k, v)]"
| "put_entry k v ((k', v') # es) =
     (if k < k' then (k, v) # (k', v') # es
      else if k = k' then (k, v) # es
      else (k', v') # put_entry k v es)"

lemma map_of_put_entry: "map_of (put_entry k v es) x = (if x = k then Some v else map_of es x)"
  by (induction es) auto

lemma set_put_entry_keys: "fst ` set (put_entry k v es) = insert k (fst ` set es)"
proof -
  have "map_of (put_entry k v es) = (map_of es)(k \<mapsto> v)"
    by (rule ext) (simp add: map_of_put_entry)
  then have "dom (map_of (put_entry k v es)) = insert k (dom (map_of es))"
    by simp
  then show ?thesis by (simp only: dom_map_of_conv_image_fst)
qed

lemma sorted_put_entry:
  "sorted_wrt (<) (map fst es) \<Longrightarrow> sorted_wrt (<) (map fst (put_entry k v es))"
proof (induction es)
  case (Cons e es)
  obtain k' v' where e: "e = (k', v')" by (cases e)
  have "\<forall>x \<in> fst ` set (put_entry k v es). k' < x" if "k' < k"
    using Cons.prems that by (auto simp: e set_put_entry_keys)
  with Cons show ?case
    by (auto simp: e)
qed simp

lemma entries_from_keys:
  assumes "distinct (map fst es)"
  shows "map (\<lambda>k. (k, the (map_of es k))) (map fst es) = es"
proof -
  have "map ((\<lambda>k. (k, the (map_of es k))) \<circ> fst) es = es"
    using assms by (intro map_idI) auto
  then show ?thesis by simp
qed

lemma map_of_sorted_inject:
  fixes es fs :: "('k::linorder \<times> 'v) list"
  assumes "sorted_wrt (<) (map fst es)" and "sorted_wrt (<) (map fst fs)"
    and "map_of es = map_of fs"
  shows "es = fs"
proof -
  have distinct: "distinct (map fst es)" "distinct (map fst fs)"
    using assms(1,2) by (simp_all add: strict_sorted_iff)
  have "set (map fst es) = set (map fst fs)"
    using assms(3) by (metis dom_map_of_conv_image_fst set_map)
  then have keys: "map fst es = map fst fs"
    using assms(1,2) by (metis strict_sorted_equal)
  have "es = map (\<lambda>k. (k, the (map_of es k))) (map fst es)"
    by (rule entries_from_keys [OF distinct(1), symmetric])
  also have "\<dots> = map (\<lambda>k. (k, the (map_of fs k))) (map fst fs)"
    by (simp only: keys assms(3))
  also have "\<dots> = fs"
    by (rule entries_from_keys [OF distinct(2)])
  finally show ?thesis .
qed

section \<open>The interface\<close>

locale ordered_map =
  fixes empty :: "'m"
    and insert :: "'k::linorder \<Rightarrow> 'v \<Rightarrow> 'm \<Rightarrow> 'm"
    and get :: "'m \<Rightarrow> 'k \<Rightarrow> 'v option"
    and entries :: "'m \<Rightarrow> ('k \<times> 'v) list"
    and pop_first :: "'m \<Rightarrow> ('k \<times> 'v \<times> 'm) option"
  assumes entries_empty: "entries empty = []"
    and entries_sorted: "sorted_wrt (<) (map fst (entries m))"
    and entries_inject: "entries m = entries m' \<Longrightarrow> m = m'"
    and get_entries: "get m k = map_of (entries m) k"
    and get_insert: "get (insert k v m) x = (if x = k then Some v else get m x)"
    and pop_first_entries:
      "entries m = [] \<Longrightarrow> pop_first m = None"
      "pop_first m = Some (k, v, m') \<Longrightarrow> entries m = (k, v) # entries m'"
      "entries m \<noteq> [] \<Longrightarrow> pop_first m \<noteq> None"
begin

lemma distinct_keys: "distinct (map fst (entries m))"
  using entries_sorted [of m] by (simp add: strict_sorted_iff)

lemma sorted_keys: "sorted (map fst (entries m))"
  using entries_sorted [of m] by (simp add: strict_sorted_iff)

lemma get_empty: "get empty k = None"
  by (simp add: get_entries entries_empty)

lemma in_entries_iff: "(k, v) \<in> set (entries m) \<longleftrightarrow> get m k = Some v"
  by (simp add: get_entries distinct_keys)

lemma dom_get: "dom (get m) = fst ` set (entries m)"
proof -
  have "get m = map_of (entries m)" by (rule ext) (rule get_entries)
  then show ?thesis by (simp add: dom_map_of_conv_image_fst)
qed

lemma finite_dom: "finite (dom (get m))"
  by (simp add: dom_get)

lemma map_eqI: "(\<And>k. get m k = get m' k) \<Longrightarrow> m = m'"
  using map_of_sorted_inject [OF entries_sorted entries_sorted, of m m']
  by (auto simp: get_entries fun_eq_iff intro: entries_inject)

lemma length_entries: "length (entries m) = card (dom (get m))"
  using distinct_card [OF distinct_keys, of m] by (simp add: dom_get)

lemma length_insert:
  "length (entries (insert k v m)) =
     (if get m k = None then Suc (length (entries m)) else length (entries m))"
proof -
  have "dom (get (insert k v m)) = Set.insert k (dom (get m))"
    by (auto simp: get_insert dom_def split: if_splits)
  then show ?thesis
    using finite_dom [of m] by (auto simp: length_entries card_insert_if domIff)
qed

lemma entries_keys_list: "map fst (entries m) = sorted_list_of_set (dom (get m))"
  using sorted_keys [of m] distinct_keys [of m]
  by (simp add: dom_get sorted_list_of_set.idem_if_sorted_distinct flip: set_map)

lemma insert_commute:
  "k \<noteq> k' \<Longrightarrow> insert k v (insert k' v' m) = insert k' v' (insert k v m)"
  by (rule map_eqI) (simp add: get_insert)

lemma insert_overwrite: "insert k v (insert k v' m) = insert k v m"
  by (rule map_eqI) (simp add: get_insert)

lemma insert_same: "get m k = Some v \<Longrightarrow> insert k v m = m"
  by (rule map_eqI) (simp add: get_insert)

lemma pop_first_None_iff: "pop_first m = None \<longleftrightarrow> m = empty"
  using pop_first_entries(1,3) [of m] entries_empty entries_inject [of m empty] by metis

lemma pop_first_Some:
  assumes "pop_first m = Some (k, v, m')"
  shows "get m k = Some v" and "get m' k = None"
    and "x \<noteq> k \<Longrightarrow> get m' x = get m x" and "get m x \<noteq> None \<Longrightarrow> k \<le> x"
    and "length (entries m) = Suc (length (entries m'))"
proof -
  have es: "entries m = (k, v) # entries m'"
    using assms by (rule pop_first_entries(2))
  then show "get m k = Some v" "x \<noteq> k \<Longrightarrow> get m' x = get m x"
    "length (entries m) = Suc (length (entries m'))"
    by (simp_all add: get_entries)
  show "get m' k = None"
    using distinct_keys [of m] es by (simp add: get_entries map_of_eq_None_iff)
  show "k \<le> x" if "get m x \<noteq> None"
    using that es entries_sorted [of m]
    by (auto simp: get_entries split: if_splits dest!: map_of_SomeD intro: less_imp_le)
qed

end

section \<open>The implementation\<close>

typedef (overloaded) ('k::linorder, 'v) btreemap =
  "{es :: ('k \<times> 'v) list. sorted_wrt (<) (map fst es)}"
  morphisms bm_entries BTreeMap
  by (rule exI [of _ "[]"]) simp

setup_lifting type_definition_btreemap

lift_definition bm_empty :: "('k::linorder, 'v) btreemap" is "[]" by simp

lift_definition bm_insert :: "'k::linorder \<Rightarrow> 'v \<Rightarrow> ('k, 'v) btreemap \<Rightarrow> ('k, 'v) btreemap"
  is put_entry by (rule sorted_put_entry)

lift_definition bm_tail :: "('k::linorder, 'v) btreemap \<Rightarrow> ('k, 'v) btreemap"
  is tl
  subgoal for es by (cases es) simp_all
  done

lift_definition bm_map_values :: "('v \<Rightarrow> 'w) \<Rightarrow> ('k::linorder, 'v) btreemap \<Rightarrow> ('k, 'w) btreemap"
  is "\<lambda>f. map (\<lambda>(k, v). (k, f v))"
  by (simp add: comp_def case_prod_unfold)

definition bm_get :: "('k::linorder, 'v) btreemap \<Rightarrow> 'k \<Rightarrow> 'v option" where
  "bm_get m k = map_of (bm_entries m) k"

definition bm_keys :: "('k::linorder, 'v) btreemap \<Rightarrow> 'k list" where
  "bm_keys m = map fst (bm_entries m)"

definition bm_values :: "('k::linorder, 'v) btreemap \<Rightarrow> 'v list" where
  "bm_values m = map snd (bm_entries m)"

definition bm_len :: "('k::linorder, 'v) btreemap \<Rightarrow> usize" where
  "bm_len m = length (bm_entries m)"

definition bm_contains_key :: "('k::linorder, 'v) btreemap \<Rightarrow> 'k \<Rightarrow> bool" where
  "bm_contains_key m k \<longleftrightarrow> bm_get m k \<noteq> None"

definition bm_pop_first :: "('k::linorder, 'v) btreemap \<Rightarrow> ('k \<times> 'v \<times> ('k, 'v) btreemap) option" where
  "bm_pop_first m =
     (case bm_entries m of [] \<Rightarrow> None | (k, v) # _ \<Rightarrow> Some (k, v, bm_tail m))"

lemma bm_entries_empty [simp]: "bm_entries bm_empty = []"
  by (rule bm_empty.rep_eq)

lemma bm_entries_insert [simp]: "bm_entries (bm_insert k v m) = put_entry k v (bm_entries m)"
  by (rule bm_insert.rep_eq)

interpretation bm: ordered_map bm_empty bm_insert bm_get bm_entries bm_pop_first
proof unfold_locales
  fix m m' :: "('k::linorder, 'v) btreemap" and k x :: 'k and v :: 'v
  show "sorted_wrt (<) (map fst (bm_entries m))"
    using bm_entries [of m] by simp
  show "bm_entries m = bm_entries m' \<Longrightarrow> m = m'"
    by (simp add: bm_entries_inject)
  show "bm_get (bm_insert k v m) x = (if x = k then Some v else bm_get m x)"
    by (simp add: bm_get_def map_of_put_entry)
  show "bm_entries m = [] \<Longrightarrow> bm_pop_first m = None"
    "bm_entries m \<noteq> [] \<Longrightarrow> bm_pop_first m \<noteq> None"
    by (auto simp: bm_pop_first_def split: list.splits)
  show "bm_pop_first m = Some (k, v, m') \<Longrightarrow> bm_entries m = (k, v) # bm_entries m'"
    by (auto simp: bm_pop_first_def bm_tail.rep_eq split: list.splits)
qed (simp_all add: bm_get_def)

lemmas bm_get_simps [simp] = bm.get_empty bm.get_insert

lemma bm_contains_key_simps [simp]:
  "bm_contains_key bm_empty k \<longleftrightarrow> False"
  "bm_contains_key (bm_insert k' v m) k \<longleftrightarrow> k = k' \<or> bm_contains_key m k"
  by (auto simp: bm_contains_key_def)

lemma bm_get_map_values [simp]: "bm_get (bm_map_values f m) k = map_option f (bm_get m k)"
  by (simp add: bm_get_def bm_map_values.rep_eq map_of_map)

lemma bm_len_map_values [simp]: "bm_len (bm_map_values f m) = bm_len m"
  by (simp add: bm_len_def bm_map_values.rep_eq)

lemma in_bm_values_iff: "v \<in> set (bm_values m) \<longleftrightarrow> (\<exists>k. bm_get m k = Some v)"
proof -
  have "v \<in> set (bm_values m) \<longleftrightarrow> (\<exists>k. (k, v) \<in> set (bm_entries m))"
    by (force simp: bm_values_def)
  then show ?thesis by (simp add: bm.in_entries_iff)
qed

lemma in_bm_keys_iff: "k \<in> set (bm_keys m) \<longleftrightarrow> bm_contains_key m k"
  using bm.dom_get [of m] by (auto simp: bm_keys_def bm_contains_key_def)

lemma distinct_bm_keys [simp]: "distinct (bm_keys m)"
  unfolding bm_keys_def by (rule bm.distinct_keys)

lemma sorted_bm_keys [simp]: "sorted (bm_keys m)"
  unfolding bm_keys_def by (rule bm.sorted_keys)

lemma length_bm_keys [simp]: "length (bm_keys m) = bm_len m"
  by (simp add: bm_keys_def bm_len_def)

lemma bm_len_insert:
  "bm_len (bm_insert k v m) = (if bm_contains_key m k then bm_len m else Suc (bm_len m))"
  by (simp add: bm_len_def bm.length_insert bm_contains_key_def del: bm_entries_insert)

lemma bm_len_empty [simp]: "bm_len bm_empty = 0"
  by (simp add: bm_len_def)

instantiation btreemap :: (linorder, equal) equal
begin

definition equal_btreemap :: "('a, 'b) btreemap \<Rightarrow> ('a, 'b) btreemap \<Rightarrow> bool" where
  "equal_btreemap m m' \<longleftrightarrow> bm_entries m = bm_entries m'"

instance
  by standard (simp add: equal_btreemap_def bm_entries_inject)

end

section \<open>Sums over the values\<close>

lemma sum_list_put_entry:
  fixes f :: "'v \<Rightarrow> nat"
  assumes "sorted_wrt (<) (map fst es)"
  shows "sum_list (map (f \<circ> snd) (put_entry k v es)) + (case map_of es k of None \<Rightarrow> 0 | Some w \<Rightarrow> f w)
       = sum_list (map (f \<circ> snd) es) + f v"
  using assms
proof (induction es)
  case (Cons e es)
  obtain k' v' where e: "e = (k', v')" by (cases e)
  have "map_of es k = None" if "k \<le> k'"
    using Cons.prems that by (force simp: e map_of_eq_None_iff)
  with Cons show ?case
    by (auto simp: e algebra_simps)
qed simp

lemma sum_values_insert:
  fixes f :: "'v \<Rightarrow> nat"
  shows "sum_list (map f (bm_values (bm_insert k v m)))
      + (case bm_get m k of None \<Rightarrow> 0 | Some w \<Rightarrow> f w)
    = sum_list (map f (bm_values m)) + f v"
  using sum_list_put_entry [OF bm.entries_sorted, of f k v m]
  by (simp add: bm_values_def bm_get_def)

section \<open>Sets\<close>

text \<open>A \<open>BTreeSet\<close> is a \<open>BTreeMap\<close> to the unit value, as in the standard library.\<close>

type_synonym 'a btreeset = "('a, unit) btreemap"

abbreviation bs_empty :: "'a::linorder btreeset" where
  "bs_empty \<equiv> bm_empty"

definition bs_insert :: "'a::linorder \<Rightarrow> 'a btreeset \<Rightarrow> 'a btreeset" where
  "bs_insert x s = bm_insert x () s"

definition bs_contains :: "'a::linorder btreeset \<Rightarrow> 'a \<Rightarrow> bool" where
  "bs_contains s x \<longleftrightarrow> bm_contains_key s x"

definition bs_list :: "'a::linorder btreeset \<Rightarrow> 'a list" where
  "bs_list s = bm_keys s"

definition bs_of_list :: "'a::linorder list \<Rightarrow> 'a btreeset" where
  "bs_of_list xs = foldl (\<lambda>s x. bs_insert x s) bm_empty xs"

lemma bs_contains_simps [simp]:
  "bs_contains bm_empty x \<longleftrightarrow> False"
  "bs_contains (bs_insert y s) x \<longleftrightarrow> x = y \<or> bs_contains s x"
  by (simp_all add: bs_contains_def bs_insert_def)

lemma bs_contains_foldl:
  "bs_contains (foldl (\<lambda>s x. bs_insert x s) s xs) y \<longleftrightarrow> bs_contains s y \<or> y \<in> set xs"
  by (induction xs arbitrary: s) auto

lemma bs_contains_of_list [simp]: "bs_contains (bs_of_list xs) x \<longleftrightarrow> x \<in> set xs"
  by (simp add: bs_of_list_def bs_contains_foldl)

lemma set_bs_list: "set (bs_list s) = {x. bs_contains s x}"
  by (auto simp: bs_list_def bs_contains_def in_bm_keys_iff)

lemma bs_eqI:
  assumes "\<And>x. bs_contains s x = bs_contains t x"
  shows "s = t"
proof (rule bm.map_eqI)
  fix x
  have "bm_get s x = None \<longleftrightarrow> bm_get t x = None"
    using assms [of x] unfolding bs_contains_def bm_contains_key_def by blast
  then show "bm_get s x = bm_get t x"
    by (cases "bm_get s x"; cases "bm_get t x") simp_all
qed

lemma bs_list_of_list: "bs_list (bs_of_list xs) = sorted_list_of_set (set xs)"
proof -
  have "set (bs_list (bs_of_list xs)) = set xs"
    by (simp add: set_bs_list)
  then show ?thesis
    by (metis bs_list_def distinct_bm_keys sorted_bm_keys
        sorted_list_of_set.idem_if_sorted_distinct)
qed

lemma bs_len_of_list_distinct: "distinct xs \<Longrightarrow> bm_len (bs_of_list xs) = length xs"
  by (metis bs_list_def bs_list_of_list length_bm_keys distinct_card
      sorted_list_of_set.length_sorted_key_list_of_set)

end
