(* ===== verification/Journal_Types.thy ===== *)
theory Journal_Types
  imports Ordered_Collections
begin

text \<open>
  The data of the durable run journal, \<open>crates/xgeny-workgraph/src/lib.rs\<close>: events, effect
  intents, authorizations, planning contracts, sidecar records, the projected run state and the
  error types, in the order of the source. A struct is a record whose fields carry a prefix of
  their struct's name, an enum a datatype with the source's constructors (prefixed where two
  enums share a constructor name). The canonicalizer \<open>serde_jcs::to_vec\<close> and SHA-256 are
  library code: they are the two fields of the record \<open>crypto\<close> that the definitions take as an
  argument.
\<close>

section \<open>JSON values\<close>

text \<open>
  \<open>serde_json::Value\<close>; an object is its entries in key order, the default map of the library
  being a \<open>BTreeMap\<close>. A number is one of the three representations of \<open>serde_json::Number\<close>.
\<close>

datatype json_number = PosInt u64 | NegInt u64 | Float u64

datatype json =
    JNull
  | JBool bool
  | JNumber json_number
  | JString string
  | JArray "json list"
  | JObject "(string \<times> json) list"

section \<open>Material references and retention\<close>

record reconstructable_material_reference =
  rmr_provider_id :: string
  rmr_reference_id :: string
  rmr_revision :: string

datatype invocation_material_retention =
    Ephemeral
  | ReconstructableReference reconstructable_material_reference

datatype invocation_material_unavailable_reason =
    EphemeralMaterialLost
  | ReferenceUnavailable
  | ReferenceChanged
  | AdapterBindingUnavailable
  | CredentialBindingChanged
  | UnsupportedMaterialVersion

fun unavailable_reason_code :: "invocation_material_unavailable_reason \<Rightarrow> string" where
  "unavailable_reason_code EphemeralMaterialLost = ''ephemeral_material_lost''"
| "unavailable_reason_code ReferenceUnavailable = ''reference_unavailable''"
| "unavailable_reason_code ReferenceChanged = ''reference_changed''"
| "unavailable_reason_code AdapterBindingUnavailable = ''adapter_binding_unavailable''"
| "unavailable_reason_code CredentialBindingChanged = ''credential_binding_changed''"
| "unavailable_reason_code UnsupportedMaterialVersion = ''unsupported_material_version''"

section \<open>Effects and authorizations\<close>

datatype effect_class = ReadOnly | Reversible | Idempotent | NonIdempotent

datatype sink_guarantee = SinkNone | DeduplicateByKey | QueryByKey | DeduplicateAndQuery

datatype receipt_placement = PlacementLocal | PlacementDevice | PlacementRemote

datatype receipt_verification_strategy =
    StrategyOutputSchema | StrategyPostcondition | StrategyArtifactDigest
  | StrategyReceipt | StrategyHuman

record receipt_verification_rule =
  rvr_strategy :: receipt_verification_strategy
  rvr_required :: bool

datatype verification_disposition = VerdictPassed | VerdictFailed | VerdictInconclusive

record receipt_provenance =
  rp_profile_version :: string
  rp_tool_output_profile :: "string option"
  rp_invocation_id :: string
  rp_plan_id :: string
  rp_policy_decision_id :: string
  rp_policy_decision_digest :: string
  rp_executor_id :: string
  rp_executor_placement :: receipt_placement
  rp_executor_platform :: string
  rp_input_summary :: string
  rp_verification_plan :: "receipt_verification_rule list"

record invocation_binding =
  ib_capability_id :: string
  ib_contract_version :: string
  ib_definition_digest :: string
  ib_instance_id :: string
  ib_instance_binding_digest :: string

record authorization_binding =
  ab_run_id :: string
  ab_step_id :: string
  ab_authority :: string
  ab_authority_epoch :: u64
  ab_issued_at_sequence :: u64
  ab_issued_at_head_digest :: string
  ab_capability_id :: string
  ab_contract_version :: string
  ab_definition_digest :: string
  ab_instance_id :: string
  ab_instance_binding_digest :: string
  ab_action_digest :: string
  ab_material_digest :: string
  ab_material_retention_digest :: string
  ab_policy_evidence_digest :: string
  ab_receipt_provenance_digest :: "string option"

record authorization_use =
  au_grant_id :: string
  au_grant_digest :: string
  au_max_uses :: u32
  au_binding :: authorization_binding

record effect_intent =
  ei_effect_id :: string
  ei_action_digest :: string
  ei_invocation :: invocation_binding
  ei_effect_class :: effect_class
  ei_idempotency_key :: "string option"
  ei_sink_guarantee :: sink_guarantee
  ei_authorization :: authorization_use
  ei_receipt_provenance :: "receipt_provenance option"

datatype reconciliation_resolution = ProvedApplied | ProvedNotApplied | ReconcileFailed

section \<open>Planning and model calls\<close>

record model_call_budget =
  mcb_max_model_calls :: u32

record model_call_reservation =
  mcr_format_version :: u32
  mcr_call_id :: string
  mcr_planner_id :: string
  mcr_call_index :: u32
  mcr_turn_index :: u32
  mcr_base_sequence :: u64
  mcr_base_head_digest :: string
  mcr_context_digest :: string
  mcr_request_digest :: string

datatype model_call_unknown_reason = Timeout | TransportUnavailable | Interrupted

datatype model_call_rejection_reason =
    PlannerInvalidResponse | ProviderLimit | RequestTooLarge | RateLimited | OutputTruncated
  | ProviderRejected | ProposalRejected | MaterializationFailed | StaleHead

datatype model_call_abandonment_reason = RecoveryDiscarded

datatype model_call_status = Reserved | CallUnknown model_call_unknown_reason

datatype model_call_settlement =
    Rejected model_call_rejection_reason
  | Abandoned model_call_abandonment_reason

record model_call_state =
  mcs_reservation :: model_call_reservation
  mcs_status :: model_call_status

record model_call_lifecycle_state =
  mcl_budget :: model_call_budget
  mcl_reserved_calls :: u32
  mcl_settled_calls :: u32
  mcl_unknown_calls :: u32
  mcl_active_call :: "model_call_state option"

record agent_loop_budget =
  alb_max_model_turns :: u32
  alb_max_planned_steps :: u32
  alb_max_tool_calls :: u32
  alb_max_context_bytes :: u64

record expected_planning_turn =
  ept_turn_index :: u32
  ept_model_call_id :: "string option"
  ept_context_digest :: string
  ept_proposal_digest :: string

datatype planned_execution_profile =
    LocalSyncOnceV1 | LocalSyncReadOnlyV1
  | LocalSyncOnceOccurrenceV1 | LocalSyncReadOnlyOccurrenceV1

record planned_invocation_spec =
  pis_capability_id :: string
  pis_contract_version :: string
  pis_definition_digest :: string
  pis_action_digest :: string
  pis_plan_input_digest :: string
  pis_execution_profile :: planned_execution_profile
  pis_target_os :: string
  pis_target_arch :: string

record planned_invocation_binding =
  pib_format_version :: u32
  pib_plan_id :: string
  pib_proposal_digest :: string
  pib_capability_id :: string
  pib_contract_version :: string
  pib_definition_digest :: string
  pib_action_digest :: string
  pib_plan_input_digest :: string
  pib_execution_profile :: planned_execution_profile
  pib_target_os :: string
  pib_target_arch :: string
  pib_spec_digest :: string
  pib_plan_input_record_digest :: string

record planned_invocation_material_record =
  pimr_format_version :: u32
  pimr_run_id :: string
  pimr_step_id :: string
  pimr_plan_id :: string
  pimr_proposal_digest :: string
  pimr_spec_digest :: string
  pimr_reference :: reconstructable_material_reference
  pimr_record_digest :: string

record accepted_plan_step =
  aps_step_id :: string
  aps_objective :: string
  aps_depends_on :: "string list"
  aps_invocation :: planned_invocation_binding

record completion_candidate_state =
  ccs_candidate_id :: string
  ccs_context_digest :: string
  ccs_proposal_digest :: string
  ccs_summary_digest :: string
  ccs_completion_output_record_digest :: "string option"

record agent_loop_state =
  als_budget :: agent_loop_budget
  als_accepted_model_turns :: u32
  als_model_calls :: "model_call_lifecycle_state option"
  als_completion_candidate :: "completion_candidate_state option"

section \<open>Sidecar records\<close>

record invocation_material_record =
  imr_format_version :: u32
  imr_material_id :: string
  imr_run_id :: string
  imr_step_id :: string
  imr_effect_id :: string
  imr_action_digest :: string
  imr_invocation :: invocation_binding
  imr_material_digest :: string
  imr_retention :: invocation_material_retention
  imr_record_digest :: string

record completion_output_record =
  cor_format_version :: u32
  cor_candidate_id :: string
  cor_run_id :: string
  cor_turn_index :: u32
  cor_model_call_id :: string
  cor_context_digest :: string
  cor_proposal_digest :: string
  cor_summary_size_bytes :: u64
  cor_summary_digest :: string
  cor_summary :: string
  cor_record_digest :: string

record tool_output_record =
  tor_format_version :: u32
  tor_output_id :: string
  tor_run_id :: string
  tor_step_id :: string
  tor_effect_id :: string
  tor_action_digest :: string
  tor_invocation :: invocation_binding
  tor_plan_id :: string
  tor_execution_attempt :: u32
  tor_evidence_digest :: string
  tor_canonical_size_bytes :: u64
  tor_output_digest :: string
  tor_output :: json
  tor_record_digest :: string

section \<open>Events\<close>

datatype run_event_body =
    RunCreated string
  | AgentLoopConfigured agent_loop_budget
  | ModelCallLifecycleConfigured model_call_budget
  | ModelCallReserved model_call_reservation
  | ModelCallBecameUnknown string model_call_unknown_reason
  | ModelCallSettled string model_call_settlement
  | PlanAccepted expected_planning_turn "accepted_plan_step list"
  | CompletionCandidateRecorded expected_planning_turn string string "string option"
  | StepPlanned string string "string list"
  | EffectIntentCommitted string effect_intent
  | InvocationMaterialUnavailable string string invocation_material_unavailable_reason
  | EffectExecutionStarted string string
  | EffectSucceeded string string string "string option"
  | EffectFailed string string string
  | EffectBecameUnknown string string string
  | ReconciliationStarted string string
  | ReconciliationResolved string string reconciliation_resolution string
  | ManualInterventionRequired string string string
  | VerificationPassed string
  | VerificationFailed string string
  | VerificationRecorded string string verification_disposition string string

fun event_kind :: "run_event_body \<Rightarrow> string" where
  "event_kind (RunCreated _) = ''run_created''"
| "event_kind (AgentLoopConfigured _) = ''agent_loop_configured''"
| "event_kind (ModelCallLifecycleConfigured _) = ''model_call_lifecycle_configured''"
| "event_kind (ModelCallReserved _) = ''model_call_reserved''"
| "event_kind (ModelCallBecameUnknown _ _) = ''model_call_became_unknown''"
| "event_kind (ModelCallSettled _ _) = ''model_call_settled''"
| "event_kind (PlanAccepted _ _) = ''plan_accepted''"
| "event_kind (CompletionCandidateRecorded _ _ _ _) = ''completion_candidate_recorded''"
| "event_kind (StepPlanned _ _ _) = ''step_planned''"
| "event_kind (EffectIntentCommitted _ _) = ''effect_intent_committed''"
| "event_kind (InvocationMaterialUnavailable _ _ _) = ''invocation_material_unavailable''"
| "event_kind (EffectExecutionStarted _ _) = ''effect_execution_started''"
| "event_kind (EffectSucceeded _ _ _ _) = ''effect_succeeded''"
| "event_kind (EffectFailed _ _ _) = ''effect_failed''"
| "event_kind (EffectBecameUnknown _ _ _) = ''effect_became_unknown''"
| "event_kind (ReconciliationStarted _ _) = ''reconciliation_started''"
| "event_kind (ReconciliationResolved _ _ _ _) = ''reconciliation_resolved''"
| "event_kind (ManualInterventionRequired _ _ _) = ''manual_intervention_required''"
| "event_kind (VerificationPassed _) = ''verification_passed''"
| "event_kind (VerificationFailed _ _) = ''verification_failed''"
| "event_kind (VerificationRecorded _ _ _ _ _) = ''verification_recorded''"

record run_event =
  re_event_id :: string
  re_run_id :: string
  re_authority :: string
  re_authority_epoch :: u64
  re_recorded_at :: string
  re_body :: run_event_body

record event_record =
  er_sequence :: u64
  er_previous_digest :: "string option"
  er_event :: run_event
  er_digest :: string

section \<open>The projected run\<close>

datatype step_status =
    Planned | IntentCommitted | Executing | EffectUnknown | Reconciling
  | Validating | Completed | Failed | ManualRequired

record step_state =
  ss_step_id :: string
  ss_objective :: string
  ss_depends_on :: "string list"
  ss_planned_invocation :: "planned_invocation_binding option"
  ss_status :: step_status
  ss_attempts :: u32
  ss_intent :: "effect_intent option"
  ss_effect_evidence_digest :: "string option"
  ss_output_record_digest :: "string option"
  ss_execution_receipt_id :: "string option"
  ss_execution_receipt_digest :: "string option"
  ss_uncertainty_reason :: "string option"
  ss_reconciliation_evidence_digest :: "string option"

record authorization_consumption =
  ac_grant_digest :: string
  ac_max_uses :: u32
  ac_uses :: u32
  ac_effect_ids :: "string btreeset"

record run_state =
  rs_run_id :: string
  rs_authority :: string
  rs_authority_epoch :: u64
  rs_goal :: string
  rs_revision :: u64
  rs_journal_sequence :: u64
  rs_journal_head_digest :: string
  rs_steps :: "(string, step_state) btreemap"
  rs_authorization_consumption :: "(string, authorization_consumption) btreemap"
  rs_agent_loop :: "agent_loop_state option"

end
