(* ===== verification/Journal_Digests.thy ===== *)
theory Journal_Digests
  imports Journal_Types
begin

text \<open>
  Content digests of \<open>crates/xgeny-workgraph/src/lib.rs\<close>. Each private \<open>...DigestInput\<close> or
  \<open>...IdInput\<close> struct that the code canonicalizes is a constructor of \<open>digest_input\<close>, with the
  struct's fields in order (the domain-separation string first). \<open>crypto\<close> holds the two library
  functions: \<open>jcs\<close> (RFC 8785 canonical JSON, which may fail with a message) and \<open>sha256\<close>. The
  lemmas here say that an equal digest of two different inputs exhibits a SHA-256 collision or a
  canonicalizer confusion, so that tamper-evidence can be stated without assuming injectivity.
\<close>

section \<open>Errors\<close>

datatype record_error =
    RE_Canonicalization string
  | RE_DigestMismatch u64 string string
  | RE_SequenceOverflow

datatype authorization_digest_error = ADE_Canonicalization string

datatype invocation_material_error =
    IME_UnsupportedFormatVersion u32
  | IME_EmptyField string
  | IME_InvalidReferenceComponent string
  | IME_BindingMismatch string
  | IME_MaterialIdMismatch
  | IME_RecordDigestMismatch
  | IME_Canonicalization string

datatype planning_contract_error =
    PCE_ZeroBudget string
  | PCE_TurnIndexZero
  | PCE_ModelCallIndexZero
  | PCE_InvalidIdentifier string
  | PCE_UnsupportedTarget string
  | PCE_InvalidDigest string
  | PCE_UnsupportedFormatVersion u32
  | PCE_UnsupportedModelCallFormatVersion u32
  | PCE_ModelCallIdMismatch
  | PCE_SpecDigestMismatch
  | PCE_BindingMismatch string
  | PCE_PlanIdMismatch
  | PCE_RecordDigestMismatch
  | PCE_Canonicalization string
  | PCE_InvocationMaterial invocation_material_error

section \<open>What is digested\<close>

datatype digest_input =
    DigestInput u64 "string option" run_event
  | ReceiptProvenanceInput receipt_provenance
  | AuthorizationDigestInput string authorization_binding u32
  | OnceAuthorizationIdInput string string string
  | ModelCallIdDigestInput string u32 string u64 string u32 u32 u64 string string string
  | PlannedInvocationSpecDigestInput string string string string string string
      planned_execution_profile string string
  | PlannedInvocationIdInput string string string string string
  | PlannedInvocationMaterialRecordDigestInput string u32 string string string string string
      reconstructable_material_reference
  | InvocationMaterialDigestInput string json
  | InvocationMaterialRetentionInput string invocation_material_retention
  | InvocationMaterialIdInput string string string string
  | InvocationMaterialRecordDigestInput string u32 string string string string string
      invocation_binding string invocation_material_retention
  | CompletionSummaryDigestInput string string
  | CompletionProposalDigestInput string string string
  | CompletionCandidateIdDigestInput string string string string
  | CompletionOutputRecordDigestInput string u32 string string u32 string string string u64 string
  | ToolOutputValueInput json
  | ToolOutputIdInput string string string string u32 string
  | ToolOutputRecordDigestInput string u32 string string string string string invocation_binding
      string u32 string u64 string

record crypto =
  jcs :: "digest_input \<Rightarrow> string + string"
  sha256 :: "string \<Rightarrow> string"

definition sha256_digest :: "crypto \<Rightarrow> string \<Rightarrow> string" where
  "sha256_digest cr v = ''sha256:'' @ concat (map hex_byte (sha256 cr v))"

definition canonical_digest :: "crypto \<Rightarrow> digest_input \<Rightarrow> string + string" where
  "canonical_digest cr i = and_then (jcs cr i) (\<lambda>c. Inr (sha256_digest cr c))"

text \<open>\<open>digest.strip_prefix("sha256:").unwrap_or(&digest)\<close> behind a textual prefix.\<close>

definition prefixed_id :: "string \<Rightarrow> string \<Rightarrow> string" where
  "prefixed_id p digest =
     p @ (case strip_prefix ''sha256:'' digest of None \<Rightarrow> digest | Some e \<Rightarrow> e)"

definition is_sha256_digest :: "string \<Rightarrow> bool" where
  "is_sha256_digest v \<longleftrightarrow>
     (case strip_prefix ''sha256:'' v of None \<Rightarrow> False
      | Some e \<Rightarrow> length e = 64 \<and> list_all (\<lambda>b. is_ascii_digit b \<or> in_a_to_f b) e)"

definition is_canonical_sha256 :: "string \<Rightarrow> bool" where
  "is_canonical_sha256 v \<longleftrightarrow>
     (case strip_prefix ''sha256:'' v of None \<Rightarrow> False
      | Some e \<Rightarrow> length e = 64 \<and> list_all (\<lambda>b. is_ascii_digit b \<or> in_a_to_f b) e)"

section \<open>The digests of the journal\<close>

definition record_digest :: "crypto \<Rightarrow> u64 \<Rightarrow> string option \<Rightarrow> run_event \<Rightarrow> record_error + string" where
  "record_digest cr sequence previous_digest event =
     map_err RE_Canonicalization (canonical_digest cr (DigestInput sequence previous_digest event))"

definition receipt_provenance_digest ::
    "crypto \<Rightarrow> receipt_provenance \<Rightarrow> authorization_digest_error + string" where
  "receipt_provenance_digest cr provenance =
     map_err ADE_Canonicalization (canonical_digest cr (ReceiptProvenanceInput provenance))"

definition once_authorization_id ::
    "crypto \<Rightarrow> string \<Rightarrow> string \<Rightarrow> authorization_digest_error + string" where
  "once_authorization_id cr run_id action_digest =
     and_then (map_err ADE_Canonicalization (canonical_digest cr
         (OnceAuthorizationIdInput ''xgeny.authorization-budget.once/v1'' run_id action_digest)))
       (\<lambda>digest. Inr (prefixed_id ''authorization-'' digest))"

definition authorization_digest ::
    "crypto \<Rightarrow> authorization_binding \<Rightarrow> u32 \<Rightarrow> authorization_digest_error + string" where
  "authorization_digest cr binding max_uses =
     map_err ADE_Canonicalization (canonical_digest cr
       (AuthorizationDigestInput ''xgeny.authorization.once/v2'' binding max_uses))"

definition event_record_next ::
    "crypto \<Rightarrow> event_record option \<Rightarrow> run_event \<Rightarrow> record_error + event_record" where
  "event_record_next cr previous event =
     and_then (case previous of None \<Rightarrow> Inr 1
               | Some r \<Rightarrow> ok_or RE_SequenceOverflow (checked_add (er_sequence r) 1))
       (\<lambda>sequence.
          let previous_digest = map_option er_digest previous in
          and_then (record_digest cr sequence previous_digest event)
            (\<lambda>digest. Inr \<lparr>er_sequence = sequence, er_previous_digest = previous_digest,
                          er_event = event, er_digest = digest\<rparr>))"

definition verify_digest :: "crypto \<Rightarrow> event_record \<Rightarrow> record_error + unit" where
  "verify_digest cr r =
     and_then (record_digest cr (er_sequence r) (er_previous_digest r) (er_event r))
       (\<lambda>actual. reject_if (actual \<noteq> er_digest r)
          (RE_DigestMismatch (er_sequence r) (er_digest r) actual))"

section \<open>Shape and collisions\<close>

lemma is_canonical_sha256_eq: "is_canonical_sha256 v = is_sha256_digest v"
  by (simp add: is_canonical_sha256_def is_sha256_digest_def)

lemma sha256_digest_shape:
  "length (sha256 cr v) = 32 \<Longrightarrow> is_sha256_digest (sha256_digest cr v)"
  using lower_hex_bytes [of "sha256 cr v"]
  by (simp add: is_sha256_digest_def sha256_digest_def length_hex_bytes is_lower_hex_def [abs_def]
      del: append.simps)

lemma sha256_digest_inject: "sha256_digest cr v = sha256_digest cr w \<Longrightarrow> sha256 cr v = sha256 cr w"
  by (auto simp: sha256_digest_def intro: hex_bytes_inject)

text \<open>
  Two different inputs confuse the digest when both canonicalize and their canonical bytes have
  the same hash: either the canonicalizer maps them to the same bytes or SHA-256 collides.
\<close>

definition digest_confusion :: "crypto \<Rightarrow> digest_input \<Rightarrow> digest_input \<Rightarrow> bool" where
  "digest_confusion cr i j \<longleftrightarrow> i \<noteq> j \<and>
     (\<exists>c d. jcs cr i = Inr c \<and> jcs cr j = Inr d \<and> sha256 cr c = sha256 cr d)"

lemma canonical_digest_eq:
  assumes "canonical_digest cr i = Inr d" and "canonical_digest cr j = Inr d"
  shows "i = j \<or> digest_confusion cr i j"
proof -
  from assms obtain c e where "jcs cr i = Inr c" "jcs cr j = Inr e"
    "sha256_digest cr c = d" "sha256_digest cr e = d"
    by (auto simp: canonical_digest_def result_simps)
  then show ?thesis
    by (auto simp: digest_confusion_def dest: sha256_digest_inject)
qed

lemma canonical_digest_shape:
  "(\<And>v. length (sha256 cr v) = 32) \<Longrightarrow> canonical_digest cr i = Inr d \<Longrightarrow> is_sha256_digest d"
  by (auto simp: canonical_digest_def result_simps sha256_digest_shape)

lemma prefixed_id_sha256:
  "prefixed_id p (sha256_digest cr v) = p @ concat (map hex_byte (sha256 cr v))"
  by (simp add: prefixed_id_def sha256_digest_def del: append.simps)

lemma once_authorization_id_eq:
  assumes "once_authorization_id cr r a = Inr g" and "once_authorization_id cr r' a' = Inr g"
  shows "r = r' \<and> a = a' \<or>
    digest_confusion cr (OnceAuthorizationIdInput ''xgeny.authorization-budget.once/v1'' r a)
      (OnceAuthorizationIdInput ''xgeny.authorization-budget.once/v1'' r' a')"
proof -
  from assms obtain c d where jcs:
    "jcs cr (OnceAuthorizationIdInput ''xgeny.authorization-budget.once/v1'' r a) = Inr c"
    "jcs cr (OnceAuthorizationIdInput ''xgeny.authorization-budget.once/v1'' r' a') = Inr d"
    and g: "prefixed_id ''authorization-'' (sha256_digest cr c) = g"
      "prefixed_id ''authorization-'' (sha256_digest cr d) = g"
    by (auto simp: once_authorization_id_def canonical_digest_def result_simps)
  from g have "''authorization-'' @ concat (map hex_byte (sha256 cr c)) =
      ''authorization-'' @ concat (map hex_byte (sha256 cr d))"
    unfolding prefixed_id_sha256 by (rule trans [OF _ sym])
  then have "concat (map hex_byte (sha256 cr c)) = concat (map hex_byte (sha256 cr d))"
    by (simp only: same_append_eq)
  then have "sha256 cr c = sha256 cr d" by (rule hex_bytes_inject)
  with jcs show ?thesis by (auto simp: digest_confusion_def)
qed

lemma verify_digest_iff:
  "verify_digest cr r = Inr () \<longleftrightarrow>
     canonical_digest cr (DigestInput (er_sequence r) (er_previous_digest r) (er_event r))
       = Inr (er_digest r)"
  by (auto simp: verify_digest_def record_digest_def result_simps)

lemma event_record_next_verifies:
  "event_record_next cr previous event = Inr r \<Longrightarrow> verify_digest cr r = Inr ()"
  by (auto simp: event_record_next_def verify_digest_iff record_digest_def result_simps Let_def)

end
