(* ===== verification/Planning_Contracts.thy ===== *)
theory Planning_Contracts
  imports Journal_Digests
begin

text \<open>
  The planning contracts of \<open>crates/xgeny-workgraph/src/lib.rs\<close>: identifier and digest
  validators, budgets, model-call reservations, accepted turns, planned invocations with their
  material sidecar, and the material record of an effect intent. What the validators accept and
  what the constructors build is the subject of \<open>Contract_Correctness\<close>.
\<close>

definition MODEL_CALL_FORMAT_VERSION :: u32 where
  "MODEL_CALL_FORMAT_VERSION = 1"
definition PLANNED_INVOCATION_FORMAT_VERSION :: u32 where
  "PLANNED_INVOCATION_FORMAT_VERSION = 1"
definition INVOCATION_MATERIAL_FORMAT_VERSION :: u32 where
  "INVOCATION_MATERIAL_FORMAT_VERSION = 1"
definition TOOL_OUTPUT_PROFILE_V1 :: string where
  "TOOL_OUTPUT_PROFILE_V1 = ''xgeny.tool-output/v1''"
definition MAX_MATERIAL_REFERENCE_COMPONENT_BYTES :: usize where
  "MAX_MATERIAL_REFERENCE_COMPONENT_BYTES = 128"

section \<open>Validators\<close>

definition identifier_byte :: "char \<Rightarrow> bool" where
  "identifier_byte b \<longleftrightarrow> is_ascii_alphanumeric b \<or> b = CHR ''.'' \<or> b = CHR ''_'' \<or> b = CHR ''-''"

definition require_planning_identifier :: "string \<Rightarrow> string \<Rightarrow> planning_contract_error + unit" where
  "require_planning_identifier field v =
     reject_if (v = [] \<or> length v > 256 \<or> has_control v) (PCE_InvalidIdentifier field)"

definition require_model_call_identifier :: "string \<Rightarrow> string \<Rightarrow> planning_contract_error + unit" where
  "require_model_call_identifier field v =
     reject_if (v = [] \<or> length v > 256 \<or> \<not> list_all identifier_byte v) (PCE_InvalidIdentifier field)"

definition require_model_call_id :: "string \<Rightarrow> string \<Rightarrow> planning_contract_error + unit" where
  "require_model_call_id field v =
     and_then (require_model_call_identifier field v) (\<lambda>_.
     and_then (ok_or (PCE_InvalidIdentifier field) (strip_prefix ''model-call-'' v)) (\<lambda>encoded.
     reject_if (length encoded \<noteq> 64 \<or>
         \<not> list_all (\<lambda>b. is_ascii_digit b \<or> in_a_to_f b) encoded)
       (PCE_InvalidIdentifier field)))"

definition require_planning_digest :: "string \<Rightarrow> string \<Rightarrow> planning_contract_error + unit" where
  "require_planning_digest field v = reject_if (\<not> is_sha256_digest v) (PCE_InvalidDigest field)"

definition validate_reference_component :: "string \<Rightarrow> string \<Rightarrow> invocation_material_error + unit" where
  "validate_reference_component field v =
     and_then (reject_if (v = []) (IME_InvalidReferenceComponent field)) (\<lambda>_.
     reject_if (v = ''.'' \<or> v = ''..'' \<or> length v > MAX_MATERIAL_REFERENCE_COMPONENT_BYTES
         \<or> \<not> list_all identifier_byte v)
       (IME_InvalidReferenceComponent field))"

definition reference_validate :: "reconstructable_material_reference \<Rightarrow> invocation_material_error + unit" where
  "reference_validate r =
     and_then (validate_reference_component ''provider_id'' (rmr_provider_id r)) (\<lambda>_.
     and_then (validate_reference_component ''reference_id'' (rmr_reference_id r)) (\<lambda>_.
     validate_reference_component ''revision'' (rmr_revision r)))"

definition reference_new ::
    "string \<Rightarrow> string \<Rightarrow> string \<Rightarrow> invocation_material_error + reconstructable_material_reference" where
  "reference_new provider_id reference_id revision =
     (let r = \<lparr>rmr_provider_id = provider_id, rmr_reference_id = reference_id,
               rmr_revision = revision\<rparr> in
      and_then (validate_reference_component ''provider_id'' (rmr_provider_id r)) (\<lambda>_.
      and_then (validate_reference_component ''reference_id'' (rmr_reference_id r)) (\<lambda>_.
      and_then (validate_reference_component ''revision'' (rmr_revision r)) (\<lambda>_. Inr r))))"

section \<open>Budgets and turns\<close>

definition model_call_budget_validate :: "model_call_budget \<Rightarrow> planning_contract_error + unit" where
  "model_call_budget_validate b =
     reject_if (mcb_max_model_calls b = 0) (PCE_ZeroBudget ''max_model_calls'')"

definition model_call_budget_new :: "u32 \<Rightarrow> planning_contract_error + model_call_budget" where
  "model_call_budget_new max_model_calls =
     (let b = \<lparr>mcb_max_model_calls = max_model_calls\<rparr> in
      and_then (model_call_budget_validate b) (\<lambda>_. Inr b))"

definition agent_loop_budget_validate :: "agent_loop_budget \<Rightarrow> planning_contract_error + unit" where
  "agent_loop_budget_validate b =
     try_fold (\<lambda>(field, v :: u64) _. reject_if (v = 0) (PCE_ZeroBudget field))
       [(''max_model_turns'', ucast (alb_max_model_turns b)),
        (''max_planned_steps'', ucast (alb_max_planned_steps b)),
        (''max_tool_calls'', ucast (alb_max_tool_calls b)),
        (''max_context_bytes'', alb_max_context_bytes b)] ()"

definition agent_loop_budget_new ::
    "u32 \<Rightarrow> u32 \<Rightarrow> u32 \<Rightarrow> u64 \<Rightarrow> planning_contract_error + agent_loop_budget" where
  "agent_loop_budget_new max_model_turns max_planned_steps max_tool_calls max_context_bytes =
     (let b = \<lparr>alb_max_model_turns = max_model_turns, alb_max_planned_steps = max_planned_steps,
               alb_max_tool_calls = max_tool_calls, alb_max_context_bytes = max_context_bytes\<rparr> in
      and_then (agent_loop_budget_validate b) (\<lambda>_. Inr b))"

definition planning_turn_validate :: "expected_planning_turn \<Rightarrow> planning_contract_error + unit" where
  "planning_turn_validate t =
     and_then (reject_if (ept_turn_index t = 0) PCE_TurnIndexZero) (\<lambda>_.
     and_then (case ept_model_call_id t of None \<Rightarrow> Inr ()
               | Some call_id \<Rightarrow> require_model_call_id ''model_call_id'' call_id) (\<lambda>_.
     and_then (require_planning_digest ''context_digest'' (ept_context_digest t)) (\<lambda>_.
     require_planning_digest ''proposal_digest'' (ept_proposal_digest t))))"

definition planning_turn_new ::
    "u32 \<Rightarrow> string \<Rightarrow> string \<Rightarrow> planning_contract_error + expected_planning_turn" where
  "planning_turn_new turn_index context_digest proposal_digest =
     (let t = \<lparr>ept_turn_index = turn_index, ept_model_call_id = None,
               ept_context_digest = context_digest, ept_proposal_digest = proposal_digest\<rparr> in
      and_then (planning_turn_validate t) (\<lambda>_. Inr t))"

definition planning_turn_for_model_call ::
    "u32 \<Rightarrow> string \<Rightarrow> string \<Rightarrow> string \<Rightarrow> planning_contract_error + expected_planning_turn" where
  "planning_turn_for_model_call turn_index call_id context_digest proposal_digest =
     (let t = \<lparr>ept_turn_index = turn_index, ept_model_call_id = Some call_id,
               ept_context_digest = context_digest, ept_proposal_digest = proposal_digest\<rparr> in
      and_then (planning_turn_validate t) (\<lambda>_. Inr t))"

section \<open>Model-call reservations\<close>

definition model_call_id ::
    "crypto \<Rightarrow> string \<Rightarrow> u64 \<Rightarrow> string \<Rightarrow> u32 \<Rightarrow> u32 \<Rightarrow> u64 \<Rightarrow> string \<Rightarrow> string \<Rightarrow> string
      \<Rightarrow> planning_contract_error + string" where
  "model_call_id cr run_id authority_epoch planner_id call_index turn_index base_sequence
      base_head_digest context_digest request_digest =
     and_then (map_err PCE_Canonicalization (canonical_digest cr
         (ModelCallIdDigestInput ''xgeny.model-call.id/v1'' MODEL_CALL_FORMAT_VERSION run_id
           authority_epoch planner_id call_index turn_index base_sequence base_head_digest
           context_digest request_digest)))
       (\<lambda>digest. Inr (prefixed_id ''model-call-'' digest))"

definition reservation_new ::
    "crypto \<Rightarrow> string \<Rightarrow> u64 \<Rightarrow> string \<Rightarrow> u32 \<Rightarrow> u32 \<Rightarrow> u64 \<Rightarrow> string \<Rightarrow> string \<Rightarrow> string
      \<Rightarrow> planning_contract_error + model_call_reservation" where
  "reservation_new cr run_id authority_epoch planner_id call_index turn_index base_sequence
      base_head_digest context_digest request_digest =
     and_then (require_planning_identifier ''run_id'' run_id) (\<lambda>_.
     and_then (require_model_call_identifier ''planner_id'' planner_id) (\<lambda>_.
     and_then (reject_if (call_index = 0) PCE_ModelCallIndexZero) (\<lambda>_.
     and_then (reject_if (turn_index = 0) PCE_TurnIndexZero) (\<lambda>_.
     and_then (require_planning_digest ''base_head_digest'' base_head_digest) (\<lambda>_.
     and_then (require_planning_digest ''context_digest'' context_digest) (\<lambda>_.
     and_then (require_planning_digest ''request_digest'' request_digest) (\<lambda>_.
     and_then (model_call_id cr run_id authority_epoch planner_id call_index turn_index
                 base_sequence base_head_digest context_digest request_digest) (\<lambda>call_id.
     Inr \<lparr>mcr_format_version = MODEL_CALL_FORMAT_VERSION, mcr_call_id = call_id,
          mcr_planner_id = planner_id, mcr_call_index = call_index, mcr_turn_index = turn_index,
          mcr_base_sequence = base_sequence, mcr_base_head_digest = base_head_digest,
          mcr_context_digest = context_digest, mcr_request_digest = request_digest\<rparr>))))))))"

definition reservation_validate_for ::
    "crypto \<Rightarrow> model_call_reservation \<Rightarrow> string \<Rightarrow> u64 \<Rightarrow> planning_contract_error + unit" where
  "reservation_validate_for cr r run_id authority_epoch =
     and_then (reject_if (mcr_format_version r \<noteq> MODEL_CALL_FORMAT_VERSION)
       (PCE_UnsupportedModelCallFormatVersion (mcr_format_version r))) (\<lambda>_.
     and_then (require_planning_identifier ''run_id'' run_id) (\<lambda>_.
     and_then (require_model_call_id ''call_id'' (mcr_call_id r)) (\<lambda>_.
     and_then (require_model_call_identifier ''planner_id'' (mcr_planner_id r)) (\<lambda>_.
     and_then (reject_if (mcr_call_index r = 0) PCE_ModelCallIndexZero) (\<lambda>_.
     and_then (reject_if (mcr_turn_index r = 0) PCE_TurnIndexZero) (\<lambda>_.
     and_then (require_planning_digest ''base_head_digest'' (mcr_base_head_digest r)) (\<lambda>_.
     and_then (require_planning_digest ''context_digest'' (mcr_context_digest r)) (\<lambda>_.
     and_then (require_planning_digest ''request_digest'' (mcr_request_digest r)) (\<lambda>_.
     and_then (model_call_id cr run_id authority_epoch (mcr_planner_id r) (mcr_call_index r)
                 (mcr_turn_index r) (mcr_base_sequence r) (mcr_base_head_digest r)
                 (mcr_context_digest r) (mcr_request_digest r)) (\<lambda>expected.
     reject_if (mcr_call_id r \<noteq> expected) PCE_ModelCallIdMismatch))))))))))"

section \<open>Planned invocations\<close>

definition spec_validate :: "planned_invocation_spec \<Rightarrow> planning_contract_error + unit" where
  "spec_validate s =
     and_then (require_planning_identifier ''capability_id'' (pis_capability_id s)) (\<lambda>_.
     and_then (require_planning_identifier ''contract_version'' (pis_contract_version s)) (\<lambda>_.
     and_then (require_planning_identifier ''target_os'' (pis_target_os s)) (\<lambda>_.
     and_then (require_planning_identifier ''target_arch'' (pis_target_arch s)) (\<lambda>_.
     and_then (reject_if (pis_target_os s \<notin> {''linux'', ''macos'', ''windows''})
       (PCE_UnsupportedTarget ''target_os'')) (\<lambda>_.
     and_then (reject_if (pis_target_arch s \<notin> {''x86_64'', ''aarch64''})
       (PCE_UnsupportedTarget ''target_arch'')) (\<lambda>_.
     and_then (require_planning_digest ''definition_digest'' (pis_definition_digest s)) (\<lambda>_.
     and_then (require_planning_digest ''action_digest'' (pis_action_digest s)) (\<lambda>_.
     require_planning_digest ''plan_input_digest'' (pis_plan_input_digest s)))))))))"

definition spec_new ::
    "string \<Rightarrow> string \<Rightarrow> string \<Rightarrow> string \<Rightarrow> string \<Rightarrow> planned_execution_profile \<Rightarrow> string \<Rightarrow> string
      \<Rightarrow> planning_contract_error + planned_invocation_spec" where
  "spec_new capability_id contract_version definition_digest action_digest plan_input_digest
      execution_profile target_os target_arch =
     (let s = \<lparr>pis_capability_id = capability_id, pis_contract_version = contract_version,
               pis_definition_digest = definition_digest, pis_action_digest = action_digest,
               pis_plan_input_digest = plan_input_digest,
               pis_execution_profile = execution_profile,
               pis_target_os = target_os, pis_target_arch = target_arch\<rparr> in
      and_then (spec_validate s) (\<lambda>_. Inr s))"

definition planned_invocation_spec_digest ::
    "crypto \<Rightarrow> planned_invocation_spec \<Rightarrow> planning_contract_error + string" where
  "planned_invocation_spec_digest cr s =
     map_err PCE_Canonicalization (canonical_digest cr
       (PlannedInvocationSpecDigestInput ''xgeny.planned-invocation.spec/v1''
         (pis_capability_id s) (pis_contract_version s) (pis_definition_digest s)
         (pis_action_digest s) (pis_plan_input_digest s) (pis_execution_profile s)
         (pis_target_os s) (pis_target_arch s)))"

definition planned_invocation_id ::
    "crypto \<Rightarrow> string \<Rightarrow> string \<Rightarrow> string \<Rightarrow> string \<Rightarrow> planning_contract_error + string" where
  "planned_invocation_id cr run_id step_id proposal_digest spec_digest =
     and_then (map_err PCE_Canonicalization (canonical_digest cr
         (PlannedInvocationIdInput ''xgeny.planned-invocation.id/v1'' run_id step_id
           proposal_digest spec_digest)))
       (\<lambda>digest. Inr (prefixed_id ''plan-'' digest))"

definition planned_invocation_material_record_digest ::
    "crypto \<Rightarrow> planned_invocation_material_record \<Rightarrow> planning_contract_error + string" where
  "planned_invocation_material_record_digest cr r =
     map_err PCE_Canonicalization (canonical_digest cr
       (PlannedInvocationMaterialRecordDigestInput ''xgeny.planned-invocation.material-record/v1''
         (pimr_format_version r) (pimr_run_id r) (pimr_step_id r) (pimr_plan_id r)
         (pimr_proposal_digest r) (pimr_spec_digest r) (pimr_reference r)))"

definition binding_as_spec :: "planned_invocation_binding \<Rightarrow> planned_invocation_spec" where
  "binding_as_spec b =
     \<lparr>pis_capability_id = pib_capability_id b, pis_contract_version = pib_contract_version b,
      pis_definition_digest = pib_definition_digest b, pis_action_digest = pib_action_digest b,
      pis_plan_input_digest = pib_plan_input_digest b,
      pis_execution_profile = pib_execution_profile b,
      pis_target_os = pib_target_os b, pis_target_arch = pib_target_arch b\<rparr>"

definition binding_validate ::
    "crypto \<Rightarrow> planned_invocation_binding \<Rightarrow> planning_contract_error + unit" where
  "binding_validate cr b =
     and_then (reject_if (pib_format_version b \<noteq> PLANNED_INVOCATION_FORMAT_VERSION)
       (PCE_UnsupportedFormatVersion (pib_format_version b))) (\<lambda>_.
     and_then (require_planning_identifier ''plan_id'' (pib_plan_id b)) (\<lambda>_.
     and_then (require_planning_digest ''proposal_digest'' (pib_proposal_digest b)) (\<lambda>_.
     and_then (require_planning_digest ''spec_digest'' (pib_spec_digest b)) (\<lambda>_.
     and_then (require_planning_digest ''plan_input_record_digest''
                 (pib_plan_input_record_digest b)) (\<lambda>_.
     and_then (spec_validate (binding_as_spec b)) (\<lambda>_.
     and_then (planned_invocation_spec_digest cr (binding_as_spec b)) (\<lambda>expected.
     reject_if (expected \<noteq> pib_spec_digest b) PCE_SpecDigestMismatch)))))))"

definition material_verify_for ::
    "crypto \<Rightarrow> planned_invocation_material_record \<Rightarrow> string \<Rightarrow> string \<Rightarrow> planned_invocation_binding
      \<Rightarrow> planning_contract_error + unit" where
  "material_verify_for cr r run_id step_id binding =
     and_then (reject_if (pimr_format_version r \<noteq> PLANNED_INVOCATION_FORMAT_VERSION)
       (PCE_UnsupportedFormatVersion (pimr_format_version r))) (\<lambda>_.
     and_then (binding_validate cr binding) (\<lambda>_.
     and_then (map_err PCE_InvocationMaterial (reference_validate (pimr_reference r))) (\<lambda>_.
     and_then (reject_if (pimr_run_id r \<noteq> run_id) (PCE_BindingMismatch ''run_id'')) (\<lambda>_.
     and_then (reject_if (pimr_step_id r \<noteq> step_id) (PCE_BindingMismatch ''step_id'')) (\<lambda>_.
     and_then (reject_if (pimr_plan_id r \<noteq> pib_plan_id binding)
       (PCE_BindingMismatch ''plan_id'')) (\<lambda>_.
     and_then (reject_if (pimr_proposal_digest r \<noteq> pib_proposal_digest binding)
       (PCE_BindingMismatch ''proposal_digest'')) (\<lambda>_.
     and_then (reject_if (pimr_spec_digest r \<noteq> pib_spec_digest binding)
       (PCE_BindingMismatch ''spec_digest'')) (\<lambda>_.
     and_then (planned_invocation_id cr run_id step_id (pimr_proposal_digest r)
                 (pimr_spec_digest r)) (\<lambda>expected_plan_id.
     and_then (reject_if (expected_plan_id \<noteq> pimr_plan_id r) PCE_PlanIdMismatch) (\<lambda>_.
     and_then (planned_invocation_material_record_digest cr r) (\<lambda>expected_record_digest.
     reject_if (expected_record_digest \<noteq> pimr_record_digest r
         \<or> pimr_record_digest r \<noteq> pib_plan_input_record_digest binding)
       PCE_RecordDigestMismatch)))))))))))"

definition material_bind ::
    "crypto \<Rightarrow> string \<Rightarrow> string \<Rightarrow> string \<Rightarrow> planned_invocation_spec
      \<Rightarrow> reconstructable_material_reference
      \<Rightarrow> planning_contract_error + planned_invocation_binding \<times> planned_invocation_material_record" where
  "material_bind cr run_id step_id proposal_digest spec reference =
     and_then (require_planning_identifier ''run_id'' run_id) (\<lambda>_.
     and_then (require_planning_identifier ''step_id'' step_id) (\<lambda>_.
     and_then (require_planning_digest ''proposal_digest'' proposal_digest) (\<lambda>_.
     and_then (spec_validate spec) (\<lambda>_.
     and_then (map_err PCE_InvocationMaterial (reference_validate reference)) (\<lambda>_.
     and_then (planned_invocation_spec_digest cr spec) (\<lambda>spec_digest.
     and_then (planned_invocation_id cr run_id step_id proposal_digest spec_digest) (\<lambda>plan_id.
     let record0 = \<lparr>pimr_format_version = PLANNED_INVOCATION_FORMAT_VERSION,
                    pimr_run_id = run_id, pimr_step_id = step_id, pimr_plan_id = plan_id,
                    pimr_proposal_digest = proposal_digest, pimr_spec_digest = spec_digest,
                    pimr_reference = reference, pimr_record_digest = []\<rparr> in
     and_then (planned_invocation_material_record_digest cr record0) (\<lambda>record_digest.
     let record1 = record0\<lparr>pimr_record_digest := record_digest\<rparr>;
         binding = \<lparr>pib_format_version = PLANNED_INVOCATION_FORMAT_VERSION,
                    pib_plan_id = plan_id, pib_proposal_digest = proposal_digest,
                    pib_capability_id = pis_capability_id spec,
                    pib_contract_version = pis_contract_version spec,
                    pib_definition_digest = pis_definition_digest spec,
                    pib_action_digest = pis_action_digest spec,
                    pib_plan_input_digest = pis_plan_input_digest spec,
                    pib_execution_profile = pis_execution_profile spec,
                    pib_target_os = pis_target_os spec, pib_target_arch = pis_target_arch spec,
                    pib_spec_digest = spec_digest,
                    pib_plan_input_record_digest = record_digest\<rparr> in
     and_then (material_verify_for cr record1 run_id step_id binding) (\<lambda>_.
     Inr (binding, record1))))))))))"

section \<open>Material records of effect intents\<close>

definition invocation_material_digest :: "crypto \<Rightarrow> json \<Rightarrow> invocation_material_error + string" where
  "invocation_material_digest cr material =
     map_err IME_Canonicalization (canonical_digest cr
       (InvocationMaterialDigestInput ''xgeny.invocation-material.payload/v1'' material))"

definition invocation_material_retention_digest ::
    "crypto \<Rightarrow> invocation_material_retention \<Rightarrow> invocation_material_error + string" where
  "invocation_material_retention_digest cr retention =
     map_err IME_Canonicalization (canonical_digest cr
       (InvocationMaterialRetentionInput ''xgeny.invocation-material.retention/v1'' retention))"

definition invocation_material_id ::
    "crypto \<Rightarrow> string \<Rightarrow> string \<Rightarrow> string \<Rightarrow> invocation_material_error + string" where
  "invocation_material_id cr run_id effect_id material_digest =
     and_then (map_err IME_Canonicalization (canonical_digest cr
         (InvocationMaterialIdInput ''xgeny.invocation-material.id/v1'' run_id effect_id
           material_digest)))
       (\<lambda>digest. Inr (prefixed_id ''material-'' digest))"

definition invocation_material_record_digest ::
    "crypto \<Rightarrow> invocation_material_record \<Rightarrow> invocation_material_error + string" where
  "invocation_material_record_digest cr r =
     map_err IME_Canonicalization (canonical_digest cr
       (InvocationMaterialRecordDigestInput ''xgeny.invocation-material.record/v1''
         (imr_format_version r) (imr_material_id r) (imr_run_id r) (imr_step_id r)
         (imr_effect_id r) (imr_action_digest r) (imr_invocation r) (imr_material_digest r)
         (imr_retention r)))"

definition material_record_validate_shape ::
    "invocation_material_record \<Rightarrow> invocation_material_error + unit" where
  "material_record_validate_shape r =
     and_then (try_fold (\<lambda>(field, v) _. reject_if (v = []) (IME_EmptyField field))
       [(''run_id'', imr_run_id r), (''step_id'', imr_step_id r), (''effect_id'', imr_effect_id r),
        (''action_digest'', imr_action_digest r), (''material_digest'', imr_material_digest r)] ())
     (\<lambda>_. case imr_retention r of Ephemeral \<Rightarrow> Inr ()
          | ReconstructableReference reference \<Rightarrow> reference_validate reference)"

definition material_record_verify_for ::
    "crypto \<Rightarrow> invocation_material_record \<Rightarrow> string \<Rightarrow> string \<Rightarrow> effect_intent
      \<Rightarrow> invocation_material_error + unit" where
  "material_record_verify_for cr r run_id step_id intent =
     and_then (reject_if (imr_format_version r \<noteq> INVOCATION_MATERIAL_FORMAT_VERSION)
       (IME_UnsupportedFormatVersion (imr_format_version r))) (\<lambda>_.
     and_then (material_record_validate_shape r) (\<lambda>_.
     and_then (reject_if (imr_run_id r \<noteq> run_id) (IME_BindingMismatch ''run_id'')) (\<lambda>_.
     and_then (reject_if (imr_step_id r \<noteq> step_id) (IME_BindingMismatch ''step_id'')) (\<lambda>_.
     and_then (reject_if (imr_effect_id r \<noteq> ei_effect_id intent)
       (IME_BindingMismatch ''effect_id'')) (\<lambda>_.
     and_then (reject_if (imr_action_digest r \<noteq> ei_action_digest intent)
       (IME_BindingMismatch ''action_digest'')) (\<lambda>_.
     and_then (reject_if (imr_invocation r \<noteq> ei_invocation intent)
       (IME_BindingMismatch ''invocation'')) (\<lambda>_.
     and_then (reject_if (ab_material_digest (au_binding (ei_authorization intent))
           \<noteq> imr_material_digest r)
       (IME_BindingMismatch ''material_digest'')) (\<lambda>_.
     and_then (invocation_material_retention_digest cr (imr_retention r)) (\<lambda>retention_digest.
     and_then (reject_if (ab_material_retention_digest (au_binding (ei_authorization intent))
           \<noteq> retention_digest)
       (IME_BindingMismatch ''material_retention_digest'')) (\<lambda>_.
     and_then (invocation_material_id cr (imr_run_id r) (imr_effect_id r)
                 (imr_material_digest r)) (\<lambda>expected_id.
     and_then (reject_if (imr_material_id r \<noteq> expected_id) IME_MaterialIdMismatch) (\<lambda>_.
     and_then (invocation_material_record_digest cr r) (\<lambda>expected_digest.
     reject_if (imr_record_digest r \<noteq> expected_digest) IME_RecordDigestMismatch)))))))))))))"

definition material_record_new ::
    "crypto \<Rightarrow> string \<Rightarrow> string \<Rightarrow> effect_intent \<Rightarrow> string \<Rightarrow> invocation_material_retention
      \<Rightarrow> invocation_material_error + invocation_material_record" where
  "material_record_new cr run_id step_id intent material_digest retention =
     (let r0 = \<lparr>imr_format_version = INVOCATION_MATERIAL_FORMAT_VERSION, imr_material_id = [],
                imr_run_id = run_id, imr_step_id = step_id,
                imr_effect_id = ei_effect_id intent, imr_action_digest = ei_action_digest intent,
                imr_invocation = ei_invocation intent, imr_material_digest = material_digest,
                imr_retention = retention, imr_record_digest = []\<rparr> in
      and_then (material_record_validate_shape r0) (\<lambda>_.
      and_then (invocation_material_id cr (imr_run_id r0) (imr_effect_id r0)
                  (imr_material_digest r0)) (\<lambda>material_id.
      let r1 = r0\<lparr>imr_material_id := material_id\<rparr> in
      and_then (invocation_material_record_digest cr r1) (\<lambda>record_digest.
      let r2 = r1\<lparr>imr_record_digest := record_digest\<rparr> in
      and_then (material_record_verify_for cr r2 (imr_run_id r2) (imr_step_id r2) intent) (\<lambda>_.
      Inr r2)))))"

end
