(* ===== verification/Frontier.thy ===== *)
theory Frontier
  imports Planning_Contracts "HOL-Library.Product_Lexorder"
begin

text \<open>
  The frontier of \<open>crates/xgeny-workgraph/src/lib.rs\<close>: validation of the dependency graph, the
  topological traversal that classifies every step, and the derived \<open>WorkFrontier\<close>. A panic
  (\<open>expect\<close>, an index out of range) is the error \<open>FE_Panic\<close>, which no input produces
  (\<open>frontier_no_panic\<close>).
\<close>

section \<open>Data\<close>

datatype continuation_action = DriveEffect | Verify | Admit

record frontier_action =
  fact_step_id :: string
  fact_action :: continuation_action

datatype dependency_block_reason =
    BlockNotCompleted | BlockFailed | BlockManualRequired | BlockReceiptMissing
  | BlockDependencyBlocked

text \<open>The derived \<open>Ord\<close> of an enum compares the positions of its variants.\<close>

fun block_reason_rank :: "dependency_block_reason \<Rightarrow> nat" where
  "block_reason_rank BlockNotCompleted = 0"
| "block_reason_rank BlockFailed = 1"
| "block_reason_rank BlockManualRequired = 2"
| "block_reason_rank BlockReceiptMissing = 3"
| "block_reason_rank BlockDependencyBlocked = 4"

lemma block_reason_rank_inject: "block_reason_rank a = block_reason_rank b \<longleftrightarrow> a = b"
  by (cases a; cases b) simp_all

instantiation dependency_block_reason :: linorder
begin

definition less_eq_dependency_block_reason where
  "a \<le> b \<longleftrightarrow> block_reason_rank a \<le> block_reason_rank b"

definition less_dependency_block_reason where
  "a < b \<longleftrightarrow> block_reason_rank a < block_reason_rank b"

instance
  by standard
    (auto simp: less_eq_dependency_block_reason_def less_dependency_block_reason_def
      block_reason_rank_inject)

end

datatype dependency_blocker =
  DependencyBlocker (db_step_id: string) (db_reason: dependency_block_reason)

text \<open>The derived \<open>Ord\<close> of a struct is lexicographic in its fields.\<close>

instantiation dependency_blocker :: linorder
begin

definition less_eq_dependency_blocker :: "dependency_blocker \<Rightarrow> dependency_blocker \<Rightarrow> bool" where
  "a \<le> b \<longleftrightarrow> (db_step_id a, db_reason a) \<le> (db_step_id b, db_reason b)"

definition less_dependency_blocker :: "dependency_blocker \<Rightarrow> dependency_blocker \<Rightarrow> bool" where
  "a < b \<longleftrightarrow> (db_step_id a, db_reason a) < (db_step_id b, db_reason b)"

instance
proof
  fix x y z :: dependency_blocker
  show "x < y \<longleftrightarrow> x \<le> y \<and> \<not> y \<le> x"
    unfolding less_eq_dependency_blocker_def less_dependency_blocker_def by (rule less_le_not_le)
  show "x \<le> x" "x \<le> y \<Longrightarrow> y \<le> z \<Longrightarrow> x \<le> z" "x \<le> y \<or> y \<le> x"
    unfolding less_eq_dependency_blocker_def by (auto intro: order_trans)
  show "x \<le> y \<Longrightarrow> y \<le> x \<Longrightarrow> x = y"
    unfolding less_eq_dependency_blocker_def
    by (cases x; cases y) (metis antisym dependency_blocker.sel(1,2) prod.inject)
qed

end

record waiting_step =
  ws_step_id :: string
  ws_pending_dependencies :: "string list"

record blocked_step =
  bst_step_id :: string
  bst_blockers :: "dependency_blocker list"

record work_frontier =
  wf_run_id :: string
  wf_revision :: u64
  wf_journal_sequence :: u64
  wf_journal_head_digest :: string
  wf_total_steps :: usize
  wf_actionable :: "frontier_action list"
  wf_waiting :: "waiting_step list"
  wf_blocked :: "blocked_step list"
  wf_verified_completed_step_ids :: "string list"
  wf_unverified_completed_step_ids :: "string list"
  wf_failed_step_ids :: "string list"
  wf_manual_required_step_ids :: "string list"

definition next_action :: "work_frontier \<Rightarrow> frontier_action option" where
  "next_action f = (case wf_actionable f of [] \<Rightarrow> None | a # _ \<Rightarrow> Some a)"

definition all_steps_receipt_completed :: "work_frontier \<Rightarrow> bool" where
  "all_steps_receipt_completed f \<longleftrightarrow>
     wf_total_steps f > 0 \<and> length (wf_verified_completed_step_ids f) = wf_total_steps f"

datatype frontier_error =
    FE_SelfDependency string
  | FE_DuplicateDependency string string
  | FE_UnknownDependency string string
  | FE_DependencyCycle
  | FE_ActiveDependencyNotReleased string string dependency_block_reason
  | FE_Panic string

datatype dependency_outcome = Satisfied | Pending | Blocked

record validated_frontier_graph =
  vfg_remaining_dependencies :: "(string, usize) btreemap"
  vfg_dependents :: "(string, string list) btreemap"
  vfg_zero_indegree :: "string btreeset"

record frontier_assembly =
  fa_outcomes :: "(string, dependency_outcome) btreemap"
  fa_ranked_actions :: "(nat \<times> string \<times> continuation_action) list"
  fa_waiting :: "waiting_step list"
  fa_blocked :: "blocked_step list"
  fa_verified_completed_step_ids :: "string list"
  fa_unverified_completed_step_ids :: "string list"
  fa_failed_step_ids :: "string list"
  fa_manual_required_step_ids :: "string list"
  fa_processed :: usize

definition empty_assembly :: frontier_assembly where
  "empty_assembly =
     \<lparr>fa_outcomes = bm_empty, fa_ranked_actions = [], fa_waiting = [], fa_blocked = [],
      fa_verified_completed_step_ids = [], fa_unverified_completed_step_ids = [],
      fa_failed_step_ids = [], fa_manual_required_step_ids = [], fa_processed = 0\<rparr>"

section \<open>Release of dependencies\<close>

definition receipt_releases_dependency :: "step_state \<Rightarrow> bool" where
  "receipt_releases_dependency step \<longleftrightarrow>
     ss_status step = Completed
     \<and> (case ss_execution_receipt_id step of None \<Rightarrow> False | Some receipt_id \<Rightarrow> receipt_id \<noteq> [])
     \<and> (case ss_execution_receipt_digest step of None \<Rightarrow> False | Some d \<Rightarrow> is_sha256_digest d)"

definition dependency_release_block_reason :: "step_state \<Rightarrow> dependency_block_reason option" where
  "dependency_release_block_reason step =
     (if receipt_releases_dependency step then None
      else Some (case ss_status step of
          Failed \<Rightarrow> BlockFailed
        | ManualRequired \<Rightarrow> BlockManualRequired
        | Completed \<Rightarrow> BlockReceiptMissing
        | _ \<Rightarrow> BlockNotCompleted))"

definition blocker_reason :: "step_state \<Rightarrow> dependency_block_reason" where
  "blocker_reason step =
     (case ss_status step of
        Failed \<Rightarrow> BlockFailed
      | ManualRequired \<Rightarrow> BlockManualRequired
      | Completed \<Rightarrow> (if receipt_releases_dependency step then BlockDependencyBlocked
                     else BlockReceiptMissing)
      | _ \<Rightarrow> BlockDependencyBlocked)"

section \<open>Validation\<close>

definition validate_dependency ::
    "string \<Rightarrow> string \<Rightarrow> string btreeset \<times> (string, string list) btreemap
      \<Rightarrow> frontier_error + string btreeset \<times> (string, string list) btreemap" where
  "validate_dependency step_id dependency_id acc =
     (case acc of (unique, dependents) \<Rightarrow>
       and_then (reject_if (dependency_id = step_id) (FE_SelfDependency step_id)) (\<lambda>_.
       and_then (reject_if (bs_contains unique dependency_id)
         (FE_DuplicateDependency step_id dependency_id)) (\<lambda>_.
       and_then (ok_or (FE_UnknownDependency step_id dependency_id)
         (bm_get dependents dependency_id)) (\<lambda>children.
       Inr (bs_insert dependency_id unique,
            bm_insert dependency_id (children @ [step_id]) dependents)))))"

definition validate_graph_step ::
    "string \<times> step_state \<Rightarrow> (string, usize) btreemap \<times> (string, string list) btreemap
      \<Rightarrow> frontier_error + (string, usize) btreemap \<times> (string, string list) btreemap" where
  "validate_graph_step entry acc =
     (case entry of (step_id, step) \<Rightarrow> case acc of (remaining, dependents) \<Rightarrow>
       and_then (try_fold (validate_dependency step_id) (ss_depends_on step) (bs_empty, dependents))
         (\<lambda>(_, dependents'). Inr (bm_insert step_id (length (ss_depends_on step)) remaining,
                                 dependents')))"

definition validate_frontier_graph :: "run_state \<Rightarrow> frontier_error + validated_frontier_graph" where
  "validate_frontier_graph state =
     and_then (try_fold validate_graph_step (bm_entries (rs_steps state))
                 (bm_empty, bm_map_values (\<lambda>_. []) (rs_steps state)))
       (\<lambda>(remaining, dependents).
          Inr \<lparr>vfg_remaining_dependencies = remaining,
               vfg_dependents = bm_map_values sort dependents,
               vfg_zero_indegree =
                 bs_of_list (map fst (filter (\<lambda>(_, count). count = 0) (bm_entries remaining)))\<rparr>)"

section \<open>Classification\<close>

definition partition_dependency ::
    "run_state \<Rightarrow> frontier_assembly \<Rightarrow> string \<Rightarrow> string list \<times> dependency_blocker list
      \<Rightarrow> frontier_error + string list \<times> dependency_blocker list" where
  "partition_dependency state fa dependency_id acc =
     (case acc of (pending, blockers) \<Rightarrow>
      case bm_get (fa_outcomes fa) dependency_id of
        None \<Rightarrow> Inl (FE_Panic ''topological traversal processes dependencies first'')
      | Some Satisfied \<Rightarrow> Inr (pending, blockers)
      | Some Pending \<Rightarrow> Inr (pending @ [dependency_id], blockers)
      | Some Blocked \<Rightarrow>
          (case bm_get (rs_steps state) dependency_id of
             None \<Rightarrow> Inl (FE_Panic ''no entry found for key'')
           | Some step \<Rightarrow>
               Inr (pending, blockers @ [DependencyBlocker dependency_id (blocker_reason step)])))"

definition partition_dependencies ::
    "run_state \<Rightarrow> frontier_assembly \<Rightarrow> step_state
      \<Rightarrow> frontier_error + string list \<times> dependency_blocker list" where
  "partition_dependencies state fa step =
     and_then (try_fold (partition_dependency state fa) (ss_depends_on step) ([], []))
       (\<lambda>(pending, blockers). Inr (sort pending, remdups_adj (sort blockers)))"

definition push_action ::
    "nat \<Rightarrow> string \<Rightarrow> continuation_action \<Rightarrow> frontier_assembly \<Rightarrow> frontier_assembly" where
  "push_action rank step_id action fa =
     fa\<lparr>fa_ranked_actions := fa_ranked_actions fa @ [(rank, step_id, action)]\<rparr>"

definition record_status ::
    "string \<Rightarrow> step_state \<Rightarrow> string list \<Rightarrow> dependency_blocker list \<Rightarrow> frontier_assembly
      \<Rightarrow> frontier_assembly \<times> dependency_outcome" where
  "record_status step_id step pending_dependencies blockers fa =
     (case ss_status step of
        Planned \<Rightarrow>
          if blockers \<noteq> [] then
            (fa\<lparr>fa_blocked := fa_blocked fa @
                 [\<lparr>bst_step_id = step_id, bst_blockers = blockers\<rparr>]\<rparr>, Blocked)
          else if pending_dependencies \<noteq> [] then
            (fa\<lparr>fa_waiting := fa_waiting fa @
                 [\<lparr>ws_step_id = step_id, ws_pending_dependencies = pending_dependencies\<rparr>]\<rparr>, Pending)
          else (push_action 5 step_id Admit fa, Pending)
      | IntentCommitted \<Rightarrow> (push_action 4 step_id DriveEffect fa, Pending)
      | Executing \<Rightarrow> (push_action 0 step_id DriveEffect fa, Pending)
      | EffectUnknown \<Rightarrow> (push_action 1 step_id DriveEffect fa, Pending)
      | Reconciling \<Rightarrow> (push_action 2 step_id DriveEffect fa, Pending)
      | Validating \<Rightarrow> (push_action 3 step_id Verify fa, Pending)
      | Completed \<Rightarrow>
          if receipt_releases_dependency step then
            (fa\<lparr>fa_verified_completed_step_ids := fa_verified_completed_step_ids fa @ [step_id]\<rparr>,
             Satisfied)
          else
            (fa\<lparr>fa_unverified_completed_step_ids :=
                 fa_unverified_completed_step_ids fa @ [step_id]\<rparr>, Blocked)
      | Failed \<Rightarrow> (fa\<lparr>fa_failed_step_ids := fa_failed_step_ids fa @ [step_id]\<rparr>, Blocked)
      | ManualRequired \<Rightarrow>
          (fa\<lparr>fa_manual_required_step_ids := fa_manual_required_step_ids fa @ [step_id]\<rparr>, Blocked))"

text \<open>
  \<open>processed\<close> counts entries of an in-memory map, so its saturating increment never saturates
  and is plain addition here.
\<close>

definition record_step ::
    "run_state \<Rightarrow> string \<Rightarrow> frontier_assembly \<Rightarrow> frontier_error + frontier_assembly" where
  "record_step state step_id fa0 =
     (let fa = fa0\<lparr>fa_processed := fa_processed fa0 + 1\<rparr> in
      and_then (ok_or (FE_Panic ''no entry found for key'') (bm_get (rs_steps state) step_id)) (\<lambda>step.
      and_then (partition_dependencies state fa step) (\<lambda>(pending_dependencies, blockers).
      and_then
        (if ss_status step \<noteq> Planned \<and> \<not> (blockers = [] \<and> pending_dependencies = []) then
           (case blockers of
              b # _ \<Rightarrow> Inl (FE_ActiveDependencyNotReleased step_id (db_step_id b) (db_reason b))
            | [] \<Rightarrow>
                (case pending_dependencies of
                   [] \<Rightarrow> Inl (FE_Panic ''unreleased dependency must be classified'')
                 | p # _ \<Rightarrow> Inl (FE_ActiveDependencyNotReleased step_id p BlockNotCompleted)))
         else Inr ()) (\<lambda>_.
      case record_status step_id step pending_dependencies blockers fa of
        (fa', outcome) \<Rightarrow> Inr (fa'\<lparr>fa_outcomes := bm_insert step_id outcome (fa_outcomes fa')\<rparr>)))))"

definition finish :: "frontier_assembly \<Rightarrow> run_state \<Rightarrow> work_frontier" where
  "finish fa state =
     \<lparr>wf_run_id = rs_run_id state,
      wf_revision = rs_revision state,
      wf_journal_sequence = rs_journal_sequence state,
      wf_journal_head_digest = rs_journal_head_digest state,
      wf_total_steps = bm_len (rs_steps state),
      wf_actionable =
        map (\<lambda>(_, step_id, action). \<lparr>fact_step_id = step_id, fact_action = action\<rparr>)
          (sort_key (\<lambda>(rank, step_id, _). (rank, step_id)) (fa_ranked_actions fa)),
      wf_waiting = sort_key ws_step_id (fa_waiting fa),
      wf_blocked = sort_key bst_step_id (fa_blocked fa),
      wf_verified_completed_step_ids = sort (fa_verified_completed_step_ids fa),
      wf_unverified_completed_step_ids = sort (fa_unverified_completed_step_ids fa),
      wf_failed_step_ids = sort (fa_failed_step_ids fa),
      wf_manual_required_step_ids = sort (fa_manual_required_step_ids fa)\<rparr>"

section \<open>The traversal\<close>

definition release_child ::
    "string \<Rightarrow> (string, usize) btreemap \<times> string btreeset
      \<Rightarrow> frontier_error + (string, usize) btreemap \<times> string btreeset" where
  "release_child child acc =
     (case acc of (remaining, zero) \<Rightarrow>
      case bm_get remaining child of
        None \<Rightarrow> Inl (FE_Panic ''dependent was indexed during validation'')
      | Some n \<Rightarrow>
          if n < 1 then Inl (FE_Panic ''dependency count cannot underflow'')
          else Inr (bm_insert child (n - 1) remaining,
                    if n - 1 = 0 then bs_insert child zero else zero))"

definition loop_measure :: "(string, usize) btreemap \<Rightarrow> string btreeset \<Rightarrow> nat" where
  "loop_measure remaining zero = 2 * sum_list (bm_values remaining) + bm_len zero"

lemma release_child_measure:
  assumes "release_child child (remaining, zero) = Inr (remaining', zero')"
  shows "loop_measure remaining' zero' < loop_measure remaining zero"
proof -
  obtain n where n: "bm_get remaining child = Some n" "0 < n"
    and r: "remaining' = bm_insert child (n - 1) remaining"
    and z: "zero' = (if n - 1 = 0 then bs_insert child zero else zero)"
    using assms by (auto simp: release_child_def split: option.splits if_splits)
  have "sum_list (bm_values remaining') + n = sum_list (bm_values remaining) + (n - 1)"
    using sum_values_insert [of "\<lambda>x. x" child "n - 1" remaining] n r by simp
  moreover have "bm_len zero' \<le> Suc (bm_len zero)"
    by (simp add: z bs_insert_def bm_len_insert)
  ultimately show ?thesis
    using n(2) by (simp add: loop_measure_def)
qed

lemma release_children_measure:
  assumes "try_fold release_child children (remaining, zero) = Inr (remaining', zero')"
  shows "loop_measure remaining' zero' \<le> loop_measure remaining zero"
  using try_fold_invariant [OF assms, of "\<lambda>(r, z). loop_measure r z \<le> loop_measure remaining zero"]
  by (fastforce dest: release_child_measure)

lemma pop_first_measure:
  "bm_pop_first zero = Some (k, u, zero') \<Longrightarrow> loop_measure remaining zero' < loop_measure remaining zero"
  using bm.pop_first_Some(5) [of zero k u zero'] by (simp add: loop_measure_def bm_len_def)

function frontier_loop ::
    "run_state \<Rightarrow> (string, string list) btreemap \<Rightarrow> (string, usize) btreemap \<Rightarrow> string btreeset
      \<Rightarrow> frontier_assembly \<Rightarrow> frontier_error + frontier_assembly" where
  "frontier_loop state dependents remaining zero fa =
     (case bm_pop_first zero of
        None \<Rightarrow> Inr fa
      | Some (step_id, _, zero') \<Rightarrow>
          (case record_step state step_id fa of
             Inl e \<Rightarrow> Inl e
           | Inr fa' \<Rightarrow>
               (case bm_get dependents step_id of
                  None \<Rightarrow> Inl (FE_Panic ''no entry found for key'')
                | Some children \<Rightarrow>
                    (case try_fold release_child children (remaining, zero') of
                       Inl e \<Rightarrow> Inl e
                     | Inr (remaining', zero'') \<Rightarrow>
                         frontier_loop state dependents remaining' zero'' fa'))))"
  by pat_completeness auto
termination
  by (relation "measure (\<lambda>(_, _, remaining, zero, _). loop_measure remaining zero)")
    (auto dest!: release_children_measure pop_first_measure
      intro: le_less_trans simp del: loop_measure_def)

declare frontier_loop.simps [simp del]

definition derive_frontier :: "run_state \<Rightarrow> frontier_error + work_frontier" where
  "derive_frontier state =
     and_then (validate_frontier_graph state) (\<lambda>g.
     and_then (frontier_loop state (vfg_dependents g) (vfg_remaining_dependencies g)
                 (vfg_zero_indegree g) empty_assembly) (\<lambda>fa.
     and_then (reject_if (fa_processed fa \<noteq> bm_len (rs_steps state)) FE_DependencyCycle) (\<lambda>_.
     Inr (finish fa state))))"

end
