(* ===== verification/Reducer.thy ===== *)
theory Reducer
  imports Frontier
begin

text \<open>
  The reducer of \<open>crates/xgeny-workgraph/src/lib.rs\<close>: \<open>apply_record\<close> verifies one journal record
  against the projected run and applies its event, \<open>replay\<close> folds a journal. A function that
  mutates \<open>&mut RunState\<close> and may fail returns the new state or the error; \<open>apply_record\<close> works
  on a clone, so an error leaves nothing behind. A panic (\<open>unreachable!\<close>, \<open>expect\<close>) is
  \<open>TE_Panic\<close>.
\<close>

definition MAX_ACCEPTED_PLAN_STEPS :: usize where
  "MAX_ACCEPTED_PLAN_STEPS = 32"
definition MAX_ACCEPTED_PLAN_EDGES :: usize where
  "MAX_ACCEPTED_PLAN_EDGES = 128"
definition MAX_ACCEPTED_OBJECTIVE_BYTES :: usize where
  "MAX_ACCEPTED_OBJECTIVE_BYTES = 5000"

section \<open>Errors\<close>

datatype (plugins only:) transition_error =
    TE_Record record_error
  | TE_FirstEventMustCreateRun
  | TE_RunAlreadyCreated
  | TE_PlanningContract planning_contract_error
  | TE_AgentLoopAlreadyConfigured
  | TE_AgentLoopNotConfigured
  | TE_ModelCallLifecycleAlreadyConfigured
  | TE_ModelCallLifecycleNotConfigured
  | TE_ModelCallBudgetBelowHistoricalAcceptedTurns u32 u32
  | TE_ModelCallBudgetExceeded
  | TE_ModelCallActive
  | TE_UnexpectedModelCallIndex u32 u32
  | TE_UnexpectedModelCallTurn u32 u32
  | TE_ModelCallBaseHeadMismatch
  | TE_ModelCallIdMismatch
  | TE_ModelCallContextMismatch
  | TE_ModelCallDecisionRequired
  | TE_ModelCallNotReserved
  | TE_StaleModelCallResponse
  | TE_ModelCallSettlementHeadMismatch
  | TE_ModelCallCounterOverflow
  | TE_ModelCallCounterInvariant
  | TE_UnexpectedPlanningTurn u32 u32
  | TE_ModelTurnBudgetExceeded
  | TE_PlannedStepBudgetExceeded
  | TE_ToolCallBudgetExceeded
  | TE_AcceptedPlanStepCountInvalid usize
  | TE_AcceptedPlanEdgeBudgetExceeded
  | TE_InvalidAcceptedObjective
  | TE_PlanProposalDigestMismatch string
  | TE_PlanDependencyBlocked string string dependency_block_reason
  | TE_DependencyCycle
  | TE_CompletionCandidateAlreadyRecorded
  | TE_CompletionCandidateRequiresReceiptCompletedPlan
  | TE_UnexpectedSequence u64 u64
  | TE_PreviousDigestMismatch u64 "string option" "string option"
  | TE_RunIdMismatch
  | TE_AuthorityMismatch
  | TE_AuthorityEpochMismatch
  | TE_DuplicateStep string
  | TE_SelfDependency string
  | TE_DuplicateDependency string string
  | TE_UnknownDependency string string
  | TE_UnknownStep string
  | TE_DependencyNotReleased string string dependency_block_reason
  | TE_DuplicateEffect string
  | TE_PlannedInvocationMismatch string string
  | TE_DuplicatePlannedAction string string
  | TE_EffectMismatch string "string option" string
  | TE_InvalidStepTransition string step_status string
  | TE_InvalidAuthorizationBudget string
  | TE_AuthorizationRunMismatch string
  | TE_AuthorizationStepMismatch string
  | TE_AuthorizationAuthorityMismatch string
  | TE_AuthorizationEpochMismatch string
  | TE_AuthorizationHeadMismatch string
  | TE_AuthorizationActionMismatch string
  | TE_AuthorizationInvocationMismatch string
  | TE_AuthorizationIdMismatch string
  | TE_AuthorizationDigestMismatch string
  | TE_AuthorizationDigest authorization_digest_error
  | TE_AuthorizationGrantChanged string
  | TE_AuthorizationBudgetExceeded string u32
  | TE_SinkGuaranteeRequiresIdempotencyKey string
  | TE_ReadOnlyEffectSemanticsInvalid string
  | TE_ReceiptProvenanceBindingMismatch string
  | TE_ReceiptProvenanceDigestMismatch string
  | TE_UnsupportedToolOutputProfile string
  | TE_ToolOutputRecordRequired string
  | TE_UnexpectedToolOutputRecord string
  | TE_InvalidToolOutputRecordDigest string
  | TE_AttemptOverflow string
  | TE_Panic string

datatype replay_error =
    RPE_EmptyJournal
  | RPE_UnexpectedSequence u64 u64
  | RPE_PreviousDigestMismatch u64 "string option" "string option"
  | RPE_Record record_error
  | RPE_Transition transition_error

section \<open>Steps\<close>

definition put_step :: "string \<Rightarrow> step_state \<Rightarrow> run_state \<Rightarrow> run_state" where
  "put_step step_id step state = state\<lparr>rs_steps := bm_insert step_id step (rs_steps state)\<rparr>"

definition put_loop :: "agent_loop_state \<Rightarrow> run_state \<Rightarrow> run_state" where
  "put_loop loop_state state = state\<lparr>rs_agent_loop := Some loop_state\<rparr>"

definition new_step ::
    "string \<Rightarrow> string \<Rightarrow> string list \<Rightarrow> planned_invocation_binding option \<Rightarrow> step_state" where
  "new_step step_id objective depends_on planned_invocation =
     \<lparr>ss_step_id = step_id, ss_objective = objective, ss_depends_on = depends_on,
      ss_planned_invocation = planned_invocation, ss_status = Planned, ss_attempts = 0,
      ss_intent = None, ss_effect_evidence_digest = None, ss_output_record_digest = None,
      ss_execution_receipt_id = None, ss_execution_receipt_digest = None,
      ss_uncertainty_reason = None, ss_reconciliation_evidence_digest = None\<rparr>"

definition step_mut :: "run_state \<Rightarrow> string \<Rightarrow> transition_error + step_state" where
  "step_mut state step_id = ok_or (TE_UnknownStep step_id) (bm_get (rs_steps state) step_id)"

definition matching_step_mut :: "run_state \<Rightarrow> string \<Rightarrow> string \<Rightarrow> transition_error + step_state" where
  "matching_step_mut state step_id effect_id =
     and_then (step_mut state step_id) (\<lambda>step.
     let actual = map_option ei_effect_id (ss_intent step) in
     and_then (reject_if (actual \<noteq> Some effect_id) (TE_EffectMismatch step_id actual effect_id)) (\<lambda>_.
     Inr step))"

definition invalid_transition :: "step_state \<Rightarrow> run_event_body \<Rightarrow> transition_error + 'a" where
  "invalid_transition step body =
     Inl (TE_InvalidStepTransition (ss_step_id step) (ss_status step) (event_kind body))"

definition require_status :: "step_state \<Rightarrow> step_status \<Rightarrow> run_event_body \<Rightarrow> transition_error + unit" where
  "require_status step required body =
     (if ss_status step \<noteq> required then invalid_transition step body else Inr ())"

definition total_attempts :: "run_state \<Rightarrow> transition_error + u32" where
  "total_attempts state =
     try_fold (\<lambda>step starts. ok_or TE_ToolCallBudgetExceeded (checked_add starts (ss_attempts step)))
       (bm_values (rs_steps state)) 0"

section \<open>Agent loop and model calls\<close>

definition configure_agent_loop ::
    "run_state \<Rightarrow> agent_loop_budget \<Rightarrow> transition_error + run_state" where
  "configure_agent_loop state budget =
     and_then (map_err TE_PlanningContract (agent_loop_budget_validate budget)) (\<lambda>_.
     and_then (reject_if (rs_agent_loop state \<noteq> None) TE_AgentLoopAlreadyConfigured) (\<lambda>_.
     and_then (ok_or TE_PlannedStepBudgetExceeded (u32_try_from (bm_len (rs_steps state))))
       (\<lambda>planned_steps.
     and_then (reject_if (planned_steps > alb_max_planned_steps budget)
       TE_PlannedStepBudgetExceeded) (\<lambda>_.
     and_then (total_attempts state) (\<lambda>tool_calls.
     and_then (reject_if (tool_calls > alb_max_tool_calls budget) TE_ToolCallBudgetExceeded) (\<lambda>_.
     Inr (put_loop \<lparr>als_budget = budget, als_accepted_model_turns = 0,
                    als_model_calls = None, als_completion_candidate = None\<rparr> state)))))))"

definition validate_model_call_counters :: "agent_loop_state \<Rightarrow> transition_error + unit" where
  "validate_model_call_counters loop_state =
     (case als_model_calls loop_state of None \<Rightarrow> Inr ()
      | Some calls \<Rightarrow>
          reject_if (als_accepted_model_turns loop_state > mcl_settled_calls calls
              \<or> mcl_settled_calls calls > mcl_reserved_calls calls
              \<or> mcl_unknown_calls calls > mcl_reserved_calls calls)
            TE_ModelCallCounterInvariant)"

definition configure_model_call_lifecycle ::
    "run_state \<Rightarrow> model_call_budget \<Rightarrow> transition_error + run_state" where
  "configure_model_call_lifecycle state budget =
     and_then (map_err TE_PlanningContract (model_call_budget_validate budget)) (\<lambda>_.
     and_then (ok_or TE_AgentLoopNotConfigured (rs_agent_loop state)) (\<lambda>loop_state.
     and_then (reject_if (als_model_calls loop_state \<noteq> None)
       TE_ModelCallLifecycleAlreadyConfigured) (\<lambda>_.
     and_then (reject_if (mcb_max_model_calls budget < als_accepted_model_turns loop_state)
       (TE_ModelCallBudgetBelowHistoricalAcceptedTurns (mcb_max_model_calls budget)
         (als_accepted_model_turns loop_state))) (\<lambda>_.
     let loop' = loop_state\<lparr>als_model_calls := Some
           \<lparr>mcl_budget = budget,
            mcl_reserved_calls = als_accepted_model_turns loop_state,
            mcl_settled_calls = als_accepted_model_turns loop_state,
            mcl_unknown_calls = 0,
            mcl_active_call = None\<rparr>\<rparr> in
     and_then (validate_model_call_counters loop') (\<lambda>_.
     Inr (put_loop loop' state))))))"

definition reserve_model_call ::
    "crypto \<Rightarrow> run_state \<Rightarrow> model_call_reservation \<Rightarrow> transition_error + run_state" where
  "reserve_model_call cr state reservation =
     and_then (map_err TE_PlanningContract (reservation_validate_for cr reservation
       (rs_run_id state) (rs_authority_epoch state))) (\<lambda>_.
     and_then (ok_or TE_AgentLoopNotConfigured (rs_agent_loop state)) (\<lambda>loop_state.
     and_then (reject_if (als_completion_candidate loop_state \<noteq> None)
       TE_CompletionCandidateAlreadyRecorded) (\<lambda>_.
     and_then (reject_if (als_accepted_model_turns loop_state
           \<ge> alb_max_model_turns (als_budget loop_state)) TE_ModelTurnBudgetExceeded) (\<lambda>_.
     and_then (ok_or TE_ModelCallLifecycleNotConfigured (als_model_calls loop_state)) (\<lambda>calls.
     and_then (reject_if (mcl_active_call calls \<noteq> None) TE_ModelCallActive) (\<lambda>_.
     and_then (reject_if (mcl_reserved_calls calls \<ge> mcb_max_model_calls (mcl_budget calls))
       TE_ModelCallBudgetExceeded) (\<lambda>_.
     and_then (ok_or TE_ModelCallBudgetExceeded (checked_add (mcl_reserved_calls calls) 1))
       (\<lambda>expected_call_index.
     and_then (reject_if (mcr_call_index reservation \<noteq> expected_call_index)
       (TE_UnexpectedModelCallIndex expected_call_index (mcr_call_index reservation))) (\<lambda>_.
     and_then (ok_or TE_ModelTurnBudgetExceeded (checked_add (als_accepted_model_turns loop_state) 1))
       (\<lambda>expected_turn_index.
     and_then (reject_if (mcr_turn_index reservation \<noteq> expected_turn_index)
       (TE_UnexpectedModelCallTurn expected_turn_index (mcr_turn_index reservation))) (\<lambda>_.
     and_then (reject_if (mcr_base_sequence reservation \<noteq> rs_journal_sequence state
           \<or> mcr_base_head_digest reservation \<noteq> rs_journal_head_digest state)
       TE_ModelCallBaseHeadMismatch) (\<lambda>_.
     let loop' = loop_state\<lparr>als_model_calls := Some (calls
           \<lparr>mcl_reserved_calls := expected_call_index,
            mcl_active_call := Some \<lparr>mcs_reservation = reservation, mcs_status = Reserved\<rparr>\<rparr>)\<rparr> in
     and_then (validate_model_call_counters loop') (\<lambda>_.
     Inr (put_loop loop' state))))))))))))))"

definition mark_model_call_unknown ::
    "run_state \<Rightarrow> string \<Rightarrow> model_call_unknown_reason \<Rightarrow> transition_error + run_state" where
  "mark_model_call_unknown state call_id reason =
     and_then (map_err TE_PlanningContract (require_model_call_id ''call_id'' call_id)) (\<lambda>_.
     and_then (ok_or TE_AgentLoopNotConfigured (rs_agent_loop state)) (\<lambda>loop_state.
     and_then (ok_or TE_ModelCallLifecycleNotConfigured (als_model_calls loop_state)) (\<lambda>calls.
     and_then (ok_or TE_ModelCallNotReserved (mcl_active_call calls)) (\<lambda>active.
     and_then (reject_if (mcr_call_id (mcs_reservation active) \<noteq> call_id)
       TE_ModelCallIdMismatch) (\<lambda>_.
     and_then (reject_if (mcs_status active \<noteq> Reserved) TE_ModelCallNotReserved) (\<lambda>_.
     and_then (ok_or TE_ModelCallCounterOverflow (checked_add (mcl_unknown_calls calls) 1))
       (\<lambda>unknown_calls.
     let loop' = loop_state\<lparr>als_model_calls := Some (calls
           \<lparr>mcl_unknown_calls := unknown_calls,
            mcl_active_call := Some (active\<lparr>mcs_status := CallUnknown reason\<rparr>)\<rparr>)\<rparr> in
     and_then (validate_model_call_counters loop') (\<lambda>_.
     Inr (put_loop loop' state)))))))))"

definition settle_model_call ::
    "run_state \<Rightarrow> string \<Rightarrow> model_call_settlement \<Rightarrow> transition_error + run_state" where
  "settle_model_call state call_id settlement =
     and_then (map_err TE_PlanningContract (require_model_call_id ''call_id'' call_id)) (\<lambda>_.
     and_then (ok_or TE_AgentLoopNotConfigured (rs_agent_loop state)) (\<lambda>loop_state.
     and_then (ok_or TE_ModelCallLifecycleNotConfigured (als_model_calls loop_state)) (\<lambda>calls.
     and_then (ok_or TE_ModelCallNotReserved (mcl_active_call calls)) (\<lambda>active.
     and_then (reject_if (mcr_call_id (mcs_reservation active) \<noteq> call_id)
       TE_ModelCallIdMismatch) (\<lambda>_.
     and_then
       (case settlement of
          Rejected reason \<Rightarrow>
            and_then (reject_if (mcs_status active \<noteq> Reserved) TE_ModelCallNotReserved) (\<lambda>_.
            and_then (ok_or TE_ModelCallCounterOverflow
              (checked_add (mcr_base_sequence (mcs_reservation active)) 1)) (\<lambda>immediate_sequence.
            let is_immediate = (rs_journal_sequence state = immediate_sequence) in
            reject_if (is_immediate \<noteq> (reason \<noteq> StaleHead)) TE_ModelCallSettlementHeadMismatch))
        | Abandoned _ \<Rightarrow> Inr ()) (\<lambda>_.
     and_then (ok_or TE_ModelCallCounterOverflow (checked_add (mcl_settled_calls calls) 1))
       (\<lambda>settled_calls.
     let loop' = loop_state\<lparr>als_model_calls := Some (calls
           \<lparr>mcl_settled_calls := settled_calls, mcl_active_call := None\<rparr>)\<rparr> in
     and_then (validate_model_call_counters loop') (\<lambda>_.
     Inr (put_loop loop' state)))))))))"

section \<open>Accepted plans\<close>

definition validate_model_call_success ::
    "run_state \<Rightarrow> expected_planning_turn \<Rightarrow> transition_error + unit" where
  "validate_model_call_success state decision =
     and_then (ok_or TE_AgentLoopNotConfigured (rs_agent_loop state)) (\<lambda>loop_state.
     case (als_model_calls loop_state, ept_model_call_id decision) of
       (None, None) \<Rightarrow> Inr ()
     | (None, Some _) \<Rightarrow> Inl TE_ModelCallLifecycleNotConfigured
     | (Some _, None) \<Rightarrow> Inl TE_ModelCallDecisionRequired
     | (Some calls, Some call_id) \<Rightarrow>
         and_then (ok_or TE_ModelCallNotReserved (mcl_active_call calls)) (\<lambda>active.
         and_then (reject_if (mcr_call_id (mcs_reservation active) \<noteq> call_id)
           TE_ModelCallIdMismatch) (\<lambda>_.
         and_then (reject_if (mcs_status active \<noteq> Reserved) TE_ModelCallNotReserved) (\<lambda>_.
         and_then (reject_if (mcr_turn_index (mcs_reservation active) \<noteq> ept_turn_index decision)
           (TE_UnexpectedModelCallTurn (mcr_turn_index (mcs_reservation active))
             (ept_turn_index decision))) (\<lambda>_.
         and_then (reject_if (mcr_context_digest (mcs_reservation active)
               \<noteq> ept_context_digest decision) TE_ModelCallContextMismatch) (\<lambda>_.
         and_then (ok_or TE_ModelCallCounterOverflow
           (checked_add (mcr_base_sequence (mcs_reservation active)) 1)) (\<lambda>immediate_sequence.
         reject_if (rs_journal_sequence state \<noteq> immediate_sequence)
           TE_StaleModelCallResponse)))))))"

definition settle_successful_model_call ::
    "agent_loop_state \<Rightarrow> transition_error + agent_loop_state" where
  "settle_successful_model_call loop_state =
     (case als_model_calls loop_state of None \<Rightarrow> Inr loop_state
      | Some calls \<Rightarrow>
          and_then (ok_or TE_ModelCallNotReserved (mcl_active_call calls)) (\<lambda>active.
          and_then (reject_if (mcs_status active \<noteq> Reserved) TE_ModelCallNotReserved) (\<lambda>_.
          and_then (ok_or TE_ModelCallCounterOverflow (checked_add (mcl_settled_calls calls) 1))
            (\<lambda>settled_calls.
          let loop' = loop_state\<lparr>als_model_calls := Some (calls
                \<lparr>mcl_settled_calls := settled_calls, mcl_active_call := None\<rparr>)\<rparr> in
          and_then (validate_model_call_counters loop') (\<lambda>_. Inr loop')))))"

definition validate_accepted_objective :: "string \<Rightarrow> transition_error + unit" where
  "validate_accepted_objective objective =
     reject_if (objective = [] \<or> length objective > MAX_ACCEPTED_OBJECTIVE_BYTES
       \<or> has_control objective) TE_InvalidAcceptedObjective"

text \<open>
  \<open>owners.insert(digest, step).filter(|existing| existing != step)\<close>: an action belongs to at
  most one step.
\<close>

definition claim_action ::
    "string \<Rightarrow> string \<Rightarrow> (string, string) btreemap \<Rightarrow> transition_error + (string, string) btreemap" where
  "claim_action step_id action_digest owners =
     (case bm_get owners action_digest of
        None \<Rightarrow> Inr (bm_insert action_digest step_id owners)
      | Some existing_step_id \<Rightarrow>
          and_then (reject_if (existing_step_id \<noteq> step_id)
            (TE_DuplicatePlannedAction step_id existing_step_id)) (\<lambda>_.
          Inr (bm_insert action_digest step_id owners)))"

definition step_actions :: "step_state \<Rightarrow> string list" where
  "step_actions step =
     (case ss_planned_invocation step of None \<Rightarrow> [] | Some b \<Rightarrow> [pib_action_digest b])
     @ (case ss_intent step of None \<Rightarrow> [] | Some i \<Rightarrow> [ei_action_digest i])"

definition existing_action_owners :: "run_state \<Rightarrow> transition_error + (string, string) btreemap" where
  "existing_action_owners state =
     try_fold (\<lambda>step. try_fold (claim_action (ss_step_id step)) (step_actions step))
       (bm_values (rs_steps state)) bm_empty"

definition validate_accepted_plan_header ::
    "crypto \<Rightarrow> run_state \<Rightarrow> expected_planning_turn \<Rightarrow> accepted_plan_step
      \<Rightarrow> string btreeset \<times> (string, string) btreemap
      \<Rightarrow> transition_error + string btreeset \<times> (string, string) btreemap" where
  "validate_accepted_plan_header cr state decision step acc =
     (case acc of (proposed_ids, action_owners) \<Rightarrow>
       and_then (map_err TE_PlanningContract
         (require_planning_identifier ''step_id'' (aps_step_id step))) (\<lambda>_.
       and_then (validate_accepted_objective (aps_objective step)) (\<lambda>_.
       and_then (map_err TE_PlanningContract (binding_validate cr (aps_invocation step))) (\<lambda>_.
       and_then (claim_action (aps_step_id step) (pib_action_digest (aps_invocation step))
                   action_owners) (\<lambda>action_owners'.
       and_then (reject_if (pib_proposal_digest (aps_invocation step) \<noteq> ept_proposal_digest decision)
         (TE_PlanProposalDigestMismatch (aps_step_id step))) (\<lambda>_.
       and_then (reject_if (bm_contains_key (rs_steps state) (aps_step_id step)
             \<or> bs_contains proposed_ids (aps_step_id step))
         (TE_DuplicateStep (aps_step_id step))) (\<lambda>_.
       Inr (bs_insert (aps_step_id step) proposed_ids, action_owners'))))))))"

definition validate_accepted_plan_headers ::
    "crypto \<Rightarrow> run_state \<Rightarrow> expected_planning_turn \<Rightarrow> accepted_plan_step list
      \<Rightarrow> transition_error + string btreeset" where
  "validate_accepted_plan_headers cr state decision steps =
     and_then (existing_action_owners state) (\<lambda>action_owners.
     and_then (try_fold (validate_accepted_plan_header cr state decision) steps
                 (bs_empty, action_owners)) (\<lambda>(proposed_ids, _).
     Inr proposed_ids))"

fun map_plan_frontier_error :: "frontier_error \<Rightarrow> transition_error" where
  "map_plan_frontier_error (FE_SelfDependency step_id) = TE_SelfDependency step_id"
| "map_plan_frontier_error (FE_DuplicateDependency step_id dependency_id) =
     TE_DuplicateDependency step_id dependency_id"
| "map_plan_frontier_error (FE_UnknownDependency step_id dependency_id) =
     TE_UnknownDependency step_id dependency_id"
| "map_plan_frontier_error FE_DependencyCycle = TE_DependencyCycle"
| "map_plan_frontier_error (FE_ActiveDependencyNotReleased step_id dependency_id reason) =
     TE_DependencyNotReleased step_id dependency_id reason"
| "map_plan_frontier_error (FE_Panic message) = TE_Panic message"

text \<open>One dependency of one accepted step: \<open>(edge_count, unique)\<close> is the loop's state.\<close>

definition validate_plan_edge ::
    "run_state \<Rightarrow> string btreeset \<Rightarrow> string btreeset \<Rightarrow> string \<Rightarrow> string \<Rightarrow> usize \<times> string btreeset
      \<Rightarrow> transition_error + usize \<times> string btreeset" where
  "validate_plan_edge state proposed_ids blocked_existing step_id dependency_id acc =
     (case acc of (edge_count, unique) \<Rightarrow>
       and_then (ok_or TE_AcceptedPlanEdgeBudgetExceeded (usize_checked_add edge_count 1))
         (\<lambda>edge_count'.
       and_then (reject_if (edge_count' > MAX_ACCEPTED_PLAN_EDGES)
         TE_AcceptedPlanEdgeBudgetExceeded) (\<lambda>_.
       and_then (reject_if (dependency_id = step_id) (TE_SelfDependency step_id)) (\<lambda>_.
       and_then (reject_if (bs_contains unique dependency_id)
         (TE_DuplicateDependency step_id dependency_id)) (\<lambda>_.
       and_then (reject_if (\<not> bm_contains_key (rs_steps state) dependency_id
             \<and> \<not> bs_contains proposed_ids dependency_id)
         (TE_UnknownDependency step_id dependency_id)) (\<lambda>_.
       and_then
         (case bm_get (rs_steps state) dependency_id of
            None \<Rightarrow> Inr ()
          | Some existing \<Rightarrow>
              let reason = (if bs_contains blocked_existing dependency_id
                            then Some BlockDependencyBlocked
                            else dependency_release_block_reason existing) in
              (case reason of
                 Some BlockFailed \<Rightarrow> Inl (TE_PlanDependencyBlocked step_id dependency_id BlockFailed)
               | Some BlockManualRequired \<Rightarrow>
                   Inl (TE_PlanDependencyBlocked step_id dependency_id BlockManualRequired)
               | Some BlockReceiptMissing \<Rightarrow>
                   Inl (TE_PlanDependencyBlocked step_id dependency_id BlockReceiptMissing)
               | Some BlockDependencyBlocked \<Rightarrow>
                   Inl (TE_PlanDependencyBlocked step_id dependency_id BlockDependencyBlocked)
               | _ \<Rightarrow> Inr ())) (\<lambda>_.
       Inr (edge_count', bs_insert dependency_id unique))))))))"

definition insert_accepted_step ::
    "run_state \<Rightarrow> string btreeset \<Rightarrow> string btreeset \<Rightarrow> accepted_plan_step \<Rightarrow> usize \<times> run_state
      \<Rightarrow> transition_error + usize \<times> run_state" where
  "insert_accepted_step state proposed_ids blocked_existing step acc =
     (case acc of (edge_count, candidate) \<Rightarrow>
       and_then (try_fold (validate_plan_edge state proposed_ids blocked_existing (aps_step_id step))
                   (aps_depends_on step) (edge_count, bs_empty)) (\<lambda>(edge_count', _).
       Inr (edge_count', put_step (aps_step_id step)
         (new_step (aps_step_id step) (aps_objective step) (aps_depends_on step)
            (Some (aps_invocation step))) candidate)))"

definition build_accepted_plan_candidate ::
    "run_state \<Rightarrow> accepted_plan_step list \<Rightarrow> string btreeset \<Rightarrow> transition_error + run_state" where
  "build_accepted_plan_candidate state steps proposed_ids =
     and_then (map_err map_plan_frontier_error (derive_frontier state)) (\<lambda>frontier.
     let blocked_existing = bs_of_list (map bst_step_id (wf_blocked frontier)) in
     and_then (try_fold (insert_accepted_step state proposed_ids blocked_existing) steps (0, state))
       (\<lambda>(_, candidate). Inr candidate))"

definition accept_plan ::
    "crypto \<Rightarrow> run_state \<Rightarrow> expected_planning_turn \<Rightarrow> accepted_plan_step list
      \<Rightarrow> transition_error + run_state" where
  "accept_plan cr state decision steps =
     and_then (map_err TE_PlanningContract (planning_turn_validate decision)) (\<lambda>_.
     and_then (validate_model_call_success state decision) (\<lambda>_.
     and_then (ok_or TE_AgentLoopNotConfigured (rs_agent_loop state)) (\<lambda>loop_state.
     and_then (reject_if (als_completion_candidate loop_state \<noteq> None)
       TE_CompletionCandidateAlreadyRecorded) (\<lambda>_.
     and_then (ok_or TE_ModelTurnBudgetExceeded (checked_add (als_accepted_model_turns loop_state) 1))
       (\<lambda>expected_turn.
     and_then (reject_if (ept_turn_index decision \<noteq> expected_turn)
       (TE_UnexpectedPlanningTurn expected_turn (ept_turn_index decision))) (\<lambda>_.
     and_then (reject_if (expected_turn > alb_max_model_turns (als_budget loop_state))
       TE_ModelTurnBudgetExceeded) (\<lambda>_.
     and_then (reject_if (steps = [] \<or> length steps > MAX_ACCEPTED_PLAN_STEPS)
       (TE_AcceptedPlanStepCountInvalid (length steps))) (\<lambda>_.
     and_then (ok_or TE_PlannedStepBudgetExceeded
       (usize_checked_add (bm_len (rs_steps state)) (length steps))) (\<lambda>total_steps.
     and_then (reject_if (case u32_try_from total_steps of None \<Rightarrow> True
         | Some steps_total \<Rightarrow> steps_total > alb_max_planned_steps (als_budget loop_state))
       TE_PlannedStepBudgetExceeded) (\<lambda>_.
     and_then (validate_accepted_plan_headers cr state decision steps) (\<lambda>proposed_ids.
     and_then (build_accepted_plan_candidate state steps proposed_ids) (\<lambda>candidate.
     and_then (map_err map_plan_frontier_error (derive_frontier candidate)) (\<lambda>_.
     and_then (ok_or (TE_Panic ''candidate retains configured loop'') (rs_agent_loop candidate))
       (\<lambda>candidate_loop.
     and_then (settle_successful_model_call
                 (candidate_loop\<lparr>als_accepted_model_turns := expected_turn\<rparr>)) (\<lambda>candidate_loop'.
     Inr (put_loop candidate_loop' candidate))))))))))))))))"

definition record_completion_candidate ::
    "run_state \<Rightarrow> expected_planning_turn \<Rightarrow> string \<Rightarrow> string \<Rightarrow> string option
      \<Rightarrow> transition_error + run_state" where
  "record_completion_candidate state decision candidate_id summary_digest
      completion_output_record_digest =
     and_then (map_err TE_PlanningContract (planning_turn_validate decision)) (\<lambda>_.
     and_then (validate_model_call_success state decision) (\<lambda>_.
     and_then (map_err TE_PlanningContract
       (require_planning_identifier ''candidate_id'' candidate_id)) (\<lambda>_.
     and_then (map_err TE_PlanningContract
       (require_planning_digest ''summary_digest'' summary_digest)) (\<lambda>_.
     and_then (case completion_output_record_digest of None \<Rightarrow> Inr ()
         | Some output_digest \<Rightarrow> map_err TE_PlanningContract
             (require_planning_digest ''completion_output_record_digest'' output_digest)) (\<lambda>_.
     and_then (map_err map_plan_frontier_error (derive_frontier state)) (\<lambda>frontier.
     and_then (reject_if (\<not> all_steps_receipt_completed frontier)
       TE_CompletionCandidateRequiresReceiptCompletedPlan) (\<lambda>_.
     and_then (ok_or TE_AgentLoopNotConfigured (rs_agent_loop state)) (\<lambda>loop_state.
     and_then (reject_if (als_completion_candidate loop_state \<noteq> None)
       TE_CompletionCandidateAlreadyRecorded) (\<lambda>_.
     and_then (ok_or TE_ModelTurnBudgetExceeded (checked_add (als_accepted_model_turns loop_state) 1))
       (\<lambda>expected_turn.
     and_then (reject_if (ept_turn_index decision \<noteq> expected_turn)
       (TE_UnexpectedPlanningTurn expected_turn (ept_turn_index decision))) (\<lambda>_.
     and_then (reject_if (expected_turn > alb_max_model_turns (als_budget loop_state))
       TE_ModelTurnBudgetExceeded) (\<lambda>_.
     and_then (settle_successful_model_call (loop_state
         \<lparr>als_accepted_model_turns := expected_turn,
          als_completion_candidate := Some
            \<lparr>ccs_candidate_id = candidate_id,
             ccs_context_digest = ept_context_digest decision,
             ccs_proposal_digest = ept_proposal_digest decision,
             ccs_summary_digest = summary_digest,
             ccs_completion_output_record_digest = completion_output_record_digest\<rparr>\<rparr>)) (\<lambda>loop'.
     Inr (put_loop loop' state))))))))))))))"

definition plan_step_dependency ::
    "run_state \<Rightarrow> string \<Rightarrow> string \<Rightarrow> string btreeset \<Rightarrow> transition_error + string btreeset" where
  "plan_step_dependency state step_id dependency_id unique =
     and_then (reject_if (dependency_id = step_id) (TE_SelfDependency step_id)) (\<lambda>_.
     and_then (reject_if (bs_contains unique dependency_id)
       (TE_DuplicateDependency step_id dependency_id)) (\<lambda>_.
     and_then (reject_if (\<not> bm_contains_key (rs_steps state) dependency_id)
       (TE_UnknownDependency step_id dependency_id)) (\<lambda>_.
     Inr (bs_insert dependency_id unique))))"

definition plan_step ::
    "run_state \<Rightarrow> string \<Rightarrow> string \<Rightarrow> string list \<Rightarrow> planned_invocation_binding option
      \<Rightarrow> transition_error + run_state" where
  "plan_step state step_id objective depends_on planned_invocation =
     and_then
       (case rs_agent_loop state of None \<Rightarrow> Inr ()
        | Some loop_state \<Rightarrow>
            and_then (reject_if (als_completion_candidate loop_state \<noteq> None)
              TE_CompletionCandidateAlreadyRecorded) (\<lambda>_.
            and_then (ok_or TE_PlannedStepBudgetExceeded
              (usize_checked_add (bm_len (rs_steps state)) 1)) (\<lambda>total_steps.
            reject_if (case u32_try_from total_steps of None \<Rightarrow> True
                | Some steps_total \<Rightarrow> steps_total > alb_max_planned_steps (als_budget loop_state))
              TE_PlannedStepBudgetExceeded))) (\<lambda>_.
     and_then (reject_if (bm_contains_key (rs_steps state) step_id) (TE_DuplicateStep step_id)) (\<lambda>_.
     and_then (try_fold (plan_step_dependency state step_id) depends_on bs_empty) (\<lambda>_.
     Inr (put_step step_id (new_step step_id objective depends_on planned_invocation) state))))"

section \<open>Effect intents\<close>

definition tool_output_profile_of :: "effect_intent \<Rightarrow> string option" where
  "tool_output_profile_of intent =
     Option.bind (ei_receipt_provenance intent) rp_tool_output_profile"

definition step_output_profile :: "step_state \<Rightarrow> string option" where
  "step_output_profile step = Option.bind (ss_intent step) tool_output_profile_of"

definition validate_tool_output_profile :: "effect_intent \<Rightarrow> transition_error + unit" where
  "validate_tool_output_profile intent =
     (case tool_output_profile_of intent of
        None \<Rightarrow> Inr ()
      | Some profile \<Rightarrow>
          reject_if (profile \<noteq> TOOL_OUTPUT_PROFILE_V1
              \<or> ei_effect_class intent \<notin> {ReadOnly, Idempotent, NonIdempotent})
            (TE_UnsupportedToolOutputProfile (ei_effect_id intent)))"

definition empty_or_missing :: "string option \<Rightarrow> bool" where
  "empty_or_missing key \<longleftrightarrow> (case key of None \<Rightarrow> True | Some k \<Rightarrow> k = [])"

definition validate_planned_execution_profile ::
    "step_state \<Rightarrow> planned_invocation_binding \<Rightarrow> effect_intent \<Rightarrow> receipt_provenance
      \<Rightarrow> transition_error + unit" where
  "validate_planned_execution_profile step planned intent provenance =
     (let mismatch = (\<lambda>field. TE_PlannedInvocationMismatch (ss_step_id step) field) in
      and_then
        (if pib_execution_profile planned \<in> {LocalSyncOnceV1, LocalSyncOnceOccurrenceV1} then
           and_then (reject_if (ei_effect_class intent = ReadOnly) (mismatch ''effect_class'')) (\<lambda>_.
           reject_if (empty_or_missing (ei_idempotency_key intent)) (mismatch ''idempotency_key''))
         else
           and_then (reject_if (ei_effect_class intent \<noteq> ReadOnly) (mismatch ''effect_class'')) (\<lambda>_.
           and_then (reject_if (ei_idempotency_key intent \<noteq> None)
             (mismatch ''idempotency_key'')) (\<lambda>_.
           reject_if (ei_sink_guarantee intent \<noteq> SinkNone) (mismatch ''sink_guarantee'')))) (\<lambda>_.
      and_then (reject_if (rp_executor_placement provenance \<noteq> PlacementLocal)
        (mismatch ''receipt_provenance.executor_placement'')) (\<lambda>_.
      let expected_platform = pib_target_os planned @ ''-'' @ pib_target_arch planned in
      reject_if (rp_executor_platform provenance \<noteq> expected_platform)
        (mismatch ''receipt_provenance.executor_platform''))))"

definition validate_planned_invocation_binding ::
    "crypto \<Rightarrow> step_state \<Rightarrow> effect_intent \<Rightarrow> transition_error + unit" where
  "validate_planned_invocation_binding cr step intent =
     (let mismatch = (\<lambda>field. TE_PlannedInvocationMismatch (ss_step_id step) field) in
      case ss_planned_invocation step of
        None \<Rightarrow> Inr ()
      | Some planned \<Rightarrow>
          and_then (map_err TE_PlanningContract (binding_validate cr planned)) (\<lambda>_.
          and_then (try_fold (\<lambda>(field, matches) _. reject_if (\<not> matches) (mismatch field))
            [(''capability_id'', pib_capability_id planned = ib_capability_id (ei_invocation intent)),
             (''contract_version'',
                pib_contract_version planned = ib_contract_version (ei_invocation intent)),
             (''definition_digest'',
                pib_definition_digest planned = ib_definition_digest (ei_invocation intent)),
             (''action_digest'', pib_action_digest planned = ei_action_digest intent),
             (''plan_input_digest'', pib_plan_input_digest planned
                = ab_material_digest (au_binding (ei_authorization intent)))] ()) (\<lambda>_.
          and_then (ok_or (mismatch ''receipt_provenance.plan_id'') (ei_receipt_provenance intent))
            (\<lambda>provenance.
          and_then (reject_if (rp_plan_id provenance \<noteq> pib_plan_id planned)
            (mismatch ''receipt_provenance.plan_id'')) (\<lambda>_.
          validate_planned_execution_profile step planned intent provenance)))))"

definition consider_blocker ::
    "run_state \<Rightarrow> step_state \<Rightarrow> string \<Rightarrow> dependency_blocker option
      \<Rightarrow> transition_error + dependency_blocker option" where
  "consider_blocker state step dependency_id first =
     and_then (ok_or (TE_UnknownDependency (ss_step_id step) dependency_id)
       (bm_get (rs_steps state) dependency_id)) (\<lambda>dependency.
     Inr (case dependency_release_block_reason dependency of
            None \<Rightarrow> first
          | Some reason \<Rightarrow>
              let candidate = DependencyBlocker dependency_id reason in
              (case first of
                 None \<Rightarrow> Some candidate
               | Some current \<Rightarrow> if candidate < current then Some candidate else first)))"

definition first_unreleased_dependency ::
    "run_state \<Rightarrow> step_state \<Rightarrow> transition_error + dependency_blocker option" where
  "first_unreleased_dependency state step =
     try_fold (consider_blocker state step) (ss_depends_on step) None"

definition validate_authorization_binding ::
    "crypto \<Rightarrow> run_state \<Rightarrow> string \<Rightarrow> effect_intent \<Rightarrow> transition_error + unit" where
  "validate_authorization_binding cr state step_id intent =
     (let authorization = ei_authorization intent;
          binding = au_binding authorization;
          invocation = ei_invocation intent;
          grant_id = au_grant_id authorization in
      and_then (reject_if (ab_run_id binding \<noteq> rs_run_id state)
        (TE_AuthorizationRunMismatch grant_id)) (\<lambda>_.
      and_then (reject_if (ab_step_id binding \<noteq> step_id)
        (TE_AuthorizationStepMismatch grant_id)) (\<lambda>_.
      and_then (reject_if (ab_authority binding \<noteq> rs_authority state)
        (TE_AuthorizationAuthorityMismatch grant_id)) (\<lambda>_.
      and_then (reject_if (ab_authority_epoch binding \<noteq> rs_authority_epoch state)
        (TE_AuthorizationEpochMismatch grant_id)) (\<lambda>_.
      and_then (reject_if (ab_issued_at_sequence binding \<noteq> rs_journal_sequence state
          \<or> ab_issued_at_head_digest binding \<noteq> rs_journal_head_digest state)
        (TE_AuthorizationHeadMismatch grant_id)) (\<lambda>_.
      and_then (reject_if (ab_action_digest binding \<noteq> ei_action_digest intent)
        (TE_AuthorizationActionMismatch grant_id)) (\<lambda>_.
      and_then (reject_if (ab_capability_id binding \<noteq> ib_capability_id invocation
          \<or> ab_contract_version binding \<noteq> ib_contract_version invocation
          \<or> ab_definition_digest binding \<noteq> ib_definition_digest invocation
          \<or> ab_instance_id binding \<noteq> ib_instance_id invocation
          \<or> ab_instance_binding_digest binding \<noteq> ib_instance_binding_digest invocation)
        (TE_AuthorizationInvocationMismatch grant_id)) (\<lambda>_.
      and_then (map_err TE_AuthorizationDigest
        (once_authorization_id cr (ab_run_id binding) (ab_action_digest binding))) (\<lambda>expected_id.
      and_then (reject_if (grant_id \<noteq> expected_id) (TE_AuthorizationIdMismatch grant_id)) (\<lambda>_.
      and_then (map_err TE_AuthorizationDigest
        (authorization_digest cr binding (au_max_uses authorization))) (\<lambda>expected.
      reject_if (au_grant_digest authorization \<noteq> expected)
        (TE_AuthorizationDigestMismatch grant_id))))))))))))"

definition validate_receipt_provenance_binding ::
    "crypto \<Rightarrow> effect_intent \<Rightarrow> transition_error + unit" where
  "validate_receipt_provenance_binding cr intent =
     (case (ei_receipt_provenance intent,
            ab_receipt_provenance_digest (au_binding (ei_authorization intent))) of
        (Some provenance, Some expected) \<Rightarrow>
          and_then (map_err TE_AuthorizationDigest (receipt_provenance_digest cr provenance))
            (\<lambda>actual. reject_if (actual \<noteq> expected)
               (TE_ReceiptProvenanceDigestMismatch (ei_effect_id intent)))
      | (None, None) \<Rightarrow> Inr ()
      | _ \<Rightarrow> Inl (TE_ReceiptProvenanceBindingMismatch (ei_effect_id intent)))"

text \<open>
  The use of a one-shot grant; \<open>uses\<close> is below \<open>max_uses\<close> when it is incremented, so the
  addition does not wrap.
\<close>

definition consume_authorization ::
    "effect_intent \<Rightarrow> (string, authorization_consumption) btreemap
      \<Rightarrow> transition_error + (string, authorization_consumption) btreemap" where
  "consume_authorization intent consumed =
     (let authorization = ei_authorization intent;
          grant_id = au_grant_id authorization;
          consumption =
            (case bm_get consumed grant_id of
               Some c \<Rightarrow> c
             | None \<Rightarrow> \<lparr>ac_grant_digest = au_grant_digest authorization,
                       ac_max_uses = au_max_uses authorization, ac_uses = 0,
                       ac_effect_ids = bs_empty\<rparr>) in
      and_then (reject_if (ac_grant_digest consumption \<noteq> au_grant_digest authorization
          \<or> ac_max_uses consumption \<noteq> au_max_uses authorization)
        (TE_AuthorizationGrantChanged grant_id)) (\<lambda>_.
      and_then (reject_if (ac_uses consumption \<ge> ac_max_uses consumption)
        (TE_AuthorizationBudgetExceeded grant_id (ac_max_uses consumption))) (\<lambda>_.
      Inr (bm_insert grant_id
        (consumption\<lparr>ac_uses := ac_uses consumption + 1,
                     ac_effect_ids := bs_insert (ei_effect_id intent) (ac_effect_ids consumption)\<rparr>)
        consumed))))"

definition commit_effect_intent ::
    "crypto \<Rightarrow> run_state \<Rightarrow> string \<Rightarrow> effect_intent \<Rightarrow> transition_error + run_state" where
  "commit_effect_intent cr state step_id intent =
     and_then (validate_tool_output_profile intent) (\<lambda>_.
     and_then (validate_receipt_provenance_binding cr intent) (\<lambda>_.
     and_then (reject_if (au_max_uses (ei_authorization intent) \<noteq> 1)
       (TE_InvalidAuthorizationBudget (au_grant_id (ei_authorization intent)))) (\<lambda>_.
     and_then (reject_if (ei_sink_guarantee intent \<noteq> SinkNone
         \<and> empty_or_missing (ei_idempotency_key intent))
       (TE_SinkGuaranteeRequiresIdempotencyKey (ei_effect_id intent))) (\<lambda>_.
     and_then (reject_if (ei_effect_class intent = ReadOnly
         \<and> (ei_idempotency_key intent \<noteq> None \<or> ei_sink_guarantee intent \<noteq> SinkNone))
       (TE_ReadOnlyEffectSemanticsInvalid (ei_effect_id intent))) (\<lambda>_.
     and_then (reject_if (list_ex (\<lambda>step. case ss_intent step of None \<Rightarrow> False
           | Some existing \<Rightarrow> ei_effect_id existing = ei_effect_id intent)
         (bm_values (rs_steps state)))
       (TE_DuplicateEffect (ei_effect_id intent))) (\<lambda>_.
     and_then (step_mut state step_id) (\<lambda>step.
     and_then (require_status step Planned (EffectIntentCommitted step_id intent)) (\<lambda>_.
     and_then (first_unreleased_dependency state step) (\<lambda>first.
     and_then (case first of None \<Rightarrow> Inr ()
         | Some blocker \<Rightarrow> Inl (TE_DependencyNotReleased step_id (db_step_id blocker)
                                (db_reason blocker))) (\<lambda>_.
     and_then (validate_planned_invocation_binding cr step intent) (\<lambda>_.
     and_then (validate_authorization_binding cr state step_id intent) (\<lambda>_.
     and_then (consume_authorization intent (rs_authorization_consumption state)) (\<lambda>consumed.
     Inr (put_step step_id (step\<lparr>ss_status := IntentCommitted, ss_intent := Some intent\<rparr>)
       (state\<lparr>rs_authorization_consumption := consumed\<rparr>)))))))))))))))"

section \<open>Effect lifecycle\<close>

definition record_legacy_verification ::
    "run_state \<Rightarrow> string \<Rightarrow> step_status \<Rightarrow> run_event_body \<Rightarrow> transition_error + run_state" where
  "record_legacy_verification state step_id next_status body =
     and_then (step_mut state step_id) (\<lambda>step.
     and_then (require_status step Validating body) (\<lambda>_.
     Inr (put_step step_id (step\<lparr>ss_status := next_status\<rparr>) state)))"

definition record_execution_started ::
    "run_state \<Rightarrow> string \<Rightarrow> string \<Rightarrow> run_event_body \<Rightarrow> transition_error + run_state" where
  "record_execution_started state step_id effect_id body =
     and_then
       (case rs_agent_loop state of None \<Rightarrow> Inr ()
        | Some loop_state \<Rightarrow>
            and_then (total_attempts state) (\<lambda>starts.
            reject_if (starts \<ge> alb_max_tool_calls (als_budget loop_state))
              TE_ToolCallBudgetExceeded)) (\<lambda>_.
     and_then (matching_step_mut state step_id effect_id) (\<lambda>step.
     and_then (require_status step IntentCommitted body) (\<lambda>_.
     and_then (ok_or (TE_AttemptOverflow step_id) (checked_add (ss_attempts step) 1)) (\<lambda>attempts.
     Inr (put_step step_id (step\<lparr>ss_status := Executing, ss_attempts := attempts\<rparr>) state)))))"

definition record_effect_unknown ::
    "run_state \<Rightarrow> string \<Rightarrow> string \<Rightarrow> string \<Rightarrow> run_event_body \<Rightarrow> transition_error + run_state" where
  "record_effect_unknown state step_id effect_id reason body =
     and_then (matching_step_mut state step_id effect_id) (\<lambda>step.
     and_then (require_status step Executing body) (\<lambda>_.
     Inr (put_step step_id
       (step\<lparr>ss_status := EffectUnknown, ss_uncertainty_reason := Some reason\<rparr>) state)))"

definition start_reconciliation ::
    "run_state \<Rightarrow> string \<Rightarrow> string \<Rightarrow> run_event_body \<Rightarrow> transition_error + run_state" where
  "start_reconciliation state step_id effect_id body =
     and_then (matching_step_mut state step_id effect_id) (\<lambda>step.
     and_then (require_status step EffectUnknown body) (\<lambda>_.
     Inr (put_step step_id (step\<lparr>ss_status := Reconciling\<rparr>) state)))"

definition record_reconciliation ::
    "run_state \<Rightarrow> string \<Rightarrow> string \<Rightarrow> reconciliation_resolution \<Rightarrow> string \<Rightarrow> run_event_body
      \<Rightarrow> transition_error + run_state" where
  "record_reconciliation state step_id effect_id resolution evidence_digest body =
     and_then (matching_step_mut state step_id effect_id) (\<lambda>step.
     and_then (require_status step Reconciling body) (\<lambda>_.
     and_then (reject_if (resolution = ProvedApplied
         \<and> step_output_profile step = Some TOOL_OUTPUT_PROFILE_V1)
       (TE_ToolOutputRecordRequired effect_id)) (\<lambda>_.
     Inr (put_step step_id (step
       \<lparr>ss_status := (case resolution of ProvedApplied \<Rightarrow> Validating
                      | ProvedNotApplied \<Rightarrow> IntentCommitted | ReconcileFailed \<Rightarrow> Failed),
        ss_uncertainty_reason := None,
        ss_reconciliation_evidence_digest := Some evidence_digest\<rparr>) state))))"

definition record_manual_required ::
    "run_state \<Rightarrow> string \<Rightarrow> string \<Rightarrow> string \<Rightarrow> run_event_body \<Rightarrow> transition_error + run_state" where
  "record_manual_required state step_id effect_id reason body =
     and_then (matching_step_mut state step_id effect_id) (\<lambda>step.
     and_then (if ss_status step \<notin> {EffectUnknown, Reconciling} then invalid_transition step body
               else Inr ()) (\<lambda>_.
     Inr (put_step step_id
       (step\<lparr>ss_status := ManualRequired, ss_uncertainty_reason := Some reason\<rparr>) state)))"

definition record_effect_observation ::
    "run_state \<Rightarrow> string \<Rightarrow> string \<Rightarrow> string \<Rightarrow> string option \<Rightarrow> step_status \<Rightarrow> run_event_body
      \<Rightarrow> transition_error + run_state" where
  "record_effect_observation state step_id effect_id evidence_digest output_record_digest
      next_status body =
     and_then (matching_step_mut state step_id effect_id) (\<lambda>step.
     and_then (require_status step Executing body) (\<lambda>_.
     and_then
       (case output_record_digest of
          Some digest \<Rightarrow>
            and_then (reject_if (step_output_profile step \<noteq> Some TOOL_OUTPUT_PROFILE_V1)
              (TE_UnexpectedToolOutputRecord effect_id)) (\<lambda>_.
            reject_if (\<not> is_canonical_sha256 digest) (TE_InvalidToolOutputRecordDigest effect_id))
        | None \<Rightarrow>
            reject_if (step_output_profile step = Some TOOL_OUTPUT_PROFILE_V1
                \<and> next_status = Validating) (TE_ToolOutputRecordRequired effect_id)) (\<lambda>_.
     Inr (put_step step_id (step
       \<lparr>ss_status := next_status, ss_effect_evidence_digest := Some evidence_digest,
        ss_output_record_digest := output_record_digest\<rparr>) state))))"

definition record_verification ::
    "run_state \<Rightarrow> string \<Rightarrow> string \<Rightarrow> verification_disposition \<Rightarrow> string \<Rightarrow> string \<Rightarrow> run_event_body
      \<Rightarrow> transition_error + run_state" where
  "record_verification state step_id effect_id disposition receipt_id receipt_digest body =
     and_then (matching_step_mut state step_id effect_id) (\<lambda>step.
     and_then (require_status step Validating body) (\<lambda>_.
     Inr (put_step step_id (step
       \<lparr>ss_status := (case disposition of VerdictPassed \<Rightarrow> Completed | VerdictFailed \<Rightarrow> Failed
                      | VerdictInconclusive \<Rightarrow> ManualRequired),
        ss_execution_receipt_id := Some receipt_id,
        ss_execution_receipt_digest := Some receipt_digest,
        ss_uncertainty_reason := (case disposition of VerdictPassed \<Rightarrow> None | VerdictFailed \<Rightarrow> None
                      | VerdictInconclusive \<Rightarrow> Some ''verification_inconclusive'')\<rparr>) state)))"

definition mark_material_unavailable ::
    "run_state \<Rightarrow> string \<Rightarrow> string \<Rightarrow> invocation_material_unavailable_reason \<Rightarrow> run_event_body
      \<Rightarrow> transition_error + run_state" where
  "mark_material_unavailable state step_id effect_id reason body =
     and_then (matching_step_mut state step_id effect_id) (\<lambda>step.
     and_then (require_status step IntentCommitted body) (\<lambda>_.
     Inr (put_step step_id (step
       \<lparr>ss_status := ManualRequired,
        ss_uncertainty_reason := Some (unavailable_reason_code reason)\<rparr>) state)))"

definition apply_effect_lifecycle ::
    "run_state \<Rightarrow> run_event_body \<Rightarrow> transition_error + run_state" where
  "apply_effect_lifecycle state body =
     (case body of
        InvocationMaterialUnavailable step_id effect_id reason \<Rightarrow>
          mark_material_unavailable state step_id effect_id reason body
      | EffectExecutionStarted step_id effect_id \<Rightarrow>
          record_execution_started state step_id effect_id body
      | EffectSucceeded step_id effect_id evidence_digest output_record_digest \<Rightarrow>
          record_effect_observation state step_id effect_id evidence_digest output_record_digest
            Validating body
      | EffectFailed step_id effect_id evidence_digest \<Rightarrow>
          record_effect_observation state step_id effect_id evidence_digest None Failed body
      | EffectBecameUnknown step_id effect_id reason \<Rightarrow>
          record_effect_unknown state step_id effect_id reason body
      | ReconciliationStarted step_id effect_id \<Rightarrow>
          start_reconciliation state step_id effect_id body
      | ReconciliationResolved step_id effect_id resolution evidence_digest \<Rightarrow>
          record_reconciliation state step_id effect_id resolution evidence_digest body
      | ManualInterventionRequired step_id effect_id reason \<Rightarrow>
          record_manual_required state step_id effect_id reason body
      | VerificationPassed step_id \<Rightarrow> record_legacy_verification state step_id Completed body
      | VerificationFailed step_id _ \<Rightarrow> record_legacy_verification state step_id Failed body
      | VerificationRecorded step_id effect_id disposition receipt_id receipt_digest \<Rightarrow>
          record_verification state step_id effect_id disposition receipt_id receipt_digest body
      | _ \<Rightarrow> Inl (TE_Panic ''handled by apply_body''))"

section \<open>Records and replay\<close>

definition apply_body ::
    "crypto \<Rightarrow> run_state \<Rightarrow> run_event_body \<Rightarrow> transition_error + run_state" where
  "apply_body cr state body =
     (case body of
        RunCreated _ \<Rightarrow> Inl (TE_Panic ''handled by apply_record'')
      | AgentLoopConfigured budget \<Rightarrow> configure_agent_loop state budget
      | ModelCallLifecycleConfigured budget \<Rightarrow> configure_model_call_lifecycle state budget
      | ModelCallReserved reservation \<Rightarrow> reserve_model_call cr state reservation
      | ModelCallBecameUnknown call_id reason \<Rightarrow> mark_model_call_unknown state call_id reason
      | ModelCallSettled call_id settlement \<Rightarrow> settle_model_call state call_id settlement
      | PlanAccepted decision steps \<Rightarrow> accept_plan cr state decision steps
      | CompletionCandidateRecorded decision candidate_id summary_digest output_digest \<Rightarrow>
          record_completion_candidate state decision candidate_id summary_digest output_digest
      | StepPlanned step_id objective depends_on \<Rightarrow>
          plan_step state step_id objective depends_on None
      | EffectIntentCommitted step_id intent \<Rightarrow> commit_effect_intent cr state step_id intent
      | _ \<Rightarrow> apply_effect_lifecycle state body)"

definition verify_record_against_state ::
    "crypto \<Rightarrow> run_state option \<Rightarrow> event_record \<Rightarrow> transition_error + unit" where
  "verify_record_against_state cr current rec =
     and_then (case current of None \<Rightarrow> Inr 1
         | Some state \<Rightarrow> ok_or (TE_Record RE_SequenceOverflow)
             (checked_add (rs_journal_sequence state) 1)) (\<lambda>expected_sequence.
     and_then (reject_if (er_sequence rec \<noteq> expected_sequence)
       (TE_UnexpectedSequence expected_sequence (er_sequence rec))) (\<lambda>_.
     let expected_previous = map_option rs_journal_head_digest current in
     and_then (reject_if (er_previous_digest rec \<noteq> expected_previous)
       (TE_PreviousDigestMismatch (er_sequence rec) expected_previous
         (er_previous_digest rec))) (\<lambda>_.
     and_then (map_err TE_Record (verify_digest cr rec)) (\<lambda>_.
     case current of None \<Rightarrow> Inr ()
     | Some state \<Rightarrow>
         and_then (reject_if (re_run_id (er_event rec) \<noteq> rs_run_id state) TE_RunIdMismatch) (\<lambda>_.
         and_then (reject_if (re_authority (er_event rec) \<noteq> rs_authority state)
           TE_AuthorityMismatch) (\<lambda>_.
         reject_if (re_authority_epoch (er_event rec) \<noteq> rs_authority_epoch state)
           TE_AuthorityEpochMismatch))))))"

definition initial_state :: "event_record \<Rightarrow> string \<Rightarrow> run_state" where
  "initial_state rec goal =
     \<lparr>rs_run_id = re_run_id (er_event rec), rs_authority = re_authority (er_event rec),
      rs_authority_epoch = re_authority_epoch (er_event rec), rs_goal = goal,
      rs_revision = 0, rs_journal_sequence = 0, rs_journal_head_digest = [],
      rs_steps = bm_empty, rs_authorization_consumption = bm_empty, rs_agent_loop = None\<rparr>"

definition advance_head :: "event_record \<Rightarrow> run_state \<Rightarrow> run_state" where
  "advance_head rec state =
     state\<lparr>rs_revision := er_sequence rec, rs_journal_sequence := er_sequence rec,
           rs_journal_head_digest := er_digest rec\<rparr>"

definition apply_record ::
    "crypto \<Rightarrow> run_state option \<Rightarrow> event_record \<Rightarrow> transition_error + run_state" where
  "apply_record cr current rec =
     and_then (verify_record_against_state cr current rec) (\<lambda>_.
     and_then
       (case (current, re_body (er_event rec)) of
          (None, RunCreated goal) \<Rightarrow> Inr (initial_state rec goal)
        | (None, _) \<Rightarrow> Inl TE_FirstEventMustCreateRun
        | (Some _, RunCreated _) \<Rightarrow> Inl TE_RunAlreadyCreated
        | (Some state, _) \<Rightarrow> Inr state) (\<lambda>state.
     and_then (if current \<noteq> None then apply_body cr state (re_body (er_event rec)) else Inr state)
       (\<lambda>state'. Inr (advance_head rec state'))))"

fun replay_transition_error :: "transition_error \<Rightarrow> replay_error" where
  "replay_transition_error (TE_UnexpectedSequence expected actual) =
     RPE_UnexpectedSequence expected actual"
| "replay_transition_error (TE_PreviousDigestMismatch seq expected actual) =
     RPE_PreviousDigestMismatch seq expected actual"
| "replay_transition_error (TE_Record error) = RPE_Record error"
| "replay_transition_error error = RPE_Transition error"

definition replay_record ::
    "crypto \<Rightarrow> event_record \<Rightarrow> run_state option \<Rightarrow> replay_error + run_state option" where
  "replay_record cr rec state =
     and_then (map_err replay_transition_error (apply_record cr state rec)) (\<lambda>state'.
     Inr (Some state'))"

definition replay :: "crypto \<Rightarrow> event_record list \<Rightarrow> replay_error + run_state" where
  "replay cr records =
     and_then (try_fold (replay_record cr) records None) (\<lambda>state. ok_or RPE_EmptyJournal state)"

end
