(* ===== verification/Frontier_Correctness.thy ===== *)
theory Frontier_Correctness
  imports Frontier
begin

text \<open>
  Correctness of the frontier. The abstract specification is relational: \<open>step_blocked\<close> is the
  least set of steps whose dependents can never run, \<open>slot_of\<close> says where a step belongs.
  The traversal is shown to follow a topological order (\<open>topo_order\<close>), to classify each step
  by its slot, to fail exactly on malformed or cyclic graphs and on active steps with an
  unreleased dependency, and never to panic.
\<close>

section \<open>Specification\<close>

definition step_deps :: "run_state \<Rightarrow> string \<Rightarrow> string list" where
  "step_deps s v = (case bm_get (rs_steps s) v of None \<Rightarrow> [] | Some st \<Rightarrow> ss_depends_on st)"

definition dep_edges :: "run_state \<Rightarrow> (string \<times> string) set" where
  "dep_edges s = {(d, v). d \<in> set (step_deps s v)}"

definition graph_wf :: "run_state \<Rightarrow> bool" where
  "graph_wf s \<longleftrightarrow> (\<forall>v. distinct (step_deps s v) \<and> v \<notin> set (step_deps s v)
     \<and> (\<forall>d \<in> set (step_deps s v). bm_contains_key (rs_steps s) d))"

definition released :: "run_state \<Rightarrow> string \<Rightarrow> bool" where
  "released s v \<longleftrightarrow>
     (case bm_get (rs_steps s) v of None \<Rightarrow> False | Some st \<Rightarrow> receipt_releases_dependency st)"

text \<open>A step is active when it has left the \<open>Planned\<close> state.\<close>

definition active_step :: "run_state \<Rightarrow> string \<Rightarrow> bool" where
  "active_step s v \<longleftrightarrow>
     (case bm_get (rs_steps s) v of None \<Rightarrow> False | Some st \<Rightarrow> ss_status st \<noteq> Planned)"

definition actives_released :: "run_state \<Rightarrow> bool" where
  "actives_released s \<longleftrightarrow> (\<forall>v. active_step s v \<longrightarrow> (\<forall>d \<in> set (step_deps s v). released s d))"

inductive step_blocked :: "run_state \<Rightarrow> string \<Rightarrow> bool" for s :: run_state where
  terminal: "bm_get (rs_steps s) v = Some st \<Longrightarrow> ss_status st \<in> {Completed, Failed, ManualRequired}
     \<Longrightarrow> \<not> receipt_releases_dependency st \<Longrightarrow> step_blocked s v"
| inherited: "bm_get (rs_steps s) v = Some st \<Longrightarrow> ss_status st = Planned
     \<Longrightarrow> d \<in> set (ss_depends_on st) \<Longrightarrow> step_blocked s d \<Longrightarrow> step_blocked s v"

definition outcome_of :: "run_state \<Rightarrow> string \<Rightarrow> dependency_outcome" where
  "outcome_of s v = (if released s v then Satisfied else if step_blocked s v then Blocked else Pending)"

definition pending_of :: "run_state \<Rightarrow> string \<Rightarrow> string list" where
  "pending_of s v = sort (filter (\<lambda>d. outcome_of s d = Pending) (step_deps s v))"

definition blockers_of :: "run_state \<Rightarrow> string \<Rightarrow> dependency_blocker list" where
  "blockers_of s v = remdups_adj (sort (map
     (\<lambda>d. DependencyBlocker d (blocker_reason (the (bm_get (rs_steps s) d))))
     (filter (\<lambda>d. outcome_of s d = Blocked) (step_deps s v))))"

datatype frontier_slot =
    SlotAction nat continuation_action
  | SlotWaiting "string list"
  | SlotBlocked "dependency_blocker list"
  | SlotVerified | SlotUnverified | SlotFailed | SlotManual

definition slot_of :: "run_state \<Rightarrow> string \<Rightarrow> frontier_slot" where
  "slot_of s v = (case bm_get (rs_steps s) v of None \<Rightarrow> SlotFailed | Some st \<Rightarrow>
     (case ss_status st of
        Planned \<Rightarrow>
          if blockers_of s v \<noteq> [] then SlotBlocked (blockers_of s v)
          else if pending_of s v \<noteq> [] then SlotWaiting (pending_of s v)
          else SlotAction 5 Admit
      | IntentCommitted \<Rightarrow> SlotAction 4 DriveEffect
      | Executing \<Rightarrow> SlotAction 0 DriveEffect
      | EffectUnknown \<Rightarrow> SlotAction 1 DriveEffect
      | Reconciling \<Rightarrow> SlotAction 2 DriveEffect
      | Validating \<Rightarrow> SlotAction 3 Verify
      | Completed \<Rightarrow> if receipt_releases_dependency st then SlotVerified else SlotUnverified
      | Failed \<Rightarrow> SlotFailed
      | ManualRequired \<Rightarrow> SlotManual))"

text \<open>The assembly after a sequence of processed steps.\<close>

definition assemble :: "run_state \<Rightarrow> string list \<Rightarrow> frontier_assembly" where
  "assemble s ord =
     \<lparr>fa_outcomes = foldl (\<lambda>m v. bm_insert v (outcome_of s v) m) bm_empty ord,
      fa_ranked_actions = List.map_filter
        (\<lambda>v. case slot_of s v of SlotAction r a \<Rightarrow> Some (r, v, a) | _ \<Rightarrow> None) ord,
      fa_waiting = List.map_filter
        (\<lambda>v. case slot_of s v of
           SlotWaiting ds \<Rightarrow> Some \<lparr>ws_step_id = v, ws_pending_dependencies = ds\<rparr> | _ \<Rightarrow> None) ord,
      fa_blocked = List.map_filter
        (\<lambda>v. case slot_of s v of
           SlotBlocked bs \<Rightarrow> Some \<lparr>bst_step_id = v, bst_blockers = bs\<rparr> | _ \<Rightarrow> None) ord,
      fa_verified_completed_step_ids = filter (\<lambda>v. slot_of s v = SlotVerified) ord,
      fa_unverified_completed_step_ids = filter (\<lambda>v. slot_of s v = SlotUnverified) ord,
      fa_failed_step_ids = filter (\<lambda>v. slot_of s v = SlotFailed) ord,
      fa_manual_required_step_ids = filter (\<lambda>v. slot_of s v = SlotManual) ord,
      fa_processed = length ord\<rparr>"

inductive topo_order :: "run_state \<Rightarrow> string list \<Rightarrow> bool" for s :: run_state where
  topo_empty: "topo_order s []"
| topo_snoc: "topo_order s ord \<Longrightarrow> bm_contains_key (rs_steps s) v \<Longrightarrow> v \<notin> set ord
     \<Longrightarrow> set (step_deps s v) \<subseteq> set ord \<Longrightarrow> topo_order s (ord @ [v])"

section \<open>Facts about the specification\<close>

lemma step_blocked_iff:
  "step_blocked s v \<longleftrightarrow> (\<exists>st. bm_get (rs_steps s) v = Some st \<and>
     (ss_status st \<in> {Completed, Failed, ManualRequired} \<and> \<not> receipt_releases_dependency st
      \<or> ss_status st = Planned \<and> (\<exists>d \<in> set (ss_depends_on st). step_blocked s d)))"
  by (subst step_blocked.simps) blast

lemma released_not_blocked: "released s v \<Longrightarrow> \<not> step_blocked s v"
  by (subst step_blocked_iff) (auto simp: released_def receipt_releases_dependency_def)

lemma outcome_of_iff:
  "outcome_of s v = Satisfied \<longleftrightarrow> released s v"
  "outcome_of s v = Blocked \<longleftrightarrow> step_blocked s v"
  "outcome_of s v = Pending \<longleftrightarrow> \<not> released s v \<and> \<not> step_blocked s v"
  by (auto simp: outcome_of_def dest: released_not_blocked)

lemma set_pending_of:
  "set (pending_of s v) = {d \<in> set (step_deps s v). \<not> released s d \<and> \<not> step_blocked s d}"
  by (auto simp: pending_of_def outcome_of_iff)

lemma set_blockers_of:
  "set (blockers_of s v) = (\<lambda>d. DependencyBlocker d (blocker_reason (the (bm_get (rs_steps s) d))))
     ` {d \<in> set (step_deps s v). step_blocked s d}"
  by (auto simp: blockers_of_def outcome_of_iff)

lemma blockers_of_Nil_iff: "blockers_of s v = [] \<longleftrightarrow> (\<forall>d \<in> set (step_deps s v). \<not> step_blocked s d)"
proof -
  have "blockers_of s v = [] \<longleftrightarrow> set (blockers_of s v) = {}" by simp
  then show ?thesis unfolding set_blockers_of by blast
qed

lemma pending_of_Nil_iff:
  "pending_of s v = [] \<longleftrightarrow> (\<forall>d \<in> set (step_deps s v). released s d \<or> step_blocked s d)"
proof -
  have "pending_of s v = [] \<longleftrightarrow> set (pending_of s v) = {}" by simp
  then show ?thesis unfolding set_pending_of by blast
qed

lemma none_outstanding_iff:
  "blockers_of s v = [] \<and> pending_of s v = [] \<longleftrightarrow> (\<forall>d \<in> set (step_deps s v). released s d)"
  by (auto simp: blockers_of_Nil_iff pending_of_Nil_iff dest: released_not_blocked)

lemma topo_order_distinct: "topo_order s ord \<Longrightarrow> distinct ord"
  by (induction rule: topo_order.induct) simp_all

lemma topo_order_steps:
  "topo_order s ord \<Longrightarrow> v \<in> set ord \<Longrightarrow> bm_contains_key (rs_steps s) v"
  by (induction rule: topo_order.induct) auto

lemma topo_order_closed:
  "topo_order s ord \<Longrightarrow> v \<in> set ord \<Longrightarrow> d \<in> set (step_deps s v) \<Longrightarrow> d \<in> set ord"
  by (induction rule: topo_order.induct) auto

lemma topo_order_acc: "topo_order s ord \<Longrightarrow> \<forall>v \<in> set ord. v \<in> Wellfounded.acc (dep_edges s)"
proof (induction rule: topo_order.induct)
  case (topo_snoc ord w)
  have "w \<in> Wellfounded.acc (dep_edges s)"
  proof (rule Wellfounded.accI)
    fix d
    assume "(d, w) \<in> dep_edges s"
    then have "d \<in> set ord" using topo_snoc.hyps by (auto simp: dep_edges_def)
    then show "d \<in> Wellfounded.acc (dep_edges s)" using topo_snoc.IH by blast
  qed
  then show ?case using topo_snoc.IH by simp
qed simp

lemmas topo_order_facts = topo_order_distinct topo_order_steps topo_order_closed topo_order_acc

lemma topo_order_complete_acyclic:
  assumes "topo_order s ord" and "\<And>v. bm_contains_key (rs_steps s) v \<Longrightarrow> v \<in> set ord"
  shows "acyclic (dep_edges s)"
proof -
  have "v \<in> Wellfounded.acc (dep_edges s)" for v
  proof (cases "bm_contains_key (rs_steps s) v")
    case True
    then show ?thesis using assms topo_order_acc by blast
  next
    case False
    then have "\<And>d. (d, v) \<notin> dep_edges s"
      by (auto simp: dep_edges_def step_deps_def bm_contains_key_def split: option.splits)
    then show ?thesis by (auto intro: Wellfounded.accI)
  qed
  then have "wf (dep_edges s)" by (simp add: wf_iff_acc)
  then show ?thesis by (rule wf_acyclic)
qed

lemma finite_dep_edges: "finite (dep_edges s)"
proof -
  have "v \<in> dom (bm_get (rs_steps s))" if "d \<in> set (step_deps s v)" for d v
    using that by (cases "bm_get (rs_steps s) v") (auto simp: step_deps_def)
  then have "dep_edges s \<subseteq> (\<Union>v \<in> dom (bm_get (rs_steps s)). set (step_deps s v) \<times> {v})"
    unfolding dep_edges_def by blast
  then show ?thesis
    by (rule finite_subset) (simp add: bm.finite_dom)
qed

lemma stuck_cycle:
  assumes wf: "graph_wf s" and ac: "acyclic (dep_edges s)"
    and stuck: "\<And>v. bm_contains_key (rs_steps s) v \<Longrightarrow> v \<notin> P \<Longrightarrow> \<not> set (step_deps s v) \<subseteq> P"
    and v: "bm_contains_key (rs_steps s) v"
  shows "v \<in> P"
proof -
  have "wf (dep_edges s)"
    using finite_dep_edges ac by (rule finite_acyclic_wf)
  then show ?thesis
    using v
  proof (induction v rule: wf_induct_rule)
    case (less v)
    have "set (step_deps s v) \<subseteq> P"
      using less wf by (auto simp: dep_edges_def graph_wf_def)
    then show ?case using stuck less.prems by blast
  qed
qed

section \<open>Validation accepts exactly the well-formed graphs\<close>

definition deps_ok :: "('a::linorder, 'b) btreemap \<Rightarrow> 'a \<Rightarrow> 'a list \<Rightarrow> bool" where
  "deps_ok m v ds \<longleftrightarrow> distinct ds \<and> v \<notin> set ds \<and> (\<forall>d \<in> set ds. bm_contains_key m d)"

lemma validate_dependency_Inr_iff:
  "validate_dependency v d (u, m) = Inr x \<longleftrightarrow> d \<noteq> v \<and> \<not> bs_contains u d \<and>
     (\<exists>c. bm_get m d = Some c \<and> x = (bs_insert d u, bm_insert d (c @ [v]) m))"
  by (auto simp: validate_dependency_def result_simps)

lemma validate_graph_step_Inr_iff:
  "validate_graph_step (v, st) (r, m) = Inr x \<longleftrightarrow>
     (\<exists>u' m'. try_fold (validate_dependency v) (ss_depends_on st) (bs_empty, m) = Inr (u', m')
       \<and> x = (bm_insert v (length (ss_depends_on st)) r, m'))"
  by (auto simp: validate_graph_step_def result_simps)

lemma validate_deps_sound:
  assumes "try_fold (validate_dependency v) ds (u, m) = Inr (u', m')"
  shows "deps_ok m v ds \<and> (\<forall>d \<in> set ds. \<not> bs_contains u d) \<and>
    (\<forall>x. bm_get m' x = map_option (\<lambda>c. if x \<in> set ds then c @ [v] else c) (bm_get m x))"
  using assms
proof (induction ds arbitrary: u m)
  case (Cons d ds)
  from Cons.prems obtain c where d: "d \<noteq> v" "\<not> bs_contains u d" "bm_get m d = Some c"
    and rec: "try_fold (validate_dependency v) ds (bs_insert d u, bm_insert d (c @ [v]) m) = Inr (u', m')"
    by (auto simp: validate_dependency_Inr_iff result_simps)
  from Cons.IH [OF rec] d show ?case
    by (auto simp: deps_ok_def bm_contains_key_def split: if_splits)
qed (simp add: deps_ok_def option.map_ident)

lemma validate_deps_complete:
  assumes "deps_ok m v ds" and "\<forall>d \<in> set ds. \<not> bs_contains u d"
  shows "\<exists>r. try_fold (validate_dependency v) ds (u, m) = Inr r"
  using assms
proof (induction ds arbitrary: u m)
  case (Cons d ds)
  then obtain c where c: "bm_get m d = Some c"
    by (auto simp: deps_ok_def bm_contains_key_def)
  with Cons.prems have "validate_dependency v d (u, m)
      = Inr (bs_insert d u, bm_insert d (c @ [v]) m)"
    by (auto simp: validate_dependency_Inr_iff deps_ok_def)
  moreover have "\<exists>r. try_fold (validate_dependency v) ds (bs_insert d u, bm_insert d (c @ [v]) m) = Inr r"
    using Cons.prems by (intro Cons.IH) (auto simp: deps_ok_def)
  ultimately show ?case by simp
qed simp

text \<open>What the outer loop leaves for one key, after the entries \<open>es\<close>.\<close>

definition children_in :: "string \<Rightarrow> (string \<times> step_state) list \<Rightarrow> string list" where
  "children_in d es = map fst (filter (\<lambda>(v, st). d \<in> set (ss_depends_on st)) es)"

lemma validate_steps_sound:
  assumes "try_fold validate_graph_step es (r, m) = Inr (r', m')" and "distinct (map fst es)"
  shows "(\<forall>(v, st) \<in> set es. deps_ok m v (ss_depends_on st)) \<and>
    (\<forall>x. bm_get m' x = map_option (\<lambda>c. c @ children_in x es) (bm_get m x)) \<and>
    (\<forall>x. bm_get r' x = (case map_of es x of None \<Rightarrow> bm_get r x
                        | Some st \<Rightarrow> Some (length (ss_depends_on st))))"
  using assms
proof (induction es arbitrary: r m)
  case (Cons e es)
  obtain v st where e: "e = (v, st)" by (cases e)
  from Cons.prems(1) obtain u1 m1 where
    step: "try_fold (validate_dependency v) (ss_depends_on st) (bs_empty, m) = Inr (u1, m1)"
    and rec: "try_fold validate_graph_step es (bm_insert v (length (ss_depends_on st)) r, m1)
      = Inr (r', m')"
    by (auto simp: e validate_graph_step_Inr_iff result_simps)
  note d = validate_deps_sound [OF step]
  have keys: "bm_contains_key m1 x = bm_contains_key m x" for x
    using d by (simp add: bm_contains_key_def)
  have ok: "deps_ok m1 w ds = deps_ok m w ds" for w ds
    by (simp add: deps_ok_def keys)
  from Cons.IH [OF rec] Cons.prems(2) have IH:
    "\<forall>(v, st) \<in> set es. deps_ok m v (ss_depends_on st)"
    "\<And>x. bm_get m' x = map_option (\<lambda>c. c @ children_in x es) (bm_get m1 x)"
    "\<And>x. bm_get r' x = (case map_of es x of
        None \<Rightarrow> bm_get (bm_insert v (length (ss_depends_on st)) r) x
      | Some st \<Rightarrow> Some (length (ss_depends_on st)))"
    by (simp_all add: ok e)
  have "map_of es v = None"
    using Cons.prems(2) by (simp add: e map_of_eq_None_iff)
  with IH d show ?case
    by (auto simp: e children_in_def option.map_comp comp_def split: option.splits)
qed (simp add: children_in_def option.map_ident)

lemma validate_steps_complete:
  assumes "\<forall>(v, st) \<in> set es. deps_ok m v (ss_depends_on st)"
  shows "\<exists>x. try_fold validate_graph_step es (r, m) = Inr x"
  using assms
proof (induction es arbitrary: r m)
  case (Cons e es)
  obtain v st where e: "e = (v, st)" by (cases e)
  then obtain u1 m1 where
    step: "try_fold (validate_dependency v) (ss_depends_on st) (bs_empty, m) = Inr (u1, m1)"
    using Cons.prems validate_deps_complete [of m v "ss_depends_on st" bs_empty] by auto
  have keys: "bm_contains_key m1 x = bm_contains_key m x" for x
    using validate_deps_sound [OF step] by (simp add: bm_contains_key_def)
  have "\<exists>x. try_fold validate_graph_step es (bm_insert v (length (ss_depends_on st)) r, m1) = Inr x"
    using Cons.prems by (intro Cons.IH) (auto simp: deps_ok_def keys)
  then show ?case
    using step by (auto simp: e validate_graph_step_Inr_iff and_then_Inr_iff)
qed simp

lemma graph_wf_entries:
  "graph_wf s \<longleftrightarrow> (\<forall>(v, st) \<in> set (bm_entries (rs_steps s)).
     deps_ok (bm_map_values (\<lambda>_. [] :: string list) (rs_steps s)) v (ss_depends_on st))"
proof -
  have keys: "bm_contains_key (bm_map_values (\<lambda>_. [] :: string list) (rs_steps s)) d
      = bm_contains_key (rs_steps s) d" for d
    by (simp add: bm_contains_key_def)
  have "graph_wf s \<longleftrightarrow> (\<forall>v st. bm_get (rs_steps s) v = Some st \<longrightarrow> deps_ok (rs_steps s) v (ss_depends_on st))"
    unfolding graph_wf_def step_deps_def deps_ok_def by (auto split: option.splits)
  also have "\<dots> \<longleftrightarrow> (\<forall>(v, st) \<in> set (bm_entries (rs_steps s)). deps_ok (rs_steps s) v (ss_depends_on st))"
    by (auto simp: bm.in_entries_iff)
  finally show ?thesis by (simp add: deps_ok_def keys)
qed

lemma set_children_in:
  "set (children_in d (bm_entries (rs_steps s))) = {v. d \<in> set (step_deps s v)}"
  by (force simp: children_in_def step_deps_def bm.in_entries_iff split: option.splits)

lemma distinct_children_in: "distinct (children_in d (bm_entries m))"
  using bm.distinct_keys [of m] by (simp add: children_in_def distinct_map_filter)

lemma validate_frontier_graph_sound:
  assumes "validate_frontier_graph s = Inr g"
  shows "graph_wf s"
    and "bm_get (vfg_remaining_dependencies g) v = map_option (\<lambda>st. length (ss_depends_on st)) (bm_get (rs_steps s) v)"
    and "bm_contains_key (rs_steps s) d \<Longrightarrow> \<exists>cs. bm_get (vfg_dependents g) d = Some cs \<and> distinct cs
           \<and> set cs = {v. d \<in> set (step_deps s v)}"
    and "bs_contains (vfg_zero_indegree g) v \<longleftrightarrow> bm_contains_key (rs_steps s) v \<and> step_deps s v = []"
proof -
  obtain r m where steps: "try_fold validate_graph_step (bm_entries (rs_steps s))
      (bm_empty, bm_map_values (\<lambda>_. []) (rs_steps s)) = Inr (r, m)"
    and g: "vfg_remaining_dependencies g = r" "vfg_dependents g = bm_map_values sort m"
      "vfg_zero_indegree g = bs_of_list (map fst (filter (\<lambda>(_, count). count = 0) (bm_entries r)))"
    using assms by (auto simp: validate_frontier_graph_def result_simps)
  note facts = validate_steps_sound [OF steps bm.distinct_keys]
  show "graph_wf s" using facts by (simp add: graph_wf_entries)
  have r: "bm_get r v = map_option (\<lambda>st. length (ss_depends_on st)) (bm_get (rs_steps s) v)" for v
    using facts by (simp add: bm_get_def split: option.splits)
  then show "bm_get (vfg_remaining_dependencies g) v
      = map_option (\<lambda>st. length (ss_depends_on st)) (bm_get (rs_steps s) v)"
    by (simp add: g)
  show "\<exists>cs. bm_get (vfg_dependents g) d = Some cs \<and> distinct cs \<and> set cs = {v. d \<in> set (step_deps s v)}"
    if "bm_contains_key (rs_steps s) d"
    using that facts by (auto simp: g bm_contains_key_def set_children_in distinct_children_in)
  have "bs_contains (vfg_zero_indegree g) v \<longleftrightarrow> bm_get r v = Some 0"
    by (force simp: g simp flip: bm.in_entries_iff)
  then show "bs_contains (vfg_zero_indegree g) v \<longleftrightarrow> bm_contains_key (rs_steps s) v \<and> step_deps s v = []"
    by (auto simp: r bm_contains_key_def step_deps_def)
qed

lemma validate_frontier_graph_complete: "graph_wf s \<Longrightarrow> \<exists>g. validate_frontier_graph s = Inr g"
  unfolding graph_wf_entries validate_frontier_graph_def
  by (drule validate_steps_complete [where r = bm_empty]) (auto simp: result_simps)

section \<open>One traversal step\<close>

lemma release_child_Inr:
  "bm_get r c = Some n \<Longrightarrow> 0 < n \<Longrightarrow>
     release_child c (r, z) = Inr (bm_insert c (n - 1) r, if n = 1 then bs_insert c z else z)"
  by (auto simp: release_child_def)

lemma release_children:
  assumes "distinct cs" and "\<forall>c \<in> set cs. \<exists>n. bm_get r c = Some n \<and> 0 < n"
  shows "\<exists>r' z'. try_fold release_child cs (r, z) = Inr (r', z')
    \<and> (\<forall>x. bm_get r' x = (if x \<in> set cs then map_option (\<lambda>n. n - 1) (bm_get r x) else bm_get r x))
    \<and> (\<forall>x. bs_contains z' x \<longleftrightarrow> bs_contains z x \<or> x \<in> set cs \<and> bm_get r x = Some 1)"
  using assms
proof (induction cs arbitrary: r z)
  case (Cons c cs)
  then obtain n where n: "bm_get r c = Some n" "0 < n" by auto
  have "\<forall>c' \<in> set cs. \<exists>n'. bm_get (bm_insert c (n - 1) r) c' = Some n' \<and> 0 < n'"
    using Cons.prems by auto
  from Cons.IH [OF _ this, of "if n = 1 then bs_insert c z else z"] Cons.prems(1)
  show ?case
    using n by (force simp: release_child_Inr split: if_splits)
qed simp

lemma outcomes_assemble:
  "bm_get (fa_outcomes (assemble s ord)) v = (if v \<in> set ord then Some (outcome_of s v) else None)"
proof -
  have "bm_get (foldl (\<lambda>m v. bm_insert v (outcome_of s v) m) m ord) v
      = (if v \<in> set ord then Some (outcome_of s v) else bm_get m v)" for m
    by (induction ord arbitrary: m) auto
  then show ?thesis by (simp add: assemble_def)
qed

lemma partition_fold:
  assumes "\<forall>d \<in> set ds. bm_get (fa_outcomes fa) d = Some (outcome_of s d)"
    and "\<forall>d \<in> set ds. bm_contains_key (rs_steps s) d"
  shows "try_fold (partition_dependency s fa) ds (p, b) =
    Inr (p @ filter (\<lambda>d. outcome_of s d = Pending) ds,
         b @ map (\<lambda>d. DependencyBlocker d (blocker_reason (the (bm_get (rs_steps s) d))))
               (filter (\<lambda>d. outcome_of s d = Blocked) ds))"
  using assms
proof (induction ds arbitrary: p b)
  case (Cons d ds)
  then obtain st where st: "bm_get (rs_steps s) d = Some st"
    by (auto simp: bm_contains_key_def)
  have "partition_dependency s fa d (p, b) = Inr
      (if outcome_of s d = Pending then p @ [d] else p,
       if outcome_of s d = Blocked then b @ [DependencyBlocker d (blocker_reason st)] else b)"
    using Cons.prems st by (cases "outcome_of s d") (simp_all add: partition_dependency_def)
  then show ?case
    using Cons st by simp
qed simp

lemma record_status_slot:
  assumes "bm_get (rs_steps s) v = Some st" and "fa = (assemble s ord)\<lparr>fa_processed := n\<rparr>"
  shows "record_status v st (pending_of s v) (blockers_of s v) fa =
    ((assemble s (ord @ [v]))\<lparr>fa_outcomes := fa_outcomes (assemble s ord), fa_processed := n\<rparr>,
     outcome_of s v)"
proof -
  have blocked: "step_blocked s v \<longleftrightarrow>
      ss_status st \<in> {Completed, Failed, ManualRequired} \<and> \<not> receipt_releases_dependency st
      \<or> ss_status st = Planned \<and> blockers_of s v \<noteq> []"
    using assms(1) by (subst step_blocked_iff) (auto simp: blockers_of_Nil_iff step_deps_def)
  have rel: "released s v \<longleftrightarrow> receipt_releases_dependency st"
    using assms(1) by (simp add: released_def)
  have nrel: "\<not> receipt_releases_dependency st" if "ss_status st \<noteq> Completed"
    using that by (simp add: receipt_releases_dependency_def)
  show ?thesis
    using assms blocked rel nrel
    by (cases "ss_status st")
      (auto simp: record_status_def push_action_def assemble_def slot_of_def outcome_of_def
        map_filter_def)
qed

text \<open>The error an active step with an unreleased dependency raises.\<close>

definition active_error :: "run_state \<Rightarrow> string \<Rightarrow> frontier_error" where
  "active_error s v = (case blockers_of s v of
       b # _ \<Rightarrow> FE_ActiveDependencyNotReleased v (db_step_id b) (db_reason b)
     | [] \<Rightarrow> FE_ActiveDependencyNotReleased v (hd (pending_of s v)) BlockNotCompleted)"

lemma record_step_assemble:
  assumes st: "bm_get (rs_steps s) v = Some st" and wf: "graph_wf s"
    and deps: "set (step_deps s v) \<subseteq> set ord"
  shows "record_step s v (assemble s ord) =
    (if active_step s v \<and> \<not> (\<forall>d \<in> set (step_deps s v). released s d)
     then Inl (active_error s v) else Inr (assemble s (ord @ [v])))"
proof -
  let ?fa = "(assemble s ord)\<lparr>fa_processed := Suc (fa_processed (assemble s ord))\<rparr>"
  have sd: "step_deps s v = ss_depends_on st" by (simp add: step_deps_def st)
  have "try_fold (partition_dependency s ?fa) (step_deps s v) ([], []) =
    Inr ([] @ filter (\<lambda>d. outcome_of s d = Pending) (step_deps s v),
         [] @ map (\<lambda>d. DependencyBlocker d (blocker_reason (the (bm_get (rs_steps s) d))))
               (filter (\<lambda>d. outcome_of s d = Blocked) (step_deps s v)))"
    by (rule partition_fold) (use deps wf in \<open>auto simp: outcomes_assemble graph_wf_def\<close>)
  then have part: "partition_dependencies s ?fa st = Inr (pending_of s v, blockers_of s v)"
    by (simp add: partition_dependencies_def pending_of_def blockers_of_def flip: sd)
  have assembled: "(assemble s (ord @ [v]))\<lparr>fa_processed := Suc (fa_processed (assemble s ord)),
      fa_outcomes := bm_insert v (outcome_of s v) (fa_outcomes (assemble s ord))\<rparr>
      = assemble s (ord @ [v])"
    by (simp add: assemble_def)
  have act: "active_step s v \<longleftrightarrow> ss_status st \<noteq> Planned"
    by (simp add: active_step_def st)
  show ?thesis
    using none_outstanding_iff [of s v] assembled
    by (auto simp: record_step_def Let_def st part act record_status_slot [OF st refl]
        active_error_def split: list.splits)
qed

section \<open>The traversal\<close>

lemma frontier_loop_correct:
  assumes wf: "graph_wf s"
    and dependents: "\<And>d. bm_contains_key (rs_steps s) d \<Longrightarrow>
      \<exists>cs. bm_get dependents d = Some cs \<and> distinct cs \<and> set cs = {v. d \<in> set (step_deps s v)}"
    and "topo_order s ord"
    and "\<And>v. bm_contains_key (rs_steps s) v \<Longrightarrow>
      bm_get remaining v = Some (card (set (step_deps s v) - set ord))"
    and "\<And>v. bs_contains zero v \<longleftrightarrow>
      bm_contains_key (rs_steps s) v \<and> v \<notin> set ord \<and> set (step_deps s v) \<subseteq> set ord"
    and "\<And>v. v \<in> set ord \<Longrightarrow> active_step s v \<Longrightarrow> \<forall>d \<in> set (step_deps s v). released s d"
  shows "(\<exists>v. frontier_loop s dependents remaining zero (assemble s ord) = Inl (active_error s v)
        \<and> active_step s v \<and> \<not> (\<forall>d \<in> set (step_deps s v). released s d))
    \<or> (\<exists>ord'. frontier_loop s dependents remaining zero (assemble s ord) = Inr (assemble s ord')
        \<and> topo_order s ord'
        \<and> (\<forall>v. bm_contains_key (rs_steps s) v \<longrightarrow> v \<notin> set ord' \<longrightarrow> \<not> set (step_deps s v) \<subseteq> set ord')
        \<and> (\<forall>v \<in> set ord'. active_step s v \<longrightarrow> (\<forall>d \<in> set (step_deps s v). released s d)))"
    (is "?P remaining zero ord")
  using assms(3-)
proof (induction "loop_measure remaining zero" arbitrary: remaining zero ord rule: less_induct)
  case less
  note topo = less.prems(1) and rem = less.prems(2) and zero = less.prems(3) and act = less.prems(4)
  show ?case
  proof (cases "bm_pop_first zero")
    case None
    then have "zero = bm_empty" by (simp add: bm.pop_first_None_iff)
    then have "\<And>v. \<not> (bm_contains_key (rs_steps s) v \<and> v \<notin> set ord \<and> set (step_deps s v) \<subseteq> set ord)"
      using zero by simp
    then show ?thesis
      using topo act None by (intro disjI2 exI [of _ ord]) (auto simp: frontier_loop.simps [of s dependents remaining])
  next
    case (Some p)
    obtain v u zero' where p: "bm_pop_first zero = Some (v, u, zero')"
      using Some by (cases p) auto
    have contains': "bs_contains zero' x \<longleftrightarrow> x \<noteq> v \<and> bs_contains zero x" for x
      using bm.pop_first_Some [OF p] by (cases "x = v") (auto simp: bs_contains_def bm_contains_key_def)
    have "bs_contains zero v"
      using bm.pop_first_Some(1) [OF p] by (simp add: bs_contains_def bm_contains_key_def)
    then have v: "bm_contains_key (rs_steps s) v" "v \<notin> set ord" "set (step_deps s v) \<subseteq> set ord"
      using zero by auto
    then obtain st where st: "bm_get (rs_steps s) v = Some st"
      by (auto simp: bm_contains_key_def)
    obtain cs where cs: "bm_get dependents v = Some cs" "distinct cs" "set cs = {w. v \<in> set (step_deps s w)}"
      using dependents [OF v(1)] by blast
    have known: "bm_contains_key (rs_steps s) w" if "v \<in> set (step_deps s w)" for w
      using that by (cases "bm_get (rs_steps s) w") (auto simp: step_deps_def bm_contains_key_def)
    have card_less: "card (set (step_deps s w) - set (ord @ [v])) = card (set (step_deps s w) - set ord) - 1
        \<and> 0 < card (set (step_deps s w) - set ord)" if "v \<in> set (step_deps s w)" for w
    proof -
      have "set (step_deps s w) - set (ord @ [v]) = (set (step_deps s w) - set ord) - {v}" by auto
      moreover have "v \<in> set (step_deps s w) - set ord" using that v(2) by simp
      ultimately show ?thesis
        by (metis (no_types, lifting) List.finite_set card_Diff_singleton card_gt_0_iff empty_iff finite_Diff)
    qed
    have "\<forall>c \<in> set cs. \<exists>n. bm_get remaining c = Some n \<and> 0 < n"
      using cs(3) known card_less rem by auto
    from release_children [OF cs(2) this, of zero'] obtain r' z' where
      fold: "try_fold release_child cs (remaining, zero') = Inr (r', z')"
      and r': "\<And>x. bm_get r' x = (if x \<in> set cs then map_option (\<lambda>n. n - 1) (bm_get remaining x) else bm_get remaining x)"
      and z': "\<And>x. bs_contains z' x \<longleftrightarrow> bs_contains zero' x \<or> x \<in> set cs \<and> bm_get remaining x = Some 1"
      by blast
    show ?thesis
    proof (cases "active_step s v \<and> \<not> (\<forall>d \<in> set (step_deps s v). released s d)")
      case True
      then show ?thesis
        using record_step_assemble [OF st wf v(3)]
        by (intro disjI1 exI [of _ v]) (simp add: frontier_loop.simps [of s dependents remaining zero] p)
    next
      case False
      then have "record_step s v (assemble s ord) = Inr (assemble s (ord @ [v]))"
        by (simp only: record_step_assemble [OF st wf v(3)] if_False)
      then have step: "frontier_loop s dependents remaining zero (assemble s ord)
          = frontier_loop s dependents r' z' (assemble s (ord @ [v]))"
        by (simp add: frontier_loop.simps [of s dependents remaining zero] p cs(1) fold)
      have "loop_measure r' z' < loop_measure remaining zero"
        using release_children_measure [OF fold] pop_first_measure [OF p, of remaining] by simp
      moreover have "topo_order s (ord @ [v])"
        using topo v by (rule topo_snoc)
      moreover have "bm_get r' w = Some (card (set (step_deps s w) - set (ord @ [v])))"
        if "bm_contains_key (rs_steps s) w" for w
      proof (cases "v \<in> set (step_deps s w)")
        case True
        then show ?thesis using rem [OF that] card_less [OF True] cs(3) by (simp add: r')
      next
        case False
        then have "set (step_deps s w) - set (ord @ [v]) = set (step_deps s w) - set ord" by auto
        then show ?thesis using rem [OF that] False cs(3) by (simp add: r')
      qed
      moreover have "bs_contains z' w \<longleftrightarrow> bm_contains_key (rs_steps s) w \<and> w \<notin> set (ord @ [v])
          \<and> set (step_deps s w) \<subseteq> set (ord @ [v])" for w
      proof (cases "v \<in> set (step_deps s w)")
        case True
        have "card (set (step_deps s w) - set ord) = 1 \<longleftrightarrow> set (step_deps s w) \<subseteq> set (ord @ [v])"
          using card_less [OF True] by (metis (no_types, lifting) Diff_eq_empty_iff One_nat_def Suc_pred
              card_0_eq List.finite_set diff_Suc_1 finite_Diff)
        moreover have "w \<notin> set ord" "w \<noteq> v"
          using True topo_order_closed [OF topo, of w v] v(2) wf by (auto simp: graph_wf_def)
        moreover have "\<not> set (step_deps s w) \<subseteq> set ord"
          using True v(2) by blast
        ultimately show ?thesis
          using True cs(3) known [OF True] rem [OF known [OF True]] zero [of w] by (simp add: z' contains')
      next
        case False
        then have "set (step_deps s w) \<subseteq> set (ord @ [v]) \<longleftrightarrow> set (step_deps s w) \<subseteq> set ord" by auto
        then show ?thesis using False cs(3) zero [of w] by (auto simp: z' contains')
      qed
      moreover have "\<forall>d \<in> set (step_deps s w). released s d"
        if "w \<in> set (ord @ [v])" "active_step s w" for w
        using that act False by auto
      ultimately show ?thesis
        unfolding step by (rule less.hyps)
    qed
  qed
qed

section \<open>Outcomes of the derivation\<close>

lemma derive_frontier_cases:
  assumes wf: "graph_wf s"
  shows "(\<exists>v. derive_frontier s = Inl (active_error s v) \<and> active_step s v
        \<and> \<not> (\<forall>d \<in> set (step_deps s v). released s d))
    \<or> (derive_frontier s = Inl FE_DependencyCycle \<and> \<not> acyclic (dep_edges s))
    \<or> (\<exists>ord. derive_frontier s = Inr (finish (assemble s ord) s) \<and> topo_order s ord
        \<and> set ord = {v. bm_contains_key (rs_steps s) v} \<and> actives_released s)"
proof -
  obtain g where g: "validate_frontier_graph s = Inr g"
    using validate_frontier_graph_complete [OF wf] by blast
  note facts = validate_frontier_graph_sound [OF g]
  let ?loop = "frontier_loop s (vfg_dependents g) (vfg_remaining_dependencies g) (vfg_zero_indegree g)
    (assemble s [])"
  have "assemble s [] = empty_assembly"
    by (simp add: assemble_def empty_assembly_def map_filter_def)
  then have derive: "derive_frontier s = and_then ?loop (\<lambda>fa.
      and_then (reject_if (fa_processed fa \<noteq> bm_len (rs_steps s)) FE_DependencyCycle) (\<lambda>_.
      Inr (finish fa s)))"
    by (simp add: derive_frontier_def g)
  have remaining: "bm_get (vfg_remaining_dependencies g) v = Some (card (set (step_deps s v) - set []))"
    if "bm_contains_key (rs_steps s) v" for v
    using that wf by (auto simp: facts(2) bm_contains_key_def step_deps_def graph_wf_def distinct_card
        split: option.splits)
  have zero: "bs_contains (vfg_zero_indegree g) v \<longleftrightarrow> bm_contains_key (rs_steps s) v \<and> v \<notin> set []
      \<and> set (step_deps s v) \<subseteq> set []" for v
    by (simp add: facts(4))
  consider (err) v where "?loop = Inl (active_error s v)" "active_step s v"
      "\<not> (\<forall>d \<in> set (step_deps s v). released s d)"
    | (ok) ord where "?loop = Inr (assemble s ord)" "topo_order s ord"
      "\<forall>v. bm_contains_key (rs_steps s) v \<longrightarrow> v \<notin> set ord \<longrightarrow> \<not> set (step_deps s v) \<subseteq> set ord"
      "\<forall>v \<in> set ord. active_step s v \<longrightarrow> (\<forall>d \<in> set (step_deps s v). released s d)"
    using frontier_loop_correct [OF wf facts(3) topo_empty remaining zero] by auto
  then show ?thesis
  proof cases
    case err
    then show ?thesis using derive by auto
  next
    case ok
    have sub: "set ord \<subseteq> {v. bm_contains_key (rs_steps s) v}"
      using topo_order_steps [OF ok(2)] by blast
    have fin: "finite {v. bm_contains_key (rs_steps s) v}"
      using bm.finite_dom [of "rs_steps s"] by (simp add: bm_contains_key_def dom_def)
    have len: "fa_processed (assemble s ord) = card (set ord)"
      "bm_len (rs_steps s) = card {v. bm_contains_key (rs_steps s) v}"
      using topo_order_distinct [OF ok(2)]
      by (simp_all add: assemble_def distinct_card bm_len_def bm.length_entries bm_contains_key_def dom_def)
    show ?thesis
    proof (cases "set ord = {v. bm_contains_key (rs_steps s) v}")
      case True
      have "v \<in> set ord" if "active_step s v" for v
        using that True by (auto simp: active_step_def bm_contains_key_def split: option.splits)
      then have "actives_released s" using ok(4) by (auto simp: actives_released_def)
      with True ok(1,2) len derive show ?thesis by auto
    next
      case False
      then have "card (set ord) \<noteq> card {v. bm_contains_key (rs_steps s) v}"
        using card_subset_eq [OF fin sub] by blast
      then have "derive_frontier s = Inl FE_DependencyCycle"
        using derive ok(1) len by simp
      moreover have "\<not> acyclic (dep_edges s)"
        using stuck_cycle [OF wf, of "set ord"] ok(3) False sub by blast
      ultimately show ?thesis by blast
    qed
  qed
qed

lemma derive_frontier_wf: "derive_frontier s = Inr f \<Longrightarrow> graph_wf s"
  by (auto simp: derive_frontier_def result_simps dest: validate_frontier_graph_sound(1))

lemma derive_frontier_success:
  assumes "derive_frontier s = Inr f"
  obtains ord where "f = finish (assemble s ord) s" and "topo_order s ord"
    and "set ord = {v. bm_contains_key (rs_steps s) v}" and "actives_released s"
  using derive_frontier_cases [OF derive_frontier_wf [OF assms]] assms by auto

lemma derive_frontier_ok_iff:
  "(\<exists>f. derive_frontier s = Inr f) \<longleftrightarrow> graph_wf s \<and> acyclic (dep_edges s) \<and> actives_released s"
proof
  assume "\<exists>f. derive_frontier s = Inr f"
  then obtain f where f: "derive_frontier s = Inr f" by blast
  then obtain ord where "topo_order s ord" "set ord = {v. bm_contains_key (rs_steps s) v}"
    "actives_released s" by (rule derive_frontier_success)
  then show "graph_wf s \<and> acyclic (dep_edges s) \<and> actives_released s"
    using derive_frontier_wf [OF f] topo_order_complete_acyclic [of s ord] by auto
next
  assume "graph_wf s \<and> acyclic (dep_edges s) \<and> actives_released s"
  then show "\<exists>f. derive_frontier s = Inr f"
    using derive_frontier_cases [of s] by (auto simp: actives_released_def)
qed

lemma validate_frontier_graph_errors:
  assumes "validate_frontier_graph s = Inl e"
  shows "(\<exists>v. e = FE_SelfDependency v) \<or> (\<exists>v d. e = FE_DuplicateDependency v d)
    \<or> (\<exists>v d. e = FE_UnknownDependency v d)"
proof -
  let ?ok = "\<lambda>e. (\<exists>v. e = FE_SelfDependency v) \<or> (\<exists>v d. e = FE_DuplicateDependency v d)
    \<or> (\<exists>v d. e = FE_UnknownDependency v d)"
  have dep: "validate_dependency v d x = Inl e \<Longrightarrow> ?ok e" for v d x
    by (cases x) (auto simp: validate_dependency_def and_then_Inl_iff reject_if_Inl_iff ok_or_Inl_iff)
  have deps: "try_fold (validate_dependency v) ds x = Inl e \<Longrightarrow> ?ok e" for v ds x
    by (induction ds arbitrary: x) (auto simp: and_then_Inl_iff dest: dep)
  have step: "validate_graph_step y x = Inl e \<Longrightarrow> ?ok e" for y x
    by (cases x; cases y) (auto simp: validate_graph_step_def and_then_Inl_iff dest: deps)
  have "try_fold validate_graph_step es x = Inl e \<Longrightarrow> ?ok e" for es x
    by (induction es arbitrary: x) (auto simp: and_then_Inl_iff dest: step)
  then show ?thesis
    using assms by (auto simp: validate_frontier_graph_def and_then_Inl_iff)
qed

lemma active_error_not_panic: "active_error s v \<noteq> FE_Panic m"
  by (simp add: active_error_def split: list.splits)

lemma derive_frontier_never_panics: "derive_frontier s \<noteq> Inl (FE_Panic m)"
proof (cases "graph_wf s")
  case True
  show ?thesis
    using derive_frontier_cases [OF True] active_error_not_panic by (metis frontier_error.distinct(27) sum.inject(1) sum.simps(4))
next
  case False
  then obtain e where "validate_frontier_graph s = Inl e"
    using validate_frontier_graph_sound(1) by (cases "validate_frontier_graph s") auto
  then show ?thesis
    using validate_frontier_graph_errors by (fastforce simp: derive_frontier_def)
qed

end
