(* ===== verification/Effect_Lifecycle.thy ===== *)
theory Effect_Lifecycle
  imports Reducer Frontier_Correctness
begin

text \<open>
  The state machine of one effectful step, as an inductive relation (\<open>lifecycle\<close>), and the
  lemmas that the reducer implements it: the effect events are exactly its transitions
  (\<open>apply_effect_lifecycle_iff\<close>), and every accepted event leaves each step alone, creates it,
  commits its intent, or takes one transition (\<open>apply_body_step_move\<close>). The step-local
  invariants of the journal rest on the latter.
\<close>

section \<open>The machine\<close>

definition holds_effect :: "step_state \<Rightarrow> string \<Rightarrow> bool" where
  "holds_effect st e \<longleftrightarrow> map_option ei_effect_id (ss_intent st) = Some e"

inductive lifecycle :: "string \<Rightarrow> run_event_body \<Rightarrow> step_state \<Rightarrow> step_state \<Rightarrow> bool" for v where
  material_unavailable:
    "holds_effect st e \<Longrightarrow> ss_status st = IntentCommitted \<Longrightarrow>
     lifecycle v (InvocationMaterialUnavailable v e reason) st
       (st\<lparr>ss_status := ManualRequired,
           ss_uncertainty_reason := Some (unavailable_reason_code reason)\<rparr>)"
| execution_started:
    "holds_effect st e \<Longrightarrow> ss_status st = IntentCommitted \<Longrightarrow>
     checked_add (ss_attempts st) 1 = Some n \<Longrightarrow>
     lifecycle v (EffectExecutionStarted v e) st (st\<lparr>ss_status := Executing, ss_attempts := n\<rparr>)"
| effect_succeeded:
    "holds_effect st e \<Longrightarrow> ss_status st = Executing \<Longrightarrow>
     (case output of
        None \<Rightarrow> step_output_profile st \<noteq> Some TOOL_OUTPUT_PROFILE_V1
      | Some d \<Rightarrow> step_output_profile st = Some TOOL_OUTPUT_PROFILE_V1 \<and> is_canonical_sha256 d) \<Longrightarrow>
     lifecycle v (EffectSucceeded v e evidence output) st
       (st\<lparr>ss_status := Validating, ss_effect_evidence_digest := Some evidence,
           ss_output_record_digest := output\<rparr>)"
| effect_failed:
    "holds_effect st e \<Longrightarrow> ss_status st = Executing \<Longrightarrow>
     lifecycle v (EffectFailed v e evidence) st
       (st\<lparr>ss_status := Failed, ss_effect_evidence_digest := Some evidence,
           ss_output_record_digest := None\<rparr>)"
| effect_became_unknown:
    "holds_effect st e \<Longrightarrow> ss_status st = Executing \<Longrightarrow>
     lifecycle v (EffectBecameUnknown v e why) st
       (st\<lparr>ss_status := EffectUnknown, ss_uncertainty_reason := Some why\<rparr>)"
| reconciliation_started:
    "holds_effect st e \<Longrightarrow> ss_status st = EffectUnknown \<Longrightarrow>
     lifecycle v (ReconciliationStarted v e) st (st\<lparr>ss_status := Reconciling\<rparr>)"
| reconciliation_resolved:
    "holds_effect st e \<Longrightarrow> ss_status st = Reconciling \<Longrightarrow>
     \<not> (resolution = ProvedApplied \<and> step_output_profile st = Some TOOL_OUTPUT_PROFILE_V1) \<Longrightarrow>
     lifecycle v (ReconciliationResolved v e resolution evidence) st
       (st\<lparr>ss_status := (case resolution of ProvedApplied \<Rightarrow> Validating
                         | ProvedNotApplied \<Rightarrow> IntentCommitted | ReconcileFailed \<Rightarrow> Failed),
           ss_uncertainty_reason := None,
           ss_reconciliation_evidence_digest := Some evidence\<rparr>)"
| manual_required:
    "holds_effect st e \<Longrightarrow> ss_status st = EffectUnknown \<or> ss_status st = Reconciling \<Longrightarrow>
     lifecycle v (ManualInterventionRequired v e why) st
       (st\<lparr>ss_status := ManualRequired, ss_uncertainty_reason := Some why\<rparr>)"
| verification_passed:
    "ss_status st = Validating \<Longrightarrow>
     lifecycle v (VerificationPassed v) st (st\<lparr>ss_status := Completed\<rparr>)"
| verification_failed:
    "ss_status st = Validating \<Longrightarrow>
     lifecycle v (VerificationFailed v why) st (st\<lparr>ss_status := Failed\<rparr>)"
| verification_recorded:
    "holds_effect st e \<Longrightarrow> ss_status st = Validating \<Longrightarrow>
     lifecycle v (VerificationRecorded v e disposition receipt_id receipt_digest) st
       (st\<lparr>ss_status := (case disposition of VerdictPassed \<Rightarrow> Completed | VerdictFailed \<Rightarrow> Failed
                         | VerdictInconclusive \<Rightarrow> ManualRequired),
           ss_execution_receipt_id := Some receipt_id,
           ss_execution_receipt_digest := Some receipt_digest,
           ss_uncertainty_reason := (case disposition of VerdictPassed \<Rightarrow> None
                         | VerdictFailed \<Rightarrow> None
                         | VerdictInconclusive \<Rightarrow> Some ''verification_inconclusive'')\<rparr>)"

inductive_simps lifecycle_simps:
  "lifecycle v (RunCreated a) st st'"
  "lifecycle v (AgentLoopConfigured b1) st st'"
  "lifecycle v (ModelCallLifecycleConfigured b2) st st'"
  "lifecycle v (ModelCallReserved b3) st st'"
  "lifecycle v (ModelCallBecameUnknown a b4) st st'"
  "lifecycle v (ModelCallSettled a b5) st st'"
  "lifecycle v (PlanAccepted b6 b7) st st'"
  "lifecycle v (CompletionCandidateRecorded b6 a c d) st st'"
  "lifecycle v (StepPlanned w a b8) st st'"
  "lifecycle v (EffectIntentCommitted w b9) st st'"
  "lifecycle v (InvocationMaterialUnavailable w e r) st st'"
  "lifecycle v (EffectExecutionStarted w e) st st'"
  "lifecycle v (EffectSucceeded w e ev out) st st'"
  "lifecycle v (EffectFailed w e ev) st st'"
  "lifecycle v (EffectBecameUnknown w e ev) st st'"
  "lifecycle v (ReconciliationStarted w e) st st'"
  "lifecycle v (ReconciliationResolved w e res ev) st st'"
  "lifecycle v (ManualInterventionRequired w e ev) st st'"
  "lifecycle v (VerificationPassed w) st st'"
  "lifecycle v (VerificationFailed w ev) st st'"
  "lifecycle v (VerificationRecorded w e d ri rd) st st'"

text \<open>Starting an effect is also subject to the tool-call budget of the run.\<close>

definition attempts_sum :: "run_state \<Rightarrow> nat" where
  "attempts_sum s = sum_list (map (unat \<circ> ss_attempts) (bm_values (rs_steps s)))"

definition start_within_budget :: "run_state \<Rightarrow> run_event_body \<Rightarrow> bool" where
  "start_within_budget s body \<longleftrightarrow>
     (case body of
        EffectExecutionStarted _ _ \<Rightarrow>
          (case rs_agent_loop s of None \<Rightarrow> True
           | Some l \<Rightarrow> attempts_sum s < unat (alb_max_tool_calls (als_budget l)))
      | _ \<Rightarrow> True)"

section \<open>Inversion of the step operations\<close>

lemma put_step_simps [simp]:
  "rs_steps (put_step v st s) = bm_insert v st (rs_steps s)"
  "rs_agent_loop (put_step v st s) = rs_agent_loop s"
  "rs_run_id (put_step v st s) = rs_run_id s"
  "rs_authority (put_step v st s) = rs_authority s"
  "rs_authority_epoch (put_step v st s) = rs_authority_epoch s"
  "rs_goal (put_step v st s) = rs_goal s"
  "rs_revision (put_step v st s) = rs_revision s"
  "rs_journal_sequence (put_step v st s) = rs_journal_sequence s"
  "rs_journal_head_digest (put_step v st s) = rs_journal_head_digest s"
  "rs_authorization_consumption (put_step v st s) = rs_authorization_consumption s"
  by (simp_all add: put_step_def)

lemma put_loop_simps [simp]:
  "rs_steps (put_loop l s) = rs_steps s"
  "rs_agent_loop (put_loop l s) = Some l"
  "rs_run_id (put_loop l s) = rs_run_id s"
  "rs_authority (put_loop l s) = rs_authority s"
  "rs_authority_epoch (put_loop l s) = rs_authority_epoch s"
  "rs_goal (put_loop l s) = rs_goal s"
  "rs_revision (put_loop l s) = rs_revision s"
  "rs_journal_sequence (put_loop l s) = rs_journal_sequence s"
  "rs_journal_head_digest (put_loop l s) = rs_journal_head_digest s"
  "rs_authorization_consumption (put_loop l s) = rs_authorization_consumption s"
  by (simp_all add: put_loop_def)

lemma step_mut_Inr_iff [result_simps]:
  "step_mut s v = Inr st \<longleftrightarrow> bm_get (rs_steps s) v = Some st"
  by (simp add: step_mut_def result_simps)

lemma matching_step_mut_Inr_iff [result_simps]:
  "matching_step_mut s v e = Inr st \<longleftrightarrow> bm_get (rs_steps s) v = Some st \<and> holds_effect st e"
  by (auto simp: matching_step_mut_def holds_effect_def result_simps Let_def)

lemma require_status_Inr_iff [result_simps]:
  "require_status st q b = Inr u \<longleftrightarrow> ss_status st = q"
  by (simp add: require_status_def invalid_transition_def)

lemma total_attempts_Inr_iff: "total_attempts s = Inr n \<longleftrightarrow> unat n = attempts_sum s"
proof -
  have "try_fold (\<lambda>step starts. ok_or TE_ToolCallBudgetExceeded (checked_add starts (ss_attempts step))) xs m
      = Inr n \<longleftrightarrow> unat n = unat m + sum_list (map (unat \<circ> ss_attempts) xs)" for xs m
  proof (induction xs arbitrary: m)
    case (Cons x xs)
    show ?case
    proof (cases "checked_add m (ss_attempts x)")
      case None
      have "unat n < 2 ^ 32" using unsigned_less [of n] by simp
      moreover have "2 ^ 32 \<le> unat m + unat (ss_attempts x)"
        using None by (simp add: checked_add_None_iff)
      ultimately show ?thesis using None by simp
    next
      case (Some k)
      moreover have "unat k = unat m + unat (ss_attempts x)"
        using Some by (simp only: checked_add_Some_iff)
      ultimately show ?thesis by (simp add: Cons.IH add.assoc)
    qed
  qed (simp add: word_unat_eq_iff eq_commute)
  from this [of "bm_values (rs_steps s)" 0] show ?thesis
    by (simp add: total_attempts_def attempts_sum_def)
qed

lemma budget_check_iff:
  "(case rs_agent_loop s of None \<Rightarrow> Inr ()
    | Some l \<Rightarrow> and_then (total_attempts s) (\<lambda>starts.
        reject_if (starts \<ge> alb_max_tool_calls (als_budget l)) TE_ToolCallBudgetExceeded)) = Inr u
   \<longleftrightarrow> start_within_budget s (EffectExecutionStarted v e)"
proof (cases "rs_agent_loop s")
  case (Some l)
  have "(\<exists>n. unat n = attempts_sum s \<and> n < b) \<longleftrightarrow> attempts_sum s < unat b" for b :: u32
  proof
    assume "attempts_sum s < unat b"
    moreover have "unat b < 2 ^ 32" using unsigned_less [of b] by simp
    ultimately have "unat (of_nat (attempts_sum s) :: u32) = attempts_sum s"
      by (simp add: unat_of_nat)
    with \<open>attempts_sum s < unat b\<close> show "\<exists>n. unat n = attempts_sum s \<and> n < b"
      by (intro exI [of _ "of_nat (attempts_sum s)"]) (simp add: word_less_nat_alt)
  qed (auto simp: word_less_nat_alt)
  with Some show ?thesis
    by (simp add: start_within_budget_def result_simps total_attempts_Inr_iff not_le)
qed (simp add: start_within_budget_def)

section \<open>The reducer implements the machine\<close>

lemmas step_operation_defs =
  mark_material_unavailable_def record_execution_started_def record_effect_observation_def
  record_effect_unknown_def start_reconciliation_def record_reconciliation_def
  record_manual_required_def record_legacy_verification_def record_verification_def

lemma apply_effect_lifecycle_iff:
  "apply_effect_lifecycle s body = Inr s' \<longleftrightarrow>
     start_within_budget s body \<and>
     (\<exists>v st st'. bm_get (rs_steps s) v = Some st \<and> lifecycle v body st st' \<and> s' = put_step v st' s)"
proof (cases body)
  case (EffectExecutionStarted v e)
  then show ?thesis
    unfolding apply_effect_lifecycle_def
    by (auto simp: lifecycle_simps record_execution_started_def and_then_Inr_iff budget_check_iff
        [of s _ v e] result_simps)
next
  case (EffectSucceeded v e ev out)
  then show ?thesis
    unfolding apply_effect_lifecycle_def
    by (cases out) (auto simp: lifecycle_simps step_operation_defs start_within_budget_def result_simps)
qed (auto simp: apply_effect_lifecycle_def lifecycle_simps step_operation_defs
      start_within_budget_def result_simps invalid_transition_def)

section \<open>New steps\<close>

definition add_steps :: "(string \<times> step_state) list \<Rightarrow> run_state \<Rightarrow> run_state" where
  "add_steps news s = foldl (\<lambda>s (v, st). put_step v st s) s news"

definition accepted_step :: "accepted_plan_step \<Rightarrow> string \<times> step_state" where
  "accepted_step a = (aps_step_id a, new_step (aps_step_id a) (aps_objective a) (aps_depends_on a)
     (Some (aps_invocation a)))"

text \<open>What every extension of the graph satisfies: fresh, distinct, initial steps.\<close>

definition fresh_steps :: "run_state \<Rightarrow> (string \<times> step_state) list \<Rightarrow> bool" where
  "fresh_steps s news \<longleftrightarrow> distinct (map fst news) \<and>
     (\<forall>(v, st) \<in> set news. \<not> bm_contains_key (rs_steps s) v
        \<and> (\<exists>obj deps pinv. st = new_step v obj deps pinv))"

lemma add_steps_simps [simp]:
  "add_steps [] s = s"
  "add_steps ((v, st) # news) s = add_steps news (put_step v st s)"
  by (simp_all add: add_steps_def)

lemma add_steps_frame [simp]:
  "rs_agent_loop (add_steps news s) = rs_agent_loop s"
  "rs_run_id (add_steps news s) = rs_run_id s"
  "rs_authority (add_steps news s) = rs_authority s"
  "rs_authority_epoch (add_steps news s) = rs_authority_epoch s"
  "rs_goal (add_steps news s) = rs_goal s"
  "rs_revision (add_steps news s) = rs_revision s"
  "rs_journal_sequence (add_steps news s) = rs_journal_sequence s"
  "rs_journal_head_digest (add_steps news s) = rs_journal_head_digest s"
  "rs_authorization_consumption (add_steps news s) = rs_authorization_consumption s"
  by (induction news arbitrary: s) auto

lemma get_add_steps:
  "distinct (map fst news) \<Longrightarrow> bm_get (rs_steps (add_steps news s)) v =
     (case map_of news v of Some st \<Rightarrow> Some st | None \<Rightarrow> bm_get (rs_steps s) v)"
proof (induction news arbitrary: s)
  case (Cons e news)
  obtain w st where e: "e = (w, st)" by (cases e)
  have "map_of news w = None"
    using Cons.prems by (simp add: e map_of_eq_None_iff)
  with Cons show ?case by (auto simp: e split: option.splits)
qed simp

lemma fresh_steps_Cons:
  assumes "fresh_steps s ((v, st) # news)"
  shows "\<not> bm_contains_key (rs_steps s) v" and "fresh_steps (put_step v st s) news"
  using assms by (auto simp: fresh_steps_def rev_image_eqI)

lemma len_add_steps:
  "fresh_steps s news \<Longrightarrow> bm_len (rs_steps (add_steps news s)) = bm_len (rs_steps s) + length news"
proof (induction news arbitrary: s)
  case (Cons e news)
  obtain w st where e: "e = (w, st)" by (cases e)
  note fresh = fresh_steps_Cons [OF Cons.prems [unfolded e]]
  show ?case
    using Cons.IH [OF fresh(2)] fresh(1) by (simp add: e bm_len_insert)
qed simp

lemma attempts_sum_put_step:
  "attempts_sum (put_step v st s) + (case bm_get (rs_steps s) v of None \<Rightarrow> 0 | Some w \<Rightarrow> unat (ss_attempts w))
     = attempts_sum s + unat (ss_attempts st)"
  using sum_values_insert [of "unat \<circ> ss_attempts" v st "rs_steps s"]
  by (cases "bm_get (rs_steps s) v") (simp_all add: attempts_sum_def)

lemma attempts_sum_add_steps:
  "fresh_steps s news \<Longrightarrow> attempts_sum (add_steps news s) = attempts_sum s"
proof (induction news arbitrary: s)
  case (Cons e news)
  obtain w st where e: "e = (w, st)" by (cases e)
  note fresh = fresh_steps_Cons [OF Cons.prems [unfolded e]]
  have "ss_attempts st = 0"
    using Cons.prems by (auto simp: e fresh_steps_def new_step_def)
  then show ?case
    using Cons.IH [OF fresh(2)] fresh(1) attempts_sum_put_step [of w st s]
    by (simp add: e bm_contains_key_def)
qed simp

lemma plan_step_dependencies:
  "try_fold (plan_step_dependency s v) ds u = Inr u' \<longleftrightarrow>
     deps_ok (rs_steps s) v ds \<and> (\<forall>d \<in> set ds. \<not> bs_contains u d)
     \<and> u' = foldl (\<lambda>u d. bs_insert d u) u ds"
  by (induction ds arbitrary: u) (auto simp: plan_step_dependency_def deps_ok_def result_simps)

definition steps_within_budget :: "run_state \<Rightarrow> nat \<Rightarrow> bool" where
  "steps_within_budget s k \<longleftrightarrow>
     (case rs_agent_loop s of None \<Rightarrow> True
      | Some l \<Rightarrow> als_completion_candidate l = None
          \<and> bm_len (rs_steps s) + k \<le> unat (alb_max_planned_steps (als_budget l)))"

lemma planned_total_iff:
  "(case u32_try_from n of None \<Rightarrow> True | Some t \<Rightarrow> t > m) \<longleftrightarrow> unat m < n"
proof (cases "u32_try_from n")
  case None
  moreover have "unat m < 2 ^ 32" using unsigned_less [of m] by simp
  ultimately show ?thesis by (simp add: u32_try_from_def split: if_splits)
next
  case (Some t)
  then have "n = unat t" by (simp only: u32_try_from_Some_iff)
  with Some show ?thesis by (simp add: word_less_nat_alt)
qed

lemma u32_less_usize:
  fixes m :: u32
  assumes "n \<le> unat m"
  shows "n < 2 ^ 64"
proof -
  have "unat m < 2 ^ 32" using unsigned_less [of m] by simp
  then show ?thesis using assms by simp
qed

lemma plan_step_Inr_iff:
  "plan_step s v obj deps pinv = Inr s' \<longleftrightarrow>
     steps_within_budget s 1 \<and> \<not> bm_contains_key (rs_steps s) v \<and> deps_ok (rs_steps s) v deps
     \<and> s' = put_step v (new_step v obj deps pinv) s"
proof (cases "rs_agent_loop s")
  case None
  then show ?thesis
    by (auto simp: plan_step_def steps_within_budget_def plan_step_dependencies result_simps)
next
  case (Some l)
  then show ?thesis
    by (auto simp: plan_step_def steps_within_budget_def plan_step_dependencies result_simps
        planned_total_iff usize_checked_add_Some_iff not_less dest: u32_less_usize)
qed

section \<open>Accepted plans\<close>

lemma validate_accepted_plan_header_Inr_iff:
  "validate_accepted_plan_header cr s decision a (ids, owners) = Inr x \<longleftrightarrow>
     require_planning_identifier ''step_id'' (aps_step_id a) = Inr ()
     \<and> validate_accepted_objective (aps_objective a) = Inr ()
     \<and> binding_validate cr (aps_invocation a) = Inr ()
     \<and> pib_proposal_digest (aps_invocation a) = ept_proposal_digest decision
     \<and> \<not> bm_contains_key (rs_steps s) (aps_step_id a) \<and> \<not> bs_contains ids (aps_step_id a)
     \<and> (\<exists>owners'. claim_action (aps_step_id a) (pib_action_digest (aps_invocation a)) owners
          = Inr owners' \<and> x = (bs_insert (aps_step_id a) ids, owners'))"
  by (auto simp: validate_accepted_plan_header_def result_simps)

lemma accepted_headers_sound:
  assumes "try_fold (validate_accepted_plan_header cr s decision) steps (ids, owners) = Inr (ids', owners')"
  shows "distinct (map aps_step_id steps)
    \<and> (\<forall>a \<in> set steps. \<not> bm_contains_key (rs_steps s) (aps_step_id a) \<and> \<not> bs_contains ids (aps_step_id a)
         \<and> binding_validate cr (aps_invocation a) = Inr ()
         \<and> pib_proposal_digest (aps_invocation a) = ept_proposal_digest decision)
    \<and> (\<forall>x. bs_contains ids' x \<longleftrightarrow> bs_contains ids x \<or> x \<in> aps_step_id ` set steps)"
  using assms
proof (induction steps arbitrary: ids owners)
  case (Cons a steps)
  from Cons.prems obtain owners1 where
    a: "binding_validate cr (aps_invocation a) = Inr ()"
       "pib_proposal_digest (aps_invocation a) = ept_proposal_digest decision"
       "\<not> bm_contains_key (rs_steps s) (aps_step_id a)" "\<not> bs_contains ids (aps_step_id a)"
    and rec: "try_fold (validate_accepted_plan_header cr s decision) steps
      (bs_insert (aps_step_id a) ids, owners1) = Inr (ids', owners')"
    by (auto simp: validate_accepted_plan_header_Inr_iff result_simps)
  from Cons.IH [OF rec] a show ?case by auto
qed simp

lemma insert_accepted_step_Inr:
  "insert_accepted_step s ids blocked a (n, cand) = Inr (n', cand') \<Longrightarrow>
     cand' = (case accepted_step a of (v, st) \<Rightarrow> put_step v st cand)"
  by (auto simp: insert_accepted_step_def accepted_step_def result_simps)

lemma insert_accepted_steps_Inr:
  "try_fold (insert_accepted_step s ids blocked) steps (n, cand) = Inr (n', cand') \<Longrightarrow>
     cand' = add_steps (map accepted_step steps) cand"
proof (induction steps arbitrary: n cand)
  case (Cons a steps)
  from Cons.prems obtain m c where
    a: "insert_accepted_step s ids blocked a (n, cand) = Inr (m, c)"
    and rec: "try_fold (insert_accepted_step s ids blocked) steps (m, c) = Inr (n', cand')"
    by (auto simp: result_simps)
  from Cons.IH [OF rec] insert_accepted_step_Inr [OF a] show ?case
    by (simp add: accepted_step_def)
qed simp

lemma accept_plan_Inr:
  assumes "accept_plan cr s decision steps = Inr s'"
  obtains l l' where "rs_agent_loop s = Some l" and "als_completion_candidate l = None"
    and "validate_model_call_success s decision = Inr ()"
    and "unat (ept_turn_index decision) = unat (als_accepted_model_turns l) + 1"
    and "ept_turn_index decision \<le> alb_max_model_turns (als_budget l)"
    and "steps \<noteq> []" and "length steps \<le> MAX_ACCEPTED_PLAN_STEPS"
    and "steps_within_budget s (length steps)"
    and "fresh_steps s (map accepted_step steps)"
    and "\<forall>a \<in> set steps. binding_validate cr (aps_invocation a) = Inr ()
           \<and> pib_proposal_digest (aps_invocation a) = ept_proposal_digest decision"
    and "\<exists>f. derive_frontier (add_steps (map accepted_step steps) s) = Inr f"
    and "settle_successful_model_call (l\<lparr>als_accepted_model_turns := ept_turn_index decision\<rparr>) = Inr l'"
    and "s' = put_loop l' (add_steps (map accepted_step steps) s)"
proof -
  from assms obtain l l' turn total ids cand f where
    l: "rs_agent_loop s = Some l" "als_completion_candidate l = None"
    and ok: "validate_model_call_success s decision = Inr ()"
    and turn: "checked_add (als_accepted_model_turns l) 1 = Some turn" "ept_turn_index decision = turn"
      "\<not> turn > alb_max_model_turns (als_budget l)"
    and steps: "steps \<noteq> []" "\<not> length steps > MAX_ACCEPTED_PLAN_STEPS"
    and total: "usize_checked_add (bm_len (rs_steps s)) (length steps) = Some total"
      "\<not> (case u32_try_from total of None \<Rightarrow> True | Some t \<Rightarrow> t > alb_max_planned_steps (als_budget l))"
    and ids: "validate_accepted_plan_headers cr s decision steps = Inr ids"
    and cand: "build_accepted_plan_candidate s steps ids = Inr cand"
    and f: "derive_frontier cand = Inr f"
    and l': "\<exists>cl. rs_agent_loop cand = Some cl
        \<and> settle_successful_model_call (cl\<lparr>als_accepted_model_turns := turn\<rparr>) = Inr l'"
      "s' = put_loop l' cand"
    unfolding accept_plan_def by (auto simp: result_simps)
  have cand_eq: "cand = add_steps (map accepted_step steps) s"
    using cand insert_accepted_steps_Inr
    by (fastforce simp: build_accepted_plan_candidate_def result_simps Let_def)
  obtain owners owners' where
    heads: "try_fold (validate_accepted_plan_header cr s decision) steps (bs_empty, owners) = Inr (ids, owners')"
    using ids by (auto simp: validate_accepted_plan_headers_def result_simps)
  note heads = accepted_headers_sound [OF heads]
  have "map fst (map accepted_step steps) = map aps_step_id steps"
    by (simp add: accepted_step_def)
  then have "fresh_steps s (map accepted_step steps)"
    using heads unfolding fresh_steps_def by (auto simp: accepted_step_def comp_def)
  moreover have "steps_within_budget s (length steps)"
    using total l by (simp add: planned_total_iff usize_checked_add_Some_iff steps_within_budget_def)
  moreover have "unat (ept_turn_index decision) = unat (als_accepted_model_turns l) + 1"
    using turn(1,2) by (simp add: checked_add_Some_iff)
  moreover have "ept_turn_index decision \<le> alb_max_model_turns (als_budget l)"
    "length steps \<le> MAX_ACCEPTED_PLAN_STEPS"
    using turn(2,3) steps(2) by simp_all
  moreover have "settle_successful_model_call (l\<lparr>als_accepted_model_turns := ept_turn_index decision\<rparr>) = Inr l'"
    using l' l turn(2) by (auto simp: cand_eq)
  moreover have "\<forall>a \<in> set steps. binding_validate cr (aps_invocation a) = Inr ()
      \<and> pib_proposal_digest (aps_invocation a) = ept_proposal_digest decision"
    using heads by blast
  moreover have "\<exists>f. derive_frontier (add_steps (map accepted_step steps) s) = Inr f"
    using f cand_eq by blast
  moreover have "s' = put_loop l' (add_steps (map accepted_step steps) s)"
    using l'(2) cand_eq by simp
  ultimately show ?thesis
    using l ok steps(1) by (intro that) assumption+
qed

section \<open>Committed intents\<close>

lemma first_unreleased_None_iff:
  "first_unreleased_dependency s st = Inr None \<longleftrightarrow> (\<forall>d \<in> set (ss_depends_on st). released s d)"
proof -
  have from_some: "\<exists>c. consider_blocker s st d (Some b) = Inr (Some c)
      \<or> (\<exists>e. consider_blocker s st d (Some b) = Inl e)" for d b
    by (cases "bm_get (rs_steps s) d")
      (simp_all add: consider_blocker_def Let_def split: option.splits)
  have keep: "try_fold (consider_blocker s st) ds (Some b) \<noteq> Inr None" for ds b
  proof (induction ds arbitrary: b)
    case (Cons d ds)
    show ?case using from_some [of d b] Cons.IH by auto
  qed simp
  have from_none: "consider_blocker s st d None = Inr None \<and> released s d
      \<or> (\<exists>c. consider_blocker s st d None = Inr (Some c) \<and> \<not> released s d)
      \<or> (\<exists>e. consider_blocker s st d None = Inl e \<and> \<not> released s d)" for d
    by (cases "bm_get (rs_steps s) d")
      (simp_all add: consider_blocker_def released_def dependency_release_block_reason_def Let_def)
  have "try_fold (consider_blocker s st) ds None = Inr None \<longleftrightarrow> (\<forall>d \<in> set ds. released s d)" for ds
  proof (induction ds)
    case (Cons d ds)
    show ?case using from_none [of d] Cons.IH keep [of ds] by auto
  qed simp
  then show ?thesis by (simp add: first_unreleased_dependency_def)
qed

lemma commit_effect_intent_Inr_iff:
  "commit_effect_intent cr s v i = Inr s' \<longleftrightarrow>
     validate_tool_output_profile i = Inr ()
     \<and> validate_receipt_provenance_binding cr i = Inr ()
     \<and> au_max_uses (ei_authorization i) = 1
     \<and> (ei_sink_guarantee i = SinkNone \<or> \<not> empty_or_missing (ei_idempotency_key i))
     \<and> (ei_effect_class i = ReadOnly \<longrightarrow> ei_idempotency_key i = None \<and> ei_sink_guarantee i = SinkNone)
     \<and> (\<forall>w st. bm_get (rs_steps s) w = Some st \<longrightarrow> \<not> holds_effect st (ei_effect_id i))
     \<and> (\<exists>st consumed. bm_get (rs_steps s) v = Some st \<and> ss_status st = Planned
          \<and> (\<forall>d \<in> set (ss_depends_on st). released s d)
          \<and> validate_planned_invocation_binding cr st i = Inr ()
          \<and> validate_authorization_binding cr s v i = Inr ()
          \<and> consume_authorization i (rs_authorization_consumption s) = Inr consumed
          \<and> s' = put_step v (st\<lparr>ss_status := IntentCommitted, ss_intent := Some i\<rparr>)
                   (s\<lparr>rs_authorization_consumption := consumed\<rparr>))"
proof -
  have dup: "list_ex (\<lambda>st. case ss_intent st of None \<Rightarrow> False
        | Some x \<Rightarrow> ei_effect_id x = ei_effect_id i) (bm_values (rs_steps s))
      \<longleftrightarrow> (\<exists>w st. bm_get (rs_steps s) w = Some st \<and> holds_effect st (ei_effect_id i))"
    by (fastforce simp: list_ex_iff in_bm_values_iff holds_effect_def split: option.splits)
  have none: "(case x of None \<Rightarrow> Inr () | Some b \<Rightarrow> Inl (g b)) = Inr u \<longleftrightarrow> x = None" for x and g :: "dependency_blocker \<Rightarrow> transition_error" and u
    by (cases x) auto
  show ?thesis
    unfolding commit_effect_intent_def dup
    by (auto simp: result_simps none first_unreleased_None_iff)
qed

section \<open>Every accepted event, step by step\<close>

text \<open>The events that only touch the agent loop.\<close>

fun loop_event :: "run_event_body \<Rightarrow> bool" where
  "loop_event (AgentLoopConfigured _) = True"
| "loop_event (ModelCallLifecycleConfigured _) = True"
| "loop_event (ModelCallReserved _) = True"
| "loop_event (ModelCallBecameUnknown _ _) = True"
| "loop_event (ModelCallSettled _ _) = True"
| "loop_event (CompletionCandidateRecorded _ _ _ _) = True"
| "loop_event _ = False"

lemmas loop_operation_defs =
  configure_agent_loop_def configure_model_call_lifecycle_def reserve_model_call_def
  mark_model_call_unknown_def settle_model_call_def record_completion_candidate_def

lemma loop_event_put_loop:
  "loop_event body \<Longrightarrow> apply_body cr s body = Inr s' \<Longrightarrow> \<exists>l. s' = put_loop l s"
  by (cases body) (auto simp: apply_body_def loop_operation_defs result_simps Let_def)

lemma apply_body_cases [consumes 1, case_names loop plan add commit life]:
  assumes "apply_body cr s body = Inr s'"
  obtains
    (loop) l where "loop_event body" and "s' = put_loop l s"
  | (plan) decision steps where "body = PlanAccepted decision steps"
      and "accept_plan cr s decision steps = Inr s'"
  | (add) v obj deps where "body = StepPlanned v obj deps" and "steps_within_budget s 1"
      and "\<not> bm_contains_key (rs_steps s) v" and "deps_ok (rs_steps s) v deps"
      and "s' = put_step v (new_step v obj deps None) s"
  | (commit) v i where "body = EffectIntentCommitted v i"
      and "commit_effect_intent cr s v i = Inr s'"
  | (life) v st st' where "start_within_budget s body" and "bm_get (rs_steps s) v = Some st"
      and "lifecycle v body st st'" and "s' = put_step v st' s"
proof -
  consider (a) "loop_event body" | (b) d ss where "body = PlanAccepted d ss"
    | (c) v o' ds where "body = StepPlanned v o' ds" | (d) v i where "body = EffectIntentCommitted v i"
    | (e) g where "body = RunCreated g"
    | (f) "apply_body cr s body = apply_effect_lifecycle s body"
    by (cases body) (auto simp: apply_body_def)
  then show thesis
  proof cases
    case a
    with assms show thesis using loop_event_put_loop loop by blast
  next
    case (b d ss)
    with assms show thesis by (auto simp: apply_body_def intro: plan)
  next
    case (c v o' ds)
    with assms show thesis by (auto simp: apply_body_def plan_step_Inr_iff intro: add)
  next
    case (d v i)
    with assms show thesis by (auto simp: apply_body_def intro: commit)
  next
    case (e g)
    with assms show thesis by (simp add: apply_body_def)
  next
    case f
    with assms show thesis by (auto simp: apply_effect_lifecycle_iff intro: life)
  qed
qed

lemma lifecycle_not_loop: "lifecycle v body st st' \<Longrightarrow> \<not> loop_event body"
  by (induction rule: lifecycle.induct) simp_all

text \<open>
  What one event does to one step; \<open>targets body v\<close> says that the event is addressed to the step.
\<close>

fun target_step :: "run_event_body \<Rightarrow> string option" where
  "target_step (EffectIntentCommitted v _) = Some v"
| "target_step (InvocationMaterialUnavailable v _ _) = Some v"
| "target_step (EffectExecutionStarted v _) = Some v"
| "target_step (EffectSucceeded v _ _ _) = Some v"
| "target_step (EffectFailed v _ _) = Some v"
| "target_step (EffectBecameUnknown v _ _) = Some v"
| "target_step (ReconciliationStarted v _) = Some v"
| "target_step (ReconciliationResolved v _ _ _) = Some v"
| "target_step (ManualInterventionRequired v _ _) = Some v"
| "target_step (VerificationPassed v) = Some v"
| "target_step (VerificationFailed v _) = Some v"
| "target_step (VerificationRecorded v _ _ _ _) = Some v"
| "target_step _ = None"

definition targets :: "run_event_body \<Rightarrow> string \<Rightarrow> bool" where
  "targets body v \<longleftrightarrow> target_step body = Some v"

lemma lifecycle_targets: "lifecycle v body st st' \<Longrightarrow> target_step body = Some v"
  by (induction rule: lifecycle.induct) simp_all

inductive step_move ::
    "crypto \<Rightarrow> run_state \<Rightarrow> run_event_body \<Rightarrow> string \<Rightarrow> step_state option \<Rightarrow> step_state option \<Rightarrow> bool"
  for cr s body v where
  untouched: "\<not> targets body v \<Longrightarrow> step_move cr s body v x x"
| created: "\<not> targets body v \<Longrightarrow> step_move cr s body v None (Some (new_step v obj deps pinv))"
| committed: "body = EffectIntentCommitted v i \<Longrightarrow> commit_effect_intent cr s v i = Inr s' \<Longrightarrow>
    ss_status st = Planned \<Longrightarrow>
    step_move cr s body v (Some st) (Some (st\<lparr>ss_status := IntentCommitted, ss_intent := Some i\<rparr>))"
| moved: "lifecycle v body st st' \<Longrightarrow> step_move cr s body v (Some st) (Some st')"

lemma not_targets:
  "loop_event body \<Longrightarrow> \<not> targets body v"
  "\<not> targets (PlanAccepted d ss) v" "\<not> targets (StepPlanned w obj deps) v"
  by (cases body) (simp_all add: targets_def)

lemma step_move_added:
  assumes "fresh_steps s news" and "\<not> targets body v"
  shows "step_move cr s body v (bm_get (rs_steps s) v) (bm_get (rs_steps (add_steps news s)) v)"
proof (cases "map_of news v")
  case None
  with assms show ?thesis by (simp add: get_add_steps fresh_steps_def untouched)
next
  case (Some st)
  then have "(v, st) \<in> set news" by (rule map_of_SomeD)
  with assms(1) obtain obj deps pinv where "st = new_step v obj deps pinv" "bm_get (rs_steps s) v = None"
    by (fastforce simp: fresh_steps_def bm_contains_key_def)
  with Some assms show ?thesis by (simp add: get_add_steps fresh_steps_def created)
qed

lemma apply_body_step_move:
  assumes "apply_body cr s body = Inr s'"
  shows "step_move cr s body v (bm_get (rs_steps s) v) (bm_get (rs_steps s') v)"
  using assms
proof (cases rule: apply_body_cases)
  case (loop l)
  then show ?thesis by (simp add: untouched not_targets)
next
  case (plan decision steps)
  from plan(2) obtain l' where "fresh_steps s (map accepted_step steps)"
    and "s' = put_loop l' (add_steps (map accepted_step steps) s)"
    by (rule accept_plan_Inr)
  then show ?thesis by (simp add: plan(1) step_move_added not_targets)
next
  case (add w obj deps)
  then have "fresh_steps s [(w, new_step w obj deps None)]"
    by (auto simp: fresh_steps_def)
  from step_move_added [OF this, of body v cr] add show ?thesis by (simp add: not_targets)
next
  case (commit w i)
  note commit' = commit(2) [unfolded commit_effect_intent_Inr_iff]
  show ?thesis
  proof (cases "v = w")
    case True
    with commit commit' show ?thesis by (auto intro: committed)
  next
    case False
    then have "\<not> targets body v" by (simp add: commit(1) targets_def)
    with False commit' show ?thesis by (auto simp: untouched)
  qed
next
  case (life w st st')
  show ?thesis
  proof (cases "v = w")
    case True
    with life show ?thesis by (simp add: moved)
  next
    case False
    then have "\<not> targets body v"
      using lifecycle_targets [OF life(3)] by (simp add: targets_def)
    with False life show ?thesis by (simp add: untouched)
  qed
qed

lemma step_move_None: "step_move cr s body v None y \<Longrightarrow> \<not> targets body v"
  by (cases rule: step_move.cases) auto

lemma step_move_Some: "step_move cr s body v (Some st) y \<Longrightarrow> \<exists>st'. y = Some st'"
  by (cases rule: step_move.cases) auto

end
