(* ===== verification/Journal_Replay.thy ===== *)
theory Journal_Replay
  imports Effect_Lifecycle
begin

text \<open>
  Replay as a fold of accepted records. \<open>run_invariant\<close> is the contract of an invariant of the
  journal together with its projection, \<open>run_relation\<close> that of a relation between a projection
  and any later one; their interpretations supply the safety properties of the run. The chain
  itself (sequence numbers, back links, digests, run identity) is the first of them.
\<close>

section \<open>One record\<close>

definition record_follows :: "crypto \<Rightarrow> run_state \<Rightarrow> event_record \<Rightarrow> bool" where
  "record_follows cr s r \<longleftrightarrow>
     unat (er_sequence r) = unat (rs_journal_sequence s) + 1
     \<and> er_previous_digest r = Some (rs_journal_head_digest s)
     \<and> verify_digest cr r = Inr ()
     \<and> re_run_id (er_event r) = rs_run_id s
     \<and> re_authority (er_event r) = rs_authority s
     \<and> re_authority_epoch (er_event r) = rs_authority_epoch s"

lemma apply_record_None_iff:
  "apply_record cr None r = Inr s \<longleftrightarrow>
     er_sequence r = 1 \<and> er_previous_digest r = None \<and> verify_digest cr r = Inr ()
     \<and> (\<exists>goal. re_body (er_event r) = RunCreated goal \<and> s = advance_head r (initial_state r goal))"
  by (cases "re_body (er_event r)")
    (auto simp: apply_record_def verify_record_against_state_def result_simps Let_def)

lemma apply_record_Some_iff:
  "apply_record cr (Some s) r = Inr s' \<longleftrightarrow>
     record_follows cr s r
     \<and> (\<exists>s1. apply_body cr s (re_body (er_event r)) = Inr s1 \<and> s' = advance_head r s1)"
proof -
  have "verify_record_against_state cr (Some s) r = Inr () \<longleftrightarrow> record_follows cr s r"
    by (auto simp: verify_record_against_state_def record_follows_def result_simps word_bridge Let_def)
  then show ?thesis
    by (cases "re_body (er_event r)") (auto simp: apply_record_def result_simps apply_body_def)
qed

lemma advance_head_simps [simp]:
  "rs_steps (advance_head r s) = rs_steps s"
  "rs_agent_loop (advance_head r s) = rs_agent_loop s"
  "rs_run_id (advance_head r s) = rs_run_id s"
  "rs_authority (advance_head r s) = rs_authority s"
  "rs_authority_epoch (advance_head r s) = rs_authority_epoch s"
  "rs_goal (advance_head r s) = rs_goal s"
  "rs_revision (advance_head r s) = er_sequence r"
  "rs_journal_sequence (advance_head r s) = er_sequence r"
  "rs_journal_head_digest (advance_head r s) = er_digest r"
  "rs_authorization_consumption (advance_head r s) = rs_authorization_consumption s"
  by (simp_all add: advance_head_def)

lemma initial_state_simps [simp]:
  "rs_steps (initial_state r goal) = bm_empty"
  "rs_agent_loop (initial_state r goal) = None"
  "rs_run_id (initial_state r goal) = re_run_id (er_event r)"
  "rs_authority (initial_state r goal) = re_authority (er_event r)"
  "rs_authority_epoch (initial_state r goal) = re_authority_epoch (er_event r)"
  "rs_goal (initial_state r goal) = goal"
  "rs_authorization_consumption (initial_state r goal) = bm_empty"
  by (simp_all add: initial_state_def)

section \<open>Journals\<close>

lemma replay_record_Inr_iff:
  "replay_record cr r x = Inr y \<longleftrightarrow> (\<exists>s. apply_record cr x r = Inr s \<and> y = Some s)"
  by (auto simp: replay_record_def result_simps)

lemma replay_fold_None:
  "try_fold (replay_record cr) rs x = Inr None \<longleftrightarrow> x = None \<and> rs = []"
proof (induction rs arbitrary: x)
  case (Cons r rs)
  show ?case by (auto simp: replay_record_Inr_iff result_simps Cons.IH)
qed simp

lemma replay_Inr_iff: "replay cr rs = Inr s \<longleftrightarrow> try_fold (replay_record cr) rs None = Inr (Some s)"
  by (auto simp: replay_def result_simps)

lemma replay_single_iff [simp]: "replay cr [r] = Inr s \<longleftrightarrow> apply_record cr None r = Inr s"
  by (auto simp: replay_Inr_iff replay_record_Inr_iff result_simps)

lemma replay_Nil [simp]: "replay cr [] = Inl RPE_EmptyJournal"
  by (simp add: replay_def)

lemma replay_snoc_iff:
  assumes "rs \<noteq> []"
  shows "replay cr (rs @ [r]) = Inr s' \<longleftrightarrow>
    (\<exists>s. replay cr rs = Inr s \<and> apply_record cr (Some s) r = Inr s')"
proof -
  have "try_fold (replay_record cr) rs None = Inr x \<Longrightarrow> \<exists>s. x = Some s" for x
    using assms replay_fold_None [of cr rs None] by (cases x) auto
  then show ?thesis
    by (fastforce simp: replay_Inr_iff try_fold_append replay_record_Inr_iff result_simps)
qed

lemma replay_induct [consumes 1, case_names init step]:
  assumes "replay cr rs = Inr s"
    and "\<And>r s. apply_record cr None r = Inr s \<Longrightarrow> P [r] s"
    and "\<And>rs s r s'. replay cr rs = Inr s \<Longrightarrow> P rs s \<Longrightarrow> apply_record cr (Some s) r = Inr s' \<Longrightarrow>
      P (rs @ [r]) s'"
  shows "P rs s"
  using assms(1)
proof (induction rs arbitrary: s rule: rev_induct)
  case (snoc r rs)
  show ?case
  proof (cases "rs = []")
    case True
    with snoc.prems assms(2) show ?thesis by simp
  next
    case False
    with snoc.prems obtain s0 where "replay cr rs = Inr s0" "apply_record cr (Some s0) r = Inr s"
      by (auto simp: replay_snoc_iff)
    then show ?thesis using snoc.IH assms(3) by blast
  qed
qed simp

lemma replay_prefix:
  "replay cr (rs @ ext) = Inr s' \<Longrightarrow> rs \<noteq> [] \<Longrightarrow> \<exists>s. replay cr rs = Inr s"
proof (induction ext arbitrary: s' rule: rev_induct)
  case (snoc r ext)
  have "replay cr ((rs @ ext) @ [r]) = Inr s'" using snoc.prems by simp
  then show ?case
    using snoc by (subst (asm) replay_snoc_iff) auto
qed auto

section \<open>Contracts of invariants\<close>

locale run_invariant =
  fixes cr :: crypto and J :: "event_record list \<Rightarrow> run_state \<Rightarrow> bool"
  assumes starts: "apply_record cr None r = Inr s \<Longrightarrow> J [r] s"
    and continues: "replay cr rs = Inr s \<Longrightarrow> J rs s \<Longrightarrow> record_follows cr s r \<Longrightarrow>
      apply_body cr s (re_body (er_event r)) = Inr s' \<Longrightarrow> J (rs @ [r]) (advance_head r s')"
begin

lemma reachable: "replay cr rs = Inr s \<Longrightarrow> J rs s"
proof (induction rule: replay_induct)
  case (step rs s r s')
  then show ?case using continues by (auto simp: apply_record_Some_iff)
qed (rule starts)

end

text \<open>
  An invariant of the projection alone is one that ignores the journal; it need only survive
  \<open>apply_body\<close> and the update of the head.
\<close>

locale state_invariant =
  fixes cr :: crypto and I :: "run_state \<Rightarrow> bool"
  assumes initially: "I (advance_head r (initial_state r goal))"
    and preserved: "replay cr rs = Inr s \<Longrightarrow> I s \<Longrightarrow> record_follows cr s r \<Longrightarrow>
      apply_body cr s (re_body (er_event r)) = Inr s' \<Longrightarrow> I (advance_head r s')"

sublocale state_invariant \<subseteq> run_invariant cr "\<lambda>_. I"
  by unfold_locales (auto simp: apply_record_None_iff initially intro: preserved)

locale run_relation =
  fixes cr :: crypto and R :: "run_state \<Rightarrow> run_state \<Rightarrow> bool"
  assumes reflexive: "R s s"
    and transitive: "R s s' \<Longrightarrow> R s' s'' \<Longrightarrow> R s s''"
    and extended: "replay cr rs = Inr s \<Longrightarrow> apply_body cr s body = Inr s' \<Longrightarrow> R s (advance_head r s')"
begin

lemma later:
  "replay cr rs = Inr s \<Longrightarrow> replay cr (rs @ ext) = Inr s' \<Longrightarrow> R s s'"
proof (induction ext arbitrary: s' rule: rev_induct)
  case Nil
  then show ?case by (simp add: reflexive)
next
  case (snoc r ext)
  have "rs \<noteq> []" using snoc.prems(1) by auto
  moreover have "replay cr ((rs @ ext) @ [r]) = Inr s'" using snoc.prems(2) by simp
  ultimately obtain s1 s2 where "replay cr (rs @ ext) = Inr s1"
    "apply_body cr s1 (re_body (er_event r)) = Inr s2" "s' = advance_head r s2"
    by (subst (asm) replay_snoc_iff) (auto simp: apply_record_Some_iff)
  then show ?case
    using snoc extended transitive by blast
qed

end

section \<open>The chain\<close>

lemma apply_body_identity:
  assumes "apply_body cr s body = Inr s'"
  shows "rs_run_id s' = rs_run_id s" and "rs_authority s' = rs_authority s"
    and "rs_authority_epoch s' = rs_authority_epoch s" and "rs_goal s' = rs_goal s"
    and "rs_journal_sequence s' = rs_journal_sequence s"
    and "rs_journal_head_digest s' = rs_journal_head_digest s"
  using assms
  by (cases rule: apply_body_cases, (force simp: commit_effect_intent_Inr_iff elim: accept_plan_Inr)+)+

definition link_ok :: "crypto \<Rightarrow> event_record list \<Rightarrow> run_state \<Rightarrow> nat \<Rightarrow> bool" where
  "link_ok cr rs s k \<longleftrightarrow>
     unat (er_sequence (rs ! k)) = k + 1
     \<and> er_previous_digest (rs ! k) = (if k = 0 then None else Some (er_digest (rs ! (k - 1))))
     \<and> verify_digest cr (rs ! k) = Inr ()
     \<and> re_run_id (er_event (rs ! k)) = rs_run_id s
     \<and> re_authority (er_event (rs ! k)) = rs_authority s
     \<and> re_authority_epoch (er_event (rs ! k)) = rs_authority_epoch s
     \<and> (k = 0 \<longleftrightarrow> (\<exists>goal. re_body (er_event (rs ! k)) = RunCreated goal))"

definition chained :: "crypto \<Rightarrow> event_record list \<Rightarrow> run_state \<Rightarrow> bool" where
  "chained cr rs s \<longleftrightarrow> rs \<noteq> []
     \<and> (\<forall>k < length rs. link_ok cr rs s k)
     \<and> re_body (er_event (rs ! 0)) = RunCreated (rs_goal s)
     \<and> rs_revision s = rs_journal_sequence s
     \<and> rs_journal_sequence s = er_sequence (last rs)
     \<and> rs_journal_head_digest s = er_digest (last rs)"

lemma link_ok_snoc:
  assumes "rs_run_id s' = rs_run_id s" "rs_authority s' = rs_authority s"
    "rs_authority_epoch s' = rs_authority_epoch s" and "k < length rs"
  shows "link_ok cr (rs @ [r]) s' k = link_ok cr rs s k"
  using assms by (simp add: link_ok_def nth_append less_imp_diff_less)

interpretation chain: run_invariant cr "chained cr" for cr
proof unfold_locales
  fix r s
  assume "apply_record cr None r = Inr s"
  then show "chained cr [r] s"
    by (auto simp: apply_record_None_iff chained_def link_ok_def)
next
  fix rs s r s'
  assume c: "chained cr rs s" and follows: "record_follows cr s r"
    and body: "apply_body cr s (re_body (er_event r)) = Inr s'"
  note frame = apply_body_identity [OF body]
  have "link_ok cr (rs @ [r]) (advance_head r s') k" if "k < length (rs @ [r])" for k
  proof (cases "k = length rs")
    case True
    have "rs \<noteq> []" and seq: "rs_journal_sequence s = er_sequence (last rs)"
      and head: "rs_journal_head_digest s = er_digest (last rs)"
      using c by (simp_all add: chained_def)
    have "link_ok cr rs s (length rs - 1)"
      using c \<open>rs \<noteq> []\<close> by (simp add: chained_def)
    then have "unat (er_sequence (last rs)) = length rs"
      using \<open>rs \<noteq> []\<close> by (simp add: link_ok_def last_conv_nth)
    moreover have "\<forall>goal. re_body (er_event r) \<noteq> RunCreated goal"
      using body by (auto simp: apply_body_def)
    ultimately show ?thesis
      using True follows frame seq head \<open>rs \<noteq> []\<close>
      by (simp add: link_ok_def record_follows_def nth_append last_conv_nth)
  next
    case False
    with that c frame show ?thesis
      by (simp add: chained_def link_ok_snoc [where s = s])
  qed
  then show "chained cr (rs @ [r]) (advance_head r s')"
    using c frame by (auto simp: chained_def nth_append)
qed

section \<open>Invariants of single steps\<close>

abbreviation body_of :: "event_record \<Rightarrow> run_event_body" where
  "body_of r \<equiv> re_body (er_event r)"

definition targets_known :: "event_record list \<Rightarrow> run_state \<Rightarrow> bool" where
  "targets_known rs s \<longleftrightarrow>
     (\<forall>v. (\<exists>r \<in> set rs. targets (body_of r) v) \<longrightarrow> bm_contains_key (rs_steps s) v)"

lemma targeted_step_exists:
  assumes "apply_body cr s body = Inr s'" and "targets body v"
  shows "bm_contains_key (rs_steps s) v"
  using step_move_None [of cr s body v] apply_body_step_move [OF assms(1), of v] assms(2)
  unfolding bm_contains_key_def by metis

lemma steps_persist:
  assumes "apply_body cr s body = Inr s'" and "bm_contains_key (rs_steps s) v"
  shows "bm_contains_key (rs_steps s') v"
  using step_move_Some [of cr s body v] apply_body_step_move [OF assms(1), of v] assms(2)
  unfolding bm_contains_key_def by fastforce

interpretation known: run_invariant cr targets_known for cr
proof unfold_locales
  fix r s
  assume "apply_record cr None r = Inr s"
  then show "targets_known [r] s"
    by (auto simp: apply_record_None_iff targets_known_def targets_def)
next
  fix rs s r s'
  assume "targets_known rs s" and "apply_body cr s (body_of r) = Inr s'"
  then show "targets_known (rs @ [r]) (advance_head r s')"
    by (auto simp: targets_known_def dest: targeted_step_exists intro: steps_persist)
qed

locale step_invariant =
  fixes cr :: crypto and K :: "event_record list \<Rightarrow> string \<Rightarrow> step_state \<Rightarrow> bool"
  assumes created: "(\<And>x. x \<in> set rs \<Longrightarrow> \<not> targets (body_of x) v) \<Longrightarrow>
      K rs v (new_step v obj deps pinv)"
    and untouched: "K rs v st \<Longrightarrow> \<not> targets (body_of r) v \<Longrightarrow> K (rs @ [r]) v st"
    and committed: "replay cr rs = Inr s \<Longrightarrow> bm_get (rs_steps s) v = Some st \<Longrightarrow> K rs v st \<Longrightarrow>
      ss_status st = Planned \<Longrightarrow> record_follows cr s r \<Longrightarrow> body_of r = EffectIntentCommitted v i \<Longrightarrow>
      commit_effect_intent cr s v i = Inr s' \<Longrightarrow>
      K (rs @ [r]) v (st\<lparr>ss_status := IntentCommitted, ss_intent := Some i\<rparr>)"
    and moved: "K rs v st \<Longrightarrow> lifecycle v (body_of r) st st' \<Longrightarrow> K (rs @ [r]) v st'"

sublocale step_invariant \<subseteq>
  run_invariant cr "\<lambda>rs s. \<forall>v st. bm_get (rs_steps s) v = Some st \<longrightarrow> K rs v st"
proof unfold_locales
  fix r s
  assume "apply_record cr None r = Inr s"
  then show "\<forall>v st. bm_get (rs_steps s) v = Some st \<longrightarrow> K [r] v st"
    by (auto simp: apply_record_None_iff)
next
  fix rs s r s'
  assume J: "\<forall>v st. bm_get (rs_steps s) v = Some st \<longrightarrow> K rs v st"
    and run: "replay cr rs = Inr s" and follows: "record_follows cr s r"
    and body: "apply_body cr s (body_of r) = Inr s'"
  have "K (rs @ [r]) v st" if st: "bm_get (rs_steps s') v = Some st" for v st
  proof -
    from apply_body_step_move [OF body, of v]
    have "step_move cr s (body_of r) v (bm_get (rs_steps s) v) (Some st)"
      using st by simp
    then show ?thesis
    proof cases
      case untouched
      then show ?thesis using J step_invariant_axioms unfolding step_invariant_def by metis
    next
      case (created obj deps pinv)
      have "\<not> targets (body_of x) v" if "x \<in> set (rs @ [r])" for x
        using that created known.reachable [OF run]
        by (auto simp: targets_known_def bm_contains_key_def)
      then show ?thesis
        using created step_invariant_axioms unfolding step_invariant_def by blast
    next
      case (committed i s1 st0)
      then show ?thesis
        using J run follows step_invariant_axioms unfolding step_invariant_def by metis
    next
      case (moved st0)
      then show ?thesis using J step_invariant_axioms unfolding step_invariant_def by metis
    qed
  qed
  then show "\<forall>v st. bm_get (rs_steps (advance_head r s')) v = Some st \<longrightarrow> K (rs @ [r]) v st"
    by simp
qed

end
