(* ===== verification/Run_Safety.thy ===== *)
theory Run_Safety
  imports Journal_Replay
begin

text \<open>
  Safety of steps and of the dependency graph along a journal, as interpretations of the
  contracts of \<open>Journal_Replay\<close>: identity and finality of steps, the account of execution
  attempts, durable tool output, agreement of intents with planned invocations, well-formedness
  of the graph (hence totality of the frontier on replayed states), and receipts behind every
  released dependency.
\<close>

section \<open>Identity and finality\<close>

definition terminal_status :: "step_status \<Rightarrow> bool" where
  "terminal_status q \<longleftrightarrow> q = Completed \<or> q = Failed \<or> q = ManualRequired"

definition step_extends :: "step_state \<Rightarrow> step_state \<Rightarrow> bool" where
  "step_extends st st' \<longleftrightarrow>
     ss_step_id st' = ss_step_id st \<and> ss_objective st' = ss_objective st
     \<and> ss_depends_on st' = ss_depends_on st \<and> ss_planned_invocation st' = ss_planned_invocation st
     \<and> (\<forall>i. ss_intent st = Some i \<longrightarrow> ss_intent st' = Some i)
     \<and> ss_attempts st \<le> ss_attempts st'
     \<and> (terminal_status (ss_status st) \<longrightarrow> st' = st)"

definition run_extends :: "run_state \<Rightarrow> run_state \<Rightarrow> bool" where
  "run_extends s s' \<longleftrightarrow>
     rs_run_id s' = rs_run_id s \<and> rs_authority s' = rs_authority s
     \<and> rs_authority_epoch s' = rs_authority_epoch s \<and> rs_goal s' = rs_goal s
     \<and> (\<forall>v st. bm_get (rs_steps s) v = Some st \<longrightarrow>
          (\<exists>st'. bm_get (rs_steps s') v = Some st' \<and> step_extends st st'))"

lemma step_extends_refl [simp]: "step_extends st st"
  by (simp add: step_extends_def)

lemma step_extends_trans: "step_extends a b \<Longrightarrow> step_extends b c \<Longrightarrow> step_extends a c"
  unfolding step_extends_def by (auto intro: order_trans)

lemma lifecycle_source: "lifecycle v body st st' \<Longrightarrow> \<not> terminal_status (ss_status st) \<and> ss_status st \<noteq> Planned"
  by (induction rule: lifecycle.induct) (auto simp: terminal_status_def)

lemma lifecycle_extends: "lifecycle v body st st' \<Longrightarrow> step_extends st st'"
proof -
  assume "lifecycle v body st st'"
  then show ?thesis
    using lifecycle_source [OF \<open>lifecycle v body st st'\<close>]
    by (induction rule: lifecycle.induct)
      (auto simp: step_extends_def checked_add_Some_iff word_le_nat_alt)
qed

lemma step_move_extends:
  assumes "step_move cr s body v (Some st) y" and "ss_status st = Planned \<Longrightarrow> ss_intent st = None"
  shows "\<exists>st'. y = Some st' \<and> step_extends st st'"
  using assms
  by (cases rule: step_move.cases) (auto simp: lifecycle_extends, simp add: step_extends_def terminal_status_def)

interpretation planned: step_invariant cr "\<lambda>_ _ st. ss_status st = Planned \<longleftrightarrow> ss_intent st = None" for cr
proof unfold_locales
  fix v r st st'
  assume inv: "(ss_status st = Planned) = (ss_intent st = None)" and move: "lifecycle v (body_of r) st st'"
  from move inv show "(ss_status st' = Planned) = (ss_intent st' = None)"
    by (cases rule: lifecycle.cases)
      (auto split: reconciliation_resolution.splits verification_disposition.splits)
qed (simp_all add: new_step_def)

interpretation persist: run_relation cr run_extends for cr
proof unfold_locales
  fix rs s body s' r
  assume run: "replay cr rs = Inr s" and body: "apply_body cr s body = Inr s'"
  have "\<exists>st'. bm_get (rs_steps s') v = Some st' \<and> step_extends st st'"
    if st: "bm_get (rs_steps s) v = Some st" for v st
    using apply_body_step_move [OF body, of v] planned.reachable [OF run] st
    by (intro step_move_extends [of cr s body v]) auto
  then show "run_extends s (advance_head r s')"
    using apply_body_identity [OF body] by (simp add: run_extends_def)
next
  fix s s' s''
  assume "run_extends s s'" and "run_extends s' s''"
  then show "run_extends s s''"
    unfolding run_extends_def by (metis step_extends_trans)
qed (simp add: run_extends_def)

section \<open>Execution attempts\<close>

fun starts_effect :: "string \<Rightarrow> run_event_body \<Rightarrow> bool" where
  "starts_effect v (EffectExecutionStarted w _) = (w = v)"
| "starts_effect v _ = False"

fun clears_retry :: "string \<Rightarrow> run_event_body \<Rightarrow> bool" where
  "clears_retry v (ReconciliationResolved w _ ProvedNotApplied _) = (w = v)"
| "clears_retry v _ = False"

definition count_events :: "(run_event_body \<Rightarrow> bool) \<Rightarrow> event_record list \<Rightarrow> nat" where
  "count_events P rs = length (filter (\<lambda>r. P (body_of r)) rs)"

lemma count_events_simps [simp]:
  "count_events P [] = 0"
  "count_events P (rs @ [r]) = count_events P rs + (if P (body_of r) then 1 else 0)"
  by (simp_all add: count_events_def)

lemma starts_effect_target: "starts_effect v body \<Longrightarrow> targets body v"
  by (cases "(v, body)" rule: starts_effect.cases) (auto simp: targets_def)

lemma clears_retry_target: "clears_retry v body \<Longrightarrow> targets body v"
  by (cases "(v, body)" rule: clears_retry.cases) (auto simp: targets_def)

lemmas counted_target = starts_effect_target clears_retry_target

definition attempts_accounted :: "event_record list \<Rightarrow> string \<Rightarrow> step_state \<Rightarrow> bool" where
  "attempts_accounted rs v st \<longleftrightarrow>
     unat (ss_attempts st) = count_events (starts_effect v) rs
     \<and> (case ss_status st of
          Planned \<Rightarrow> count_events (starts_effect v) rs = 0 \<and> count_events (clears_retry v) rs = 0
        | IntentCommitted \<Rightarrow>
            count_events (starts_effect v) rs = count_events (clears_retry v) rs
        | ManualRequired \<Rightarrow>
            count_events (starts_effect v) rs \<in>
              {count_events (clears_retry v) rs, count_events (clears_retry v) rs + 1}
        | _ \<Rightarrow> count_events (starts_effect v) rs = count_events (clears_retry v) rs + 1)"

interpretation attempts: step_invariant cr attempts_accounted for cr
proof unfold_locales
  fix rs v obj deps pinv
  assume "\<And>x. x \<in> set rs \<Longrightarrow> \<not> targets (body_of x) v"
  then have "count_events (starts_effect v) rs = 0" "count_events (clears_retry v) rs = 0"
    by (auto simp: count_events_def filter_empty_conv dest: counted_target)
  then show "attempts_accounted rs v (new_step v obj deps pinv)"
    by (simp add: attempts_accounted_def new_step_def)
next
  fix rs v st r
  assume "attempts_accounted rs v st" and "\<not> targets (body_of r) v"
  moreover from this(2) have "count_events (starts_effect v) (rs @ [r]) = count_events (starts_effect v) rs"
    "count_events (clears_retry v) (rs @ [r]) = count_events (clears_retry v) rs"
    by (auto dest: counted_target)
  ultimately show "attempts_accounted (rs @ [r]) v st"
    by (simp only: attempts_accounted_def)
next
  fix rs v st r st'
  assume "attempts_accounted rs v st" and "lifecycle v (body_of r) st st'"
  from this(2,1) show "attempts_accounted (rs @ [r]) v st'"
    by (cases rule: lifecycle.cases)
      (auto simp: attempts_accounted_def checked_add_Some_iff
        split: reconciliation_resolution.splits verification_disposition.splits)
qed (auto simp: attempts_accounted_def)

section \<open>Durable tool output\<close>

definition output_durable :: "step_state \<Rightarrow> bool" where
  "output_durable st \<longleftrightarrow>
     (step_output_profile st = Some TOOL_OUTPUT_PROFILE_V1 \<and> ss_status st \<in> {Validating, Completed} \<longrightarrow>
       (\<exists>d. ss_output_record_digest st = Some d \<and> is_canonical_sha256 d))
     \<and> (ss_output_record_digest st \<noteq> None \<longrightarrow>
          step_output_profile st = Some TOOL_OUTPUT_PROFILE_V1 \<and> ss_effect_evidence_digest st \<noteq> None
          \<and> (ss_status st = Validating \<or> terminal_status (ss_status st)))"

lemma step_output_profile_update [simp]:
  "step_output_profile (st\<lparr>ss_status := q\<rparr>) = step_output_profile st"
  "step_output_profile (st\<lparr>ss_attempts := n\<rparr>) = step_output_profile st"
  "step_output_profile (st\<lparr>ss_effect_evidence_digest := a\<rparr>) = step_output_profile st"
  "step_output_profile (st\<lparr>ss_output_record_digest := a\<rparr>) = step_output_profile st"
  "step_output_profile (st\<lparr>ss_execution_receipt_id := a\<rparr>) = step_output_profile st"
  "step_output_profile (st\<lparr>ss_execution_receipt_digest := a\<rparr>) = step_output_profile st"
  "step_output_profile (st\<lparr>ss_uncertainty_reason := a\<rparr>) = step_output_profile st"
  "step_output_profile (st\<lparr>ss_reconciliation_evidence_digest := a\<rparr>) = step_output_profile st"
  by (simp_all add: step_output_profile_def)

interpretation durable: step_invariant cr "\<lambda>_ _ st. output_durable st" for cr
proof unfold_locales
  fix v r st st'
  assume inv: "output_durable st" and move: "lifecycle v (body_of r) st st'"
  from move inv show "output_durable st'"
    by (cases rule: lifecycle.cases)
      (auto simp: output_durable_def terminal_status_def
        split: option.splits reconciliation_resolution.splits verification_disposition.splits)
qed (auto simp: output_durable_def new_step_def terminal_status_def)

section \<open>Intents agree with planned invocations\<close>

definition profile_matches :: "planned_execution_profile \<Rightarrow> effect_intent \<Rightarrow> bool" where
  "profile_matches p i \<longleftrightarrow>
     (if p = LocalSyncOnceV1 \<or> p = LocalSyncOnceOccurrenceV1
      then ei_effect_class i \<noteq> ReadOnly \<and> (\<exists>k. ei_idempotency_key i = Some k \<and> k \<noteq> [])
      else ei_effect_class i = ReadOnly \<and> ei_idempotency_key i = None
        \<and> ei_sink_guarantee i = SinkNone)"

definition intent_matches_plan :: "planned_invocation_binding \<Rightarrow> effect_intent \<Rightarrow> bool" where
  "intent_matches_plan b i \<longleftrightarrow>
     ib_capability_id (ei_invocation i) = pib_capability_id b
     \<and> ib_contract_version (ei_invocation i) = pib_contract_version b
     \<and> ib_definition_digest (ei_invocation i) = pib_definition_digest b
     \<and> ei_action_digest i = pib_action_digest b
     \<and> ab_material_digest (au_binding (ei_authorization i)) = pib_plan_input_digest b
     \<and> profile_matches (pib_execution_profile b) i
     \<and> (\<exists>p. ei_receipt_provenance i = Some p \<and> rp_plan_id p = pib_plan_id b
          \<and> rp_executor_placement p = PlacementLocal
          \<and> rp_executor_platform p = pib_target_os b @ ''-'' @ pib_target_arch b)"

lemma validate_planned_execution_profile_iff:
  "validate_planned_execution_profile st b i p = Inr () \<longleftrightarrow>
     profile_matches (pib_execution_profile b) i \<and> rp_executor_placement p = PlacementLocal
     \<and> rp_executor_platform p = pib_target_os b @ ''-'' @ pib_target_arch b"
  by (cases "ei_idempotency_key i")
    (auto simp: validate_planned_execution_profile_def profile_matches_def empty_or_missing_def
      result_simps Let_def)

lemma validate_planned_invocation_binding_iff:
  "validate_planned_invocation_binding cr st i = Inr () \<longleftrightarrow>
     (case ss_planned_invocation st of None \<Rightarrow> True
      | Some b \<Rightarrow> binding_validate cr b = Inr () \<and> intent_matches_plan b i)"
  by (auto simp: validate_planned_invocation_binding_def intent_matches_plan_def result_simps Let_def
      validate_planned_execution_profile_iff split: option.splits)

interpretation agreement: step_invariant cr
  "\<lambda>_ _ st. \<forall>b i. ss_planned_invocation st = Some b \<and> ss_intent st = Some i \<longrightarrow>
     binding_validate cr b = Inr () \<and> intent_matches_plan b i" for cr
proof unfold_locales
  fix s v st r i s'
  assume "bm_get (rs_steps s) v = Some st" and "commit_effect_intent cr s v i = Inr s'"
  then have "validate_planned_invocation_binding cr st i = Inr ()"
    by (simp add: commit_effect_intent_Inr_iff)
  then show "\<forall>b j. ss_planned_invocation (st\<lparr>ss_status := IntentCommitted, ss_intent := Some i\<rparr>) = Some b
      \<and> ss_intent (st\<lparr>ss_status := IntentCommitted, ss_intent := Some i\<rparr>) = Some j \<longrightarrow>
      binding_validate cr b = Inr () \<and> intent_matches_plan b j"
    by (auto simp: validate_planned_invocation_binding_iff)
next
  fix v r st st'
  assume inv: "\<forall>b i. ss_planned_invocation st = Some b \<and> ss_intent st = Some i \<longrightarrow>
      binding_validate cr b = Inr () \<and> intent_matches_plan b i"
    and move: "lifecycle v (body_of r) st st'"
  from move inv show "\<forall>b i. ss_planned_invocation st' = Some b \<and> ss_intent st' = Some i \<longrightarrow>
      binding_validate cr b = Inr () \<and> intent_matches_plan b i"
    by (cases rule: lifecycle.cases) auto
qed (auto simp: new_step_def)

section \<open>Authorization at the head\<close>

text \<open>
  The authorization of a committed intent names this run, step and authority and the very head
  the journal had when the intent was recorded.
\<close>

definition authorized_at :: "crypto \<Rightarrow> event_record list \<Rightarrow> string \<Rightarrow> effect_intent \<Rightarrow> nat \<Rightarrow> bool" where
  "authorized_at cr rs v i k \<longleftrightarrow>
     0 < k \<and> k < length rs \<and> body_of (rs ! k) = EffectIntentCommitted v i
     \<and> ab_run_id (au_binding (ei_authorization i)) = re_run_id (er_event (rs ! k))
     \<and> ab_step_id (au_binding (ei_authorization i)) = v
     \<and> ab_authority (au_binding (ei_authorization i)) = re_authority (er_event (rs ! k))
     \<and> ab_authority_epoch (au_binding (ei_authorization i)) = re_authority_epoch (er_event (rs ! k))
     \<and> unat (ab_issued_at_sequence (au_binding (ei_authorization i))) = k
     \<and> ab_issued_at_head_digest (au_binding (ei_authorization i)) = er_digest (rs ! (k - 1))
     \<and> ab_action_digest (au_binding (ei_authorization i)) = ei_action_digest i
     \<and> once_authorization_id cr (re_run_id (er_event (rs ! k))) (ei_action_digest i)
         = Inr (au_grant_id (ei_authorization i))
     \<and> authorization_digest cr (au_binding (ei_authorization i)) 1
         = Inr (au_grant_digest (ei_authorization i))"

lemma validate_authorization_binding_iff:
  "validate_authorization_binding cr s v i = Inr () \<longleftrightarrow>
     (let b = au_binding (ei_authorization i) in
      ab_run_id b = rs_run_id s \<and> ab_step_id b = v \<and> ab_authority b = rs_authority s
      \<and> ab_authority_epoch b = rs_authority_epoch s
      \<and> ab_issued_at_sequence b = rs_journal_sequence s
      \<and> ab_issued_at_head_digest b = rs_journal_head_digest s
      \<and> ab_action_digest b = ei_action_digest i
      \<and> ab_capability_id b = ib_capability_id (ei_invocation i)
      \<and> ab_contract_version b = ib_contract_version (ei_invocation i)
      \<and> ab_definition_digest b = ib_definition_digest (ei_invocation i)
      \<and> ab_instance_id b = ib_instance_id (ei_invocation i)
      \<and> ab_instance_binding_digest b = ib_instance_binding_digest (ei_invocation i)
      \<and> once_authorization_id cr (rs_run_id s) (ei_action_digest i)
          = Inr (au_grant_id (ei_authorization i))
      \<and> authorization_digest cr b (au_max_uses (ei_authorization i))
          = Inr (au_grant_digest (ei_authorization i)))"
  by (auto simp: validate_authorization_binding_def Let_def result_simps)

lemma journal_length:
  assumes "replay cr rs = Inr s"
  shows "unat (rs_journal_sequence s) = length rs" and "rs \<noteq> []"
    and "rs_journal_head_digest s = er_digest (rs ! (length rs - 1))"
proof -
  have c: "chained cr rs s" using assms by (rule chain.reachable)
  then show ne: "rs \<noteq> []" by (simp add: chained_def)
  then have "link_ok cr rs s (length rs - 1)" using c by (simp add: chained_def)
  then show "unat (rs_journal_sequence s) = length rs"
    using c ne by (simp add: chained_def link_ok_def last_conv_nth)
  show "rs_journal_head_digest s = er_digest (rs ! (length rs - 1))"
    using c ne by (simp add: chained_def last_conv_nth)
qed

lemma authorized_at_snoc: "authorized_at cr rs v i k \<Longrightarrow> authorized_at cr (rs @ [r]) v i k"
  by (auto simp: authorized_at_def nth_append)

interpretation authorized: step_invariant cr
  "\<lambda>rs v st. \<forall>i. ss_intent st = Some i \<longrightarrow> (\<exists>k. authorized_at cr rs v i k)" for cr
proof unfold_locales
  fix rs s v st r i s'
  assume run: "replay cr rs = Inr s" and follows: "record_follows cr s r"
    and r: "body_of r = EffectIntentCommitted v i" and commit: "commit_effect_intent cr s v i = Inr s'"
  from commit have "validate_authorization_binding cr s v i = Inr ()" "au_max_uses (ei_authorization i) = 1"
    by (auto simp: commit_effect_intent_Inr_iff)
  then have "authorized_at cr (rs @ [r]) v i (length rs)"
    using journal_length [OF run] follows r
    by (auto simp: authorized_at_def validate_authorization_binding_iff Let_def record_follows_def
        nth_append)
  then show "\<forall>j. ss_intent (st\<lparr>ss_status := IntentCommitted, ss_intent := Some i\<rparr>) = Some j \<longrightarrow>
      (\<exists>k. authorized_at cr (rs @ [r]) v j k)"
    by auto
next
  fix rs v r st st'
  assume inv: "\<forall>i. ss_intent st = Some i \<longrightarrow> (\<exists>k. authorized_at cr rs v i k)"
    and move: "lifecycle v (body_of r) st st'"
  have "ss_intent st' = ss_intent st"
    using move by (cases rule: lifecycle.cases) auto
  then show "\<forall>i. ss_intent st' = Some i \<longrightarrow> (\<exists>k. authorized_at cr (rs @ [r]) v i k)"
    using inv authorized_at_snoc by metis
qed (auto simp: new_step_def intro: authorized_at_snoc)

section \<open>Receipts\<close>

definition receipt_recorded :: "event_record list \<Rightarrow> string \<Rightarrow> step_state \<Rightarrow> bool" where
  "receipt_recorded rs v st \<longleftrightarrow>
     (\<forall>rid. ss_execution_receipt_id st = Some rid \<longrightarrow> terminal_status (ss_status st)
       \<and> (\<exists>r \<in> set rs. \<exists>e verdict rdigest.
            body_of r = VerificationRecorded v e verdict rid rdigest \<and> holds_effect st e
            \<and> ss_execution_receipt_digest st = Some rdigest
            \<and> ss_status st = (case verdict of VerdictPassed \<Rightarrow> Completed | VerdictFailed \<Rightarrow> Failed
                              | VerdictInconclusive \<Rightarrow> ManualRequired)))"

interpretation receipts: step_invariant cr receipt_recorded for cr
proof unfold_locales
  fix rs v r st st'
  assume inv: "receipt_recorded rs v st" and move: "lifecycle v (body_of r) st st'"
  have "ss_execution_receipt_id st = None"
    using inv lifecycle_source [OF move] by (cases "ss_execution_receipt_id st") (auto simp: receipt_recorded_def)
  with move show "receipt_recorded (rs @ [r]) v st'"
    by (cases rule: lifecycle.cases)
      (auto simp: receipt_recorded_def terminal_status_def holds_effect_def split: verification_disposition.splits)
next
  fix rs v st r
  assume "receipt_recorded rs v st"
  then show "receipt_recorded (rs @ [r]) v st"
    unfolding receipt_recorded_def by fastforce
next
  fix rs v st r i
  assume "receipt_recorded rs v st" and "ss_status st = Planned"
  then show "receipt_recorded (rs @ [r]) v (st\<lparr>ss_status := IntentCommitted, ss_intent := Some i\<rparr>)"
    by (auto simp: receipt_recorded_def terminal_status_def)
qed (simp add: receipt_recorded_def new_step_def)

section \<open>The dependency graph\<close>

definition graph_ok :: "run_state \<Rightarrow> bool" where
  "graph_ok s \<longleftrightarrow> graph_wf s \<and> acyclic (dep_edges s) \<and> actives_released s"

lemma graph_ok_iff_frontier: "graph_ok s \<longleftrightarrow> (\<exists>f. derive_frontier s = Inr f)"
  by (simp add: graph_ok_def derive_frontier_ok_iff)

lemma graph_ok_steps: "rs_steps s' = rs_steps s \<Longrightarrow> graph_ok s' = graph_ok s"
  by (simp add: graph_ok_def graph_wf_def dep_edges_def step_deps_def actives_released_def
      active_step_def released_def)

text \<open>A step that changes its state keeps its edges; the graph stays sound if it was not released.\<close>

lemma graph_ok_update:
  assumes ok: "graph_ok s" and st: "bm_get (rs_steps s) v = Some st"
    and deps: "ss_depends_on st' = ss_depends_on st" and unreleased: "\<not> released s v"
    and active: "\<forall>d \<in> set (ss_depends_on st). released s d"
    and s': "rs_steps s' = bm_insert v st' (rs_steps s)"
  shows "graph_ok s'"
proof -
  have sd: "step_deps s' w = step_deps s w" for w
    using st deps by (simp add: step_deps_def s')
  have keys: "bm_contains_key (rs_steps s') w = bm_contains_key (rs_steps s) w" for w
    using st by (auto simp: s' bm_contains_key_def)
  have rel: "released s w \<Longrightarrow> released s' w" for w
    using unreleased by (auto simp: released_def s')
  have "active_step s' w \<Longrightarrow> w \<noteq> v \<Longrightarrow> active_step s w" for w
    by (simp add: active_step_def s')
  moreover have "step_deps s v = ss_depends_on st"
    using st by (simp add: step_deps_def)
  ultimately have "actives_released s'"
    using ok active rel unfolding actives_released_def graph_ok_def sd by metis
  then show ?thesis
    using ok by (simp add: graph_ok_def graph_wf_def dep_edges_def sd keys)
qed

lemma acyclic_new_sink:
  assumes "acyclic r" and "finite A" and "v \<notin> A" and "v \<notin> Domain r"
  shows "acyclic (r \<union> A \<times> {v})"
  using assms(2,3)
proof (induction A rule: finite_induct)
  case (insert d A)
  have "(v, x) \<notin> (r \<union> A \<times> {v})\<^sup>*" if "x \<noteq> v" for x
  proof
    assume "(v, x) \<in> (r \<union> A \<times> {v})\<^sup>*"
    then have "v = x"
      using assms(4) insert.prems by (cases rule: converse_rtranclE) auto
    with that show False by simp
  qed
  then have "acyclic (Set.insert (d, v) (r \<union> A \<times> {v}))"
    using insert by (auto simp: acyclic_insert)
  moreover have "r \<union> Set.insert d A \<times> {v} = Set.insert (d, v) (r \<union> A \<times> {v})" by auto
  ultimately show ?case by simp
qed (simp add: assms(1))

lemma graph_ok_new_step:
  assumes ok: "graph_ok s" and fresh: "\<not> bm_contains_key (rs_steps s) v"
    and deps: "deps_ok (rs_steps s) v deps"
  shows "graph_ok (put_step v (new_step v obj deps pinv) s)" (is "graph_ok ?s")
proof -
  have none: "bm_get (rs_steps s) v = None" using fresh by (simp add: bm_contains_key_def)
  have sd: "step_deps ?s w = (if w = v then deps else step_deps s w)" for w
    by (simp add: step_deps_def new_step_def)
  have sv: "step_deps s v = []" using none by (simp add: step_deps_def)
  have edges: "dep_edges ?s = dep_edges s \<union> set deps \<times> {v}"
    using sv by (auto simp: dep_edges_def sd split: if_splits)
  have "v \<notin> Domain (dep_edges s)"
    using ok fresh by (auto simp: graph_ok_def graph_wf_def dep_edges_def)
  then have acyclic: "acyclic (dep_edges ?s)"
    unfolding edges using ok deps by (intro acyclic_new_sink) (auto simp: graph_ok_def deps_ok_def)
  have wf: "graph_wf ?s"
    using ok deps by (auto simp: graph_ok_def graph_wf_def deps_ok_def sd)
  have "released ?s w = released s w" for w
    using none by (simp add: released_def new_step_def receipt_releases_dependency_def)
  moreover have "active_step ?s w \<Longrightarrow> w \<noteq> v \<and> active_step s w" for w
    by (simp add: active_step_def new_step_def split: if_splits)
  ultimately have "actives_released ?s"
    using ok unfolding graph_ok_def actives_released_def sd by metis
  with wf acyclic show ?thesis by (simp add: graph_ok_def)
qed

interpretation graph: state_invariant cr graph_ok for cr
proof unfold_locales
  fix r goal
  show "graph_ok (advance_head r (initial_state r goal))"
    by (auto simp: graph_ok_def graph_wf_def dep_edges_def step_deps_def actives_released_def
        active_step_def acyclic_def)
next
  fix rs s r s'
  assume ok: "graph_ok s" and body: "apply_body cr s (body_of r) = Inr s'"
  from body have "graph_ok s'"
  proof (cases rule: apply_body_cases)
    case (loop l)
    then show ?thesis using ok graph_ok_steps [of s' s] by simp
  next
    case (plan decision steps)
    from plan(2) obtain l' where
      "\<exists>f. derive_frontier (add_steps (map accepted_step steps) s) = Inr f"
      and s': "s' = put_loop l' (add_steps (map accepted_step steps) s)"
      by (rule accept_plan_Inr)
    then have "graph_ok (add_steps (map accepted_step steps) s)"
      by (simp add: graph_ok_iff_frontier)
    then show ?thesis using graph_ok_steps [of s'] s' by simp
  next
    case (add v obj deps)
    then show ?thesis using ok by (simp add: graph_ok_new_step)
  next
    case (commit v i)
    then obtain st consumed where st: "bm_get (rs_steps s) v = Some st" "ss_status st = Planned"
      "\<forall>d \<in> set (ss_depends_on st). released s d"
      and s': "s' = put_step v (st\<lparr>ss_status := IntentCommitted, ss_intent := Some i\<rparr>)
        (s\<lparr>rs_authorization_consumption := consumed\<rparr>)"
      by (auto simp: commit_effect_intent_Inr_iff)
    have "\<not> released s v"
      using st by (simp add: released_def receipt_releases_dependency_def)
    with st s' show ?thesis
      by (intro graph_ok_update [OF ok st(1)]) simp_all
  next
    case (life v st st')
    note source = lifecycle_source [OF life(3)]
    have "\<not> released s v"
      using life(2) source by (simp add: released_def receipt_releases_dependency_def terminal_status_def)
    moreover have "active_step s v"
      using life(2) source by (simp add: active_step_def)
    then have "\<forall>d \<in> set (ss_depends_on st). released s d"
      using ok life(2) unfolding graph_ok_def actives_released_def by (metis option.simps(5) step_deps_def)
    ultimately show ?thesis
      using life(4) lifecycle_extends [OF life(3)]
      by (intro graph_ok_update [OF ok life(2)]) (simp_all add: step_extends_def)
  qed
  then show "graph_ok (advance_head r s')"
    using graph_ok_steps [of "advance_head r s'" s'] by simp
qed

end
