(* ===== verification/Run_Budgets.thy ===== *)
theory Run_Budgets
  imports Run_Safety
begin

text \<open>
  Bounded resources of a run: model turns and model calls, planned steps and tool calls against
  the budgets of the agent loop, one-shot authorizations, and the completion candidate that ends
  planning. The counters are words; the statements read them through \<open>unat\<close>, so they also say
  that no increment wraps.
\<close>

section \<open>Loop operations\<close>

lemma configure_agent_loop_Inr:
  assumes "configure_agent_loop s b = Inr s'"
  shows "rs_agent_loop s = None" and "bm_len (rs_steps s) \<le> unat (alb_max_planned_steps b)"
    and "attempts_sum s \<le> unat (alb_max_tool_calls b)"
    and "s' = put_loop \<lparr>als_budget = b, als_accepted_model_turns = 0, als_model_calls = None,
           als_completion_candidate = None\<rparr> s"
  using assms
  by (auto simp: configure_agent_loop_def result_simps total_attempts_Inr_iff word_bridge not_less)

lemma validate_model_call_counters_iff:
  "validate_model_call_counters l = Inr () \<longleftrightarrow>
     (\<forall>c. als_model_calls l = Some c \<longrightarrow>
        als_accepted_model_turns l \<le> mcl_settled_calls c \<and> mcl_settled_calls c \<le> mcl_reserved_calls c
        \<and> mcl_unknown_calls c \<le> mcl_reserved_calls c)"
  by (cases "als_model_calls l") (auto simp: validate_model_call_counters_def result_simps)

lemma configure_model_call_lifecycle_Inr:
  assumes "configure_model_call_lifecycle s b = Inr s'"
  obtains l where "rs_agent_loop s = Some l" and "als_model_calls l = None"
    and "als_accepted_model_turns l \<le> mcb_max_model_calls b"
    and "s' = put_loop (l\<lparr>als_model_calls := Some
           \<lparr>mcl_budget = b, mcl_reserved_calls = als_accepted_model_turns l,
            mcl_settled_calls = als_accepted_model_turns l, mcl_unknown_calls = 0,
            mcl_active_call = None\<rparr>\<rparr>) s"
  using assms by (auto simp: configure_model_call_lifecycle_def result_simps Let_def not_less)

lemma reserve_model_call_Inr:
  assumes "reserve_model_call cr s rv = Inr s'"
  obtains l c where "rs_agent_loop s = Some l" and "als_model_calls l = Some c"
    and "als_completion_candidate l = None"
    and "als_accepted_model_turns l < alb_max_model_turns (als_budget l)"
    and "mcl_active_call c = None" and "mcl_reserved_calls c < mcb_max_model_calls (mcl_budget c)"
    and "unat (mcr_call_index rv) = unat (mcl_reserved_calls c) + 1"
    and "unat (mcr_turn_index rv) = unat (als_accepted_model_turns l) + 1"
    and "mcr_base_sequence rv = rs_journal_sequence s"
    and "mcr_base_head_digest rv = rs_journal_head_digest s"
    and "reservation_validate_for cr rv (rs_run_id s) (rs_authority_epoch s) = Inr ()"
    and "s' = put_loop (l\<lparr>als_model_calls := Some (c\<lparr>mcl_reserved_calls := mcr_call_index rv,
           mcl_active_call := Some \<lparr>mcs_reservation = rv, mcs_status = Reserved\<rparr>\<rparr>)\<rparr>) s"
proof -
  from assms obtain l c where
    l: "rs_agent_loop s = Some l" "als_model_calls l = Some c" "als_completion_candidate l = None"
    and turns: "\<not> als_accepted_model_turns l \<ge> alb_max_model_turns (als_budget l)"
    and c: "mcl_active_call c = None" "\<not> mcl_reserved_calls c \<ge> mcb_max_model_calls (mcl_budget c)"
    and idx: "checked_add (mcl_reserved_calls c) 1 = Some (mcr_call_index rv)"
      "checked_add (als_accepted_model_turns l) 1 = Some (mcr_turn_index rv)"
    and base: "mcr_base_sequence rv = rs_journal_sequence s"
      "mcr_base_head_digest rv = rs_journal_head_digest s"
    and ok: "reservation_validate_for cr rv (rs_run_id s) (rs_authority_epoch s) = Inr ()"
    and s': "s' = put_loop (l\<lparr>als_model_calls := Some (c\<lparr>mcl_reserved_calls := mcr_call_index rv,
           mcl_active_call := Some \<lparr>mcs_reservation = rv, mcs_status = Reserved\<rparr>\<rparr>)\<rparr>) s"
    unfolding reserve_model_call_def by (auto simp: result_simps Let_def)
  from idx have "unat (mcr_call_index rv) = unat (mcl_reserved_calls c) + 1"
    "unat (mcr_turn_index rv) = unat (als_accepted_model_turns l) + 1"
    by (simp_all add: checked_add_Some_iff)
  with l turns c base ok s' show ?thesis by (intro that) (simp_all add: not_le)
qed

lemma mark_model_call_unknown_Inr:
  assumes "mark_model_call_unknown s call_id reason = Inr s'"
  obtains l c a n where "rs_agent_loop s = Some l" and "als_model_calls l = Some c"
    and "mcl_active_call c = Some a" and "mcr_call_id (mcs_reservation a) = call_id"
    and "mcs_status a = Reserved" and "unat n = unat (mcl_unknown_calls c) + 1"
    and "s' = put_loop (l\<lparr>als_model_calls := Some (c\<lparr>mcl_unknown_calls := n,
           mcl_active_call := Some (a\<lparr>mcs_status := CallUnknown reason\<rparr>)\<rparr>)\<rparr>) s"
  using assms by (auto simp: mark_model_call_unknown_def result_simps Let_def checked_add_Some_iff)

lemma settle_model_call_Inr:
  assumes "settle_model_call s call_id settlement = Inr s'"
  obtains l c a n where "rs_agent_loop s = Some l" and "als_model_calls l = Some c"
    and "mcl_active_call c = Some a" and "mcr_call_id (mcs_reservation a) = call_id"
    and "unat n = unat (mcl_settled_calls c) + 1"
    and "s' = put_loop (l\<lparr>als_model_calls := Some (c\<lparr>mcl_settled_calls := n,
           mcl_active_call := None\<rparr>)\<rparr>) s"
  using assms by (auto simp: settle_model_call_def result_simps Let_def checked_add_Some_iff)

lemma settle_successful_model_call_Inr:
  assumes "settle_successful_model_call l = Inr l'"
  shows "l' = l \<and> als_model_calls l = None \<or>
    (\<exists>c a n. als_model_calls l = Some c \<and> mcl_active_call c = Some a \<and> mcs_status a = Reserved
       \<and> unat n = unat (mcl_settled_calls c) + 1
       \<and> l' = l\<lparr>als_model_calls := Some (c\<lparr>mcl_settled_calls := n, mcl_active_call := None\<rparr>)\<rparr>)"
  using assms
  by (cases "als_model_calls l")
    (auto simp: settle_successful_model_call_def result_simps Let_def checked_add_Some_iff)

lemma record_completion_candidate_Inr:
  assumes "record_completion_candidate s decision cid sd od = Inr s'"
  obtains l l' f where "rs_agent_loop s = Some l" and "als_completion_candidate l = None"
    and "validate_model_call_success s decision = Inr ()"
    and "derive_frontier s = Inr f" and "all_steps_receipt_completed f"
    and "unat (ept_turn_index decision) = unat (als_accepted_model_turns l) + 1"
    and "ept_turn_index decision \<le> alb_max_model_turns (als_budget l)"
    and "settle_successful_model_call (l\<lparr>als_accepted_model_turns := ept_turn_index decision,
          als_completion_candidate := Some
            \<lparr>ccs_candidate_id = cid, ccs_context_digest = ept_context_digest decision,
             ccs_proposal_digest = ept_proposal_digest decision, ccs_summary_digest = sd,
             ccs_completion_output_record_digest = od\<rparr>\<rparr>) = Inr l'"
    and "s' = put_loop l' s"
proof -
  from assms obtain l l' f turn where
    l: "rs_agent_loop s = Some l" "als_completion_candidate l = None"
    and ok: "validate_model_call_success s decision = Inr ()"
    and f: "derive_frontier s = Inr f" "all_steps_receipt_completed f"
    and turn: "checked_add (als_accepted_model_turns l) 1 = Some turn" "ept_turn_index decision = turn"
      "\<not> turn > alb_max_model_turns (als_budget l)"
    and l': "settle_successful_model_call (l\<lparr>als_accepted_model_turns := turn,
          als_completion_candidate := Some
            \<lparr>ccs_candidate_id = cid, ccs_context_digest = ept_context_digest decision,
             ccs_proposal_digest = ept_proposal_digest decision, ccs_summary_digest = sd,
             ccs_completion_output_record_digest = od\<rparr>\<rparr>) = Inr l'"
    and s': "s' = put_loop l' s"
    unfolding record_completion_candidate_def by (auto simp: result_simps)
  from turn have "unat (ept_turn_index decision) = unat (als_accepted_model_turns l) + 1"
    "ept_turn_index decision \<le> alb_max_model_turns (als_budget l)"
    by (simp_all add: checked_add_Some_iff)
  with l ok f l' s' turn(2) show ?thesis by (intro that) auto
qed

section \<open>Model turns and model calls\<close>

definition reserved_now :: "model_call_state option \<Rightarrow> nat" where
  "reserved_now a = (case a of Some x \<Rightarrow> if mcs_status x = Reserved then 1 else 0 | None \<Rightarrow> 0)"

definition calls_ok :: "u64 \<Rightarrow> agent_loop_state \<Rightarrow> model_call_lifecycle_state \<Rightarrow> bool" where
  "calls_ok seq l c \<longleftrightarrow>
     unat (als_accepted_model_turns l) \<le> unat (mcl_settled_calls c)
     \<and> unat (mcl_reserved_calls c) =
         unat (mcl_settled_calls c) + (case mcl_active_call c of None \<Rightarrow> 0 | Some _ \<Rightarrow> 1)
     \<and> unat (mcl_reserved_calls c) \<le> unat (mcb_max_model_calls (mcl_budget c))
     \<and> unat (mcl_unknown_calls c) + reserved_now (mcl_active_call c) \<le> unat (mcl_reserved_calls c)
     \<and> (\<forall>a. mcl_active_call c = Some a \<longrightarrow>
          als_completion_candidate l = None
          \<and> unat (mcr_base_sequence (mcs_reservation a)) < unat seq
          \<and> mcr_call_index (mcs_reservation a) = mcl_reserved_calls c
          \<and> unat (mcr_turn_index (mcs_reservation a)) = unat (als_accepted_model_turns l) + 1)"

definition loop_ok :: "u64 \<Rightarrow> agent_loop_state \<Rightarrow> bool" where
  "loop_ok seq l \<longleftrightarrow>
     unat (als_accepted_model_turns l) \<le> unat (alb_max_model_turns (als_budget l))
     \<and> (\<forall>c. als_model_calls l = Some c \<longrightarrow> calls_ok seq l c)"

definition turns_ok :: "run_state \<Rightarrow> bool" where
  "turns_ok s \<longleftrightarrow> (\<forall>l. rs_agent_loop s = Some l \<longrightarrow> loop_ok (rs_journal_sequence s) l)"

lemma loop_ok_later: "loop_ok seq l \<Longrightarrow> unat seq \<le> unat seq' \<Longrightarrow> loop_ok seq' l"
  by (fastforce simp: loop_ok_def calls_ok_def)

lemma loop_ok_settled:
  assumes "settle_successful_model_call l1 = Inr l'" and "loop_ok seq l"
    and "als_model_calls l1 = als_model_calls l" and "als_budget l1 = als_budget l"
    and "unat (als_accepted_model_turns l1) = unat (als_accepted_model_turns l) + 1"
    and "als_accepted_model_turns l1 \<le> alb_max_model_turns (als_budget l)"
  shows "loop_ok seq l'"
  using settle_successful_model_call_Inr [OF assms(1)] assms(2-)
  by (auto simp: loop_ok_def calls_ok_def reserved_now_def word_le_nat_alt)

lemma loop_ok_reserved:
  assumes "loop_ok seq l" and "als_model_calls l = Some c" and "mcl_active_call c = None"
    and "als_completion_candidate l = None"
    and "mcl_reserved_calls c < mcb_max_model_calls (mcl_budget c)"
    and "unat (mcr_call_index rv) = unat (mcl_reserved_calls c) + 1"
    and "unat (mcr_turn_index rv) = unat (als_accepted_model_turns l) + 1"
    and "mcr_base_sequence rv = seq" and "unat seq' = unat seq + 1"
  shows "loop_ok seq' (l\<lparr>als_model_calls := Some (c\<lparr>mcl_reserved_calls := mcr_call_index rv,
           mcl_active_call := Some \<lparr>mcs_reservation = rv, mcs_status = Reserved\<rparr>\<rparr>)\<rparr>)"
  using assms by (simp add: loop_ok_def calls_ok_def reserved_now_def word_less_nat_alt)

interpretation turns: state_invariant cr turns_ok for cr
proof unfold_locales
  fix r goal
  show "turns_ok (advance_head r (initial_state r goal))" by (simp add: turns_ok_def)
next
  fix rs s r s'
  assume ok: "turns_ok s" and follows: "record_follows cr s r"
    and body: "apply_body cr s (body_of r) = Inr s'"
  let ?q = "rs_journal_sequence s" and ?q' = "er_sequence r"
  have q: "unat ?q' = unat ?q + 1" using follows by (simp add: record_follows_def)
  have up: "loop_ok ?q l \<Longrightarrow> loop_ok ?q' l" for l using loop_ok_later q by simp
  have old: "rs_agent_loop s = Some l \<Longrightarrow> loop_ok ?q l" for l using ok by (simp add: turns_ok_def)
  have "loop_ok ?q' l'" if l': "rs_agent_loop s' = Some l'" for l'
  proof (cases "rs_agent_loop s' = rs_agent_loop s")
    case True
    then show ?thesis using l' old up by simp
  next
    case False
    from body show ?thesis
    proof (cases "body_of r")
      case (AgentLoopConfigured b)
      then show ?thesis
        using body l' configure_agent_loop_Inr(4) by (fastforce simp: apply_body_def loop_ok_def)
    next
      case (ModelCallLifecycleConfigured b)
      with body have "configure_model_call_lifecycle s b = Inr s'" by (simp add: apply_body_def)
      then show ?thesis
        by (rule configure_model_call_lifecycle_Inr)
          (use l' old in \<open>auto simp: loop_ok_def calls_ok_def reserved_now_def word_le_nat_alt\<close>)
    next
      case (ModelCallReserved rv)
      with body have "reserve_model_call cr s rv = Inr s'" by (simp add: apply_body_def)
      then show ?thesis
      proof (rule reserve_model_call_Inr)
        fix l c
        assume "rs_agent_loop s = Some l" "als_model_calls l = Some c" "als_completion_candidate l = None"
          "mcl_active_call c = None" "mcl_reserved_calls c < mcb_max_model_calls (mcl_budget c)"
          "unat (mcr_call_index rv) = unat (mcl_reserved_calls c) + 1"
          "unat (mcr_turn_index rv) = unat (als_accepted_model_turns l) + 1"
          "mcr_base_sequence rv = rs_journal_sequence s"
          "s' = put_loop (l\<lparr>als_model_calls := Some (c\<lparr>mcl_reserved_calls := mcr_call_index rv,
            mcl_active_call := Some \<lparr>mcs_reservation = rv, mcs_status = Reserved\<rparr>\<rparr>)\<rparr>) s"
        then show ?thesis
          using l' loop_ok_reserved [OF old, of l c rv ?q'] q by simp
      qed
    next
      case (ModelCallBecameUnknown call_id reason)
      with body have "mark_model_call_unknown s call_id reason = Inr s'" by (simp add: apply_body_def)
      then show ?thesis
        by (rule mark_model_call_unknown_Inr)
          (use l' up [OF old] in \<open>auto simp: loop_ok_def calls_ok_def reserved_now_def\<close>)
    next
      case (ModelCallSettled call_id settlement)
      with body have "settle_model_call s call_id settlement = Inr s'" by (simp add: apply_body_def)
      then show ?thesis
        by (rule settle_model_call_Inr)
          (use l' up [OF old] in \<open>auto simp: loop_ok_def calls_ok_def reserved_now_def\<close>)
    next
      case (PlanAccepted decision steps)
      with body have "accept_plan cr s decision steps = Inr s'" by (simp add: apply_body_def)
      then show ?thesis
      proof (rule accept_plan_Inr)
        fix l l1
        assume "rs_agent_loop s = Some l" "unat (ept_turn_index decision) = unat (als_accepted_model_turns l) + 1"
          "ept_turn_index decision \<le> alb_max_model_turns (als_budget l)"
          "settle_successful_model_call (l\<lparr>als_accepted_model_turns := ept_turn_index decision\<rparr>) = Inr l1"
          "s' = put_loop l1 (add_steps (map accepted_step steps) s)"
        then show ?thesis using l' loop_ok_settled [OF _ up [OF old]] by simp
      qed
    next
      case (CompletionCandidateRecorded decision cid sd od)
      with body have "record_completion_candidate s decision cid sd od = Inr s'"
        by (simp add: apply_body_def)
      then show ?thesis
      proof (rule record_completion_candidate_Inr)
        fix l l1
        assume "rs_agent_loop s = Some l" "unat (ept_turn_index decision) = unat (als_accepted_model_turns l) + 1"
          "ept_turn_index decision \<le> alb_max_model_turns (als_budget l)"
          "settle_successful_model_call (l\<lparr>als_accepted_model_turns := ept_turn_index decision,
            als_completion_candidate := Some
            \<lparr>ccs_candidate_id = cid, ccs_context_digest = ept_context_digest decision,
             ccs_proposal_digest = ept_proposal_digest decision, ccs_summary_digest = sd,
             ccs_completion_output_record_digest = od\<rparr>\<rparr>) = Inr l1" "s' = put_loop l1 s"
        then show ?thesis using l' loop_ok_settled [OF _ up [OF old]] by simp
      qed
    qed (use body False in \<open>auto simp: apply_body_def plan_step_Inr_iff commit_effect_intent_Inr_iff
        apply_effect_lifecycle_iff\<close>)
  qed
  then show "turns_ok (advance_head r s')" by (simp add: turns_ok_def)
qed

section \<open>Planned steps and tool calls\<close>

definition budgets_ok :: "run_state \<Rightarrow> bool" where
  "budgets_ok s \<longleftrightarrow>
     (\<forall>l. rs_agent_loop s = Some l \<longrightarrow>
        bm_len (rs_steps s) \<le> unat (alb_max_planned_steps (als_budget l))
        \<and> attempts_sum s \<le> unat (alb_max_tool_calls (als_budget l)))"

lemma put_loop_inject [simp]: "put_loop l s = put_loop l' s \<longleftrightarrow> l = l'"
  by (metis option.inject put_loop_simps(2))

lemma settled_budget:
  "settle_successful_model_call l = Inr l' \<Longrightarrow>
     als_budget l' = als_budget l \<and> als_completion_candidate l' = als_completion_candidate l"
  by (drule settle_successful_model_call_Inr) auto

lemma loop_event_budget:
  assumes "loop_event body" and "apply_body cr s body = Inr s'" and "s' = put_loop l' s"
  shows "(\<exists>l. rs_agent_loop s = Some l \<and> als_budget l' = als_budget l)
    \<or> bm_len (rs_steps s) \<le> unat (alb_max_planned_steps (als_budget l'))
      \<and> attempts_sum s \<le> unat (alb_max_tool_calls (als_budget l'))"
  using assms(1)
proof (cases body)
  case (AgentLoopConfigured b)
  with assms(2) have "configure_agent_loop s b = Inr s'" by (simp add: apply_body_def)
  from configure_agent_loop_Inr [OF this] show ?thesis using assms(3) by simp
next
  case (CompletionCandidateRecorded decision cid sd od)
  with assms(2) have "record_completion_candidate s decision cid sd od = Inr s'"
    by (simp add: apply_body_def)
  then show ?thesis
    by (rule record_completion_candidate_Inr) (use assms(3) in \<open>auto dest: settled_budget\<close>)
qed (use assms in \<open>auto simp: apply_body_def elim!: configure_model_call_lifecycle_Inr
      reserve_model_call_Inr mark_model_call_unknown_Inr settle_model_call_Inr\<close>)

lemma attempts_sum_lifecycle:
  assumes "lifecycle v body st st'" and "bm_get (rs_steps s) v = Some st"
  shows "attempts_sum (put_step v st' s) = attempts_sum s + (if starts_effect v body then 1 else 0)"
proof -
  have "unat (ss_attempts st') = unat (ss_attempts st) + (if starts_effect v body then 1 else 0)"
    using assms(1) by (cases rule: lifecycle.cases) (auto simp: checked_add_Some_iff)
  then show ?thesis using attempts_sum_put_step [of v st' s] assms(2) by simp
qed

lemma len_put_known: "bm_get (rs_steps s) v = Some st \<Longrightarrow> bm_len (rs_steps (put_step v st' s)) = bm_len (rs_steps s)"
  by (simp add: bm_len_insert bm_contains_key_def)

lemma attempts_sum_steps: "rs_steps s' = rs_steps s \<Longrightarrow> attempts_sum s' = attempts_sum s"
  by (simp add: attempts_sum_def)

interpretation budgets: state_invariant cr budgets_ok for cr
proof unfold_locales
  fix r goal
  show "budgets_ok (advance_head r (initial_state r goal))" by (simp add: budgets_ok_def)
next
  fix rs s r s'
  assume ok: "budgets_ok s" and body: "apply_body cr s (body_of r) = Inr s'"
  from body have "budgets_ok s'"
  proof (cases rule: apply_body_cases)
    case (loop l)
    from loop_event_budget [OF loop(1) body loop(2)] show ?thesis
      using ok loop(2) attempts_sum_steps [of s' s] by (auto simp: budgets_ok_def)
  next
    case (plan decision steps)
    from plan(2) show ?thesis
    proof (rule accept_plan_Inr)
      fix l l'
      assume "rs_agent_loop s = Some l" and within: "steps_within_budget s (length steps)"
        and fresh: "fresh_steps s (map accepted_step steps)"
        and "settle_successful_model_call (l\<lparr>als_accepted_model_turns := ept_turn_index decision\<rparr>) = Inr l'"
        and "s' = put_loop l' (add_steps (map accepted_step steps) s)"
      then show ?thesis
        using ok attempts_sum_steps [of s' "add_steps (map accepted_step steps) s"]
        by (auto simp: budgets_ok_def steps_within_budget_def len_add_steps [OF fresh]
            attempts_sum_add_steps [OF fresh] dest!: settled_budget)
    qed
  next
    case (add v obj deps)
    then have fresh: "fresh_steps s [(v, new_step v obj deps None)]"
      by (auto simp: fresh_steps_def)
    show ?thesis
      using ok add len_add_steps [OF fresh] attempts_sum_add_steps [OF fresh]
      by (auto simp: budgets_ok_def steps_within_budget_def)
  next
    case (commit v i)
    then obtain st consumed where st: "bm_get (rs_steps s) v = Some st"
      and s': "s' = put_step v (st\<lparr>ss_status := IntentCommitted, ss_intent := Some i\<rparr>)
        (s\<lparr>rs_authorization_consumption := consumed\<rparr>)"
      by (auto simp: commit_effect_intent_Inr_iff)
    let ?s = "s\<lparr>rs_authorization_consumption := consumed\<rparr>"
    have "attempts_sum s' = attempts_sum s"
      using attempts_sum_put_step [of v "st\<lparr>ss_status := IntentCommitted, ss_intent := Some i\<rparr>" ?s] st s'
        attempts_sum_steps [of ?s s] by simp
    then show ?thesis
      using ok s' st len_put_known [of ?s v st] by (simp add: budgets_ok_def)
  next
    case (life v st st')
    show ?thesis
      using ok life len_put_known [OF life(2)] attempts_sum_lifecycle [OF life(3,2)]
      by (cases "body_of r") (auto simp: budgets_ok_def start_within_budget_def)
  qed
  then show "budgets_ok (advance_head r s')"
    using attempts_sum_steps [of "advance_head r s'" s'] by (simp add: budgets_ok_def)
qed

section \<open>One-shot authorizations\<close>

definition intent_of :: "run_state \<Rightarrow> string \<Rightarrow> effect_intent option" where
  "intent_of s v = Option.bind (bm_get (rs_steps s) v) ss_intent"

definition grant_of :: "effect_intent \<Rightarrow> string" where
  "grant_of i = au_grant_id (ei_authorization i)"

definition grants_ok :: "run_state \<Rightarrow> bool" where
  "grants_ok s \<longleftrightarrow>
     (\<forall>v i. intent_of s v = Some i \<longrightarrow> (\<exists>c. bm_get (rs_authorization_consumption s) (grant_of i) = Some c
        \<and> ac_grant_digest c = au_grant_digest (ei_authorization i)
        \<and> ac_max_uses c = 1 \<and> ac_uses c = 1 \<and> ac_effect_ids c = bs_insert (ei_effect_id i) bs_empty))
     \<and> (\<forall>g c. bm_get (rs_authorization_consumption s) g = Some c \<longrightarrow>
          (\<exists>v i. intent_of s v = Some i \<and> grant_of i = g))
     \<and> (\<forall>v w i j. v \<noteq> w \<longrightarrow> intent_of s v = Some i \<longrightarrow> intent_of s w = Some j \<longrightarrow>
          ei_effect_id i \<noteq> ei_effect_id j \<and> grant_of i \<noteq> grant_of j)"

lemma consume_authorization_Inr:
  assumes "consume_authorization i m = Inr m'" and "au_max_uses (ei_authorization i) = 1"
    and used: "\<And>c. bm_get m (grant_of i) = Some c \<Longrightarrow> ac_max_uses c = 1 \<and> ac_uses c = 1"
  shows "bm_get m (grant_of i) = None"
    and "m' = bm_insert (grant_of i) \<lparr>ac_grant_digest = au_grant_digest (ei_authorization i),
           ac_max_uses = 1, ac_uses = 1, ac_effect_ids = bs_insert (ei_effect_id i) bs_empty\<rparr> m"
proof -
  show none: "bm_get m (grant_of i) = None"
    using assms by (cases "bm_get m (grant_of i)")
      (auto simp: consume_authorization_def grant_of_def Let_def result_simps)
  then show "m' = bm_insert (grant_of i) \<lparr>ac_grant_digest = au_grant_digest (ei_authorization i),
      ac_max_uses = 1, ac_uses = 1, ac_effect_ids = bs_insert (ei_effect_id i) bs_empty\<rparr> m"
    using assms(1,2) by (auto simp: consume_authorization_def grant_of_def Let_def result_simps)
qed

lemma intent_of_loop_frame:
  assumes "\<And>v. intent_of s' v = intent_of s v"
    and "rs_authorization_consumption s' = rs_authorization_consumption s"
  shows "grants_ok s' = grants_ok s"
  using assms by (simp add: grants_ok_def)

lemma intent_of_added:
  assumes "fresh_steps s news"
  shows "intent_of (add_steps news s) v = intent_of s v"
proof -
  have "distinct (map fst news)" using assms by (simp add: fresh_steps_def)
  moreover have "map_of news v = Some st \<Longrightarrow> ss_intent st = None \<and> bm_get (rs_steps s) v = None" for st
    using assms by (fastforce simp: fresh_steps_def new_step_def bm_contains_key_def dest: map_of_SomeD)
  ultimately show ?thesis
    by (cases "map_of news v") (auto simp: intent_of_def get_add_steps)
qed

lemma grants_ok_commit:
  assumes ok: "grants_ok s" and io: "\<And>w. intent_of s' w = (if w = v then Some i else intent_of s w)"
    and none: "intent_of s v = None"
    and other: "\<And>w j. intent_of s w = Some j \<Longrightarrow> ei_effect_id j \<noteq> ei_effect_id i \<and> grant_of j \<noteq> grant_of i"
    and m: "rs_authorization_consumption s' = bm_insert (grant_of i)
      \<lparr>ac_grant_digest = au_grant_digest (ei_authorization i), ac_max_uses = 1, ac_uses = 1,
       ac_effect_ids = bs_insert (ei_effect_id i) bs_empty\<rparr> (rs_authorization_consumption s)"
  shows "grants_ok s'"
  unfolding grants_ok_def
proof (intro conjI allI impI)
  fix w j
  assume j: "intent_of s' w = Some j"
  show "\<exists>c. bm_get (rs_authorization_consumption s') (grant_of j) = Some c
      \<and> ac_grant_digest c = au_grant_digest (ei_authorization j)
      \<and> ac_max_uses c = 1 \<and> ac_uses c = 1 \<and> ac_effect_ids c = bs_insert (ei_effect_id j) bs_empty"
  proof (cases "w = v")
    case True
    then show ?thesis using j by (simp add: io m)
  next
    case False
    with j have "intent_of s w = Some j" by (simp add: io)
    with ok other show ?thesis by (auto simp: m grants_ok_def)
  qed
next
  fix g c
  assume g: "bm_get (rs_authorization_consumption s') g = Some c"
  show "\<exists>w j. intent_of s' w = Some j \<and> grant_of j = g"
  proof (cases "g = grant_of i")
    case True
    then show ?thesis by (auto simp: io)
  next
    case False
    with g ok obtain w j where "intent_of s w = Some j" "grant_of j = g"
      by (auto simp: m grants_ok_def)
    with none show ?thesis by (intro exI [of _ w] exI [of _ j]) (auto simp: io)
  qed
next
  fix w x j k
  assume "w \<noteq> x" and "intent_of s' w = Some j" and "intent_of s' x = Some k"
  then show "ei_effect_id j \<noteq> ei_effect_id k" and "grant_of j \<noteq> grant_of k"
    using ok other by (auto simp: io grants_ok_def split: if_splits) metis+
qed

interpretation grants: state_invariant cr grants_ok for cr
proof unfold_locales
  fix r goal
  show "grants_ok (advance_head r (initial_state r goal))" by (simp add: grants_ok_def intent_of_def)
next
  fix rs s r s'
  assume run: "replay cr rs = Inr s" and ok: "grants_ok s" and body: "apply_body cr s (body_of r) = Inr s'"
  from body have "grants_ok s'"
  proof (cases rule: apply_body_cases)
    case (loop l)
    then show ?thesis using ok intent_of_loop_frame [of s' s] by (simp add: intent_of_def)
  next
    case (plan decision steps)
    from plan(2) obtain l' where fresh: "fresh_steps s (map accepted_step steps)"
      and "s' = put_loop l' (add_steps (map accepted_step steps) s)"
      by (rule accept_plan_Inr)
    then show ?thesis
      using ok intent_of_added [OF fresh] intent_of_loop_frame [of s' s] by (simp add: intent_of_def)
  next
    case (add v obj deps)
    then have fresh: "fresh_steps s [(v, new_step v obj deps None)]"
      by (auto simp: fresh_steps_def)
    then show ?thesis
      using add ok intent_of_added [OF fresh] intent_of_loop_frame [of s' s] by simp
  next
    case (commit v i)
    then obtain st m where st: "bm_get (rs_steps s) v = Some st" "ss_status st = Planned"
      and max1: "au_max_uses (ei_authorization i) = 1"
      and new: "\<And>w st. bm_get (rs_steps s) w = Some st \<Longrightarrow> \<not> holds_effect st (ei_effect_id i)"
      and m: "consume_authorization i (rs_authorization_consumption s) = Inr m"
      and s': "s' = put_step v (st\<lparr>ss_status := IntentCommitted, ss_intent := Some i\<rparr>)
        (s\<lparr>rs_authorization_consumption := m\<rparr>)"
      by (auto simp: commit_effect_intent_Inr_iff)
    have io: "intent_of s' w = (if w = v then Some i else intent_of s w)" for w
      using s' by (simp add: intent_of_def)
    have "ac_max_uses c = 1 \<and> ac_uses c = 1"
      if "bm_get (rs_authorization_consumption s) (grant_of i) = Some c" for c
      using that ok unfolding grants_ok_def by (metis option.inject)
    note fresh = consume_authorization_Inr [OF m max1 this]
    have "\<exists>c. bm_get (rs_authorization_consumption s) (grant_of j) = Some c" if "intent_of s w = Some j" for w j
      using that ok unfolding grants_ok_def by blast
    then have other: "ei_effect_id j \<noteq> ei_effect_id i \<and> grant_of j \<noteq> grant_of i" if "intent_of s w = Some j" for w j
      using that new fresh(1) by (force simp: intent_of_def bind_eq_Some_conv holds_effect_def)
    have none: "intent_of s v = None"
      using planned.reachable [OF run] st by (simp add: intent_of_def)
    have "rs_authorization_consumption s' = m" by (simp add: s')
    with fresh(2) show ?thesis
      by (intro grants_ok_commit [OF ok io none other]) simp_all
  next
    case (life v st st')
    have "ss_intent st' = ss_intent st"
      using life(3) by (cases rule: lifecycle.cases) auto
    then show ?thesis
      using ok life intent_of_loop_frame [of s' s] by (simp add: intent_of_def)
  qed
  then show "grants_ok (advance_head r s')"
    using intent_of_loop_frame [of "advance_head r s'" s'] by (simp add: intent_of_def)
qed

section \<open>Completion\<close>

definition completion_ok :: "run_state \<Rightarrow> bool" where
  "completion_ok s \<longleftrightarrow>
     (\<forall>l c. rs_agent_loop s = Some l \<longrightarrow> als_completion_candidate l = Some c \<longrightarrow>
        rs_steps s \<noteq> bm_empty \<and> (\<forall>v. bm_contains_key (rs_steps s) v \<longrightarrow> released s v))"

lemma slot_verified_released: "slot_of s v = SlotVerified \<Longrightarrow> released s v"
  by (auto simp: slot_of_def released_def split: option.splits step_status.splits if_splits)

lemma all_completed_released:
  assumes "derive_frontier s = Inr f" and "all_steps_receipt_completed f"
  shows "rs_steps s \<noteq> bm_empty" and "bm_contains_key (rs_steps s) v \<Longrightarrow> released s v"
proof -
  obtain ord where f: "f = finish (assemble s ord) s" and topo: "topo_order s ord"
    and all: "set ord = {v. bm_contains_key (rs_steps s) v}"
    using assms(1) by (rule derive_frontier_success)
  have "length (filter (\<lambda>v. slot_of s v = SlotVerified) ord) = bm_len (rs_steps s)"
    and pos: "0 < bm_len (rs_steps s)"
    using assms(2) by (simp_all add: all_steps_receipt_completed_def f finish_def assemble_def)
  moreover have "bm_len (rs_steps s) = length ord"
  proof -
    have "bm_len (rs_steps s) = card {v. bm_contains_key (rs_steps s) v}"
      by (simp add: bm_len_def bm.length_entries bm_contains_key_def dom_def)
    then show ?thesis using all distinct_card [OF topo_order_distinct [OF topo]] by simp
  qed
  ultimately have "slot_of s v = SlotVerified" if "v \<in> set ord" for v
    using length_filter_less [OF that, of "\<lambda>v. slot_of s v = SlotVerified"] by auto
  then show "bm_contains_key (rs_steps s) v \<Longrightarrow> released s v"
    using all slot_verified_released by auto
  show "rs_steps s \<noteq> bm_empty" using pos by auto
qed

lemma completion_ok_steps:
  assumes "rs_steps s' = rs_steps s" and "completion_ok s"
    and "\<And>l' c. rs_agent_loop s' = Some l' \<Longrightarrow> als_completion_candidate l' = Some c \<Longrightarrow>
      \<exists>l d. rs_agent_loop s = Some l \<and> als_completion_candidate l = Some d"
  shows "completion_ok s'"
  using assms unfolding completion_ok_def released_def by metis

lemma loop_event_completion:
  assumes "loop_event body" and "apply_body cr s body = Inr (put_loop l' s)"
    and "als_completion_candidate l' = Some c"
  shows "(\<exists>l. rs_agent_loop s = Some l \<and> als_completion_candidate l = Some c)
    \<or> (\<exists>f. derive_frontier s = Inr f \<and> all_steps_receipt_completed f)"
  using assms(1)
proof (cases body)
  case (AgentLoopConfigured b)
  with assms(2) have "configure_agent_loop s b = Inr (put_loop l' s)" by (simp add: apply_body_def)
  from configure_agent_loop_Inr(4) [OF this] show ?thesis using assms(3) by simp
next
  case (CompletionCandidateRecorded decision cid sd od)
  with assms(2) have "record_completion_candidate s decision cid sd od = Inr (put_loop l' s)"
    by (simp add: apply_body_def)
  then show ?thesis by (rule record_completion_candidate_Inr) auto
qed (use assms in \<open>auto simp: apply_body_def elim!: configure_model_call_lifecycle_Inr
      reserve_model_call_Inr mark_model_call_unknown_Inr settle_model_call_Inr\<close>)

interpretation completion: state_invariant cr completion_ok for cr
proof unfold_locales
  fix r goal
  show "completion_ok (advance_head r (initial_state r goal))" by (simp add: completion_ok_def)
next
  fix rs s r s'
  assume ok: "completion_ok s" and body: "apply_body cr s (body_of r) = Inr s'"
  have idle: "als_completion_candidate l = None"
    if "rs_agent_loop s = Some l" "bm_get (rs_steps s) v = Some st" "ss_status st \<noteq> Completed" for l v st
    using that ok by (cases "als_completion_candidate l")
      (force simp: completion_ok_def released_def receipt_releases_dependency_def bm_contains_key_def)+
  from body have "completion_ok s'"
  proof (cases rule: apply_body_cases)
    case (loop l')
    show ?thesis
    proof (cases "als_completion_candidate l'")
      case None
      then show ?thesis using loop(2) by (simp add: completion_ok_def)
    next
      case (Some c)
      from loop_event_completion [OF loop(1) body [unfolded loop(2)] Some] show ?thesis
      proof
        assume "\<exists>l. rs_agent_loop s = Some l \<and> als_completion_candidate l = Some c"
        then show ?thesis using loop(2) ok by (intro completion_ok_steps [of s' s]) auto
      next
        assume "\<exists>f. derive_frontier s = Inr f \<and> all_steps_receipt_completed f"
        then show ?thesis
          using loop(2) all_completed_released [of s] by (auto simp: completion_ok_def released_def)
      qed
    qed
  next
    case (plan decision steps)
    from plan(2) show ?thesis
      by (rule accept_plan_Inr) (auto simp: completion_ok_def dest!: settled_budget)
  next
    case (add v obj deps)
    then show ?thesis by (auto simp: completion_ok_def steps_within_budget_def)
  next
    case (commit v i)
    then obtain st m where "bm_get (rs_steps s) v = Some st" "ss_status st = Planned"
      "s' = put_step v (st\<lparr>ss_status := IntentCommitted, ss_intent := Some i\<rparr>)
        (s\<lparr>rs_authorization_consumption := m\<rparr>)"
      by (auto simp: commit_effect_intent_Inr_iff)
    then show ?thesis using idle by (simp add: completion_ok_def)
  next
    case (life v st st')
    then show ?thesis
      using idle lifecycle_source [OF life(3)] by (simp add: completion_ok_def terminal_status_def)
  qed
  then show "completion_ok (advance_head r s')"
    by (rule completion_ok_steps [rotated]) auto
qed

end
