(* ===== verification/Run_Errors.thy ===== *)
theory Run_Errors
  imports Run_Budgets
begin

text \<open>
  Errors the reducer reserves for its own inconsistency: panics (\<open>unreachable!\<close>, \<open>expect\<close>) and the
  model-call counter errors. On the projection of any journal, no record whatever can provoke
  one; the operations are visited one by one and the counters are bounded by \<open>turns_ok\<close>.
\<close>

named_theorems error_simps \<open>how a failure of a chain of fallible calls decomposes\<close>

lemma map_err_Inl_iff: "map_err g m = Inl e \<longleftrightarrow> (\<exists>d. m = Inl d \<and> e = g d)"
  by (cases m) auto

declare and_then_Inl_iff [error_simps] ok_or_Inl_iff [error_simps] reject_if_Inl_iff [error_simps]
  map_err_Inl_iff [error_simps]

lemma try_fold_Inl:
  assumes "try_fold f xs a = Inl e"
  shows "\<exists>x \<in> set xs. \<exists>b. f x b = Inl e"
  using assms by (induction xs arbitrary: a) (auto simp: error_simps)

definition internal_error :: "transition_error \<Rightarrow> bool" where
  "internal_error e \<longleftrightarrow> e = TE_ModelCallCounterInvariant \<or> e = TE_ModelCallCounterOverflow
     \<or> (\<exists>m. e = TE_Panic m)"

lemma internal_error_simps [simp]:
  "internal_error TE_ModelCallCounterInvariant" "internal_error TE_ModelCallCounterOverflow"
  "internal_error (TE_Panic m)"
  by (auto simp: internal_error_def)

section \<open>Step operations\<close>

lemma step_mut_error: "step_mut s v = Inl e \<Longrightarrow> \<not> internal_error e"
  by (auto simp: step_mut_def error_simps internal_error_def)

lemma matching_step_mut_error: "matching_step_mut s v i = Inl e \<Longrightarrow> \<not> internal_error e"
  by (auto simp: matching_step_mut_def error_simps Let_def internal_error_def dest: step_mut_error)

lemma require_status_error: "require_status st q b = Inl e \<Longrightarrow> \<not> internal_error e"
  by (auto simp: require_status_def invalid_transition_def internal_error_def split: if_splits)

lemma total_attempts_error: "total_attempts s = Inl e \<Longrightarrow> \<not> internal_error e"
  by (auto simp: total_attempts_def error_simps internal_error_def dest!: try_fold_Inl)

lemmas step_errors = step_mut_error matching_step_mut_error require_status_error total_attempts_error

lemma apply_effect_lifecycle_error:
  assumes "apply_effect_lifecycle s body = Inl e" and "target_step body \<noteq> None"
    and "\<And>v i. body \<noteq> EffectIntentCommitted v i"
  shows "\<not> internal_error e"
  using assms
  by (cases body)
    (auto simp: apply_effect_lifecycle_def step_operation_defs error_simps invalid_transition_def
      split: option.splits if_splits dest!: step_errors, auto simp: internal_error_def)

section \<open>Intents\<close>

lemma consume_authorization_error: "consume_authorization i m = Inl e \<Longrightarrow> \<not> internal_error e"
  by (auto simp: consume_authorization_def Let_def error_simps internal_error_def)

lemma validate_authorization_binding_error:
  "validate_authorization_binding cr s v i = Inl e \<Longrightarrow> \<not> internal_error e"
  by (auto simp: validate_authorization_binding_def Let_def error_simps internal_error_def)

lemma validate_planned_execution_profile_error:
  "validate_planned_execution_profile st b i p = Inl e \<Longrightarrow> \<not> internal_error e"
  by (auto simp: validate_planned_execution_profile_def Let_def error_simps internal_error_def
      split: if_splits)

lemma validate_planned_invocation_binding_error:
  "validate_planned_invocation_binding cr st i = Inl e \<Longrightarrow> \<not> internal_error e"
  by (auto simp: validate_planned_invocation_binding_def Let_def error_simps
      split: option.splits dest!: validate_planned_execution_profile_error)
    (auto simp: internal_error_def)

lemma first_unreleased_dependency_error:
  "first_unreleased_dependency s st = Inl e \<Longrightarrow> \<not> internal_error e"
  by (auto simp: first_unreleased_dependency_def consider_blocker_def error_simps internal_error_def
      dest!: try_fold_Inl)

lemma validate_receipt_provenance_binding_error:
  "validate_receipt_provenance_binding cr i = Inl e \<Longrightarrow> \<not> internal_error e"
  by (auto simp: validate_receipt_provenance_binding_def error_simps internal_error_def
      split: option.splits)

lemma validate_tool_output_profile_error:
  "validate_tool_output_profile i = Inl e \<Longrightarrow> \<not> internal_error e"
  by (auto simp: validate_tool_output_profile_def error_simps internal_error_def split: option.splits)

lemmas intent_errors = consume_authorization_error validate_authorization_binding_error
  validate_planned_invocation_binding_error first_unreleased_dependency_error
  validate_receipt_provenance_binding_error validate_tool_output_profile_error

lemma commit_effect_intent_error:
  "commit_effect_intent cr s v i = Inl e \<Longrightarrow> \<not> internal_error e"
  unfolding commit_effect_intent_def
  by (auto simp: error_simps split: option.splits dest: intent_errors step_errors)
    (auto simp: internal_error_def)

section \<open>Plans\<close>

lemma map_plan_frontier_error_internal:
  "derive_frontier s = Inl fe \<Longrightarrow> \<not> internal_error (map_plan_frontier_error fe)"
  using derive_frontier_never_panics [of s] by (cases fe) (auto simp: internal_error_def)

lemma claim_action_error: "claim_action v a m = Inl e \<Longrightarrow> \<not> internal_error e"
  by (auto simp: claim_action_def error_simps internal_error_def split: option.splits)

lemma existing_action_owners_error: "existing_action_owners s = Inl e \<Longrightarrow> \<not> internal_error e"
  by (auto simp: existing_action_owners_def dest!: try_fold_Inl dest: claim_action_error)

lemma validate_accepted_plan_header_error:
  "validate_accepted_plan_header cr s d a x = Inl e \<Longrightarrow> \<not> internal_error e"
  by (cases x) (auto simp: validate_accepted_plan_header_def validate_accepted_objective_def error_simps
      dest!: claim_action_error, auto simp: internal_error_def)

lemma validate_accepted_plan_headers_error:
  "validate_accepted_plan_headers cr s d steps = Inl e \<Longrightarrow> \<not> internal_error e"
  by (auto simp: validate_accepted_plan_headers_def error_simps
      dest!: try_fold_Inl dest: existing_action_owners_error validate_accepted_plan_header_error)

lemma validate_plan_edge_error:
  "validate_plan_edge s ids blocked v d x = Inl e \<Longrightarrow> \<not> internal_error e"
  by (cases x) (auto simp: validate_plan_edge_def error_simps Let_def internal_error_def
      split: option.splits dependency_block_reason.splits)

lemma insert_accepted_step_error:
  "insert_accepted_step s ids blocked a x = Inl e \<Longrightarrow> \<not> internal_error e"
  by (cases x) (auto simp: insert_accepted_step_def error_simps
      dest!: try_fold_Inl dest: validate_plan_edge_error)

lemma build_accepted_plan_candidate_error:
  "build_accepted_plan_candidate s steps ids = Inl e \<Longrightarrow> \<not> internal_error e"
  by (auto simp: build_accepted_plan_candidate_def error_simps Let_def
      dest!: try_fold_Inl dest: insert_accepted_step_error map_plan_frontier_error_internal)

lemma plan_step_error: "plan_step s v obj deps pinv = Inl e \<Longrightarrow> \<not> internal_error e"
  by (auto simp: plan_step_def plan_step_dependency_def error_simps split: option.splits
      dest!: try_fold_Inl, auto simp: internal_error_def)

section \<open>Model calls\<close>

lemma word_successor:
  fixes w :: "'a::len word"
  assumes "unat w < unat (x :: 'a word)"
  shows "\<exists>n. checked_add w 1 = Some n \<and> unat n = unat w + 1"
proof -
  have "unat x < 2 ^ LENGTH('a)" by (rule unsigned_less)
  then have "unat w + unat (1 :: 'a word) < 2 ^ LENGTH('a)"
    using assms unfolding unat_1 by linarith
  then obtain n where n: "checked_add w 1 = Some n" by (auto simp: checked_add_def)
  then show ?thesis by (auto simp: checked_add_Some_iff)
qed

lemma successor_not_None:
  fixes w x :: "'a::len word"
  shows "unat w < unat x \<Longrightarrow> checked_add w 1 = None \<Longrightarrow> False"
  using word_successor [of w x] by auto

lemma counters_hold:
  assumes "als_model_calls l = Some c \<Longrightarrow>
    unat (als_accepted_model_turns l) \<le> unat (mcl_settled_calls c)
    \<and> unat (mcl_settled_calls c) \<le> unat (mcl_reserved_calls c)
    \<and> unat (mcl_unknown_calls c) \<le> unat (mcl_reserved_calls c)"
    and "\<And>d. als_model_calls l = Some d \<Longrightarrow> d = c"
  shows "validate_model_call_counters l \<noteq> Inl e"
  using assms by (cases "als_model_calls l")
    (auto simp: validate_model_call_counters_def error_simps word_bridge not_less)

lemma settle_successful_model_call_error:
  assumes "settle_successful_model_call l = Inl e" and "als_model_calls l = Some c \<Longrightarrow> calls_ok seq l0 c"
    and "unat (als_accepted_model_turns l) = unat (als_accepted_model_turns l0) + 1"
    and "\<And>d. als_model_calls l = Some d \<Longrightarrow> d = c"
  shows "\<not> internal_error e"
proof (cases "als_model_calls l")
  case (Some d)
  then have d: "als_model_calls l = Some c" and ok: "calls_ok seq l0 c" using assms(2,4) by simp_all
  show ?thesis
  proof (cases "mcl_active_call c")
    case None
    then show ?thesis
      using assms(1) d by (auto simp: settle_successful_model_call_def error_simps internal_error_def)
  next
    case (Some a)
    have "unat (mcl_settled_calls c) < unat (mcl_reserved_calls c)"
      using ok Some by (simp add: calls_ok_def)
    then obtain n where n: "checked_add (mcl_settled_calls c) 1 = Some n" "unat n = unat (mcl_settled_calls c) + 1"
      using word_successor by blast
    have "validate_model_call_counters (l\<lparr>als_model_calls :=
        Some (c\<lparr>mcl_settled_calls := n, mcl_active_call := None\<rparr>)\<rparr>) \<noteq> Inl x" for x
      using ok Some n assms(3)
      by (intro counters_hold [where c = "c\<lparr>mcl_settled_calls := n, mcl_active_call := None\<rparr>"])
        (auto simp: calls_ok_def)
    then show ?thesis
      using assms(1) d Some n by (auto simp: settle_successful_model_call_def error_simps Let_def internal_error_def)
  qed
qed (use assms(1) in \<open>simp add: settle_successful_model_call_def\<close>)

lemma validate_model_call_success_error:
  assumes "validate_model_call_success s d = Inl e" and "turns_ok s"
  shows "\<not> internal_error e"
proof (cases "rs_agent_loop s")
  case (Some l)
  have room: False if "als_model_calls l = Some c" "mcl_active_call c = Some a"
    "checked_add (mcr_base_sequence (mcs_reservation a)) 1 = None" for c a
    using assms(2) Some that
    by (intro successor_not_None [OF _ that(3), where x = "rs_journal_sequence s"])
      (auto simp: turns_ok_def loop_ok_def calls_ok_def)
  show ?thesis
    using assms(1) Some
    by (auto simp: validate_model_call_success_def error_simps result_simps internal_error_def
        split: option.splits dest: room)
qed (use assms(1) in \<open>auto simp: validate_model_call_success_def internal_error_def\<close>)

lemma configure_agent_loop_error: "configure_agent_loop s b = Inl e \<Longrightarrow> \<not> internal_error e"
  by (auto simp: configure_agent_loop_def error_simps dest!: total_attempts_error)
    (auto simp: internal_error_def)

lemma configure_model_call_lifecycle_error:
  "configure_model_call_lifecycle s b = Inl e \<Longrightarrow> \<not> internal_error e"
  by (auto simp: configure_model_call_lifecycle_def error_simps Let_def internal_error_def
      validate_model_call_counters_def)

lemma reserve_model_call_error:
  assumes "reserve_model_call cr s rv = Inl e" and "turns_ok s"
  shows "\<not> internal_error e"
proof -
  have "validate_model_call_counters (l\<lparr>als_model_calls := Some (c\<lparr>mcl_reserved_calls := n,
      mcl_active_call := x\<rparr>)\<rparr>) \<noteq> Inl y"
    if "rs_agent_loop s = Some l" "als_model_calls l = Some c" "checked_add (mcl_reserved_calls c) 1 = Some n"
    for l c n x y
    using assms(2) that
    by (intro counters_hold [where c = "c\<lparr>mcl_reserved_calls := n, mcl_active_call := x\<rparr>"])
      (auto simp: turns_ok_def loop_ok_def calls_ok_def checked_add_Some_iff split: option.splits)
  then show ?thesis
    using assms(1) by (auto simp: reserve_model_call_def error_simps ok_or_Inr_iff Let_def internal_error_def)
qed

lemma mark_model_call_unknown_error:
  assumes "mark_model_call_unknown s call_id reason = Inl e" and "turns_ok s"
  shows "\<not> internal_error e"
proof -
  have ok: "calls_ok (rs_journal_sequence s) l c" if "rs_agent_loop s = Some l" "als_model_calls l = Some c" for l c
    using assms(2) that by (simp add: turns_ok_def loop_ok_def)
  have room: False
    if "rs_agent_loop s = Some l" "als_model_calls l = Some c" "mcl_active_call c = Some a" "mcs_status a = Reserved"
      "checked_add (mcl_unknown_calls c) 1 = None" for l c a
    using ok [OF that(1,2)] that(3,4)
    by (intro successor_not_None [OF _ that(5), where x = "mcl_reserved_calls c"])
      (simp add: calls_ok_def reserved_now_def)
  have counters: "validate_model_call_counters (l\<lparr>als_model_calls := Some (c\<lparr>mcl_unknown_calls := n,
      mcl_active_call := x\<rparr>)\<rparr>) \<noteq> Inl y"
    if "rs_agent_loop s = Some l" "als_model_calls l = Some c" "mcl_active_call c = Some a" "mcs_status a = Reserved"
      "checked_add (mcl_unknown_calls c) 1 = Some n"
    for l c a n x y
    using ok [OF that(1,2)] that(3-)
    by (intro counters_hold [where c = "c\<lparr>mcl_unknown_calls := n, mcl_active_call := x\<rparr>"])
      (auto simp: calls_ok_def reserved_now_def checked_add_Some_iff)
  show ?thesis
    using assms(1)
    by (auto simp: mark_model_call_unknown_def error_simps result_simps Let_def internal_error_def counters
        dest: room)
qed

lemma settle_model_call_error:
  assumes "settle_model_call s call_id settlement = Inl e" and "turns_ok s"
  shows "\<not> internal_error e"
proof -
  have ok: "calls_ok (rs_journal_sequence s) l c" if "rs_agent_loop s = Some l" "als_model_calls l = Some c" for l c
    using assms(2) that by (simp add: turns_ok_def loop_ok_def)
  have settled: False if "rs_agent_loop s = Some l" "als_model_calls l = Some c" "mcl_active_call c = Some a"
      "checked_add (mcl_settled_calls c) 1 = None" for l c a
    using ok [OF that(1,2)] that(3)
    by (intro successor_not_None [OF _ that(4), where x = "mcl_reserved_calls c"]) (simp add: calls_ok_def)
  have base: False if "rs_agent_loop s = Some l" "als_model_calls l = Some c" "mcl_active_call c = Some a"
      "checked_add (mcr_base_sequence (mcs_reservation a)) 1 = None" for l c a
    using ok [OF that(1,2)] that(3)
    by (intro successor_not_None [OF _ that(4), where x = "rs_journal_sequence s"]) (simp add: calls_ok_def)
  have counters: "validate_model_call_counters (l\<lparr>als_model_calls := Some (c\<lparr>mcl_settled_calls := n,
      mcl_active_call := None\<rparr>)\<rparr>) \<noteq> Inl y"
    if "rs_agent_loop s = Some l" "als_model_calls l = Some c" "mcl_active_call c = Some a"
      "checked_add (mcl_settled_calls c) 1 = Some n"
    for l c a n y
    using ok [OF that(1,2)] that(3-)
    by (intro counters_hold [where c = "c\<lparr>mcl_settled_calls := n, mcl_active_call := None\<rparr>"])
      (auto simp: calls_ok_def checked_add_Some_iff)
  show ?thesis
    using assms(1)
    by (cases settlement)
      (auto simp: settle_model_call_def error_simps result_simps Let_def internal_error_def counters
        dest: settled base)
qed

section \<open>Records\<close>

lemma accept_plan_error:
  assumes "accept_plan cr s d steps = Inl e" and "turns_ok s"
  shows "\<not> internal_error e"
proof -
  have settle: "\<not> internal_error x"
    if "rs_agent_loop s = Some l" "checked_add (als_accepted_model_turns l) 1 = Some t"
      "settle_successful_model_call (l\<lparr>als_accepted_model_turns := t\<rparr>) = Inl x" for l t x
    using assms(2) that(1,2)
    by (intro settle_successful_model_call_error [OF that(3), of "the (als_model_calls l)" "rs_journal_sequence s" l])
      (auto simp: turns_ok_def loop_ok_def checked_add_Some_iff)
  have cand: "rs_agent_loop c = rs_agent_loop s" if "build_accepted_plan_candidate s steps ids = Inr c" for ids c
    using that insert_accepted_steps_Inr
    by (fastforce simp: build_accepted_plan_candidate_def result_simps Let_def)
  have settle_cand: "\<not> internal_error x"
    if "build_accepted_plan_candidate s steps ids = Inr c" "rs_agent_loop c = Some k"
      "rs_agent_loop s = Some l" "checked_add (als_accepted_model_turns l) 1 = Some t"
      "settle_successful_model_call (k\<lparr>als_accepted_model_turns := t\<rparr>) = Inl x" for ids c k l t x
    using settle [OF that(3,4)] that cand [OF that(1)] by simp
  have simple: "\<not> internal_error TE_AgentLoopNotConfigured" "\<not> internal_error TE_CompletionCandidateAlreadyRecorded"
    "\<not> internal_error TE_ModelTurnBudgetExceeded" "\<not> internal_error (TE_UnexpectedPlanningTurn a b)"
    "\<not> internal_error (TE_AcceptedPlanStepCountInvalid n)" "\<not> internal_error TE_PlannedStepBudgetExceeded"
    "\<not> internal_error (TE_PlanningContract p)" for a b n p
    by (simp_all add: internal_error_def)
  show ?thesis
    using assms(1) unfolding accept_plan_def
    by (auto simp: error_simps ok_or_Inr_iff simple
        dest: validate_model_call_success_error [OF _ assms(2)] validate_accepted_plan_headers_error
          build_accepted_plan_candidate_error map_plan_frontier_error_internal cand settle_cand)
qed

lemma record_completion_candidate_error:
  assumes "record_completion_candidate s d cid sd od = Inl e" and "turns_ok s"
  shows "\<not> internal_error e"
proof -
  have settle: "\<not> internal_error x"
    if "rs_agent_loop s = Some l" "checked_add (als_accepted_model_turns l) 1 = Some t"
      "settle_successful_model_call (l\<lparr>als_accepted_model_turns := t, als_completion_candidate := c\<rparr>) = Inl x" for l t x c
    using assms(2) that(1,2)
    by (intro settle_successful_model_call_error [OF that(3), of "the (als_model_calls l)" "rs_journal_sequence s" l])
      (auto simp: turns_ok_def loop_ok_def checked_add_Some_iff)
  have simple: "\<not> internal_error TE_AgentLoopNotConfigured" "\<not> internal_error TE_CompletionCandidateAlreadyRecorded"
    "\<not> internal_error TE_ModelTurnBudgetExceeded" "\<not> internal_error (TE_UnexpectedPlanningTurn a b)"
    "\<not> internal_error TE_CompletionCandidateRequiresReceiptCompletedPlan"
    "\<not> internal_error (TE_PlanningContract p)" for a b p
    by (simp_all add: internal_error_def)
  show ?thesis
    using assms(1) unfolding record_completion_candidate_def
    by (auto simp: error_simps ok_or_Inr_iff simple split: option.splits
        dest: validate_model_call_success_error [OF _ assms(2)] map_plan_frontier_error_internal settle)
qed

lemma apply_body_error:
  assumes "apply_body cr s body = Inl e" and "turns_ok s" and "\<And>goal. body \<noteq> RunCreated goal"
  shows "\<not> internal_error e"
proof (cases "target_step body = None \<or> (\<exists>v i. body = EffectIntentCommitted v i)")
  case True
  then show ?thesis
    using assms
    by (cases body) (auto simp: apply_body_def dest: configure_agent_loop_error
        configure_model_call_lifecycle_error reserve_model_call_error mark_model_call_unknown_error
        settle_model_call_error accept_plan_error record_completion_candidate_error plan_step_error
        commit_effect_intent_error)
next
  case False
  then have "apply_body cr s body = apply_effect_lifecycle s body"
    by (cases body) (auto simp: apply_body_def)
  with assms(1) False show ?thesis using apply_effect_lifecycle_error by metis
qed

lemma apply_record_error:
  assumes "apply_record cr current r = Inl e" and "\<And>s. current = Some s \<Longrightarrow> turns_ok s"
  shows "\<not> internal_error e"
proof -
  have "verify_record_against_state cr current r = Inl x \<Longrightarrow> \<not> internal_error x" for x
    by (auto simp: verify_record_against_state_def error_simps Let_def internal_error_def split: option.splits)
  moreover have "\<not> internal_error TE_FirstEventMustCreateRun" "\<not> internal_error TE_RunAlreadyCreated"
    by (simp_all add: internal_error_def)
  ultimately show ?thesis
    using assms apply_body_error
    by (cases current; cases "body_of r") (auto simp: apply_record_def error_simps)
qed

lemma replay_transition_error_inject: "replay_transition_error e = RPE_Transition e' \<Longrightarrow> e = e'"
  by (cases e) simp_all

lemma replay_error:
  "replay cr rs = Inl (RPE_Transition e) \<Longrightarrow> \<not> internal_error e"
proof (induction rs rule: rev_induct)
  case (snoc r rs)
  show ?case
  proof (cases "try_fold (replay_record cr) rs None")
    case (Inl err)
    then have "replay cr rs = Inl (RPE_Transition e)"
      using snoc.prems by (simp add: replay_def try_fold_append)
    then show ?thesis by (rule snoc.IH)
  next
    case (Inr x)
    have "turns_ok s" if "x = Some s" for s
      using that Inr by (intro turns.reachable [of cr rs]) (simp add: replay_Inr_iff)
    moreover have "apply_record cr x r = Inl e"
      using snoc.prems Inr
      by (cases "apply_record cr x r")
        (auto simp: replay_def try_fold_append replay_record_def dest: replay_transition_error_inject)
    ultimately show ?thesis by (intro apply_record_error) auto
  qed
qed simp

end
