(* ===== verification/Sample_Crypto.thy ===== *)
theory Sample_Crypto
  imports Planning_Contracts
begin

text \<open>
  A concrete canonicalizer and hash, both constant, and the values of a planned invocation, an
  effect intent and a model-call reservation that verify under them. They instantiate the two
  library parameters where a property is applied to concrete inputs.
\<close>

section \<open>The parameters\<close>

definition sample_crypto :: crypto where
  "sample_crypto = \<lparr>jcs = \<lambda>_. Inr [], sha256 = \<lambda>_. replicate 32 CHR ''0''\<rparr>"

definition sample_hex :: string where
  "sample_hex = concat (map hex_byte (replicate 32 CHR ''0''))"

definition sample_digest :: string where
  "sample_digest = ''sha256:'' @ sample_hex"

lemma sample_canonical [simp]: "canonical_digest sample_crypto i = Inr sample_digest"
  by (simp add: canonical_digest_def sample_crypto_def sha256_digest_def sample_digest_def sample_hex_def)

lemma sample_sha: "length (sha256 sample_crypto v) = 32"
  by (simp add: sample_crypto_def)

lemma sample_jcs: "\<exists>c. jcs sample_crypto i = Inr c"
  by (simp add: sample_crypto_def)

lemma sample_hex_facts: "length sample_hex = 64" "list_all (\<lambda>b. is_ascii_digit b \<or> in_a_to_f b) sample_hex"
  unfolding sample_hex_def length_hex_bytes
  using lower_hex_bytes [of "replicate 32 CHR ''0''"] by (simp_all add: is_lower_hex_def [abs_def])

lemma sample_digest_shape [simp]: "is_sha256_digest sample_digest" "is_canonical_sha256 sample_digest"
  using sample_hex_facts
  by (simp_all add: is_sha256_digest_def is_canonical_sha256_eq sample_digest_def del: append.simps)

lemma sample_prefixed [simp]: "prefixed_id p sample_digest = p @ sample_hex"
  by (simp add: prefixed_id_def sample_digest_def del: append.simps)

lemma sample_hex_identifier: "list_all identifier_byte sample_hex"
  using sample_hex_facts(2)
  by (auto simp: list_all_iff identifier_byte_def is_ascii_alphanumeric_def is_ascii_lowercase_def in_a_to_f_def)

definition sample_call_id :: string where
  "sample_call_id = ''model-call-'' @ sample_hex"

definition sample_grant :: string where
  "sample_grant = ''authorization-'' @ sample_hex"

definition sample_plan :: string where
  "sample_plan = ''plan-'' @ sample_hex"

lemma sample_call_id_ok [simp]: "require_model_call_id f sample_call_id = Inr ()"
proof -
  have "list_all identifier_byte ''model-call-''"
    by (simp add: identifier_byte_def is_ascii_alphanumeric_def is_ascii_lowercase_def byte_val_def)
  then show ?thesis
    using sample_hex_facts sample_hex_identifier
    by (simp add: require_model_call_id_def require_model_call_identifier_def sample_call_id_def
        result_simps del: append.simps)
qed

section \<open>Values that verify\<close>

definition sample_invocation :: planned_invocation_binding where
  "sample_invocation = \<lparr>pib_format_version = 1, pib_plan_id = sample_plan,
     pib_proposal_digest = sample_digest, pib_capability_id = ''c'', pib_contract_version = ''1'',
     pib_definition_digest = sample_digest, pib_action_digest = sample_digest,
     pib_plan_input_digest = sample_digest, pib_execution_profile = LocalSyncOnceV1,
     pib_target_os = ''linux'', pib_target_arch = ''x86_64'', pib_spec_digest = sample_digest,
     pib_plan_input_record_digest = sample_digest\<rparr>"

definition sample_provenance :: receipt_provenance where
  "sample_provenance = \<lparr>rp_profile_version = ''1'', rp_tool_output_profile = Some TOOL_OUTPUT_PROFILE_V1,
     rp_invocation_id = ''i'', rp_plan_id = sample_plan, rp_policy_decision_id = ''p'',
     rp_policy_decision_digest = sample_digest, rp_executor_id = ''x'',
     rp_executor_placement = PlacementLocal, rp_executor_platform = ''linux-x86_64'',
     rp_input_summary = ''s'', rp_verification_plan = []\<rparr>"

definition sample_intent :: effect_intent where
  "sample_intent = \<lparr>ei_effect_id = ''e'', ei_action_digest = sample_digest,
     ei_invocation = \<lparr>ib_capability_id = ''c'', ib_contract_version = ''1'',
       ib_definition_digest = sample_digest, ib_instance_id = ''n'',
       ib_instance_binding_digest = sample_digest\<rparr>,
     ei_effect_class = Idempotent, ei_idempotency_key = Some ''k'', ei_sink_guarantee = DeduplicateByKey,
     ei_authorization = \<lparr>au_grant_id = sample_grant, au_grant_digest = sample_digest, au_max_uses = 1,
       au_binding = \<lparr>ab_run_id = ''r'', ab_step_id = ''a'', ab_authority = ''u'', ab_authority_epoch = 1,
         ab_issued_at_sequence = 4, ab_issued_at_head_digest = sample_digest, ab_capability_id = ''c'',
         ab_contract_version = ''1'', ab_definition_digest = sample_digest, ab_instance_id = ''n'',
         ab_instance_binding_digest = sample_digest, ab_action_digest = sample_digest,
         ab_material_digest = sample_digest, ab_material_retention_digest = sample_digest,
         ab_policy_evidence_digest = sample_digest, ab_receipt_provenance_digest = Some sample_digest\<rparr>\<rparr>,
     ei_receipt_provenance = Some sample_provenance\<rparr>"

definition sample_reservation :: model_call_reservation where
  "sample_reservation = \<lparr>mcr_format_version = 1, mcr_call_id = sample_call_id, mcr_planner_id = ''p'',
     mcr_call_index = 2, mcr_turn_index = 2, mcr_base_sequence = 12,
     mcr_base_head_digest = sample_digest, mcr_context_digest = sample_digest,
     mcr_request_digest = sample_digest\<rparr>"

definition sample_final_turn :: expected_planning_turn where
  "sample_final_turn = \<lparr>ept_turn_index = 2, ept_model_call_id = Some sample_call_id,
     ept_context_digest = sample_digest, ept_proposal_digest = sample_digest\<rparr>"

lemma identifier_ok:
  "v \<noteq> [] \<Longrightarrow> length v \<le> 256 \<Longrightarrow> \<not> has_control v \<Longrightarrow> require_planning_identifier f v = Inr ()"
  by (simp add: require_planning_identifier_def)

lemma control_free [simp]:
  "\<not> has_control ''a''" "\<not> has_control ''o''" "\<not> has_control ''c''" "\<not> has_control ''1''" "\<not> has_control ''r''"
  "\<not> has_control ''linux''" "\<not> has_control ''x86_64''" "\<not> has_control ''candidate''"
  by (simp_all add: has_control_def byte_val_def)

lemma sample_plan_identifier [simp]: "require_planning_identifier f sample_plan = Inr ()"
proof -
  have "32 \<le> byte_val b \<and> byte_val b < 127" if "b \<in> set sample_plan" for b
    using that sample_hex_identifier
    by (auto simp: sample_plan_def list_all_iff identifier_byte_def is_ascii_alphanumeric_def
        is_ascii_lowercase_def is_ascii_uppercase_def is_ascii_digit_def byte_val_def)
  then have "\<not> has_control sample_plan" by (intro printable_no_control) blast
  then show ?thesis
    using sample_hex_facts by (simp add: require_planning_identifier_def sample_plan_def)
qed

lemma sample_invocation_ok [simp]: "binding_validate sample_crypto sample_invocation = Inr ()"
  by (simp add: binding_validate_def sample_invocation_def PLANNED_INVOCATION_FORMAT_VERSION_def
      require_planning_digest_def spec_validate_def binding_as_spec_def identifier_ok
      planned_invocation_spec_digest_def)

lemma sample_spec_ok: "spec_validate (binding_as_spec sample_invocation) = Inr ()"
  by (simp add: sample_invocation_def require_planning_digest_def spec_validate_def binding_as_spec_def identifier_ok)

definition sample_reference :: reconstructable_material_reference where
  "sample_reference = \<lparr>rmr_provider_id = ''s'', rmr_reference_id = ''x'', rmr_revision = ''1''\<rparr>"

lemma sample_reference_ok: "reference_validate sample_reference = Inr ()"
  by (simp add: reference_validate_def validate_reference_component_def sample_reference_def identifier_byte_def
      is_ascii_alphanumeric_def is_ascii_lowercase_def is_ascii_digit_def byte_val_def
      MAX_MATERIAL_REFERENCE_COMPONENT_BYTES_def)

lemma sample_reservation_verifies: "reservation_validate_for sample_crypto sample_reservation ''r'' epoch = Inr ()"
  by (simp add: reservation_validate_for_def sample_reservation_def identifier_ok require_model_call_identifier_def
      identifier_byte_def is_ascii_alphanumeric_def is_ascii_lowercase_def byte_val_def model_call_id_def
      require_planning_digest_def MODEL_CALL_FORMAT_VERSION_def sample_call_id_def [symmetric] del: append.simps)

end
