(* ===== verification/Sample_Run.thy ===== *)
theory Sample_Run
  imports Run_Errors Sample_Crypto
begin

text \<open>
  A concrete run, used to show that the hypotheses of the journal properties can hold together:
  fourteen records that create a run, configure the agent loop, accept a one-step plan, configure
  model calls, commit an intent, execute it with an uncertain first attempt that reconciliation
  proves not applied, retry, verify with a receipt, reserve a model call and record completion.
  Every digest of the run is \<open>sample_digest\<close>.
\<close>

definition sample_record :: "u64 \<Rightarrow> run_event_body \<Rightarrow> event_record" where
  "sample_record n b =
     \<lparr>er_sequence = n, er_previous_digest = (if n = 1 then None else Some sample_digest),
      er_event = \<lparr>re_event_id = ''e'', re_run_id = ''r'', re_authority = ''u'', re_authority_epoch = 1,
                  re_recorded_at = ''t'', re_body = b\<rparr>,
      er_digest = sample_digest\<rparr>"

definition sample_state ::
    "u64 \<Rightarrow> (string, step_state) btreemap \<Rightarrow> (string, authorization_consumption) btreemap
      \<Rightarrow> agent_loop_state option \<Rightarrow> run_state" where
  "sample_state n st c l =
     \<lparr>rs_run_id = ''r'', rs_authority = ''u'', rs_authority_epoch = 1, rs_goal = ''g'', rs_revision = n,
      rs_journal_sequence = n, rs_journal_head_digest = sample_digest, rs_steps = st,
      rs_authorization_consumption = c, rs_agent_loop = l\<rparr>"

lemma sample_state_simps [simp]:
  "rs_steps (sample_state n st c l) = st" "rs_authorization_consumption (sample_state n st c l) = c"
  "rs_agent_loop (sample_state n st c l) = l" "rs_run_id (sample_state n st c l) = ''r''"
  "rs_authority (sample_state n st c l) = ''u''" "rs_authority_epoch (sample_state n st c l) = 1"
  "rs_journal_sequence (sample_state n st c l) = n"
  "rs_journal_head_digest (sample_state n st c l) = sample_digest"
  "put_step v x (sample_state n st c l) = sample_state n (bm_insert v x st) c l"
  "put_loop k (sample_state n st c l) = sample_state n st c (Some k)"
  "advance_head (sample_record m b) (sample_state n st c l) = sample_state m st c l"
  "(sample_state n st c l)\<lparr>rs_authorization_consumption := c'\<rparr> = sample_state n st c' l"
  by (simp_all add: sample_state_def put_step_def put_loop_def advance_head_def sample_record_def)

section \<open>The events\<close>

definition sample_budget :: agent_loop_budget where
  "sample_budget = \<lparr>alb_max_model_turns = 3, alb_max_planned_steps = 2, alb_max_tool_calls = 2,
     alb_max_context_bytes = 1000\<rparr>"

definition sample_turn :: expected_planning_turn where
  "sample_turn = \<lparr>ept_turn_index = 1, ept_model_call_id = None, ept_context_digest = sample_digest,
     ept_proposal_digest = sample_digest\<rparr>"

definition sample_step :: accepted_plan_step where
  "sample_step = \<lparr>aps_step_id = ''a'', aps_objective = ''o'', aps_depends_on = [],
     aps_invocation = sample_invocation\<rparr>"

definition sample_bodies :: "run_event_body list" where
  "sample_bodies =
     [RunCreated ''g'',
      AgentLoopConfigured sample_budget,
      PlanAccepted sample_turn [sample_step],
      ModelCallLifecycleConfigured \<lparr>mcb_max_model_calls = 2\<rparr>,
      EffectIntentCommitted ''a'' sample_intent,
      EffectExecutionStarted ''a'' ''e'',
      EffectBecameUnknown ''a'' ''e'' ''lost'',
      ReconciliationStarted ''a'' ''e'',
      ReconciliationResolved ''a'' ''e'' ProvedNotApplied sample_digest,
      EffectExecutionStarted ''a'' ''e'',
      EffectSucceeded ''a'' ''e'' sample_digest (Some sample_digest),
      VerificationRecorded ''a'' ''e'' VerdictPassed ''receipt'' sample_digest,
      ModelCallReserved sample_reservation,
      CompletionCandidateRecorded sample_final_turn ''candidate'' sample_digest None]"

definition sample_journal :: "nat \<Rightarrow> event_record list" where
  "sample_journal n = map (\<lambda>k. sample_record (of_nat (Suc k)) (sample_bodies ! k)) [0..<n]"

lemma sample_journal_Suc:
  "sample_journal (Suc n) = sample_journal n @ [sample_record (of_nat (Suc n)) (sample_bodies ! n)]"
  by (simp add: sample_journal_def)

lemma sample_journal_take: "n \<le> m \<Longrightarrow> take n (sample_journal m) = sample_journal n"
  by (simp add: sample_journal_def take_map)

lemma sample_extend:
  assumes "replay sample_crypto (sample_journal n) = Inr (sample_state (of_nat n) st c l)"
    and "apply_body sample_crypto (sample_state (of_nat n) st c l) (sample_bodies ! n)
      = Inr (sample_state (of_nat n) st' c' l')"
    and "0 < n" and "n < 100" and "m = Suc n"
  shows "replay sample_crypto (sample_journal m) = Inr (sample_state (of_nat m) st' c' l')"
proof -
  have unat: "unat (of_nat k :: u64) = k" if "k < 200" for k
    using that by (simp add: unat_of_nat)
  have "(of_nat (Suc n) :: u64) \<noteq> 1"
  proof
    assume "(of_nat (Suc n) :: u64) = 1"
    then have "unat (of_nat (Suc n) :: u64) = 1" by simp
    then show False using unat [of "Suc n"] assms(3,4) by (simp del: of_nat_Suc)
  qed
  then have "record_follows sample_crypto (sample_state (of_nat n) st c l)
      (sample_record (of_nat (Suc n)) (sample_bodies ! n))"
    using unat [of n] unat [of "Suc n"] assms(3,4)
    by (simp add: record_follows_def sample_record_def verify_digest_iff del: of_nat_Suc)
  moreover have "sample_journal n \<noteq> []" using assms(3) by (simp add: sample_journal_def)
  moreover have "body_of (sample_record m b) = b" for m b by (simp add: sample_record_def)
  ultimately show ?thesis
    using assms(1,2) by (simp add: assms(5) sample_journal_Suc replay_snoc_iff apply_record_Some_iff del: of_nat_Suc)
qed

section \<open>The states\<close>

definition sample_loop ::
    "u32 \<Rightarrow> model_call_lifecycle_state option \<Rightarrow> completion_candidate_state option \<Rightarrow> agent_loop_state" where
  "sample_loop t m c = \<lparr>als_budget = sample_budget, als_accepted_model_turns = t, als_model_calls = m,
     als_completion_candidate = c\<rparr>"

definition sample_calls :: "u32 \<Rightarrow> u32 \<Rightarrow> model_call_state option \<Rightarrow> model_call_lifecycle_state" where
  "sample_calls r q a = \<lparr>mcl_budget = \<lparr>mcb_max_model_calls = 2\<rparr>, mcl_reserved_calls = r,
     mcl_settled_calls = q, mcl_unknown_calls = 0, mcl_active_call = a\<rparr>"

definition sample_planned :: step_state where
  "sample_planned = new_step ''a'' ''o'' [] (Some sample_invocation)"

definition sample_committed :: step_state where
  "sample_committed = sample_planned\<lparr>ss_status := IntentCommitted, ss_intent := Some sample_intent\<rparr>"

definition sample_retry :: step_state where
  "sample_retry = sample_committed\<lparr>ss_attempts := 1, ss_reconciliation_evidence_digest := Some sample_digest\<rparr>"

definition sample_done :: step_state where
  "sample_done = sample_retry\<lparr>ss_status := Completed, ss_attempts := 2,
     ss_effect_evidence_digest := Some sample_digest, ss_output_record_digest := Some sample_digest,
     ss_execution_receipt_id := Some ''receipt'', ss_execution_receipt_digest := Some sample_digest\<rparr>"

definition sample_consumed :: "(string, authorization_consumption) btreemap" where
  "sample_consumed = bm_insert sample_grant \<lparr>ac_grant_digest = sample_digest, ac_max_uses = 1,
     ac_uses = 1, ac_effect_ids = bs_insert ''e'' bs_empty\<rparr> bm_empty"

abbreviation one_step :: "step_state \<Rightarrow> (string, step_state) btreemap" where
  "one_step st \<equiv> bm_insert ''a'' st bm_empty"

lemma bm_values_one [simp]: "bm_values (bm_insert k v bm_empty) = [v]"
  by (simp add: bm_values_def)

lemma bm_insert_twice [simp]: "bm_insert k v (bm_insert k w m) = bm_insert k v m"
  by (rule bm.insert_overwrite)

lemma bm_len_one [simp]: "bm_len (bm_insert k v bm_empty) = 1"
  by (simp add: bm_len_insert)

lemma word_add_one [simp]:
  "checked_add (0 :: u32) 1 = Some 1" "checked_add (1 :: u32) 1 = Some 2" "checked_add (0 :: u32) 2 = Some 2"
  "checked_add (0 :: u32) 0 = Some 0" "checked_add (12 :: u64) 1 = Some 13"
  by (simp_all add: checked_add_def)

abbreviation sample_after :: "nat \<Rightarrow> (string, step_state) btreemap
    \<Rightarrow> (string, authorization_consumption) btreemap \<Rightarrow> agent_loop_state option \<Rightarrow> bool" where
  "sample_after n st c l \<equiv> replay sample_crypto (sample_journal n) = Inr (sample_state (of_nat n) st c l)"

lemma sample_1: "sample_after 1 bm_empty bm_empty None"
  by (simp add: sample_journal_def apply_record_None_iff sample_record_def sample_bodies_def
      verify_digest_iff initial_state_def advance_head_def sample_state_def)

lemma sample_configure:
  "apply_body sample_crypto (sample_state n bm_empty c None) (sample_bodies ! 1)
     = Inr (sample_state n bm_empty c (Some (sample_loop 0 None None)))"
  by (simp add: sample_bodies_def apply_body_def configure_agent_loop_def sample_budget_def
      agent_loop_budget_validate_def total_attempts_def bm_values_def u32_try_from_def sample_loop_def)

lemma graph_ok_empty: "graph_ok (sample_state n bm_empty c l)"
  by (auto simp: graph_ok_def graph_wf_def dep_edges_def step_deps_def actives_released_def
      active_step_def acyclic_def)

lemma sample_plan_accepted:
  "apply_body sample_crypto (sample_state n bm_empty c (Some (sample_loop 0 None None))) (sample_bodies ! 2)
     = Inr (sample_state n (one_step sample_planned) c (Some (sample_loop 1 None None)))"
proof -
  let ?s = "sample_state n bm_empty c (Some (sample_loop 0 None None))"
  let ?s' = "put_step ''a'' sample_planned ?s"
  obtain f where f: "derive_frontier ?s = Inr f"
    using graph_ok_empty [unfolded graph_ok_iff_frontier] by blast
  have "graph_ok ?s'"
    unfolding sample_planned_def
    by (intro graph_ok_new_step graph_ok_empty) (simp_all add: deps_ok_def)
  then obtain f' where f': "derive_frontier ?s' = Inr f'"
    by (auto simp: graph_ok_iff_frontier)
  have heads: "validate_accepted_plan_headers sample_crypto ?s sample_turn [sample_step]
      = Inr (bs_insert ''a'' bs_empty)"
    by (simp add: validate_accepted_plan_headers_def existing_action_owners_def bm_values_def
        validate_accepted_plan_header_def sample_step_def identifier_ok validate_accepted_objective_def
        MAX_ACCEPTED_OBJECTIVE_BYTES_def claim_action_def sample_turn_def)
      (simp add: sample_invocation_def)
  have cand: "build_accepted_plan_candidate ?s [sample_step] (bs_insert ''a'' bs_empty) = Inr ?s'"
    using f by (simp add: build_accepted_plan_candidate_def insert_accepted_step_def sample_step_def
        sample_planned_def)
  show ?thesis
    using heads cand f' unfolding sample_bodies_def
    by (simp add: apply_body_def accept_plan_def)
      (simp add: planning_turn_validate_def validate_model_call_success_def sample_turn_def
        sample_loop_def require_planning_digest_def sample_budget_def MAX_ACCEPTED_PLAN_STEPS_def
        usize_checked_add_def u32_try_from_def settle_successful_model_call_def)
qed

lemma sample_calls_configured:
  "apply_body sample_crypto (sample_state n st c (Some (sample_loop 1 None None))) (sample_bodies ! 3)
     = Inr (sample_state n st c (Some (sample_loop 1 (Some (sample_calls 1 1 None)) None)))"
  by (simp add: sample_bodies_def apply_body_def configure_model_call_lifecycle_def sample_loop_def
      model_call_budget_validate_def validate_model_call_counters_def sample_calls_def)

lemma sample_committed_ok:
  "apply_body sample_crypto (sample_state 4 (one_step sample_planned) bm_empty l) (sample_bodies ! 4)
     = Inr (sample_state 4 (one_step sample_committed) sample_consumed l)"
proof -
  have "validate_planned_invocation_binding sample_crypto sample_planned sample_intent = Inr ()"
    by (simp add: validate_planned_invocation_binding_iff sample_planned_def new_step_def)
      (simp add: intent_matches_plan_def sample_intent_def sample_invocation_def sample_provenance_def
        profile_matches_def)
  moreover have "validate_authorization_binding sample_crypto
      (sample_state 4 (one_step sample_planned) bm_empty l) ''a'' sample_intent = Inr ()"
    by (simp add: validate_authorization_binding_iff sample_intent_def once_authorization_id_def
        authorization_digest_def sample_grant_def)
  moreover have "consume_authorization sample_intent bm_empty = Inr sample_consumed"
    by (simp add: consume_authorization_def sample_intent_def sample_consumed_def)
  moreover have "validate_tool_output_profile sample_intent = Inr ()"
    "validate_receipt_provenance_binding sample_crypto sample_intent = Inr ()"
    by (simp_all add: validate_tool_output_profile_def tool_output_profile_of_def sample_intent_def
        sample_provenance_def validate_receipt_provenance_binding_def receipt_provenance_digest_def)
  ultimately have "commit_effect_intent sample_crypto (sample_state 4 (one_step sample_planned) bm_empty l)
      ''a'' sample_intent = Inr (sample_state 4 (one_step sample_committed) sample_consumed l)"
    unfolding commit_effect_intent_Inr_iff
    by (auto simp: sample_planned_def new_step_def sample_committed_def holds_effect_def)
      (simp_all add: sample_intent_def empty_or_missing_def)
  then show ?thesis by (simp add: sample_bodies_def apply_body_def)
qed

lemma sample_intent_effect [simp]: "ei_effect_id sample_intent = ''e''"
  by (simp add: sample_intent_def)

lemma sample_profile [simp]: "tool_output_profile_of sample_intent = Some TOOL_OUTPUT_PROFILE_V1"
  by (simp add: tool_output_profile_of_def sample_intent_def sample_provenance_def)

lemmas sample_step_defs = sample_planned_def sample_committed_def sample_retry_def sample_done_def
  new_step_def

lemma sample_lifecycle:
  assumes "lifecycle ''a'' b st st'" and "start_within_budget (sample_state n (one_step st) c l) b"
    and "apply_body sample_crypto (sample_state n (one_step st) c l) b
      = apply_effect_lifecycle (sample_state n (one_step st) c l) b"
  shows "apply_body sample_crypto (sample_state n (one_step st) c l) b = Inr (sample_state n (one_step st') c l)"
  unfolding assms(3) apply_effect_lifecycle_iff
  using assms(1,2) by (auto intro!: exI [of _ "''a''"])

abbreviation sample_loop1 :: "agent_loop_state option" where
  "sample_loop1 \<equiv> Some (sample_loop 1 (Some (sample_calls 1 1 None)) None)"

lemma sample_4: "sample_after 4 (one_step sample_planned) bm_empty sample_loop1"
proof -
  have "sample_after 2 bm_empty bm_empty (Some (sample_loop 0 None None))"
    using sample_configure by (intro sample_extend [OF sample_1]) simp_all
  then have "sample_after 3 (one_step sample_planned) bm_empty (Some (sample_loop 1 None None))"
    using sample_plan_accepted by (rule sample_extend) simp_all
  then show ?thesis
    using sample_calls_configured by (rule sample_extend) simp_all
qed

lemma sample_5: "sample_after 5 (one_step sample_committed) sample_consumed sample_loop1"
  by (rule sample_extend [OF sample_4]) (simp_all add: sample_committed_ok)

lemma sample_started:
  "holds_effect st ''e'' \<Longrightarrow> ss_status st = IntentCommitted \<Longrightarrow> checked_add (ss_attempts st) 1 = Some k \<Longrightarrow>
   ss_attempts st < 2 \<Longrightarrow>
   apply_body sample_crypto (sample_state n (one_step st) c sample_loop1) (EffectExecutionStarted ''a'' ''e'')
     = Inr (sample_state n (one_step (st\<lparr>ss_status := Executing, ss_attempts := k\<rparr>)) c sample_loop1)"
  by (intro sample_lifecycle)
    (simp_all add: lifecycle_simps start_within_budget_def attempts_sum_def sample_loop_def sample_budget_def
      apply_body_def word_less_nat_alt)

lemma sample_9: "sample_after 9 (one_step sample_retry) sample_consumed sample_loop1"
proof -
  let ?exec = "sample_committed\<lparr>ss_status := Executing, ss_attempts := 1\<rparr>"
  let ?lost = "?exec\<lparr>ss_status := EffectUnknown, ss_uncertainty_reason := Some ''lost''\<rparr>"
  have "sample_after 6 (one_step ?exec) sample_consumed sample_loop1"
    by (rule sample_extend [OF sample_5])
      (simp_all add: sample_bodies_def sample_started sample_step_defs holds_effect_def)
  then have "sample_after 7 (one_step ?lost) sample_consumed sample_loop1"
    by (rule sample_extend)
      (simp_all add: sample_bodies_def sample_lifecycle lifecycle_simps start_within_budget_def
        apply_body_def sample_step_defs holds_effect_def apply_effect_lifecycle_iff)
  then have "sample_after 8 (one_step (?lost\<lparr>ss_status := Reconciling\<rparr>)) sample_consumed sample_loop1"
    by (rule sample_extend)
      (simp_all add: sample_bodies_def sample_lifecycle lifecycle_simps start_within_budget_def
        apply_body_def sample_step_defs holds_effect_def apply_effect_lifecycle_iff)
  then show ?thesis
    by (rule sample_extend)
      (simp_all add: sample_bodies_def sample_lifecycle lifecycle_simps start_within_budget_def
        apply_body_def sample_step_defs holds_effect_def apply_effect_lifecycle_iff)
qed

lemma sample_12: "sample_after 12 (one_step sample_done) sample_consumed sample_loop1"
proof -
  let ?exec = "sample_retry\<lparr>ss_status := Executing, ss_attempts := 2\<rparr>"
  let ?valid = "?exec\<lparr>ss_status := Validating, ss_effect_evidence_digest := Some sample_digest,
    ss_output_record_digest := Some sample_digest\<rparr>"
  have "sample_after 10 (one_step ?exec) sample_consumed sample_loop1"
    by (rule sample_extend [OF sample_9])
      (simp_all add: sample_bodies_def sample_started sample_step_defs holds_effect_def)
  then have "sample_after 11 (one_step ?valid) sample_consumed sample_loop1"
    by (rule sample_extend)
      (simp_all add: sample_bodies_def sample_lifecycle lifecycle_simps start_within_budget_def
        apply_body_def sample_step_defs holds_effect_def apply_effect_lifecycle_iff step_output_profile_def)
  then show ?thesis
    by (rule sample_extend)
      (simp_all add: sample_bodies_def sample_lifecycle lifecycle_simps start_within_budget_def
        apply_body_def sample_step_defs holds_effect_def apply_effect_lifecycle_iff)
qed

lemma sample_reservation_simps [simp]:
  "mcr_call_id sample_reservation = sample_call_id" "mcr_call_index sample_reservation = 2"
  "mcr_turn_index sample_reservation = 2" "mcr_base_sequence sample_reservation = 12"
  "mcr_base_head_digest sample_reservation = sample_digest"
  "mcr_context_digest sample_reservation = sample_digest"
  by (simp_all add: sample_reservation_def)

definition sample_active :: model_call_state where
  "sample_active = \<lparr>mcs_reservation = sample_reservation, mcs_status = Reserved\<rparr>"

abbreviation sample_loop2 :: "agent_loop_state option" where
  "sample_loop2 \<equiv> Some (sample_loop 1 (Some (sample_calls 2 1 (Some sample_active))) None)"

lemma sample_13: "sample_after 13 (one_step sample_done) sample_consumed sample_loop2"
proof -
  have "list_all identifier_byte ''p''"
    by (simp add: identifier_byte_def is_ascii_alphanumeric_def is_ascii_lowercase_def byte_val_def)
  then have "reservation_validate_for sample_crypto sample_reservation ''r'' 1 = Inr ()"
    by (simp add: reservation_validate_for_def sample_reservation_def MODEL_CALL_FORMAT_VERSION_def
        identifier_ok require_planning_digest_def require_model_call_identifier_def model_call_id_def)
      (simp add: sample_call_id_def)
  then show ?thesis
    by (intro sample_extend [OF sample_12])
      (simp_all add: sample_bodies_def apply_body_def reserve_model_call_def sample_loop_def
        sample_calls_def sample_budget_def sample_active_def validate_model_call_counters_def
        word_le_nat_alt)
qed

definition sample_candidate :: completion_candidate_state where
  "sample_candidate = \<lparr>ccs_candidate_id = ''candidate'', ccs_context_digest = sample_digest,
     ccs_proposal_digest = sample_digest, ccs_summary_digest = sample_digest,
     ccs_completion_output_record_digest = None\<rparr>"

lemma all_released_completed:
  assumes "derive_frontier s = Inr f" and "rs_steps s \<noteq> bm_empty"
    and "\<And>v. bm_contains_key (rs_steps s) v \<Longrightarrow> released s v"
  shows "all_steps_receipt_completed f"
proof -
  obtain ord where f: "f = finish (assemble s ord) s" and topo: "topo_order s ord"
    and all: "set ord = {v. bm_contains_key (rs_steps s) v}"
    using assms(1) by (rule derive_frontier_success)
  have "slot_of s v = SlotVerified" if "v \<in> set ord" for v
    using that all assms(3) [of v]
    by (auto simp: slot_of_def released_def receipt_releases_dependency_def bm_contains_key_def)
  then have "filter (\<lambda>v. slot_of s v = SlotVerified) ord = ord" by simp
  moreover have "bm_len (rs_steps s) = length ord"
  proof -
    have "bm_len (rs_steps s) = card {v. bm_contains_key (rs_steps s) v}"
      by (simp add: bm_len_def bm.length_entries bm_contains_key_def dom_def)
    then show ?thesis using all distinct_card [OF topo_order_distinct [OF topo]] by simp
  qed
  moreover have "ord \<noteq> []"
  proof
    assume "ord = []"
    then have "\<not> bm_contains_key (rs_steps s) v" for v using all by auto
    then have "rs_steps s = bm_empty" by (intro bm.map_eqI) (simp add: bm_contains_key_def)
    with assms(2) show False by simp
  qed
  ultimately show ?thesis
    by (simp add: all_steps_receipt_completed_def f finish_def assemble_def)
qed

lemma sample_14:
  "sample_after 14 (one_step sample_done) sample_consumed
     (Some (sample_loop 2 (Some (sample_calls 2 2 None)) (Some sample_candidate)))"
proof -
  let ?s = "sample_state 13 (one_step sample_done) sample_consumed sample_loop2"
  have "graph_ok ?s" using graph.reachable [OF sample_13] by simp
  then obtain f where f: "derive_frontier ?s = Inr f" unfolding graph_ok_iff_frontier by blast
  have "rs_steps ?s \<noteq> bm_empty" by (metis bm_len_empty bm_len_one sample_state_simps(1) zero_neq_one)
  moreover have "released ?s v" if "bm_contains_key (rs_steps ?s) v" for v
    using that by (simp add: released_def receipt_releases_dependency_def sample_step_defs)
  ultimately have "all_steps_receipt_completed f" by (intro all_released_completed [OF f])
  with f show ?thesis
    by (intro sample_extend [OF sample_13])
      (simp_all add: sample_bodies_def apply_body_def record_completion_candidate_def,
       simp_all add: planning_turn_validate_def sample_final_turn_def require_planning_digest_def
        validate_model_call_success_def sample_loop_def sample_calls_def sample_active_def
        identifier_ok sample_budget_def settle_successful_model_call_def
        validate_model_call_counters_def sample_candidate_def word_less_nat_alt)
qed

end
