(* ===== verification/Frontier_Spec.thy ===== *)
theory Frontier_Spec
  imports Frontier_Correctness "HOL-Library.Multiset"
begin

text \<open>
  The frontier as a closed expression over the steps in key order: the order in which a
  continuation must act (running effects first, then uncertain ones, reconciliations,
  verifications, committed intents, admissible steps), and the waiting, blocked and finished
  steps. \<open>derive_frontier\<close> computes exactly this value whenever it succeeds.
\<close>

definition status_of :: "run_state \<Rightarrow> string \<Rightarrow> step_status option" where
  "status_of s v = map_option ss_status (bm_get (rs_steps s) v)"

definition steps_in :: "run_state \<Rightarrow> step_status \<Rightarrow> string list" where
  "steps_in s q = filter (\<lambda>v. status_of s v = Some q) (bm_keys (rs_steps s))"

definition act :: "continuation_action \<Rightarrow> string \<Rightarrow> frontier_action" where
  "act a v = \<lparr>fact_step_id = v, fact_action = a\<rparr>"

definition frontier_spec :: "run_state \<Rightarrow> work_frontier" where
  "frontier_spec s =
     \<lparr>wf_run_id = rs_run_id s, wf_revision = rs_revision s,
      wf_journal_sequence = rs_journal_sequence s,
      wf_journal_head_digest = rs_journal_head_digest s,
      wf_total_steps = bm_len (rs_steps s),
      wf_actionable =
        map (act DriveEffect) (steps_in s Executing)
        @ map (act DriveEffect) (steps_in s EffectUnknown)
        @ map (act DriveEffect) (steps_in s Reconciling)
        @ map (act Verify) (steps_in s Validating)
        @ map (act DriveEffect) (steps_in s IntentCommitted)
        @ map (act Admit) (filter (\<lambda>v. \<forall>d \<in> set (step_deps s v). released s d) (steps_in s Planned)),
      wf_waiting =
        map (\<lambda>v. \<lparr>ws_step_id = v, ws_pending_dependencies = pending_of s v\<rparr>)
          (filter (\<lambda>v. (\<forall>d \<in> set (step_deps s v). \<not> step_blocked s d)
                      \<and> (\<exists>d \<in> set (step_deps s v). \<not> released s d)) (steps_in s Planned)),
      wf_blocked =
        map (\<lambda>v. \<lparr>bst_step_id = v, bst_blockers = blockers_of s v\<rparr>)
          (filter (\<lambda>v. \<exists>d \<in> set (step_deps s v). step_blocked s d) (steps_in s Planned)),
      wf_verified_completed_step_ids = filter (released s) (steps_in s Completed),
      wf_unverified_completed_step_ids = filter (\<lambda>v. \<not> released s v) (steps_in s Completed),
      wf_failed_step_ids = steps_in s Failed,
      wf_manual_required_step_ids = steps_in s ManualRequired\<rparr>"

section \<open>Sorting a permutation of the keys\<close>

lemma map_filter_eq: "List.map_filter g xs = map (the \<circ> g) (filter (\<lambda>v. g v \<noteq> None) xs)"
  by (simp add: List.map_filter_def comp_def)

lemma mset_permutation: "distinct xs \<Longrightarrow> set xs = set (bm_keys m) \<Longrightarrow> mset xs = mset (bm_keys m)"
  using set_eq_iff_mset_eq_distinct [of xs "bm_keys m"] by simp

lemma sort_permutation:
  assumes "distinct xs" and "set xs = set (bm_keys m)"
  shows "sort (filter P xs) = filter P (bm_keys m)"
proof -
  have "mset (filter P xs) = mset (filter P (bm_keys m))"
    using mset_permutation [OF assms] by simp
  moreover have "sorted (filter P (bm_keys m))" by (simp add: sorted_wrt_filter)
  ultimately show ?thesis by (metis properties_for_sort)
qed

lemma sort_key_permutation:
  assumes "distinct xs" and "set xs = set (bm_keys m)" and "\<And>v y. g v = Some y \<Longrightarrow> h y = v"
  shows "sort_key h (List.map_filter g xs) = List.map_filter g (bm_keys m)"
proof (rule sort_key_inj_key_eq)
  let ?f = "filter (\<lambda>v. g v \<noteq> None)"
  have "mset (?f xs) = mset (?f (bm_keys m))"
    using mset_permutation [OF assms(1,2)] by simp
  then show "mset (List.map_filter g xs) = mset (List.map_filter g (bm_keys m))"
    by (simp only: map_filter_eq mset_map)
  have key: "h (the (g v)) = v" if "g v \<noteq> None" for v using that assms(3) by auto
  then have "map h (List.map_filter g ys) = ?f ys" for ys
    unfolding map_filter_eq map_map by (intro map_idI) auto
  then show "sorted (map h (List.map_filter g (bm_keys m)))" by (simp add: sorted_wrt_filter)
  show "inj_on h (set (List.map_filter g xs))"
    using assms(3) by (auto simp: inj_on_def map_filter_eq)
qed

section \<open>The slots of the steps\<close>

lemma slot_of_known:
  assumes "v \<in> set (bm_keys (rs_steps s))"
  shows "slot_of s v = SlotVerified \<longleftrightarrow> status_of s v = Some Completed \<and> released s v"
    and "slot_of s v = SlotUnverified \<longleftrightarrow> status_of s v = Some Completed \<and> \<not> released s v"
    and "slot_of s v = SlotFailed \<longleftrightarrow> status_of s v = Some Failed"
    and "slot_of s v = SlotManual \<longleftrightarrow> status_of s v = Some ManualRequired"
    and "slot_of s v = SlotWaiting ds \<longleftrightarrow> status_of s v = Some Planned
      \<and> (\<forall>d \<in> set (step_deps s v). \<not> step_blocked s d) \<and> (\<exists>d \<in> set (step_deps s v). \<not> released s d)
      \<and> ds = pending_of s v"
    and "slot_of s v = SlotBlocked bs \<longleftrightarrow> status_of s v = Some Planned
      \<and> (\<exists>d \<in> set (step_deps s v). step_blocked s d) \<and> bs = blockers_of s v"
    and "slot_of s v = SlotAction k a \<longleftrightarrow>
      k = 0 \<and> a = DriveEffect \<and> status_of s v = Some Executing
      \<or> k = 1 \<and> a = DriveEffect \<and> status_of s v = Some EffectUnknown
      \<or> k = 2 \<and> a = DriveEffect \<and> status_of s v = Some Reconciling
      \<or> k = 3 \<and> a = Verify \<and> status_of s v = Some Validating
      \<or> k = 4 \<and> a = DriveEffect \<and> status_of s v = Some IntentCommitted
      \<or> k = 5 \<and> a = Admit \<and> status_of s v = Some Planned \<and> (\<forall>d \<in> set (step_deps s v). released s d)"
proof -
  obtain st where st: "bm_get (rs_steps s) v = Some st"
    using assms by (auto simp: in_bm_keys_iff bm_contains_key_def)
  note facts = slot_of_def status_of_def st released_def blockers_of_Nil_iff pending_of_Nil_iff
  show "slot_of s v = SlotVerified \<longleftrightarrow> status_of s v = Some Completed \<and> released s v"
    "slot_of s v = SlotUnverified \<longleftrightarrow> status_of s v = Some Completed \<and> \<not> released s v"
    "slot_of s v = SlotFailed \<longleftrightarrow> status_of s v = Some Failed"
    "slot_of s v = SlotManual \<longleftrightarrow> status_of s v = Some ManualRequired"
    by (cases "ss_status st"; simp add: facts)+
  show "slot_of s v = SlotWaiting ds \<longleftrightarrow> status_of s v = Some Planned
      \<and> (\<forall>d \<in> set (step_deps s v). \<not> step_blocked s d) \<and> (\<exists>d \<in> set (step_deps s v). \<not> released s d)
      \<and> ds = pending_of s v"
    "slot_of s v = SlotBlocked bs \<longleftrightarrow> status_of s v = Some Planned
      \<and> (\<exists>d \<in> set (step_deps s v). step_blocked s d) \<and> bs = blockers_of s v"
    by (cases "ss_status st";
        auto simp: slot_of_def status_of_def st blockers_of_Nil_iff pending_of_Nil_iff)+
  show "slot_of s v = SlotAction k a \<longleftrightarrow>
      k = 0 \<and> a = DriveEffect \<and> status_of s v = Some Executing
      \<or> k = 1 \<and> a = DriveEffect \<and> status_of s v = Some EffectUnknown
      \<or> k = 2 \<and> a = DriveEffect \<and> status_of s v = Some Reconciling
      \<or> k = 3 \<and> a = Verify \<and> status_of s v = Some Validating
      \<or> k = 4 \<and> a = DriveEffect \<and> status_of s v = Some IntentCommitted
      \<or> k = 5 \<and> a = Admit \<and> status_of s v = Some Planned \<and> (\<forall>d \<in> set (step_deps s v). released s d)"
    using none_outstanding_iff [of s v]
    by (cases "ss_status st"; auto simp: slot_of_def status_of_def st)
qed

text \<open>A ranked action list sorts into its ranks, each in key order.\<close>

definition rank_group :: "run_state \<Rightarrow> nat \<Rightarrow> continuation_action \<Rightarrow> (nat \<times> string \<times> continuation_action) list" where
  "rank_group s k a = map (\<lambda>v. (k, v, a)) (filter (\<lambda>v. slot_of s v = SlotAction k a) (bm_keys (rs_steps s)))"

definition ranked :: "run_state \<Rightarrow> (nat \<times> string \<times> continuation_action) list" where
  "ranked s = rank_group s 0 DriveEffect @ rank_group s 1 DriveEffect @ rank_group s 2 DriveEffect
     @ rank_group s 3 Verify @ rank_group s 4 DriveEffect @ rank_group s 5 Admit"

abbreviation action_key :: "nat \<times> string \<times> continuation_action \<Rightarrow> nat \<times> string" where
  "action_key \<equiv> \<lambda>(rank, step_id, _). (rank, step_id)"

lemma set_rank_group:
  "(k, v, a) \<in> set (rank_group s k' a') \<longleftrightarrow>
     k = k' \<and> a = a' \<and> v \<in> set (bm_keys (rs_steps s)) \<and> slot_of s v = SlotAction k a"
  by (auto simp: rank_group_def)

lemma set_ranked:
  "(k, v, a) \<in> set (ranked s) \<longleftrightarrow> v \<in> set (bm_keys (rs_steps s)) \<and> slot_of s v = SlotAction k a"
proof -
  have "k = 0 \<and> a = DriveEffect \<or> k = 1 \<and> a = DriveEffect \<or> k = 2 \<and> a = DriveEffect \<or> k = 3 \<and> a = Verify
      \<or> k = 4 \<and> a = DriveEffect \<or> k = 5 \<and> a = Admit"
    if "v \<in> set (bm_keys (rs_steps s))" "slot_of s v = SlotAction k a"
    using that(2) slot_of_known(7) [OF that(1)] by blast
  then show ?thesis unfolding ranked_def by (simp add: set_rank_group) blast
qed

lemma sorted_ranked: "sorted (map action_key (ranked s))"
proof -
  have group: "map action_key (rank_group s k a) = map (Pair k) (filter (\<lambda>v. slot_of s v = SlotAction k a) (bm_keys (rs_steps s)))" for k a
    by (simp add: rank_group_def)
  have "sorted (filter P (bm_keys (rs_steps s)))" for P by (simp add: sorted_wrt_filter)
  then have "sorted (map (Pair k) (filter P (bm_keys (rs_steps s))))" for k :: nat and P
    by (auto simp: sorted_map less_eq_prod_def intro: sorted_wrt_mono_rel)
  then show ?thesis
    unfolding ranked_def map_append group by (auto simp: sorted_append less_eq_prod_def)
qed

lemma sort_ranked:
  assumes "distinct xs" and "set xs = set (bm_keys (rs_steps s))"
  shows "sort_key action_key (List.map_filter
      (\<lambda>v. case slot_of s v of SlotAction r a \<Rightarrow> Some (r, v, a) | _ \<Rightarrow> None) xs) = ranked s"
    (is "sort_key _ (List.map_filter ?g xs) = _")
proof (rule sort_key_inj_key_eq)
  have g: "?g v = Some (k, w, a) \<longleftrightarrow> w = v \<and> slot_of s v = SlotAction k a" for v k w a
    by (auto split: frontier_slot.splits)
  have sets: "set (List.map_filter ?g xs) = set (ranked s)"
  proof (rule set_eqI)
    fix x :: "nat \<times> string \<times> continuation_action"
    obtain k w a where x: "x = (k, w, a)" by (cases x)
    have "x \<in> set (List.map_filter ?g xs) \<longleftrightarrow> (\<exists>v \<in> set xs. ?g v = Some (k, w, a))"
      by (force simp: map_filter_eq x)
    also have "\<dots> \<longleftrightarrow> w \<in> set (bm_keys (rs_steps s)) \<and> slot_of s w = SlotAction k a"
      unfolding g using assms(2) by auto
    finally show "x \<in> set (List.map_filter ?g xs) \<longleftrightarrow> x \<in> set (ranked s)"
      by (simp add: x set_ranked)
  qed
  have inj: "inj_on (the \<circ> ?g) {v. ?g v \<noteq> None}"
    by (rule inj_onI) (auto split: frontier_slot.splits)
  have "distinct (List.map_filter ?g xs)"
    unfolding map_filter_eq using assms(1) inj by (simp add: distinct_map inj_on_def)
  moreover have "distinct (rank_group s k a)" for k a
    by (simp add: rank_group_def distinct_map inj_on_def)
  then have "distinct (ranked s)"
    by (auto simp: ranked_def rank_group_def)
  ultimately show "mset (List.map_filter ?g xs) = mset (ranked s)"
    using sets by (simp add: set_eq_iff_mset_eq_distinct [symmetric])
  show "inj_on action_key (set (List.map_filter ?g xs))"
    unfolding sets by (rule inj_onI) (auto simp: set_ranked)
qed (rule sorted_ranked)

section \<open>The derivation computes the specification\<close>

lemma filter_keys_cong:
  "(\<And>v. v \<in> set (bm_keys m) \<Longrightarrow> P v = Q v) \<Longrightarrow> filter P (bm_keys m) = filter Q (bm_keys m)"
  by (rule filter_cong) auto

lemma map_filter_keys:
  assumes "\<And>v. v \<in> set (bm_keys m) \<Longrightarrow> g v = (if P v then Some (f v) else None)"
  shows "List.map_filter g (bm_keys m) = map f (filter P (bm_keys m))"
proof -
  have "filter (\<lambda>v. g v \<noteq> None) (bm_keys m) = filter P (bm_keys m)"
    using assms by (intro filter_keys_cong) auto
  then show ?thesis
    unfolding map_filter_eq using assms by (intro map_cong) auto
qed

lemma rank_group_actions:
  assumes "\<And>v. v \<in> set (bm_keys (rs_steps s)) \<Longrightarrow> slot_of s v = SlotAction k a \<longleftrightarrow> P v"
  shows "map (\<lambda>(_, v, a). \<lparr>fact_step_id = v, fact_action = a\<rparr>) (rank_group s k a)
    = map (act a) (filter P (bm_keys (rs_steps s)))"
  using filter_keys_cong [of "rs_steps s" "\<lambda>v. slot_of s v = SlotAction k a" P] assms
  by (simp add: rank_group_def act_def comp_def)

lemma ranked_actions:
  "map (\<lambda>(_, v, a). \<lparr>fact_step_id = v, fact_action = a\<rparr>) (ranked s) = wf_actionable (frontier_spec s)"
  unfolding ranked_def map_append frontier_spec_def work_frontier.select_convs steps_in_def filter_filter
  by (intro arg_cong2 [where f = "(@)"] rank_group_actions; simp add: slot_of_known(7))

lemma waiting_slots:
  "List.map_filter (\<lambda>v. case slot_of s v of
       SlotWaiting ds \<Rightarrow> Some \<lparr>ws_step_id = v, ws_pending_dependencies = ds\<rparr> | _ \<Rightarrow> None) (bm_keys (rs_steps s))
     = wf_waiting (frontier_spec s)"
  unfolding frontier_spec_def work_frontier.select_convs steps_in_def filter_filter
proof (rule map_filter_keys)
  fix v
  assume v: "v \<in> set (bm_keys (rs_steps s))"
  show "(case slot_of s v of SlotWaiting ds \<Rightarrow> Some \<lparr>ws_step_id = v, ws_pending_dependencies = ds\<rparr> | _ \<Rightarrow> None)
    = (if status_of s v = Some Planned \<and> (\<forall>d \<in> set (step_deps s v). \<not> step_blocked s d)
         \<and> (\<exists>d \<in> set (step_deps s v). \<not> released s d)
       then Some \<lparr>ws_step_id = v, ws_pending_dependencies = pending_of s v\<rparr> else None)"
    using slot_of_known(5) [OF v] by (cases "slot_of s v") auto
qed

lemma blocked_slots:
  "List.map_filter (\<lambda>v. case slot_of s v of
       SlotBlocked bs \<Rightarrow> Some \<lparr>bst_step_id = v, bst_blockers = bs\<rparr> | _ \<Rightarrow> None) (bm_keys (rs_steps s))
     = wf_blocked (frontier_spec s)"
  unfolding frontier_spec_def work_frontier.select_convs steps_in_def filter_filter
proof (rule map_filter_keys)
  fix v
  assume v: "v \<in> set (bm_keys (rs_steps s))"
  show "(case slot_of s v of SlotBlocked bs \<Rightarrow> Some \<lparr>bst_step_id = v, bst_blockers = bs\<rparr> | _ \<Rightarrow> None)
    = (if status_of s v = Some Planned \<and> (\<exists>d \<in> set (step_deps s v). step_blocked s d)
       then Some \<lparr>bst_step_id = v, bst_blockers = blockers_of s v\<rparr> else None)"
    using slot_of_known(6) [OF v] by (cases "slot_of s v") auto
qed

lemma finish_assemble:
  assumes "distinct ord" and "set ord = set (bm_keys (rs_steps s))"
  shows "finish (assemble s ord) s = frontier_spec s"
proof -
  note perm = sort_permutation [OF assms] and keyed = sort_key_permutation [OF assms]
  have "sort_key ws_step_id (List.map_filter (\<lambda>v. case slot_of s v of
      SlotWaiting ds \<Rightarrow> Some \<lparr>ws_step_id = v, ws_pending_dependencies = ds\<rparr> | _ \<Rightarrow> None) ord) = wf_waiting (frontier_spec s)"
    unfolding waiting_slots [symmetric] by (rule keyed) (auto split: frontier_slot.splits)
  moreover have "sort_key bst_step_id (List.map_filter (\<lambda>v. case slot_of s v of
      SlotBlocked bs \<Rightarrow> Some \<lparr>bst_step_id = v, bst_blockers = bs\<rparr> | _ \<Rightarrow> None) ord) = wf_blocked (frontier_spec s)"
    unfolding blocked_slots [symmetric] by (rule keyed) (auto split: frontier_slot.splits)
  moreover have "filter (\<lambda>v. slot_of s v = SlotVerified) (bm_keys (rs_steps s)) = filter (released s) (steps_in s Completed)"
    "filter (\<lambda>v. slot_of s v = SlotUnverified) (bm_keys (rs_steps s)) = filter (\<lambda>v. \<not> released s v) (steps_in s Completed)"
    "filter (\<lambda>v. slot_of s v = SlotFailed) (bm_keys (rs_steps s)) = steps_in s Failed"
    "filter (\<lambda>v. slot_of s v = SlotManual) (bm_keys (rs_steps s)) = steps_in s ManualRequired"
    unfolding steps_in_def filter_filter by (auto intro!: filter_keys_cong simp: slot_of_known)
  ultimately show ?thesis
    using ranked_actions [of s]
    by (simp add: finish_def assemble_def sort_ranked [OF assms] perm)
      (simp add: frontier_spec_def)
qed

lemma derive_frontier_spec: "derive_frontier s = Inr f \<Longrightarrow> f = frontier_spec s"
proof -
  assume "derive_frontier s = Inr f"
  then obtain ord where f: "f = finish (assemble s ord) s" and topo: "topo_order s ord"
    and all: "set ord = {v. bm_contains_key (rs_steps s) v}"
    by (rule derive_frontier_success)
  have "set ord = set (bm_keys (rs_steps s))" using all by (auto simp: in_bm_keys_iff)
  with topo show ?thesis by (simp add: f finish_assemble topo_order_distinct)
qed

section \<open>Progress\<close>

text \<open>A step whose outcome is pending rests on some step that can be acted on now.\<close>

lemma actionable_nonempty:
  assumes "v \<in> set (bm_keys (rs_steps s))" and "slot_of s v = SlotAction k a"
  shows "wf_actionable (frontier_spec s) \<noteq> []"
proof -
  have "(k, v, a) \<in> set (ranked s)" using assms by (simp add: set_ranked)
  then have "ranked s \<noteq> []" by auto
  then show ?thesis by (simp flip: ranked_actions)
qed

lemma pending_rests_on_action:
  assumes wf: "graph_wf s" and ac: "acyclic (dep_edges s)"
    and "bm_contains_key (rs_steps s) v" and "outcome_of s v = Pending"
  shows "\<exists>w \<in> set (bm_keys (rs_steps s)). \<exists>k a. slot_of s w = SlotAction k a"
proof -
  have "wf (dep_edges s)" using finite_dep_edges ac by (rule finite_acyclic_wf)
  then show ?thesis using assms(3,4)
  proof (induction v rule: wf_induct_rule)
    case (less v)
    then obtain st where st: "bm_get (rs_steps s) v = Some st" by (auto simp: bm_contains_key_def)
    have key: "v \<in> set (bm_keys (rs_steps s))" using less.prems(1) by (simp add: in_bm_keys_iff)
    have unfinished: "\<not> released s v" "\<not> step_blocked s v" using less.prems(2) by (simp_all add: outcome_of_iff)
    show ?case
    proof (cases "ss_status st = Planned \<and> (\<exists>d \<in> set (step_deps s v). \<not> released s d)")
      case True
      then obtain d where d: "d \<in> set (step_deps s v)" "\<not> released s d" by blast
      have "\<not> step_blocked s d"
        using unfinished(2) d(1) st True by (subst (asm) step_blocked_iff) (auto simp: step_deps_def)
      then have "outcome_of s d = Pending" using d(2) by (simp add: outcome_of_iff)
      moreover have "bm_contains_key (rs_steps s) d" using wf d(1) by (auto simp: graph_wf_def)
      ultimately show ?thesis using less.IH [of d] d(1) by (simp add: dep_edges_def)
    next
      case False
      have "ss_status st \<notin> {Completed, Failed, ManualRequired}"
        using unfinished st by (subst (asm) step_blocked_iff) (auto simp: released_def)
      then have "\<exists>k a. slot_of s v = SlotAction k a"
        using False slot_of_known(7) [OF key] st by (cases "ss_status st") (auto simp: status_of_def)
      then show ?thesis using key by blast
    qed
  qed
qed

lemma waiting_means_action:
  assumes "derive_frontier s = Inr f" and "wf_waiting f \<noteq> []"
  shows "wf_actionable f \<noteq> []"
proof -
  have f: "f = frontier_spec s" using assms(1) by (rule derive_frontier_spec)
  have ok: "graph_wf s" "acyclic (dep_edges s)"
    using assms(1) derive_frontier_ok_iff [of s] by blast+
  from assms(2) obtain v where v: "v \<in> set (steps_in s Planned)"
    and deps: "\<forall>d \<in> set (step_deps s v). \<not> step_blocked s d" "\<exists>d \<in> set (step_deps s v). \<not> released s d"
    by (auto simp: f frontier_spec_def filter_empty_conv)
  then obtain d where "d \<in> set (step_deps s v)" "outcome_of s d = Pending"
    by (auto simp: outcome_of_iff)
  moreover from this(1) have "bm_contains_key (rs_steps s) d" using ok(1) by (auto simp: graph_wf_def)
  ultimately show ?thesis
    using pending_rests_on_action [OF ok] actionable_nonempty f by blast
qed

end
