(* ===== verification/Run_Properties.thy ===== *)
theory Run_Properties
  imports Sample_Run Frontier_Spec
begin

text \<open>
  The properties of a durable run, stated over \<open>replay\<close>, \<open>apply_body\<close> and \<open>derive_frontier\<close>:
  what a journal that replays must look like, what its projection guarantees, and that nothing a
  replayed projection is fed can reach an internal error. Each rests on an interpretation of
  \<open>run_invariant\<close>, \<open>state_invariant\<close>, \<open>step_invariant\<close> or \<open>run_relation\<close>.
\<close>

section \<open>Auxiliary facts\<close>

definition record_input :: "event_record \<Rightarrow> digest_input" where
  "record_input r = DigestInput (er_sequence r) (er_previous_digest r) (er_event r)"

lemma record_input_verified: "verify_digest cr r = Inr () \<Longrightarrow> canonical_digest cr (record_input r) = Inr (er_digest r)"
  by (simp add: verify_digest_iff record_input_def)

lemma record_input_eq:
  assumes "record_input r = record_input r'" and "er_digest r = er_digest r'"
  shows "r = r'"
  using assms by (simp add: record_input_def)

lemma last_verified:
  assumes "replay cr rs = Inr s"
  shows "canonical_digest cr (record_input (last rs)) = Inr (er_digest (last rs))"
    and "er_digest (last rs) = rs_journal_head_digest s"
    and "unat (er_sequence (last rs)) = length rs"
    and "er_previous_digest (last rs) = (if length rs = 1 then None else Some (er_digest (last (butlast rs))))"
proof -
  have c: "chained cr rs s" using assms by (rule chain.reachable)
  then have ne: "rs \<noteq> []" and ok: "link_ok cr rs s (length rs - 1)" by (simp_all add: chained_def)
  show "canonical_digest cr (record_input (last rs)) = Inr (er_digest (last rs))"
    using ok ne by (simp add: link_ok_def last_conv_nth record_input_verified)
  show "er_digest (last rs) = rs_journal_head_digest s" using c by (simp add: chained_def)
  show "unat (er_sequence (last rs)) = length rs"
    using ok ne by (simp add: link_ok_def last_conv_nth)
  show "er_previous_digest (last rs) = (if length rs = 1 then None else Some (er_digest (last (butlast rs))))"
  proof (cases "length rs = 1")
    case True
    then show ?thesis using ok ne by (simp add: link_ok_def last_conv_nth)
  next
    case False
    then have long: "2 \<le> length rs" using ne by (cases rs; cases "tl rs") auto
    then have "length (butlast rs) \<noteq> 0" by simp
    then have "butlast rs \<noteq> []" by blast
    with False long show ?thesis
      using ok ne by (simp add: link_ok_def last_conv_nth nth_butlast numeral_2_eq_2)
  qed
qed

definition journal_confusion :: "crypto \<Rightarrow> event_record list \<Rightarrow> event_record list \<Rightarrow> bool" where
  "journal_confusion cr rs rs' \<longleftrightarrow>
     (\<exists>r \<in> set rs. \<exists>r' \<in> set rs'. digest_confusion cr (record_input r) (record_input r'))"

lemma same_head:
  assumes "replay cr rs = Inr s" and "replay cr rs' = Inr s'"
    and "rs_journal_head_digest s = rs_journal_head_digest s'"
  shows "rs = rs' \<or> journal_confusion cr rs rs'"
  using assms
proof (induction rs arbitrary: s s' rs' rule: rev_induct)
  case (snoc r rs)
  obtain r' rs1 where rs': "rs' = rs1 @ [r']"
    using snoc.prems(2) by (cases rs' rule: rev_cases) auto
  note here = last_verified [OF snoc.prems(1)] and there = last_verified [OF snoc.prems(2), unfolded rs']
  show ?case
  proof (cases "record_input r = record_input r'")
    case False
    have "canonical_digest cr (record_input r) = Inr (er_digest r)"
      "canonical_digest cr (record_input r') = Inr (er_digest r)"
      using here(1,2) there(1,2) snoc.prems(3) by (simp_all add: rs')
    then have "digest_confusion cr (record_input r) (record_input r')"
      using canonical_digest_eq False by blast
    then show ?thesis unfolding journal_confusion_def rs' by auto
  next
    case True
    have eq: "r = r'"
      using True here(2) there(2) snoc.prems(3) by (intro record_input_eq) (simp_all add: rs')
    have len: "length rs = length rs1"
      using here(3) there(3) eq by simp
    show ?thesis
    proof (cases "rs = []")
      case True
      then show ?thesis using len eq rs' by simp
    next
      case False
      then have ne: "rs1 \<noteq> []" using len by auto
      obtain t where t: "replay cr rs = Inr t" using replay_prefix [OF snoc.prems(1)] False by blast
      obtain t' where t': "replay cr rs1 = Inr t'"
        using replay_prefix [OF snoc.prems(2) [unfolded rs']] ne by blast
      have "er_digest (last rs) = er_digest (last rs1)"
        using here(4) there(4) eq False ne by simp
      then have "rs_journal_head_digest t = rs_journal_head_digest t'"
        using last_verified(2) [OF t] last_verified(2) [OF t'] by simp
      from snoc.IH [OF t t' this] show ?thesis
        unfolding journal_confusion_def rs' eq by auto
    qed
  qed
qed simp

fun is_start :: "run_event_body \<Rightarrow> bool" where
  "is_start (EffectExecutionStarted _ _) = True"
| "is_start _ = False"

interpretation starts: run_invariant cr "\<lambda>rs s. count_events is_start rs = attempts_sum s" for cr
proof unfold_locales
  fix r s
  assume "apply_record cr None r = Inr s"
  then show "count_events is_start [r] = attempts_sum s"
    by (auto simp: apply_record_None_iff count_events_def attempts_sum_def bm_values_def)
next
  fix rs s r s'
  assume eq: "count_events is_start rs = attempts_sum s" and body: "apply_body cr s (body_of r) = Inr s'"
  from body have "attempts_sum s' = attempts_sum s + (if is_start (body_of r) then 1 else 0)"
  proof (cases rule: apply_body_cases)
    case (loop l)
    then show ?thesis using attempts_sum_steps [of s' s] by (cases "body_of r") auto
  next
    case (plan decision steps)
    from plan(2) obtain l' where fresh: "fresh_steps s (map accepted_step steps)"
      and "s' = put_loop l' (add_steps (map accepted_step steps) s)"
      by (rule accept_plan_Inr)
    then show ?thesis
      using attempts_sum_steps [of s' "add_steps (map accepted_step steps) s"]
      by (simp add: plan(1) attempts_sum_add_steps)
  next
    case (add v obj deps)
    then have fresh: "fresh_steps s [(v, new_step v obj deps None)]" by (auto simp: fresh_steps_def)
    then show ?thesis using add attempts_sum_add_steps [OF fresh] by simp
  next
    case (commit v i)
    then obtain st m where "bm_get (rs_steps s) v = Some st"
      "s' = put_step v (st\<lparr>ss_status := IntentCommitted, ss_intent := Some i\<rparr>)
        (s\<lparr>rs_authorization_consumption := m\<rparr>)"
      by (auto simp: commit_effect_intent_Inr_iff)
    then show ?thesis
      using attempts_sum_put_step [of v "st\<lparr>ss_status := IntentCommitted, ss_intent := Some i\<rparr>"
          "s\<lparr>rs_authorization_consumption := m\<rparr>"]
        attempts_sum_steps [of "s\<lparr>rs_authorization_consumption := m\<rparr>" s] commit(1) by simp
  next
    case (life v st st')
    have "is_start (body_of r) = starts_effect v (body_of r)"
      using lifecycle_targets [OF life(3)] by (cases "body_of r") auto
    then show ?thesis using attempts_sum_lifecycle [OF life(3,2)] life(4) by simp
  qed
  then show "count_events is_start (rs @ [r]) = attempts_sum (advance_head r s')"
    using eq attempts_sum_steps [of "advance_head r s'" s'] by simp
qed

lemma intent_authorized:
  "replay cr rs = Inr s \<Longrightarrow> intent_of s v = Some i \<Longrightarrow> \<exists>k. authorized_at cr rs v i k"
  using authorized.reachable [of cr rs s] by (simp add: intent_of_def bind_eq_Some_conv) blast

lemma completed_run_frozen:
  assumes "replay cr rs = Inr s" and "rs_agent_loop s = Some l" and "als_completion_candidate l = Some c"
    and body: "apply_body cr s body = Inr s'"
  shows "rs_steps s' = rs_steps s"
proof -
  have ok: "completion_ok s" using completion.reachable assms(1) by blast
  have finished: "ss_status st = Completed" if "bm_get (rs_steps s) v = Some st" for v st
    using that ok assms(2,3)
    by (force simp: completion_ok_def released_def receipt_releases_dependency_def bm_contains_key_def)
  from body show ?thesis
  proof (cases rule: apply_body_cases)
    case (plan decision steps)
    from plan(2) show ?thesis by (rule accept_plan_Inr) (use assms(2,3) in simp)
  next
    case (add v obj deps)
    then show ?thesis using assms(2,3) by (simp add: steps_within_budget_def)
  next
    case (commit v i)
    then show ?thesis using finished by (fastforce simp: commit_effect_intent_Inr_iff)
  next
    case (life v st st')
    then show ?thesis using finished lifecycle_source [OF life(3)] by (simp add: terminal_status_def)
  qed simp
qed

section \<open>The journal\<close>

text \<open>
  C1. A journal that replays is a hash chain of one run: record \<open>k\<close> has sequence number
  \<open>k + 1\<close>, links to the digest of its predecessor (none for the first), carries the digest of
  its own content, and belongs to the run, authority and epoch of the projection; exactly the
  first record creates the run, and the projection's head is the last record.
\<close>

theorem replay_is_chain:
  assumes "replay cr rs = Inr s" and "k < length rs"
  shows "unat (er_sequence (rs ! k)) = k + 1
    \<and> er_previous_digest (rs ! k) = (if k = 0 then None else Some (er_digest (rs ! (k - 1))))
    \<and> canonical_digest cr (DigestInput (er_sequence (rs ! k)) (er_previous_digest (rs ! k)) (er_event (rs ! k)))
        = Inr (er_digest (rs ! k))
    \<and> re_run_id (er_event (rs ! k)) = rs_run_id s
    \<and> re_authority (er_event (rs ! k)) = rs_authority s
    \<and> re_authority_epoch (er_event (rs ! k)) = rs_authority_epoch s
    \<and> (k = 0 \<longleftrightarrow> (\<exists>goal. re_body (er_event (rs ! k)) = RunCreated goal))
    \<and> rs_journal_sequence s = er_sequence (last rs) \<and> rs_journal_head_digest s = er_digest (last rs)"
  using chain.reachable [OF assms(1)] assms(2) by (auto simp: chained_def link_ok_def verify_digest_iff)

theorem replay_is_chain_witness:
  "er_previous_digest (sample_journal 14 ! 13) = Some (er_digest (sample_journal 14 ! 12))"
  using replay_is_chain [OF sample_14, of 13] by (simp add: sample_journal_def)

text \<open>
  C2. Tamper evidence: two journals that replay to the same head digest are equal record by
  record, unless two different record contents exhibit a collision of the digest (equal SHA-256
  of their canonical forms). The witness has two journals of different length with one head, under a
  hash that is constant, and the collision between their records.
\<close>

theorem same_head_same_journal:
  assumes "replay cr rs = Inr s" and "replay cr rs' = Inr s'"
    and "rs_journal_head_digest s = rs_journal_head_digest s'"
  shows "rs = rs' \<or> (\<exists>r \<in> set rs. \<exists>r' \<in> set rs'. digest_confusion cr (record_input r) (record_input r'))"
  using same_head [OF assms] by (simp add: journal_confusion_def)

theorem same_head_same_journal_witness:
  "\<exists>s s'. replay sample_crypto (sample_journal 12) = Inr s \<and> replay sample_crypto (sample_journal 14) = Inr s'
     \<and> rs_journal_head_digest s = rs_journal_head_digest s' \<and> sample_journal 12 \<noteq> sample_journal 14
     \<and> (\<exists>r \<in> set (sample_journal 12). \<exists>r' \<in> set (sample_journal 14).
          digest_confusion sample_crypto (record_input r) (record_input r'))"
proof -
  have "length (sample_journal 12) \<noteq> length (sample_journal 14)" by (simp add: sample_journal_def)
  then have "sample_journal 12 \<noteq> sample_journal 14" by metis
  then show ?thesis using same_head_same_journal [OF sample_12 sample_14] sample_12 sample_14 by auto
qed

text \<open>
  C3. Writer and reader agree: the record \<open>EventRecord::next\<close> builds on the last record of a
  replayable journal is accepted by replay whenever the event belongs to the run and its body
  applies, and the projection then advances by exactly that body.
\<close>

theorem next_record_replays:
  assumes "replay cr rs = Inr s" and "event_record_next cr (Some (last rs)) ev = Inr r"
    and "re_run_id ev = rs_run_id s" and "re_authority ev = rs_authority s"
    and "re_authority_epoch ev = rs_authority_epoch s" and "apply_body cr s (re_body ev) = Inr s'"
  shows "replay cr (rs @ [r]) = Inr (advance_head r s')"
proof -
  have c: "chained cr rs s" using assms(1) by (rule chain.reachable)
  have r: "checked_add (er_sequence (last rs)) 1 = Some (er_sequence r)"
    "er_previous_digest r = Some (er_digest (last rs))" "er_event r = ev"
    using assms(2) by (auto simp: event_record_next_def result_simps Let_def)
  then have "record_follows cr s r"
    using c assms(3-5) event_record_next_verifies [OF assms(2)]
    by (simp add: record_follows_def chained_def checked_add_Some_iff)
  then show ?thesis
    using assms(1,6) r(3) c by (simp add: chained_def replay_snoc_iff apply_record_Some_iff)
qed

theorem next_record_replays_witness:
  "replay sample_crypto (sample_journal 4 @ [sample_record 5 (EffectIntentCommitted ''a'' sample_intent)])
     = Inr (sample_state 5 (one_step sample_committed) sample_consumed sample_loop1)"
proof -
  let ?ev = "\<lparr>re_event_id = ''e'', re_run_id = ''r'', re_authority = ''u'', re_authority_epoch = 1,
    re_recorded_at = ''t'', re_body = EffectIntentCommitted ''a'' sample_intent\<rparr>"
  have "last (sample_journal 4) = sample_record 4 (sample_bodies ! 3)"
    using sample_journal_Suc [of 3] by simp
  then have built: "event_record_next sample_crypto (Some (last (sample_journal 4))) ?ev
      = Inr (sample_record 5 (EffectIntentCommitted ''a'' sample_intent))"
    by (simp add: event_record_next_def sample_record_def record_digest_def checked_add_def)
  from next_record_replays [OF sample_4 built] show ?thesis
    using sample_committed_ok [of sample_loop1] by (simp add: sample_bodies_def)
qed

section \<open>Effects\<close>

text \<open>
  C4. The effect events of the reducer implement the step machine exactly: an event is applied
  if and only if the machine has the corresponding transition for the step it names (and, for a
  start, the tool-call budget of the run is not exhausted); the result then differs from the old
  projection in that step only.
\<close>

theorem effect_events_refine_machine:
  "apply_effect_lifecycle s body = Inr s' \<longleftrightarrow>
     start_within_budget s body \<and>
     (\<exists>v st st'. bm_get (rs_steps s) v = Some st \<and> lifecycle v body st st' \<and> s' = put_step v st' s)"
  by (rule apply_effect_lifecycle_iff)

text \<open>
  C5. No blind retry: the attempts of a step are the \<open>EffectExecutionStarted\<close> records for it, and
  every start after the first is paid for by a reconciliation that proved the previous attempt
  not applied; a step whose intent is committed has as many starts as such proofs, so it may
  start again, and any other unfinished or finished execution has exactly one more.
\<close>

theorem no_blind_retry:
  assumes "replay cr rs = Inr s" and "bm_get (rs_steps s) v = Some st"
  shows "unat (ss_attempts st) = count_events (starts_effect v) rs
    \<and> count_events (starts_effect v) rs \<le> count_events (clears_retry v) rs + 1
    \<and> (ss_status st = IntentCommitted \<longrightarrow>
         count_events (starts_effect v) rs = count_events (clears_retry v) rs)
    \<and> (ss_status st \<in> {Executing, EffectUnknown, Reconciling, Validating, Completed, Failed} \<longrightarrow>
         count_events (starts_effect v) rs = count_events (clears_retry v) rs + 1)"
proof -
  have "attempts_accounted rs v st" using attempts.reachable [OF assms(1)] assms(2) by blast
  then show ?thesis by (cases "ss_status st") (auto simp: attempts_accounted_def)
qed

theorem no_blind_retry_witness:
  "count_events (starts_effect ''a'') (sample_journal 12) = count_events (clears_retry ''a'') (sample_journal 12) + 1
   \<and> unat (ss_attempts sample_done) = 2"
  using no_blind_retry [OF sample_12, of "''a''" sample_done] by (simp add: sample_step_defs)

text \<open>
  C6. History is append-only: in every later projection of the same journal a step still exists
  with its objective, dependencies and planned invocation, a committed intent is never replaced,
  the attempt counter never decreases, and a completed, failed or manual step never changes again.
\<close>

theorem history_is_append_only:
  assumes "replay cr rs = Inr s" and "replay cr (rs @ ext) = Inr s'" and "bm_get (rs_steps s) v = Some st"
  shows "\<exists>st'. bm_get (rs_steps s') v = Some st'
    \<and> ss_objective st' = ss_objective st \<and> ss_depends_on st' = ss_depends_on st
    \<and> ss_planned_invocation st' = ss_planned_invocation st
    \<and> (\<forall>i. ss_intent st = Some i \<longrightarrow> ss_intent st' = Some i)
    \<and> ss_attempts st \<le> ss_attempts st'
    \<and> (ss_status st \<in> {Completed, Failed, ManualRequired} \<longrightarrow> st' = st)"
  using persist.later [OF assms(1,2)] assms(3)
  by (fastforce simp: run_extends_def step_extends_def terminal_status_def)

theorem history_is_append_only_witness:
  "ss_attempts sample_committed \<le> ss_attempts sample_done \<and> ss_intent sample_done = Some sample_intent"
proof -
  have "sample_journal 12 = sample_journal 5 @ drop 5 (sample_journal 12)"
    using append_take_drop_id [of 5 "sample_journal 12"] by (simp add: sample_journal_take)
  then have "replay sample_crypto (sample_journal 5 @ drop 5 (sample_journal 12))
      = Inr (sample_state 12 (one_step sample_done) sample_consumed sample_loop1)"
    using sample_12 by simp
  from history_is_append_only [OF sample_5 this, of "''a''" sample_committed] show ?thesis
    by (auto simp: sample_step_defs)
qed

section \<open>Authorizations\<close>

text \<open>
  C7. One-shot authorizations: the grant of a committed intent is recorded as consumed exactly
  once, by that intent's effect and with its digest; every recorded consumption belongs to a
  committed intent; and no other step of the run holds the same effect id, the same grant or the
  same semantic action.
\<close>

theorem authorization_is_one_shot:
  assumes "replay cr rs = Inr s" and "intent_of s v = Some i"
  shows "(\<exists>c. bm_get (rs_authorization_consumption s) (grant_of i) = Some c
        \<and> ac_grant_digest c = au_grant_digest (ei_authorization i)
        \<and> ac_max_uses c = 1 \<and> ac_uses c = 1 \<and> bs_list (ac_effect_ids c) = [ei_effect_id i])
    \<and> (\<forall>w j. w \<noteq> v \<longrightarrow> intent_of s w = Some j \<longrightarrow>
         ei_effect_id j \<noteq> ei_effect_id i \<and> grant_of j \<noteq> grant_of i \<and> ei_action_digest j \<noteq> ei_action_digest i)
    \<and> (\<forall>g c. bm_get (rs_authorization_consumption s) g = Some c \<longrightarrow>
         (\<exists>w j. intent_of s w = Some j \<and> grant_of j = g))"
proof -
  have ok: "grants_ok s" using grants.reachable assms(1) by blast
  have grant: "once_authorization_id cr (rs_run_id s) (ei_action_digest j) = Inr (grant_of j)"
    if "intent_of s w = Some j" for w j
  proof -
    from that obtain k where k: "authorized_at cr rs w j k"
      using intent_authorized [OF assms(1)] by blast
    then have "link_ok cr rs s k"
      using chain.reachable [OF assms(1)] by (simp add: chained_def authorized_at_def)
    with k show ?thesis by (simp add: authorized_at_def link_ok_def grant_of_def)
  qed
  have differ: "ei_effect_id j \<noteq> ei_effect_id i \<and> grant_of j \<noteq> grant_of i"
    if "w \<noteq> v" "intent_of s w = Some j" for w j
    using ok that assms(2) unfolding grants_ok_def by blast
  then have "ei_action_digest j \<noteq> ei_action_digest i" if "w \<noteq> v" "intent_of s w = Some j" for w j
    using grant [OF that(2)] grant [OF assms(2)] that by force
  moreover have "bs_list (bs_insert e bs_empty) = [e]" for e :: string
    by (simp add: bs_list_def bs_insert_def bm_keys_def)
  moreover obtain c where "bm_get (rs_authorization_consumption s) (grant_of i) = Some c"
    "ac_grant_digest c = au_grant_digest (ei_authorization i)" "ac_max_uses c = 1" "ac_uses c = 1"
    "ac_effect_ids c = bs_insert (ei_effect_id i) bs_empty"
    using ok assms(2) unfolding grants_ok_def by blast
  moreover have "\<exists>w j. intent_of s w = Some j \<and> grant_of j = g"
    if "bm_get (rs_authorization_consumption s) g = Some c" for g c
    using ok that unfolding grants_ok_def by blast
  ultimately show ?thesis using differ by simp
qed

theorem authorization_is_one_shot_witness:
  "\<exists>c. bm_get sample_consumed sample_grant = Some c \<and> ac_uses c = 1 \<and> bs_list (ac_effect_ids c) = [''e'']"
  using authorization_is_one_shot [OF sample_5, of "''a''" sample_intent]
  by (auto simp: intent_of_def sample_step_defs grant_of_def sample_intent_def)

text \<open>
  C8. An authorization is consumed at the head it was issued for: the intent of a step was
  recorded by an \<open>EffectIntentCommitted\<close> at some position \<open>k > 0\<close> whose authorization binding names
  the run, the step, the authority and epoch, the sequence number \<open>k\<close> and the digest of record
  \<open>k - 1\<close>, whose grant id is the stable id of the run and action, and whose grant digest covers
  the binding.
\<close>

theorem authorization_bound_to_head:
  assumes "replay cr rs = Inr s" and "intent_of s v = Some i"
  shows "\<exists>k. 0 < k \<and> k < length rs \<and> re_body (er_event (rs ! k)) = EffectIntentCommitted v i
    \<and> ab_run_id (au_binding (ei_authorization i)) = rs_run_id s
    \<and> ab_step_id (au_binding (ei_authorization i)) = v
    \<and> ab_authority (au_binding (ei_authorization i)) = rs_authority s
    \<and> ab_authority_epoch (au_binding (ei_authorization i)) = rs_authority_epoch s
    \<and> unat (ab_issued_at_sequence (au_binding (ei_authorization i))) = k
    \<and> ab_issued_at_head_digest (au_binding (ei_authorization i)) = er_digest (rs ! (k - 1))
    \<and> once_authorization_id cr (rs_run_id s) (ei_action_digest i) = Inr (au_grant_id (ei_authorization i))
    \<and> authorization_digest cr (au_binding (ei_authorization i)) 1 = Inr (au_grant_digest (ei_authorization i))"
proof -
  obtain k where k: "authorized_at cr rs v i k"
    using intent_authorized [OF assms] by blast
  then have "link_ok cr rs s k"
    using chain.reachable [OF assms(1)] by (simp add: chained_def authorized_at_def)
  with k show ?thesis by (auto simp: authorized_at_def link_ok_def)
qed

theorem authorization_bound_to_head_witness:
  "\<exists>k. 0 < k \<and> k < length (sample_journal 12)
     \<and> re_body (er_event (sample_journal 12 ! k)) = EffectIntentCommitted ''a'' sample_intent"
  using authorization_bound_to_head [OF sample_12, of "''a''" sample_intent]
  by (auto simp: intent_of_def sample_step_defs)

section \<open>The frontier\<close>

text \<open>
  The frontier of a replayed run always exists: whatever journal was replayed, its dependency
  graph is well formed and acyclic and no step has left \<open>Planned\<close> before its dependencies were
  released, so \<open>derive_frontier\<close> succeeds, for the head of the journal.
\<close>

theorem frontier_of_replayed_run:
  assumes "replay cr rs = Inr s"
  shows "\<exists>f. derive_frontier s = Inr f \<and> wf_journal_head_digest f = er_digest (last rs)
    \<and> unat (wf_journal_sequence f) = length rs"
proof -
  have "graph_ok s" using graph.reachable assms by blast
  then obtain f where f: "derive_frontier s = Inr f" unfolding graph_ok_iff_frontier by blast
  then show ?thesis
    using derive_frontier_spec [OF f] last_verified(2) [OF assms] journal_length(1) [OF assms]
    by (auto simp: frontier_spec_def)
qed

theorem frontier_of_replayed_run_witness:
  "\<exists>f. derive_frontier (sample_state 4 (one_step sample_planned) bm_empty sample_loop1) = Inr f"
  using frontier_of_replayed_run [OF sample_4] by auto

text \<open>
  C10. The frontier is its specification: the traversal succeeds exactly on well-formed acyclic
  graphs whose active steps have released dependencies, and then returns the steps in key order
  within each class: running, uncertain, reconciling, validating, committed and admissible steps
  as actions in this order, waiting and blocked steps with their reasons, and the finished ones.
\<close>

theorem frontier_meets_specification:
  "derive_frontier s = Inr f \<longleftrightarrow>
     graph_wf s \<and> acyclic (dep_edges s) \<and> actives_released s \<and> f = frontier_spec s"
  using derive_frontier_ok_iff [of s] derive_frontier_spec [of s] by auto

text \<open>
  No silent deadlock: when some step waits for a dependency, some step can be acted on.
\<close>

theorem frontier_makes_progress:
  assumes "derive_frontier s = Inr f" and "wf_waiting f \<noteq> []"
  shows "wf_actionable f \<noteq> []"
  using assms by (rule waiting_means_action)

theorem frontier_makes_progress_witness:
  "\<exists>s f. derive_frontier s = Inr f \<and> wf_waiting f \<noteq> [] \<and> wf_actionable f \<noteq> []"
proof -
  let ?s = "put_step ''b'' (new_step ''b'' ''o'' [''a''] None) (sample_state 4 (one_step sample_planned) bm_empty sample_loop1)"
  have "graph_ok (sample_state 4 (one_step sample_planned) bm_empty sample_loop1)"
    using graph.reachable [OF sample_4] by simp
  then have "graph_ok ?s" by (rule graph_ok_new_step) (simp_all add: deps_ok_def)
  then obtain f where f: "derive_frontier ?s = Inr f" unfolding graph_ok_iff_frontier by blast
  have "\<not> released ?s ''a''" "\<not> step_blocked ?s ''a''"
    by (simp_all add: released_def step_blocked_iff [of _ "''a''"] receipt_releases_dependency_def
        sample_planned_def new_step_def)
  then have "''b'' \<in> ws_step_id ` set (wf_waiting (frontier_spec ?s))"
    by (auto simp: frontier_spec_def steps_in_def status_of_def in_bm_keys_iff step_deps_def new_step_def image_image)
  then have "wf_waiting f \<noteq> []" using derive_frontier_spec [OF f] by auto
  from f this frontier_makes_progress [OF f this] show ?thesis by blast
qed

text \<open>
  C12. No internal error: replay never fails with a panic or with one of the counter errors the
  reducer reserves for its own inconsistency, whatever records it is given, and the frontier
  never panics on any projection, replayed or not.
\<close>

theorem no_internal_errors:
  "replay cr rs \<noteq> Inl (RPE_Transition TE_ModelCallCounterInvariant)
   \<and> replay cr rs \<noteq> Inl (RPE_Transition TE_ModelCallCounterOverflow)
   \<and> (\<forall>m. replay cr rs \<noteq> Inl (RPE_Transition (TE_Panic m)))
   \<and> (\<forall>m. derive_frontier s \<noteq> Inl (FE_Panic m))"
  using replay_error [of cr rs] derive_frontier_never_panics [of s] internal_error_simps by blast

section \<open>Receipts, budgets and completion\<close>

text \<open>
  C13. Dependencies are released by receipts only: in a replayed run every dependency of a step
  that has left \<open>Planned\<close> is released, and a released step has in the journal a
  \<open>VerificationRecorded\<close> with a passing verdict for its own effect, whose nonempty receipt id and
  well-formed receipt digest are the ones stored with the step.
\<close>

theorem dependencies_released_by_receipts:
  assumes "replay cr rs = Inr s"
  shows "actives_released s
    \<and> (\<forall>d. released s d \<longrightarrow> (\<exists>st r e rid rdigest. bm_get (rs_steps s) d = Some st \<and> r \<in> set rs
         \<and> re_body (er_event r) = VerificationRecorded d e VerdictPassed rid rdigest
         \<and> map_option ei_effect_id (ss_intent st) = Some e
         \<and> ss_execution_receipt_id st = Some rid \<and> rid \<noteq> []
         \<and> ss_execution_receipt_digest st = Some rdigest \<and> is_sha256_digest rdigest))"
proof (intro conjI allI impI)
  have "graph_ok s" using graph.reachable assms by blast
  then show "actives_released s" by (simp add: graph_ok_def)
next
  fix d
  assume "released s d"
  then obtain st rid rdigest where st: "bm_get (rs_steps s) d = Some st" "ss_status st = Completed"
    "ss_execution_receipt_id st = Some rid" "rid \<noteq> []"
    "ss_execution_receipt_digest st = Some rdigest" "is_sha256_digest rdigest"
    by (auto simp: released_def receipt_releases_dependency_def split: option.splits)
  have "receipt_recorded rs d st"
    using receipts.reachable [OF assms] st(1) by blast
  then obtain r e verdict where "r \<in> set rs" "body_of r = VerificationRecorded d e verdict rid rdigest"
    "holds_effect st e" "ss_status st = (case verdict of VerdictPassed \<Rightarrow> Completed | VerdictFailed \<Rightarrow> Failed
      | VerdictInconclusive \<Rightarrow> ManualRequired)"
    using st(3,5) by (auto simp: receipt_recorded_def)
  moreover from this(4) st(2) have "verdict = VerdictPassed" by (cases verdict) simp_all
  ultimately show "\<exists>st r e rid rdigest. bm_get (rs_steps s) d = Some st \<and> r \<in> set rs
      \<and> body_of r = VerificationRecorded d e VerdictPassed rid rdigest
      \<and> map_option ei_effect_id (ss_intent st) = Some e
      \<and> ss_execution_receipt_id st = Some rid \<and> rid \<noteq> []
      \<and> ss_execution_receipt_digest st = Some rdigest \<and> is_sha256_digest rdigest"
    using st by (auto simp: holds_effect_def)
qed

theorem dependencies_released_by_receipts_witness:
  "\<exists>r \<in> set (sample_journal 12). \<exists>e rid rdigest.
     re_body (er_event r) = VerificationRecorded ''a'' e VerdictPassed rid rdigest"
proof -
  let ?s = "sample_state 12 (one_step sample_done) sample_consumed sample_loop1"
  have "released ?s ''a''"
    by (simp add: released_def receipt_releases_dependency_def sample_step_defs)
  with dependencies_released_by_receipts [OF sample_12] show ?thesis
    by (simp del: sample_state_simps) blast
qed

text \<open>
  C14. Budgets of the agent loop: once a loop is configured, the run never has more planned steps
  than allowed, and the number of effect starts recorded in the whole journal never exceeds the
  tool-call budget.
\<close>

theorem loop_budgets_hold:
  assumes "replay cr rs = Inr s" and "rs_agent_loop s = Some l"
  shows "bm_len (rs_steps s) \<le> unat (alb_max_planned_steps (als_budget l))
    \<and> count_events is_start rs \<le> unat (alb_max_tool_calls (als_budget l))"
proof -
  have "budgets_ok s" using budgets.reachable assms(1) by blast
  then show ?thesis using assms(2) starts.reachable [OF assms(1)] by (simp add: budgets_ok_def)
qed

theorem loop_budgets_hold_witness: "count_events is_start (sample_journal 12) \<le> 2"
  using loop_budgets_hold [OF sample_12] by (simp add: sample_loop_def sample_budget_def)

text \<open>
  Model-call accounting: accepted turns stay within the turn budget and never exceed the
  settled calls; the reserved calls are the settled ones plus the active one if any, stay within
  the call budget and bound the calls that became unknown; an active call was reserved at an
  earlier head, with the current call index and for the next turn, and none is active once a
  completion candidate is recorded.
\<close>

theorem model_calls_accounted:
  assumes "replay cr rs = Inr s" and "rs_agent_loop s = Some l" and "als_model_calls l = Some c"
  shows "als_accepted_model_turns l \<le> alb_max_model_turns (als_budget l)
    \<and> als_accepted_model_turns l \<le> mcl_settled_calls c
    \<and> unat (mcl_reserved_calls c) = unat (mcl_settled_calls c) + (if mcl_active_call c = None then 0 else 1)
    \<and> mcl_reserved_calls c \<le> mcb_max_model_calls (mcl_budget c)
    \<and> mcl_unknown_calls c \<le> mcl_reserved_calls c
    \<and> (\<forall>a. mcl_active_call c = Some a \<longrightarrow>
         unat (mcr_base_sequence (mcs_reservation a)) < length rs
         \<and> mcr_call_index (mcs_reservation a) = mcl_reserved_calls c
         \<and> unat (mcr_turn_index (mcs_reservation a)) = unat (als_accepted_model_turns l) + 1
         \<and> als_completion_candidate l = None)"
proof -
  have "turns_ok s" using turns.reachable assms(1) by blast
  then have "loop_ok (rs_journal_sequence s) l" and "calls_ok (rs_journal_sequence s) l c"
    using assms(2,3) by (simp_all add: turns_ok_def loop_ok_def)
  then show ?thesis
    using journal_length(1) [OF assms(1)]
    by (auto simp: loop_ok_def calls_ok_def word_le_nat_alt split: option.splits)
qed

theorem model_calls_accounted_witness:
  "unat (mcl_reserved_calls (sample_calls 2 1 (Some sample_active)))
     = unat (mcl_settled_calls (sample_calls 2 1 (Some sample_active))) + 1"
  using model_calls_accounted [OF sample_13, of _ "sample_calls 2 1 (Some sample_active)"]
  by (simp add: sample_loop_def sample_calls_def)

text \<open>
  C16. Completion is final: a run with a completion candidate has at least one step, every step is
  completed with a receipt, and no event can add or change a step any more.
\<close>

theorem completion_is_final:
  assumes "replay cr rs = Inr s" and "rs_agent_loop s = Some l" and "als_completion_candidate l = Some c"
  shows "rs_steps s \<noteq> bm_empty
    \<and> (\<forall>v st. bm_get (rs_steps s) v = Some st \<longrightarrow> receipt_releases_dependency st)
    \<and> (\<forall>body s'. apply_body cr s body = Inr s' \<longrightarrow> rs_steps s' = rs_steps s)"
proof -
  have "completion_ok s" using completion.reachable assms(1) by blast
  then have "rs_steps s \<noteq> bm_empty" and rel: "\<forall>v. bm_contains_key (rs_steps s) v \<longrightarrow> released s v"
    using assms(2,3) unfolding completion_ok_def by blast+
  moreover have "receipt_releases_dependency st" if "bm_get (rs_steps s) v = Some st" for v st
    using rel [rule_format, of v] that by (simp add: released_def bm_contains_key_def)
  ultimately show ?thesis using completed_run_frozen [OF assms] by blast
qed

theorem completion_is_final_witness: "receipt_releases_dependency sample_done"
  using completion_is_final [OF sample_14] by (simp add: sample_loop_def)

text \<open>
  Durable tool output: when the intent of a step promises the durable output profile, the
  step is validating or completed only with a well-formed output record digest; and an output
  record is only ever stored under that profile, together with the effect's evidence.
\<close>

theorem tool_output_is_durable:
  assumes "replay cr rs = Inr s" and "bm_get (rs_steps s) v = Some st"
  shows "(step_output_profile st = Some TOOL_OUTPUT_PROFILE_V1 \<and> ss_status st \<in> {Validating, Completed} \<longrightarrow>
       (\<exists>d. ss_output_record_digest st = Some d \<and> is_canonical_sha256 d))
    \<and> (ss_output_record_digest st \<noteq> None \<longrightarrow>
         step_output_profile st = Some TOOL_OUTPUT_PROFILE_V1 \<and> ss_effect_evidence_digest st \<noteq> None)"
proof -
  have "output_durable st" using durable.reachable [OF assms(1)] assms(2) by blast
  then show ?thesis by (auto simp: output_durable_def)
qed

theorem tool_output_is_durable_witness:
  "\<exists>d. ss_output_record_digest sample_done = Some d \<and> is_canonical_sha256 d"
  using tool_output_is_durable [OF sample_12, of "''a''" sample_done]
  by (simp add: step_output_profile_def sample_step_defs)

text \<open>
  C18. Only the accepted plan is executed: the intent of a step that came from an accepted plan
  names the planned capability, contract version, definition, action and input, its provenance
  names the plan and the planned local platform, and its effect semantics fit the planned
  execution profile; the planned invocation itself is valid.
\<close>

theorem intents_follow_the_plan:
  assumes "replay cr rs = Inr s" and "bm_get (rs_steps s) v = Some st"
    and "ss_planned_invocation st = Some b" and "ss_intent st = Some i"
  shows "binding_validate cr b = Inr () \<and> intent_matches_plan b i"
  using agreement.reachable [OF assms(1)] assms(2-) by blast

theorem intents_follow_the_plan_witness: "intent_matches_plan sample_invocation sample_intent"
  using intents_follow_the_plan [OF sample_5, of "''a''" sample_committed sample_invocation sample_intent]
  by (simp add: sample_step_defs)

end
