(* ===== verification/Output_Records.thy ===== *)
theory Output_Records
  imports Planning_Contracts
begin

text \<open>
  The two output sidecars of \<open>crates/xgeny-workgraph/src/lib.rs\<close> (lines 250 to 1148): the final
  summary of a run (\<open>CompletionOutputRecord\<close>) and the observation of a tool
  (\<open>ToolOutputRecord\<close>), with their validators, digests, constructors and verifiers. The
  structural validator of tool output walks an explicit stack; the head of \<open>pending\<close> is the end
  of the Rust vector, the element \<open>pop\<close> takes.
\<close>

definition TOOL_OUTPUT_FORMAT_VERSION :: u32 where
  "TOOL_OUTPUT_FORMAT_VERSION = 1"
definition MAX_TOOL_OUTPUT_CANONICAL_BYTES :: usize where
  "MAX_TOOL_OUTPUT_CANONICAL_BYTES = 1048576"
definition MAX_TOOL_OUTPUT_DEPTH :: usize where
  "MAX_TOOL_OUTPUT_DEPTH = 64"
definition MAX_TOOL_OUTPUT_NODES :: usize where
  "MAX_TOOL_OUTPUT_NODES = 32768"
definition MAX_TOOL_OUTPUT_TEXT_BYTES :: usize where
  "MAX_TOOL_OUTPUT_TEXT_BYTES = MAX_TOOL_OUTPUT_CANONICAL_BYTES"
definition COMPLETION_OUTPUT_FORMAT_VERSION :: u32 where
  "COMPLETION_OUTPUT_FORMAT_VERSION = 1"
definition MAX_COMPLETION_SUMMARY_BYTES :: usize where
  "MAX_COMPLETION_SUMMARY_BYTES = 5000"

section \<open>Completion output\<close>

datatype completion_output_error =
    COE_UnsupportedFormatVersion u32
  | COE_MissingModelCallBinding
  | COE_InvalidSummary
  | COE_SummaryTooLarge
  | COE_BindingMismatch string
  | COE_SummarySizeMismatch
  | COE_SummaryDigestMismatch
  | COE_ProposalDigestMismatch
  | COE_CandidateIdMismatch
  | COE_RecordDigestMismatch
  | COE_Canonicalization
  | COE_PlanningContract planning_contract_error

definition validate_completion_summary_candidate :: "string \<Rightarrow> completion_output_error + unit" where
  "validate_completion_summary_candidate summary =
     and_then (reject_if (summary = [] \<or> any_control (\<lambda>c. c \<noteq> 10 \<and> c \<noteq> 9) summary)
       COE_InvalidSummary) (\<lambda>_.
     reject_if (length summary > MAX_COMPLETION_SUMMARY_BYTES) COE_SummaryTooLarge)"

definition completion_summary_digest :: "crypto \<Rightarrow> string \<Rightarrow> completion_output_error + string" where
  "completion_summary_digest cr summary =
     map_err (\<lambda>_. COE_Canonicalization) (canonical_digest cr
       (CompletionSummaryDigestInput ''xgeny.completion-summary/v1'' summary))"

definition completion_proposal_digest ::
    "crypto \<Rightarrow> string \<Rightarrow> string \<Rightarrow> completion_output_error + string" where
  "completion_proposal_digest cr context_digest summary =
     map_err (\<lambda>_. COE_Canonicalization) (canonical_digest cr
       (CompletionProposalDigestInput ''xgeny.completion-proposal/v1'' context_digest summary))"

definition completion_candidate_id ::
    "crypto \<Rightarrow> string \<Rightarrow> string \<Rightarrow> string \<Rightarrow> completion_output_error + string" where
  "completion_candidate_id cr run_id context_digest proposal_digest =
     and_then (map_err (\<lambda>_. COE_Canonicalization) (canonical_digest cr
         (CompletionCandidateIdDigestInput ''xgeny.completion-candidate-id/v1'' run_id
           context_digest proposal_digest)))
       (\<lambda>digest. Inr (prefixed_id ''completion-'' digest))"

definition completion_output_record_digest ::
    "crypto \<Rightarrow> completion_output_record \<Rightarrow> completion_output_error + string" where
  "completion_output_record_digest cr r =
     map_err (\<lambda>_. COE_Canonicalization) (canonical_digest cr
       (CompletionOutputRecordDigestInput ''xgeny.completion-output.record/v1''
         (cor_format_version r) (cor_candidate_id r) (cor_run_id r) (cor_turn_index r)
         (cor_model_call_id r) (cor_context_digest r) (cor_proposal_digest r)
         (cor_summary_size_bytes r) (cor_summary_digest r)))"

definition completion_verify_for ::
    "crypto \<Rightarrow> completion_output_record \<Rightarrow> string \<Rightarrow> expected_planning_turn \<Rightarrow> string \<Rightarrow> string
      \<Rightarrow> completion_output_error + unit" where
  "completion_verify_for cr r run_id decision candidate_id summary_digest =
     and_then (reject_if (cor_format_version r \<noteq> COMPLETION_OUTPUT_FORMAT_VERSION)
       (COE_UnsupportedFormatVersion (cor_format_version r))) (\<lambda>_.
     and_then (map_err COE_PlanningContract (planning_turn_validate decision)) (\<lambda>_.
     and_then (ok_or COE_MissingModelCallBinding (ept_model_call_id decision)) (\<lambda>model_call_id.
     and_then (map_err COE_PlanningContract (require_planning_identifier ''run_id'' run_id)) (\<lambda>_.
     and_then (map_err COE_PlanningContract
       (require_planning_identifier ''candidate_id'' candidate_id)) (\<lambda>_.
     and_then (map_err COE_PlanningContract
       (require_planning_digest ''summary_digest'' summary_digest)) (\<lambda>_.
     and_then (try_fold (\<lambda>(field, matches) _. reject_if (\<not> matches) (COE_BindingMismatch field))
       [(''run_id'', cor_run_id r = run_id),
        (''candidate_id'', cor_candidate_id r = candidate_id),
        (''turn_index'', cor_turn_index r = ept_turn_index decision),
        (''model_call_id'', cor_model_call_id r = model_call_id),
        (''context_digest'', cor_context_digest r = ept_context_digest decision),
        (''proposal_digest'', cor_proposal_digest r = ept_proposal_digest decision),
        (''summary_digest'', cor_summary_digest r = summary_digest)] ()) (\<lambda>_.
     and_then (validate_completion_summary_candidate (cor_summary r)) (\<lambda>_.
     and_then (ok_or COE_SummaryTooLarge (u64_try_from (length (cor_summary r)))) (\<lambda>summary_size_bytes.
     and_then (reject_if (cor_summary_size_bytes r \<noteq> summary_size_bytes) COE_SummarySizeMismatch) (\<lambda>_.
     and_then (completion_summary_digest cr (cor_summary r)) (\<lambda>expected_summary_digest.
     and_then (reject_if (cor_summary_digest r \<noteq> expected_summary_digest)
       COE_SummaryDigestMismatch) (\<lambda>_.
     and_then (completion_proposal_digest cr (cor_context_digest r) (cor_summary r))
       (\<lambda>expected_proposal_digest.
     and_then (reject_if (cor_proposal_digest r \<noteq> expected_proposal_digest)
       COE_ProposalDigestMismatch) (\<lambda>_.
     and_then (completion_candidate_id cr (cor_run_id r) (cor_context_digest r)
       (cor_proposal_digest r)) (\<lambda>expected_candidate_id.
     and_then (reject_if (cor_candidate_id r \<noteq> expected_candidate_id) COE_CandidateIdMismatch) (\<lambda>_.
     and_then (completion_output_record_digest cr r) (\<lambda>expected_record_digest.
     reject_if (cor_record_digest r \<noteq> expected_record_digest)
       COE_RecordDigestMismatch)))))))))))))))))"

definition completion_new ::
    "crypto \<Rightarrow> string \<Rightarrow> expected_planning_turn \<Rightarrow> string \<Rightarrow> string \<Rightarrow> string
      \<Rightarrow> completion_output_error + completion_output_record" where
  "completion_new cr run_id decision candidate_id summary_digest summary =
     and_then (ok_or COE_MissingModelCallBinding (ept_model_call_id decision)) (\<lambda>model_call_id.
     and_then (ok_or COE_SummaryTooLarge (u64_try_from (length summary))) (\<lambda>summary_size_bytes.
     let r0 = \<lparr>cor_format_version = COMPLETION_OUTPUT_FORMAT_VERSION,
               cor_candidate_id = candidate_id, cor_run_id = run_id,
               cor_turn_index = ept_turn_index decision, cor_model_call_id = model_call_id,
               cor_context_digest = ept_context_digest decision,
               cor_proposal_digest = ept_proposal_digest decision,
               cor_summary_size_bytes = summary_size_bytes,
               cor_summary_digest = summary_digest, cor_summary = summary,
               cor_record_digest = []\<rparr> in
     and_then (completion_output_record_digest cr r0) (\<lambda>record_digest.
     let r1 = r0\<lparr>cor_record_digest := record_digest\<rparr> in
     and_then (completion_verify_for cr r1 (cor_run_id r1) decision (cor_candidate_id r1)
       (cor_summary_digest r1)) (\<lambda>_. Inr r1))))"

definition completion_bind ::
    "crypto \<Rightarrow> string \<Rightarrow> u32 \<Rightarrow> string \<Rightarrow> string \<Rightarrow> string
      \<Rightarrow> completion_output_error + completion_output_record" where
  "completion_bind cr run_id turn_index call_id context_digest summary =
     and_then (validate_completion_summary_candidate summary) (\<lambda>_.
     and_then (map_err COE_PlanningContract (require_planning_identifier ''run_id'' run_id)) (\<lambda>_.
     and_then (map_err COE_PlanningContract
       (require_planning_digest ''context_digest'' context_digest)) (\<lambda>_.
     and_then (completion_proposal_digest cr context_digest summary) (\<lambda>proposal_digest.
     and_then (map_err COE_PlanningContract
       (planning_turn_for_model_call turn_index call_id context_digest proposal_digest)) (\<lambda>decision.
     and_then (completion_candidate_id cr run_id context_digest proposal_digest) (\<lambda>candidate_id.
     and_then (completion_summary_digest cr summary) (\<lambda>summary_digest.
     completion_new cr run_id decision candidate_id summary_digest summary)))))))"

definition completion_decision ::
    "completion_output_record \<Rightarrow> completion_output_error + expected_planning_turn" where
  "completion_decision r =
     map_err COE_PlanningContract (planning_turn_for_model_call (cor_turn_index r)
       (cor_model_call_id r) (cor_context_digest r) (cor_proposal_digest r))"

section \<open>Structural limits of tool output\<close>

datatype tool_output_error =
    TOE_UnsupportedFormatVersion u32
  | TOE_UnsupportedProfile
  | TOE_UnsupportedEffectClass
  | TOE_InvalidIdentity string
  | TOE_InvalidExecutionAttempt
  | TOE_InvalidEvidenceDigest
  | TOE_DepthExceeded
  | TOE_NodeCountExceeded
  | TOE_TextBytesExceeded
  | TOE_CanonicalSizeExceeded
  | TOE_Canonicalization
  | TOE_BindingMismatch string
  | TOE_CanonicalSizeMismatch
  | TOE_OutputDigestMismatch
  | TOE_OutputIdMismatch
  | TOE_RecordDigestMismatch

record validated_tool_output =
  vto_canonical_size_bytes :: u64
  vto_output_digest :: string

definition bounded_tool_output_text_add :: "usize \<Rightarrow> usize \<Rightarrow> tool_output_error + usize" where
  "bounded_tool_output_text_add current added =
     ok_or TOE_TextBytesExceeded
       (option_filter (\<lambda>n. n \<le> MAX_TOOL_OUTPUT_TEXT_BYTES) (usize_checked_add current added))"

definition ensure_tool_output_pending_bound :: "usize \<Rightarrow> usize \<Rightarrow> usize \<Rightarrow> tool_output_error + unit" where
  "ensure_tool_output_pending_bound visited pending children =
     ok_or TOE_NodeCountExceeded
       (map_option (\<lambda>_. ())
         (option_filter (\<lambda>scheduled. scheduled \<le> MAX_TOOL_OUTPUT_NODES)
           (Option.bind (usize_checked_add visited pending)
             (\<lambda>scheduled. usize_checked_add scheduled children))))"

text \<open>One turn of the loop that schedules the members of an object.\<close>

definition schedule_member ::
    "usize \<Rightarrow> string \<times> json \<Rightarrow> usize \<times> (json \<times> usize) list
      \<Rightarrow> tool_output_error + usize \<times> (json \<times> usize) list" where
  "schedule_member child_depth member acc =
     (case (member, acc) of ((key, v), (text_bytes, pending)) \<Rightarrow>
        and_then (bounded_tool_output_text_add text_bytes (length key))
          (\<lambda>text_bytes. Inr (text_bytes, (v, child_depth) # pending)))"

lemma schedule_members:
  "try_fold (schedule_member d) ms (t, p) = Inr (t', p') \<Longrightarrow>
     p' = rev (map (\<lambda>m. (snd m, d)) ms) @ p"
  by (induction ms arbitrary: t p) (auto simp: schedule_member_def result_simps)

lemma schedule_values: "fold (\<lambda>v p. (v, d) # p) vs p = rev (map (\<lambda>v. (v, d)) vs) @ p"
  by (induction vs arbitrary: p) auto

function output_loop :: "(json \<times> usize) list \<Rightarrow> usize \<Rightarrow> usize \<Rightarrow> tool_output_error + unit" where
  "output_loop [] nodes text_bytes = Inr ()"
| "output_loop ((v, depth) # pending) nodes text_bytes =
     and_then (reject_if (depth > MAX_TOOL_OUTPUT_DEPTH) TOE_DepthExceeded) (\<lambda>_.
     and_then (ok_or TOE_NodeCountExceeded
       (option_filter (\<lambda>count. count \<le> MAX_TOOL_OUTPUT_NODES) (usize_checked_add nodes 1))) (\<lambda>nodes.
     case v of
       JString s \<Rightarrow>
         and_then (bounded_tool_output_text_add text_bytes (length s)) (\<lambda>text_bytes.
         output_loop pending nodes text_bytes)
     | JArray vs \<Rightarrow>
         and_then (ensure_tool_output_pending_bound nodes (length pending) (length vs)) (\<lambda>_.
         and_then (ok_or TOE_DepthExceeded (usize_checked_add depth 1)) (\<lambda>child_depth.
         output_loop (fold (\<lambda>v p. (v, child_depth) # p) (rev vs) pending) nodes text_bytes))
     | JObject ms \<Rightarrow>
         and_then (ensure_tool_output_pending_bound nodes (length pending) (length ms)) (\<lambda>_.
         and_then (ok_or TOE_DepthExceeded (usize_checked_add depth 1)) (\<lambda>child_depth.
         and_then (try_fold (schedule_member child_depth) (rev ms) (text_bytes, pending)) (\<lambda>(text_bytes, pending).
         output_loop pending nodes text_bytes)))
     | _ \<Rightarrow> output_loop pending nodes text_bytes))"
  by pat_completeness auto

text \<open>Every turn replaces one value on the stack by its proper parts.\<close>

definition stack_size :: "(json \<times> usize) list \<Rightarrow> nat" where
  "stack_size p = sum_list (map (\<lambda>e. size (fst e)) p) + length p"

lemma stack_size_simps [simp]:
  "stack_size [] = 0"
  "stack_size ((v, d) # p) = Suc (size v + stack_size p)"
  by (simp_all add: stack_size_def)

lemma stack_size_append [simp]: "stack_size (p @ q) = stack_size p + stack_size q"
  by (simp add: stack_size_def)

lemma stack_size_values: "stack_size (map (\<lambda>v. (v, d)) vs) = size_list size vs"
  by (induction vs) (simp_all)

lemma stack_size_members: "stack_size (map (\<lambda>m. (snd m, d)) ms) < Suc (Suc (size_list (size_prod (\<lambda>_. 0) size) ms))"
  by (induction ms) (auto simp: size_prod_simp)

termination output_loop
  by (relation "measure (\<lambda>(p, _, _). stack_size p)")
    (auto simp: schedule_values rev_map stack_size_values stack_size_members dest!: schedule_members)

declare output_loop.simps(2) [simp del]

section \<open>Tool output\<close>

definition validate_tool_output :: "crypto \<Rightarrow> json \<Rightarrow> tool_output_error + validated_tool_output" where
  "validate_tool_output cr v =
     and_then (output_loop [(v, 0)] 0 0) (\<lambda>_.
     and_then (map_err (\<lambda>_. TOE_Canonicalization) (jcs cr (ToolOutputValueInput v))) (\<lambda>canonical.
     and_then (reject_if (length canonical > MAX_TOOL_OUTPUT_CANONICAL_BYTES) TOE_CanonicalSizeExceeded) (\<lambda>_.
     and_then (ok_or TOE_CanonicalSizeExceeded (u64_try_from (length canonical))) (\<lambda>canonical_size_bytes.
     Inr \<lparr>vto_canonical_size_bytes = canonical_size_bytes,
          vto_output_digest = sha256_digest cr canonical\<rparr>))))"

definition validate_tool_output_candidate :: "crypto \<Rightarrow> json \<Rightarrow> tool_output_error + unit" where
  "validate_tool_output_candidate cr v = and_then (validate_tool_output cr v) (\<lambda>_. Inr ())"

definition required_tool_output_provenance :: "effect_intent \<Rightarrow> tool_output_error + receipt_provenance" where
  "required_tool_output_provenance intent =
     and_then (reject_if (ei_effect_class intent \<notin> {ReadOnly, Idempotent, NonIdempotent})
       TOE_UnsupportedEffectClass) (\<lambda>_.
     and_then (ok_or TOE_UnsupportedProfile (ei_receipt_provenance intent)) (\<lambda>provenance.
     and_then (reject_if (rp_profile_version provenance \<noteq> ''xgeny.core-receipt/v2''
         \<or> rp_tool_output_profile provenance \<noteq> Some TOOL_OUTPUT_PROFILE_V1) TOE_UnsupportedProfile) (\<lambda>_.
     and_then (reject_if (rp_plan_id provenance = [] \<or> length (rp_plan_id provenance) > 512
         \<or> has_control (rp_plan_id provenance)) (TOE_InvalidIdentity ''plan_id'')) (\<lambda>_.
     Inr provenance))))"

definition validate_tool_output_identity ::
    "string \<Rightarrow> string \<Rightarrow> effect_intent \<Rightarrow> u32 \<Rightarrow> tool_output_error + unit" where
  "validate_tool_output_identity run_id step_id intent execution_attempt =
     and_then (try_fold (\<lambda>(field, v) _. reject_if (v = [] \<or> length v > 512 \<or> has_control v)
         (TOE_InvalidIdentity field))
       [(''run_id'', run_id), (''step_id'', step_id), (''effect_id'', ei_effect_id intent),
        (''action_digest'', ei_action_digest intent),
        (''capability_id'', ib_capability_id (ei_invocation intent)),
        (''contract_version'', ib_contract_version (ei_invocation intent)),
        (''definition_digest'', ib_definition_digest (ei_invocation intent)),
        (''instance_id'', ib_instance_id (ei_invocation intent)),
        (''instance_binding_digest'', ib_instance_binding_digest (ei_invocation intent))] ()) (\<lambda>_.
     reject_if (execution_attempt = 0) TOE_InvalidExecutionAttempt)"

definition tool_output_id :: "crypto \<Rightarrow> tool_output_record \<Rightarrow> tool_output_error + string" where
  "tool_output_id cr r =
     and_then (map_err (\<lambda>_. TOE_Canonicalization) (canonical_digest cr
         (ToolOutputIdInput ''xgeny.tool-output.id/v1'' (tor_run_id r) (tor_step_id r)
           (tor_effect_id r) (tor_execution_attempt r) (tor_output_digest r))))
       (\<lambda>digest. Inr (prefixed_id ''output-'' digest))"

definition tool_output_record_digest :: "crypto \<Rightarrow> tool_output_record \<Rightarrow> tool_output_error + string" where
  "tool_output_record_digest cr r =
     map_err (\<lambda>_. TOE_Canonicalization) (canonical_digest cr
       (ToolOutputRecordDigestInput ''xgeny.tool-output.record/v1'' (tor_format_version r)
         (tor_output_id r) (tor_run_id r) (tor_step_id r) (tor_effect_id r) (tor_action_digest r)
         (tor_invocation r) (tor_plan_id r) (tor_execution_attempt r) (tor_evidence_digest r)
         (tor_canonical_size_bytes r) (tor_output_digest r)))"

definition tool_output_verify_for ::
    "crypto \<Rightarrow> tool_output_record \<Rightarrow> string \<Rightarrow> string \<Rightarrow> effect_intent \<Rightarrow> u32 \<Rightarrow> string
      \<Rightarrow> tool_output_error + unit" where
  "tool_output_verify_for cr r run_id step_id intent execution_attempt evidence_digest =
     and_then (reject_if (tor_format_version r \<noteq> TOOL_OUTPUT_FORMAT_VERSION)
       (TOE_UnsupportedFormatVersion (tor_format_version r))) (\<lambda>_.
     and_then (required_tool_output_provenance intent) (\<lambda>provenance.
     and_then (validate_tool_output_identity run_id step_id intent execution_attempt) (\<lambda>_.
     and_then (try_fold (\<lambda>(field, matches) _. reject_if (\<not> matches) (TOE_BindingMismatch field))
       [(''run_id'', tor_run_id r = run_id),
        (''step_id'', tor_step_id r = step_id),
        (''effect_id'', tor_effect_id r = ei_effect_id intent),
        (''action_digest'', tor_action_digest r = ei_action_digest intent),
        (''invocation'', tor_invocation r = ei_invocation intent),
        (''plan_id'', tor_plan_id r = rp_plan_id provenance),
        (''execution_attempt'', tor_execution_attempt r = execution_attempt),
        (''evidence_digest'', tor_evidence_digest r = evidence_digest)] ()) (\<lambda>_.
     and_then (reject_if (\<not> is_canonical_sha256 (tor_evidence_digest r)) TOE_InvalidEvidenceDigest) (\<lambda>_.
     and_then (validate_tool_output cr (tor_output r)) (\<lambda>validated.
     and_then (reject_if (tor_canonical_size_bytes r \<noteq> vto_canonical_size_bytes validated)
       TOE_CanonicalSizeMismatch) (\<lambda>_.
     and_then (reject_if (tor_output_digest r \<noteq> vto_output_digest validated)
       TOE_OutputDigestMismatch) (\<lambda>_.
     and_then (tool_output_id cr r) (\<lambda>expected_id.
     and_then (reject_if (tor_output_id r \<noteq> expected_id) TOE_OutputIdMismatch) (\<lambda>_.
     and_then (tool_output_record_digest cr r) (\<lambda>expected_digest.
     reject_if (tor_record_digest r \<noteq> expected_digest) TOE_RecordDigestMismatch)))))))))))"

definition tool_output_new ::
    "crypto \<Rightarrow> string \<Rightarrow> string \<Rightarrow> effect_intent \<Rightarrow> u32 \<Rightarrow> string \<Rightarrow> json
      \<Rightarrow> tool_output_error + tool_output_record" where
  "tool_output_new cr run_id step_id intent execution_attempt evidence_digest v =
     and_then (required_tool_output_provenance intent) (\<lambda>provenance.
     and_then (validate_tool_output_identity run_id step_id intent execution_attempt) (\<lambda>_.
     and_then (reject_if (\<not> is_canonical_sha256 evidence_digest) TOE_InvalidEvidenceDigest) (\<lambda>_.
     and_then (validate_tool_output cr v) (\<lambda>validated.
     let r0 = \<lparr>tor_format_version = TOOL_OUTPUT_FORMAT_VERSION, tor_output_id = [],
               tor_run_id = run_id, tor_step_id = step_id, tor_effect_id = ei_effect_id intent,
               tor_action_digest = ei_action_digest intent, tor_invocation = ei_invocation intent,
               tor_plan_id = rp_plan_id provenance, tor_execution_attempt = execution_attempt,
               tor_evidence_digest = evidence_digest,
               tor_canonical_size_bytes = vto_canonical_size_bytes validated,
               tor_output_digest = vto_output_digest validated, tor_output = v,
               tor_record_digest = []\<rparr> in
     and_then (tool_output_id cr r0) (\<lambda>output_id.
     let r1 = r0\<lparr>tor_output_id := output_id\<rparr> in
     and_then (tool_output_record_digest cr r1) (\<lambda>record_digest.
     let r2 = r1\<lparr>tor_record_digest := record_digest\<rparr> in
     and_then (tool_output_verify_for cr r2 (tor_run_id r2) (tor_step_id r2) intent
       execution_attempt evidence_digest) (\<lambda>_. Inr r2)))))))"

end
