(* ===== verification/Contract_Correctness.thy ===== *)
theory Contract_Correctness
  imports Sample_Crypto
begin

text \<open>
  Round trips of the planning contracts: the verifiers accept exactly what the constructors
  build, the constructors fail on no valid input unless canonicalization fails, and what a
  verifier accepts is determined by its digests up to a digest collision. The one fact used of
  SHA-256 is the length of its output.
\<close>

section \<open>Identifiers made of digests\<close>

lemma hex_printable:
  assumes "b \<in> set (concat (map hex_byte xs))"
  shows "32 \<le> byte_val b \<and> byte_val b < 127" and "identifier_byte b" and "is_ascii_digit b \<or> in_a_to_f b"
proof -
  have lower: "is_lower_hex b"
    using lower_hex_bytes [of xs] assms by (simp only: list_all_iff)
  then show "is_ascii_digit b \<or> in_a_to_f b" by (simp add: is_lower_hex_def)
  with lower show "32 \<le> byte_val b \<and> byte_val b < 127" "identifier_byte b"
    by (auto simp: is_ascii_digit_def in_a_to_f_def identifier_byte_def is_ascii_alphanumeric_def
        is_ascii_lowercase_def)
qed

definition hex_id :: "string \<Rightarrow> string \<Rightarrow> string" where
  "hex_id p bytes = p @ concat (map hex_byte bytes)"

lemma canonical_prefixed:
  "canonical_digest cr i = Inr d \<Longrightarrow> \<exists>c. jcs cr i = Inr c \<and> prefixed_id p d = hex_id p (sha256 cr c)"
  by (auto simp: canonical_digest_def result_simps prefixed_id_sha256 hex_id_def)

lemma length_hex_id: "length bytes = 32 \<Longrightarrow> length (hex_id p bytes) = length p + 64"
  by (simp add: hex_id_def length_hex_bytes del: append.simps)

lemma hex_id_no_control:
  assumes "\<forall>b \<in> set p. 32 \<le> byte_val b \<and> byte_val b < 127"
  shows "\<not> has_control (hex_id p bytes)"
proof (rule printable_no_control, rule ballI)
  fix b
  assume "b \<in> set (hex_id p bytes)"
  then have "b \<in> set p \<or> b \<in> set (concat (map hex_byte bytes))"
    by (simp only: hex_id_def set_append Un_iff)
  then show "32 \<le> byte_val b \<and> byte_val b < 127"
    using assms hex_printable(1) [of b bytes] by blast
qed

lemma prefix_bytes:
  "list_all identifier_byte ''model-call-''"
  "\<forall>b \<in> set ''plan-''. 32 \<le> byte_val b \<and> byte_val b < 127"
  by (simp_all add: identifier_byte_def is_ascii_alphanumeric_def is_ascii_lowercase_def byte_val_def)

lemma model_call_hex_id:
  assumes "length bytes = 32"
  shows "require_model_call_id f (hex_id ''model-call-'' bytes) = Inr ()"
proof -
  have "list_all identifier_byte (hex_id ''model-call-'' bytes)"
    using prefix_bytes(1) hex_printable(2) by (auto simp: hex_id_def list_all_iff simp del: append.simps)
  moreover have "list_all (\<lambda>b. is_ascii_digit b \<or> in_a_to_f b) (concat (map hex_byte bytes))"
    using hex_printable(3) by (auto simp: list_all_iff)
  moreover have "strip_prefix ''model-call-'' (hex_id ''model-call-'' bytes) = Some (concat (map hex_byte bytes))"
    unfolding hex_id_def by (rule strip_prefix_append)
  moreover have "hex_id ''model-call-'' bytes \<noteq> []" "length (hex_id ''model-call-'' bytes) = 75"
    using length_hex_id [OF assms, of "''model-call-''"] by auto
  ultimately show ?thesis
    using assms by (simp add: require_model_call_id_def require_model_call_identifier_def length_hex_bytes)
qed

lemma plan_hex_id:
  assumes "length bytes = 32"
  shows "require_planning_identifier f (hex_id ''plan-'' bytes) = Inr ()"
proof -
  have "length (hex_id ''plan-'' bytes) = 69" "hex_id ''plan-'' bytes \<noteq> []"
    using length_hex_id [OF assms, of "''plan-''"] by auto
  then show ?thesis
    using hex_id_no_control [OF prefix_bytes(2)] by (simp add: require_planning_identifier_def)
qed

section \<open>Model-call reservations\<close>

lemma model_call_id_shape:
  assumes "\<And>v. length (sha256 cr v) = 32"
    and "model_call_id cr run epoch p ci ti bs bh cd rd = Inr x"
  shows "require_model_call_id f x = Inr ()"
proof -
  from assms(2) obtain i d where "canonical_digest cr i = Inr d" "x = prefixed_id ''model-call-'' d"
    by (auto simp: model_call_id_def result_simps)
  then obtain c where "x = hex_id ''model-call-'' (sha256 cr c)"
    using canonical_prefixed [of cr i d "''model-call-''"] by auto
  then show ?thesis using model_call_hex_id assms(1) by simp
qed

lemma reservation_validate_iff:
  assumes "\<And>v. length (sha256 cr v) = 32"
  shows "reservation_validate_for cr r run epoch = Inr () \<longleftrightarrow>
    reservation_new cr run epoch (mcr_planner_id r) (mcr_call_index r) (mcr_turn_index r)
      (mcr_base_sequence r) (mcr_base_head_digest r) (mcr_context_digest r) (mcr_request_digest r) = Inr r"
proof
  assume "reservation_validate_for cr r run epoch = Inr ()"
  then show "reservation_new cr run epoch (mcr_planner_id r) (mcr_call_index r) (mcr_turn_index r)
      (mcr_base_sequence r) (mcr_base_head_digest r) (mcr_context_digest r) (mcr_request_digest r) = Inr r"
    by (auto simp: reservation_validate_for_def reservation_new_def result_simps)
next
  assume new: "reservation_new cr run epoch (mcr_planner_id r) (mcr_call_index r) (mcr_turn_index r)
      (mcr_base_sequence r) (mcr_base_head_digest r) (mcr_context_digest r) (mcr_request_digest r) = Inr r"
  then obtain x where x: "model_call_id cr run epoch (mcr_planner_id r) (mcr_call_index r) (mcr_turn_index r)
      (mcr_base_sequence r) (mcr_base_head_digest r) (mcr_context_digest r) (mcr_request_digest r) = Inr x"
    by (auto simp: reservation_new_def result_simps)
  moreover have "mcr_call_id r = x" "mcr_format_version r = MODEL_CALL_FORMAT_VERSION"
    using new x by (cases r, auto simp: reservation_new_def result_simps)+
  ultimately show "reservation_validate_for cr r run epoch = Inr ()"
    using new model_call_id_shape [OF assms x]
    by (auto simp: reservation_validate_for_def reservation_new_def result_simps)
qed

lemma hex_id_inject: "hex_id p xs = hex_id p ys \<Longrightarrow> xs = ys"
  unfolding hex_id_def using hex_bytes_inject by (simp only: same_append_eq)

lemma prefixed_digest_eq:
  assumes "canonical_digest cr i = Inr d" and "canonical_digest cr j = Inr e"
    and "prefixed_id p d = prefixed_id p e"
  shows "i = j \<or> digest_confusion cr i j"
proof -
  obtain c where c: "jcs cr i = Inr c" "prefixed_id p d = hex_id p (sha256 cr c)"
    using canonical_prefixed [OF assms(1)] by blast
  obtain c' where c': "jcs cr j = Inr c'" "prefixed_id p e = hex_id p (sha256 cr c')"
    using canonical_prefixed [OF assms(2)] by blast
  have "hex_id p (sha256 cr c) = hex_id p (sha256 cr c')"
    using assms(3) unfolding c(2) c'(2) .
  then have "sha256 cr c = sha256 cr c'" by (rule hex_id_inject)
  then show ?thesis using c(1) c'(1) unfolding digest_confusion_def by blast
qed

text \<open>What the identifier of a reservation made for a run and an authority epoch digests.\<close>

definition reservation_input :: "string \<Rightarrow> u64 \<Rightarrow> model_call_reservation \<Rightarrow> digest_input" where
  "reservation_input run epoch r =
     ModelCallIdDigestInput ''xgeny.model-call.id/v1'' MODEL_CALL_FORMAT_VERSION run epoch (mcr_planner_id r)
       (mcr_call_index r) (mcr_turn_index r) (mcr_base_sequence r) (mcr_base_head_digest r)
       (mcr_context_digest r) (mcr_request_digest r)"

lemma reservation_verified:
  assumes "reservation_validate_for cr r run epoch = Inr ()"
  shows "\<exists>d. canonical_digest cr (reservation_input run epoch r) = Inr d \<and> mcr_call_id r = prefixed_id ''model-call-'' d"
    and "mcr_format_version r = MODEL_CALL_FORMAT_VERSION"
  using assms by (auto simp: reservation_validate_for_def model_call_id_def reservation_input_def result_simps)

section \<open>Planned invocations\<close>

lemma spec_digest_shape:
  assumes "\<And>v. length (sha256 cr v) = 32" and "planned_invocation_spec_digest cr s = Inr d"
  shows "is_sha256_digest d"
  using assms canonical_digest_shape by (auto simp: planned_invocation_spec_digest_def result_simps)

lemma record_digest_shape:
  assumes "\<And>v. length (sha256 cr v) = 32" and "planned_invocation_material_record_digest cr r = Inr d"
  shows "is_sha256_digest d"
  using assms canonical_digest_shape by (auto simp: planned_invocation_material_record_digest_def result_simps)

lemma plan_id_shape:
  assumes "\<And>v. length (sha256 cr v) = 32" and "planned_invocation_id cr run step pd sd = Inr x"
  shows "require_planning_identifier f x = Inr ()"
proof -
  from assms(2) obtain i d where "canonical_digest cr i = Inr d" "x = prefixed_id ''plan-'' d"
    by (auto simp: planned_invocation_id_def result_simps)
  then obtain c where "x = hex_id ''plan-'' (sha256 cr c)"
    using canonical_prefixed [of cr i d "''plan-''"] by auto
  then show ?thesis using plan_hex_id assms(1) by simp
qed

lemma canonical_total:
  assumes "\<And>i. \<exists>c. jcs cr i = Inr c"
  shows "\<exists>d. canonical_digest cr i = Inr d"
  using assms [of i] by (auto simp: canonical_digest_def)

lemma digests_total:
  assumes "\<And>i. \<exists>c. jcs cr i = Inr c"
  shows "\<exists>x. planned_invocation_spec_digest cr spec = Inr x"
    and "\<exists>x. planned_invocation_id cr run step pd sd = Inr x"
    and "\<exists>x. planned_invocation_material_record_digest cr pr = Inr x"
    and "\<exists>x. invocation_material_id cr run eid d = Inr x"
    and "\<exists>x. invocation_material_record_digest cr mr = Inr x"
    and "\<exists>x. invocation_material_retention_digest cr ret = Inr x"
  by (simp_all add: planned_invocation_spec_digest_def planned_invocation_id_def
      planned_invocation_material_record_digest_def invocation_material_id_def
      invocation_material_record_digest_def invocation_material_retention_digest_def result_simps
      canonical_total [OF assms])

definition planned_inputs_ok ::
    "string \<Rightarrow> string \<Rightarrow> string \<Rightarrow> planned_invocation_spec \<Rightarrow> reconstructable_material_reference \<Rightarrow> bool" where
  "planned_inputs_ok run step pd spec ref \<longleftrightarrow>
     require_planning_identifier ''run_id'' run = Inr ()
     \<and> require_planning_identifier ''step_id'' step = Inr ()
     \<and> require_planning_digest ''proposal_digest'' pd = Inr ()
     \<and> spec_validate spec = Inr () \<and> reference_validate ref = Inr ()"

lemma material_bind_complete:
  assumes sha: "\<And>v. length (sha256 cr v) = 32" and jcs: "\<And>i. \<exists>c. jcs cr i = Inr c"
    and ok: "planned_inputs_ok run step pd spec ref"
  shows "\<exists>b r. material_bind cr run step pd spec ref = Inr (b, r)"
proof -
  obtain sd where sd: "planned_invocation_spec_digest cr spec = Inr sd"
    using digests_total [OF jcs] by blast
  obtain pid where pid: "planned_invocation_id cr run step pd sd = Inr pid"
    using digests_total [OF jcs] by blast
  let ?r0 = "\<lparr>pimr_format_version = PLANNED_INVOCATION_FORMAT_VERSION, pimr_run_id = run, pimr_step_id = step,
    pimr_plan_id = pid, pimr_proposal_digest = pd, pimr_spec_digest = sd, pimr_reference = ref,
    pimr_record_digest = []\<rparr>"
  obtain rd where rd: "planned_invocation_material_record_digest cr ?r0 = Inr rd"
    using digests_total [OF jcs] by blast
  have rd': "planned_invocation_material_record_digest cr (?r0\<lparr>pimr_record_digest := rd\<rparr>) = Inr rd"
    using rd by (simp add: planned_invocation_material_record_digest_def)
  let ?b = "\<lparr>pib_format_version = PLANNED_INVOCATION_FORMAT_VERSION, pib_plan_id = pid,
    pib_proposal_digest = pd, pib_capability_id = pis_capability_id spec,
    pib_contract_version = pis_contract_version spec, pib_definition_digest = pis_definition_digest spec,
    pib_action_digest = pis_action_digest spec, pib_plan_input_digest = pis_plan_input_digest spec,
    pib_execution_profile = pis_execution_profile spec, pib_target_os = pis_target_os spec,
    pib_target_arch = pis_target_arch spec, pib_spec_digest = sd, pib_plan_input_record_digest = rd\<rparr>"
  have spec: "binding_as_spec ?b = spec" by (simp add: binding_as_spec_def)
  have "binding_validate cr ?b = Inr ()"
    using ok sd spec spec_digest_shape [OF sha sd] record_digest_shape [OF sha rd] plan_id_shape [OF sha pid]
    by (simp add: binding_validate_def planned_inputs_ok_def require_planning_digest_def)
  then have "material_verify_for cr (?r0\<lparr>pimr_record_digest := rd\<rparr>) run step ?b = Inr ()"
    using ok pid rd' by (simp add: material_verify_for_def planned_inputs_ok_def)
  then show ?thesis
    using ok sd pid rd by (simp add: material_bind_def planned_inputs_ok_def Let_def)
qed

lemma material_bind_sound:
  assumes "material_bind cr run step pd spec ref = Inr (b, r)"
  shows "planned_inputs_ok run step pd spec ref" and "material_verify_for cr r run step b = Inr ()"
    and "binding_as_spec b = spec" and "pimr_reference r = ref" and "pib_proposal_digest b = pd"
    and "pimr_run_id r = run" and "pimr_step_id r = step"
  using assms by (auto simp: material_bind_def planned_inputs_ok_def binding_as_spec_def result_simps Let_def)

text \<open>What the record digest of a planned-invocation sidecar covers: every field but itself.\<close>

definition planned_material_input :: "planned_invocation_material_record \<Rightarrow> digest_input" where
  "planned_material_input r =
     PlannedInvocationMaterialRecordDigestInput ''xgeny.planned-invocation.material-record/v1''
       (pimr_format_version r) (pimr_run_id r) (pimr_step_id r) (pimr_plan_id r)
       (pimr_proposal_digest r) (pimr_spec_digest r) (pimr_reference r)"

lemma material_verified:
  assumes "material_verify_for cr r run step b = Inr ()"
  shows "canonical_digest cr (planned_material_input r) = Inr (pib_plan_input_record_digest b)"
    and "pimr_record_digest r = pib_plan_input_record_digest b"
  using assms
  by (auto simp: material_verify_for_def planned_invocation_material_record_digest_def
      planned_material_input_def result_simps)

section \<open>Material records of intents\<close>

lemma shape_check_iff:
  "try_fold (\<lambda>(field, v) _. reject_if (v = []) (IME_EmptyField field)) fs () = Inr () \<longleftrightarrow> (\<forall>(f, v) \<in> set fs. v \<noteq> [])"
  by (induction fs) (auto simp: result_simps)

lemma material_record_new_iff:
  assumes jcs: "\<And>i. \<exists>c. jcs cr i = Inr c"
  shows "(\<exists>r. material_record_new cr run step i d ret = Inr r) \<longleftrightarrow>
    run \<noteq> [] \<and> step \<noteq> [] \<and> ei_effect_id i \<noteq> [] \<and> ei_action_digest i \<noteq> [] \<and> d \<noteq> []
    \<and> (\<forall>ref. ret = ReconstructableReference ref \<longrightarrow> reference_validate ref = Inr ())
    \<and> ab_material_digest (au_binding (ei_authorization i)) = d
    \<and> invocation_material_retention_digest cr ret = Inr (ab_material_retention_digest (au_binding (ei_authorization i)))"
proof -
  obtain mid where mid: "invocation_material_id cr run (ei_effect_id i) d = Inr mid"
    using digests_total [OF jcs] by blast
  let ?r1 = "\<lparr>imr_format_version = INVOCATION_MATERIAL_FORMAT_VERSION, imr_material_id = mid,
    imr_run_id = run, imr_step_id = step, imr_effect_id = ei_effect_id i, imr_action_digest = ei_action_digest i,
    imr_invocation = ei_invocation i, imr_material_digest = d, imr_retention = ret, imr_record_digest = []\<rparr>"
  obtain rd where rd: "invocation_material_record_digest cr ?r1 = Inr rd"
    using digests_total [OF jcs] by blast
  have rd': "invocation_material_record_digest cr (?r1\<lparr>imr_record_digest := rd\<rparr>) = Inr rd"
    using rd by (simp add: invocation_material_record_digest_def)
  obtain rt where rt: "invocation_material_retention_digest cr ret = Inr rt"
    using digests_total [OF jcs] by blast
  show ?thesis
    using mid rd rd' rt
    by (cases ret) (auto simp: material_record_new_def material_record_verify_for_def
        material_record_validate_shape_def shape_check_iff result_simps Let_def)
qed

section \<open>Properties\<close>

text \<open>
  The verifier of a model-call reservation and its constructor agree exactly: for a SHA-256
  of 32 bytes, \<open>validate_for\<close> accepts a reservation for a run and an authority epoch if and only
  if it is the reservation that \<open>new\<close> builds from its own planner, indices, base head and digests.
  So no reservation is accepted that \<open>new\<close> would not have issued, with another call id or format
  version, and none that \<open>new\<close> issued is refused.
\<close>

theorem reservation_verifier_exact:
  assumes "\<And>v. length (sha256 cr v) = 32"
  shows "reservation_validate_for cr r run epoch = Inr () \<longleftrightarrow>
    reservation_new cr run epoch (mcr_planner_id r) (mcr_call_index r) (mcr_turn_index r)
      (mcr_base_sequence r) (mcr_base_head_digest r) (mcr_context_digest r) (mcr_request_digest r) = Inr r"
  using reservation_validate_iff [OF assms] .

theorem reservation_verifier_exact_witness:
  "reservation_new sample_crypto ''r'' 1 ''p'' 2 2 12 sample_digest sample_digest sample_digest
     = Inr sample_reservation \<and> reservation_validate_for sample_crypto sample_reservation ''r'' 1 = Inr ()"
proof -
  have "reservation_new sample_crypto ''r'' 1 ''p'' 2 2 12 sample_digest sample_digest sample_digest
     = Inr sample_reservation"
    by (simp add: reservation_new_def model_call_id_def identifier_ok require_model_call_identifier_def
        identifier_byte_def is_ascii_alphanumeric_def is_ascii_lowercase_def byte_val_def
        require_planning_digest_def sample_reservation_def MODEL_CALL_FORMAT_VERSION_def sample_call_id_def
        del: append.simps)
  then show ?thesis
    using reservation_verifier_exact [of sample_crypto sample_reservation "''r''" 1]
    by (simp add: sample_sha sample_reservation_def)
qed

text \<open>
  A model-call id identifies the call: if two reservations that verify, each for its own run
  and authority epoch, carry the same call id, then run, epoch, planner, call and turn index, base
  head, context and request all agree and the reservations are equal, unless the two concrete
  id inputs exhibit a digest confusion (equal canonical bytes or equal hashes of different inputs).
\<close>

theorem call_id_identifies_reservation:
  assumes "reservation_validate_for cr r run epoch = Inr ()"
    and "reservation_validate_for cr r' run' epoch' = Inr ()"
    and "mcr_call_id r = mcr_call_id r'"
  shows "run = run' \<and> epoch = epoch' \<and> r = r'
    \<or> digest_confusion cr (reservation_input run epoch r) (reservation_input run' epoch' r')"
proof -
  obtain d e where d: "canonical_digest cr (reservation_input run epoch r) = Inr d"
    and e: "canonical_digest cr (reservation_input run' epoch' r') = Inr e"
    and eq: "mcr_call_id r = prefixed_id ''model-call-'' d" "mcr_call_id r' = prefixed_id ''model-call-'' e"
    using reservation_verified(1) [OF assms(1)] reservation_verified(1) [OF assms(2)] by blast
  have "prefixed_id ''model-call-'' d = prefixed_id ''model-call-'' e"
    using assms(3) unfolding eq .
  then have "reservation_input run epoch r = reservation_input run' epoch' r' \<or>
      digest_confusion cr (reservation_input run epoch r) (reservation_input run' epoch' r')"
    by (rule prefixed_digest_eq [OF d e])
  then show ?thesis
    using reservation_verified(2) [OF assms(1)] reservation_verified(2) [OF assms(2)] assms(3)
    by (cases r; cases r') (auto simp: reservation_input_def)
qed

theorem call_id_identifies_reservation_witness:
  "digest_confusion sample_crypto (reservation_input ''r'' 1 sample_reservation) (reservation_input ''r'' 2 sample_reservation)"
  using call_id_identifies_reservation [OF sample_reservation_verifies [of 1] sample_reservation_verifies [of 2] refl] by simp

text \<open>
  C21. \<open>PlannedInvocationMaterialRecord::bind\<close> is complete and sound: for a canonicalizer that
  does not fail and a SHA-256 of 32 bytes it returns a binding and a sidecar record exactly when
  run id, step id, proposal digest, spec and reference are each valid, the record then verifies
  for that run, step and binding, and the binding gives back the spec. The internal verification
  of \<open>bind\<close> can therefore never be the step that fails.
\<close>

theorem planned_material_round_trip:
  assumes "\<And>v. length (sha256 cr v) = 32" and "\<And>i. \<exists>c. jcs cr i = Inr c"
  shows "(\<exists>b r. material_bind cr run step pd spec ref = Inr (b, r)
      \<and> material_verify_for cr r run step b = Inr () \<and> binding_as_spec b = spec
      \<and> pib_proposal_digest b = pd \<and> pimr_reference r = ref) \<longleftrightarrow>
    require_planning_identifier ''run_id'' run = Inr ()
    \<and> require_planning_identifier ''step_id'' step = Inr ()
    \<and> require_planning_digest ''proposal_digest'' pd = Inr ()
    \<and> spec_validate spec = Inr () \<and> reference_validate ref = Inr ()"
  using material_bind_complete [OF assms, of run step pd spec ref] material_bind_sound
  unfolding planned_inputs_ok_def by metis

theorem planned_material_round_trip_witness:
  "\<exists>b r. material_bind sample_crypto ''r'' ''a'' sample_digest (binding_as_spec sample_invocation) sample_reference
     = Inr (b, r) \<and> material_verify_for sample_crypto r ''r'' ''a'' b = Inr ()"
  using planned_material_round_trip [of sample_crypto "''r''" "''a''" sample_digest
      "binding_as_spec sample_invocation" sample_reference]
  by (auto simp: sample_sha sample_jcs identifier_ok require_planning_digest_def sample_spec_ok sample_reference_ok)

text \<open>
  The accepted binding pins its sidecar: two sidecar records that verify against the same
  binding, whatever run and step they are verified for, are the same record, unless the two
  record inputs exhibit a digest confusion. A sidecar cannot be exchanged under a plan that has
  been accepted.
\<close>

theorem sidecar_is_pinned:
  assumes "material_verify_for cr r run step b = Inr ()" and "material_verify_for cr r' run' step' b = Inr ()"
  shows "r = r' \<or> digest_confusion cr (planned_material_input r) (planned_material_input r')"
proof -
  have "planned_material_input r = planned_material_input r'
      \<or> digest_confusion cr (planned_material_input r) (planned_material_input r')"
    using material_verified(1) [OF assms(1)] material_verified(1) [OF assms(2)] by (rule canonical_digest_eq)
  then show ?thesis
    using material_verified(2) [OF assms(1)] material_verified(2) [OF assms(2)]
    by (cases r; cases r') (auto simp: planned_material_input_def)
qed

text \<open>
  \<open>InvocationMaterialRecord::new\<close> succeeds exactly when the run, step, effect, action and
  material identifiers are non-empty, a reconstructable reference is well formed, the
  authorization of the intent binds this very material digest, and it binds the digest of the
  requested retention. (The canonicalizer is assumed not to fail.)
\<close>

theorem intent_material_exact:
  assumes "\<And>i. \<exists>c. jcs cr i = Inr c"
  shows "(\<exists>r. material_record_new cr run step i d ret = Inr r) \<longleftrightarrow>
    run \<noteq> [] \<and> step \<noteq> [] \<and> ei_effect_id i \<noteq> [] \<and> ei_action_digest i \<noteq> [] \<and> d \<noteq> []
    \<and> (\<forall>ref. ret = ReconstructableReference ref \<longrightarrow> reference_validate ref = Inr ())
    \<and> ab_material_digest (au_binding (ei_authorization i)) = d
    \<and> invocation_material_retention_digest cr ret = Inr (ab_material_retention_digest (au_binding (ei_authorization i)))"
  using material_record_new_iff [OF assms] .

theorem intent_material_exact_witness:
  "\<exists>r. material_record_new sample_crypto ''r'' ''a'' sample_intent sample_digest Ephemeral = Inr r"
  using intent_material_exact [of sample_crypto "''r''" "''a''" sample_intent sample_digest Ephemeral]
  by (simp add: sample_jcs sample_intent_def sample_digest_def invocation_material_retention_digest_def
      del: append.simps)

end
