(* ===== verification/Output_Correctness.thy ===== *)
theory Output_Correctness
  imports Output_Records Contract_Correctness
begin

text \<open>
  What the output sidecars promise: the stack walk of the tool-output validator accepts exactly
  the values whose nesting depth, node count and text size, computed by structural recursion, are
  within the limits; the verifiers accept exactly what the constructors build; and a completion
  record exists for every valid summary and call context.
\<close>

section \<open>The measures of a JSON value\<close>

lemma json_sub_size [termination_simp]:
  "v \<in> set vs \<Longrightarrow> size v < Suc (size_list size vs)"
  "(k, v) \<in> set ms \<Longrightarrow> size v < Suc (size_list (size_prod (\<lambda>_. 0) size) ms)"
  by (induction vs, auto) (induction ms, auto)

fun json_depth :: "json \<Rightarrow> nat" where
  "json_depth (JArray vs) = foldr max (map (\<lambda>v. Suc (json_depth v)) vs) 0"
| "json_depth (JObject ms) = foldr max (map (\<lambda>(k, v). Suc (json_depth v)) ms) 0"
| "json_depth _ = 0"

fun json_nodes :: "json \<Rightarrow> nat" where
  "json_nodes (JArray vs) = Suc (sum_list (map json_nodes vs))"
| "json_nodes (JObject ms) = Suc (sum_list (map (\<lambda>(k, v). json_nodes v) ms))"
| "json_nodes _ = 1"

fun json_text :: "json \<Rightarrow> nat" where
  "json_text (JString s) = length s"
| "json_text (JArray vs) = sum_list (map json_text vs)"
| "json_text (JObject ms) = sum_list (map (\<lambda>(k, v). length k + json_text v) ms)"
| "json_text _ = 0"

lemma json_nodes_pos: "0 < json_nodes v"
  by (cases v) auto

lemma nodes_of_list: "length vs \<le> sum_list (map (json_nodes \<circ> f) vs)"
proof (induction vs)
  case (Cons v vs)
  have "0 < json_nodes (f v)" by (rule json_nodes_pos)
  then show ?case using Cons.IH by simp
qed simp

lemma depth_of_list:
  "d + foldr max (map (\<lambda>x. Suc (f x)) xs) 0 \<le> m \<longleftrightarrow> d \<le> m \<and> (\<forall>x \<in> set xs. Suc d + f x \<le> m)"
  by (induction xs) (auto simp: max_def)

section \<open>The stack walk\<close>

lemma bounded_text_iff:
  "bounded_tool_output_text_add t k = Inr u \<longleftrightarrow> u = t + k \<and> u \<le> MAX_TOOL_OUTPUT_TEXT_BYTES"
  by (auto simp: bounded_tool_output_text_add_def result_simps usize_checked_add_def
      MAX_TOOL_OUTPUT_TEXT_BYTES_def MAX_TOOL_OUTPUT_CANONICAL_BYTES_def)

lemma pending_bound_iff:
  "ensure_tool_output_pending_bound n p c = Inr u \<longleftrightarrow> n + p + c \<le> MAX_TOOL_OUTPUT_NODES"
  by (auto simp: ensure_tool_output_pending_bound_def result_simps usize_checked_add_def bind_eq_Some_conv
      MAX_TOOL_OUTPUT_NODES_def split: if_splits)

lemma count_iff:
  "ok_or e (option_filter (\<lambda>count. count \<le> MAX_TOOL_OUTPUT_NODES) (usize_checked_add n 1)) = Inr m \<longleftrightarrow>
    m = Suc n \<and> Suc n \<le> MAX_TOOL_OUTPUT_NODES"
  by (auto simp: result_simps usize_checked_add_def MAX_TOOL_OUTPUT_NODES_def)

lemma child_depth_iff:
  "d \<le> MAX_TOOL_OUTPUT_DEPTH \<Longrightarrow> ok_or e (usize_checked_add d 1) = Inr c \<longleftrightarrow> c = Suc d"
  by (auto simp: result_simps usize_checked_add_def MAX_TOOL_OUTPUT_DEPTH_def)

lemma schedule_iff:
  assumes "t \<le> MAX_TOOL_OUTPUT_TEXT_BYTES"
  shows "try_fold (schedule_member d) ms (t, p) = Inr (t', p') \<longleftrightarrow>
    p' = rev (map (\<lambda>m. (snd m, d)) ms) @ p \<and> t' = t + sum_list (map (length \<circ> fst) ms)
    \<and> t' \<le> MAX_TOOL_OUTPUT_TEXT_BYTES"
  using assms
proof (induction ms arbitrary: t p)
  case (Cons m ms)
  obtain k v where m: "m = (k, v)" by fastforce
  show ?case
  proof (cases "t + length k \<le> MAX_TOOL_OUTPUT_TEXT_BYTES")
    case True
    then have "schedule_member d m (t, p) = Inr (t + length k, (v, d) # p)"
      by (simp add: m schedule_member_def result_simps bounded_text_iff)
    then show ?thesis using Cons.IH [OF True] by (simp add: m add.assoc)
  next
    case False
    then have "schedule_member d m (t, p) \<noteq> Inr x" for x
      by (auto simp: m schedule_member_def result_simps bounded_text_iff)
    then show ?thesis using False by (auto simp: m result_simps)
  qed
qed auto

definition within_limits :: "(json \<times> usize) list \<Rightarrow> usize \<Rightarrow> usize \<Rightarrow> bool" where
  "within_limits p n t \<longleftrightarrow>
     (\<forall>(v, d) \<in> set p. d + json_depth v \<le> MAX_TOOL_OUTPUT_DEPTH)
     \<and> n + sum_list (map (json_nodes \<circ> fst) p) \<le> MAX_TOOL_OUTPUT_NODES
     \<and> t + sum_list (map (json_text \<circ> fst) p) \<le> MAX_TOOL_OUTPUT_TEXT_BYTES"

lemma within_array:
  "within_limits ((JArray vs, d) # p) n t \<longleftrightarrow>
     d \<le> MAX_TOOL_OUTPUT_DEPTH \<and> within_limits (map (\<lambda>v. (v, Suc d)) vs @ p) (Suc n) t"
  by (auto simp: within_limits_def ball_Un depth_of_list o_def add.assoc)

lemma object_depth: "json_depth (JObject ms) = foldr max (map (\<lambda>m. Suc (json_depth (snd m))) ms) 0"
  and object_nodes: "json_nodes (JObject ms) = Suc (sum_list (map (json_nodes \<circ> snd) ms))"
  and object_text: "json_text (JObject ms) = sum_list (map (length \<circ> fst) ms) + sum_list (map (json_text \<circ> snd) ms)"
  by (simp_all add: case_prod_beta' o_def sum_list_addf)

lemma within_object:
  "within_limits ((JObject ms, d) # p) n t \<longleftrightarrow> d \<le> MAX_TOOL_OUTPUT_DEPTH
     \<and> within_limits (map (\<lambda>m. (snd m, Suc d)) ms @ p) (Suc n) (t + sum_list (map (length \<circ> fst) ms))"
  by (auto simp: within_limits_def ball_Un depth_of_list object_depth object_nodes object_text o_def add.assoc
      simp del: json_depth.simps json_nodes.simps json_text.simps)

lemma within_pending:
  assumes "within_limits p n t"
  shows "n + length p \<le> MAX_TOOL_OUTPUT_NODES"
  using assms nodes_of_list [of p fst] by (simp add: within_limits_def)

lemma output_loop_iff:
  assumes "n \<le> MAX_TOOL_OUTPUT_NODES" and "t \<le> MAX_TOOL_OUTPUT_TEXT_BYTES"
  shows "output_loop p n t = Inr () \<longleftrightarrow> within_limits p n t"
  using assms
proof (induction p n t rule: output_loop.induct)
  case (1 n t)
  then show ?case by (simp add: within_limits_def)
next
  case (2 v d p n t)
  show ?case
  proof (cases "d \<le> MAX_TOOL_OUTPUT_DEPTH \<and> Suc n \<le> MAX_TOOL_OUTPUT_NODES")
    case False
    have "Suc n \<le> MAX_TOOL_OUTPUT_NODES" if "within_limits ((v, d) # p) n t"
      using within_pending [OF that] by simp
    moreover have "d \<le> MAX_TOOL_OUTPUT_DEPTH" if "within_limits ((v, d) # p) n t"
      using that by (auto simp: within_limits_def)
    ultimately show ?thesis using False
      by (auto simp: output_loop.simps(2) result_simps usize_checked_add_def split: if_splits)
  next
    case True
    then have pass: "reject_if (MAX_TOOL_OUTPUT_DEPTH < d) TOE_DepthExceeded = Inr ()"
      and count: "ok_or TOE_NodeCountExceeded (option_filter (\<lambda>count. count \<le> MAX_TOOL_OUTPUT_NODES)
        (usize_checked_add n 1)) = Inr (Suc n)"
      and deeper: "ok_or TOE_DepthExceeded (usize_checked_add d 1) = Inr (Suc d)"
      by (simp_all add: count_iff [unfolded One_nat_def] child_depth_iff [unfolded One_nat_def])
    note IH = "2.IH" [OF pass count]
    note step = output_loop.simps(2) [of _ d p n t, unfolded pass count deeper and_then_simps]
    show ?thesis
    proof (cases v)
      case (JString s)
      then show ?thesis
        using True "2.prems" IH(4) [OF JString, of "t + length s"]
        by (auto simp: step result_simps bounded_text_iff within_limits_def)
    next
      case (JArray vs)
      have "ensure_tool_output_pending_bound (Suc n) (length p) (length vs) = Inr ()"
        if "within_limits (map (\<lambda>v. (v, Suc d)) vs @ p) (Suc n) t"
        using within_pending [OF that] by (simp add: pending_bound_iff)
      then show ?thesis
        using True "2.prems" IH(5) [OF JArray _ deeper]
        by (auto simp: step JArray result_simps deeper within_array schedule_values rev_map)
    next
      case (JObject ms)
      have bound: "ensure_tool_output_pending_bound (Suc n) (length p) (length ms) = Inr ()"
        if "within_limits (map (\<lambda>m. (snd m, Suc d)) ms @ p) (Suc n) k" for k
        using within_pending [OF that] by (simp add: pending_bound_iff)
      have small: "k \<le> MAX_TOOL_OUTPUT_TEXT_BYTES" if "within_limits q m k" for q m k
        using that by (simp add: within_limits_def)
      have walk: "try_fold (schedule_member (Suc d)) (rev ms) (t, p) = Inr (t', p') \<longleftrightarrow>
          p' = map (\<lambda>m. (snd m, Suc d)) ms @ p \<and> t' = t + sum_list (map (length \<circ> fst) ms)
          \<and> t' \<le> MAX_TOOL_OUTPUT_TEXT_BYTES" for t' p'
        using schedule_iff [OF "2.prems"(2), of "Suc d" "rev ms"] by (simp add: rev_map sum_list_rev flip: rev_map)
      show ?thesis
        using True "2.prems" IH(6) [OF JObject _ deeper] bound small
        by (auto simp: step JObject result_simps deeper within_object walk)
    qed (use True "2.prems" IH(1-3) in \<open>auto simp: step within_limits_def\<close>)
  qed
qed

lemma validate_tool_output_iff:
  "validate_tool_output cr v = Inr w \<longleftrightarrow>
     json_depth v \<le> MAX_TOOL_OUTPUT_DEPTH \<and> json_nodes v \<le> MAX_TOOL_OUTPUT_NODES
     \<and> json_text v \<le> MAX_TOOL_OUTPUT_TEXT_BYTES
     \<and> (\<exists>c. jcs cr (ToolOutputValueInput v) = Inr c \<and> length c \<le> MAX_TOOL_OUTPUT_CANONICAL_BYTES
          \<and> w = \<lparr>vto_canonical_size_bytes = of_nat (length c), vto_output_digest = sha256_digest cr c\<rparr>)"
proof -
  have loop: "output_loop [(v, 0)] 0 0 = Inr () \<longleftrightarrow> json_depth v \<le> MAX_TOOL_OUTPUT_DEPTH
      \<and> json_nodes v \<le> MAX_TOOL_OUTPUT_NODES \<and> json_text v \<le> MAX_TOOL_OUTPUT_TEXT_BYTES"
    using output_loop_iff [of 0 0 "[(v, 0)]"] by (simp add: within_limits_def)
  have size: "u64_try_from k = Some n \<longleftrightarrow> n = of_nat k" if "k \<le> MAX_TOOL_OUTPUT_CANONICAL_BYTES" for k n
    using that by (auto simp: u64_try_from_def MAX_TOOL_OUTPUT_CANONICAL_BYTES_def)
  show ?thesis
    using size by (auto simp: validate_tool_output_def result_simps not_less loop)
qed

section \<open>Exact verifiers\<close>

lemma tool_output_exact:
  "tool_output_verify_for cr r run step i n e = Inr () \<longleftrightarrow> tool_output_new cr run step i n e (tor_output r) = Inr r"
proof
  assume "tool_output_verify_for cr r run step i n e = Inr ()"
  moreover from this have "tool_output_id cr (r\<lparr>tor_output_id := [], tor_record_digest := []\<rparr>) = Inr (tor_output_id r)"
    "tool_output_record_digest cr (r\<lparr>tor_record_digest := []\<rparr>) = Inr (tor_record_digest r)"
    by (auto simp: tool_output_verify_for_def tool_output_id_def tool_output_record_digest_def result_simps)
  ultimately show "tool_output_new cr run step i n e (tor_output r) = Inr r"
    by (cases r) (auto simp: tool_output_verify_for_def tool_output_new_def result_simps Let_def)
next
  assume "tool_output_new cr run step i n e (tor_output r) = Inr r"
  then show "tool_output_verify_for cr r run step i n e = Inr ()"
    by (auto simp: tool_output_new_def result_simps Let_def)
qed

lemma tool_output_new_value: "tool_output_new cr run step i n e v = Inr r \<Longrightarrow> tor_output r = v"
  by (auto simp: tool_output_new_def result_simps Let_def)

lemma tool_output_new_total:
  assumes jcs: "\<And>i. \<exists>c. jcs cr i = Inr c" and p: "required_tool_output_provenance i = Inr p"
    and ok: "validate_tool_output_identity run step i n = Inr ()" "is_canonical_sha256 e"
    and w: "\<exists>w. validate_tool_output cr v = Inr w"
  shows "\<exists>r. tool_output_new cr run step i n e v = Inr r"
proof -
  obtain w where w: "validate_tool_output cr v = Inr w" using w by blast
  have ids: "\<exists>x. tool_output_id cr r = Inr x" "\<exists>x. tool_output_record_digest cr r = Inr x" for r
    by (simp_all add: tool_output_id_def tool_output_record_digest_def result_simps canonical_total [OF jcs])
  let ?r0 = "\<lparr>tor_format_version = TOOL_OUTPUT_FORMAT_VERSION, tor_output_id = [], tor_run_id = run,
    tor_step_id = step, tor_effect_id = ei_effect_id i, tor_action_digest = ei_action_digest i,
    tor_invocation = ei_invocation i, tor_plan_id = rp_plan_id p, tor_execution_attempt = n,
    tor_evidence_digest = e, tor_canonical_size_bytes = vto_canonical_size_bytes w,
    tor_output_digest = vto_output_digest w, tor_output = v, tor_record_digest = []\<rparr>"
  obtain x where x: "tool_output_id cr ?r0 = Inr x" using ids by blast
  obtain d where d: "tool_output_record_digest cr (?r0\<lparr>tor_output_id := x\<rparr>) = Inr d" using ids by blast
  have "tool_output_id cr (?r0\<lparr>tor_output_id := x, tor_record_digest := d\<rparr>) = Inr x"
    using x by (simp add: tool_output_id_def)
  moreover have "tool_output_record_digest cr (?r0\<lparr>tor_output_id := x, tor_record_digest := d\<rparr>) = Inr d"
    using d by (simp add: tool_output_record_digest_def)
  ultimately show ?thesis
    using p ok w x d by (simp add: tool_output_new_def tool_output_verify_for_def)
qed

lemma completion_bind_sound:
  assumes "completion_bind cr run n call ctx s = Inr r"
  obtains dec where "completion_decision r = Inr dec"
    and "completion_verify_for cr r run dec (cor_candidate_id r) (cor_summary_digest r) = Inr ()"
  using assms
  by (auto simp: completion_bind_def completion_new_def completion_decision_def
      planning_turn_for_model_call_def result_simps Let_def)

lemma completion_exact:
  "completion_verify_for cr r run dec cand sd = Inr () \<longleftrightarrow>
     (\<exists>call. ept_model_call_id dec = Some call
       \<and> completion_bind cr run (ept_turn_index dec) call (ept_context_digest dec) (cor_summary r) = Inr r
       \<and> completion_decision r = Inr dec \<and> cor_candidate_id r = cand \<and> cor_summary_digest r = sd)"
proof
  assume v: "completion_verify_for cr r run dec cand sd = Inr ()"
  then obtain call where call: "ept_model_call_id dec = Some call" "planning_turn_validate dec = Inr ()"
    by (auto simp: completion_verify_for_def result_simps)
  have digest: "completion_output_record_digest cr (r\<lparr>cor_record_digest := []\<rparr>) = Inr (cor_record_digest r)"
    using v by (auto simp: completion_verify_for_def completion_output_record_digest_def result_simps)
  have dec: "planning_turn_for_model_call (ept_turn_index dec) call (ept_context_digest dec) (ept_proposal_digest dec) = Inr dec"
    using call by (cases dec) (simp add: planning_turn_for_model_call_def)
  have ctx: "require_planning_digest ''context_digest'' (ept_context_digest dec) = Inr ()"
    using call(2) by (auto simp: planning_turn_validate_def result_simps)
  have new: "completion_new cr run dec cand sd (cor_summary r) = Inr r"
    using v digest by (cases r) (auto simp: completion_verify_for_def completion_new_def result_simps Let_def)
  have "completion_bind cr run (ept_turn_index dec) call (ept_context_digest dec) (cor_summary r) = Inr r"
    using v dec ctx new call(1) by (auto simp: completion_verify_for_def completion_bind_def result_simps)
  moreover have "completion_decision r = Inr dec" "cor_candidate_id r = cand" "cor_summary_digest r = sd"
    using v dec call(1) by (auto simp: completion_verify_for_def completion_decision_def result_simps)
  ultimately show "\<exists>call. ept_model_call_id dec = Some call
       \<and> completion_bind cr run (ept_turn_index dec) call (ept_context_digest dec) (cor_summary r) = Inr r
       \<and> completion_decision r = Inr dec \<and> cor_candidate_id r = cand \<and> cor_summary_digest r = sd"
    using call(1) by blast
next
  assume "\<exists>call. ept_model_call_id dec = Some call
       \<and> completion_bind cr run (ept_turn_index dec) call (ept_context_digest dec) (cor_summary r) = Inr r
       \<and> completion_decision r = Inr dec \<and> cor_candidate_id r = cand \<and> cor_summary_digest r = sd"
  then show "completion_verify_for cr r run dec cand sd = Inr ()"
    by (auto elim: completion_bind_sound)
qed

section \<open>A completion record for every valid summary\<close>

lemma completion_digests_total:
  assumes "\<And>i. \<exists>c. jcs cr i = Inr c"
  shows "\<exists>x. completion_summary_digest cr s = Inr x"
    and "\<exists>x. completion_proposal_digest cr ctx s = Inr x"
    and "\<exists>x. completion_candidate_id cr run ctx p = Inr x"
    and "\<exists>x. completion_output_record_digest cr r = Inr x"
  by (simp_all add: completion_summary_digest_def completion_proposal_digest_def completion_candidate_id_def
      completion_output_record_digest_def result_simps canonical_total [OF assms])

lemma completion_shapes:
  assumes sha: "\<And>v. length (sha256 cr v) = 32"
  shows "completion_summary_digest cr s = Inr x \<Longrightarrow> is_sha256_digest x"
    and "completion_proposal_digest cr ctx s = Inr x \<Longrightarrow> is_sha256_digest x"
    and "completion_candidate_id cr run ctx p = Inr x \<Longrightarrow> require_planning_identifier f x = Inr ()"
proof -
  show "completion_summary_digest cr s = Inr x \<Longrightarrow> is_sha256_digest x"
    using canonical_digest_shape [OF sha] by (auto simp: completion_summary_digest_def result_simps)
  show "completion_proposal_digest cr ctx s = Inr x \<Longrightarrow> is_sha256_digest x"
    using canonical_digest_shape [OF sha] by (auto simp: completion_proposal_digest_def result_simps)
  assume "completion_candidate_id cr run ctx p = Inr x"
  then obtain i d where "canonical_digest cr i = Inr d" "x = prefixed_id ''completion-'' d"
    by (auto simp: completion_candidate_id_def result_simps)
  then obtain c where x: "x = hex_id ''completion-'' (sha256 cr c)"
    using canonical_prefixed [of cr i d "''completion-''"] by auto
  have "\<not> has_control x"
    unfolding x by (rule hex_id_no_control) (simp add: byte_val_def)
  moreover have "length x = 75" unfolding x using length_hex_id [OF sha, of "''completion-''"] by simp
  ultimately show "require_planning_identifier f x = Inr ()"
    by (cases x) (auto simp: require_planning_identifier_def)
qed

lemma completion_bind_iff:
  assumes sha: "\<And>v. length (sha256 cr v) = 32" and jcs: "\<And>i. \<exists>c. jcs cr i = Inr c"
  shows "(\<exists>r. completion_bind cr run n call ctx s = Inr r) \<longleftrightarrow>
    validate_completion_summary_candidate s = Inr () \<and> require_planning_identifier ''run_id'' run = Inr ()
    \<and> require_planning_digest ''context_digest'' ctx = Inr () \<and> n \<noteq> 0
    \<and> require_model_call_id ''model_call_id'' call = Inr ()"
proof -
  obtain pd where pd: "completion_proposal_digest cr ctx s = Inr pd"
    using completion_digests_total [OF jcs] by blast
  obtain cid where cid: "completion_candidate_id cr run ctx pd = Inr cid"
    using completion_digests_total [OF jcs] by blast
  obtain sd where sd: "completion_summary_digest cr s = Inr sd"
    using completion_digests_total [OF jcs] by blast
  let ?dec = "\<lparr>ept_turn_index = n, ept_model_call_id = Some call, ept_context_digest = ctx, ept_proposal_digest = pd\<rparr>"
  have shapes: "is_sha256_digest pd" "is_sha256_digest sd" "require_planning_identifier ''candidate_id'' cid = Inr ()"
    using completion_shapes [OF sha] pd sd cid by blast+
  have fits: "\<exists>k. u64_try_from (length s) = Some k" if "validate_completion_summary_candidate s = Inr ()"
    using that by (auto simp: validate_completion_summary_candidate_def u64_try_from_def result_simps
        MAX_COMPLETION_SUMMARY_BYTES_def)
  have "\<exists>r. completion_new cr run ?dec cid sd s = Inr r"
    if ok: "validate_completion_summary_candidate s = Inr ()" "require_planning_identifier ''run_id'' run = Inr ()"
      "planning_turn_validate ?dec = Inr ()"
  proof -
    obtain k where k: "u64_try_from (length s) = Some k" using fits [OF ok(1)] by blast
    let ?r = "\<lparr>cor_format_version = COMPLETION_OUTPUT_FORMAT_VERSION, cor_candidate_id = cid, cor_run_id = run,
      cor_turn_index = n, cor_model_call_id = call, cor_context_digest = ctx, cor_proposal_digest = pd,
      cor_summary_size_bytes = k, cor_summary_digest = sd, cor_summary = s, cor_record_digest = []\<rparr>"
    obtain rd where rd: "completion_output_record_digest cr ?r = Inr rd"
      using completion_digests_total [OF jcs] by blast
    moreover have "completion_output_record_digest cr (?r\<lparr>cor_record_digest := rd\<rparr>) = Inr rd"
      using rd by (simp add: completion_output_record_digest_def)
    ultimately show ?thesis
      using ok k pd cid sd shapes
      by (simp add: completion_new_def completion_verify_for_def require_planning_digest_def)
  qed
  then show ?thesis
    using pd cid sd shapes
    by (auto simp: completion_bind_def planning_turn_for_model_call_def planning_turn_validate_def
        require_planning_digest_def result_simps)
qed

text \<open>What the record digest of a tool output covers: the value itself only through its digest.\<close>

definition tool_output_input :: "tool_output_record \<Rightarrow> digest_input" where
  "tool_output_input r =
     ToolOutputRecordDigestInput ''xgeny.tool-output.record/v1'' (tor_format_version r) (tor_output_id r)
       (tor_run_id r) (tor_step_id r) (tor_effect_id r) (tor_action_digest r) (tor_invocation r) (tor_plan_id r)
       (tor_execution_attempt r) (tor_evidence_digest r) (tor_canonical_size_bytes r) (tor_output_digest r)"

lemma tool_output_verified:
  assumes "tool_output_verify_for cr r run step i n e = Inr ()"
  shows "canonical_digest cr (tool_output_input r) = Inr (tor_record_digest r)"
    and "canonical_digest cr (ToolOutputValueInput (tor_output r)) = Inr (tor_output_digest r)"
proof -
  show "canonical_digest cr (tool_output_input r) = Inr (tor_record_digest r)"
    using assms
    by (auto simp: tool_output_verify_for_def tool_output_record_digest_def tool_output_input_def result_simps)
  obtain w where "validate_tool_output cr (tor_output r) = Inr w" "tor_output_digest r = vto_output_digest w"
    using assms by (auto simp: tool_output_verify_for_def result_simps)
  then show "canonical_digest cr (ToolOutputValueInput (tor_output r)) = Inr (tor_output_digest r)"
    by (auto simp: validate_tool_output_iff canonical_digest_def)
qed

section \<open>Properties\<close>

text \<open>
  C24. The stack walk of \<open>validate_tool_output\<close> decides exactly the documented limits: a JSON
  value is accepted if and only if its nesting depth is at most 64, it has at most 32768 values
  (object members included), its strings and keys have at most 1048576 bytes in all, and its
  canonical form exists and has at most 1048576 bytes. The result is then the size and the
  digest of that canonical form. Depth, nodes and text are defined by structural recursion; the
  early rejection on the number of scheduled children and the checked additions change nothing.
\<close>

theorem tool_output_limits_exact:
  "validate_tool_output cr v = Inr w \<longleftrightarrow>
     json_depth v \<le> 64 \<and> json_nodes v \<le> 32768 \<and> json_text v \<le> 1048576
     \<and> (\<exists>c. jcs cr (ToolOutputValueInput v) = Inr c \<and> length c \<le> 1048576
          \<and> w = \<lparr>vto_canonical_size_bytes = of_nat (length c), vto_output_digest = sha256_digest cr c\<rparr>)"
  by (simp add: validate_tool_output_iff MAX_TOOL_OUTPUT_DEPTH_def MAX_TOOL_OUTPUT_NODES_def
      MAX_TOOL_OUTPUT_TEXT_BYTES_def MAX_TOOL_OUTPUT_CANONICAL_BYTES_def)

text \<open>
  The verifier of a tool-output record accepts, for a run, a step, an intent, an attempt and
  an evidence digest, exactly the record that \<open>ToolOutputRecord::new\<close> builds from them and from
  the record's own value. In particular no field can differ from the constructor's, and the
  verification inside \<open>new\<close> never rejects what \<open>new\<close> assembled.
\<close>

theorem tool_output_verifier_exact:
  "tool_output_verify_for cr r run step i n e = Inr () \<longleftrightarrow> tool_output_new cr run step i n e (tor_output r) = Inr r"
  by (rule tool_output_exact)

text \<open>
  The verifier of a completion record accepts it for a run, a decision, a candidate id and a
  summary digest exactly when the decision carries a model call, \<open>bind\<close> rebuilds this very record
  from the run, that call, its context and the record's summary, the record's own \<open>decision\<close> gives
  the decision back, and candidate id and summary digest are the record's.
\<close>

theorem completion_verifier_exact:
  "completion_verify_for cr r run dec cand sd = Inr () \<longleftrightarrow>
     (\<exists>call. ept_model_call_id dec = Some call
       \<and> completion_bind cr run (ept_turn_index dec) call (ept_context_digest dec) (cor_summary r) = Inr r
       \<and> completion_decision r = Inr dec \<and> cor_candidate_id r = cand \<and> cor_summary_digest r = sd)"
  by (rule completion_exact)

text \<open>
  \<open>CompletionOutputRecord::bind\<close> fails on no valid input: for a canonicalizer that does not
  fail and a SHA-256 of 32 bytes it returns a record exactly when the summary is non-empty, at
  most 5000 bytes and free of control characters other than line feed and tab, the run id, the
  context digest and the model-call id are well formed and the turn index is not zero.
\<close>

theorem completion_bind_complete:
  assumes "\<And>v. length (sha256 cr v) = 32" and "\<And>i. \<exists>c. jcs cr i = Inr c"
  shows "(\<exists>r. completion_bind cr run n call ctx s = Inr r) \<longleftrightarrow>
    s \<noteq> [] \<and> length s \<le> 5000 \<and> \<not> any_control (\<lambda>c. c \<noteq> 10 \<and> c \<noteq> 9) s
    \<and> require_planning_identifier ''run_id'' run = Inr ()
    \<and> require_planning_digest ''context_digest'' ctx = Inr () \<and> n \<noteq> 0
    \<and> require_model_call_id ''model_call_id'' call = Inr ()"
  unfolding completion_bind_iff [OF assms]
  by (auto simp: validate_completion_summary_candidate_def result_simps MAX_COMPLETION_SUMMARY_BYTES_def)

theorem completion_bind_complete_witness:
  "\<exists>r. completion_bind sample_crypto ''r'' 2 sample_call_id sample_digest ''ok'' = Inr r"
  using completion_bind_complete [of sample_crypto "''r''" 2 sample_call_id sample_digest "''ok''"]
  by (simp add: sample_sha sample_jcs identifier_ok require_planning_digest_def byte_val_def)

text \<open>
  A tool observation is pinned by its record digest: if two records verify, each for its own
  run, step, intent, attempt and evidence, and carry the same record digest, they are the same
  record with the same JSON value, unless the two record inputs or the two values exhibit a
  digest confusion.
\<close>

theorem tool_output_is_pinned:
  assumes "tool_output_verify_for cr r run step i n e = Inr ()"
    and "tool_output_verify_for cr r' run' step' i' n' e' = Inr ()"
    and "tor_record_digest r = tor_record_digest r'"
  shows "r = r' \<or> digest_confusion cr (tool_output_input r) (tool_output_input r')
    \<or> digest_confusion cr (ToolOutputValueInput (tor_output r)) (ToolOutputValueInput (tor_output r'))"
proof -
  have "tool_output_input r = tool_output_input r' \<or> digest_confusion cr (tool_output_input r) (tool_output_input r')"
    using tool_output_verified(1) [OF assms(1)] tool_output_verified(1) [OF assms(2)] assms(3)
    by (intro canonical_digest_eq) auto
  moreover have "tor_output r = tor_output r'
      \<or> digest_confusion cr (ToolOutputValueInput (tor_output r)) (ToolOutputValueInput (tor_output r'))"
    if "tor_output_digest r = tor_output_digest r'"
    using canonical_digest_eq [OF tool_output_verified(2) [OF assms(1)]] tool_output_verified(2) [OF assms(2)] that
    by fastforce
  ultimately show ?thesis
    using assms(3) by (cases r; cases r') (auto simp: tool_output_input_def)
qed

end
