(* ===== verification/Domain_Types.thy ===== *)
theory Domain_Types
  imports Ordered_Collections Journal_Types
begin

text \<open>
  The wire types of \<open>crates/xgeny-domain\<close> that the policy, the registry and the router work on:
  \<open>common.rs\<close>, \<open>capability.rs\<close> and the request and source types of \<open>policy.rs\<close>. Constructors carry
  a prefix where the journal types of the workgraph crate use the same names. A double-precision
  float is its bit pattern.
\<close>

definition API_VERSION_V1ALPHA1 :: string where
  "API_VERSION_V1ALPHA1 = ''xgeny.io/v1alpha1''"

section \<open>Common types\<close>

type_synonym extensions = "(string, json) btreemap"

record capability_ref =
  cf_capability_id :: string
  cf_contract_version :: string

datatype domain_effect_class = DE_ReadOnly | DE_Idempotent | DE_Compensatable | DE_NonIdempotent | DE_Unknown

datatype critical_action =
    IrreversibleDelete
  | CredentialExport
  | PaymentOrPurchase
  | ExternalPublishOrMessage
  | ProductionDeploy
  | PrivilegeEscalation
  | PersistentStartup

datatype verification_strategy = VS_OutputSchema | VS_Postcondition | VS_ArtifactDigest | VS_Receipt | VS_Human

datatype placement = PL_Local | PL_Device | PL_Remote

datatype grant_lifetime = GL_Once | GL_Run | GL_Session | GL_Project | GL_Persistent

record resolved_resource =
  rr_scope :: string
  rr_resource :: string
  rr_normalized :: bool
  rr_metadata :: extensions

record verification_rule =
  vr_strategy :: verification_strategy
  vr_required :: bool
  vr_description :: "string option"

section \<open>Capability definitions\<close>

record resource_selector =
  sel_scope :: string
  sel_argument_pointer :: string

record capability_effect =
  ce_class :: domain_effect_class
  ce_resource_selectors :: "resource_selector list"
  ce_critical_actions :: "critical_action list"

datatype execution_style = ES_Sync | ES_Task

record capability_execution =
  cx_styles :: "execution_style list"
  cx_cancellable :: bool
  cx_idempotency_key_supported :: bool
  cx_durable_tool_output :: bool
  cx_default_timeout_ms :: u64
  cx_max_timeout_ms :: u64

record capability_discovery =
  cd_keywords :: "string list"
  cd_examples :: "string list"
  cd_details_ref :: "string option"

record capability_metadata =
  cm_id :: string
  cm_contract_version :: string
  cm_display_name :: string
  cm_labels :: "(string, string) btreemap"

record capability_spec =
  cs_summary :: string
  cs_input_schema :: json
  cs_output_schema :: json
  cs_effect :: capability_effect
  cs_required_capabilities :: "capability_ref list"
  cs_execution :: capability_execution
  cs_verification :: "verification_rule list"
  cs_discovery :: "capability_discovery option"

record capability_definition_body =
  cdb_api_version :: string
  cdb_extensions :: extensions
  cdb_required_extensions :: "string list"
  cdb_metadata :: capability_metadata
  cdb_spec :: capability_spec

section \<open>Capability instances\<close>

type_synonym f64 = "64 word"

datatype capability_source = CS_Builtin | CS_LocalCli | CS_Mcp | CS_Connector | CS_Xgen

datatype operating_system = OS_Linux | OS_Macos | OS_Windows | OS_Any

datatype architecture = ARCH_X86_64 | ARCH_Aarch64 | ARCH_Any

record platform =
  pf_os :: operating_system
  pf_arch :: architecture

datatype trust_level = TL_Untrusted | TL_Configured | TL_Verified | TL_Managed

datatype data_boundary = DB_Local | DB_Device | DB_Organization | DB_External

datatype health_status = HS_Available | HS_Degraded | HS_Unavailable | HS_Unknown

record health =
  he_status :: health_status
  he_observed_at :: string
  he_reason :: "string option"

datatype auth_state = AS_NotRequired | AS_Available | AS_Required | AS_Expired

record auth =
  at_state :: auth_state
  at_auth_ref :: "string option"

record instance_features =
  if_sync :: bool
  if_task :: bool
  if_cancellable :: bool
  if_idempotency_query :: bool

record instance_hints =
  ih_latency_ms :: "u64 option"
  ih_monetary_cost :: "f64 option"
  ih_reliability :: "f64 option"

record instance_binding =
  ibd_binding_ref :: string
  ibd_operation_ref :: "string option"
  ibd_protocol_version :: "string option"

record capability_instance_body =
  cib_api_version :: string
  cib_extensions :: extensions
  cib_required_extensions :: "string list"
  cib_instance_id :: string
  cib_definition :: capability_ref
  cib_source :: capability_source
  cib_placement :: placement
  cib_platform :: platform
  cib_trust :: trust_level
  cib_data_boundary :: data_boundary
  cib_health :: health
  cib_auth :: auth
  cib_features :: instance_features
  cib_hints :: "instance_hints option"
  cib_binding :: instance_binding

section \<open>Permission requests\<close>

record permission_request_body =
  prb_api_version :: string
  prb_extensions :: extensions
  prb_required_extensions :: "string list"
  prb_request_id :: string
  prb_run_id :: string
  prb_step_id :: string
  prb_capability :: capability_ref
  prb_effect_class :: domain_effect_class
  prb_requested_scopes :: "string list"
  prb_resolved_resources :: "resolved_resource list"
  prb_critical_actions :: "critical_action list"
  prb_requested_lifetime :: grant_lifetime
  prb_reason :: string
  prb_created_at :: string

datatype policy_source_kind = PSK_Host | PSK_UserProfile | PSK_RunGrant | PSK_ManagedLease

record policy_source =
  ps_kind :: policy_source_kind
  ps_id :: string
  ps_digest :: string

end
