(* ===== verification/Capability_Registry.thy ===== *)
theory Capability_Registry
  imports Domain_Types
begin

text \<open>
  \<open>crates/xgeny-runtime/src/registry.rs\<close>: the in-memory catalog of capability definitions and the
  instances bound to them. Registration either fails and leaves the catalog as it was, or adds one
  entry; nothing is ever replaced. \<open>registry_built\<close> is the set of catalogs that a sequence of
  registrations can produce, and \<open>registry_ok\<close> their invariant.
\<close>

section \<open>The catalog\<close>

datatype definition_key = DefinitionKey (dk_capability_id: string) (dk_contract_version: string)

instantiation definition_key :: linorder
begin

definition less_eq_definition_key :: "definition_key \<Rightarrow> definition_key \<Rightarrow> bool" where
  "less_eq_definition_key a b \<longleftrightarrow> dk_capability_id a < dk_capability_id b
     \<or> dk_capability_id a = dk_capability_id b \<and> dk_contract_version a \<le> dk_contract_version b"

definition less_definition_key :: "definition_key \<Rightarrow> definition_key \<Rightarrow> bool" where
  "less_definition_key a b \<longleftrightarrow> dk_capability_id a < dk_capability_id b
     \<or> dk_capability_id a = dk_capability_id b \<and> dk_contract_version a < dk_contract_version b"

instance
proof
  fix a b :: definition_key
  assume "a \<le> b" and "b \<le> a"
  then show "a = b" by (cases a; cases b) (auto simp: less_eq_definition_key_def)
qed (auto simp: less_eq_definition_key_def less_definition_key_def)

end

record capability_registry =
  reg_definitions :: "(definition_key, capability_definition_body) btreemap"
  reg_instances :: "(string, capability_instance_body) btreemap"

definition registry_new :: capability_registry where
  "registry_new = \<lparr>reg_definitions = bm_empty, reg_instances = bm_empty\<rparr>"

definition key_from_definition :: "capability_definition_body \<Rightarrow> definition_key" where
  "key_from_definition d = DefinitionKey (cm_id (cdb_metadata d)) (cm_contract_version (cdb_metadata d))"

definition key_from_reference :: "capability_ref \<Rightarrow> definition_key" where
  "key_from_reference r = DefinitionKey (cf_capability_id r) (cf_contract_version r)"

datatype registry_error =
    RGE_UnsupportedDefinitionApiVersion string string
  | RGE_UnsupportedInstanceApiVersion string string
  | RGE_InvalidTimeoutRange string u64 u64
  | RGE_UnsupportedDurableToolOutputEffect string
  | RGE_DuplicateDefinition string string
  | RGE_DuplicateInstance string
  | RGE_DefinitionNotFound string string string
  | RGE_UnsupportedExecutionStyle string string string execution_style
  | RGE_UnsupportedCancellation string string string

section \<open>Registration\<close>

definition validate_definition :: "capability_definition_body \<Rightarrow> registry_error + unit" where
  "validate_definition d =
     (let execution = cs_execution (cdb_spec d) in
      and_then (reject_if (cdb_api_version d \<noteq> API_VERSION_V1ALPHA1)
        (RGE_UnsupportedDefinitionApiVersion (cm_id (cdb_metadata d)) (cdb_api_version d))) (\<lambda>_.
      and_then (reject_if (cx_default_timeout_ms execution = 0 \<or> cx_max_timeout_ms execution = 0
          \<or> cx_default_timeout_ms execution > cx_max_timeout_ms execution)
        (RGE_InvalidTimeoutRange (cm_id (cdb_metadata d)) (cx_default_timeout_ms execution)
          (cx_max_timeout_ms execution))) (\<lambda>_.
      reject_if (cx_durable_tool_output execution
          \<and> ce_class (cs_effect (cdb_spec d)) \<notin> {DE_ReadOnly, DE_Idempotent, DE_NonIdempotent})
        (RGE_UnsupportedDurableToolOutputEffect (cm_id (cdb_metadata d))))))"

definition unsupported_style :: "capability_instance_body \<Rightarrow> execution_style \<Rightarrow> registry_error" where
  "unsupported_style i style = RGE_UnsupportedExecutionStyle (cib_instance_id i)
     (cf_capability_id (cib_definition i)) (cf_contract_version (cib_definition i)) style"

definition validate_instance_features ::
    "capability_instance_body \<Rightarrow> capability_definition_body \<Rightarrow> registry_error + unit" where
  "validate_instance_features i d =
     (let execution = cs_execution (cdb_spec d) in
      and_then (reject_if (if_sync (cib_features i) \<and> ES_Sync \<notin> set (cx_styles execution))
        (unsupported_style i ES_Sync)) (\<lambda>_.
      and_then (reject_if (if_task (cib_features i) \<and> ES_Task \<notin> set (cx_styles execution))
        (unsupported_style i ES_Task)) (\<lambda>_.
      reject_if (if_cancellable (cib_features i) \<and> \<not> cx_cancellable execution)
        (RGE_UnsupportedCancellation (cib_instance_id i) (cm_id (cdb_metadata d))
          (cm_contract_version (cdb_metadata d))))))"

definition register_schema_validated_definition ::
    "capability_registry \<Rightarrow> capability_definition_body \<Rightarrow> registry_error + capability_registry" where
  "register_schema_validated_definition r d =
     and_then (validate_definition d) (\<lambda>_.
     let key = key_from_definition d in
     and_then (reject_if (bm_contains_key (reg_definitions r) key)
       (RGE_DuplicateDefinition (dk_capability_id key) (dk_contract_version key))) (\<lambda>_.
     Inr (r\<lparr>reg_definitions := bm_insert key d (reg_definitions r)\<rparr>)))"

definition register_schema_validated_instance ::
    "capability_registry \<Rightarrow> capability_instance_body \<Rightarrow> registry_error + capability_registry" where
  "register_schema_validated_instance r i =
     and_then (reject_if (cib_api_version i \<noteq> API_VERSION_V1ALPHA1)
       (RGE_UnsupportedInstanceApiVersion (cib_instance_id i) (cib_api_version i))) (\<lambda>_.
     and_then (reject_if (bm_contains_key (reg_instances r) (cib_instance_id i))
       (RGE_DuplicateInstance (cib_instance_id i))) (\<lambda>_.
     let key = key_from_reference (cib_definition i) in
     and_then (ok_or (RGE_DefinitionNotFound (cib_instance_id i) (dk_capability_id key) (dk_contract_version key))
       (bm_get (reg_definitions r) key)) (\<lambda>d.
     and_then (validate_instance_features i d) (\<lambda>_.
     Inr (r\<lparr>reg_instances := bm_insert (cib_instance_id i) i (reg_instances r)\<rparr>)))))"

section \<open>Queries\<close>

definition registry_definition :: "capability_registry \<Rightarrow> capability_ref \<Rightarrow> capability_definition_body option" where
  "registry_definition r reference = bm_get (reg_definitions r) (key_from_reference reference)"

definition registry_instance :: "capability_registry \<Rightarrow> string \<Rightarrow> capability_instance_body option" where
  "registry_instance r instance_id = bm_get (reg_instances r) instance_id"

definition instances_for :: "capability_registry \<Rightarrow> capability_ref \<Rightarrow> capability_instance_body list" where
  "instances_for r reference =
     filter (\<lambda>i. key_from_reference (cib_definition i) = key_from_reference reference) (bm_values (reg_instances r))"

section \<open>The invariant\<close>

inductive registry_built :: "capability_registry \<Rightarrow> bool" where
  "registry_built registry_new"
| "registry_built r \<Longrightarrow> register_schema_validated_definition r d = Inr r' \<Longrightarrow> registry_built r'"
| "registry_built r \<Longrightarrow> register_schema_validated_instance r i = Inr r' \<Longrightarrow> registry_built r'"

definition definition_sound :: "capability_definition_body \<Rightarrow> bool" where
  "definition_sound d \<longleftrightarrow> cdb_api_version d = API_VERSION_V1ALPHA1
     \<and> 0 < cx_default_timeout_ms (cs_execution (cdb_spec d))
     \<and> cx_default_timeout_ms (cs_execution (cdb_spec d)) \<le> cx_max_timeout_ms (cs_execution (cdb_spec d))
     \<and> (cx_durable_tool_output (cs_execution (cdb_spec d)) \<longrightarrow>
          ce_class (cs_effect (cdb_spec d)) \<in> {DE_ReadOnly, DE_Idempotent, DE_NonIdempotent})"

definition features_sound :: "capability_instance_body \<Rightarrow> capability_definition_body \<Rightarrow> bool" where
  "features_sound i d \<longleftrightarrow>
     (if_sync (cib_features i) \<longrightarrow> ES_Sync \<in> set (cx_styles (cs_execution (cdb_spec d))))
     \<and> (if_task (cib_features i) \<longrightarrow> ES_Task \<in> set (cx_styles (cs_execution (cdb_spec d))))
     \<and> (if_cancellable (cib_features i) \<longrightarrow> cx_cancellable (cs_execution (cdb_spec d)))"

definition registry_ok :: "capability_registry \<Rightarrow> bool" where
  "registry_ok r \<longleftrightarrow>
     (\<forall>k d. bm_get (reg_definitions r) k = Some d \<longrightarrow> k = key_from_definition d \<and> definition_sound d)
     \<and> (\<forall>n i. bm_get (reg_instances r) n = Some i \<longrightarrow> n = cib_instance_id i \<and> cib_api_version i = API_VERSION_V1ALPHA1
          \<and> (\<exists>d. bm_get (reg_definitions r) (key_from_reference (cib_definition i)) = Some d \<and> features_sound i d))"

lemma validate_definition_iff: "validate_definition d = Inr () \<longleftrightarrow> definition_sound d"
  by (auto simp: validate_definition_def definition_sound_def result_simps Let_def word_neq_0_conv not_less
      intro: order.strict_trans2)

lemma validate_features_iff: "validate_instance_features i d = Inr () \<longleftrightarrow> features_sound i d"
  by (auto simp: validate_instance_features_def features_sound_def result_simps Let_def)

lemma register_definition_iff:
  "register_schema_validated_definition r d = Inr r' \<longleftrightarrow> definition_sound d
     \<and> bm_get (reg_definitions r) (key_from_definition d) = None
     \<and> r' = r\<lparr>reg_definitions := bm_insert (key_from_definition d) d (reg_definitions r)\<rparr>"
  by (auto simp: register_schema_validated_definition_def result_simps Let_def validate_definition_iff bm_contains_key_def)

lemma register_instance_iff:
  "register_schema_validated_instance r i = Inr r' \<longleftrightarrow> cib_api_version i = API_VERSION_V1ALPHA1
     \<and> bm_get (reg_instances r) (cib_instance_id i) = None
     \<and> (\<exists>d. bm_get (reg_definitions r) (key_from_reference (cib_definition i)) = Some d \<and> features_sound i d)
     \<and> r' = r\<lparr>reg_instances := bm_insert (cib_instance_id i) i (reg_instances r)\<rparr>"
  by (auto simp: register_schema_validated_instance_def result_simps Let_def validate_features_iff bm_contains_key_def)

lemma registry_invariant: "registry_built r \<Longrightarrow> registry_ok r"
proof (induction rule: registry_built.induct)
  case 1
  show ?case by (simp add: registry_ok_def registry_new_def)
next
  case (2 r d r')
  then show ?case
    by (auto simp: register_definition_iff registry_ok_def) (metis option.distinct(1))
next
  case (3 r i r')
  then show ?case by (auto simp: register_instance_iff registry_ok_def)
qed

lemma registration_only_adds:
  "register_schema_validated_definition r d = Inr r' \<Longrightarrow>
     (bm_get (reg_definitions r) k = Some e \<longrightarrow> bm_get (reg_definitions r') k = Some e) \<and> reg_instances r' = reg_instances r"
  "register_schema_validated_instance r i = Inr r' \<Longrightarrow>
     (bm_get (reg_instances r) n = Some j \<longrightarrow> bm_get (reg_instances r') n = Some j) \<and> reg_definitions r' = reg_definitions r"
  by (auto simp: register_definition_iff register_instance_iff)

lemma instances_for_iff:
  "registry_ok r \<Longrightarrow> i \<in> set (instances_for r ref) \<longleftrightarrow>
     registry_instance r (cib_instance_id i) = Some i \<and> cib_definition i = ref"
  by (cases ref; cases "cib_definition i")
    (auto simp: instances_for_def in_bm_values_iff registry_instance_def registry_ok_def key_from_reference_def)

lemma instances_sorted:
  assumes "registry_ok r"
  shows "sorted_wrt (<) (map cib_instance_id (instances_for r ref))"
proof -
  have "map cib_instance_id (bm_values (reg_instances r)) = bm_keys (reg_instances r)"
    using assms by (auto simp: bm_values_def bm_keys_def registry_ok_def bm.in_entries_iff [symmetric])
  then have "sorted_wrt (<) (map cib_instance_id (bm_values (reg_instances r)))"
    using sorted_bm_keys distinct_bm_keys by (metis strict_sorted_iff)
  then show ?thesis
    unfolding instances_for_def sorted_wrt_map by (rule sorted_wrt_filter)
qed

end
