(* ===== verification/Json_Pointers.thy ===== *)
theory Json_Pointers
  imports Domain_Types
begin

text \<open>
  JSON pointers (RFC 6901) as the policy crate uses them. \<open>Value::pointer\<close> and
  \<open>Value::pointer_mut\<close> belong to the JSON library, so they are the two fields of \<open>json_pointers\<close>;
  what the resolution of resources relies on is the locale \<open>json_pointer_laws\<close>. The algorithm of
  the RFC satisfies the laws: the locale is interpreted on it.
\<close>

record json_pointers =
  pointer :: "json \<Rightarrow> string \<Rightarrow> json option"
  pointer_set :: "json \<Rightarrow> string \<Rightarrow> json \<Rightarrow> json option"

text \<open>
  The pattern of \<open>argumentPointer\<close> in the capability-definition schema: empty, or segments that
  start with a slash, in which a tilde is followed by 0 or 1.
\<close>

fun tildes_ok :: "string \<Rightarrow> bool" where
  "tildes_ok [] = True"
| "tildes_ok [c] = (c \<noteq> CHR ''~'')"
| "tildes_ok (c # d # cs) =
     (if c = CHR ''~'' then (d = CHR ''0'' \<or> d = CHR ''1'') \<and> tildes_ok cs else tildes_ok (d # cs))"

definition rfc6901 :: "string \<Rightarrow> bool" where
  "rfc6901 p \<longleftrightarrow> (case p of [] \<Rightarrow> True | c # _ \<Rightarrow> c = CHR ''/'' \<and> tildes_ok p)"

locale json_pointer_laws =
  fixes jp :: json_pointers
  assumes set_defined: "pointer jp d p = Some x \<Longrightarrow> pointer_set jp d p v \<noteq> None"
    and set_same: "pointer_set jp d p v = Some d' \<Longrightarrow> pointer jp d' p = Some v"
    and set_other: "rfc6901 p \<Longrightarrow> rfc6901 q \<Longrightarrow> p \<noteq> q \<Longrightarrow> pointer jp d p = Some (JString s) \<Longrightarrow>
      pointer jp d q = Some (JString t) \<Longrightarrow> pointer_set jp d p v = Some d' \<Longrightarrow>
      pointer jp d' q = Some (JString t)"
begin

text \<open>Writing strings at well-formed pointers that held strings, in any order.\<close>

lemma write_strings:
  assumes "distinct (map fst ws)" and "\<forall>p \<in> fst ` set ws. rfc6901 p \<and> (\<exists>s. pointer jp d p = Some (JString s))"
  shows "\<exists>d'. try_fold (\<lambda>(p, c) e. ok_or (err p) (pointer_set jp e p (JString c))) ws d = Inr d'
      \<and> (\<forall>p c. (p, c) \<in> set ws \<longrightarrow> pointer jp d' p = Some (JString c))
      \<and> (\<forall>q t. rfc6901 q \<and> q \<notin> fst ` set ws \<and> pointer jp d q = Some (JString t) \<longrightarrow> pointer jp d' q = Some (JString t))"
  using assms
proof (induction ws arbitrary: d)
  case (Cons w ws)
  obtain p c where w: "w = (p, c)" by fastforce
  obtain s where p: "rfc6901 p" "pointer jp d p = Some (JString s)" using Cons.prems(2) w by auto
  obtain e where e: "pointer_set jp d p (JString c) = Some e" using set_defined [OF p(2)] by blast
  have other: "pointer jp e q = Some (JString t)" if "rfc6901 q" "q \<noteq> p" "pointer jp d q = Some (JString t)" for q t
    using set_other [OF p(1) that(1) that(2) [symmetric] p(2) that(3) e] .
  have fresh: "p \<notin> fst ` set ws" using Cons.prems(1) by (simp add: w)
  have rest: "\<forall>q \<in> fst ` set ws. rfc6901 q \<and> (\<exists>s. pointer jp e q = Some (JString s))"
  proof
    fix q
    assume q: "q \<in> fst ` set ws"
    then have "q \<noteq> p" using fresh by blast
    moreover obtain s where "rfc6901 q" "pointer jp d q = Some (JString s)" using Cons.prems(2) q by auto
    ultimately show "rfc6901 q \<and> (\<exists>s. pointer jp e q = Some (JString s))" using other by blast
  qed
  have "distinct (map fst ws)" using Cons.prems(1) by simp
  from Cons.IH [OF this rest] obtain d'
    where run: "try_fold (\<lambda>(p, c) e. ok_or (err p) (pointer_set jp e p (JString c))) ws e = Inr d'"
      and written: "\<And>p c. (p, c) \<in> set ws \<Longrightarrow> pointer jp d' p = Some (JString c)"
      and kept: "\<And>q t. rfc6901 q \<Longrightarrow> q \<notin> fst ` set ws \<Longrightarrow> pointer jp e q = Some (JString t) \<Longrightarrow> pointer jp d' q = Some (JString t)"
    by blast
  have here: "pointer jp d' p = Some (JString c)"
    using kept [OF p(1) fresh set_same [OF e]] .
  have away: "pointer jp d' q = Some (JString t)"
    if "rfc6901 q" "q \<notin> fst ` set (w # ws)" "pointer jp d q = Some (JString t)" for q t
    using that kept [OF that(1)] other [OF that(1) _ that(3)] by (simp add: w)
  show ?case
  proof (intro exI conjI allI impI)
    show "try_fold (\<lambda>(p, c) e. ok_or (err p) (pointer_set jp e p (JString c))) (w # ws) d = Inr d'"
      using run e by (simp add: w)
    show "pointer jp d' q = Some (JString b)" if "(q, b) \<in> set (w # ws)" for q b
      using that here written by (auto simp: w)
    show "pointer jp d' q = Some (JString t)"
      if "rfc6901 q \<and> q \<notin> fst ` set (w # ws) \<and> pointer jp d q = Some (JString t)" for q t
      using that away by blast
  qed
qed simp

end

section \<open>The algorithm of the RFC\<close>

fun split_on :: "char \<Rightarrow> string \<Rightarrow> string list" where
  "split_on c [] = [[]]"
| "split_on c (x # xs) = (if x = c then [] # split_on c xs
     else case split_on c xs of [] \<Rightarrow> [[x]] | y # ys \<Rightarrow> (x # y) # ys)"

fun unescape :: "string \<Rightarrow> string" where
  "unescape [] = []"
| "unescape [c] = [c]"
| "unescape (c # d # cs) =
     (if c = CHR ''~'' \<and> d = CHR ''1'' then CHR ''/'' # unescape cs
      else if c = CHR ''~'' \<and> d = CHR ''0'' then CHR ''~'' # unescape cs
      else c # unescape (d # cs))"

definition pointer_tokens :: "string \<Rightarrow> string list option" where
  "pointer_tokens p = (case p of [] \<Rightarrow> Some []
     | c # cs \<Rightarrow> if c = CHR ''/'' then Some (map unescape (split_on (CHR ''/'') cs)) else None)"

fun decimal :: "nat \<Rightarrow> string" where
  "decimal n = (if n < 10 then [hex_digit n] else decimal (n div 10) @ [hex_digit (n mod 10)])"

declare decimal.simps [simp del]

definition token_index :: "json list \<Rightarrow> string \<Rightarrow> nat option" where
  "token_index vs t = find (\<lambda>i. decimal i = t) [0..<length vs]"

fun path_get :: "json \<Rightarrow> string list \<Rightarrow> json option" where
  "path_get v [] = Some v"
| "path_get (JObject ms) (t # ts) = Option.bind (map_of ms t) (\<lambda>v. path_get v ts)"
| "path_get (JArray vs) (t # ts) = Option.bind (token_index vs t) (\<lambda>i. path_get (vs ! i) ts)"
| "path_get _ (t # ts) = None"

fun entry_set :: "'a \<Rightarrow> 'b \<Rightarrow> ('a \<times> 'b) list \<Rightarrow> ('a \<times> 'b) list" where
  "entry_set k v [] = []"
| "entry_set k v ((k', w) # ms) = (if k' = k then (k, v) # ms else (k', w) # entry_set k v ms)"

fun path_set :: "json \<Rightarrow> string list \<Rightarrow> json \<Rightarrow> json option" where
  "path_set v [] x = Some x"
| "path_set (JObject ms) (t # ts) x =
     Option.bind (map_of ms t) (\<lambda>v. map_option (\<lambda>v'. JObject (entry_set t v' ms)) (path_set v ts x))"
| "path_set (JArray vs) (t # ts) x =
     Option.bind (token_index vs t) (\<lambda>i. map_option (\<lambda>v'. JArray (vs[i := v'])) (path_set (vs ! i) ts x))"
| "path_set _ (t # ts) x = None"

definition rfc_pointers :: json_pointers where
  "rfc_pointers = \<lparr>pointer = \<lambda>d p. Option.bind (pointer_tokens p) (path_get d),
     pointer_set = \<lambda>d p x. Option.bind (pointer_tokens p) (\<lambda>ts. path_set d ts x)\<rparr>"

lemma map_of_entry_set: "map_of ms t \<noteq> None \<Longrightarrow> map_of (entry_set t v ms) k = (if k = t then Some v else map_of ms k)"
  by (induction ms) auto

lemma token_index_Some:
  "token_index vs t = Some i \<Longrightarrow> i < length vs \<and> decimal i = t"
  by (auto simp: token_index_def find_Some_iff)

lemma token_index_length: "length vs = length ws \<Longrightarrow> token_index vs t = token_index ws t"
  by (simp add: token_index_def)

lemma path_set_defined: "path_get d p = Some x \<Longrightarrow> path_set d p v \<noteq> None"
proof (induction d p arbitrary: x rule: path_get.induct)
  case (2 ms t ts)
  then show ?case by (auto simp: bind_eq_Some_conv)
next
  case (3 vs t ts)
  then show ?case by (auto simp: bind_eq_Some_conv)
qed auto

lemma path_set_same: "path_set d p v = Some d' \<Longrightarrow> path_get d' p = Some v"
proof (induction d p v arbitrary: d' rule: path_set.induct)
  case (2 ms t ts x)
  then show ?case by (auto simp: bind_eq_Some_conv map_of_entry_set)
next
  case (3 vs t ts x)
  from "3.prems" obtain i v' where i: "token_index vs t = Some i" "path_set (vs ! i) ts x = Some v'"
    "d' = JArray (vs[i := v'])" by (auto simp: bind_eq_Some_conv)
  moreover have "token_index (vs[i := v']) t = Some i"
    using i(1) token_index_length [of "vs[i := v']" vs] by simp
  ultimately show ?case using "3.IH" token_index_Some [OF i(1)] by simp
qed auto

lemma path_set_other:
  assumes "path_get d p = Some (JString s)" and "path_get d q = Some (JString t)" and "p \<noteq> q"
    and "path_set d p v = Some d'"
  shows "path_get d' q = Some (JString t)"
  using assms
proof (induction d p v arbitrary: d' q rule: path_set.induct)
  case (1 d x)
  then show ?case by (cases q) auto
next
  case (2 ms k ts x)
  obtain l us where q: "q = l # us" using "2.prems"(2) by (cases q) auto
  obtain w w' where w: "map_of ms k = Some w" "path_set w ts x = Some w'" "d' = JObject (entry_set k w' ms)"
    using "2.prems"(4) by (auto simp: bind_eq_Some_conv)
  show ?case
    using "2.IH" [OF w(1) _ _ _ w(2), of us] "2.prems" w
    by (cases "l = k") (auto simp: q map_of_entry_set)
next
  case (3 vs k ts x)
  obtain l us where q: "q = l # us" using "3.prems"(2) by (cases q) auto
  obtain i w' where w: "token_index vs k = Some i" "path_set (vs ! i) ts x = Some w'" "d' = JArray (vs[i := w'])"
    using "3.prems"(4) by (auto simp: bind_eq_Some_conv)
  obtain j where j: "token_index vs l = Some j" "path_get (vs ! j) us = Some (JString t)"
    using "3.prems"(2) by (auto simp: q bind_eq_Some_conv)
  have "token_index (vs[i := w']) l = Some j"
    using j(1) token_index_length [of "vs[i := w']" vs] by simp
  moreover have "i \<noteq> j" if "l \<noteq> k"
    using that token_index_Some [OF w(1)] token_index_Some [OF j(1)] by auto
  ultimately show ?case
    using "3.IH" [OF w(1) _ _ _ w(2), of us] "3.prems" w j token_index_Some [OF w(1)]
    by (cases "l = k") (auto simp: q)
qed auto

text \<open>Distinct well-formed pointers have distinct token lists.\<close>

fun escape :: "string \<Rightarrow> string" where
  "escape [] = []"
| "escape (c # cs) = (if c = CHR ''~'' then ''~0'' else if c = CHR ''/'' then ''~1'' else [c]) @ escape cs"

lemma escape_unescape: "tildes_ok t \<Longrightarrow> CHR ''/'' \<notin> set t \<Longrightarrow> escape (unescape t) = t"
  by (induction t rule: unescape.induct) auto

fun join_tokens :: "string list \<Rightarrow> string" where
  "join_tokens [] = []"
| "join_tokens [t] = t"
| "join_tokens (t # u # us) = t @ CHR ''/'' # join_tokens (u # us)"

lemma split_nonempty: "split_on c xs \<noteq> []"
  by (induction xs) (auto split: list.splits)

lemma split_obtain:
  obtains y ys where "split_on c xs = y # ys"
  using split_nonempty [of c xs] by (cases "split_on c xs") blast+

lemma join_cons_head: "ts \<noteq> [] \<Longrightarrow> join_tokens ((x # hd ts) # tl ts) = x # join_tokens ts"
  by (cases ts; cases "tl ts") auto

lemma join_split: "join_tokens (split_on (CHR ''/'') xs) = xs"
proof (induction xs)
  case (Cons x xs)
  obtain y ys where ys: "split_on (CHR ''/'') xs = y # ys" by (rule split_obtain)
  show ?case using Cons.IH join_cons_head [of "y # ys" x] by (simp add: ys)
qed simp

lemma split_tokens_ok:
  "tildes_ok xs \<Longrightarrow> t \<in> set (split_on (CHR ''/'') xs) \<Longrightarrow> tildes_ok t \<and> CHR ''/'' \<notin> set t"
proof (induction xs arbitrary: t rule: tildes_ok.induct)
  case (3 c d cs)
  obtain y ys where y: "split_on (CHR ''/'') cs = y # ys" by (rule split_obtain)
  obtain z zs where z: "split_on (CHR ''/'') (d # cs) = z # zs" by (rule split_obtain)
  have head: "tildes_ok (c # z)" if "c \<noteq> CHR ''~''" "tildes_ok z"
    using that by (cases z) auto
  show ?case
  proof (cases "c = CHR ''~''")
    case True
    then have d: "d = CHR ''0'' \<or> d = CHR ''1''" "tildes_ok cs" using "3.prems"(1) by auto
    have "t = CHR ''~'' # d # y \<or> t \<in> set ys" using "3.prems"(2) d True y by auto
    then show ?thesis using "3.IH"(1) [OF True d(2)] d y by auto
  next
    case False
    then have ok: "tildes_ok (d # cs)" using "3.prems"(1) by simp
    have "t = [] \<or> t \<in> set (z # zs) \<or> c \<noteq> CHR ''/'' \<and> t = c # z" using "3.prems"(2) z False by (auto split: if_splits)
    then show ?thesis using "3.IH"(2) [OF False ok] z head [OF False] by auto
  qed
qed (auto split: if_splits)

lemma tokens_inject:
  assumes "rfc6901 p" and "rfc6901 q" and "pointer_tokens p = Some ts" and "pointer_tokens q = Some ts"
  shows "p = q"
proof (cases p)
  case Nil
  then show ?thesis using assms(3,4) split_nonempty by (auto simp: pointer_tokens_def split: list.splits if_splits)
next
  case (Cons c cs)
  obtain d ds where q: "q = d # ds"
    using Cons assms(3,4) split_nonempty by (cases q) (auto simp: pointer_tokens_def split: if_splits)
  have eq: "map unescape (split_on (CHR ''/'') cs) = map unescape (split_on (CHR ''/'') ds)"
    and slash: "c = CHR ''/''" "d = CHR ''/''"
    using assms(3,4) by (auto simp: pointer_tokens_def Cons q split: if_splits)
  have restore: "map escape (map unescape (split_on (CHR ''/'') xs)) = split_on (CHR ''/'') xs" if "tildes_ok xs" for xs
    using split_tokens_ok [OF that] escape_unescape by (auto intro!: map_idI)
  have "tildes_ok cs" "tildes_ok ds"
    using assms(1,2) slash by (cases cs; cases ds; auto simp: rfc6901_def Cons q)+
  then have "split_on (CHR ''/'') cs = split_on (CHR ''/'') ds" using restore eq by metis
  then have "cs = ds" using join_split by metis
  then show ?thesis using Cons q slash by simp
qed

lemma rfc_pointer_iff:
  "pointer rfc_pointers d p = Some x \<longleftrightarrow> (\<exists>ts. pointer_tokens p = Some ts \<and> path_get d ts = Some x)"
  "pointer_set rfc_pointers d p v = Some d' \<longleftrightarrow> (\<exists>ts. pointer_tokens p = Some ts \<and> path_set d ts v = Some d')"
  by (simp_all add: rfc_pointers_def bind_eq_Some_conv)

interpretation rfc: json_pointer_laws rfc_pointers
proof unfold_locales
  fix d d' :: json and p q :: string and x v :: json and s t :: string
  show "pointer_set rfc_pointers d p v \<noteq> None" if found: "pointer rfc_pointers d p = Some x"
  proof -
    obtain ts where ts: "pointer_tokens p = Some ts" "path_get d ts = Some x"
      using found by (auto simp: rfc_pointer_iff(1))
    have "pointer_set rfc_pointers d p v = path_set d ts v" by (simp add: rfc_pointers_def ts(1))
    then show ?thesis using path_set_defined [OF ts(2)] by simp
  qed
  show "pointer_set rfc_pointers d p v = Some d' \<Longrightarrow> pointer rfc_pointers d' p = Some v"
    using path_set_same unfolding rfc_pointer_iff by blast
  assume "rfc6901 p" "rfc6901 q" "p \<noteq> q" "pointer rfc_pointers d p = Some (JString s)"
    "pointer rfc_pointers d q = Some (JString t)" "pointer_set rfc_pointers d p v = Some d'"
  then show "pointer rfc_pointers d' q = Some (JString t)"
    using path_set_other tokens_inject unfolding rfc_pointer_iff by (metis option.inject)
qed

end
