(* ===== verification/Policy_Resolution.thy ===== *)
theory Policy_Resolution
  imports Json_Pointers
begin

text \<open>
  \<open>crates/xgeny-policy/src/resolution.rs\<close>: from a capability definition and invocation arguments,
  or from a permission request that passed the wire schema, to a request over concrete resources.
  Three things are parameters: the trusted \<open>ResourceResolver\<close> of the host, and \<open>pointer\<close> and
  \<open>pointer_mut\<close> of the JSON library (RFC 6901), the latter as the update it is used for.
\<close>

section \<open>Concrete resources\<close>

datatype concrete_resource = ConcreteResource (res_scope: string) (res_canonical_resource: string)

instantiation concrete_resource :: linorder
begin

definition less_eq_concrete_resource :: "concrete_resource \<Rightarrow> concrete_resource \<Rightarrow> bool" where
  "less_eq_concrete_resource a b \<longleftrightarrow> res_scope a < res_scope b
     \<or> res_scope a = res_scope b \<and> res_canonical_resource a \<le> res_canonical_resource b"

definition less_concrete_resource :: "concrete_resource \<Rightarrow> concrete_resource \<Rightarrow> bool" where
  "less_concrete_resource a b \<longleftrightarrow> res_scope a < res_scope b
     \<or> res_scope a = res_scope b \<and> res_canonical_resource a < res_canonical_resource b"

instance
proof
  fix a b :: concrete_resource
  assume "a \<le> b" and "b \<le> a"
  then show "a = b" by (cases a; cases b) (auto simp: less_eq_concrete_resource_def)
qed (auto simp: less_eq_concrete_resource_def less_concrete_resource_def)

end

datatype resource_resolution_failure = InvalidResource | OutsideHostBoundary | UnsupportedScope | ResolverUnavailable

fun resolution_failure_code :: "resource_resolution_failure \<Rightarrow> string" where
  "resolution_failure_code InvalidResource = ''invalid_resource''"
| "resolution_failure_code OutsideHostBoundary = ''outside_host_boundary''"
| "resolution_failure_code UnsupportedScope = ''unsupported_scope''"
| "resolution_failure_code ResolverUnavailable = ''resolver_unavailable''"

type_synonym resource_resolver = "string \<Rightarrow> string \<Rightarrow> resource_resolution_failure + string"

record resolved_permission_request =
  rpr_api_version :: string
  rpr_request_id :: string
  rpr_run_id :: string
  rpr_step_id :: string
  rpr_capability :: capability_ref
  rpr_effect_class :: domain_effect_class
  rpr_requested_scopes :: "string list"
  rpr_resources :: "concrete_resource list"
  rpr_critical_actions :: "critical_action list"
  rpr_requested_lifetime :: grant_lifetime

record resolved_invocation_request =
  rir_permission_request :: resolved_permission_request
  rir_normalized_arguments :: json

fun critical_action_rank :: "critical_action \<Rightarrow> nat" where
  "critical_action_rank IrreversibleDelete = 0"
| "critical_action_rank CredentialExport = 1"
| "critical_action_rank PaymentOrPurchase = 2"
| "critical_action_rank ExternalPublishOrMessage = 3"
| "critical_action_rank ProductionDeploy = 4"
| "critical_action_rank PrivilegeEscalation = 5"
| "critical_action_rank PersistentStartup = 6"

section \<open>Errors\<close>

datatype invocation_resolution_error =
    IRE_UnsupportedDefinitionApiVersion string
  | IRE_UnsupportedRequiredExtensions "string list"
  | IRE_EmptyInvocationIdentity
  | IRE_EmptyResourceSelectors
  | IRE_MissingResourceArgument string string
  | IRE_ResourceArgumentMustBeString string string
  | IRE_EmptyResourceArgument string string
  | IRE_ResolverRejected string string
  | IRE_EmptyCanonicalResource string
  | IRE_DuplicateConcreteResource string
  | IRE_ConflictingPointerCanonicalization string
  | IRE_NormalizationTargetLost string
  | IRE_DuplicateCriticalAction

datatype request_resolution_error =
    RRE_UnsupportedApiVersion string
  | RRE_UnsupportedRequiredExtensions "string list"
  | RRE_EmptyRequestedScopes
  | RRE_EmptyRequestedScope
  | RRE_DuplicateRequestedScope string
  | RRE_EmptyResolvedResources
  | RRE_UnnormalizedResource string
  | RRE_ResourceScopeNotRequested string
  | RRE_MissingResourceForScope string
  | RRE_EmptyResource string
  | RRE_ResolverRejected string string
  | RRE_EmptyCanonicalResource string
  | RRE_DuplicateConcreteResource string
  | RRE_DuplicateCriticalAction

section \<open>Deriving a request from a definition and its arguments\<close>

definition validate_derived_request_shape ::
    "string \<Rightarrow> string \<Rightarrow> string \<Rightarrow> capability_definition_body \<Rightarrow> invocation_resolution_error + unit" where
  "validate_derived_request_shape request_id run_id step_id d =
     and_then (reject_if (cdb_api_version d \<noteq> API_VERSION_V1ALPHA1)
       (IRE_UnsupportedDefinitionApiVersion (cdb_api_version d))) (\<lambda>_.
     and_then (reject_if (cdb_required_extensions d \<noteq> [])
       (IRE_UnsupportedRequiredExtensions (bs_list (bs_of_list (cdb_required_extensions d))))) (\<lambda>_.
     and_then (reject_if (request_id = [] \<or> run_id = [] \<or> step_id = []) IRE_EmptyInvocationIdentity) (\<lambda>_.
     reject_if (ce_resource_selectors (cs_effect (cdb_spec d)) = []) IRE_EmptyResourceSelectors)))"

definition as_str :: "json \<Rightarrow> string option" where
  "as_str v = (case v of JString s \<Rightarrow> Some s | _ \<Rightarrow> None)"

definition resolve_selected_resource ::
    "json_pointers \<Rightarrow> resource_resolver \<Rightarrow> json \<Rightarrow> resource_selector
      \<Rightarrow> invocation_resolution_error + string \<times> string \<times> concrete_resource" where
  "resolve_selected_resource jp resolve arguments s =
     and_then (ok_or (IRE_MissingResourceArgument (sel_scope s) (sel_argument_pointer s))
       (pointer jp arguments (sel_argument_pointer s))) (\<lambda>v.
     and_then (ok_or (IRE_ResourceArgumentMustBeString (sel_scope s) (sel_argument_pointer s)) (as_str v)) (\<lambda>raw.
     and_then (reject_if (raw = []) (IRE_EmptyResourceArgument (sel_scope s) (sel_argument_pointer s))) (\<lambda>_.
     and_then (map_err (\<lambda>e. IRE_ResolverRejected (sel_scope s) (resolution_failure_code e))
       (resolve (sel_scope s) raw)) (\<lambda>canonical_resource.
     and_then (reject_if (canonical_resource = []) (IRE_EmptyCanonicalResource (sel_scope s))) (\<lambda>_.
     Inr (sel_argument_pointer s, canonical_resource, ConcreteResource (sel_scope s) canonical_resource))))))"

definition normalize_resource_arguments ::
    "json_pointers \<Rightarrow> json \<Rightarrow> (string, string) btreemap \<Rightarrow> invocation_resolution_error + json" where
  "normalize_resource_arguments jp arguments canonical_by_pointer =
     try_fold (\<lambda>(p, canonical_resource) normalized.
         ok_or (IRE_NormalizationTargetLost p) (pointer_set jp normalized p (JString canonical_resource)))
       (bm_entries canonical_by_pointer) arguments"

record derived_invocation_resources =
  dir_normalized_arguments :: json
  dir_requested_scopes :: "string list"
  dir_resources :: "concrete_resource list"

text \<open>The comparator of the selector sort: by scope, then by pointer. The sort is stable.\<close>

definition selector_key :: "resource_selector \<Rightarrow> concrete_resource" where
  "selector_key s = ConcreteResource (sel_scope s) (sel_argument_pointer s)"

definition collect_selected ::
    "json_pointers \<Rightarrow> resource_resolver \<Rightarrow> json \<Rightarrow> resource_selector
      \<Rightarrow> string btreeset \<times> concrete_resource btreeset \<times> (string, string) btreemap
      \<Rightarrow> invocation_resolution_error + string btreeset \<times> concrete_resource btreeset \<times> (string, string) btreemap" where
  "collect_selected jp resolve arguments s acc =
     (case acc of (requested_scopes, resources, canonical_by_pointer) \<Rightarrow>
      and_then (resolve_selected_resource jp resolve arguments s) (\<lambda>(p, canonical_resource, resource).
      and_then (reject_if (case bm_get canonical_by_pointer p of None \<Rightarrow> False
          | Some existing \<Rightarrow> existing \<noteq> canonical_resource) (IRE_ConflictingPointerCanonicalization p)) (\<lambda>_.
      let canonical_by_pointer = bm_insert p canonical_resource canonical_by_pointer;
          requested_scopes = bs_insert (sel_scope s) requested_scopes in
      and_then (reject_if (bs_contains resources resource) (IRE_DuplicateConcreteResource (sel_scope s))) (\<lambda>_.
      Inr (requested_scopes, bs_insert resource resources, canonical_by_pointer)))))"

definition derive_invocation_resources ::
    "json_pointers \<Rightarrow> resource_resolver \<Rightarrow> capability_definition_body \<Rightarrow> json
      \<Rightarrow> invocation_resolution_error + derived_invocation_resources" where
  "derive_invocation_resources jp resolve d arguments =
     (let selectors = sort_key selector_key (ce_resource_selectors (cs_effect (cdb_spec d))) in
      and_then (try_fold (collect_selected jp resolve arguments) selectors (bs_empty, bs_empty, bm_empty))
        (\<lambda>(requested_scopes, resources, canonical_by_pointer).
      and_then (normalize_resource_arguments jp arguments canonical_by_pointer) (\<lambda>normalized_arguments.
      Inr \<lparr>dir_normalized_arguments = normalized_arguments,
           dir_requested_scopes = bs_list requested_scopes,
           dir_resources = bs_list resources\<rparr>)))"

definition normalized_critical_actions ::
    "capability_definition_body \<Rightarrow> invocation_resolution_error + critical_action list" where
  "normalized_critical_actions d =
     (let critical_actions = sort_key critical_action_rank (ce_critical_actions (cs_effect (cdb_spec d))) in
      and_then (reject_if (\<not> distinct_adj critical_actions) IRE_DuplicateCriticalAction) (\<lambda>_.
      Inr critical_actions))"

definition resolve_invocation ::
    "json_pointers \<Rightarrow> resource_resolver \<Rightarrow> string \<Rightarrow> string \<Rightarrow> string \<Rightarrow> capability_definition_body \<Rightarrow> json
      \<Rightarrow> grant_lifetime \<Rightarrow> invocation_resolution_error + resolved_invocation_request" where
  "resolve_invocation jp resolve request_id run_id step_id d arguments requested_lifetime =
     and_then (validate_derived_request_shape request_id run_id step_id d) (\<lambda>_.
     and_then (derive_invocation_resources jp resolve d arguments) (\<lambda>derived.
     and_then (normalized_critical_actions d) (\<lambda>critical_actions.
     Inr \<lparr>rir_permission_request =
            \<lparr>rpr_api_version = API_VERSION_V1ALPHA1, rpr_request_id = request_id, rpr_run_id = run_id,
             rpr_step_id = step_id,
             rpr_capability = \<lparr>cf_capability_id = cm_id (cdb_metadata d),
                               cf_contract_version = cm_contract_version (cdb_metadata d)\<rparr>,
             rpr_effect_class = ce_class (cs_effect (cdb_spec d)),
             rpr_requested_scopes = dir_requested_scopes derived,
             rpr_resources = dir_resources derived,
             rpr_critical_actions = critical_actions,
             rpr_requested_lifetime = requested_lifetime\<rparr>,
          rir_normalized_arguments = dir_normalized_arguments derived\<rparr>)))"

section \<open>Resolving a schema-validated request\<close>

definition collect_scope ::
    "string \<Rightarrow> string btreeset \<Rightarrow> request_resolution_error + string btreeset" where
  "collect_scope scope requested_scopes =
     and_then (reject_if (scope = []) RRE_EmptyRequestedScope) (\<lambda>_.
     and_then (reject_if (bs_contains requested_scopes scope) (RRE_DuplicateRequestedScope scope)) (\<lambda>_.
     Inr (bs_insert scope requested_scopes)))"

definition collect_resource ::
    "resource_resolver \<Rightarrow> string btreeset \<Rightarrow> resolved_resource \<Rightarrow> concrete_resource btreeset \<times> string btreeset
      \<Rightarrow> request_resolution_error + concrete_resource btreeset \<times> string btreeset" where
  "collect_resource resolve requested_scopes r acc =
     (case acc of (concrete_resources, represented_scopes) \<Rightarrow>
      and_then (reject_if (\<not> rr_normalized r) (RRE_UnnormalizedResource (rr_scope r))) (\<lambda>_.
      and_then (reject_if (\<not> bs_contains requested_scopes (rr_scope r))
        (RRE_ResourceScopeNotRequested (rr_scope r))) (\<lambda>_.
      and_then (reject_if (rr_resource r = []) (RRE_EmptyResource (rr_scope r))) (\<lambda>_.
      and_then (map_err (\<lambda>e. RRE_ResolverRejected (rr_scope r) (resolution_failure_code e))
        (resolve (rr_scope r) (rr_resource r))) (\<lambda>canonical_resource.
      and_then (reject_if (canonical_resource = []) (RRE_EmptyCanonicalResource (rr_scope r))) (\<lambda>_.
      let represented_scopes = bs_insert (rr_scope r) represented_scopes;
          resource = ConcreteResource (rr_scope r) canonical_resource in
      and_then (reject_if (bs_contains concrete_resources resource)
        (RRE_DuplicateConcreteResource (rr_scope r))) (\<lambda>_.
      Inr (bs_insert resource concrete_resources, represented_scopes))))))))"

definition resolve_schema_validated ::
    "resource_resolver \<Rightarrow> permission_request_body \<Rightarrow> request_resolution_error + resolved_permission_request" where
  "resolve_schema_validated resolve request =
     and_then (reject_if (prb_api_version request \<noteq> API_VERSION_V1ALPHA1)
       (RRE_UnsupportedApiVersion (prb_api_version request))) (\<lambda>_.
     let unsupported_extensions = bs_list (bs_of_list (prb_required_extensions request)) in
     and_then (reject_if (unsupported_extensions \<noteq> [])
       (RRE_UnsupportedRequiredExtensions unsupported_extensions)) (\<lambda>_.
     and_then (reject_if (prb_requested_scopes request = []) RRE_EmptyRequestedScopes) (\<lambda>_.
     and_then (try_fold collect_scope (prb_requested_scopes request) bs_empty) (\<lambda>requested_scopes.
     and_then (reject_if (prb_resolved_resources request = []) RRE_EmptyResolvedResources) (\<lambda>_.
     and_then (try_fold (collect_resource resolve requested_scopes) (prb_resolved_resources request)
       (bs_empty, bs_empty)) (\<lambda>(concrete_resources, represented_scopes).
     and_then (case find (\<lambda>scope. \<not> bs_contains represented_scopes scope) (bs_list requested_scopes) of
         None \<Rightarrow> Inr () | Some scope \<Rightarrow> Inl (RRE_MissingResourceForScope scope)) (\<lambda>_.
     let critical_actions = sort_key critical_action_rank (prb_critical_actions request) in
     and_then (reject_if (\<not> distinct_adj critical_actions) RRE_DuplicateCriticalAction) (\<lambda>_.
     Inr \<lparr>rpr_api_version = prb_api_version request, rpr_request_id = prb_request_id request,
          rpr_run_id = prb_run_id request, rpr_step_id = prb_step_id request,
          rpr_capability = prb_capability request, rpr_effect_class = prb_effect_class request,
          rpr_requested_scopes = bs_list requested_scopes,
          rpr_resources = bs_list concrete_resources,
          rpr_critical_actions = critical_actions,
          rpr_requested_lifetime = prb_requested_lifetime request\<rparr>))))))))"

section \<open>What a selector resolves to\<close>

definition selected_as ::
    "json_pointers \<Rightarrow> resource_resolver \<Rightarrow> json \<Rightarrow> resource_selector \<Rightarrow> string \<Rightarrow> bool" where
  "selected_as jp resolve arguments s c \<longleftrightarrow>
     (\<exists>raw. pointer jp arguments (sel_argument_pointer s) = Some (JString raw) \<and> raw \<noteq> []
       \<and> resolve (sel_scope s) raw = Inr c \<and> c \<noteq> [])"

lemma selected_as_unique:
  "selected_as jp resolve arguments s c \<Longrightarrow> selected_as jp resolve arguments s c' \<Longrightarrow> c = c'"
  by (auto simp: selected_as_def)

lemma as_str_iff: "as_str v = Some s \<longleftrightarrow> v = JString s"
  by (cases v) (auto simp: as_str_def)

lemma resolve_selected_iff:
  "resolve_selected_resource jp resolve arguments s = Inr (p, c, r) \<longleftrightarrow>
     p = sel_argument_pointer s \<and> selected_as jp resolve arguments s c \<and> r = ConcreteResource (sel_scope s) c"
  by (auto simp: resolve_selected_resource_def selected_as_def result_simps as_str_iff)

lemma collect_selected_Inr:
  assumes "collect_selected jp resolve arguments s (S, R, C) = Inr (S', R', C')"
  obtains c where "selected_as jp resolve arguments s c"
    and "S' = bs_insert (sel_scope s) S" and "R' = bs_insert (ConcreteResource (sel_scope s) c) R"
    and "C' = bm_insert (sel_argument_pointer s) c C"
    and "\<forall>x. bm_get C (sel_argument_pointer s) = Some x \<longrightarrow> x = c"
  using assms
  by (auto simp: collect_selected_def result_simps resolve_selected_iff Let_def split: option.splits)

lemma collect_selected_all:
  assumes "try_fold (collect_selected jp resolve arguments) ss (S, R, C) = Inr (S', R', C')"
  shows "(\<forall>s \<in> set ss. \<exists>c. selected_as jp resolve arguments s c \<and> bm_get C' (sel_argument_pointer s) = Some c)
    \<and> (\<forall>p c. bm_get C' p = Some c \<longrightarrow> bm_get C p = Some c
         \<or> (\<exists>s \<in> set ss. sel_argument_pointer s = p \<and> selected_as jp resolve arguments s c))
    \<and> (\<forall>p c. bm_get C p = Some c \<longrightarrow> bm_get C' p = Some c)
    \<and> (\<forall>r. bs_contains R' r \<longleftrightarrow> bs_contains R r
         \<or> (\<exists>s \<in> set ss. \<exists>c. selected_as jp resolve arguments s c \<and> r = ConcreteResource (sel_scope s) c))
    \<and> (\<forall>x. bs_contains S' x \<longleftrightarrow> bs_contains S x \<or> x \<in> sel_scope ` set ss)"
  using assms
proof (induction ss arbitrary: S R C)
  case (Cons s ss)
  obtain S1 R1 C1 where step: "collect_selected jp resolve arguments s (S, R, C) = Inr (S1, R1, C1)"
    and rest: "try_fold (collect_selected jp resolve arguments) ss (S1, R1, C1) = Inr (S', R', C')"
    using Cons.prems by (auto simp: result_simps)
  obtain c where c: "selected_as jp resolve arguments s c" "S1 = bs_insert (sel_scope s) S"
    "R1 = bs_insert (ConcreteResource (sel_scope s) c) R" "C1 = bm_insert (sel_argument_pointer s) c C"
    "\<forall>x. bm_get C (sel_argument_pointer s) = Some x \<longrightarrow> x = c"
    using step by (rule collect_selected_Inr)
  have only: "selected_as jp resolve arguments s c' \<longleftrightarrow> c' = c" for c'
    using c(1) selected_as_unique by blast
  note all = Cons.IH [OF rest]
  note IH = all [THEN conjunct1] all [THEN conjunct2, THEN conjunct1]
    all [THEN conjunct2, THEN conjunct2, THEN conjunct1]
    all [THEN conjunct2, THEN conjunct2, THEN conjunct2, THEN conjunct1]
    all [THEN conjunct2, THEN conjunct2, THEN conjunct2, THEN conjunct2]
  have kept: "bm_get C1 p = Some x" if "bm_get C p = Some x" for p x
    using that c(4,5) by auto
  show ?case
  proof (intro conjI)
    show "\<forall>s' \<in> set (s # ss). \<exists>c. selected_as jp resolve arguments s' c \<and> bm_get C' (sel_argument_pointer s') = Some c"
      using IH(1,3) c(1,4) by auto
    show "\<forall>p x. bm_get C' p = Some x \<longrightarrow> bm_get C p = Some x
         \<or> (\<exists>s \<in> set (s # ss). sel_argument_pointer s = p \<and> selected_as jp resolve arguments s x)"
    proof (intro allI impI)
      fix p x
      assume "bm_get C' p = Some x"
      then have "bm_get C1 p = Some x \<or> (\<exists>s \<in> set ss. sel_argument_pointer s = p \<and> selected_as jp resolve arguments s x)"
        using IH(2) by blast
      then show "bm_get C p = Some x \<or> (\<exists>s \<in> set (s # ss). sel_argument_pointer s = p \<and> selected_as jp resolve arguments s x)"
        using c(1,4) by (cases "p = sel_argument_pointer s") auto
    qed
    show "\<forall>p x. bm_get C p = Some x \<longrightarrow> bm_get C' p = Some x"
      using IH(3) kept by blast
    show "\<forall>r. bs_contains R' r \<longleftrightarrow> bs_contains R r
         \<or> (\<exists>s \<in> set (s # ss). \<exists>c. selected_as jp resolve arguments s c \<and> r = ConcreteResource (sel_scope s) c)"
      using IH(4) c(3) only by auto
    show "\<forall>x. bs_contains S' x \<longleftrightarrow> bs_contains S x \<or> x \<in> sel_scope ` set (s # ss)"
      using IH(5) c(2) by auto
  qed
qed simp

abbreviation selectors_of :: "capability_definition_body \<Rightarrow> resource_selector list" where
  "selectors_of d \<equiv> ce_resource_selectors (cs_effect (cdb_spec d))"

lemma derive_resources:
  assumes "derive_invocation_resources jp resolve d arguments = Inr r"
  obtains C where "normalize_resource_arguments jp arguments C = Inr (dir_normalized_arguments r)"
    and "\<And>s. s \<in> set (selectors_of d) \<Longrightarrow>
      \<exists>c. selected_as jp resolve arguments s c \<and> bm_get C (sel_argument_pointer s) = Some c"
    and "\<And>p c. bm_get C p = Some c \<Longrightarrow>
      \<exists>s \<in> set (selectors_of d). sel_argument_pointer s = p \<and> selected_as jp resolve arguments s c"
    and "set (dir_resources r) = {ConcreteResource (sel_scope s) c | s c.
      s \<in> set (selectors_of d) \<and> selected_as jp resolve arguments s c}"
    and "set (dir_requested_scopes r) = sel_scope ` set (selectors_of d)"
proof -
  obtain S R C where fold: "try_fold (collect_selected jp resolve arguments) (sort_key selector_key (selectors_of d))
      (bs_empty, bs_empty, bm_empty) = Inr (S, R, C)"
    and norm: "normalize_resource_arguments jp arguments C = Inr (dir_normalized_arguments r)"
    and eq: "dir_requested_scopes r = bs_list S" "dir_resources r = bs_list R"
    using assms by (auto simp: derive_invocation_resources_def result_simps Let_def)
  note all = collect_selected_all [OF fold, unfolded set_sort]
  show thesis
  proof (rule that [OF norm])
    show "\<exists>c. selected_as jp resolve arguments s c \<and> bm_get C (sel_argument_pointer s) = Some c"
      if "s \<in> set (selectors_of d)" for s
      using all that by blast
    show "\<exists>s \<in> set (selectors_of d). sel_argument_pointer s = p \<and> selected_as jp resolve arguments s c"
      if "bm_get C p = Some c" for p c
      using all that by fastforce
    show "set (dir_resources r) = {ConcreteResource (sel_scope s) c | s c.
        s \<in> set (selectors_of d) \<and> selected_as jp resolve arguments s c}"
      using all by (auto simp: eq set_bs_list)
    show "set (dir_requested_scopes r) = sel_scope ` set (selectors_of d)"
      using all by (auto simp: eq set_bs_list)
  qed
qed

lemma derived_scopes:
  assumes "derive_invocation_resources jp resolve d arguments = Inr r"
  shows "set (dir_requested_scopes r) = sel_scope ` set (selectors_of d)"
  using assms by (rule derive_resources)

section \<open>Normalized arguments\<close>

lemma normalize_writes:
  assumes laws: "json_pointer_laws jp"
    and "\<forall>p. bm_get C p \<noteq> None \<longrightarrow> rfc6901 p \<and> (\<exists>s. pointer jp arguments p = Some (JString s))"
  shows "\<exists>d'. normalize_resource_arguments jp arguments C = Inr d'
    \<and> (\<forall>p c. bm_get C p = Some c \<longrightarrow> pointer jp d' p = Some (JString c))
    \<and> (\<forall>q t. rfc6901 q \<and> bm_get C q = None \<and> pointer jp arguments q = Some (JString t)
         \<longrightarrow> pointer jp d' q = Some (JString t))"
proof -
  have ok: "\<forall>p \<in> fst ` set (bm_entries C). rfc6901 p \<and> (\<exists>s. pointer jp arguments p = Some (JString s))"
    using assms(2) by (auto simp: bm.in_entries_iff)
  have fresh: "q \<notin> fst ` set (bm_entries C)" if "bm_get C q = None" for q
    using that by (auto simp: bm.dom_get [symmetric])
  obtain d' where d': "normalize_resource_arguments jp arguments C = Inr d'"
    "\<And>p c. (p, c) \<in> set (bm_entries C) \<Longrightarrow> pointer jp d' p = Some (JString c)"
    "\<And>q t. rfc6901 q \<Longrightarrow> q \<notin> fst ` set (bm_entries C) \<Longrightarrow> pointer jp arguments q = Some (JString t)
      \<Longrightarrow> pointer jp d' q = Some (JString t)"
    using json_pointer_laws.write_strings [OF laws bm.distinct_keys ok, of IRE_NormalizationTargetLost]
    unfolding normalize_resource_arguments_def by blast
  then show ?thesis using fresh by (intro exI [of _ d'] conjI allI impI) (auto simp: bm.in_entries_iff)
qed

lemma derived_arguments:
  assumes "json_pointer_laws jp" and "\<forall>s \<in> set (selectors_of d). rfc6901 (sel_argument_pointer s)"
    and e: "derive_invocation_resources jp resolve d args = Inr e"
  shows "\<And>s. s \<in> set (selectors_of d) \<Longrightarrow> \<exists>c. selected_as jp resolve args s c"
    and "\<And>s c. s \<in> set (selectors_of d) \<Longrightarrow> selected_as jp resolve args s c \<Longrightarrow>
      pointer jp (dir_normalized_arguments e) (sel_argument_pointer s) = Some (JString c)"
    and "\<And>q t. rfc6901 q \<Longrightarrow> q \<notin> sel_argument_pointer ` set (selectors_of d) \<Longrightarrow>
      pointer jp args q = Some (JString t) \<Longrightarrow> pointer jp (dir_normalized_arguments e) q = Some (JString t)"
    and "set (dir_resources e) = {ConcreteResource (sel_scope s) c | s c.
      s \<in> set (selectors_of d) \<and> selected_as jp resolve args s c}"
    and "set (dir_requested_scopes e) = sel_scope ` set (selectors_of d)"
proof -
  obtain C where norm: "normalize_resource_arguments jp args C = Inr (dir_normalized_arguments e)"
    and into: "\<And>s. s \<in> set (selectors_of d) \<Longrightarrow> \<exists>c. selected_as jp resolve args s c \<and> bm_get C (sel_argument_pointer s) = Some c"
    and out: "\<And>p c. bm_get C p = Some c \<Longrightarrow> \<exists>s \<in> set (selectors_of d). sel_argument_pointer s = p \<and> selected_as jp resolve args s c"
    and res: "set (dir_resources e) = {ConcreteResource (sel_scope s) c | s c. s \<in> set (selectors_of d) \<and> selected_as jp resolve args s c}"
    and scopes: "set (dir_requested_scopes e) = sel_scope ` set (selectors_of d)"
    by (rule derive_resources [OF e], rule that) blast+
  have "\<forall>p. bm_get C p \<noteq> None \<longrightarrow> rfc6901 p \<and> (\<exists>s. pointer jp args p = Some (JString s))"
  proof (intro allI impI)
    fix p
    assume "bm_get C p \<noteq> None"
    then obtain c where "bm_get C p = Some c" by blast
    from out [OF this] assms(2) show "rfc6901 p \<and> (\<exists>s. pointer jp args p = Some (JString s))"
      by (auto simp: selected_as_def)
  qed
  from normalize_writes [OF assms(1) this] norm
  have written: "\<And>p c. bm_get C p = Some c \<Longrightarrow> pointer jp (dir_normalized_arguments e) p = Some (JString c)"
    and kept: "\<And>q t. rfc6901 q \<Longrightarrow> bm_get C q = None \<Longrightarrow> pointer jp args q = Some (JString t) \<Longrightarrow>
      pointer jp (dir_normalized_arguments e) q = Some (JString t)"
    by auto
  show "\<exists>c. selected_as jp resolve args s c" if "s \<in> set (selectors_of d)" for s
    using into [OF that] by blast
  show "pointer jp (dir_normalized_arguments e) (sel_argument_pointer s) = Some (JString c)"
    if "s \<in> set (selectors_of d)" "selected_as jp resolve args s c" for s c
    using into [OF that(1)] that(2) written selected_as_unique by metis
  show "pointer jp (dir_normalized_arguments e) q = Some (JString t)"
    if "rfc6901 q" "q \<notin> sel_argument_pointer ` set (selectors_of d)" "pointer jp args q = Some (JString t)" for q t
    using kept [OF that(1) _ that(3)] out [of q] that(2) by (cases "bm_get C q") auto
qed (rule derive_resources [OF e], assumption)+

section \<open>Resolved requests\<close>

definition canonical_of :: "resource_resolver \<Rightarrow> resolved_resource \<Rightarrow> concrete_resource" where
  "canonical_of resolve r = ConcreteResource (rr_scope r) (projr (resolve (rr_scope r) (rr_resource r)))"

definition resource_ok :: "resource_resolver \<Rightarrow> (string \<Rightarrow> bool) \<Rightarrow> resolved_resource \<Rightarrow> bool" where
  "resource_ok resolve requested r \<longleftrightarrow> rr_normalized r \<and> requested (rr_scope r) \<and> rr_resource r \<noteq> []
     \<and> (\<exists>c. resolve (rr_scope r) (rr_resource r) = Inr c \<and> c \<noteq> [])"

lemma collect_scopes_iff:
  "try_fold collect_scope xs S = Inr S' \<longleftrightarrow>
     [] \<notin> set xs \<and> distinct xs \<and> (\<forall>x \<in> set xs. \<not> bs_contains S x) \<and> S' = foldl (\<lambda>s x. bs_insert x s) S xs"
  by (induction xs arbitrary: S) (auto simp: collect_scope_def result_simps)

lemma collect_resource_iff:
  "collect_resource resolve scopes r (R, P) = Inr (R', P') \<longleftrightarrow>
     resource_ok resolve (bs_contains scopes) r \<and> \<not> bs_contains R (canonical_of resolve r)
     \<and> R' = bs_insert (canonical_of resolve r) R \<and> P' = bs_insert (rr_scope r) P"
  by (cases "resolve (rr_scope r) (rr_resource r)")
    (auto simp: collect_resource_def result_simps Let_def resource_ok_def canonical_of_def)

lemma collect_resources_iff:
  "try_fold (collect_resource resolve scopes) rs (R, P) = Inr (R', P') \<longleftrightarrow>
     (\<forall>r \<in> set rs. resource_ok resolve (bs_contains scopes) r \<and> \<not> bs_contains R (canonical_of resolve r))
     \<and> distinct (map (canonical_of resolve) rs)
     \<and> R' = foldl (\<lambda>s x. bs_insert x s) R (map (canonical_of resolve) rs)
     \<and> P' = foldl (\<lambda>s x. bs_insert x s) P (map rr_scope rs)"
proof (induction rs arbitrary: R P)
  case (Cons r rs)
  show ?case
  proof (cases "resource_ok resolve (bs_contains scopes) r \<and> \<not> bs_contains R (canonical_of resolve r)")
    case True
    then have "collect_resource resolve scopes r (R, P) =
        Inr (bs_insert (canonical_of resolve r) R, bs_insert (rr_scope r) P)"
      by (simp add: collect_resource_iff)
    then show ?thesis
      using True Cons.IH [of "bs_insert (canonical_of resolve r) R" "bs_insert (rr_scope r) P"]
      by (auto simp: image_iff)
  next
    case False
    then have "collect_resource resolve scopes r (R, P) \<noteq> Inr (a, b)" for a b
      by (simp add: collect_resource_iff)
    then show ?thesis using False by (auto simp: result_simps)
  qed
qed auto

lemma critical_rank_inject: "critical_action_rank a = critical_action_rank b \<Longrightarrow> a = b"
  by (cases a; cases b) simp_all

lemma sorted_distinct_adj: "sorted xs \<Longrightarrow> distinct_adj xs \<longleftrightarrow> distinct xs"
  by (induction xs rule: induct_list012) auto

lemma distinct_sorted_actions: "distinct_adj (sort_key critical_action_rank as) \<longleftrightarrow> distinct as"
proof -
  have inj: "inj_on critical_action_rank A" for A
    using critical_rank_inject by (auto simp: inj_on_def)
  have "distinct_adj (map critical_action_rank (sort_key critical_action_rank as)) \<longleftrightarrow>
      distinct (map critical_action_rank (sort_key critical_action_rank as))"
    by (rule sorted_distinct_adj) simp
  then show ?thesis
    using distinct_adj_map_iff [OF inj] by (simp add: distinct_map inj)
qed

lemma missing_scope_iff:
  "(case find (\<lambda>x. \<not> P x) xs of None \<Rightarrow> Inr () | Some x \<Rightarrow> Inl (e x)) = Inr () \<longleftrightarrow> (\<forall>x \<in> set xs. P x)"
  by (auto simp: find_None_iff find_Some_iff split: option.splits)

lemma resolve_schema_validated_iff:
  "resolve_schema_validated resolve q = Inr r \<longleftrightarrow>
     prb_api_version q = API_VERSION_V1ALPHA1 \<and> prb_required_extensions q = []
     \<and> prb_requested_scopes q \<noteq> [] \<and> [] \<notin> set (prb_requested_scopes q) \<and> distinct (prb_requested_scopes q)
     \<and> prb_resolved_resources q \<noteq> []
     \<and> (\<forall>w \<in> set (prb_resolved_resources q). resource_ok resolve (\<lambda>x. x \<in> set (prb_requested_scopes q)) w)
     \<and> distinct (map (canonical_of resolve) (prb_resolved_resources q))
     \<and> set (prb_requested_scopes q) \<subseteq> rr_scope ` set (prb_resolved_resources q)
     \<and> distinct (prb_critical_actions q)
     \<and> r = \<lparr>rpr_api_version = prb_api_version q, rpr_request_id = prb_request_id q,
            rpr_run_id = prb_run_id q, rpr_step_id = prb_step_id q, rpr_capability = prb_capability q,
            rpr_effect_class = prb_effect_class q,
            rpr_requested_scopes = sorted_list_of_set (set (prb_requested_scopes q)),
            rpr_resources = sorted_list_of_set (canonical_of resolve ` set (prb_resolved_resources q)),
            rpr_critical_actions = sort_key critical_action_rank (prb_critical_actions q),
            rpr_requested_lifetime = prb_requested_lifetime q\<rparr>"
proof -
  let ?S = "bs_of_list (prb_requested_scopes q)"
  have unlisted: "bs_list (bs_of_list xs) = [] \<longleftrightarrow> xs = []" for xs :: "string list"
    by (simp add: bs_list_of_list)
  have contains: "bs_contains ?S = (\<lambda>x. x \<in> set (prb_requested_scopes q))"
    by (rule ext) simp
  show ?thesis
    unfolding resolve_schema_validated_def Let_def
    by (auto simp: result_simps unlisted collect_scopes_iff collect_resources_iff missing_scope_iff
        bs_of_list_def [symmetric] contains set_bs_list bs_list_of_list distinct_sorted_actions)
qed

section \<open>A sample definition\<close>

definition sample_definition :: capability_definition_body where
  "sample_definition = \<lparr>cdb_api_version = API_VERSION_V1ALPHA1, cdb_extensions = bm_empty, cdb_required_extensions = [],
     cdb_metadata = \<lparr>cm_id = ''c'', cm_contract_version = ''1'', cm_display_name = ''n'', cm_labels = bm_empty\<rparr>,
     cdb_spec = \<lparr>cs_summary = ''s'', cs_input_schema = JNull, cs_output_schema = JNull,
       cs_effect = \<lparr>ce_class = DE_ReadOnly,
         ce_resource_selectors = [\<lparr>sel_scope = ''fs.read'', sel_argument_pointer = ''/p''\<rparr>], ce_critical_actions = []\<rparr>,
       cs_required_capabilities = [],
       cs_execution = \<lparr>cx_styles = [ES_Sync], cx_cancellable = False, cx_idempotency_key_supported = False,
         cx_durable_tool_output = False, cx_default_timeout_ms = 1, cx_max_timeout_ms = 1\<rparr>,
       cs_verification = [], cs_discovery = None\<rparr>\<rparr>"

definition sample_wire_request :: permission_request_body where
  "sample_wire_request = \<lparr>prb_api_version = API_VERSION_V1ALPHA1, prb_extensions = bm_empty,
     prb_required_extensions = [], prb_request_id = ''q'', prb_run_id = ''r'', prb_step_id = ''a'',
     prb_capability = \<lparr>cf_capability_id = ''c'', cf_contract_version = ''1''\<rparr>, prb_effect_class = DE_ReadOnly,
     prb_requested_scopes = [''fs.read''],
     prb_resolved_resources = [\<lparr>rr_scope = ''fs.read'', rr_resource = ''x'', rr_normalized = True, rr_metadata = bm_empty\<rparr>],
     prb_critical_actions = [], prb_requested_lifetime = GL_Once, prb_reason = ''w'', prb_created_at = ''t''\<rparr>"

lemma sample_invocation_resolves:
  "\<exists>r. resolve_invocation rfc_pointers (\<lambda>_ x. Inr x) ''q'' ''r'' ''a'' sample_definition (JObject [(''p'', JString ''x'')]) GL_Once = Inr r"
proof -
  have get: "pointer rfc_pointers (JObject [(''p'', JString ''x'')]) ''/p'' = Some (JString ''x'')"
    by (simp add: rfc_pointers_def pointer_tokens_def)
  have put: "pointer_set rfc_pointers (JObject [(''p'', JString ''x'')]) ''/p'' (JString ''x'') = Some (JObject [(''p'', JString ''x'')])"
    by (simp add: rfc_pointers_def pointer_tokens_def)
  show ?thesis
    by (simp add: resolve_invocation_def validate_derived_request_shape_def derive_invocation_resources_def
        sample_definition_def collect_selected_def resolve_selected_resource_def as_str_def get put
        normalize_resource_arguments_def normalized_critical_actions_def)
qed

section \<open>Properties\<close>

text \<open>
  C32. The arguments that will execute are the resources that were authorized: when
  \<open>resolve_invocation\<close> succeeds on a definition whose selectors are well-formed pointers, the
  normalized arguments hold, at every selector, a string that together with the selector's scope
  is a concrete resource of the permission request; every concrete resource of the request is the
  string at some selector of its scope; the requested scopes are exactly those of the selectors;
  and a string argument that no selector names is unchanged. The JSON library is assumed to obey
  the pointer laws.
\<close>

theorem arguments_match_authorized_resources:
  assumes "json_pointer_laws jp" and "\<forall>s \<in> set (selectors_of d). rfc6901 (sel_argument_pointer s)"
    and "resolve_invocation jp resolve rq run step d args lt = Inr r"
  shows "(\<forall>s \<in> set (selectors_of d). \<exists>c. pointer jp (rir_normalized_arguments r) (sel_argument_pointer s) = Some (JString c)
        \<and> ConcreteResource (sel_scope s) c \<in> set (rpr_resources (rir_permission_request r)))
    \<and> (\<forall>x \<in> set (rpr_resources (rir_permission_request r)). \<exists>s \<in> set (selectors_of d). sel_scope s = res_scope x
        \<and> pointer jp (rir_normalized_arguments r) (sel_argument_pointer s) = Some (JString (res_canonical_resource x)))
    \<and> set (rpr_requested_scopes (rir_permission_request r)) = sel_scope ` set (selectors_of d)
    \<and> (\<forall>q t. rfc6901 q \<and> q \<notin> sel_argument_pointer ` set (selectors_of d) \<and> pointer jp args q = Some (JString t)
        \<longrightarrow> pointer jp (rir_normalized_arguments r) q = Some (JString t))"
proof -
  obtain e where e: "derive_invocation_resources jp resolve d args = Inr e"
    and eq: "rpr_resources (rir_permission_request r) = dir_resources e"
      "rpr_requested_scopes (rir_permission_request r) = dir_requested_scopes e"
      "rir_normalized_arguments r = dir_normalized_arguments e"
    using assms(3) by (auto simp: resolve_invocation_def result_simps)
  note derived = derived_arguments [OF assms(1,2) e]
  show ?thesis
  proof (intro conjI)
    show "\<forall>s \<in> set (selectors_of d). \<exists>c. pointer jp (rir_normalized_arguments r) (sel_argument_pointer s) = Some (JString c)
        \<and> ConcreteResource (sel_scope s) c \<in> set (rpr_resources (rir_permission_request r))"
    proof
      fix s
      assume s: "s \<in> set (selectors_of d)"
      then obtain c where c: "selected_as jp resolve args s c" using derived(1) by blast
      then show "\<exists>c. pointer jp (rir_normalized_arguments r) (sel_argument_pointer s) = Some (JString c)
          \<and> ConcreteResource (sel_scope s) c \<in> set (rpr_resources (rir_permission_request r))"
        using derived(2) [OF s c] s by (auto simp: eq derived(4))
    qed
    show "\<forall>x \<in> set (rpr_resources (rir_permission_request r)). \<exists>s \<in> set (selectors_of d). sel_scope s = res_scope x
        \<and> pointer jp (rir_normalized_arguments r) (sel_argument_pointer s) = Some (JString (res_canonical_resource x))"
      using derived(2,4) by (auto simp: eq)
    show "set (rpr_requested_scopes (rir_permission_request r)) = sel_scope ` set (selectors_of d)"
      using derived(5) by (simp add: eq)
    show "\<forall>q t. rfc6901 q \<and> q \<notin> sel_argument_pointer ` set (selectors_of d) \<and> pointer jp args q = Some (JString t)
        \<longrightarrow> pointer jp (rir_normalized_arguments r) q = Some (JString t)"
      using derived(3) by (auto simp: eq)
  qed
qed

theorem arguments_match_authorized_resources_witness:
  "\<exists>r. resolve_invocation rfc_pointers (\<lambda>_ x. Inr x) ''q'' ''r'' ''a'' sample_definition (JObject [(''p'', JString ''x'')]) GL_Once = Inr r
     \<and> set (rpr_requested_scopes (rir_permission_request r)) = {''fs.read''}"
proof -
  obtain r where r: "resolve_invocation rfc_pointers (\<lambda>_ x. Inr x) ''q'' ''r'' ''a'' sample_definition
      (JObject [(''p'', JString ''x'')]) GL_Once = Inr r"
    using sample_invocation_resolves by blast
  have "\<forall>s \<in> set (selectors_of sample_definition). rfc6901 (sel_argument_pointer s)"
    by (simp add: sample_definition_def rfc6901_def)
  then show ?thesis
    using arguments_match_authorized_resources [OF rfc.json_pointer_laws_axioms _ r] r
    by (simp add: sample_definition_def)
qed

text \<open>
  \<open>resolve_schema_validated\<close> succeeds exactly on the consistent requests, and its result is
  determined: version supported, no required extension, scopes non-empty and distinct, every
  resource marked normalized, of a requested scope, non-empty and resolved by the trusted resolver
  to a non-empty identity, no two resources of the same identity, every scope represented, and
  critical actions distinct. The resolved request carries the scopes and the concrete resources
  in order and the critical actions in rank order.
\<close>

theorem wire_requests_resolve_exactly:
  "resolve_schema_validated resolve q = Inr r \<longleftrightarrow>
     prb_api_version q = API_VERSION_V1ALPHA1 \<and> prb_required_extensions q = []
     \<and> prb_requested_scopes q \<noteq> [] \<and> [] \<notin> set (prb_requested_scopes q) \<and> distinct (prb_requested_scopes q)
     \<and> prb_resolved_resources q \<noteq> []
     \<and> (\<forall>w \<in> set (prb_resolved_resources q). rr_normalized w \<and> rr_scope w \<in> set (prb_requested_scopes q)
          \<and> rr_resource w \<noteq> [] \<and> (\<exists>c. resolve (rr_scope w) (rr_resource w) = Inr c \<and> c \<noteq> []))
     \<and> distinct (map (canonical_of resolve) (prb_resolved_resources q))
     \<and> set (prb_requested_scopes q) \<subseteq> rr_scope ` set (prb_resolved_resources q)
     \<and> distinct (prb_critical_actions q)
     \<and> r = \<lparr>rpr_api_version = prb_api_version q, rpr_request_id = prb_request_id q,
            rpr_run_id = prb_run_id q, rpr_step_id = prb_step_id q, rpr_capability = prb_capability q,
            rpr_effect_class = prb_effect_class q,
            rpr_requested_scopes = sorted_list_of_set (set (prb_requested_scopes q)),
            rpr_resources = sorted_list_of_set (canonical_of resolve ` set (prb_resolved_resources q)),
            rpr_critical_actions = sort_key critical_action_rank (prb_critical_actions q),
            rpr_requested_lifetime = prb_requested_lifetime q\<rparr>"
  unfolding resolve_schema_validated_iff resource_ok_def ..

theorem wire_requests_resolve_exactly_witness:
  "\<exists>r. resolve_schema_validated (\<lambda>_ x. Inr x) sample_wire_request = Inr r
     \<and> rpr_resources r = [ConcreteResource ''fs.read'' ''x'']"
  using wire_requests_resolve_exactly [of "\<lambda>_ x. Inr x" sample_wire_request]
  by (simp add: sample_wire_request_def canonical_of_def)

end
