(* ===== verification/Policy_Broker.thy ===== *)
theory Policy_Broker
  imports Policy_Resolution
begin

text \<open>
  \<open>crates/xgeny-policy/src/broker.rs\<close>: the composition of the mandatory policy layers into one
  provisional decision. A stack is host and user profile, or host, user profile and managed
  lease. The lemmas characterise each outcome and show that restricting a layer, or adding one,
  never makes the decision more permissive.
\<close>

section \<open>Contributions of the layers\<close>

record policy_allowance =
  pa_scopes :: "string btreeset"
  pa_resources :: "concrete_resource btreeset"
  pa_critical_actions :: "critical_action list"
  pa_lifetimes :: "grant_lifetime list"

fun lifetime_rank :: "grant_lifetime \<Rightarrow> nat" where
  "lifetime_rank GL_Once = 0"
| "lifetime_rank GL_Run = 1"
| "lifetime_rank GL_Session = 2"
| "lifetime_rank GL_Project = 3"
| "lifetime_rank GL_Persistent = 4"

definition from_trusted_evaluation ::
    "string list \<Rightarrow> concrete_resource list \<Rightarrow> critical_action list \<Rightarrow> grant_lifetime list \<Rightarrow> policy_allowance" where
  "from_trusted_evaluation scopes resources critical_actions lifetimes =
     \<lparr>pa_scopes = bs_of_list scopes, pa_resources = bs_of_list resources,
      pa_critical_actions = remdups_adj (sort_key critical_action_rank critical_actions),
      pa_lifetimes = remdups_adj (sort_key lifetime_rank lifetimes)\<rparr>"

datatype contribution_verdict = CV_Allow policy_allowance | CV_Ask string | CV_Deny string

record policy_contribution =
  pc_source :: policy_source
  pc_verdict :: contribution_verdict

datatype policy_layers =
    PolicyLocal policy_contribution policy_contribution
  | PolicyManaged policy_contribution policy_contribution policy_contribution

record policy_inputs =
  pi_request :: resolved_permission_request
  pi_layers :: policy_layers

definition inputs_ordered :: "policy_inputs \<Rightarrow> (policy_source_kind \<times> policy_contribution) list" where
  "inputs_ordered i = (case pi_layers i of
     PolicyLocal host user_profile \<Rightarrow> [(PSK_Host, host), (PSK_UserProfile, user_profile)]
   | PolicyManaged host user_profile managed_lease \<Rightarrow>
       [(PSK_Host, host), (PSK_UserProfile, user_profile), (PSK_ManagedLease, managed_lease)])"

record policy_reason =
  pr_source :: "policy_source_kind option"
  pr_code :: string

record provisional_authorization =
  pz_lifetime :: grant_lifetime
  pz_scopes :: "string list"
  pz_resources :: "concrete_resource list"
  pz_critical_actions :: "critical_action list"

datatype broker_outcome =
    BO_Allow provisional_authorization "policy_source list"
  | BO_Ask "policy_source list" "policy_reason list"
  | BO_Deny "policy_source list" "policy_reason list"

datatype broker_error =
    BE_PolicyRequestMismatch
  | BE_SourceKindMismatch policy_source_kind policy_source_kind
  | BE_InvalidPolicySource policy_source_kind
  | BE_InvalidReasonCode policy_source_kind

record bound_policy_evaluation =
  bpe_request :: resolved_permission_request
  bpe_outcome :: broker_outcome

section \<open>Evaluation\<close>

definition valid_sha256_digest :: "string \<Rightarrow> bool" where
  "valid_sha256_digest digest \<longleftrightarrow>
     (case strip_prefix ''sha256:'' digest of None \<Rightarrow> False
      | Some hex \<Rightarrow> length hex = 64 \<and> list_all (\<lambda>b. is_ascii_hexdigit b \<and> \<not> is_ascii_uppercase b) hex)"

definition valid_reason_code :: "string \<Rightarrow> bool" where
  "valid_reason_code reason \<longleftrightarrow>
     (case reason of [] \<Rightarrow> False
      | b # bs \<Rightarrow> is_ascii_lowercase b \<and> length reason \<le> 100
          \<and> list_all (\<lambda>b. is_ascii_lowercase b \<or> is_ascii_digit b \<or> b \<in> set ''._-'') bs)"

definition validate_contribution ::
    "policy_source_kind \<Rightarrow> policy_contribution \<Rightarrow> broker_error + unit" where
  "validate_contribution expected c =
     (let actual = ps_kind (pc_source c) in
      and_then (reject_if (actual \<noteq> expected) (BE_SourceKindMismatch expected actual)) (\<lambda>_.
      and_then (reject_if (ps_id (pc_source c) = [] \<or> char_count (ps_id (pc_source c)) > 300
          \<or> has_control (ps_id (pc_source c)) \<or> \<not> valid_sha256_digest (ps_digest (pc_source c)))
        (BE_InvalidPolicySource actual)) (\<lambda>_.
      let reason = (case pc_verdict c of CV_Ask r \<Rightarrow> Some r | CV_Deny r \<Rightarrow> Some r | CV_Allow _ \<Rightarrow> None) in
      reject_if (case reason of None \<Rightarrow> False | Some r \<Rightarrow> \<not> valid_reason_code r)
        (BE_InvalidReasonCode actual))))"

definition reason_from_source :: "policy_source_kind \<Rightarrow> string \<Rightarrow> policy_reason" where
  "reason_from_source source code = \<lparr>pr_source = Some source, pr_code = code\<rparr>"

definition reason_broker :: "string \<Rightarrow> policy_reason" where
  "reason_broker code = \<lparr>pr_source = None, pr_code = code\<rparr>"

definition append_coverage_denials ::
    "resolved_permission_request \<Rightarrow> policy_source_kind \<Rightarrow> policy_allowance \<Rightarrow> policy_reason list \<Rightarrow> policy_reason list" where
  "append_coverage_denials request source a reasons =
     reasons
     @ (if list_ex (\<lambda>scope. \<not> bs_contains (pa_scopes a) scope) (rpr_requested_scopes request)
        then [reason_from_source source ''scope_not_allowed''] else [])
     @ (if list_ex (\<lambda>resource. \<not> bs_contains (pa_resources a) resource) (rpr_resources request)
        then [reason_from_source source ''resource_not_allowed''] else [])
     @ (if list_ex (\<lambda>action. action \<notin> set (pa_critical_actions a)) (rpr_critical_actions request)
        then [reason_from_source source ''critical_action_not_allowed''] else [])
     @ (if (rpr_requested_lifetime request) \<notin> set (pa_lifetimes a)
        then [reason_from_source source ''lifetime_not_allowed''] else [])"

definition collect_verdict ::
    "resolved_permission_request \<Rightarrow> policy_reason list \<times> policy_reason list
      \<Rightarrow> policy_source_kind \<times> policy_contribution \<Rightarrow> policy_reason list \<times> policy_reason list" where
  "collect_verdict request acc layer =
     (case (acc, layer) of ((deny_reasons, ask_reasons), (kind, c)) \<Rightarrow>
        case pc_verdict c of
          CV_Deny code \<Rightarrow> (deny_reasons @ [reason_from_source kind code], ask_reasons)
        | CV_Ask code \<Rightarrow> (deny_reasons, ask_reasons @ [reason_from_source kind code])
        | CV_Allow a \<Rightarrow> (append_coverage_denials request kind a deny_reasons, ask_reasons))"

definition evaluate ::
    "resolved_permission_request \<Rightarrow> policy_inputs \<Rightarrow> broker_error + broker_outcome" where
  "evaluate request i =
     and_then (reject_if (pi_request i \<noteq> request) BE_PolicyRequestMismatch) (\<lambda>_.
     let layers = inputs_ordered i in
     and_then (try_fold (\<lambda>(expected, c) _. validate_contribution expected c) layers ()) (\<lambda>_.
     let sources = map (\<lambda>(_, c). pc_source c) layers;
         (deny_reasons, ask_reasons) = foldl (collect_verdict request) ([], []) layers in
     if deny_reasons \<noteq> [] then Inr (BO_Deny sources deny_reasons)
     else
       let ask_reasons = (if rpr_critical_actions request \<noteq> []
             then ask_reasons @ [reason_broker ''critical_approval_required''] else ask_reasons) in
       if ask_reasons \<noteq> [] then Inr (BO_Ask sources ask_reasons)
       else Inr (BO_Allow
              \<lparr>pz_lifetime = rpr_requested_lifetime request, pz_scopes = rpr_requested_scopes request,
               pz_resources = rpr_resources request, pz_critical_actions = rpr_critical_actions request\<rparr>
              sources)))"

definition evaluate_bound ::
    "resolved_permission_request \<Rightarrow> policy_inputs \<Rightarrow> broker_error + bound_policy_evaluation" where
  "evaluate_bound request i =
     and_then (evaluate request i) (\<lambda>outcome. Inr \<lparr>bpe_request = request, bpe_outcome = outcome\<rparr>)"

section \<open>What each outcome means\<close>

definition covers :: "policy_allowance \<Rightarrow> resolved_permission_request \<Rightarrow> bool" where
  "covers a request \<longleftrightarrow>
     (\<forall>scope \<in> set (rpr_requested_scopes request). bs_contains (pa_scopes a) scope)
     \<and> (\<forall>r \<in> set (rpr_resources request). bs_contains (pa_resources a) r)
     \<and> set (rpr_critical_actions request) \<subseteq> set (pa_critical_actions a)
     \<and> rpr_requested_lifetime request \<in> set (pa_lifetimes a)"

fun refuses :: "resolved_permission_request \<Rightarrow> contribution_verdict \<Rightarrow> bool" where
  "refuses request (CV_Deny _) = True"
| "refuses request (CV_Ask _) = False"
| "refuses request (CV_Allow a) = (\<not> covers a request)"

fun asks :: "contribution_verdict \<Rightarrow> bool" where
  "asks (CV_Ask _) = True"
| "asks _ = False"

definition layers_valid :: "policy_inputs \<Rightarrow> bool" where
  "layers_valid i \<longleftrightarrow> (\<forall>(k, c) \<in> set (inputs_ordered i). validate_contribution k c = Inr ())"

lemma coverage_empty_iff: "append_coverage_denials request k a ds = [] \<longleftrightarrow> ds = [] \<and> covers a request"
  by (auto simp: append_coverage_denials_def covers_def list_ex_iff)

lemma collect_verdicts:
  "fst (foldl (collect_verdict request) (ds, qs) ls) = [] \<longleftrightarrow>
     ds = [] \<and> (\<forall>(k, c) \<in> set ls. \<not> refuses request (pc_verdict c))"
  "snd (foldl (collect_verdict request) (ds, qs) ls) = [] \<longleftrightarrow> qs = [] \<and> (\<forall>(k, c) \<in> set ls. \<not> asks (pc_verdict c))"
  by (induction ls arbitrary: ds qs)
    (auto simp: collect_verdict_def coverage_empty_iff split: contribution_verdict.splits)

lemma validate_layers_iff:
  "try_fold (\<lambda>(expected, c) _. validate_contribution expected c) ls () = Inr () \<longleftrightarrow>
     (\<forall>(k, c) \<in> set ls. validate_contribution k c = Inr ())"
  by (induction ls) (auto simp: result_simps)

definition refused :: "resolved_permission_request \<Rightarrow> policy_inputs \<Rightarrow> bool" where
  "refused request i \<longleftrightarrow> (\<exists>(k, c) \<in> set (inputs_ordered i). refuses request (pc_verdict c))"

definition questioned :: "resolved_permission_request \<Rightarrow> policy_inputs \<Rightarrow> bool" where
  "questioned request i \<longleftrightarrow> rpr_critical_actions request \<noteq> [] \<or> (\<exists>(k, c) \<in> set (inputs_ordered i). asks (pc_verdict c))"

lemma evaluate_cases:
  assumes "pi_request i = request" and "layers_valid i"
  shows "refused request i \<Longrightarrow> \<exists>ss rs. evaluate request i = Inr (BO_Deny ss rs)"
    and "\<not> refused request i \<Longrightarrow> questioned request i \<Longrightarrow> \<exists>ss rs. evaluate request i = Inr (BO_Ask ss rs)"
    and "\<not> refused request i \<Longrightarrow> \<not> questioned request i \<Longrightarrow> evaluate request i = Inr (BO_Allow
      \<lparr>pz_lifetime = rpr_requested_lifetime request, pz_scopes = rpr_requested_scopes request,
       pz_resources = rpr_resources request, pz_critical_actions = []\<rparr> (map (pc_source \<circ> snd) (inputs_ordered i)))"
proof -
  obtain ds qs where f: "foldl (collect_verdict request) ([], []) (inputs_ordered i) = (ds, qs)" by fastforce
  have ds: "ds = [] \<longleftrightarrow> \<not> refused request i"
    using collect_verdicts(1) [of request "[]" "[]" "inputs_ordered i"] by (auto simp: f refused_def)
  have qs: "qs = [] \<and> rpr_critical_actions request = [] \<longleftrightarrow> \<not> questioned request i"
    using collect_verdicts(2) [of request "[]" "[]" "inputs_ordered i"] by (auto simp: f questioned_def)
  have valid: "try_fold (\<lambda>(expected, c) _. validate_contribution expected c) (inputs_ordered i) () = Inr ()"
    using assms(2) by (simp add: validate_layers_iff layers_valid_def)
  note eval = evaluate_def [of request i, unfolded Let_def f valid and_then_simps prod.case]
  show "refused request i \<Longrightarrow> \<exists>ss rs. evaluate request i = Inr (BO_Deny ss rs)"
    using ds assms(1) by (simp add: eval)
  show "\<not> refused request i \<Longrightarrow> questioned request i \<Longrightarrow> \<exists>ss rs. evaluate request i = Inr (BO_Ask ss rs)"
    using ds qs assms(1) by (auto simp: eval)
  show "\<not> refused request i \<Longrightarrow> \<not> questioned request i \<Longrightarrow> evaluate request i = Inr (BO_Allow
      \<lparr>pz_lifetime = rpr_requested_lifetime request, pz_scopes = rpr_requested_scopes request,
       pz_resources = rpr_resources request, pz_critical_actions = []\<rparr> (map (pc_source \<circ> snd) (inputs_ordered i)))"
    using ds qs assms(1) by (auto simp: eval case_prod_beta')
qed

lemma evaluate_Inr_valid: "evaluate request i = Inr x \<Longrightarrow> pi_request i = request \<and> layers_valid i"
  by (auto simp: evaluate_def result_simps Let_def validate_layers_iff layers_valid_def)

lemma evaluate_outcome_iff:
  "(\<exists>ss rs. evaluate request i = Inr (BO_Deny ss rs)) \<longleftrightarrow> pi_request i = request \<and> layers_valid i \<and> refused request i"
  "(\<exists>ss rs. evaluate request i = Inr (BO_Ask ss rs)) \<longleftrightarrow>
     pi_request i = request \<and> layers_valid i \<and> \<not> refused request i \<and> questioned request i"
  "evaluate request i = Inr (BO_Allow z ss) \<longleftrightarrow>
     pi_request i = request \<and> layers_valid i \<and> \<not> refused request i \<and> \<not> questioned request i
     \<and> z = \<lparr>pz_lifetime = rpr_requested_lifetime request, pz_scopes = rpr_requested_scopes request,
            pz_resources = rpr_resources request, pz_critical_actions = []\<rparr>
     \<and> ss = map (pc_source \<circ> snd) (inputs_ordered i)"
proof -
  let ?z = "BO_Allow \<lparr>pz_lifetime = rpr_requested_lifetime request, pz_scopes = rpr_requested_scopes request,
    pz_resources = rpr_resources request, pz_critical_actions = []\<rparr> (map (pc_source \<circ> snd) (inputs_ordered i))"
  consider (error) "\<And>x. evaluate request i \<noteq> Inr x" "\<not> (pi_request i = request \<and> layers_valid i)"
    | (deny) ss' rs' where "pi_request i = request" "layers_valid i" "refused request i"
        "evaluate request i = Inr (BO_Deny ss' rs')"
    | (ask) ss' rs' where "pi_request i = request" "layers_valid i" "\<not> refused request i" "questioned request i"
        "evaluate request i = Inr (BO_Ask ss' rs')"
    | (allow) "pi_request i = request" "layers_valid i" "\<not> refused request i" "\<not> questioned request i"
        "evaluate request i = Inr ?z"
    using evaluate_cases [of i request] evaluate_Inr_valid [of request i] by metis
  note four = this
  show "(\<exists>ss rs. evaluate request i = Inr (BO_Deny ss rs)) \<longleftrightarrow>
      pi_request i = request \<and> layers_valid i \<and> refused request i"
    by (cases rule: four) auto
  show "(\<exists>ss rs. evaluate request i = Inr (BO_Ask ss rs)) \<longleftrightarrow>
      pi_request i = request \<and> layers_valid i \<and> \<not> refused request i \<and> questioned request i"
    by (cases rule: four) auto
  show "evaluate request i = Inr (BO_Allow z ss) \<longleftrightarrow>
      pi_request i = request \<and> layers_valid i \<and> \<not> refused request i \<and> \<not> questioned request i
      \<and> z = \<lparr>pz_lifetime = rpr_requested_lifetime request, pz_scopes = rpr_requested_scopes request,
             pz_resources = rpr_resources request, pz_critical_actions = []\<rparr>
      \<and> ss = map (pc_source \<circ> snd) (inputs_ordered i)"
    by (cases rule: four) auto
qed

section \<open>Restricting the policy\<close>

text \<open>
  When one verdict is at least as restrictive as another for a request. A layer that asks is not
  compared with an allowance that does not cover the request: such an allowance refuses, and
  asking instead would be weaker.
\<close>

fun narrower :: "resolved_permission_request \<Rightarrow> contribution_verdict \<Rightarrow> contribution_verdict \<Rightarrow> bool" where
  "narrower request (CV_Deny _) v = True"
| "narrower request (CV_Ask _) (CV_Ask _) = True"
| "narrower request (CV_Ask _) (CV_Allow a) = covers a request"
| "narrower request (CV_Allow b) (CV_Allow a) =
     ((\<forall>x. bs_contains (pa_scopes b) x \<longrightarrow> bs_contains (pa_scopes a) x)
      \<and> (\<forall>x. bs_contains (pa_resources b) x \<longrightarrow> bs_contains (pa_resources a) x)
      \<and> set (pa_critical_actions b) \<subseteq> set (pa_critical_actions a) \<and> set (pa_lifetimes b) \<subseteq> set (pa_lifetimes a))"
| "narrower request _ _ = False"

definition restricts :: "resolved_permission_request \<Rightarrow> policy_inputs \<Rightarrow> policy_inputs \<Rightarrow> bool" where
  "restricts request j i \<longleftrightarrow> (\<forall>(k, c) \<in> set (inputs_ordered i).
     \<exists>(l, d) \<in> set (inputs_ordered j). l = k \<and> narrower request (pc_verdict d) (pc_verdict c))"

fun permissiveness :: "broker_outcome \<Rightarrow> nat" where
  "permissiveness (BO_Deny _ _) = 0"
| "permissiveness (BO_Ask _ _) = 1"
| "permissiveness (BO_Allow _ _) = 2"

lemma narrower_refuses: "narrower request d c \<Longrightarrow> refuses request c \<Longrightarrow> refuses request d"
  by (cases "(request, d, c)" rule: narrower.cases) (auto simp: covers_def)

lemma narrower_asks: "narrower request d c \<Longrightarrow> asks c \<Longrightarrow> refuses request d \<or> asks d"
  by (cases "(request, d, c)" rule: narrower.cases) auto

lemma restricts_refused: "restricts request j i \<Longrightarrow> refused request i \<Longrightarrow> refused request j"
  unfolding restricts_def refused_def using narrower_refuses by fast

lemma restricts_questioned:
  "restricts request j i \<Longrightarrow> questioned request i \<Longrightarrow> refused request j \<or> questioned request j"
  unfolding restricts_def refused_def questioned_def using narrower_asks by fast

lemma permissiveness_eq:
  assumes "evaluate request i = Inr x"
  shows "permissiveness x = (if refused request i then 0 else if questioned request i then 1 else 2)"
  using assms evaluate_outcome_iff [of request i] evaluate_Inr_valid [OF assms] by (cases x) auto

lemma broker_outcomes:
  "(\<exists>ss rs. evaluate request i = Inr (BO_Deny ss rs)) \<longleftrightarrow>
     pi_request i = request \<and> layers_valid i
     \<and> (\<exists>(k, c) \<in> set (inputs_ordered i). (\<exists>r. pc_verdict c = CV_Deny r)
          \<or> (\<exists>a. pc_verdict c = CV_Allow a \<and> \<not> covers a request))"
  "(\<exists>ss rs. evaluate request i = Inr (BO_Ask ss rs)) \<longleftrightarrow>
     pi_request i = request \<and> layers_valid i
     \<and> (\<forall>(k, c) \<in> set (inputs_ordered i). (\<exists>r. pc_verdict c = CV_Ask r)
          \<or> (\<exists>a. pc_verdict c = CV_Allow a \<and> covers a request))
     \<and> (rpr_critical_actions request \<noteq> [] \<or> (\<exists>(k, c) \<in> set (inputs_ordered i). \<exists>r. pc_verdict c = CV_Ask r))"
proof -
  have refuses: "refuses request v \<longleftrightarrow> (\<exists>r. v = CV_Deny r) \<or> (\<exists>a. v = CV_Allow a \<and> \<not> covers a request)" for v
    by (cases v) auto
  have accepts: "\<not> refuses request v \<longleftrightarrow> (\<exists>r. v = CV_Ask r) \<or> (\<exists>a. v = CV_Allow a \<and> covers a request)" for v
    by (cases v) auto
  have asking: "asks v \<longleftrightarrow> (\<exists>r. v = CV_Ask r)" for v by (cases v) auto
  show "(\<exists>ss rs. evaluate request i = Inr (BO_Deny ss rs)) \<longleftrightarrow>
     pi_request i = request \<and> layers_valid i
     \<and> (\<exists>(k, c) \<in> set (inputs_ordered i). (\<exists>r. pc_verdict c = CV_Deny r)
          \<or> (\<exists>a. pc_verdict c = CV_Allow a \<and> \<not> covers a request))"
    unfolding evaluate_outcome_iff(1) refused_def refuses ..
  have none: "\<not> refused request i \<longleftrightarrow> (\<forall>(k, c) \<in> set (inputs_ordered i). (\<exists>r. pc_verdict c = CV_Ask r)
          \<or> (\<exists>a. pc_verdict c = CV_Allow a \<and> covers a request))"
    unfolding refused_def accepts [symmetric] by fast
  show "(\<exists>ss rs. evaluate request i = Inr (BO_Ask ss rs)) \<longleftrightarrow>
     pi_request i = request \<and> layers_valid i
     \<and> (\<forall>(k, c) \<in> set (inputs_ordered i). (\<exists>r. pc_verdict c = CV_Ask r)
          \<or> (\<exists>a. pc_verdict c = CV_Allow a \<and> covers a request))
     \<and> (rpr_critical_actions request \<noteq> [] \<or> (\<exists>(k, c) \<in> set (inputs_ordered i). \<exists>r. pc_verdict c = CV_Ask r))"
    unfolding evaluate_outcome_iff(2) none questioned_def asking ..
qed

section \<open>Sample inputs\<close>

definition sample_source :: "policy_source_kind \<Rightarrow> policy_source" where
  "sample_source k = \<lparr>ps_kind = k, ps_id = ''p'', ps_digest = ''sha256:'' @ replicate 64 (CHR ''0'')\<rparr>"

definition sample_request :: resolved_permission_request where
  "sample_request = \<lparr>rpr_api_version = API_VERSION_V1ALPHA1, rpr_request_id = ''q'', rpr_run_id = ''r'',
     rpr_step_id = ''a'', rpr_capability = \<lparr>cf_capability_id = ''c'', cf_contract_version = ''1''\<rparr>,
     rpr_effect_class = DE_ReadOnly, rpr_requested_scopes = [''fs.read''],
     rpr_resources = [ConcreteResource ''fs.read'' ''x''], rpr_critical_actions = [],
     rpr_requested_lifetime = GL_Once\<rparr>"

definition sample_allow :: "policy_source_kind \<Rightarrow> policy_contribution" where
  "sample_allow k = \<lparr>pc_source = sample_source k,
     pc_verdict = CV_Allow (from_trusted_evaluation [''fs.read''] [ConcreteResource ''fs.read'' ''x''] [] [GL_Once])\<rparr>"

definition sample_inputs :: "contribution_verdict \<Rightarrow> policy_inputs" where
  "sample_inputs v = \<lparr>pi_request = sample_request,
     pi_layers = PolicyLocal (sample_allow PSK_Host) ((sample_allow PSK_UserProfile)\<lparr>pc_verdict := v\<rparr>)\<rparr>"

lemma sample_layers:
  "layers_valid (sample_inputs (CV_Deny ''no''))"
  "layers_valid (sample_inputs (pc_verdict (sample_allow PSK_UserProfile)))"
proof -
  have digest: "valid_sha256_digest (''sha256:'' @ replicate 64 (CHR ''0''))"
    unfolding valid_sha256_digest_def strip_prefix_append
    by (simp add: list_all_iff is_ascii_hexdigit_def is_ascii_digit_def is_ascii_uppercase_def byte_val_def)
  have source: "char_count ''p'' \<le> 300" "\<not> has_control ''p''" "valid_reason_code ''no''"
    by (simp_all add: char_count_def has_control_def byte_val_def valid_reason_code_def is_ascii_lowercase_def)
  show "layers_valid (sample_inputs (CV_Deny ''no''))"
    "layers_valid (sample_inputs (pc_verdict (sample_allow PSK_UserProfile)))"
    using digest source
    by (simp_all add: layers_valid_def inputs_ordered_def sample_inputs_def sample_allow_def sample_source_def
        validate_contribution_def del: append.simps)
qed

section \<open>Properties\<close>

text \<open>
  C29. The broker allows exactly what every mandatory layer grants: an evaluation returns
  \<open>Allow\<close> if and only if the inputs were evaluated for this request, every contribution is well
  formed, every layer is an allowance that contains all requested scopes, all concrete resources
  and the requested lifetime, and the request has no critical action. The provisional
  authorization is then the request's own scopes, resources and lifetime, with no critical
  action, and the sources are those of the layers in order.
\<close>

theorem broker_allows_exactly:
  "evaluate request i = Inr (BO_Allow z ss) \<longleftrightarrow>
     pi_request i = request
     \<and> (\<forall>(k, c) \<in> set (inputs_ordered i). validate_contribution k c = Inr ()
         \<and> (\<exists>a. pc_verdict c = CV_Allow a
             \<and> (\<forall>x \<in> set (rpr_requested_scopes request). bs_contains (pa_scopes a) x)
             \<and> (\<forall>x \<in> set (rpr_resources request). bs_contains (pa_resources a) x)
             \<and> rpr_requested_lifetime request \<in> set (pa_lifetimes a)))
     \<and> rpr_critical_actions request = []
     \<and> z = \<lparr>pz_lifetime = rpr_requested_lifetime request, pz_scopes = rpr_requested_scopes request,
            pz_resources = rpr_resources request, pz_critical_actions = []\<rparr>
     \<and> ss = map (pc_source \<circ> snd) (inputs_ordered i)"
proof -
  have verdict: "\<not> refuses request v \<and> \<not> asks v \<longleftrightarrow> (\<exists>a. v = CV_Allow a \<and> covers a request)" for v
    by (cases v) auto
  have "layers_valid i \<and> \<not> refused request i \<and> \<not> questioned request i \<longleftrightarrow>
      (\<forall>(k, c) \<in> set (inputs_ordered i). validate_contribution k c = Inr ()
        \<and> (\<exists>a. pc_verdict c = CV_Allow a \<and> covers a request)) \<and> rpr_critical_actions request = []"
    unfolding layers_valid_def refused_def questioned_def verdict [symmetric] by fast
  then show ?thesis
    unfolding evaluate_outcome_iff(3) by (auto simp: covers_def)
qed

theorem broker_allows_exactly_witness:
  "\<exists>z ss. evaluate sample_request (sample_inputs (pc_verdict (sample_allow PSK_UserProfile))) = Inr (BO_Allow z ss)"
  using broker_allows_exactly [of sample_request "sample_inputs (pc_verdict (sample_allow PSK_UserProfile))"]
    sample_layers(2)
  by (auto simp: layers_valid_def sample_inputs_def inputs_ordered_def sample_allow_def sample_request_def
      from_trusted_evaluation_def)

text \<open>
  Denial takes precedence and is justified: a well-formed evaluation returns \<open>Deny\<close> if and
  only if some layer denies, or some layer's allowance lacks a requested scope, a concrete
  resource, a critical action or the requested lifetime, whatever the other layers ask; and it
  returns \<open>Ask\<close> if and only if no layer refuses in this sense and some layer asks or the request
  has a critical action.
\<close>

theorem broker_denies_over_asks:
  "((\<exists>ss rs. evaluate request i = Inr (BO_Deny ss rs)) \<longleftrightarrow>
     pi_request i = request \<and> layers_valid i
     \<and> (\<exists>(k, c) \<in> set (inputs_ordered i). (\<exists>r. pc_verdict c = CV_Deny r)
          \<or> (\<exists>a. pc_verdict c = CV_Allow a \<and> \<not> covers a request)))
   \<and> ((\<exists>ss rs. evaluate request i = Inr (BO_Ask ss rs)) \<longleftrightarrow>
     pi_request i = request \<and> layers_valid i
     \<and> (\<forall>(k, c) \<in> set (inputs_ordered i). (\<exists>r. pc_verdict c = CV_Ask r)
          \<or> (\<exists>a. pc_verdict c = CV_Allow a \<and> covers a request))
     \<and> (rpr_critical_actions request \<noteq> [] \<or> (\<exists>(k, c) \<in> set (inputs_ordered i). \<exists>r. pc_verdict c = CV_Ask r)))"
  using broker_outcomes by blast

theorem broker_denies_over_asks_witness:
  "\<exists>ss rs. evaluate sample_request (sample_inputs (CV_Deny ''no'')) = Inr (BO_Deny ss rs)"
  using broker_denies_over_asks [of sample_request "sample_inputs (CV_Deny ''no'')"] sample_layers(1)
  by (simp add: sample_inputs_def inputs_ordered_def)

text \<open>
  C31. The composition is monotone: if every layer of one stack has, under the same source kind,
  a counterpart in another stack that is at least as restrictive for the request (a denial, an
  ask in place of an ask or of a sufficient allowance, or a smaller allowance), the outcome of the
  second stack is at most as permissive, in the order deny, ask, allow. Adding a managed lease to
  a local stack is the special case in which only a layer is added.
\<close>

theorem broker_is_monotone:
  assumes "evaluate request i = Inr x" and "evaluate request j = Inr y" and "restricts request j i"
  shows "permissiveness y \<le> permissiveness x"
  unfolding permissiveness_eq [OF assms(1)] permissiveness_eq [OF assms(2)]
  using restricts_refused [OF assms(3)] restricts_questioned [OF assms(3)] by auto

theorem broker_is_monotone_witness:
  "\<exists>x y. evaluate sample_request (sample_inputs (pc_verdict (sample_allow PSK_UserProfile))) = Inr x
     \<and> evaluate sample_request (sample_inputs (CV_Deny ''no'')) = Inr y \<and> permissiveness y \<le> permissiveness x"
proof -
  have "restricts sample_request (sample_inputs (CV_Deny ''no'')) (sample_inputs (pc_verdict (sample_allow PSK_UserProfile)))"
    by (simp add: restricts_def inputs_ordered_def sample_inputs_def sample_allow_def)
  moreover obtain x where "evaluate sample_request (sample_inputs (pc_verdict (sample_allow PSK_UserProfile))) = Inr x"
    using evaluate_cases [OF _ sample_layers(2), of sample_request] by (auto simp: sample_inputs_def)
  moreover obtain y where "evaluate sample_request (sample_inputs (CV_Deny ''no'')) = Inr y"
    using evaluate_cases [OF _ sample_layers(1), of sample_request] by (auto simp: sample_inputs_def)
  ultimately show ?thesis using broker_is_monotone by blast
qed

end
