(* ===== verification/Capability_Router.thy ===== *)
theory Capability_Router
  imports Capability_Registry Policy_Broker "HOL-Library.Product_Lexorder"
begin

unbundle bit_operations_syntax

text \<open>
  \<open>crates/xgeny-runtime/src/router.rs\<close>: hard filters on the instances of a capability, a
  lexicographic ranking of the survivors, the pin and the policy gate. Floating-point hints are
  bit patterns, compared by the total order of IEEE 754 as \<open>f64::total_cmp\<close> does. A stable
  \<open>sort_by\<close> is insertion sort with the same comparator. The lemmas show that the comparator is a
  linear order on a key, so that the ranking is a sorting by that key.
\<close>

section \<open>Requests and outcomes\<close>

record required_route_features =
  rf_execution_style :: execution_style
  rf_cancellation :: bool
  rf_idempotency_key :: bool
  rf_idempotency_query :: bool

record route_request =
  rt_capability :: capability_ref
  rt_target_platform :: platform
  rt_required_features :: required_route_features
  rt_allowed_trust_levels :: "trust_level list"
  rt_allowed_data_boundaries :: "data_boundary list"
  rt_trust_preference :: "trust_level list"
  rt_data_boundary_preference :: "data_boundary list"
  rt_preferred_instance_ids :: "string list"
  rt_pinned_instance_id :: "string option"

datatype candidate_eligibility = PlacementEligible | Rejected

datatype route_reason =
    PlatformOsMismatch
  | PlatformArchitectureMismatch
  | HealthDegraded
  | HealthUnavailable
  | HealthUnknown
  | AuthRequired
  | AuthExpired
  | TrustNotAllowed
  | DataBoundaryNotAllowed
  | DefinitionExtensionUnsupported string
  | InstanceExtensionUnsupported string
  | ExecutionStyleUnsupported execution_style
  | CancellationUnsupported
  | IdempotencyKeyUnsupported
  | IdempotencyQueryUnsupported
  | InvalidCostHint
  | InvalidReliabilityHint

definition rejects_candidate :: "route_reason \<Rightarrow> bool" where
  "rejects_candidate r \<longleftrightarrow> r \<noteq> HealthDegraded"

record route_candidate_evaluation =
  rc_instance_id :: string
  rc_eligibility :: candidate_eligibility
  rc_reasons :: "route_reason list"

datatype route_selection_reason = Pinned | OnlyPlacementEligibleCandidate | LexicographicRanking

datatype route_interaction_reason = PolicyApprovalRequired | CriticalApprovalRequired

datatype route_block_reason =
    NoCandidates
  | NoPlacementEligibleCandidates
  | PolicyMissing
  | PolicyDenied
  | PinnedInstanceNotFound
  | PinnedInstanceCapabilityMismatch
  | PinnedInstanceIneligible

datatype route_outcome =
    RouteSelected string "string list" "route_candidate_evaluation list" route_selection_reason
  | RouteInteractionRequired "string list" "route_candidate_evaluation list" "route_interaction_reason list"
      "policy_reason list"
  | RouteBlocked "string list" "route_candidate_evaluation list" "route_block_reason list" "policy_reason list"

datatype route_input_error =
    RIE_TargetPlatformMustBeConcrete
  | RIE_AllowedTrustLevelsEmpty
  | RIE_AllowedDataBoundariesEmpty
  | RIE_DuplicateAllowedTrustLevel trust_level
  | RIE_DuplicateAllowedDataBoundary data_boundary
  | RIE_TrustPreferenceNotAllowed trust_level
  | RIE_DuplicateTrustPreference trust_level
  | RIE_DataBoundaryPreferenceNotAllowed data_boundary
  | RIE_DuplicateDataBoundaryPreference data_boundary
  | RIE_EmptyPreferredInstanceId
  | RIE_DuplicatePreferredInstanceId string
  | RIE_EmptyPinnedInstanceId
  | RIE_DefinitionNotFound string string
  | RIE_PolicyCapabilityMismatch
  | RIE_PolicyEffectClassMismatch domain_effect_class domain_effect_class
  | RIE_PolicyCriticalActionsMismatch
  | RIE_PolicyScopesMismatch

section \<open>Floating-point hints\<close>

definition f64_sign :: "f64 \<Rightarrow> bool" where
  "f64_sign b \<longleftrightarrow> bit b 63"

definition f64_magnitude :: "f64 \<Rightarrow> f64" where
  "f64_magnitude b = b AND 0x7FFFFFFFFFFFFFFF"

definition f64_is_finite :: "f64 \<Rightarrow> bool" where
  "f64_is_finite b \<longleftrightarrow> f64_magnitude b < 0x7FF0000000000000"

definition f64_is_nan :: "f64 \<Rightarrow> bool" where
  "f64_is_nan b \<longleftrightarrow> f64_magnitude b > 0x7FF0000000000000"

definition f64_negative :: "f64 \<Rightarrow> bool" where
  "f64_negative b \<longleftrightarrow> \<not> f64_is_nan b \<and> f64_sign b \<and> f64_magnitude b \<noteq> 0"

definition f64_in_unit_range :: "f64 \<Rightarrow> bool" where
  "f64_in_unit_range b \<longleftrightarrow> f64_magnitude b = 0 \<or> \<not> f64_sign b \<and> f64_magnitude b \<le> 0x3FF0000000000000"

definition normalize_zero :: "f64 \<Rightarrow> f64" where
  "normalize_zero b = (if f64_magnitude b = 0 then 0 else b)"

text \<open>\<open>total_cmp\<close> compares the bits as signed integers after flipping the magnitude of negative numbers.\<close>

definition f64_total_key :: "f64 \<Rightarrow> int" where
  "f64_total_key b = sint (if f64_sign b then b XOR 0x7FFFFFFFFFFFFFFF else b)"

section \<open>Comparators\<close>

datatype ordering = Less | Equal | Greater

definition cmp :: "'a::linorder \<Rightarrow> 'a \<Rightarrow> ordering" where
  "cmp a b = (if a < b then Less else if a = b then Equal else Greater)"

definition then_with :: "ordering \<Rightarrow> ordering \<Rightarrow> ordering" where
  "then_with a b = (case a of Equal \<Rightarrow> b | _ \<Rightarrow> a)"

fun compare_optional :: "('a \<Rightarrow> 'a \<Rightarrow> ordering) \<Rightarrow> 'a option \<Rightarrow> 'a option \<Rightarrow> ordering" where
  "compare_optional c (Some l) (Some r) = c l r"
| "compare_optional c (Some _) None = Less"
| "compare_optional c None (Some _) = Greater"
| "compare_optional c None None = Equal"

definition compare_optional_ord_asc :: "'a::linorder option \<Rightarrow> 'a option \<Rightarrow> ordering" where
  "compare_optional_ord_asc = compare_optional cmp"

definition compare_optional_f64_asc :: "f64 option \<Rightarrow> f64 option \<Rightarrow> ordering" where
  "compare_optional_f64_asc =
     compare_optional (\<lambda>l r. cmp (f64_total_key (normalize_zero l)) (f64_total_key (normalize_zero r)))"

definition compare_optional_f64_desc :: "f64 option \<Rightarrow> f64 option \<Rightarrow> ordering" where
  "compare_optional_f64_desc =
     compare_optional (\<lambda>l r. cmp (f64_total_key (normalize_zero r)) (f64_total_key (normalize_zero l)))"

fun health_rank :: "health_status \<Rightarrow> nat" where
  "health_rank HS_Available = 0"
| "health_rank HS_Degraded = 1"
| "health_rank HS_Unavailable = 2"
| "health_rank HS_Unknown = 2"

fun position :: "('a \<Rightarrow> bool) \<Rightarrow> 'a list \<Rightarrow> nat option" where
  "position P [] = None"
| "position P (x # xs) = (if P x then Some 0 else map_option Suc (position P xs))"

definition preference_rank :: "'a list \<Rightarrow> 'a \<Rightarrow> usize" where
  "preference_rank preference v =
     (case position (\<lambda>candidate. candidate = v) preference of None \<Rightarrow> 2 ^ 64 - 1 | Some i \<Rightarrow> i)"

definition hint_reliability :: "capability_instance_body \<Rightarrow> f64 option" where
  "hint_reliability i = Option.bind (cib_hints i) ih_reliability"

definition hint_latency :: "capability_instance_body \<Rightarrow> u64 option" where
  "hint_latency i = Option.bind (cib_hints i) ih_latency_ms"

definition hint_cost :: "capability_instance_body \<Rightarrow> f64 option" where
  "hint_cost i = Option.bind (cib_hints i) ih_monetary_cost"

definition compare_candidates ::
    "route_request \<Rightarrow> capability_instance_body \<Rightarrow> capability_instance_body \<Rightarrow> ordering" where
  "compare_candidates request l r =
     then_with (cmp (health_rank (he_status (cib_health l))) (health_rank (he_status (cib_health r))))
     (then_with (compare_optional_f64_desc (hint_reliability l) (hint_reliability r))
     (then_with (cmp (preference_rank (rt_trust_preference request) (cib_trust l))
                     (preference_rank (rt_trust_preference request) (cib_trust r)))
     (then_with (cmp (preference_rank (rt_data_boundary_preference request) (cib_data_boundary l))
                     (preference_rank (rt_data_boundary_preference request) (cib_data_boundary r)))
     (then_with (compare_optional_ord_asc (hint_latency l) (hint_latency r))
     (then_with (compare_optional_f64_asc (hint_cost l) (hint_cost r))
     (then_with (cmp (preference_rank (rt_preferred_instance_ids request) (cib_instance_id l))
                     (preference_rank (rt_preferred_instance_ids request) (cib_instance_id r)))
     (cmp (cib_instance_id l) (cib_instance_id r))))))))"

fun insert_by :: "('a \<Rightarrow> 'a \<Rightarrow> ordering) \<Rightarrow> 'a \<Rightarrow> 'a list \<Rightarrow> 'a list" where
  "insert_by c x [] = [x]"
| "insert_by c x (y # ys) = (if c x y = Greater then y # insert_by c x ys else x # y # ys)"

definition sort_by :: "('a \<Rightarrow> 'a \<Rightarrow> ordering) \<Rightarrow> 'a list \<Rightarrow> 'a list" where
  "sort_by c xs = foldr (insert_by c) xs []"

section \<open>Validation\<close>

fun first_duplicate_after :: "'a list \<Rightarrow> 'a list \<Rightarrow> 'a option" where
  "first_duplicate_after seen [] = None"
| "first_duplicate_after seen (x # xs) = (if x \<in> set seen then Some x else first_duplicate_after (x # seen) xs)"

definition first_duplicate :: "'a list \<Rightarrow> 'a option" where
  "first_duplicate xs = first_duplicate_after [] xs"

definition reject_some :: "'a option \<Rightarrow> ('a \<Rightarrow> 'e) \<Rightarrow> 'e + unit" where
  "reject_some m e = (case m of None \<Rightarrow> Inr () | Some x \<Rightarrow> Inl (e x))"

definition validate_request :: "route_request \<Rightarrow> route_input_error + unit" where
  "validate_request q =
     and_then (reject_if (pf_os (rt_target_platform q) = OS_Any \<or> pf_arch (rt_target_platform q) = ARCH_Any)
       RIE_TargetPlatformMustBeConcrete) (\<lambda>_.
     and_then (reject_if (rt_allowed_trust_levels q = []) RIE_AllowedTrustLevelsEmpty) (\<lambda>_.
     and_then (reject_if (rt_allowed_data_boundaries q = []) RIE_AllowedDataBoundariesEmpty) (\<lambda>_.
     and_then (reject_some (first_duplicate (rt_allowed_trust_levels q)) RIE_DuplicateAllowedTrustLevel) (\<lambda>_.
     and_then (reject_some (first_duplicate (rt_allowed_data_boundaries q)) RIE_DuplicateAllowedDataBoundary) (\<lambda>_.
     and_then (reject_some (find (\<lambda>t. t \<notin> set (rt_allowed_trust_levels q)) (rt_trust_preference q))
       RIE_TrustPreferenceNotAllowed) (\<lambda>_.
     and_then (reject_some (first_duplicate (rt_trust_preference q)) RIE_DuplicateTrustPreference) (\<lambda>_.
     and_then (reject_some (find (\<lambda>b. b \<notin> set (rt_allowed_data_boundaries q))
       (rt_data_boundary_preference q)) RIE_DataBoundaryPreferenceNotAllowed) (\<lambda>_.
     and_then (reject_some (first_duplicate (rt_data_boundary_preference q)) RIE_DuplicateDataBoundaryPreference) (\<lambda>_.
     and_then (reject_if (list_ex (\<lambda>n. n = []) (rt_preferred_instance_ids q)) RIE_EmptyPreferredInstanceId) (\<lambda>_.
     and_then (reject_some (first_duplicate (rt_preferred_instance_ids q)) RIE_DuplicatePreferredInstanceId) (\<lambda>_.
     reject_if (rt_pinned_instance_id q = Some []) RIE_EmptyPinnedInstanceId)))))))))))"

definition same_members :: "'a list \<Rightarrow> 'a list \<Rightarrow> bool" where
  "same_members l r \<longleftrightarrow> length l = length r \<and> list_all (\<lambda>x. x \<in> set r) l"

definition validate_policy_binding ::
    "capability_definition_body \<Rightarrow> route_request \<Rightarrow> bound_policy_evaluation option \<Rightarrow> route_input_error + unit" where
  "validate_policy_binding d q policy =
     (case policy of None \<Rightarrow> Inr () | Some p \<Rightarrow>
      let bound = bpe_request p in
      and_then (reject_if (rpr_capability bound \<noteq> rt_capability q) RIE_PolicyCapabilityMismatch) (\<lambda>_.
      and_then (reject_if (rpr_effect_class bound \<noteq> ce_class (cs_effect (cdb_spec d)))
        (RIE_PolicyEffectClassMismatch (ce_class (cs_effect (cdb_spec d))) (rpr_effect_class bound))) (\<lambda>_.
      and_then (reject_if (\<not> same_members (rpr_critical_actions bound) (ce_critical_actions (cs_effect (cdb_spec d))))
        RIE_PolicyCriticalActionsMismatch) (\<lambda>_.
      reject_if (remdups_adj (sort (map sel_scope (ce_resource_selectors (cs_effect (cdb_spec d)))))
          \<noteq> remdups_adj (sort (rpr_requested_scopes bound)))
        RIE_PolicyScopesMismatch))))"

section \<open>Candidates\<close>

definition required_extensions :: "string list \<Rightarrow> string list" where
  "required_extensions required = remdups_adj (sort required)"

definition evaluate_candidate ::
    "capability_instance_body \<Rightarrow> capability_definition_body \<Rightarrow> route_request \<Rightarrow> route_candidate_evaluation" where
  "evaluate_candidate i d q =
     (let features = rt_required_features q;
          style = rf_execution_style features;
          reasons =
            (if pf_os (cib_platform i) \<noteq> OS_Any \<and> pf_os (cib_platform i) \<noteq> pf_os (rt_target_platform q)
               then [PlatformOsMismatch] else [])
            @ (if pf_arch (cib_platform i) \<noteq> ARCH_Any \<and> pf_arch (cib_platform i) \<noteq> pf_arch (rt_target_platform q)
               then [PlatformArchitectureMismatch] else [])
            @ (case he_status (cib_health i) of HS_Available \<Rightarrow> [] | HS_Degraded \<Rightarrow> [HealthDegraded]
               | HS_Unavailable \<Rightarrow> [HealthUnavailable] | HS_Unknown \<Rightarrow> [HealthUnknown])
            @ (case at_state (cib_auth i) of AS_NotRequired \<Rightarrow> [] | AS_Available \<Rightarrow> []
               | AS_Required \<Rightarrow> [AuthRequired] | AS_Expired \<Rightarrow> [AuthExpired])
            @ (if (cib_trust i) \<notin> set (rt_allowed_trust_levels q) then [TrustNotAllowed] else [])
            @ (if (cib_data_boundary i) \<notin> set (rt_allowed_data_boundaries q) then [DataBoundaryNotAllowed] else [])
            @ map DefinitionExtensionUnsupported (required_extensions (cdb_required_extensions d))
            @ map InstanceExtensionUnsupported (required_extensions (cib_required_extensions i))
            @ (if \<not> (case style of ES_Sync \<Rightarrow> if_sync (cib_features i) | ES_Task \<Rightarrow> if_task (cib_features i))
               then [ExecutionStyleUnsupported style] else [])
            @ (if rf_cancellation features \<and> \<not> if_cancellable (cib_features i) then [CancellationUnsupported] else [])
            @ (if rf_idempotency_key features \<and> \<not> cx_idempotency_key_supported (cs_execution (cdb_spec d))
               then [IdempotencyKeyUnsupported] else [])
            @ (if rf_idempotency_query features \<and> \<not> if_idempotency_query (cib_features i)
               then [IdempotencyQueryUnsupported] else [])
            @ (case hint_cost i of None \<Rightarrow> [] | Some c \<Rightarrow>
                 if \<not> f64_is_finite c \<or> f64_negative c then [InvalidCostHint] else [])
            @ (case hint_reliability i of None \<Rightarrow> [] | Some x \<Rightarrow>
                 if \<not> f64_is_finite x \<or> \<not> f64_in_unit_range x then [InvalidReliabilityHint] else []) in
      \<lparr>rc_instance_id = cib_instance_id i,
       rc_eligibility = (if list_ex rejects_candidate reasons then Rejected else PlacementEligible),
       rc_reasons = reasons\<rparr>)"

definition pin_block_reason ::
    "capability_registry \<Rightarrow> route_request \<Rightarrow> route_candidate_evaluation list \<Rightarrow> route_block_reason option" where
  "pin_block_reason registry q candidates =
     (case rt_pinned_instance_id q of None \<Rightarrow> None | Some pin \<Rightarrow>
      case registry_instance registry pin of None \<Rightarrow> Some PinnedInstanceNotFound | Some i \<Rightarrow>
      if cib_definition i \<noteq> rt_capability q then Some PinnedInstanceCapabilityMismatch
      else case find (\<lambda>c. rc_instance_id c = pin) candidates of
          None \<Rightarrow> Some PinnedInstanceIneligible
        | Some c \<Rightarrow> if rc_eligibility c \<noteq> PlacementEligible then Some PinnedInstanceIneligible else None)"

definition rank_candidates ::
    "capability_instance_body list \<Rightarrow> route_candidate_evaluation list \<Rightarrow> route_request \<Rightarrow> string list" where
  "rank_candidates instances candidates q =
     (let ranked = sort_by (compare_candidates q)
            (map fst (filter (\<lambda>(_, c). rc_eligibility c = PlacementEligible) (zip instances candidates))) in
      case rt_pinned_instance_id q of None \<Rightarrow> map cib_instance_id ranked
      | Some pin \<Rightarrow>
          case position (\<lambda>i. cib_instance_id i = pin) ranked of None \<Rightarrow> []
          | Some k \<Rightarrow> map cib_instance_id ((ranked ! k) # take k ranked @ drop (Suc k) ranked))"

section \<open>Routing\<close>

definition selection_reason :: "route_request \<Rightarrow> usize \<Rightarrow> route_selection_reason" where
  "selection_reason q candidate_count =
     (if rt_pinned_instance_id q \<noteq> None then Pinned
      else if candidate_count = 1 then OnlyPlacementEligibleCandidate else LexicographicRanking)"

definition interaction_reasons :: "capability_definition_body \<Rightarrow> route_interaction_reason list" where
  "interaction_reasons d =
     (if ce_critical_actions (cs_effect (cdb_spec d)) \<noteq> [] then [CriticalApprovalRequired] else [])
     @ [PolicyApprovalRequired]"

definition blocked_with_policy ::
    "route_candidate_evaluation list \<Rightarrow> string list \<Rightarrow> route_block_reason \<Rightarrow> policy_reason list \<Rightarrow> route_outcome" where
  "blocked_with_policy candidates ranked_instance_ids reason policy_reasons =
     RouteBlocked ranked_instance_ids candidates [reason] policy_reasons"

definition blocked :: "route_candidate_evaluation list \<Rightarrow> route_block_reason \<Rightarrow> route_outcome" where
  "blocked candidates reason = blocked_with_policy candidates [] reason []"

definition apply_policy ::
    "capability_definition_body \<Rightarrow> route_request \<Rightarrow> bound_policy_evaluation option
      \<Rightarrow> route_candidate_evaluation list \<Rightarrow> string list \<Rightarrow> route_outcome" where
  "apply_policy d q policy candidates ranked =
     (case map_option bpe_outcome policy of
        None \<Rightarrow> blocked_with_policy candidates ranked PolicyMissing []
      | Some (BO_Deny _ reasons) \<Rightarrow> blocked_with_policy candidates ranked PolicyDenied reasons
      | Some (BO_Ask _ reasons) \<Rightarrow> RouteInteractionRequired ranked candidates (interaction_reasons d) reasons
      | Some (BO_Allow _ _) \<Rightarrow>
          if ce_critical_actions (cs_effect (cdb_spec d)) \<noteq> []
          then RouteInteractionRequired ranked candidates [CriticalApprovalRequired] []
          else case ranked of [] \<Rightarrow> blocked candidates NoPlacementEligibleCandidates
            | selected # _ \<Rightarrow> RouteSelected selected ranked candidates (selection_reason q (length ranked)))"

definition route ::
    "capability_registry \<Rightarrow> route_request \<Rightarrow> bound_policy_evaluation option \<Rightarrow> route_input_error + route_outcome" where
  "route registry q policy =
     and_then (validate_request q) (\<lambda>_.
     and_then (ok_or (RIE_DefinitionNotFound (cf_capability_id (rt_capability q)) (cf_contract_version (rt_capability q)))
       (registry_definition registry (rt_capability q))) (\<lambda>d.
     and_then (validate_policy_binding d q policy) (\<lambda>_.
     let instances = instances_for registry (rt_capability q);
         candidates = map (\<lambda>i. evaluate_candidate i d q) instances in
     case pin_block_reason registry q candidates of Some reason \<Rightarrow> Inr (blocked candidates reason)
     | None \<Rightarrow>
       if rt_pinned_instance_id q = None \<and> candidates = [] then Inr (blocked candidates NoCandidates)
       else
         let ranked_instance_ids = rank_candidates instances candidates q in
         if ranked_instance_ids = []
         then Inr (blocked candidates (if rt_pinned_instance_id q \<noteq> None then PinnedInstanceIneligible
                                       else NoPlacementEligibleCandidates))
         else Inr (apply_policy d q policy candidates ranked_instance_ids))))"

end
