(* ===== verification/Routing_Properties.thy ===== *)
theory Routing_Properties
  imports Capability_Router
begin

text \<open>
  What the router guarantees: the comparator is a linear order on a key, so the ranking is a
  sorting by that key; a candidate is eligible exactly when every hard filter passes; a selected
  instance is registered for the requested capability, eligible, allowed by policy and best among
  the eligible ones (or the pinned one). The last part shows that the policy crate, the registry
  and the router fit together.
\<close>

section \<open>The ranking is a sorting by a key\<close>

definition optional_key :: "('a \<Rightarrow> 'b::{linorder, zero}) \<Rightarrow> 'a option \<Rightarrow> nat \<times> 'b" where
  "optional_key f m = (case m of None \<Rightarrow> (1, 0) | Some x \<Rightarrow> (0, f x))"

definition candidate_key ::
    "route_request \<Rightarrow> capability_instance_body \<Rightarrow>
      nat \<times> (nat \<times> int) \<times> nat \<times> nat \<times> (nat \<times> u64) \<times> (nat \<times> int) \<times> nat \<times> string" where
  "candidate_key q i =
     (health_rank (he_status (cib_health i)),
      optional_key (\<lambda>x. - f64_total_key (normalize_zero x)) (hint_reliability i),
      preference_rank (rt_trust_preference q) (cib_trust i),
      preference_rank (rt_data_boundary_preference q) (cib_data_boundary i),
      optional_key (\<lambda>x. x) (hint_latency i),
      optional_key (\<lambda>x. f64_total_key (normalize_zero x)) (hint_cost i),
      preference_rank (rt_preferred_instance_ids q) (cib_instance_id i),
      cib_instance_id i)"

lemma cmp_pair: "cmp (a, b) (c, d) = then_with (cmp a c) (cmp b d)"
  by (auto simp: cmp_def then_with_def)

lemma cmp_minus: "cmp (- x) (- y) = cmp y x" for x y :: int
  by (auto simp: cmp_def)

lemma compare_optional_key:
  "compare_optional (\<lambda>l r. cmp (f l) (f r)) a b = cmp (optional_key f a) (optional_key f b)"
  by (cases a; cases b) (simp_all add: optional_key_def cmp_pair then_with_def cmp_def)

lemma compare_candidates_key: "compare_candidates q l r = cmp (candidate_key q l) (candidate_key q r)"
proof -
  have latency: "compare_optional_ord_asc a b = cmp (optional_key (\<lambda>x. x) a) (optional_key (\<lambda>x. x) b)" for a b :: "u64 option"
    unfolding compare_optional_ord_asc_def by (rule compare_optional_key)
  have reliability: "compare_optional_f64_desc a b = cmp (optional_key (\<lambda>x. - f64_total_key (normalize_zero x)) a)
      (optional_key (\<lambda>x. - f64_total_key (normalize_zero x)) b)" for a b
    unfolding compare_optional_f64_desc_def compare_optional_key [symmetric] cmp_minus ..
  have cost: "compare_optional_f64_asc a b = cmp (optional_key (\<lambda>x. f64_total_key (normalize_zero x)) a)
      (optional_key (\<lambda>x. f64_total_key (normalize_zero x)) b)" for a b
    unfolding compare_optional_f64_asc_def by (rule compare_optional_key)
  show ?thesis
    unfolding compare_candidates_def candidate_key_def cmp_pair latency reliability cost ..
qed

lemma insert_by_key: "insert_by (\<lambda>l r. cmp (f l) (f r)) x ys = insort_key f x ys"
  by (induction ys) (auto simp: cmp_def)

lemma sort_by_key: "sort_by (\<lambda>l r. cmp (f l) (f r)) xs = sort_key f xs"
  by (simp add: sort_by_def sort_key_def insert_by_key [abs_def])

lemma sort_by_candidates: "sort_by (compare_candidates q) xs = sort_key (candidate_key q) xs"
proof -
  have "compare_candidates q = (\<lambda>l r. cmp (candidate_key q l) (candidate_key q r))"
    by (intro ext) (rule compare_candidates_key)
  then show ?thesis by (simp add: sort_by_key)
qed

lemma candidate_key_inject: "candidate_key q i = candidate_key q j \<Longrightarrow> cib_instance_id i = cib_instance_id j"
  by (simp add: candidate_key_def)

section \<open>Eligibility\<close>

definition placement_ok :: "capability_instance_body \<Rightarrow> capability_definition_body \<Rightarrow> route_request \<Rightarrow> bool" where
  "placement_ok i d q \<longleftrightarrow>
     pf_os (cib_platform i) \<in> {OS_Any, pf_os (rt_target_platform q)}
     \<and> pf_arch (cib_platform i) \<in> {ARCH_Any, pf_arch (rt_target_platform q)}
     \<and> he_status (cib_health i) \<in> {HS_Available, HS_Degraded}
     \<and> at_state (cib_auth i) \<in> {AS_NotRequired, AS_Available}
     \<and> cib_trust i \<in> set (rt_allowed_trust_levels q)
     \<and> cib_data_boundary i \<in> set (rt_allowed_data_boundaries q)
     \<and> cdb_required_extensions d = [] \<and> cib_required_extensions i = []
     \<and> (case rf_execution_style (rt_required_features q) of ES_Sync \<Rightarrow> if_sync (cib_features i)
         | ES_Task \<Rightarrow> if_task (cib_features i))
     \<and> (rf_cancellation (rt_required_features q) \<longrightarrow> if_cancellable (cib_features i))
     \<and> (rf_idempotency_key (rt_required_features q) \<longrightarrow> cx_idempotency_key_supported (cs_execution (cdb_spec d)))
     \<and> (rf_idempotency_query (rt_required_features q) \<longrightarrow> if_idempotency_query (cib_features i))
     \<and> (\<forall>c. hint_cost i = Some c \<longrightarrow> f64_is_finite c \<and> \<not> f64_negative c)
     \<and> (\<forall>x. hint_reliability i = Some x \<longrightarrow> f64_is_finite x \<and> f64_in_unit_range x)"

lemma set_required_extensions: "set (required_extensions xs) = set xs"
  by (simp add: required_extensions_def)

text \<open>What each hard filter contributes.\<close>

lemma filter_rejects:
  "list_ex rejects_candidate (if b then [r] else []) \<longleftrightarrow> b \<and> r \<noteq> HealthDegraded"
  "list_ex rejects_candidate (case h of HS_Available \<Rightarrow> [] | HS_Degraded \<Rightarrow> [HealthDegraded]
     | HS_Unavailable \<Rightarrow> [HealthUnavailable] | HS_Unknown \<Rightarrow> [HealthUnknown]) \<longleftrightarrow> h \<notin> {HS_Available, HS_Degraded}"
  "list_ex rejects_candidate (case a of AS_NotRequired \<Rightarrow> [] | AS_Available \<Rightarrow> [] | AS_Required \<Rightarrow> [AuthRequired]
     | AS_Expired \<Rightarrow> [AuthExpired]) \<longleftrightarrow> a \<notin> {AS_NotRequired, AS_Available}"
  "list_ex rejects_candidate (map DefinitionExtensionUnsupported (required_extensions xs)) \<longleftrightarrow> xs \<noteq> []"
  "list_ex rejects_candidate (map InstanceExtensionUnsupported (required_extensions xs)) \<longleftrightarrow> xs \<noteq> []"
  "list_ex rejects_candidate (case m of None \<Rightarrow> [] | Some x \<Rightarrow> if P x then [InvalidCostHint] else []) \<longleftrightarrow>
     (\<exists>x. m = Some x \<and> P x)"
  "list_ex rejects_candidate (case m of None \<Rightarrow> [] | Some x \<Rightarrow> if P x then [InvalidReliabilityHint] else []) \<longleftrightarrow>
     (\<exists>x. m = Some x \<and> P x)"
  by (auto simp: list_ex_iff rejects_candidate_def set_required_extensions ex_in_conv
      split: health_status.splits auth_state.splits option.splits)

lemma eligible_iff: "rc_eligibility (evaluate_candidate i d q) = PlacementEligible \<longleftrightarrow> placement_ok i d q"
proof -
  have "rc_eligibility (evaluate_candidate i d q) = PlacementEligible \<longleftrightarrow>
      \<not> list_ex rejects_candidate (rc_reasons (evaluate_candidate i d q))"
    by (simp add: evaluate_candidate_def Let_def)
  also have "\<dots> \<longleftrightarrow> placement_ok i d q"
    unfolding evaluate_candidate_def Let_def route_candidate_evaluation.simps list_ex_append filter_rejects
      placement_ok_def
    by blast
  finally show ?thesis .
qed

lemma evaluate_candidate_id: "rc_instance_id (evaluate_candidate i d q) = cib_instance_id i"
  by (simp add: evaluate_candidate_def Let_def)

lemma eligible_filter:
  "map fst (filter (\<lambda>(_, c). rc_eligibility c = PlacementEligible) (zip is (map (\<lambda>i. evaluate_candidate i d q) is)))
     = filter (\<lambda>i. placement_ok i d q) is"
  by (induction "is") (simp_all add: eligible_iff)

section \<open>Ranking and selection\<close>

lemma sort_dedup_unique: "set xs = set ys \<Longrightarrow> remdups_adj (sort xs) = remdups_adj (sort ys)"
  for xs ys :: "'a::linorder list"
  by (rule sorted_distinct_set_unique) (simp_all flip: sorted_distinct_adj)

lemma position_Some: "position P xs = Some k \<Longrightarrow> k < length xs \<and> P (xs ! k)"
  by (induction xs arbitrary: k) (auto split: if_splits)

lemma rank_candidates_eq:
  "rank_candidates is (map (\<lambda>i. evaluate_candidate i d q) is) q =
     (let ranked = sort_key (candidate_key q) (filter (\<lambda>i. placement_ok i d q) is) in
      case rt_pinned_instance_id q of None \<Rightarrow> map cib_instance_id ranked
      | Some pin \<Rightarrow> case position (\<lambda>i. cib_instance_id i = pin) ranked of None \<Rightarrow> []
          | Some k \<Rightarrow> map cib_instance_id ((ranked ! k) # take k ranked @ drop (Suc k) ranked))"
  unfolding rank_candidates_def eligible_filter sort_by_candidates ..

lemma head_of_ranking:
  assumes "rank_candidates is (map (\<lambda>i. evaluate_candidate i d q) is) q = sel # rest"
  obtains i where "i \<in> set is" "placement_ok i d q" "cib_instance_id i = sel"
    and "\<forall>pin. rt_pinned_instance_id q = Some pin \<longrightarrow> sel = pin"
    and "rt_pinned_instance_id q = None \<longrightarrow>
      (\<forall>j \<in> set is. placement_ok j d q \<longrightarrow> candidate_key q i \<le> candidate_key q j)"
proof (cases "rt_pinned_instance_id q")
  case None
  let ?r = "sort_key (candidate_key q) (filter (\<lambda>i. placement_ok i d q) is)"
  from assms None obtain i js where r: "?r = i # js" "cib_instance_id i = sel"
    by (auto simp: rank_candidates_eq Let_def)
  have set: "set ?r = {i \<in> set is. placement_ok i d q}" by simp
  have "sorted (map (candidate_key q) ?r)" by simp
  then have least: "\<forall>j \<in> set ?r. candidate_key q i \<le> candidate_key q j" unfolding r(1) by auto
  have i: "i \<in> set ?r" using r(1) by simp
  show ?thesis using None r(2) i least by (intro that [of i]) (auto simp: set)
next
  case (Some pin)
  let ?r = "sort_key (candidate_key q) (filter (\<lambda>i. placement_ok i d q) is)"
  from assms Some obtain k where k: "position (\<lambda>i. cib_instance_id i = pin) ?r = Some k" "cib_instance_id (?r ! k) = sel"
    by (auto simp: rank_candidates_eq Let_def split: option.splits)
  then have here: "k < length ?r" "cib_instance_id (?r ! k) = pin" using position_Some by blast+
  then have "?r ! k \<in> set ?r" using nth_mem by blast
  then show ?thesis using Some k(2) here(2) by (intro that [of "?r ! k"]) auto
qed

lemma not_selected:
  "blocked c x \<noteq> RouteSelected sel ranked cands reason"
  "blocked_with_policy c r x ps \<noteq> RouteSelected sel ranked cands reason"
  by (simp_all add: blocked_def blocked_with_policy_def)

lemma apply_policy_Selected:
  "apply_policy d q policy c r = RouteSelected sel ranked cands reason \<longleftrightarrow>
     (\<exists>p z ss. policy = Some p \<and> bpe_outcome p = BO_Allow z ss) \<and> ce_critical_actions (cs_effect (cdb_spec d)) = []
     \<and> (\<exists>rest. r = sel # rest) \<and> ranked = r \<and> cands = c \<and> reason = selection_reason q (length r)"
  by (auto simp: apply_policy_def not_selected split: option.splits broker_outcome.splits list.splits if_splits)

lemma route_Selected:
  assumes "route registry q policy = Inr (RouteSelected sel ranked cands reason)"
  obtains d p z ss rest where "validate_request q = Inr ()" "registry_definition registry (rt_capability q) = Some d"
    "validate_policy_binding d q policy = Inr ()" "policy = Some p" "bpe_outcome p = BO_Allow z ss"
    "ce_critical_actions (cs_effect (cdb_spec d)) = []"
    "rank_candidates (instances_for registry (rt_capability q))
      (map (\<lambda>i. evaluate_candidate i d q) (instances_for registry (rt_capability q))) q = sel # rest"
  using assms
  by (auto simp: route_def result_simps Let_def not_selected apply_policy_Selected split: option.splits if_splits)

section \<open>A sample catalog\<close>

definition sample_instance :: capability_instance_body where
  "sample_instance = \<lparr>cib_api_version = API_VERSION_V1ALPHA1, cib_extensions = bm_empty, cib_required_extensions = [],
     cib_instance_id = ''i'', cib_definition = \<lparr>cf_capability_id = ''c'', cf_contract_version = ''1''\<rparr>,
     cib_source = CS_Builtin, cib_placement = PL_Local, cib_platform = \<lparr>pf_os = OS_Any, pf_arch = ARCH_Any\<rparr>,
     cib_trust = TL_Verified, cib_data_boundary = DB_Local,
     cib_health = \<lparr>he_status = HS_Available, he_observed_at = ''t'', he_reason = None\<rparr>,
     cib_auth = \<lparr>at_state = AS_NotRequired, at_auth_ref = None\<rparr>,
     cib_features = \<lparr>if_sync = True, if_task = False, if_cancellable = False, if_idempotency_query = False\<rparr>,
     cib_hints = None, cib_binding = \<lparr>ibd_binding_ref = ''b'', ibd_operation_ref = None, ibd_protocol_version = None\<rparr>\<rparr>"

definition sample_route :: route_request where
  "sample_route = \<lparr>rt_capability = \<lparr>cf_capability_id = ''c'', cf_contract_version = ''1''\<rparr>,
     rt_target_platform = \<lparr>pf_os = OS_Linux, pf_arch = ARCH_X86_64\<rparr>,
     rt_required_features = \<lparr>rf_execution_style = ES_Sync, rf_cancellation = False, rf_idempotency_key = False,
       rf_idempotency_query = False\<rparr>,
     rt_allowed_trust_levels = [TL_Verified], rt_allowed_data_boundaries = [DB_Local], rt_trust_preference = [],
     rt_data_boundary_preference = [], rt_preferred_instance_ids = [], rt_pinned_instance_id = None\<rparr>"

definition sample_catalog :: capability_registry where
  "sample_catalog = \<lparr>reg_definitions = bm_insert (DefinitionKey ''c'' ''1'') sample_definition bm_empty,
     reg_instances = bm_insert ''i'' sample_instance bm_empty\<rparr>"

lemma sample_catalog_built: "registry_built sample_catalog"
proof -
  let ?r = "\<lparr>reg_definitions = bm_insert (DefinitionKey ''c'' ''1'') sample_definition bm_empty, reg_instances = bm_empty\<rparr>"
  have "register_schema_validated_definition registry_new sample_definition = Inr ?r"
    by (simp add: register_definition_iff definition_sound_def registry_new_def sample_definition_def key_from_definition_def)
  then have "registry_built ?r" by (rule registry_built.intros(2) [OF registry_built.intros(1)])
  moreover have "register_schema_validated_instance ?r sample_instance = Inr sample_catalog"
    by (simp add: register_instance_iff features_sound_def sample_instance_def sample_definition_def
        key_from_reference_def sample_catalog_def)
  ultimately show ?thesis by (rule registry_built.intros(3))
qed

lemma sample_lookup: "registry_definition sample_catalog (rt_capability sample_route) = Some sample_definition"
  by (simp add: registry_definition_def sample_catalog_def sample_route_def key_from_reference_def)

definition sample_allowed :: bound_policy_evaluation where
  "sample_allowed = \<lparr>bpe_request = sample_request, bpe_outcome = BO_Allow
     \<lparr>pz_lifetime = GL_Once, pz_scopes = [''fs.read''], pz_resources = [ConcreteResource ''fs.read'' ''x''],
      pz_critical_actions = []\<rparr> []\<rparr>"

lemma sample_route_valid: "validate_request sample_route = Inr ()"
  by (simp add: validate_request_def sample_route_def reject_some_def first_duplicate_def)

lemma sample_selected:
  "\<exists>ranked cands reason. route sample_catalog sample_route (Some sample_allowed) = Inr (RouteSelected ''i'' ranked cands reason)"
proof -
  have "instances_for sample_catalog (rt_capability sample_route) = [sample_instance]"
    by (simp add: instances_for_def sample_catalog_def bm_values_def sample_route_def sample_instance_def)
  moreover have "placement_ok sample_instance sample_definition sample_route"
    by (simp add: placement_ok_def sample_instance_def sample_definition_def sample_route_def hint_cost_def hint_reliability_def)
  moreover have "validate_policy_binding sample_definition sample_route (Some sample_allowed) = Inr ()"
    by (simp add: validate_policy_binding_def sample_allowed_def sample_request_def sample_route_def sample_definition_def
        same_members_def)
  moreover have "rt_pinned_instance_id sample_route = None" "cib_instance_id sample_instance = ''i''"
    "ce_critical_actions (cs_effect (cdb_spec sample_definition)) = []"
    by (simp_all add: sample_route_def sample_instance_def sample_definition_def)
  ultimately show ?thesis
    using rank_candidates_eq [of "[sample_instance]" sample_definition sample_route]
    by (simp add: route_def sample_route_valid sample_lookup pin_block_reason_def apply_policy_def sample_allowed_def)
qed

section \<open>Properties\<close>

text \<open>
  C34. Selection is safe and optimal: if the router selects an instance from a catalog built by
  registrations, then the definition of the requested capability is registered and has no critical
  action, the policy evaluation bound to the request allows, the selected instance is registered
  for exactly that capability and passes every hard filter (platform, health, authentication,
  trust, data boundary, extensions, features, valid hints), it is the pinned instance if there
  is a pin, and otherwise no eligible instance of the capability has a smaller ranking key.
\<close>

theorem selection_is_safe_and_best:
  assumes "registry_built registry" and "route registry q policy = Inr (RouteSelected sel ranked cands reason)"
  shows "\<exists>d i p z ss. registry_definition registry (rt_capability q) = Some d
    \<and> ce_critical_actions (cs_effect (cdb_spec d)) = []
    \<and> policy = Some p \<and> bpe_outcome p = BO_Allow z ss \<and> rpr_capability (bpe_request p) = rt_capability q
    \<and> registry_instance registry sel = Some i \<and> cib_definition i = rt_capability q \<and> placement_ok i d q
    \<and> (\<forall>pin. rt_pinned_instance_id q = Some pin \<longrightarrow> sel = pin)
    \<and> (rt_pinned_instance_id q = None \<longrightarrow> (\<forall>j. registry_instance registry (cib_instance_id j) = Some j
         \<and> cib_definition j = rt_capability q \<and> placement_ok j d q \<longrightarrow> candidate_key q i \<le> candidate_key q j))"
proof -
  have ok: "registry_ok registry" using assms(1) by (rule registry_invariant)
  obtain d p z ss rest where r: "registry_definition registry (rt_capability q) = Some d"
    "validate_policy_binding d q policy = Inr ()" "policy = Some p" "bpe_outcome p = BO_Allow z ss"
    "ce_critical_actions (cs_effect (cdb_spec d)) = []"
    and ranking: "rank_candidates (instances_for registry (rt_capability q))
      (map (\<lambda>i. evaluate_candidate i d q) (instances_for registry (rt_capability q))) q = sel # rest"
    using assms(2) by (rule route_Selected)
  obtain i where i: "i \<in> set (instances_for registry (rt_capability q))" "placement_ok i d q" "cib_instance_id i = sel"
      "\<forall>pin. rt_pinned_instance_id q = Some pin \<longrightarrow> sel = pin"
      "rt_pinned_instance_id q = None \<longrightarrow> (\<forall>j \<in> set (instances_for registry (rt_capability q)).
        placement_ok j d q \<longrightarrow> candidate_key q i \<le> candidate_key q j)"
    using ranking by (rule head_of_ranking)
  have "registry_instance registry sel = Some i" "cib_definition i = rt_capability q"
    using i(1,3) by (auto simp: instances_for_iff [OF ok])
  moreover have "rpr_capability (bpe_request p) = rt_capability q"
    using r(2,3) by (simp add: validate_policy_binding_def Let_def result_simps)
  ultimately show ?thesis
    using r i by (intro exI [of _ d] exI [of _ i] exI [of _ p] exI [of _ z] exI [of _ ss])
      (simp add: instances_for_iff [OF ok])
qed

theorem selection_is_safe_and_best_witness:
  "\<exists>d i. registry_definition sample_catalog (rt_capability sample_route) = Some d
     \<and> registry_instance sample_catalog ''i'' = Some i \<and> placement_ok i d sample_route"
  using sample_selected selection_is_safe_and_best [OF sample_catalog_built] by blast

text \<open>
  C35. The catalog is consistent and append-only: in every catalog that registrations can build,
  each definition is stored under its own key with a supported version, a valid timeout range
  and durable output only for the supported effect classes; each instance is stored under its own
  identifier, refers to a registered definition and claims no feature its definition lacks. A
  further registration keeps every entry.
\<close>

theorem registry_is_consistent:
  assumes "registry_built r"
  shows "(\<forall>k d. bm_get (reg_definitions r) k = Some d \<longrightarrow> k = key_from_definition d \<and> definition_sound d)
    \<and> (\<forall>n i. bm_get (reg_instances r) n = Some i \<longrightarrow> n = cib_instance_id i \<and> cib_api_version i = API_VERSION_V1ALPHA1
         \<and> (\<exists>d. registry_definition r (cib_definition i) = Some d \<and> features_sound i d))
    \<and> (\<forall>d r' k e. register_schema_validated_definition r d = Inr r' \<longrightarrow>
         bm_get (reg_definitions r) k = Some e \<longrightarrow> bm_get (reg_definitions r') k = Some e)
    \<and> (\<forall>i r' n j. register_schema_validated_instance r i = Inr r' \<longrightarrow>
         bm_get (reg_instances r) n = Some j \<longrightarrow> bm_get (reg_instances r') n = Some j)"
proof -
  have ok: "registry_ok r" using assms by (rule registry_invariant)
  then show ?thesis
    using registration_only_adds unfolding registry_ok_def registry_definition_def by blast
qed

theorem registry_is_consistent_witness:
  "registry_built sample_catalog \<and> bm_get (reg_instances sample_catalog) ''i'' = Some sample_instance
     \<and> (\<exists>d. registry_definition sample_catalog (cib_definition sample_instance) = Some d \<and> features_sound sample_instance d)"
proof -
  have "bm_get (reg_instances sample_catalog) ''i'' = Some sample_instance"
    by (simp add: sample_catalog_def)
  then show ?thesis
    using sample_catalog_built registry_is_consistent [OF sample_catalog_built] by blast
qed

text \<open>
  The parts fit together: take a definition of a catalog built by registrations, resolve an
  invocation of it, evaluate any policy stack for the resolved request, and route the same
  capability with that evaluation. The router's check that the policy evaluation belongs to this
  capability, effect class, critical actions and scopes then always succeeds, so routing fails
  only if the route request itself is malformed.
\<close>

theorem policy_binding_fits:
  assumes "registry_built registry" and "registry_definition registry (rt_capability q) = Some d"
    and "resolve_invocation jp resolve rq run step d args lt = Inr r"
    and "evaluate_bound (rir_permission_request r) inputs = Inr p"
  shows "validate_policy_binding d q (Some p) = Inr ()
    \<and> (validate_request q = Inr () \<longrightarrow> (\<exists>outcome. route registry q (Some p) = Inr outcome))"
proof -
  have bound: "bpe_request p = rir_permission_request r"
    using assms(4) by (auto simp: evaluate_bound_def result_simps)
  obtain e where e: "derive_invocation_resources jp resolve d args = Inr e"
    and scopes: "rpr_requested_scopes (rir_permission_request r) = dir_requested_scopes e"
    and cap: "rpr_capability (rir_permission_request r)
      = \<lparr>cf_capability_id = cm_id (cdb_metadata d), cf_contract_version = cm_contract_version (cdb_metadata d)\<rparr>"
    and effects: "rpr_effect_class (rir_permission_request r) = ce_class (cs_effect (cdb_spec d))"
    and crit: "rpr_critical_actions (rir_permission_request r)
      = sort_key critical_action_rank (ce_critical_actions (cs_effect (cdb_spec d)))"
    using assms(3) by (auto simp: resolve_invocation_def normalized_critical_actions_def Let_def result_simps)
  have "key_from_reference (rt_capability q) = key_from_definition d"
    using registry_invariant [OF assms(1)] assms(2) by (auto simp: registry_ok_def registry_definition_def)
  then have "rpr_capability (bpe_request p) = rt_capability q"
    unfolding bound cap by (simp add: key_from_reference_def key_from_definition_def)
  moreover have "same_members (rpr_critical_actions (bpe_request p)) (ce_critical_actions (cs_effect (cdb_spec d)))"
    unfolding bound crit by (simp add: same_members_def list_all_iff)
  moreover have "remdups_adj (sort (map sel_scope (selectors_of d))) = remdups_adj (sort (rpr_requested_scopes (bpe_request p)))"
    unfolding bound scopes using derived_scopes [OF e] by (intro sort_dedup_unique) simp
  ultimately have "validate_policy_binding d q (Some p) = Inr ()"
    unfolding validate_policy_binding_def by (simp add: Let_def bound effects)
  then show ?thesis
    using assms(2) by (auto simp: route_def Let_def split: option.splits)
qed

theorem policy_binding_fits_witness:
  "\<exists>r p outcome. resolve_invocation rfc_pointers (\<lambda>_ x. Inr x) ''q'' ''r'' ''a'' sample_definition
       (JObject [(''p'', JString ''x'')]) GL_Once = Inr r
     \<and> evaluate_bound (rir_permission_request r)
         \<lparr>pi_request = rir_permission_request r, pi_layers = pi_layers (sample_inputs (CV_Deny ''no''))\<rparr> = Inr p
     \<and> route sample_catalog sample_route (Some p) = Inr outcome"
proof -
  obtain r where r: "resolve_invocation rfc_pointers (\<lambda>_ x. Inr x) ''q'' ''r'' ''a'' sample_definition
      (JObject [(''p'', JString ''x'')]) GL_Once = Inr r"
    using sample_invocation_resolves by blast
  let ?i = "\<lparr>pi_request = rir_permission_request r, pi_layers = pi_layers (sample_inputs (CV_Deny ''no''))\<rparr>"
  have "layers_valid ?i" using sample_layers(1) by (simp add: layers_valid_def inputs_ordered_def)
  then obtain x where "evaluate (rir_permission_request r) ?i = Inr x"
    using evaluate_cases [of ?i "rir_permission_request r"] by fastforce
  then have p: "evaluate_bound (rir_permission_request r) ?i = Inr \<lparr>bpe_request = rir_permission_request r, bpe_outcome = x\<rparr>"
    by (simp add: evaluate_bound_def)
  from policy_binding_fits [OF sample_catalog_built sample_lookup r p] sample_route_valid r p
  show ?thesis by blast
qed

end
