(* ===== verification/Receipt_Protocol.thy ===== *)
theory Receipt_Protocol
  imports Domain_Types Journal_Digests
begin

text \<open>
  Execution receipts: the wire types of \<open>crates/xgeny-domain/src/execution.rs\<close> and
  \<open>common.rs\<close>, the Core receipt profile of \<open>crates/xgeny-protocol/src/lib.rs\<close>, and
  \<open>validate_execution_receipt\<close>. A receipt is serialized to the JSON object that the serde
  attributes prescribe, because its digest is the digest of that object without the field
  \<open>receiptDigest\<close>. The JSON-schema validator and the timestamp parser are library code: they are
  the two fields of \<open>protocol_env\<close>.
\<close>

section \<open>Receipt documents\<close>

datatype verification_result = VR_Passed | VR_Failed | VR_Inconclusive

record artifact_provenance =
  ap_run_id :: string
  ap_step_id :: string
  ap_receipt_id :: "string option"

record artifact_ref =
  ar_artifact_id :: string
  ar_name :: "string option"
  ar_media_type :: string
  ar_size :: u64
  ar_digest :: string
  ar_provenance :: "artifact_provenance option"
  ar_extensions :: extensions
  ar_required_extensions :: "string list"

record verification_evidence =
  ve_strategy :: verification_strategy
  ve_required :: bool
  ve_result :: verification_result
  ve_summary :: string
  ve_evidence_digest :: "string option"
  ve_artifact :: "artifact_ref option"

record receipt_policy =
  rpo_decision_id :: string
  rpo_decision_digest :: string
  rpo_lease_id :: "string option"
  rpo_lease_digest :: "string option"

record executor =
  ex_id :: string
  ex_placement :: placement
  ex_platform :: string

record receipt_effect =
  ref_class :: domain_effect_class
  ref_started :: bool
  ref_started_at :: "string option"
  ref_idempotency_key :: "string option"

datatype receipt_status = RS_Succeeded | RS_Failed | RS_Cancelled | RS_Blocked | RS_Unknown

record execution_receipt_body =
  erb_api_version :: string
  erb_extensions :: extensions
  erb_required_extensions :: "string list"
  erb_receipt_id :: string
  erb_run_id :: string
  erb_step_id :: string
  erb_invocation_id :: string
  erb_plan_id :: string
  erb_capability :: capability_ref
  erb_instance_id :: string
  erb_input_digest :: string
  erb_input_summary :: string
  erb_policy :: receipt_policy
  erb_executor :: executor
  erb_effect :: receipt_effect
  erb_status :: receipt_status
  erb_started_at :: string
  erb_ended_at :: string
  erb_output_digest :: string
  erb_artifacts :: "artifact_ref list"
  erb_verification :: "verification_evidence list"
  erb_redactions_applied :: "string list"
  erb_previous_receipt_digest :: "string option"
  erb_receipt_digest :: string

section \<open>The Core receipt profile\<close>

definition CORE_RECEIPT_PROFILE_V1 :: string where
  "CORE_RECEIPT_PROFILE_V1 = ''xgeny.core-receipt/v1''"
definition CORE_RECEIPT_PROFILE_V2 :: string where
  "CORE_RECEIPT_PROFILE_V2 = ''xgeny.core-receipt/v2''"
definition CORE_RECEIPT_MAX_ARTIFACTS_V2 :: usize where
  "CORE_RECEIPT_MAX_ARTIFACTS_V2 = 8"
definition CORE_RECEIPT_MAX_ARTIFACT_SIZE_BYTES_V2 :: u64 where
  "CORE_RECEIPT_MAX_ARTIFACT_SIZE_BYTES_V2 = 1048576"
definition CORE_RECEIPT_MAX_ARTIFACT_TOTAL_BYTES_V2 :: u64 where
  "CORE_RECEIPT_MAX_ARTIFACT_TOTAL_BYTES_V2 = 4194304"
definition CORE_RECEIPT_INPUT_SUMMARY_V1 :: string where
  "CORE_RECEIPT_INPUT_SUMMARY_V1 = ''Invocation input retained by digest only.''"
definition CORE_RECEIPT_REDACTIONS_V1 :: "string list" where
  "CORE_RECEIPT_REDACTIONS_V1 = [''raw invocation arguments omitted'', ''raw tool output omitted'']"

definition core_artifact_descriptor_v2_is_valid ::
    "string \<Rightarrow> string option \<Rightarrow> string \<Rightarrow> u64 \<Rightarrow> string \<Rightarrow> bool" where
  "core_artifact_descriptor_v2_is_valid artifact_id nm media_type sz digest \<longleftrightarrow>
     artifact_id \<noteq> [] \<and> length artifact_id \<le> 200
     \<and> list_all (\<lambda>(index, b). is_ascii_alphanumeric b
           \<or> index > 0 \<and> b \<in> {CHR ''.'', CHR ''_'', CHR '':'', CHR ''-''}) (List.enumerate 0 artifact_id)
     \<and> (case nm of None \<Rightarrow> True | Some n \<Rightarrow> n \<noteq> [] \<and> length n \<le> 512 \<and> \<not> has_control n)
     \<and> 3 \<le> length media_type \<and> length media_type \<le> 200 \<and> \<not> has_control media_type
     \<and> sz \<le> CORE_RECEIPT_MAX_ARTIFACT_SIZE_BYTES_V2
     \<and> (case strip_prefix ''sha256:'' digest of None \<Rightarrow> False
        | Some encoded \<Rightarrow> length encoded = 64 \<and> list_all (\<lambda>b. is_ascii_digit b \<or> in_a_to_f b) encoded)"

datatype core_verification_outcome = CV_OutcomePassed | CV_OutcomeFailed | CV_OutcomeInconclusive

definition core_receipt_id_v1 :: "string \<Rightarrow> string" where
  "core_receipt_id_v1 effect_id =
     ''receipt-'' @ (case strip_prefix ''effect-'' effect_id of None \<Rightarrow> effect_id | Some rest \<Rightarrow> rest)"

fun core_verification_summary_v1 :: "verification_result \<Rightarrow> string" where
  "core_verification_summary_v1 VR_Passed = ''Core-selected verification rule passed.''"
| "core_verification_summary_v1 VR_Failed = ''Core-selected verification rule failed.''"
| "core_verification_summary_v1 VR_Inconclusive = ''Core-selected verification rule was inconclusive.''"

definition evaluate_core_verification_v1 :: "verification_evidence list \<Rightarrow> core_verification_outcome" where
  "evaluate_core_verification_v1 evidence =
     (let required_failed = list_ex (\<lambda>i. ve_required i \<and> ve_result i = VR_Failed) evidence;
          required_inconclusive = list_ex (\<lambda>i. ve_required i \<and> ve_result i = VR_Inconclusive) evidence;
          any_passed = list_ex (\<lambda>i. ve_result i = VR_Passed) evidence in
      if required_failed then CV_OutcomeFailed
      else if required_inconclusive \<or> \<not> any_passed then CV_OutcomeInconclusive
      else CV_OutcomePassed)"

fun core_receipt_status_v1 :: "core_verification_outcome \<Rightarrow> receipt_status" where
  "core_receipt_status_v1 CV_OutcomePassed = RS_Succeeded"
| "core_receipt_status_v1 CV_OutcomeFailed = RS_Failed"
| "core_receipt_status_v1 CV_OutcomeInconclusive = RS_Unknown"

section \<open>Serialization\<close>

text \<open>
  An object is built by inserting its fields into the map of the JSON library, which keeps them in
  key order. A field with \<open>skip_serializing_if\<close> contributes nothing when the condition holds.
\<close>

definition json_object :: "(string \<times> json) list list \<Rightarrow> json" where
  "json_object members =
     JObject (bm_entries (foldl (\<lambda>m (k, v). bm_insert k v m) bm_empty (concat members)))"

definition skip_none :: "string \<Rightarrow> ('a \<Rightarrow> json) \<Rightarrow> 'a option \<Rightarrow> (string \<times> json) list" where
  "skip_none k f m = (case m of None \<Rightarrow> [] | Some x \<Rightarrow> [(k, f x)])"

definition json_option :: "('a \<Rightarrow> json) \<Rightarrow> 'a option \<Rightarrow> json" where
  "json_option f m = (case m of None \<Rightarrow> JNull | Some x \<Rightarrow> f x)"

definition skip_empty_map :: "string \<Rightarrow> extensions \<Rightarrow> (string \<times> json) list" where
  "skip_empty_map k m = (if bm_entries m = [] then [] else [(k, JObject (bm_entries m))])"

definition skip_empty_list :: "string \<Rightarrow> string list \<Rightarrow> (string \<times> json) list" where
  "skip_empty_list k xs = (if xs = [] then [] else [(k, JArray (map JString xs))])"

fun effect_class_name :: "domain_effect_class \<Rightarrow> string" where
  "effect_class_name DE_ReadOnly = ''read_only''"
| "effect_class_name DE_Idempotent = ''idempotent''"
| "effect_class_name DE_Compensatable = ''compensatable''"
| "effect_class_name DE_NonIdempotent = ''non_idempotent''"
| "effect_class_name DE_Unknown = ''unknown''"

fun verification_strategy_name :: "verification_strategy \<Rightarrow> string" where
  "verification_strategy_name VS_OutputSchema = ''output_schema''"
| "verification_strategy_name VS_Postcondition = ''postcondition''"
| "verification_strategy_name VS_ArtifactDigest = ''artifact_digest''"
| "verification_strategy_name VS_Receipt = ''receipt''"
| "verification_strategy_name VS_Human = ''human''"

fun verification_result_name :: "verification_result \<Rightarrow> string" where
  "verification_result_name VR_Passed = ''passed''"
| "verification_result_name VR_Failed = ''failed''"
| "verification_result_name VR_Inconclusive = ''inconclusive''"

fun placement_name :: "placement \<Rightarrow> string" where
  "placement_name PL_Local = ''local''"
| "placement_name PL_Device = ''device''"
| "placement_name PL_Remote = ''remote''"

fun receipt_status_name :: "receipt_status \<Rightarrow> string" where
  "receipt_status_name RS_Succeeded = ''succeeded''"
| "receipt_status_name RS_Failed = ''failed''"
| "receipt_status_name RS_Cancelled = ''cancelled''"
| "receipt_status_name RS_Blocked = ''blocked''"
| "receipt_status_name RS_Unknown = ''unknown''"

definition artifact_provenance_value :: "artifact_provenance \<Rightarrow> json" where
  "artifact_provenance_value p = json_object
     [[(''runId'', JString (ap_run_id p)), (''stepId'', JString (ap_step_id p))],
      skip_none ''receiptId'' JString (ap_receipt_id p)]"

definition artifact_value :: "artifact_ref \<Rightarrow> json" where
  "artifact_value a = json_object
     [[(''artifactId'', JString (ar_artifact_id a))], skip_none ''name'' JString (ar_name a),
      [(''mediaType'', JString (ar_media_type a)), (''size'', JNumber (PosInt (ar_size a))),
       (''digest'', JString (ar_digest a))],
      skip_none ''provenance'' artifact_provenance_value (ar_provenance a),
      skip_empty_map ''extensions'' (ar_extensions a),
      skip_empty_list ''requiredExtensions'' (ar_required_extensions a)]"

definition verification_evidence_value :: "verification_evidence \<Rightarrow> json" where
  "verification_evidence_value e = json_object
     [[(''strategy'', JString (verification_strategy_name (ve_strategy e))), (''required'', JBool (ve_required e)),
       (''result'', JString (verification_result_name (ve_result e))), (''summary'', JString (ve_summary e))],
      skip_none ''evidenceDigest'' JString (ve_evidence_digest e),
      skip_none ''artifact'' artifact_value (ve_artifact e)]"

definition receipt_policy_value :: "receipt_policy \<Rightarrow> json" where
  "receipt_policy_value p = json_object
     [[(''decisionId'', JString (rpo_decision_id p)), (''decisionDigest'', JString (rpo_decision_digest p))],
      skip_none ''leaseId'' JString (rpo_lease_id p), skip_none ''leaseDigest'' JString (rpo_lease_digest p)]"

definition executor_value :: "executor \<Rightarrow> json" where
  "executor_value x = json_object
     [[(''id'', JString (ex_id x)), (''placement'', JString (placement_name (ex_placement x))),
       (''platform'', JString (ex_platform x))]]"

definition receipt_effect_value :: "receipt_effect \<Rightarrow> json" where
  "receipt_effect_value e = json_object
     [[(''class'', JString (effect_class_name (ref_class e))), (''started'', JBool (ref_started e))],
      skip_none ''startedAt'' JString (ref_started_at e),
      [(''idempotencyKey'', json_option JString (ref_idempotency_key e))]]"

definition capability_ref_value :: "capability_ref \<Rightarrow> json" where
  "capability_ref_value c = json_object
     [[(''capabilityId'', JString (cf_capability_id c)), (''contractVersion'', JString (cf_contract_version c))]]"

definition execution_receipt_document :: "execution_receipt_body \<Rightarrow> json" where
  "execution_receipt_document r = json_object
     [[(''kind'', JString ''ExecutionReceipt''), (''apiVersion'', JString (erb_api_version r))],
      skip_empty_map ''extensions'' (erb_extensions r),
      skip_empty_list ''requiredExtensions'' (erb_required_extensions r),
      [(''receiptId'', JString (erb_receipt_id r)), (''runId'', JString (erb_run_id r)),
       (''stepId'', JString (erb_step_id r)), (''invocationId'', JString (erb_invocation_id r)),
       (''planId'', JString (erb_plan_id r)), (''capability'', capability_ref_value (erb_capability r)),
       (''instanceId'', JString (erb_instance_id r)), (''inputDigest'', JString (erb_input_digest r)),
       (''inputSummary'', JString (erb_input_summary r)), (''policy'', receipt_policy_value (erb_policy r)),
       (''executor'', executor_value (erb_executor r)), (''effect'', receipt_effect_value (erb_effect r)),
       (''status'', JString (receipt_status_name (erb_status r))),
       (''startedAt'', JString (erb_started_at r)), (''endedAt'', JString (erb_ended_at r)),
       (''outputDigest'', JString (erb_output_digest r)),
       (''artifacts'', JArray (map artifact_value (erb_artifacts r))),
       (''verification'', JArray (map verification_evidence_value (erb_verification r))),
       (''redactionsApplied'', JArray (map JString (erb_redactions_applied r))),
       (''previousReceiptDigest'', json_option JString (erb_previous_receipt_digest r)),
       (''receiptDigest'', JString (erb_receipt_digest r))]]"

section \<open>Validation\<close>

datatype protocol_error =
    PE_Json string
  | PE_Schema string
  | PE_Fixture string
  | PE_Canonicalization string
  | PE_UnsupportedRequiredExtension string

text \<open>
  \<open>pv_validator name\<close> is the outcome of compiling the bundled schema of that name (an error
  message, or the validator), and the validator returns the message of a violation, if any.
  \<open>pv_instant\<close> parses an RFC 3339 timestamp to its instant.
\<close>

record protocol_env =
  pv_validator :: "string \<Rightarrow> string + (json \<Rightarrow> string option)"
  pv_instant :: "string \<Rightarrow> int option"

definition cached_document_validator :: "protocol_env \<Rightarrow> string \<Rightarrow> protocol_error + (json \<Rightarrow> string option)" where
  "cached_document_validator env schema_name = map_err PE_Schema (pv_validator env schema_name)"

text \<open>The canonical bytes of a JSON value are those of \<open>ToolOutputValueInput\<close>, whatever the value is.\<close>

definition document_digest :: "crypto \<Rightarrow> json \<Rightarrow> protocol_error + string" where
  "document_digest cr v = map_err PE_Canonicalization (canonical_digest cr (ToolOutputValueInput v))"

definition canonical_digest_without_field :: "crypto \<Rightarrow> json \<Rightarrow> string \<Rightarrow> protocol_error + string" where
  "canonical_digest_without_field cr v field =
     (case v of JObject members \<Rightarrow>
        and_then (reject_if (field \<notin> set (map fst members)) (PE_Canonicalization field)) (\<lambda>_.
        document_digest cr (JObject (filter (\<lambda>f. fst f \<noteq> field) members)))
      | _ \<Rightarrow> Inl (PE_Canonicalization ''digest input must be a JSON object''))"

definition verify_derived_digest :: "crypto \<Rightarrow> json \<Rightarrow> string \<Rightarrow> string \<Rightarrow> protocol_error + unit" where
  "verify_derived_digest cr v field expected =
     and_then (canonical_digest_without_field cr v field) (\<lambda>actual.
     reject_if (actual \<noteq> expected) (PE_Fixture field))"

definition ensure_required_extensions_supported :: "string list \<Rightarrow> string btreeset \<Rightarrow> protocol_error + unit" where
  "ensure_required_extensions_supported required supported =
     (case find (\<lambda>e. \<not> bs_contains supported e) required of None \<Rightarrow> Inr ()
      | Some e \<Rightarrow> Inl (PE_UnsupportedRequiredExtension e))"

definition validate_execution_receipt :: "crypto \<Rightarrow> protocol_env \<Rightarrow> execution_receipt_body \<Rightarrow> protocol_error + unit" where
  "validate_execution_receipt cr env receipt =
     and_then (cached_document_validator env ''execution-receipt.schema.json'') (\<lambda>validator.
     let document = execution_receipt_document receipt in
     and_then (case validator document of None \<Rightarrow> Inr () | Some e \<Rightarrow> Inl (PE_Fixture e)) (\<lambda>_.
     and_then (ensure_required_extensions_supported (erb_required_extensions receipt) bs_empty) (\<lambda>_.
     verify_derived_digest cr document ''receiptDigest'' (erb_receipt_digest receipt))))"

end
