(* ===== verification/Store_Types.thy ===== *)
theory Store_Types
  imports Receipt_Protocol Output_Records Reducer
begin

text \<open>
  The data of the local run store, \<open>crates/xgeny-local-store/src/lib.rs\<close>: heads, commits,
  snapshots, stored sidecars, the anchors by which the verified index remembers journal events,
  the index itself and the store errors. A message that the source formats is its constant part;
  \<open>SE_Panic\<close> is the model's value for a failed \<open>expect\<close> or \<open>unreachable\<close>.
\<close>

section \<open>Heads, commits and snapshots\<close>

datatype expected_head = HeadEmpty | HeadExact u64 string

definition expected_head_from_state :: "run_state \<Rightarrow> expected_head" where
  "expected_head_from_state state = HeadExact (rs_journal_sequence state) (rs_journal_head_digest state)"

record commit =
  cm_record :: event_record
  cm_state :: run_state

record run_snapshot =
  rsn_records :: "event_record list"
  rsn_state :: run_state

record run_verification_snapshot =
  rvs_state :: run_state
  rvs_effect_started_at :: "string option"
  rvs_previous_receipt_digest :: "string option"
  rvs_tool_output :: "tool_output_record option"

record run_planning_snapshot =
  rps_state :: run_state
  rps_planning_step_order :: "string list"
  rps_completed_tool_output_order :: "string list"
  rps_completed_tool_outputs :: "(string, tool_output_record) btreemap"

section \<open>Stored sidecars\<close>

record stored_execution_receipt =
  ser_event_sequence :: u64
  ser_effect_id :: string
  ser_receipt :: execution_receipt_body

record stored_tool_output =
  sto_event_sequence :: u64
  sto_record :: tool_output_record

record stored_completion_output =
  sco_event_sequence :: u64
  sco_record :: completion_output_record

section \<open>Anchors and the index\<close>

record effect_intent_anchor =
  eia_event_sequence :: u64
  eia_step_id :: string
  eia_intent :: effect_intent

record effect_start_anchor =
  esa_event_sequence :: u64
  esa_step_id :: string
  esa_recorded_at :: string
  esa_execution_attempt :: u32

record planned_invocation_anchor =
  pia_event_sequence :: u64
  pia_binding :: planned_invocation_binding

record step_journal_position =
  sjp_event_sequence :: u64
  sjp_event_step_index :: usize

record receipt_event_anchor =
  rea_event_sequence :: u64
  rea_run_id :: string
  rea_step_id :: string
  rea_effect_id :: string
  rea_disposition :: verification_disposition
  rea_receipt_id :: string
  rea_receipt_digest :: string
  rea_started_at :: string
  rea_ended_at :: string

record tool_output_event_anchor =
  toa_event_sequence :: u64
  toa_run_id :: string
  toa_step_id :: string
  toa_effect_id :: string
  toa_evidence_digest :: string
  toa_record_digest :: string
  toa_execution_attempt :: u32

record completion_output_event_anchor =
  coa_event_sequence :: u64
  coa_run_id :: string
  coa_candidate_id :: string
  coa_turn_index :: u32
  coa_model_call_id :: string
  coa_context_digest :: string
  coa_proposal_digest :: string
  coa_summary_digest :: string
  coa_record_digest :: string

record commit_sidecars =
  csc_plan_inputs :: "planned_invocation_material_record list option"
  csc_material :: "invocation_material_record option"
  csc_output :: "tool_output_record option"
  csc_completion_output :: "completion_output_record option"
  csc_receipt :: "execution_receipt_body option"

definition no_sidecars :: commit_sidecars where
  "no_sidecars = \<lparr>csc_plan_inputs = None, csc_material = None, csc_output = None,
     csc_completion_output = None, csc_receipt = None\<rparr>"

record commit_anchors =
  can_output :: "tool_output_event_anchor option"
  can_completion_output :: "completion_output_event_anchor option"
  can_receipt :: "receipt_event_anchor option"

definition no_anchors :: commit_anchors where
  "no_anchors = \<lparr>can_output = None, can_completion_output = None, can_receipt = None\<rparr>"

record verified_run_index =
  vx_state :: "run_state option"
  vx_last_record :: "event_record option"
  vx_event_ids :: "string btreeset"
  vx_step_positions :: "(string, step_journal_position) btreemap"
  vx_planned_invocations :: "(string, planned_invocation_anchor) btreemap"
  vx_plan_input_step_ids :: "string btreeset"
  vx_intents :: "(string, effect_intent_anchor) btreemap"
  vx_effect_starts :: "(string, effect_start_anchor) btreemap"
  vx_receipt_events :: "receipt_event_anchor list"
  vx_receipt_event_positions :: "(string, usize) btreemap"
  vx_tool_output_events :: "(string, tool_output_event_anchor) btreemap"
  vx_material_effect_ids :: "string btreeset"
  vx_receipt_ids :: "string btreeset"
  vx_receipt_digests :: "string btreeset"
  vx_receipt_effect_ids :: "string btreeset"
  vx_receipt_head_digest :: "string option"
  vx_tool_output_effect_ids :: "string btreeset"
  vx_tool_output_ids :: "string btreeset"
  vx_tool_output_record_digests :: "string btreeset"
  vx_tool_output_digests :: "(string, string) btreemap"
  vx_tool_output_sizes :: "(string, u64) btreemap"
  vx_completion_output_event :: "completion_output_event_anchor option"

definition vx_default :: verified_run_index where
  "vx_default = \<lparr>vx_state = None, vx_last_record = None, vx_event_ids = bs_empty, vx_step_positions = bm_empty,
     vx_planned_invocations = bm_empty, vx_plan_input_step_ids = bs_empty, vx_intents = bm_empty,
     vx_effect_starts = bm_empty, vx_receipt_events = [], vx_receipt_event_positions = bm_empty,
     vx_tool_output_events = bm_empty, vx_material_effect_ids = bs_empty, vx_receipt_ids = bs_empty,
     vx_receipt_digests = bs_empty, vx_receipt_effect_ids = bs_empty, vx_receipt_head_digest = None,
     vx_tool_output_effect_ids = bs_empty, vx_tool_output_ids = bs_empty,
     vx_tool_output_record_digests = bs_empty, vx_tool_output_digests = bm_empty,
     vx_tool_output_sizes = bm_empty, vx_completion_output_event = None\<rparr>"

section \<open>Errors\<close>

datatype (plugins only:) store_error =
    SE_HeadConflict expected_head expected_head
  | SE_Record record_error
  | SE_Transition transition_error
  | SE_InvocationMaterial invocation_material_error
  | SE_ToolOutput tool_output_error
  | SE_CompletionOutput completion_output_error
  | SE_PlanningContract planning_contract_error
  | SE_Replay replay_error
  | SE_Protocol protocol_error
  | SE_DuplicateEventId string
  | SE_Canonicalization string
  | SE_Corrupt string
  | SE_InvocationMaterialRequired
  | SE_PlannedInvocationInputsRequired
  | SE_UnexpectedPlannedInvocationInputs
  | SE_PlannedInvocationInputCountMismatch usize usize
  | SE_PlannedInvocationInputMissing string
  | SE_DuplicatePlannedInvocationInput string
  | SE_PlannedInvocationRetentionMismatch string
  | SE_UnexpectedInvocationMaterial
  | SE_ExecutionReceiptRequired
  | SE_UnexpectedExecutionReceipt
  | SE_ExecutionReceiptBindingMismatch
  | SE_ExecutionReceiptInvalid
  | SE_UnsupportedReceiptProfile
  | SE_ReceiptProvenanceRequired
  | SE_LegacyVerificationAppendRejected
  | SE_ToolOutputRequired
  | SE_UnexpectedToolOutput
  | SE_ToolOutputBindingMismatch
  | SE_ToolOutputProfileRequired
  | SE_CompletionOutputRequired
  | SE_UnexpectedCompletionOutput
  | SE_CompletionOutputBindingMismatch
  | SE_PlanningSnapshotBudgetExceeded
  | SE_Panic string

end
