(* ===== verification/Store_Index.thy ===== *)
theory Store_Index
  imports Store_Types
begin

text \<open>
  The verified index of the local store, \<open>crates/xgeny-local-store/src/lib.rs\<close>: which sidecar an
  event must carry (the \<open>bundle\<close> checks), the anchors that an event leaves in the index, the
  index computed from a whole journal (\<open>from_snapshot\<close>) and the one maintained commit by commit
  (\<open>apply_committed\<close>), and the audit of stored sidecars against an index. Metrics that only tests
  read are left out.
\<close>

section \<open>Accepted-plan inputs\<close>

definition index_plan_input ::
    "planned_invocation_material_record \<Rightarrow> (string, planned_invocation_material_record) btreemap
      \<Rightarrow> store_error + (string, planned_invocation_material_record) btreemap" where
  "index_plan_input input by_step =
     and_then (reject_if (bm_contains_key by_step (pimr_step_id input))
       (SE_DuplicatePlannedInvocationInput (pimr_step_id input))) (\<lambda>_.
     Inr (bm_insert (pimr_step_id input) input by_step))"

definition verify_plan_step_input ::
    "crypto \<Rightarrow> string \<Rightarrow> (string, planned_invocation_material_record) btreemap \<Rightarrow> accepted_plan_step
      \<Rightarrow> store_error + unit" where
  "verify_plan_step_input cr run_id by_step step =
     and_then (ok_or (SE_PlannedInvocationInputMissing (aps_step_id step)) (bm_get by_step (aps_step_id step))) (\<lambda>input.
     map_err SE_PlanningContract (material_verify_for cr input run_id (aps_step_id step) (aps_invocation step)))"

definition verify_plan_input_bundle ::
    "crypto \<Rightarrow> run_event \<Rightarrow> planned_invocation_material_record list option \<Rightarrow> store_error + unit" where
  "verify_plan_input_bundle cr event inputs =
     (case (re_body event, inputs) of
        (PlanAccepted _ steps, Some inputs) \<Rightarrow>
          and_then (reject_if (length inputs \<noteq> length steps)
            (SE_PlannedInvocationInputCountMismatch (length steps) (length inputs))) (\<lambda>_.
          and_then (try_fold index_plan_input inputs bm_empty) (\<lambda>by_step.
          try_each (verify_plan_step_input cr (re_run_id event) by_step) steps))
      | (PlanAccepted _ _, None) \<Rightarrow> Inl SE_PlannedInvocationInputsRequired
      | (_, Some inputs) \<Rightarrow> reject_if (inputs \<noteq> []) SE_UnexpectedPlannedInvocationInputs
      | (_, None) \<Rightarrow> Inr ())"

definition index_run_id :: "verified_run_index \<Rightarrow> string \<Rightarrow> store_error + string" where
  "index_run_id idx message = ok_or (SE_Corrupt message) (map_option rs_run_id (vx_state idx))"

definition verify_plan_input_entry ::
    "crypto \<Rightarrow> verified_run_index \<Rightarrow> (string, planned_invocation_material_record) btreemap
      \<Rightarrow> string \<times> planned_invocation_anchor \<Rightarrow> store_error + unit" where
  "verify_plan_input_entry cr idx inputs entry =
     (case entry of (step_id, anchor) \<Rightarrow>
        and_then (ok_or (SE_Corrupt ''planned Step has no invocation input sidecar'') (bm_get inputs step_id)) (\<lambda>input.
        and_then (index_run_id idx ''planned input exists without a Run'') (\<lambda>run_id.
        map_err (\<lambda>_. SE_Corrupt ''planned invocation input is invalid'')
          (material_verify_for cr input run_id step_id (pia_binding anchor)))))"

definition verify_plan_input_records ::
    "crypto \<Rightarrow> verified_run_index \<Rightarrow> (string, planned_invocation_material_record) btreemap
      \<Rightarrow> store_error + verified_run_index" where
  "verify_plan_input_records cr idx inputs =
     and_then (try_each (verify_plan_input_entry cr idx inputs) (bm_entries (vx_planned_invocations idx))) (\<lambda>_.
     and_then (reject_if (bm_len inputs \<noteq> bm_len (vx_planned_invocations idx))
       (SE_Corrupt ''planned invocation input count differs from accepted Steps'')) (\<lambda>_.
     Inr (idx\<lparr>vx_plan_input_step_ids := bs_of_list (bm_keys inputs)\<rparr>)))"

definition verify_plan_input_point ::
    "crypto \<Rightarrow> verified_run_index \<Rightarrow> string \<Rightarrow> planned_invocation_material_record option \<Rightarrow> store_error + unit" where
  "verify_plan_input_point cr idx step_id input =
     (case (bm_get (vx_planned_invocations idx) step_id, input) of
        (None, None) \<Rightarrow> Inr ()
      | (None, Some _) \<Rightarrow> Inl (SE_Corrupt ''planned invocation input has no accepted Step'')
      | (Some _, None) \<Rightarrow> Inl (SE_Corrupt ''accepted Step has no planned invocation input'')
      | (Some anchor, Some input) \<Rightarrow>
          and_then (index_run_id idx ''planned input exists without a Run'') (\<lambda>run_id.
          map_err (\<lambda>_. SE_Corrupt ''planned invocation input is invalid'')
            (material_verify_for cr input run_id step_id (pia_binding anchor))))"

definition verify_planned_material_retention ::
    "crypto \<Rightarrow> verified_run_index \<Rightarrow> run_event \<Rightarrow> invocation_material_record
      \<Rightarrow> planned_invocation_material_record option \<Rightarrow> store_error + unit" where
  "verify_planned_material_retention cr idx event material input =
     (case re_body event of
        EffectIntentCommitted step_id _ \<Rightarrow>
          (case (bm_get (vx_planned_invocations idx) step_id, input) of
             (None, None) \<Rightarrow> Inr ()
           | (None, Some _) \<Rightarrow> Inl (SE_Corrupt ''planned input exists for a legacy effect Step'')
           | (Some _, None) \<Rightarrow> Inl (SE_PlannedInvocationInputMissing step_id)
           | (Some anchor, Some input) \<Rightarrow>
               and_then (index_run_id idx ''planned input exists without a Run'') (\<lambda>run_id.
               and_then (map_err SE_PlanningContract
                 (material_verify_for cr input run_id step_id (pia_binding anchor))) (\<lambda>_.
               reject_if (imr_retention material \<noteq> ReconstructableReference (pimr_reference input))
                 (SE_PlannedInvocationRetentionMismatch step_id))))
      | _ \<Rightarrow> Inr ())"

section \<open>Invocation material\<close>

definition receipt_profile_matches :: "string \<Rightarrow> effect_class \<Rightarrow> bool" where
  "receipt_profile_matches profile_version effect_class \<longleftrightarrow>
     profile_version = CORE_RECEIPT_PROFILE_V2 \<and> effect_class \<in> {ReadOnly, Idempotent, NonIdempotent}
     \<or> profile_version = CORE_RECEIPT_PROFILE_V1 \<and> effect_class \<in> {Reversible, Idempotent, NonIdempotent}"

definition output_profile_matches :: "effect_class \<Rightarrow> string \<Rightarrow> string option \<Rightarrow> bool" where
  "output_profile_matches effect_class profile_version tool_output_profile =
     (if effect_class \<in> {ReadOnly, Idempotent, NonIdempotent} \<and> profile_version = CORE_RECEIPT_PROFILE_V2
      then tool_output_profile = Some TOOL_OUTPUT_PROFILE_V1
      else if effect_class \<in> {Reversible, Idempotent, NonIdempotent} \<and> profile_version = CORE_RECEIPT_PROFILE_V1
      then tool_output_profile = None
      else False)"

definition verify_material_bundle ::
    "crypto \<Rightarrow> run_event \<Rightarrow> invocation_material_record option \<Rightarrow> store_error + unit" where
  "verify_material_bundle cr event material =
     (case re_body event of
        EffectIntentCommitted step_id intent \<Rightarrow>
          and_then (ok_or SE_ReceiptProvenanceRequired (ei_receipt_provenance intent)) (\<lambda>provenance.
          and_then (reject_if (\<not> receipt_profile_matches (rp_profile_version provenance) (ei_effect_class intent))
            SE_UnsupportedReceiptProfile) (\<lambda>_.
          and_then (reject_if (\<not> output_profile_matches (ei_effect_class intent) (rp_profile_version provenance)
              (rp_tool_output_profile provenance)) SE_ToolOutputProfileRequired) (\<lambda>_.
          case material of
            Some material \<Rightarrow> map_err SE_InvocationMaterial
              (material_record_verify_for cr material (re_run_id event) step_id intent)
          | None \<Rightarrow> Inl SE_InvocationMaterialRequired)))
      | _ \<Rightarrow> reject_if (material \<noteq> None) SE_UnexpectedInvocationMaterial)"

definition verify_material_entry ::
    "crypto \<Rightarrow> verified_run_index \<Rightarrow> (string, invocation_material_record) btreemap
      \<Rightarrow> string \<times> effect_intent_anchor \<Rightarrow> store_error + unit" where
  "verify_material_entry cr idx materials entry =
     (case entry of (effect_id, anchor) \<Rightarrow>
        and_then (ok_or (SE_Corrupt ''effect has no invocation material descriptor'') (bm_get materials effect_id)) (\<lambda>material.
        and_then (index_run_id idx ''invocation material exists without a Run'') (\<lambda>run_id.
        map_err (\<lambda>_. SE_Corrupt ''invocation material is invalid'')
          (material_record_verify_for cr material run_id (eia_step_id anchor) (eia_intent anchor)))))"

definition verify_material_records ::
    "crypto \<Rightarrow> verified_run_index \<Rightarrow> (string, invocation_material_record) btreemap
      \<Rightarrow> store_error + verified_run_index" where
  "verify_material_records cr idx materials =
     and_then (try_each (verify_material_entry cr idx materials) (bm_entries (vx_intents idx))) (\<lambda>_.
     and_then (reject_if (bm_len materials \<noteq> bm_len (vx_intents idx))
       (SE_Corrupt ''invocation material count differs from effect intents'')) (\<lambda>_.
     Inr (idx\<lparr>vx_material_effect_ids := bs_of_list (bm_keys materials)\<rparr>)))"

definition verify_material_point ::
    "crypto \<Rightarrow> verified_run_index \<Rightarrow> string \<Rightarrow> invocation_material_record option \<Rightarrow> store_error + unit" where
  "verify_material_point cr idx effect_id material =
     (case (bm_get (vx_intents idx) effect_id, material) of
        (None, None) \<Rightarrow> Inr ()
      | (None, Some _) \<Rightarrow> Inl (SE_Corrupt ''invocation material has no committed effect intent'')
      | (Some _, None) \<Rightarrow> Inl (SE_Corrupt ''committed effect intent has no invocation material descriptor'')
      | (Some anchor, Some material) \<Rightarrow>
          and_then (index_run_id idx ''invocation material exists without a Run'') (\<lambda>run_id.
          map_err (\<lambda>_. SE_Corrupt ''invocation material is invalid'')
            (material_record_verify_for cr material run_id (eia_step_id anchor) (eia_intent anchor))))"

section \<open>Anchors\<close>

definition receipt_anchor_for :: "verified_run_index \<Rightarrow> event_record \<Rightarrow> store_error + receipt_event_anchor" where
  "receipt_anchor_for idx rec =
     (case re_body (er_event rec) of
        VerificationRecorded step_id effect_id disposition receipt_id receipt_digest \<Rightarrow>
          and_then (ok_or (SE_Corrupt ''execution receipt has no committed effect intent'')
            (bm_get (vx_intents idx) effect_id)) (\<lambda>intent.
          and_then (reject_if (eia_step_id intent \<noteq> step_id \<or> eia_event_sequence intent \<ge> er_sequence rec)
            (SE_Corrupt ''execution receipt precedes or differs from its effect intent'')) (\<lambda>_.
          and_then (ok_or (SE_Corrupt ''execution receipt has no start event'')
            (bm_get (vx_effect_starts idx) effect_id)) (\<lambda>started.
          and_then (reject_if (esa_step_id started \<noteq> step_id \<or> esa_event_sequence started \<ge> er_sequence rec)
            (SE_Corrupt ''execution receipt precedes or differs from its start event'')) (\<lambda>_.
          Inr \<lparr>rea_event_sequence = er_sequence rec, rea_run_id = re_run_id (er_event rec), rea_step_id = step_id,
               rea_effect_id = effect_id, rea_disposition = disposition, rea_receipt_id = receipt_id,
               rea_receipt_digest = receipt_digest, rea_started_at = esa_recorded_at started,
               rea_ended_at = re_recorded_at (er_event rec)\<rparr>))))
      | _ \<Rightarrow> Inl SE_UnexpectedExecutionReceipt)"

definition intent_output_profile :: "effect_intent \<Rightarrow> string option" where
  "intent_output_profile intent = Option.bind (ei_receipt_provenance intent) rp_tool_output_profile"

definition tool_output_anchor_for :: "verified_run_index \<Rightarrow> event_record \<Rightarrow> store_error + tool_output_event_anchor" where
  "tool_output_anchor_for idx rec =
     (case re_body (er_event rec) of
        EffectSucceeded step_id effect_id evidence_digest (Some rdigest) \<Rightarrow>
          and_then (ok_or (SE_Corrupt ''tool output has no committed effect intent'')
            (bm_get (vx_intents idx) effect_id)) (\<lambda>intent.
          and_then (reject_if (eia_step_id intent \<noteq> step_id \<or> eia_event_sequence intent \<ge> er_sequence rec)
            (SE_Corrupt ''tool output precedes or differs from its effect intent'')) (\<lambda>_.
          and_then (reject_if (intent_output_profile (eia_intent intent) \<noteq> Some TOOL_OUTPUT_PROFILE_V1)
            (SE_Corrupt ''tool output has no supported durable profile'')) (\<lambda>_.
          and_then (ok_or (SE_Corrupt ''tool output has no effect start event'')
            (bm_get (vx_effect_starts idx) effect_id)) (\<lambda>started.
          and_then (reject_if (esa_step_id started \<noteq> step_id \<or> esa_event_sequence started \<ge> er_sequence rec)
            (SE_Corrupt ''tool output precedes or differs from its start event'')) (\<lambda>_.
          Inr \<lparr>toa_event_sequence = er_sequence rec, toa_run_id = re_run_id (er_event rec), toa_step_id = step_id,
               toa_effect_id = effect_id, toa_evidence_digest = evidence_digest, toa_record_digest = rdigest,
               toa_execution_attempt = esa_execution_attempt started\<rparr>)))))
      | _ \<Rightarrow> Inl SE_UnexpectedToolOutput)"

definition completion_output_anchor_for :: "event_record \<Rightarrow> store_error + completion_output_event_anchor" where
  "completion_output_anchor_for rec =
     (case re_body (er_event rec) of
        CompletionCandidateRecorded decision candidate_id summary_digest (Some rdigest) \<Rightarrow>
          and_then (ok_or (SE_Corrupt ''completion output event has no durable model-call binding'')
            (ept_model_call_id decision)) (\<lambda>model_call_id.
          Inr \<lparr>coa_event_sequence = er_sequence rec, coa_run_id = re_run_id (er_event rec),
               coa_candidate_id = candidate_id, coa_turn_index = ept_turn_index decision,
               coa_model_call_id = model_call_id, coa_context_digest = ept_context_digest decision,
               coa_proposal_digest = ept_proposal_digest decision, coa_summary_digest = summary_digest,
               coa_record_digest = rdigest\<rparr>)
      | _ \<Rightarrow> Inl SE_UnexpectedCompletionOutput)"

section \<open>The index of a journal\<close>

definition index_head :: "verified_run_index \<Rightarrow> expected_head" where
  "index_head idx = (case vx_last_record idx of None \<Rightarrow> HeadEmpty
     | Some rec \<Rightarrow> HeadExact (er_sequence rec) (er_digest rec))"

definition index_step_position ::
    "string \<Rightarrow> step_journal_position \<Rightarrow> verified_run_index \<Rightarrow> store_error + verified_run_index" where
  "index_step_position step_id position idx =
     and_then (reject_if (bm_contains_key (vx_step_positions idx) step_id)
       (SE_Corrupt ''journal contains a duplicate Step position'')) (\<lambda>_.
     Inr (idx\<lparr>vx_step_positions := bm_insert step_id position (vx_step_positions idx)\<rparr>))"

definition index_planned_step ::
    "u64 \<Rightarrow> usize \<times> accepted_plan_step \<Rightarrow> verified_run_index \<Rightarrow> store_error + verified_run_index" where
  "index_planned_step sequence entry idx =
     (case entry of (event_step_index, step) \<Rightarrow>
        and_then (index_step_position (aps_step_id step)
          \<lparr>sjp_event_sequence = sequence, sjp_event_step_index = event_step_index\<rparr> idx) (\<lambda>idx.
        and_then (reject_if (bm_contains_key (vx_planned_invocations idx) (aps_step_id step))
          (SE_Corrupt ''journal contains a duplicate planned invocation'')) (\<lambda>_.
        Inr (idx\<lparr>vx_planned_invocations := bm_insert (aps_step_id step)
          \<lparr>pia_event_sequence = sequence, pia_binding = aps_invocation step\<rparr> (vx_planned_invocations idx)\<rparr>))))"

definition next_start :: "verified_run_index \<Rightarrow> event_record \<Rightarrow> string \<Rightarrow> string \<Rightarrow> effect_start_anchor" where
  "next_start idx rec step_id effect_id =
     \<lparr>esa_event_sequence = er_sequence rec, esa_step_id = step_id, esa_recorded_at = re_recorded_at (er_event rec),
      esa_execution_attempt = (case bm_get (vx_effect_starts idx) effect_id of None \<Rightarrow> 1
        | Some anchor \<Rightarrow> saturating_add (esa_execution_attempt anchor) 1)\<rparr>"

definition index_receipt_event :: "event_record \<Rightarrow> verified_run_index \<Rightarrow> store_error + verified_run_index" where
  "index_receipt_event rec idx =
     and_then (receipt_anchor_for idx rec) (\<lambda>anchor.
     and_then (reject_if (bm_contains_key (vx_receipt_event_positions idx) (rea_effect_id anchor))
       (SE_Corrupt ''journal contains duplicate Receipt events for one effect'')) (\<lambda>_.
     Inr (idx\<lparr>vx_receipt_event_positions :=
            bm_insert (rea_effect_id anchor) (length (vx_receipt_events idx)) (vx_receipt_event_positions idx),
          vx_receipt_events := vx_receipt_events idx @ [anchor]\<rparr>)))"

definition index_event :: "event_record \<Rightarrow> verified_run_index \<Rightarrow> store_error + verified_run_index" where
  "index_event rec idx =
     (case re_body (er_event rec) of
        StepPlanned step_id _ _ \<Rightarrow>
          index_step_position step_id \<lparr>sjp_event_sequence = er_sequence rec, sjp_event_step_index = 0\<rparr> idx
      | PlanAccepted _ steps \<Rightarrow>
          try_fold (index_planned_step (er_sequence rec)) (List.enumerate 0 steps) idx
      | EffectIntentCommitted step_id intent \<Rightarrow>
          and_then (reject_if (bm_contains_key (vx_intents idx) (ei_effect_id intent))
            (SE_Corrupt ''journal contains a duplicate effect intent'')) (\<lambda>_.
          Inr (idx\<lparr>vx_intents := bm_insert (ei_effect_id intent)
            \<lparr>eia_event_sequence = er_sequence rec, eia_step_id = step_id, eia_intent = intent\<rparr> (vx_intents idx)\<rparr>))
      | EffectExecutionStarted step_id effect_id \<Rightarrow>
          Inr (idx\<lparr>vx_effect_starts :=
            bm_insert effect_id (next_start idx rec step_id effect_id) (vx_effect_starts idx)\<rparr>)
      | EffectSucceeded _ _ _ (Some _) \<Rightarrow>
          and_then (tool_output_anchor_for idx rec) (\<lambda>anchor.
          and_then (reject_if (bm_contains_key (vx_tool_output_events idx) (toa_effect_id anchor))
            (SE_Corrupt ''journal contains duplicate tool-output events'')) (\<lambda>_.
          Inr (idx\<lparr>vx_tool_output_events := bm_insert (toa_effect_id anchor) anchor (vx_tool_output_events idx)\<rparr>)))
      | CompletionCandidateRecorded _ _ _ (Some _) \<Rightarrow>
          and_then (reject_if (vx_completion_output_event idx \<noteq> None)
            (SE_Corrupt ''journal contains duplicate completion-output events'')) (\<lambda>_.
          and_then (completion_output_anchor_for rec) (\<lambda>anchor.
          Inr (idx\<lparr>vx_completion_output_event := Some anchor\<rparr>)))
      | VerificationRecorded _ _ _ _ _ \<Rightarrow> index_receipt_event rec idx
      | _ \<Rightarrow> Inr idx)"

definition index_record :: "event_record \<Rightarrow> verified_run_index \<Rightarrow> store_error + verified_run_index" where
  "index_record rec idx =
     and_then (reject_if (bs_contains (vx_event_ids idx) (re_event_id (er_event rec)))
       (SE_Corrupt ''journal contains a duplicate event identifier'')) (\<lambda>_.
     and_then (index_event rec (idx\<lparr>vx_event_ids := bs_insert (re_event_id (er_event rec)) (vx_event_ids idx)\<rparr>)) (\<lambda>idx.
     Inr (idx\<lparr>vx_last_record := Some rec\<rparr>)))"

definition from_snapshot :: "run_snapshot option \<Rightarrow> store_error + verified_run_index" where
  "from_snapshot snapshot =
     (case snapshot of None \<Rightarrow> Inr vx_default
      | Some snapshot \<Rightarrow> try_fold index_record (rsn_records snapshot) (vx_default\<lparr>vx_state := Some (rsn_state snapshot)\<rparr>))"

section \<open>The index after one commit\<close>

definition commit_planned_step ::
    "u64 \<Rightarrow> usize \<times> accepted_plan_step \<Rightarrow> verified_run_index \<Rightarrow> verified_run_index" where
  "commit_planned_step sequence entry idx =
     (case entry of (event_step_index, step) \<Rightarrow>
        idx\<lparr>vx_step_positions := bm_insert (aps_step_id step)
             \<lparr>sjp_event_sequence = sequence, sjp_event_step_index = event_step_index\<rparr> (vx_step_positions idx),
           vx_planned_invocations := bm_insert (aps_step_id step)
             \<lparr>pia_event_sequence = sequence, pia_binding = aps_invocation step\<rparr> (vx_planned_invocations idx)\<rparr>)"

definition commit_event ::
    "event_record \<Rightarrow> commit_anchors \<Rightarrow> verified_run_index \<Rightarrow> store_error + verified_run_index" where
  "commit_event rec anchors idx =
     (case re_body (er_event rec) of
        StepPlanned step_id _ _ \<Rightarrow>
          Inr (idx\<lparr>vx_step_positions := bm_insert step_id
            \<lparr>sjp_event_sequence = er_sequence rec, sjp_event_step_index = 0\<rparr> (vx_step_positions idx)\<rparr>)
      | PlanAccepted _ steps \<Rightarrow>
          Inr (fold (commit_planned_step (er_sequence rec)) (List.enumerate 0 steps) idx)
      | EffectIntentCommitted step_id intent \<Rightarrow>
          Inr (idx\<lparr>vx_intents := bm_insert (ei_effect_id intent)
            \<lparr>eia_event_sequence = er_sequence rec, eia_step_id = step_id, eia_intent = intent\<rparr> (vx_intents idx)\<rparr>)
      | EffectExecutionStarted step_id effect_id \<Rightarrow>
          Inr (idx\<lparr>vx_effect_starts :=
            bm_insert effect_id (next_start idx rec step_id effect_id) (vx_effect_starts idx)\<rparr>)
      | EffectSucceeded _ _ _ (Some _) \<Rightarrow>
          and_then (ok_or (SE_Panic ''verified tool-output commit must retain its event anchor'') (can_output anchors)) (\<lambda>anchor.
          Inr (idx\<lparr>vx_tool_output_events := bm_insert (toa_effect_id anchor) anchor (vx_tool_output_events idx)\<rparr>))
      | CompletionCandidateRecorded _ _ _ (Some _) \<Rightarrow>
          and_then (ok_or (SE_Panic ''verified completion-output commit must retain its event anchor'')
            (can_completion_output anchors)) (\<lambda>anchor.
          Inr (idx\<lparr>vx_completion_output_event := Some anchor\<rparr>))
      | VerificationRecorded _ _ _ _ _ \<Rightarrow>
          and_then (ok_or (SE_Panic ''verified Receipt commit must retain its event anchor'') (can_receipt anchors)) (\<lambda>anchor.
          Inr (idx\<lparr>vx_receipt_event_positions :=
                 bm_insert (rea_effect_id anchor) (length (vx_receipt_events idx)) (vx_receipt_event_positions idx),
               vx_receipt_events := vx_receipt_events idx @ [anchor]\<rparr>))
      | _ \<Rightarrow> Inr idx)"

definition commit_plan_inputs ::
    "planned_invocation_material_record list option \<Rightarrow> verified_run_index \<Rightarrow> verified_run_index" where
  "commit_plan_inputs inputs idx =
     (case inputs of None \<Rightarrow> idx
      | Some inputs \<Rightarrow> idx\<lparr>vx_plan_input_step_ids :=
          fold (\<lambda>input. bs_insert (pimr_step_id input)) inputs (vx_plan_input_step_ids idx)\<rparr>)"

definition commit_material :: "invocation_material_record option \<Rightarrow> verified_run_index \<Rightarrow> verified_run_index" where
  "commit_material material idx =
     (case material of None \<Rightarrow> idx
      | Some material \<Rightarrow> idx\<lparr>vx_material_effect_ids := bs_insert (imr_effect_id material) (vx_material_effect_ids idx)\<rparr>)"

definition commit_output :: "tool_output_record option \<Rightarrow> verified_run_index \<Rightarrow> verified_run_index" where
  "commit_output tool_output idx =
     (case tool_output of None \<Rightarrow> idx
      | Some r \<Rightarrow> idx
          \<lparr>vx_tool_output_effect_ids := bs_insert (tor_effect_id r) (vx_tool_output_effect_ids idx),
           vx_tool_output_ids := bs_insert (tor_output_id r) (vx_tool_output_ids idx),
           vx_tool_output_record_digests := bs_insert (tor_record_digest r) (vx_tool_output_record_digests idx),
           vx_tool_output_digests := bm_insert (tor_effect_id r) (tor_output_digest r) (vx_tool_output_digests idx),
           vx_tool_output_sizes := bm_insert (tor_effect_id r) (tor_canonical_size_bytes r) (vx_tool_output_sizes idx)\<rparr>)"

definition commit_receipt ::
    "run_event_body \<Rightarrow> execution_receipt_body option \<Rightarrow> verified_run_index \<Rightarrow> verified_run_index" where
  "commit_receipt body receipt idx =
     (case receipt of None \<Rightarrow> idx
      | Some receipt \<Rightarrow> idx
          \<lparr>vx_receipt_ids := bs_insert (erb_receipt_id receipt) (vx_receipt_ids idx),
           vx_receipt_digests := bs_insert (erb_receipt_digest receipt) (vx_receipt_digests idx),
           vx_receipt_effect_ids := (case body of
               VerificationRecorded _ effect_id _ _ _ \<Rightarrow> bs_insert effect_id (vx_receipt_effect_ids idx)
             | _ \<Rightarrow> vx_receipt_effect_ids idx),
           vx_receipt_head_digest := Some (erb_receipt_digest receipt)\<rparr>)"

definition apply_committed ::
    "commit \<Rightarrow> commit_sidecars \<Rightarrow> commit_anchors \<Rightarrow> verified_run_index \<Rightarrow> store_error + verified_run_index" where
  "apply_committed c sidecars anchors idx =
     (let rec = cm_record c; body = re_body (er_event rec) in
      and_then (commit_event rec anchors
        (idx\<lparr>vx_event_ids := bs_insert (re_event_id (er_event rec)) (vx_event_ids idx)\<rparr>)) (\<lambda>idx.
      Inr ((commit_receipt body (csc_receipt sidecars)
             (commit_output (csc_output sidecars)
               (commit_material (csc_material sidecars)
                 (commit_plan_inputs (csc_plan_inputs sidecars) idx))))
           \<lparr>vx_state := Some (cm_state c), vx_last_record := Some rec\<rparr>)))"

section \<open>Tool outputs\<close>

definition verify_tool_output_bundle :: "run_event \<Rightarrow> tool_output_record option \<Rightarrow> store_error + unit" where
  "verify_tool_output_bundle event tool_output =
     (case (re_body event, tool_output) of
        (EffectSucceeded _ _ _ (Some expected), Some r) \<Rightarrow>
          if expected = tor_record_digest r then Inr () else Inl SE_ToolOutputBindingMismatch
      | (EffectSucceeded _ _ _ None, Some _) \<Rightarrow> Inl SE_ToolOutputBindingMismatch
      | (EffectSucceeded _ _ _ (Some _), None) \<Rightarrow> Inl SE_ToolOutputRequired
      | (_, Some _) \<Rightarrow> Inl SE_UnexpectedToolOutput
      | (_, None) \<Rightarrow> Inr ())"

definition verify_tool_output_candidate ::
    "crypto \<Rightarrow> verified_run_index \<Rightarrow> event_record \<Rightarrow> tool_output_record \<Rightarrow> store_error + tool_output_event_anchor" where
  "verify_tool_output_candidate cr idx rec r =
     and_then (tool_output_anchor_for idx rec) (\<lambda>anchor.
     and_then (reject_if (bs_contains (vx_tool_output_effect_ids idx) (toa_effect_id anchor)
         \<or> bs_contains (vx_tool_output_ids idx) (tor_output_id r)
         \<or> bs_contains (vx_tool_output_record_digests idx) (tor_record_digest r))
       (SE_Corrupt ''duplicate tool-output identity'')) (\<lambda>_.
     and_then (ok_or (SE_Panic ''output anchor verifies its effect intent'')
       (bm_get (vx_intents idx) (toa_effect_id anchor))) (\<lambda>intent.
     and_then (map_err (\<lambda>_. SE_ToolOutputBindingMismatch)
       (tool_output_verify_for cr r (toa_run_id anchor) (toa_step_id anchor) (eia_intent intent)
         (toa_execution_attempt anchor) (toa_evidence_digest anchor))) (\<lambda>_.
     and_then (reject_if (tor_record_digest r \<noteq> toa_record_digest anchor) SE_ToolOutputBindingMismatch) (\<lambda>_.
     Inr anchor)))))"

definition verify_stored_tool_output ::
    "crypto \<Rightarrow> verified_run_index \<Rightarrow> tool_output_event_anchor \<Rightarrow> stored_tool_output \<Rightarrow> store_error + unit" where
  "verify_stored_tool_output cr idx anchor stored =
     and_then (reject_if (sto_event_sequence stored \<noteq> toa_event_sequence anchor
         \<or> tor_effect_id (sto_record stored) \<noteq> toa_effect_id anchor
         \<or> tor_record_digest (sto_record stored) \<noteq> toa_record_digest anchor)
       (SE_Corrupt ''tool output differs from its journal binding'')) (\<lambda>_.
     and_then (ok_or (SE_Corrupt ''tool output has no effect intent'')
       (bm_get (vx_intents idx) (toa_effect_id anchor))) (\<lambda>intent.
     map_err (\<lambda>_. SE_Corrupt ''tool output record is invalid'')
       (tool_output_verify_for cr (sto_record stored) (toa_run_id anchor) (toa_step_id anchor) (eia_intent intent)
         (toa_execution_attempt anchor) (toa_evidence_digest anchor))))"

definition index_tool_output ::
    "tool_output_event_anchor \<Rightarrow> tool_output_record \<Rightarrow> verified_run_index \<Rightarrow> store_error + verified_run_index" where
  "index_tool_output anchor r idx =
     and_then (reject_if (bs_contains (vx_tool_output_effect_ids idx) (toa_effect_id anchor)
         \<or> bs_contains (vx_tool_output_ids idx) (tor_output_id r)
         \<or> bs_contains (vx_tool_output_record_digests idx) (tor_record_digest r)
         \<or> bm_contains_key (vx_tool_output_digests idx) (toa_effect_id anchor)
         \<or> bm_contains_key (vx_tool_output_sizes idx) (toa_effect_id anchor))
       (SE_Corrupt ''duplicate tool-output identity'')) (\<lambda>_.
     Inr (idx
       \<lparr>vx_tool_output_effect_ids := bs_insert (toa_effect_id anchor) (vx_tool_output_effect_ids idx),
        vx_tool_output_ids := bs_insert (tor_output_id r) (vx_tool_output_ids idx),
        vx_tool_output_record_digests := bs_insert (tor_record_digest r) (vx_tool_output_record_digests idx),
        vx_tool_output_digests := bm_insert (toa_effect_id anchor) (tor_output_digest r) (vx_tool_output_digests idx),
        vx_tool_output_sizes := bm_insert (toa_effect_id anchor) (tor_canonical_size_bytes r) (vx_tool_output_sizes idx)\<rparr>))"

definition audit_tool_output ::
    "crypto \<Rightarrow> (string, stored_tool_output) btreemap \<Rightarrow> tool_output_event_anchor \<Rightarrow> verified_run_index
      \<Rightarrow> store_error + verified_run_index" where
  "audit_tool_output cr outputs anchor idx =
     and_then (ok_or (SE_Corrupt ''effect has no durable tool output'') (bm_get outputs (toa_effect_id anchor))) (\<lambda>stored.
     and_then (verify_stored_tool_output cr idx anchor stored) (\<lambda>_.
     index_tool_output anchor (sto_record stored) idx))"

definition verify_tool_output_records ::
    "crypto \<Rightarrow> verified_run_index \<Rightarrow> (string, stored_tool_output) btreemap \<Rightarrow> store_error + verified_run_index" where
  "verify_tool_output_records cr idx outputs =
     and_then (reject_if (bm_len (vx_tool_output_events idx) \<noteq> bm_len outputs)
       (SE_Corrupt ''tool-output count differs from output-bound success events'')) (\<lambda>_.
     try_fold (audit_tool_output cr outputs)
       (sort_key toa_event_sequence (bm_values (vx_tool_output_events idx))) idx)"

definition verify_tool_output_point ::
    "crypto \<Rightarrow> verified_run_index \<Rightarrow> string \<Rightarrow> stored_tool_output option \<Rightarrow> store_error + unit" where
  "verify_tool_output_point cr idx effect_id stored =
     (case (bm_get (vx_tool_output_events idx) effect_id, stored) of
        (None, None) \<Rightarrow> Inr ()
      | (None, Some _) \<Rightarrow> Inl (SE_Corrupt ''tool output has no output-bound success event'')
      | (Some _, None) \<Rightarrow> Inl (SE_Corrupt ''output-bound success has no durable tool output'')
      | (Some anchor, Some stored) \<Rightarrow> verify_stored_tool_output cr idx anchor stored)"

section \<open>Completion outputs\<close>

definition verify_completion_output_bundle :: "run_event \<Rightarrow> completion_output_record option \<Rightarrow> store_error + unit" where
  "verify_completion_output_bundle event completion =
     (case (re_body event, completion) of
        (CompletionCandidateRecorded _ _ _ (Some expected), Some r) \<Rightarrow>
          if expected = cor_record_digest r then Inr () else Inl SE_CompletionOutputBindingMismatch
      | (CompletionCandidateRecorded _ _ _ None, Some _) \<Rightarrow> Inl SE_CompletionOutputBindingMismatch
      | (CompletionCandidateRecorded _ _ _ _, None) \<Rightarrow> Inl SE_CompletionOutputRequired
      | (_, Some _) \<Rightarrow> Inl SE_UnexpectedCompletionOutput
      | (_, None) \<Rightarrow> Inr ())"

definition completion_anchor_decision ::
    "completion_output_event_anchor \<Rightarrow> store_error + expected_planning_turn" where
  "completion_anchor_decision anchor = map_err SE_PlanningContract
     (planning_turn_for_model_call (coa_turn_index anchor) (coa_model_call_id anchor) (coa_context_digest anchor)
       (coa_proposal_digest anchor))"

definition verify_completion_output_candidate ::
    "crypto \<Rightarrow> verified_run_index \<Rightarrow> event_record \<Rightarrow> completion_output_record
      \<Rightarrow> store_error + completion_output_event_anchor" where
  "verify_completion_output_candidate cr idx rec r =
     and_then (reject_if (vx_completion_output_event idx \<noteq> None)
       (SE_Corrupt ''duplicate completion-output identity'')) (\<lambda>_.
     and_then (completion_output_anchor_for rec) (\<lambda>anchor.
     and_then (completion_anchor_decision anchor) (\<lambda>decision.
     and_then (map_err (\<lambda>_. SE_CompletionOutputBindingMismatch)
       (completion_verify_for cr r (coa_run_id anchor) decision (coa_candidate_id anchor) (coa_summary_digest anchor))) (\<lambda>_.
     and_then (reject_if (cor_record_digest r \<noteq> coa_record_digest anchor) SE_CompletionOutputBindingMismatch) (\<lambda>_.
     Inr anchor)))))"

definition verify_stored_completion_output ::
    "crypto \<Rightarrow> completion_output_event_anchor \<Rightarrow> stored_completion_output \<Rightarrow> store_error + unit" where
  "verify_stored_completion_output cr anchor stored =
     and_then (reject_if (sco_event_sequence stored \<noteq> coa_event_sequence anchor
         \<or> cor_candidate_id (sco_record stored) \<noteq> coa_candidate_id anchor
         \<or> cor_record_digest (sco_record stored) \<noteq> coa_record_digest anchor)
       (SE_Corrupt ''completion output differs from its journal binding'')) (\<lambda>_.
     and_then (completion_anchor_decision anchor) (\<lambda>decision.
     map_err (\<lambda>_. SE_Corrupt ''completion output record is invalid'')
       (completion_verify_for cr (sco_record stored) (coa_run_id anchor) decision (coa_candidate_id anchor)
         (coa_summary_digest anchor))))"

definition verify_completion_output_record ::
    "crypto \<Rightarrow> verified_run_index \<Rightarrow> stored_completion_output option \<Rightarrow> store_error + unit" where
  "verify_completion_output_record cr idx stored =
     (case (vx_completion_output_event idx, stored) of
        (None, None) \<Rightarrow> Inr ()
      | (None, Some _) \<Rightarrow> Inl (SE_Corrupt ''completion output has no digest-bound completion event'')
      | (Some _, None) \<Rightarrow> Inl (SE_Corrupt ''digest-bound completion event has no durable output'')
      | (Some anchor, Some stored) \<Rightarrow> verify_stored_completion_output cr anchor stored)"

definition build_completion_output ::
    "crypto \<Rightarrow> verified_run_index \<Rightarrow> expected_head \<Rightarrow> string \<Rightarrow> stored_completion_output option
      \<Rightarrow> store_error + completion_output_record option" where
  "build_completion_output cr idx expected candidate_id stored =
     (let actual = index_head idx in
      and_then (reject_if (expected \<noteq> actual) (SE_HeadConflict expected actual)) (\<lambda>_.
      case Option.bind (Option.bind (vx_state idx) rs_agent_loop) als_completion_candidate of
        None \<Rightarrow> and_then (reject_if (stored \<noteq> None)
          (SE_Corrupt ''completion output exists without a projected candidate'')) (\<lambda>_. Inr None)
      | Some candidate \<Rightarrow>
          if ccs_candidate_id candidate \<noteq> candidate_id then Inr None
          else and_then (verify_completion_output_record cr idx stored) (\<lambda>_.
            case (ccs_completion_output_record_digest candidate, stored) of
              (None, None) \<Rightarrow> Inr None
            | (Some expected_digest, Some stored) \<Rightarrow>
                if expected_digest = cor_record_digest (sco_record stored) then Inr (Some (sco_record stored))
                else Inl (SE_Corrupt ''completion output differs from its projected candidate'')
            | _ \<Rightarrow> Inl (SE_Corrupt ''completion output differs from its projected candidate''))))"

end
