(* ===== verification/Receipt_Audit.thy ===== *)
theory Receipt_Audit
  imports Store_Index
begin

text \<open>
  Execution receipts in the local store, \<open>crates/xgeny-local-store/src/lib.rs\<close>: the binding of a
  receipt to the effect intent, to the durable tool output, to the journal timestamps and to the
  previous receipt, checked once for a candidate and once for every stored receipt on an audit.
\<close>

section \<open>Bindings\<close>

definition verify_receipt_tool_output_binding ::
    "verified_run_index \<Rightarrow> string \<Rightarrow> execution_receipt_body \<Rightarrow> store_error + unit" where
  "verify_receipt_tool_output_binding idx effect_id receipt =
     and_then (ok_or (SE_Corrupt ''Receipt has no effect intent'') (bm_get (vx_intents idx) effect_id)) (\<lambda>anchor.
     case (intent_output_profile (eia_intent anchor), bm_get (vx_tool_output_digests idx) effect_id) of
       (Some profile, stored) \<Rightarrow>
         if profile = TOOL_OUTPUT_PROFILE_V1 then
           (if stored = Some (erb_output_digest receipt) then Inr ()
            else Inl (SE_Corrupt ''Receipt output digest differs from the durable tool output''))
         else Inl (SE_Corrupt ''tool-output profile and durable output differ'')
     | (None, None) \<Rightarrow> Inr ()
     | (None, Some _) \<Rightarrow> Inl (SE_Corrupt ''tool-output profile and durable output differ''))"

definition verify_receipt_bundle ::
    "crypto \<Rightarrow> protocol_env \<Rightarrow> run_event \<Rightarrow> execution_receipt_body option \<Rightarrow> store_error + unit" where
  "verify_receipt_bundle cr env event receipt =
     (case (re_body event, receipt) of
        (VerificationRecorded step_id _ _ receipt_id receipt_digest, Some receipt) \<Rightarrow>
          and_then (map_err (\<lambda>_. SE_ExecutionReceiptInvalid) (validate_execution_receipt cr env receipt)) (\<lambda>_.
          reject_if (erb_run_id receipt \<noteq> re_run_id event \<or> erb_step_id receipt \<noteq> step_id
              \<or> erb_receipt_id receipt \<noteq> receipt_id \<or> erb_receipt_digest receipt \<noteq> receipt_digest)
            SE_ExecutionReceiptBindingMismatch)
      | (VerificationRecorded _ _ _ _ _, None) \<Rightarrow> Inl SE_ExecutionReceiptRequired
      | (VerificationPassed _, None) \<Rightarrow> Inl SE_LegacyVerificationAppendRejected
      | (VerificationFailed _ _, None) \<Rightarrow> Inl SE_LegacyVerificationAppendRejected
      | (_, Some _) \<Rightarrow> Inl SE_UnexpectedExecutionReceipt
      | (_, None) \<Rightarrow> Inr ())"

definition has_core_redactions :: "execution_receipt_body \<Rightarrow> bool" where
  "has_core_redactions receipt \<longleftrightarrow> erb_redactions_applied receipt = CORE_RECEIPT_REDACTIONS_V1"

fun protocol_effect_class :: "effect_class \<Rightarrow> domain_effect_class" where
  "protocol_effect_class ReadOnly = DE_ReadOnly"
| "protocol_effect_class Reversible = DE_Compensatable"
| "protocol_effect_class Idempotent = DE_Idempotent"
| "protocol_effect_class NonIdempotent = DE_NonIdempotent"

fun protocol_placement :: "receipt_placement \<Rightarrow> placement" where
  "protocol_placement PlacementLocal = PL_Local"
| "protocol_placement PlacementDevice = PL_Device"
| "protocol_placement PlacementRemote = PL_Remote"

fun protocol_verification_strategy :: "receipt_verification_strategy \<Rightarrow> verification_strategy" where
  "protocol_verification_strategy StrategyOutputSchema = VS_OutputSchema"
| "protocol_verification_strategy StrategyPostcondition = VS_Postcondition"
| "protocol_verification_strategy StrategyArtifactDigest = VS_ArtifactDigest"
| "protocol_verification_strategy StrategyReceipt = VS_Receipt"
| "protocol_verification_strategy StrategyHuman = VS_Human"

definition verify_receipt_artifact ::
    "execution_receipt_body \<Rightarrow> artifact_ref \<Rightarrow> u64 \<times> string btreeset \<Rightarrow> store_error + u64 \<times> string btreeset" where
  "verify_receipt_artifact receipt artifact acc =
     (case acc of (total_size, identifiers) \<Rightarrow>
        let expected_provenance = (case ar_provenance artifact of None \<Rightarrow> False
              | Some p \<Rightarrow> ap_run_id p = erb_run_id receipt \<and> ap_step_id p = erb_step_id receipt
                  \<and> ap_receipt_id p = Some (erb_receipt_id receipt)) in
        and_then (ok_or (SE_Corrupt ''core Receipt artifact size overflows'')
          (checked_add total_size (ar_size artifact))) (\<lambda>total_size.
        and_then (reject_if
            (\<not> core_artifact_descriptor_v2_is_valid (ar_artifact_id artifact) (ar_name artifact)
                (ar_media_type artifact) (ar_size artifact) (ar_digest artifact)
             \<or> total_size > CORE_RECEIPT_MAX_ARTIFACT_TOTAL_BYTES_V2
             \<or> bs_contains identifiers (ar_artifact_id artifact)
             \<or> \<not> expected_provenance
             \<or> bm_entries (ar_extensions artifact) \<noteq> []
             \<or> ar_required_extensions artifact \<noteq> [])
          (SE_Corrupt ''core Receipt artifact binding differs'')) (\<lambda>_.
        Inr (total_size, bs_insert (ar_artifact_id artifact) identifiers))))"

definition verify_core_receipt_artifacts ::
    "execution_receipt_body \<Rightarrow> effect_intent \<Rightarrow> receipt_provenance \<Rightarrow> store_error + unit" where
  "verify_core_receipt_artifacts receipt intent provenance =
     (if rp_profile_version provenance = CORE_RECEIPT_PROFILE_V1 then
        reject_if (ei_effect_class intent = ReadOnly \<or> erb_artifacts receipt \<noteq> [])
          (SE_Corrupt ''core Receipt v1 artifact semantics differ'')
      else if rp_profile_version provenance = CORE_RECEIPT_PROFILE_V2 then
        and_then (reject_if (ei_effect_class intent \<notin> {ReadOnly, Idempotent, NonIdempotent}
            \<or> erb_artifacts receipt = [] \<or> length (erb_artifacts receipt) > CORE_RECEIPT_MAX_ARTIFACTS_V2)
          (SE_Corrupt ''core Receipt v2 artifact semantics differ'')) (\<lambda>_.
        and_then (try_fold (verify_receipt_artifact receipt) (erb_artifacts receipt) (0, bs_empty)) (\<lambda>_. Inr ()))
      else Inl SE_UnsupportedReceiptProfile)"

definition verify_receipt_evidence ::
    "verification_evidence \<times> receipt_verification_rule \<Rightarrow> store_error + unit" where
  "verify_receipt_evidence entry =
     (case entry of (evidence, rule) \<Rightarrow>
        reject_if (ve_strategy evidence \<noteq> protocol_verification_strategy (rvr_strategy rule)
            \<or> ve_required evidence \<noteq> rvr_required rule
            \<or> ve_summary evidence \<noteq> core_verification_summary_v1 (ve_result evidence)
            \<or> ve_artifact evidence \<noteq> None
            \<or> ve_result evidence = VR_Passed \<and> ve_evidence_digest evidence = None)
          (SE_Corrupt ''execution receipt verification plan differs''))"

fun outcome_disposition :: "core_verification_outcome \<Rightarrow> verification_disposition" where
  "outcome_disposition CV_OutcomePassed = VerdictPassed"
| "outcome_disposition CV_OutcomeFailed = VerdictFailed"
| "outcome_disposition CV_OutcomeInconclusive = VerdictInconclusive"

definition verify_receipt_intent_binding ::
    "execution_receipt_body \<Rightarrow> effect_intent \<Rightarrow> receipt_provenance \<Rightarrow> verification_disposition \<Rightarrow> store_error + unit" where
  "verify_receipt_intent_binding receipt intent provenance disposition =
     and_then (verify_core_receipt_artifacts receipt intent provenance) (\<lambda>_.
     and_then (reject_if
         (erb_receipt_id receipt \<noteq> core_receipt_id_v1 (ei_effect_id intent)
          \<or> bm_entries (erb_extensions receipt) \<noteq> []
          \<or> erb_required_extensions receipt \<noteq> []
          \<or> \<not> has_core_redactions receipt
          \<or> rp_input_summary provenance \<noteq> CORE_RECEIPT_INPUT_SUMMARY_V1
          \<or> erb_invocation_id receipt \<noteq> rp_invocation_id provenance
          \<or> erb_plan_id receipt \<noteq> rp_plan_id provenance
          \<or> cf_capability_id (erb_capability receipt) \<noteq> ib_capability_id (ei_invocation intent)
          \<or> cf_contract_version (erb_capability receipt) \<noteq> ib_contract_version (ei_invocation intent)
          \<or> erb_instance_id receipt \<noteq> ib_instance_id (ei_invocation intent)
          \<or> erb_input_digest receipt \<noteq> ab_material_digest (au_binding (ei_authorization intent))
          \<or> erb_input_summary receipt \<noteq> rp_input_summary provenance
          \<or> rpo_decision_id (erb_policy receipt) \<noteq> rp_policy_decision_id provenance
          \<or> rpo_decision_digest (erb_policy receipt) \<noteq> rp_policy_decision_digest provenance
          \<or> rpo_lease_id (erb_policy receipt) \<noteq> None
          \<or> rpo_lease_digest (erb_policy receipt) \<noteq> None
          \<or> ex_id (erb_executor receipt) \<noteq> rp_executor_id provenance
          \<or> ex_placement (erb_executor receipt) \<noteq> protocol_placement (rp_executor_placement provenance)
          \<or> ex_platform (erb_executor receipt) \<noteq> rp_executor_platform provenance
          \<or> ref_class (erb_effect receipt) \<noteq> protocol_effect_class (ei_effect_class intent)
          \<or> ref_idempotency_key (erb_effect receipt) \<noteq> ei_idempotency_key intent
          \<or> \<not> ref_started (erb_effect receipt))
       (SE_Corrupt ''execution receipt differs from its durable intent provenance'')) (\<lambda>_.
     and_then (reject_if (length (erb_verification receipt) \<noteq> length (rp_verification_plan provenance))
       (SE_Corrupt ''execution receipt verification disposition differs'')) (\<lambda>_.
     and_then (try_each verify_receipt_evidence (zip (erb_verification receipt) (rp_verification_plan provenance))) (\<lambda>_.
     let outcome = evaluate_core_verification_v1 (erb_verification receipt) in
     reject_if (disposition \<noteq> outcome_disposition outcome \<or> erb_status receipt \<noteq> core_receipt_status_v1 outcome)
       (SE_Corrupt ''execution receipt result does not justify its disposition'')))))"

definition verify_receipt_timestamps ::
    "protocol_env \<Rightarrow> receipt_event_anchor \<Rightarrow> execution_receipt_body \<Rightarrow> store_error + unit" where
  "verify_receipt_timestamps env anchor receipt =
     and_then (reject_if (erb_started_at receipt \<noteq> rea_started_at anchor
         \<or> ref_started_at (erb_effect receipt) \<noteq> Some (rea_started_at anchor)
         \<or> erb_ended_at receipt \<noteq> rea_ended_at anchor)
       (SE_Corrupt ''execution receipt timestamps differ from the journal'')) (\<lambda>_.
     and_then (ok_or (SE_Corrupt ''execution receipt start timestamp is invalid'')
       (pv_instant env (rea_started_at anchor))) (\<lambda>started.
     and_then (ok_or (SE_Corrupt ''execution receipt end timestamp is invalid'')
       (pv_instant env (erb_ended_at receipt))) (\<lambda>ended.
     reject_if (ended < started) (SE_Corrupt ''execution receipt ends before its effect starts''))))"

section \<open>A candidate and an audit\<close>

definition verify_receipt_candidate ::
    "protocol_env \<Rightarrow> verified_run_index \<Rightarrow> event_record \<Rightarrow> execution_receipt_body
      \<Rightarrow> store_error + receipt_event_anchor" where
  "verify_receipt_candidate env idx rec receipt =
     and_then (receipt_anchor_for idx rec) (\<lambda>anchor.
     and_then (reject_if (bs_contains (vx_receipt_ids idx) (erb_receipt_id receipt)
         \<or> bs_contains (vx_receipt_digests idx) (erb_receipt_digest receipt)
         \<or> bs_contains (vx_receipt_effect_ids idx) (rea_effect_id anchor))
       (SE_Corrupt ''duplicate execution receipt identity'')) (\<lambda>_.
     and_then (reject_if (erb_receipt_id receipt \<noteq> rea_receipt_id anchor
         \<or> erb_receipt_digest receipt \<noteq> rea_receipt_digest anchor
         \<or> erb_run_id receipt \<noteq> rea_run_id anchor
         \<or> erb_step_id receipt \<noteq> rea_step_id anchor
         \<or> erb_previous_receipt_digest receipt \<noteq> vx_receipt_head_digest idx)
       (SE_Corrupt ''execution receipt differs from its verified journal or chain anchor'')) (\<lambda>_.
     and_then (ok_or (SE_Panic ''Receipt anchor creation verifies the effect intent'')
       (bm_get (vx_intents idx) (rea_effect_id anchor))) (\<lambda>intent.
     and_then (ok_or SE_ReceiptProvenanceRequired (ei_receipt_provenance (eia_intent intent))) (\<lambda>provenance.
     and_then (verify_receipt_intent_binding receipt (eia_intent intent) provenance (rea_disposition anchor)) (\<lambda>_.
     and_then (verify_receipt_tool_output_binding idx (rea_effect_id anchor) receipt) (\<lambda>_.
     and_then (verify_receipt_timestamps env anchor receipt) (\<lambda>_.
     Inr anchor))))))))"

definition audit_receipt ::
    "crypto \<Rightarrow> protocol_env \<Rightarrow> receipt_event_anchor \<times> stored_execution_receipt
      \<Rightarrow> string option \<times> verified_run_index \<Rightarrow> store_error + string option \<times> verified_run_index" where
  "audit_receipt cr env entry acc =
     (case (entry, acc) of ((anchor, stored), (previous_digest, idx)) \<Rightarrow>
        let receipt = ser_receipt stored in
        and_then (map_err (\<lambda>_. SE_Corrupt ''execution receipt document is invalid'')
          (validate_execution_receipt cr env receipt)) (\<lambda>_.
        and_then (reject_if (ser_event_sequence stored \<noteq> rea_event_sequence anchor
            \<or> ser_effect_id stored \<noteq> rea_effect_id anchor
            \<or> erb_receipt_id receipt \<noteq> rea_receipt_id anchor
            \<or> erb_receipt_digest receipt \<noteq> rea_receipt_digest anchor
            \<or> erb_run_id receipt \<noteq> rea_run_id anchor
            \<or> erb_step_id receipt \<noteq> rea_step_id anchor
            \<or> erb_previous_receipt_digest receipt \<noteq> previous_digest)
          (SE_Corrupt ''execution receipt differs from its journal binding'')) (\<lambda>_.
        and_then (ok_or (SE_Panic ''Receipt anchor creation verifies the effect intent'')
          (bm_get (vx_intents idx) (rea_effect_id anchor))) (\<lambda>intent.
        and_then (ok_or (SE_Corrupt ''execution receipt has no durable provenance'')
          (ei_receipt_provenance (eia_intent intent))) (\<lambda>provenance.
        and_then (verify_receipt_intent_binding receipt (eia_intent intent) provenance (rea_disposition anchor)) (\<lambda>_.
        and_then (verify_receipt_tool_output_binding idx (rea_effect_id anchor) receipt) (\<lambda>_.
        and_then (verify_receipt_timestamps env anchor receipt) (\<lambda>_.
        and_then (reject_if (bs_contains (vx_receipt_ids idx) (erb_receipt_id receipt)
            \<or> bs_contains (vx_receipt_digests idx) (erb_receipt_digest receipt)
            \<or> bs_contains (vx_receipt_effect_ids idx) (rea_effect_id anchor))
          (SE_Corrupt ''execution receipt identity is duplicated'')) (\<lambda>_.
        Inr (Some (erb_receipt_digest receipt), idx
          \<lparr>vx_receipt_ids := bs_insert (erb_receipt_id receipt) (vx_receipt_ids idx),
           vx_receipt_digests := bs_insert (erb_receipt_digest receipt) (vx_receipt_digests idx),
           vx_receipt_effect_ids := bs_insert (rea_effect_id anchor) (vx_receipt_effect_ids idx)\<rparr>))))))))))"

definition verify_receipt_records ::
    "crypto \<Rightarrow> protocol_env \<Rightarrow> verified_run_index \<Rightarrow> stored_execution_receipt list
      \<Rightarrow> store_error + verified_run_index" where
  "verify_receipt_records cr env idx receipts =
     and_then (reject_if (length (vx_receipt_events idx) \<noteq> length receipts)
       (SE_Corrupt ''execution receipt count differs from finalization events'')) (\<lambda>_.
     and_then (try_fold (audit_receipt cr env) (zip (vx_receipt_events idx) receipts) (None, idx))
       (\<lambda>(previous_digest, idx). Inr (idx\<lparr>vx_receipt_head_digest := previous_digest\<rparr>)))"

end
