(* ===== verification/Memory_Store.thy ===== *)
theory Memory_Store
  imports Receipt_Audit "HOL-Library.Product_Lexorder"
begin

text \<open>
  The in-memory run store, \<open>crates/xgeny-local-store/src/memory.rs\<close>, with the shared preparation of
  a commit and the snapshots of \<open>lib.rs\<close>. An operation that fails leaves the store as it was:
  every check of the source precedes its first assignment, so the model returns the new store only
  with the commit.
\<close>

section \<open>Preparation and snapshots\<close>

definition prepare_commit ::
    "crypto \<Rightarrow> verified_run_index \<Rightarrow> expected_head \<Rightarrow> run_event \<Rightarrow> store_error + commit" where
  "prepare_commit cr idx expected event =
     (let actual = index_head idx in
      and_then (reject_if (expected \<noteq> actual) (SE_HeadConflict expected actual)) (\<lambda>_.
      and_then (reject_if (bs_contains (vx_event_ids idx) (re_event_id event))
        (SE_DuplicateEventId (re_event_id event))) (\<lambda>_.
      and_then (map_err SE_Record (event_record_next cr (vx_last_record idx) event)) (\<lambda>rec.
      and_then (map_err SE_Transition (apply_record cr (vx_state idx) rec)) (\<lambda>state.
      Inr \<lparr>cm_record = rec, cm_state = state\<rparr>)))))"

definition verified_snapshot ::
    "crypto \<Rightarrow> event_record list \<Rightarrow> run_state option \<Rightarrow> store_error + run_snapshot option" where
  "verified_snapshot cr records persisted =
     (case (records = [], persisted) of
        (True, None) \<Rightarrow> Inr None
      | (True, Some _) \<Rightarrow> Inl (SE_Corrupt ''projection exists without committed events'')
      | (False, None) \<Rightarrow> Inl (SE_Corrupt ''committed events exist without a projection'')
      | (False, Some persisted) \<Rightarrow>
          and_then (map_err SE_Replay (replay cr records)) (\<lambda>replayed.
          and_then (reject_if (persisted \<noteq> replayed)
            (SE_Corrupt ''persisted projection differs from event replay'')) (\<lambda>_.
          Inr (Some \<lparr>rsn_records = records, rsn_state = replayed\<rparr>))))"

definition audit_snapshot ::
    "crypto \<Rightarrow> event_record list \<Rightarrow> run_state option
      \<Rightarrow> store_error + run_snapshot option \<times> verified_run_index" where
  "audit_snapshot cr records persisted =
     and_then (verified_snapshot cr records persisted) (\<lambda>snapshot.
     and_then (from_snapshot snapshot) (\<lambda>idx. Inr (snapshot, idx)))"

definition verify_commit_sidecars ::
    "crypto \<Rightarrow> protocol_env \<Rightarrow> run_event \<Rightarrow> commit_sidecars \<Rightarrow> store_error + unit" where
  "verify_commit_sidecars cr env event sidecars =
     and_then (verify_plan_input_bundle cr event (csc_plan_inputs sidecars)) (\<lambda>_.
     and_then (verify_material_bundle cr event (csc_material sidecars)) (\<lambda>_.
     and_then (verify_receipt_bundle cr env event (csc_receipt sidecars)) (\<lambda>_.
     and_then (verify_tool_output_bundle event (csc_output sidecars)) (\<lambda>_.
     verify_completion_output_bundle event (csc_completion_output sidecars)))))"

definition verification_snapshot :: "verified_run_index \<Rightarrow> string \<Rightarrow> run_verification_snapshot option" where
  "verification_snapshot idx step_id =
     map_option (\<lambda>state.
       \<lparr>rvs_state = state,
        rvs_effect_started_at =
          map_option esa_recorded_at
            (option_filter (\<lambda>started. esa_step_id started = step_id)
              (Option.bind (Option.bind (bm_get (rs_steps state) step_id) ss_intent)
                (\<lambda>intent. bm_get (vx_effect_starts idx) (ei_effect_id intent)))),
        rvs_previous_receipt_digest = vx_receipt_head_digest idx,
        rvs_tool_output = None\<rparr>) (vx_state idx)"

section \<open>The planning snapshot\<close>

definition planning_step_order :: "verified_run_index \<Rightarrow> run_state \<Rightarrow> store_error + string list" where
  "planning_step_order idx state =
     and_then (reject_if (bm_len (vx_step_positions idx) \<noteq> bm_len (rs_steps state)
         \<or> list_ex (\<lambda>step_id. \<not> bm_contains_key (rs_steps state) step_id) (bm_keys (vx_step_positions idx)))
       (SE_Corrupt ''journal Step chronology differs from the projected WorkGraph'')) (\<lambda>_.
     Inr (map fst (sort_key (\<lambda>(step_id, position). (sjp_event_sequence position, sjp_event_step_index position, step_id))
       (bm_entries (vx_step_positions idx)))))"

definition order_receipt ::
    "receipt_event_anchor \<Rightarrow> string list \<times> string btreeset \<Rightarrow> store_error + string list \<times> string btreeset" where
  "order_receipt receipt acc =
     (case acc of (order, observed) \<Rightarrow>
        and_then (reject_if (bs_contains observed (rea_step_id receipt))
          (SE_Corrupt ''completed ToolOutput has duplicate Receipt chronology'')) (\<lambda>_.
        Inr (order @ [rea_step_id receipt], bs_insert (rea_step_id receipt) observed)))"

definition completed_tool_output_order :: "verified_run_index \<Rightarrow> string btreeset \<Rightarrow> store_error + string list" where
  "completed_tool_output_order idx expected =
     and_then (try_fold order_receipt
       (sort_key (\<lambda>receipt. (rea_event_sequence receipt, rea_step_id receipt))
         (filter (\<lambda>receipt. rea_disposition receipt = VerdictPassed \<and> bs_contains expected (rea_step_id receipt))
           (vx_receipt_events idx))) ([], bs_empty)) (\<lambda>(order, observed).
     and_then (reject_if (observed \<noteq> expected)
       (SE_Corrupt ''completed ToolOutput chronology differs from passed Receipts'')) (\<lambda>_.
     Inr order))"

type_synonym selection = "string \<times> string \<times> string"

definition select_output ::
    "verified_run_index \<Rightarrow> u64 \<Rightarrow> string \<times> step_state \<Rightarrow> u64 \<times> selection list \<Rightarrow> store_error + u64 \<times> selection list" where
  "select_output idx max_output_bytes entry acc =
     (case (entry, acc) of ((step_id, step), (selected_output_bytes, selections)) \<Rightarrow>
        if ss_status step \<noteq> Completed then Inr acc
        else (case ss_output_record_digest step of
          None \<Rightarrow> Inr acc
        | Some expected_record_digest \<Rightarrow>
            and_then (ok_or (SE_Corrupt ''completed output-bound Step has no committed effect intent'') (ss_intent step)) (\<lambda>intent.
            and_then (ok_or (SE_Corrupt ''completed output-bound Step has no Core Receipt ID'')
              (ss_execution_receipt_id step)) (\<lambda>receipt_id.
            and_then (ok_or (SE_Corrupt ''completed output-bound Step has no Core Receipt digest'')
              (ss_execution_receipt_digest step)) (\<lambda>receipt_digest.
            and_then (ok_or (SE_Corrupt ''completed output-bound Step has no verified Core Receipt'')
              (Option.bind (bm_get (vx_receipt_event_positions idx) (ei_effect_id intent))
                (\<lambda>k. if k < length (vx_receipt_events idx) then Some (vx_receipt_events idx ! k) else None))) (\<lambda>anchor.
            and_then (reject_if (rea_step_id anchor \<noteq> step_id
                \<or> rea_disposition anchor \<noteq> VerdictPassed
                \<or> rea_receipt_id anchor \<noteq> receipt_id
                \<or> rea_receipt_digest anchor \<noteq> receipt_digest
                \<or> \<not> bs_contains (vx_receipt_effect_ids idx) (ei_effect_id intent))
              (SE_Corrupt ''completed tool output differs from its passed Core Receipt'')) (\<lambda>_.
            and_then (ok_or (SE_Corrupt ''completed tool output has no verified size commitment'')
              (bm_get (vx_tool_output_sizes idx) (ei_effect_id intent))) (\<lambda>output_size.
            and_then (ok_or SE_PlanningSnapshotBudgetExceeded
              (checked_add selected_output_bytes output_size)) (\<lambda>selected_output_bytes.
            and_then (reject_if (selected_output_bytes > max_output_bytes) SE_PlanningSnapshotBudgetExceeded) (\<lambda>_.
            Inr (selected_output_bytes,
              selections @ [(step_id, ei_effect_id intent, expected_record_digest)])))))))))))"

definition load_selection ::
    "crypto \<Rightarrow> verified_run_index \<Rightarrow> (string \<Rightarrow> store_error + stored_tool_output option) \<Rightarrow> selection
      \<Rightarrow> (string, tool_output_record) btreemap \<Rightarrow> store_error + (string, tool_output_record) btreemap" where
  "load_selection cr idx load_output selection outputs =
     (case selection of (step_id, effect_id, expected_record_digest) \<Rightarrow>
        and_then (load_output effect_id) (\<lambda>loaded.
        and_then (verify_tool_output_point cr idx effect_id loaded) (\<lambda>_.
        and_then (ok_or (SE_Corrupt ''completed output-bound Step has no durable tool output'') loaded) (\<lambda>stored.
        and_then (reject_if (tor_step_id (sto_record stored) \<noteq> step_id
            \<or> tor_record_digest (sto_record stored) \<noteq> expected_record_digest
            \<or> bm_get (vx_tool_output_digests idx) effect_id \<noteq> Some (tor_output_digest (sto_record stored)))
          (SE_Corrupt ''completed tool output differs from its verified projection'')) (\<lambda>_.
        and_then (reject_if (bm_contains_key outputs step_id)
          (SE_Corrupt ''completed tool output Step identity is duplicated'')) (\<lambda>_.
        Inr (bm_insert step_id (sto_record stored) outputs)))))))"

definition build_planning_snapshot ::
    "crypto \<Rightarrow> verified_run_index \<Rightarrow> expected_head \<Rightarrow> u64 \<Rightarrow> (string \<Rightarrow> store_error + stored_tool_output option)
      \<Rightarrow> store_error + run_planning_snapshot option" where
  "build_planning_snapshot cr idx expected max_output_bytes load_output =
     (let actual = index_head idx in
      and_then (reject_if (expected \<noteq> actual) (SE_HeadConflict expected actual)) (\<lambda>_.
      case vx_state idx of None \<Rightarrow> Inr None
      | Some state \<Rightarrow>
          and_then (planning_step_order idx state) (\<lambda>step_order.
          and_then (try_fold (select_output idx max_output_bytes) (bm_entries (rs_steps state)) (0, [])) (\<lambda>(_, selections).
          and_then (try_fold (load_selection cr idx load_output) selections bm_empty) (\<lambda>outputs.
          and_then (completed_tool_output_order idx (bs_of_list (bm_keys outputs))) (\<lambda>order.
          Inr (Some \<lparr>rps_state = state, rps_planning_step_order = step_order,
                 rps_completed_tool_output_order = order, rps_completed_tool_outputs = outputs\<rparr>)))))))"

section \<open>The store\<close>

record memory_run_store =
  ms_records :: "event_record list"
  ms_projection :: "run_state option"
  ms_plan_inputs :: "(string, planned_invocation_material_record) btreemap"
  ms_materials :: "(string, invocation_material_record) btreemap"
  ms_receipts :: "stored_execution_receipt list"
  ms_outputs :: "(string, stored_tool_output) btreemap"
  ms_completion_output :: "stored_completion_output option"
  ms_index :: verified_run_index

definition ms_new :: memory_run_store where
  "ms_new = \<lparr>ms_records = [], ms_projection = None, ms_plan_inputs = bm_empty, ms_materials = bm_empty,
     ms_receipts = [], ms_outputs = bm_empty, ms_completion_output = None, ms_index = vx_default\<rparr>"

text \<open>The common end of the append operations: push the record, replace projection and index.\<close>

definition ms_commit ::
    "commit \<Rightarrow> commit_sidecars \<Rightarrow> commit_anchors \<Rightarrow> memory_run_store \<Rightarrow> store_error + commit \<times> memory_run_store" where
  "ms_commit c sidecars anchors st =
     and_then (apply_committed c sidecars anchors (ms_index st)) (\<lambda>idx.
     Inr (c, st\<lparr>ms_records := ms_records st @ [cm_record c], ms_projection := Some (cm_state c), ms_index := idx\<rparr>))"

definition ms_append ::
    "crypto \<Rightarrow> protocol_env \<Rightarrow> memory_run_store \<Rightarrow> expected_head \<Rightarrow> run_event
      \<Rightarrow> store_error + commit \<times> memory_run_store" where
  "ms_append cr env st expected event =
     and_then (verify_commit_sidecars cr env event no_sidecars) (\<lambda>_.
     and_then (prepare_commit cr (ms_index st) expected event) (\<lambda>c.
     ms_commit c no_sidecars no_anchors st))"

definition ms_append_with_plan_inputs ::
    "crypto \<Rightarrow> protocol_env \<Rightarrow> memory_run_store \<Rightarrow> expected_head \<Rightarrow> run_event
      \<Rightarrow> planned_invocation_material_record list \<Rightarrow> store_error + commit \<times> memory_run_store" where
  "ms_append_with_plan_inputs cr env st expected event inputs =
     (let sidecars = no_sidecars\<lparr>csc_plan_inputs := Some inputs\<rparr> in
      and_then (verify_commit_sidecars cr env event sidecars) (\<lambda>_.
      and_then (prepare_commit cr (ms_index st) expected event) (\<lambda>c.
      and_then (try_each (\<lambda>input. reject_if
          (bs_contains (vx_plan_input_step_ids (ms_index st)) (pimr_step_id input)
           \<or> bm_contains_key (ms_plan_inputs st) (pimr_step_id input))
          (SE_Corrupt ''duplicate planned invocation input Step ID'')) inputs) (\<lambda>_.
      ms_commit c sidecars no_anchors
        (st\<lparr>ms_plan_inputs := fold (\<lambda>input. bm_insert (pimr_step_id input) input) inputs (ms_plan_inputs st)\<rparr>)))))"

definition ms_append_with_invocation_material ::
    "crypto \<Rightarrow> protocol_env \<Rightarrow> memory_run_store \<Rightarrow> expected_head \<Rightarrow> run_event \<Rightarrow> invocation_material_record
      \<Rightarrow> store_error + commit \<times> memory_run_store" where
  "ms_append_with_invocation_material cr env st expected event material =
     (let sidecars = no_sidecars\<lparr>csc_material := Some material\<rparr> in
      and_then (verify_commit_sidecars cr env event sidecars) (\<lambda>_.
      let planned_input = (case re_body event of
          EffectIntentCommitted step_id _ \<Rightarrow> bm_get (ms_plan_inputs st) step_id | _ \<Rightarrow> None) in
      and_then (verify_planned_material_retention cr (ms_index st) event material planned_input) (\<lambda>_.
      and_then (prepare_commit cr (ms_index st) expected event) (\<lambda>c.
      and_then (reject_if (bs_contains (vx_material_effect_ids (ms_index st)) (imr_effect_id material))
        (SE_Corrupt ''duplicate invocation material effect ID'')) (\<lambda>_.
      let materials = bm_insert (imr_effect_id material) material (ms_materials st) in
      and_then (case re_body (er_event (cm_record c)) of
          EffectIntentCommitted _ intent \<Rightarrow> ok_or (SE_Panic ''committed material must be indexed'')
            (bm_get materials (ei_effect_id intent))
        | _ \<Rightarrow> Inl (SE_Panic ''material bundle requires an effect intent'')) (\<lambda>indexed.
      ms_commit c (no_sidecars\<lparr>csc_material := Some indexed\<rparr>) no_anchors (st\<lparr>ms_materials := materials\<rparr>)))))))"

definition ms_append_with_execution_receipt ::
    "crypto \<Rightarrow> protocol_env \<Rightarrow> memory_run_store \<Rightarrow> expected_head \<Rightarrow> run_event \<Rightarrow> execution_receipt_body
      \<Rightarrow> store_error + commit \<times> memory_run_store" where
  "ms_append_with_execution_receipt cr env st expected event receipt =
     (let sidecars = no_sidecars\<lparr>csc_receipt := Some receipt\<rparr> in
      and_then (verify_commit_sidecars cr env event sidecars) (\<lambda>_.
      and_then (prepare_commit cr (ms_index st) expected event) (\<lambda>c.
      and_then (verify_receipt_candidate env (ms_index st) (cm_record c) receipt) (\<lambda>anchor.
      and_then (case re_body (er_event (cm_record c)) of
          VerificationRecorded _ effect_id _ _ _ \<Rightarrow> Inr effect_id
        | _ \<Rightarrow> Inl (SE_Panic ''receipt bundle validation requires a finalization event'')) (\<lambda>effect_id.
      let stored = \<lparr>ser_event_sequence = er_sequence (cm_record c), ser_effect_id = effect_id, ser_receipt = receipt\<rparr> in
      ms_commit c sidecars (no_anchors\<lparr>can_receipt := Some anchor\<rparr>)
        (st\<lparr>ms_receipts := ms_receipts st @ [stored]\<rparr>))))))"

definition ms_append_with_tool_output ::
    "crypto \<Rightarrow> protocol_env \<Rightarrow> memory_run_store \<Rightarrow> expected_head \<Rightarrow> run_event \<Rightarrow> tool_output_record
      \<Rightarrow> store_error + commit \<times> memory_run_store" where
  "ms_append_with_tool_output cr env st expected event r =
     (let sidecars = no_sidecars\<lparr>csc_output := Some r\<rparr> in
      and_then (verify_commit_sidecars cr env event sidecars) (\<lambda>_.
      and_then (prepare_commit cr (ms_index st) expected event) (\<lambda>c.
      and_then (verify_tool_output_candidate cr (ms_index st) (cm_record c) r) (\<lambda>anchor.
      and_then (reject_if (bm_contains_key (ms_outputs st) (tor_effect_id r))
        (SE_Corrupt ''duplicate tool output effect ID'')) (\<lambda>_.
      let outputs = bm_insert (tor_effect_id r)
            \<lparr>sto_event_sequence = er_sequence (cm_record c), sto_record = r\<rparr> (ms_outputs st) in
      and_then (case re_body (er_event (cm_record c)) of
          EffectSucceeded _ effect_id _ _ \<Rightarrow> ok_or (SE_Panic ''committed tool output must be retained'')
            (bm_get outputs effect_id)
        | _ \<Rightarrow> Inl (SE_Panic ''tool-output bundle requires a success event'')) (\<lambda>stored.
      ms_commit c (no_sidecars\<lparr>csc_output := Some (sto_record stored)\<rparr>) (no_anchors\<lparr>can_output := Some anchor\<rparr>)
        (st\<lparr>ms_outputs := outputs\<rparr>)))))))"

definition ms_append_with_completion_output ::
    "crypto \<Rightarrow> protocol_env \<Rightarrow> memory_run_store \<Rightarrow> expected_head \<Rightarrow> run_event \<Rightarrow> completion_output_record
      \<Rightarrow> store_error + commit \<times> memory_run_store" where
  "ms_append_with_completion_output cr env st expected event r =
     (let sidecars = no_sidecars\<lparr>csc_completion_output := Some r\<rparr> in
      and_then (verify_commit_sidecars cr env event sidecars) (\<lambda>_.
      and_then (prepare_commit cr (ms_index st) expected event) (\<lambda>c.
      and_then (verify_completion_output_candidate cr (ms_index st) (cm_record c) r) (\<lambda>anchor.
      and_then (reject_if (ms_completion_output st \<noteq> None)
        (SE_Corrupt ''duplicate completion output'')) (\<lambda>_.
      ms_commit c sidecars (no_anchors\<lparr>can_completion_output := Some anchor\<rparr>)
        (st\<lparr>ms_completion_output := Some
          \<lparr>sco_event_sequence = er_sequence (cm_record c), sco_record = r\<rparr>\<rparr>))))))"

section \<open>Reading\<close>

definition ms_load :: "crypto \<Rightarrow> protocol_env \<Rightarrow> memory_run_store \<Rightarrow> store_error + run_snapshot option" where
  "ms_load cr env st =
     and_then (audit_snapshot cr (ms_records st) (ms_projection st)) (\<lambda>(snapshot, idx).
     and_then (verify_plan_input_records cr idx (ms_plan_inputs st)) (\<lambda>idx.
     and_then (verify_material_records cr idx (ms_materials st)) (\<lambda>idx.
     and_then (verify_tool_output_records cr idx (ms_outputs st)) (\<lambda>idx.
     and_then (verify_receipt_records cr env idx (ms_receipts st)) (\<lambda>idx.
     and_then (verify_completion_output_record cr idx (ms_completion_output st)) (\<lambda>_.
     and_then (reject_if (idx \<noteq> ms_index st)
       (SE_Corrupt ''in-memory verified index differs from committed data'')) (\<lambda>_.
     Inr snapshot)))))))"

definition ms_load_current :: "memory_run_store \<Rightarrow> run_state option" where
  "ms_load_current st = ms_projection st"

definition ms_load_invocation_material ::
    "crypto \<Rightarrow> memory_run_store \<Rightarrow> string \<Rightarrow> store_error + invocation_material_record option" where
  "ms_load_invocation_material cr st effect_id =
     (let material = bm_get (ms_materials st) effect_id in
      and_then (verify_material_point cr (ms_index st) effect_id material) (\<lambda>_. Inr material))"

definition ms_load_planned_invocation ::
    "crypto \<Rightarrow> memory_run_store \<Rightarrow> string \<Rightarrow> store_error + planned_invocation_material_record option" where
  "ms_load_planned_invocation cr st step_id =
     (let input = bm_get (ms_plan_inputs st) step_id in
      and_then (verify_plan_input_point cr (ms_index st) step_id input) (\<lambda>_. Inr input))"

definition ms_load_execution_receipts :: "memory_run_store \<Rightarrow> execution_receipt_body list" where
  "ms_load_execution_receipts st = map ser_receipt (ms_receipts st)"

definition ms_load_tool_output ::
    "crypto \<Rightarrow> memory_run_store \<Rightarrow> string \<Rightarrow> store_error + tool_output_record option" where
  "ms_load_tool_output cr st effect_id =
     (let stored = bm_get (ms_outputs st) effect_id in
      and_then (verify_tool_output_point cr (ms_index st) effect_id stored) (\<lambda>_. Inr (map_option sto_record stored)))"

definition ms_load_completion_output ::
    "crypto \<Rightarrow> memory_run_store \<Rightarrow> expected_head \<Rightarrow> string \<Rightarrow> store_error + completion_output_record option" where
  "ms_load_completion_output cr st expected candidate_id =
     build_completion_output cr (ms_index st) expected candidate_id (ms_completion_output st)"

definition ms_load_with_execution_receipts ::
    "crypto \<Rightarrow> protocol_env \<Rightarrow> memory_run_store \<Rightarrow> store_error + run_snapshot option \<times> execution_receipt_body list" where
  "ms_load_with_execution_receipts cr env st =
     and_then (ms_load cr env st) (\<lambda>snapshot. Inr (snapshot, map ser_receipt (ms_receipts st)))"

definition ms_load_verification_snapshot ::
    "crypto \<Rightarrow> memory_run_store \<Rightarrow> string \<Rightarrow> store_error + run_verification_snapshot option" where
  "ms_load_verification_snapshot cr st step_id =
     (case verification_snapshot (ms_index st) step_id of None \<Rightarrow> Inr None
      | Some snapshot \<Rightarrow>
          (let effect_id = map_option ei_effect_id
                 (Option.bind (bm_get (rs_steps (rvs_state snapshot)) step_id) ss_intent);
               snapshot = snapshot\<lparr>rvs_tool_output :=
                 map_option sto_record (Option.bind effect_id (bm_get (ms_outputs st)))\<rparr> in
           and_then (case effect_id of None \<Rightarrow> Inr ()
             | Some effect_id \<Rightarrow> verify_tool_output_point cr (ms_index st) effect_id (bm_get (ms_outputs st) effect_id)) (\<lambda>_.
           Inr (Some snapshot))))"

definition ms_load_planning_snapshot ::
    "crypto \<Rightarrow> memory_run_store \<Rightarrow> expected_head \<Rightarrow> u64 \<Rightarrow> store_error + run_planning_snapshot option" where
  "ms_load_planning_snapshot cr st expected max_output_bytes =
     build_planning_snapshot cr (ms_index st) expected max_output_bytes
       (\<lambda>effect_id. Inr (bm_get (ms_outputs st) effect_id))"

end
