(* ===== verification/Store_Journal.thy ===== *)
theory Store_Journal
  imports Memory_Store
begin

text \<open>
  The part of the verified index that depends on the journal alone. Maintaining it commit by
  commit (\<open>apply_committed\<close>) gives the same index as rebuilding it from the whole journal
  (\<open>index_record\<close>), provided the events bring no identity twice; that they do not is shown in
  \<open>Store_Audit\<close> from the reducer's checks.
\<close>

section \<open>The journal part of an index\<close>

definition journal_part :: "verified_run_index \<Rightarrow> verified_run_index" where
  "journal_part idx = \<lparr>vx_state = None, vx_last_record = vx_last_record idx, vx_event_ids = vx_event_ids idx,
     vx_step_positions = vx_step_positions idx, vx_planned_invocations = vx_planned_invocations idx,
     vx_plan_input_step_ids = bs_empty, vx_intents = vx_intents idx,
     vx_effect_starts = vx_effect_starts idx, vx_receipt_events = vx_receipt_events idx,
     vx_receipt_event_positions = vx_receipt_event_positions idx,
     vx_tool_output_events = vx_tool_output_events idx, vx_material_effect_ids = bs_empty, vx_receipt_ids = bs_empty,
     vx_receipt_digests = bs_empty, vx_receipt_effect_ids = bs_empty, vx_receipt_head_digest = None,
     vx_tool_output_effect_ids = bs_empty, vx_tool_output_ids = bs_empty,
     vx_tool_output_record_digests = bs_empty, vx_tool_output_digests = bm_empty,
     vx_tool_output_sizes = bm_empty, vx_completion_output_event = vx_completion_output_event idx\<rparr>"

lemma journal_part_default: "journal_part vx_default = vx_default"
  by (simp add: journal_part_def vx_default_def)

text \<open>Anchors depend on the recorded intents and starts only.\<close>

lemma anchor_cong:
  assumes "vx_intents i = vx_intents j" and "vx_effect_starts i = vx_effect_starts j"
  shows "receipt_anchor_for i r = receipt_anchor_for j r"
    and "tool_output_anchor_for i r = tool_output_anchor_for j r"
    and "next_start i r v e = next_start j r v e"
  unfolding receipt_anchor_for_def tool_output_anchor_for_def next_start_def assms by (rule refl)+

lemma journal_part_anchors [simp]:
  "receipt_anchor_for (journal_part idx) r = receipt_anchor_for idx r"
  "tool_output_anchor_for (journal_part idx) r = tool_output_anchor_for idx r"
  "next_start (journal_part idx) r v e = next_start idx r v e"
  by (rule anchor_cong; simp add: journal_part_def)+

lemma journal_part_frame [simp]:
  "journal_part (commit_plan_inputs x idx) = journal_part idx"
  "journal_part (commit_material y idx) = journal_part idx"
  "journal_part (commit_output z idx) = journal_part idx"
  "journal_part (commit_receipt b w idx) = journal_part idx"
  "journal_part (idx\<lparr>vx_state := s\<rparr>) = journal_part idx"
  by (simp_all add: commit_plan_inputs_def commit_material_def commit_output_def commit_receipt_def journal_part_def
      split: option.splits)

section \<open>Events that bring new identities\<close>

definition fresh_event :: "verified_run_index \<Rightarrow> run_event_body \<Rightarrow> bool" where
  "fresh_event idx body = (case body of
       StepPlanned v _ _ \<Rightarrow> \<not> bm_contains_key (vx_step_positions idx) v
     | PlanAccepted _ steps \<Rightarrow> distinct (map aps_step_id steps)
         \<and> (\<forall>a \<in> set steps. \<not> bm_contains_key (vx_step_positions idx) (aps_step_id a)
              \<and> \<not> bm_contains_key (vx_planned_invocations idx) (aps_step_id a))
     | EffectIntentCommitted _ i \<Rightarrow> \<not> bm_contains_key (vx_intents idx) (ei_effect_id i)
     | EffectSucceeded _ e _ (Some _) \<Rightarrow> \<not> bm_contains_key (vx_tool_output_events idx) e
     | CompletionCandidateRecorded _ _ _ (Some _) \<Rightarrow> vx_completion_output_event idx = None
     | VerificationRecorded _ e _ _ _ \<Rightarrow> \<not> bm_contains_key (vx_receipt_event_positions idx) e
     | _ \<Rightarrow> True)"

definition anchors_ok :: "verified_run_index \<Rightarrow> event_record \<Rightarrow> commit_anchors \<Rightarrow> bool" where
  "anchors_ok idx r anchors \<longleftrightarrow>
     (\<forall>a. can_output anchors = Some a \<longrightarrow> tool_output_anchor_for idx r = Inr a)
     \<and> (\<forall>a. can_completion_output anchors = Some a \<longrightarrow> completion_output_anchor_for r = Inr a)
     \<and> (\<forall>a. can_receipt anchors = Some a \<longrightarrow> receipt_anchor_for idx r = Inr a)"

lemma tool_output_anchor_effect:
  "tool_output_anchor_for idx r = Inr a \<Longrightarrow>
     \<exists>v ev rd. re_body (er_event r) = EffectSucceeded v (toa_effect_id a) ev (Some rd)"
  by (auto simp: tool_output_anchor_for_def result_simps split: run_event_body.splits option.splits)

lemma receipt_anchor_effect:
  "receipt_anchor_for idx r = Inr a \<Longrightarrow>
     \<exists>v d i g. re_body (er_event r) = VerificationRecorded v (rea_effect_id a) d i g"
  by (auto simp: receipt_anchor_for_def result_simps split: run_event_body.splits)

lemma index_planned_steps:
  assumes "distinct (map (aps_step_id \<circ> snd) xs)"
    and "\<forall>x \<in> set xs. \<not> bm_contains_key (vx_step_positions idx) (aps_step_id (snd x))
           \<and> \<not> bm_contains_key (vx_planned_invocations idx) (aps_step_id (snd x))"
  shows "try_fold (index_planned_step q) xs (journal_part idx) = Inr (journal_part (fold (commit_planned_step q) xs idx))"
  using assms
proof (induction xs arbitrary: idx)
  case (Cons x xs)
  obtain k a where x: "x = (k, a)" by (cases x)
  have "index_planned_step q x (journal_part idx) = Inr (journal_part (commit_planned_step q x idx))"
    using Cons.prems(2)
    by (simp add: x index_planned_step_def index_step_position_def commit_planned_step_def journal_part_def)
  moreover have "\<forall>y \<in> set xs. \<not> bm_contains_key (vx_step_positions (commit_planned_step q x idx)) (aps_step_id (snd y))
      \<and> \<not> bm_contains_key (vx_planned_invocations (commit_planned_step q x idx)) (aps_step_id (snd y))"
    using Cons.prems by (force simp: x commit_planned_step_def)
  ultimately show ?case using Cons by simp
qed simp

lemma index_committed_event:
  assumes "commit_event r anchors idx = Inr idx'" and "fresh_event idx (re_body (er_event r))" and "anchors_ok idx r anchors"
  shows "index_event r (journal_part idx) = Inr (journal_part idx')"
proof (cases "re_body (er_event r)")
  case (PlanAccepted d steps)
  have "distinct (map (aps_step_id \<circ> snd) (List.enumerate 0 steps))"
    using assms(2) by (simp add: PlanAccepted fresh_event_def flip: map_map)
  moreover have "snd x \<in> set steps" if "x \<in> set (List.enumerate 0 steps)" for x
    using that by (metis list.set_map image_eqI map_snd_enumerate)
  ultimately show ?thesis
    using assms(1,2) index_planned_steps [of "List.enumerate 0 steps" idx "er_sequence r"]
    by (simp add: PlanAccepted fresh_event_def index_event_def commit_event_def)
next
  case (EffectSucceeded v e ev rd)
  then show ?thesis
    using assms tool_output_anchor_effect [of idx r]
    by (fastforce simp: index_event_def commit_event_def fresh_event_def anchors_ok_def result_simps journal_part_def
        simp flip: journal_part_anchors(2) [of idx] split: option.splits)
next
  case (CompletionCandidateRecorded d c sd rd)
  then show ?thesis
    using assms by (auto simp: index_event_def commit_event_def fresh_event_def anchors_ok_def result_simps journal_part_def
        split: option.splits)
next
  case (VerificationRecorded v e d i g)
  then show ?thesis
    using assms receipt_anchor_effect [of idx r]
    by (fastforce simp: index_event_def index_receipt_event_def commit_event_def fresh_event_def anchors_ok_def result_simps
        journal_part_def simp flip: journal_part_anchors(1) [of idx])
next
  case (EffectExecutionStarted v e)
  then show ?thesis
    using assms(1) by (auto simp: index_event_def commit_event_def) (simp add: journal_part_def)
qed (use assms in \<open>auto simp: index_event_def commit_event_def index_step_position_def fresh_event_def journal_part_def\<close>)

theorem index_committed:
  assumes "apply_committed c sidecars anchors idx = Inr idx'"
    and "\<not> bs_contains (vx_event_ids idx) (re_event_id (er_event (cm_record c)))"
    and "fresh_event idx (re_body (er_event (cm_record c)))" and "anchors_ok idx (cm_record c) anchors"
  shows "index_record (cm_record c) (journal_part idx) = Inr (journal_part idx')"
proof -
  let ?r = "cm_record c"
  let ?i = "idx\<lparr>vx_event_ids := bs_insert (re_event_id (er_event ?r)) (vx_event_ids idx)\<rparr>"
  obtain i1 where i1: "commit_event ?r anchors ?i = Inr i1"
    and idx': "idx' = (commit_receipt (re_body (er_event ?r)) (csc_receipt sidecars) (commit_output (csc_output sidecars)
        (commit_material (csc_material sidecars) (commit_plan_inputs (csc_plan_inputs sidecars) i1))))
        \<lparr>vx_state := Some (cm_state c), vx_last_record := Some ?r\<rparr>"
    using assms(1) by (auto simp: apply_committed_def Let_def result_simps)
  have "fresh_event ?i (re_body (er_event ?r))" "anchors_ok ?i ?r anchors"
    using assms(3,4) by (simp_all add: fresh_event_def anchors_ok_def tool_output_anchor_for_def receipt_anchor_for_def
        cong: run_event_body.case_cong option.case_cong)
  then have "index_event ?r (journal_part ?i) = Inr (journal_part i1)" by (rule index_committed_event [OF i1])
  moreover have "(journal_part idx)\<lparr>vx_event_ids := bs_insert (re_event_id (er_event ?r)) (vx_event_ids (journal_part idx))\<rparr>
      = journal_part ?i"
    by (simp add: journal_part_def)
  moreover have "(journal_part i1)\<lparr>vx_last_record := Some ?r\<rparr> = journal_part idx'"
  proof -
    have "journal_part (i\<lparr>vx_state := x, vx_last_record := y\<rparr>) = (journal_part i)\<lparr>vx_last_record := y\<rparr>" for i x y
      by (simp add: journal_part_def)
    then show ?thesis by (simp add: idx')
  qed
  ultimately show ?thesis using assms(2) by (simp add: index_record_def) (simp add: journal_part_def)
qed

section \<open>The projection plays no part\<close>

definition with_state :: "run_state option \<Rightarrow> verified_run_index \<Rightarrow> verified_run_index" where
  "with_state s idx = idx\<lparr>vx_state := s\<rparr>"

lemma with_state_anchors [simp]:
  "receipt_anchor_for (with_state s idx) r = receipt_anchor_for idx r"
  "tool_output_anchor_for (with_state s idx) r = tool_output_anchor_for idx r"
  "next_start (with_state s idx) r v e = next_start idx r v e"
  by (rule anchor_cong; simp add: with_state_def)+

lemma try_fold_commute:
  assumes "\<And>x a a'. f x a = Inr a' \<Longrightarrow> f x (g a) = Inr (g a')" and "try_fold f xs a = Inr b"
  shows "try_fold f xs (g a) = Inr (g b)"
  using assms(2)
proof (induction xs arbitrary: a)
  case (Cons x xs)
  then obtain a' where "f x a = Inr a'" "try_fold f xs a' = Inr b" by (auto simp: result_simps)
  then show ?case using Cons.IH assms(1) by simp
qed simp

lemma index_planned_step_state:
  "index_planned_step q x i = Inr i' \<Longrightarrow> index_planned_step q x (with_state s i) = Inr (with_state s i')"
  by (auto simp: index_planned_step_def index_step_position_def with_state_def result_simps split: prod.splits)

lemma index_event_state:
  assumes "index_event r i = Inr i'"
  shows "index_event r (with_state s i) = Inr (with_state s i')"
proof (cases "re_body (er_event r)")
  case (PlanAccepted d steps)
  then show ?thesis
    using assms try_fold_commute [where g = "with_state s" and f = "index_planned_step (er_sequence r)", OF index_planned_step_state]
    by (simp add: index_event_def)
qed (use assms in \<open>auto simp: index_event_def index_step_position_def index_receipt_event_def result_simps split: option.splits\<close>,
    auto simp: with_state_def)

lemma index_record_state:
  assumes "index_record r i = Inr i'"
  shows "index_record r (with_state s i) = Inr (with_state s i')"
proof -
  let ?i = "i\<lparr>vx_event_ids := bs_insert (re_event_id (er_event r)) (vx_event_ids i)\<rparr>"
  obtain j where j: "\<not> bs_contains (vx_event_ids i) (re_event_id (er_event r))" "index_event r ?i = Inr j"
    "i' = j\<lparr>vx_last_record := Some r\<rparr>"
    using assms by (auto simp: index_record_def result_simps)
  have "with_state s ?i = (with_state s i)\<lparr>vx_event_ids := bs_insert (re_event_id (er_event r)) (vx_event_ids (with_state s i))\<rparr>"
    by (simp add: with_state_def)
  then show ?thesis
    using j(1) index_event_state [OF j(2), of s] by (simp add: index_record_def j(3)) (simp add: with_state_def)
qed

lemma from_snapshot_rebuilds:
  assumes "try_fold index_record records vx_default = Inr (journal_part idx)"
  shows "from_snapshot (Some \<lparr>rsn_records = records, rsn_state = s\<rparr>) = Inr (with_state (Some s) (journal_part idx))"
  using try_fold_commute [where g = "with_state (Some s)", OF index_record_state assms]
  by (simp add: from_snapshot_def with_state_def)

end
