(* ===== verification/Store_Commits.thy ===== *)
theory Store_Commits
  imports Store_Journal Run_Safety
begin

text \<open>
  What one successful append does to the in-memory store, in one form for its six operations:
  \<open>commits\<close> collects the checks that were passed and the new contents of every field. The lemmas
  below read off the fields of the new index.
\<close>

section \<open>One commit\<close>

definition new_receipt :: "event_record \<Rightarrow> commit_anchors \<Rightarrow> execution_receipt_body \<Rightarrow> stored_execution_receipt" where
  "new_receipt rec anchors receipt =
     \<lparr>ser_event_sequence = er_sequence rec,
      ser_effect_id = (case can_receipt anchors of None \<Rightarrow> [] | Some a \<Rightarrow> rea_effect_id a), ser_receipt = receipt\<rparr>"

definition sidecars_admitted ::
    "crypto \<Rightarrow> protocol_env \<Rightarrow> memory_run_store \<Rightarrow> event_record \<Rightarrow> commit_sidecars \<Rightarrow> commit_anchors \<Rightarrow> bool" where
  "sidecars_admitted cr env st rec sc an \<longleftrightarrow>
     verify_commit_sidecars cr env (er_event rec) sc = Inr ()
     \<and> (case csc_output sc of None \<Rightarrow> can_output an = None
        | Some r \<Rightarrow> \<exists>a. can_output an = Some a \<and> verify_tool_output_candidate cr (ms_index st) rec r = Inr a)
     \<and> (case csc_completion_output sc of None \<Rightarrow> can_completion_output an = None
        | Some r \<Rightarrow> \<exists>a. can_completion_output an = Some a
            \<and> verify_completion_output_candidate cr (ms_index st) rec r = Inr a)
     \<and> (case csc_receipt sc of None \<Rightarrow> can_receipt an = None
        | Some r \<Rightarrow> \<exists>a. can_receipt an = Some a \<and> verify_receipt_candidate env (ms_index st) rec r = Inr a)
     \<and> (\<forall>is. csc_plan_inputs sc = Some is \<longrightarrow>
          (\<forall>i \<in> set is. \<not> bm_contains_key (ms_plan_inputs st) (pimr_step_id i)))
     \<and> (\<forall>m. csc_material sc = Some m \<longrightarrow> \<not> bs_contains (vx_material_effect_ids (ms_index st)) (imr_effect_id m))"

definition commits ::
    "crypto \<Rightarrow> protocol_env \<Rightarrow> memory_run_store \<Rightarrow> commit \<Rightarrow> commit_sidecars \<Rightarrow> commit_anchors \<Rightarrow> memory_run_store \<Rightarrow> bool" where
  "commits cr env st c sc an st' \<longleftrightarrow>
     sidecars_admitted cr env st (cm_record c) sc an
     \<and> prepare_commit cr (ms_index st) (index_head (ms_index st)) (er_event (cm_record c)) = Inr c
     \<and> apply_committed c sc an (ms_index st) = Inr (ms_index st')
     \<and> ms_records st' = ms_records st @ [cm_record c]
     \<and> ms_projection st' = Some (cm_state c)
     \<and> ms_plan_inputs st' = (case csc_plan_inputs sc of None \<Rightarrow> ms_plan_inputs st
          | Some is \<Rightarrow> fold (\<lambda>i. bm_insert (pimr_step_id i) i) is (ms_plan_inputs st))
     \<and> ms_materials st' = (case csc_material sc of None \<Rightarrow> ms_materials st
          | Some m \<Rightarrow> bm_insert (imr_effect_id m) m (ms_materials st))
     \<and> ms_receipts st' = (case csc_receipt sc of None \<Rightarrow> ms_receipts st
          | Some r \<Rightarrow> ms_receipts st @ [new_receipt (cm_record c) an r])
     \<and> ms_outputs st' = (case csc_output sc of None \<Rightarrow> ms_outputs st
          | Some r \<Rightarrow> bm_insert (tor_effect_id r) \<lparr>sto_event_sequence = er_sequence (cm_record c), sto_record = r\<rparr> (ms_outputs st))
     \<and> ms_completion_output st' = (case csc_completion_output sc of None \<Rightarrow> ms_completion_output st
          | Some r \<Rightarrow> Some \<lparr>sco_event_sequence = er_sequence (cm_record c), sco_record = r\<rparr>)"

lemma prepare_commit_Inr:
  assumes "prepare_commit cr idx expected event = Inr c"
  shows "expected = index_head idx" and "er_event (cm_record c) = event"
    and "\<not> bs_contains (vx_event_ids idx) (re_event_id event)"
    and "event_record_next cr (vx_last_record idx) event = Inr (cm_record c)"
    and "apply_record cr (vx_state idx) (cm_record c) = Inr (cm_state c)"
  using assms by (auto simp: prepare_commit_def Let_def result_simps event_record_next_def)

lemma prepare_commit_head:
  "prepare_commit cr idx expected event = Inr c \<Longrightarrow>
     prepare_commit cr idx (index_head idx) (er_event (cm_record c)) = Inr c"
  using prepare_commit_Inr(1,2) by metis

lemma completion_body_Some:
  "verify_completion_output_bundle ev (Some r) = Inr () \<Longrightarrow>
     \<exists>d c s. re_body ev = CompletionCandidateRecorded d c s (Some (cor_record_digest r))"
  by (auto simp: verify_completion_output_bundle_def split: run_event_body.splits option.splits if_splits)

lemma material_of_intent:
  assumes "verify_material_bundle cr ev (Some m) = Inr ()"
  shows "\<exists>v i. re_body ev = EffectIntentCommitted v i \<and> imr_effect_id m = ei_effect_id i
    \<and> material_record_verify_for cr m (re_run_id ev) v i = Inr ()"
  using assms
  by (auto simp: verify_material_bundle_def material_record_verify_for_def result_simps split: run_event_body.splits)

definition intents_keyed :: "verified_run_index \<Rightarrow> bool" where
  "intents_keyed idx \<longleftrightarrow> (\<forall>e a. bm_get (vx_intents idx) e = Some a \<longrightarrow> ei_effect_id (eia_intent a) = e)"

lemma tool_output_candidate:
  assumes "verify_tool_output_candidate cr idx rec r = Inr a"
  obtains intent where "tool_output_anchor_for idx rec = Inr a" and "bm_get (vx_intents idx) (toa_effect_id a) = Some intent"
    and "tool_output_verify_for cr r (toa_run_id a) (toa_step_id a) (eia_intent intent) (toa_execution_attempt a)
      (toa_evidence_digest a) = Inr ()"
    and "tor_record_digest r = toa_record_digest a"
    and "\<not> bs_contains (vx_tool_output_effect_ids idx) (toa_effect_id a)"
    and "\<not> bs_contains (vx_tool_output_ids idx) (tor_output_id r)"
    and "\<not> bs_contains (vx_tool_output_record_digests idx) (tor_record_digest r)"
  using assms by (auto simp: verify_tool_output_candidate_def result_simps)

lemma output_of_success:
  assumes "verify_tool_output_candidate cr idx rec r = Inr a" and "intents_keyed idx"
  shows "toa_effect_id a = tor_effect_id r"
proof -
  obtain intent where "bm_get (vx_intents idx) (toa_effect_id a) = Some intent"
    and "tool_output_verify_for cr r (toa_run_id a) (toa_step_id a) (eia_intent intent) (toa_execution_attempt a)
      (toa_evidence_digest a) = Inr ()"
    using assms(1) by (rule tool_output_candidate)
  then show ?thesis
    using assms(2) by (auto simp: intents_keyed_def tool_output_verify_for_def result_simps)
qed

section \<open>The six operations\<close>

lemma no_sidecars_simps [simp]:
  "csc_plan_inputs no_sidecars = None" "csc_material no_sidecars = None" "csc_output no_sidecars = None"
  "csc_completion_output no_sidecars = None" "csc_receipt no_sidecars = None"
  "can_output no_anchors = None" "can_completion_output no_anchors = None" "can_receipt no_anchors = None"
  by (simp_all add: no_sidecars_def no_anchors_def)

lemmas append_simps = commits_def sidecars_admitted_def ms_commit_def Let_def result_simps

lemma append_commits:
  assumes "ms_append cr env st h e = Inr (c, st')"
  shows "h = index_head (ms_index st) \<and> commits cr env st c no_sidecars no_anchors st'"
proof -
  from assms have p: "prepare_commit cr (ms_index st) h e = Inr c" by (auto simp: ms_append_def append_simps)
  then show ?thesis
    using assms prepare_commit_Inr(1,2) [OF p] prepare_commit_head [OF p] by (auto simp: ms_append_def append_simps)
qed

lemma append_with_plan_inputs_commits:
  assumes "ms_append_with_plan_inputs cr env st h e is = Inr (c, st')"
  shows "h = index_head (ms_index st) \<and> commits cr env st c (no_sidecars\<lparr>csc_plan_inputs := Some is\<rparr>) no_anchors st'"
proof -
  from assms have p: "prepare_commit cr (ms_index st) h e = Inr c"
    by (auto simp: ms_append_with_plan_inputs_def append_simps)
  then show ?thesis
    using assms prepare_commit_Inr(1,2) [OF p] prepare_commit_head [OF p]
    by (auto simp: ms_append_with_plan_inputs_def append_simps)
qed

lemma append_with_invocation_material_commits:
  assumes "ms_append_with_invocation_material cr env st h e m = Inr (c, st')"
  shows "h = index_head (ms_index st) \<and> commits cr env st c (no_sidecars\<lparr>csc_material := Some m\<rparr>) no_anchors st'"
proof -
  from assms have p: "prepare_commit cr (ms_index st) h e = Inr c"
    and b: "verify_commit_sidecars cr env e (no_sidecars\<lparr>csc_material := Some m\<rparr>) = Inr ()"
    by (auto simp: ms_append_with_invocation_material_def append_simps)
  obtain v i where "re_body (er_event (cm_record c)) = EffectIntentCommitted v i" "imr_effect_id m = ei_effect_id i"
    using b prepare_commit_Inr(2) [OF p] by (auto simp: verify_commit_sidecars_def result_simps dest: material_of_intent)
  then show ?thesis
    using assms prepare_commit_Inr(1,2) [OF p] prepare_commit_head [OF p]
    by (auto simp: ms_append_with_invocation_material_def append_simps)
qed

lemma append_with_execution_receipt_commits:
  assumes "ms_append_with_execution_receipt cr env st h e r = Inr (c, st')"
  shows "h = index_head (ms_index st)
    \<and> (\<exists>a. commits cr env st c (no_sidecars\<lparr>csc_receipt := Some r\<rparr>) (no_anchors\<lparr>can_receipt := Some a\<rparr>) st')"
proof -
  from assms obtain a where p: "prepare_commit cr (ms_index st) h e = Inr c"
    and a: "verify_receipt_candidate env (ms_index st) (cm_record c) r = Inr a"
    by (auto simp: ms_append_with_execution_receipt_def append_simps)
  obtain v d i g where "re_body (er_event (cm_record c)) = VerificationRecorded v (rea_effect_id a) d i g"
    using a receipt_anchor_effect by (fastforce simp: verify_receipt_candidate_def result_simps)
  then have "commits cr env st c (no_sidecars\<lparr>csc_receipt := Some r\<rparr>) (no_anchors\<lparr>can_receipt := Some a\<rparr>) st'"
    using assms a p prepare_commit_Inr(1,2) [OF p] prepare_commit_head [OF p]
    by (auto simp: ms_append_with_execution_receipt_def append_simps new_receipt_def)
  then show ?thesis using prepare_commit_Inr(1) [OF p] by blast
qed

lemma append_with_tool_output_commits:
  assumes "ms_append_with_tool_output cr env st h e r = Inr (c, st')" and "intents_keyed (ms_index st)"
  shows "h = index_head (ms_index st)
    \<and> (\<exists>a. commits cr env st c (no_sidecars\<lparr>csc_output := Some r\<rparr>) (no_anchors\<lparr>can_output := Some a\<rparr>) st')"
proof -
  from assms(1) obtain a where p: "prepare_commit cr (ms_index st) h e = Inr c"
    and a: "verify_tool_output_candidate cr (ms_index st) (cm_record c) r = Inr a"
    by (auto simp: ms_append_with_tool_output_def append_simps)
  have "toa_effect_id a = tor_effect_id r" using a assms(2) by (rule output_of_success)
  moreover have "tool_output_anchor_for (ms_index st) (cm_record c) = Inr a" using a by (rule tool_output_candidate)
  ultimately obtain v ev rd where "re_body (er_event (cm_record c)) = EffectSucceeded v (tor_effect_id r) ev (Some rd)"
    using tool_output_anchor_effect by metis
  then have "commits cr env st c (no_sidecars\<lparr>csc_output := Some r\<rparr>) (no_anchors\<lparr>can_output := Some a\<rparr>) st'"
    using assms(1) a p prepare_commit_Inr(1,2) [OF p] prepare_commit_head [OF p]
    by (auto simp: ms_append_with_tool_output_def append_simps)
  then show ?thesis using prepare_commit_Inr(1) [OF p] by blast
qed

lemma append_with_completion_output_commits:
  assumes "ms_append_with_completion_output cr env st h e r = Inr (c, st')"
  shows "h = index_head (ms_index st)
    \<and> (\<exists>a. commits cr env st c (no_sidecars\<lparr>csc_completion_output := Some r\<rparr>)
          (no_anchors\<lparr>can_completion_output := Some a\<rparr>) st')"
proof -
  from assms obtain a where p: "prepare_commit cr (ms_index st) h e = Inr c"
    and a: "verify_completion_output_candidate cr (ms_index st) (cm_record c) r = Inr a"
    by (auto simp: ms_append_with_completion_output_def append_simps)
  then have "commits cr env st c (no_sidecars\<lparr>csc_completion_output := Some r\<rparr>)
      (no_anchors\<lparr>can_completion_output := Some a\<rparr>) st'"
    using assms prepare_commit_Inr(1,2) [OF p] prepare_commit_head [OF p]
    by (auto simp: ms_append_with_completion_output_def append_simps)
  then show ?thesis using prepare_commit_Inr(1) [OF p] by blast
qed

section \<open>Stores built by appends\<close>

definition ms_appends ::
    "crypto \<Rightarrow> protocol_env \<Rightarrow> memory_run_store \<Rightarrow> expected_head \<Rightarrow> commit \<Rightarrow> memory_run_store \<Rightarrow> bool" where
  "ms_appends cr env st h c st' \<longleftrightarrow>
     (\<exists>e. ms_append cr env st h e = Inr (c, st')
        \<or> (\<exists>is. ms_append_with_plan_inputs cr env st h e is = Inr (c, st'))
        \<or> (\<exists>m. ms_append_with_invocation_material cr env st h e m = Inr (c, st'))
        \<or> (\<exists>r. ms_append_with_execution_receipt cr env st h e r = Inr (c, st'))
        \<or> (\<exists>r. ms_append_with_tool_output cr env st h e r = Inr (c, st'))
        \<or> (\<exists>r. ms_append_with_completion_output cr env st h e r = Inr (c, st')))"

inductive store_built :: "crypto \<Rightarrow> protocol_env \<Rightarrow> memory_run_store \<Rightarrow> bool" for cr env where
  empty_store: "store_built cr env ms_new"
| appended: "store_built cr env st \<Longrightarrow> ms_appends cr env st h c st' \<Longrightarrow> store_built cr env st'"

lemma appends_commit:
  assumes "ms_appends cr env st h c st'" and "intents_keyed (ms_index st)"
  shows "h = index_head (ms_index st) \<and> (\<exists>sc an. commits cr env st c sc an st')"
proof -
  from assms(1) obtain e where "ms_append cr env st h e = Inr (c, st')
      \<or> (\<exists>is. ms_append_with_plan_inputs cr env st h e is = Inr (c, st'))
      \<or> (\<exists>m. ms_append_with_invocation_material cr env st h e m = Inr (c, st'))
      \<or> (\<exists>r. ms_append_with_execution_receipt cr env st h e r = Inr (c, st'))
      \<or> (\<exists>r. ms_append_with_tool_output cr env st h e r = Inr (c, st'))
      \<or> (\<exists>r. ms_append_with_completion_output cr env st h e r = Inr (c, st'))"
    unfolding ms_appends_def by blast
  then show ?thesis
  proof (elim disjE exE)
  qed (drule append_commits append_with_plan_inputs_commits append_with_invocation_material_commits
        append_with_execution_receipt_commits append_with_tool_output_commits [OF _ assms(2)]
        append_with_completion_output_commits, blast)+
qed

section \<open>The fields of the new index\<close>

lemma commit_planned_steps:
  "vx_state (fold (commit_planned_step q) xs idx) = vx_state idx"
  "vx_plan_input_step_ids (fold (commit_planned_step q) xs idx) = vx_plan_input_step_ids idx"
  "vx_intents (fold (commit_planned_step q) xs idx) = vx_intents idx"
  "vx_receipt_events (fold (commit_planned_step q) xs idx) = vx_receipt_events idx"
  "vx_receipt_event_positions (fold (commit_planned_step q) xs idx) = vx_receipt_event_positions idx"
  "vx_tool_output_events (fold (commit_planned_step q) xs idx) = vx_tool_output_events idx"
  "vx_material_effect_ids (fold (commit_planned_step q) xs idx) = vx_material_effect_ids idx"
  "vx_receipt_ids (fold (commit_planned_step q) xs idx) = vx_receipt_ids idx"
  "vx_receipt_digests (fold (commit_planned_step q) xs idx) = vx_receipt_digests idx"
  "vx_receipt_effect_ids (fold (commit_planned_step q) xs idx) = vx_receipt_effect_ids idx"
  "vx_receipt_head_digest (fold (commit_planned_step q) xs idx) = vx_receipt_head_digest idx"
  "vx_tool_output_effect_ids (fold (commit_planned_step q) xs idx) = vx_tool_output_effect_ids idx"
  "vx_tool_output_ids (fold (commit_planned_step q) xs idx) = vx_tool_output_ids idx"
  "vx_tool_output_record_digests (fold (commit_planned_step q) xs idx) = vx_tool_output_record_digests idx"
  "vx_tool_output_digests (fold (commit_planned_step q) xs idx) = vx_tool_output_digests idx"
  "vx_tool_output_sizes (fold (commit_planned_step q) xs idx) = vx_tool_output_sizes idx"
  "vx_completion_output_event (fold (commit_planned_step q) xs idx) = vx_completion_output_event idx"
  by (induction xs arbitrary: idx) (simp_all add: commit_planned_step_def split: prod.splits)

lemma commit_planned_steps_keys:
  "bm_contains_key (vx_step_positions (fold (commit_planned_step q) xs idx)) v \<longleftrightarrow>
     bm_contains_key (vx_step_positions idx) v \<or> v \<in> (aps_step_id \<circ> snd) ` set xs"
  "vx_planned_invocations (fold (commit_planned_step q) xs idx) =
     fold (\<lambda>a. bm_insert (aps_step_id a) \<lparr>pia_event_sequence = q, pia_binding = aps_invocation a\<rparr>) (map snd xs)
       (vx_planned_invocations idx)"
  by (induction xs arbitrary: idx) (auto simp: commit_planned_step_def split: prod.splits)

definition same_sidecars :: "verified_run_index \<Rightarrow> verified_run_index \<Rightarrow> bool" where
  "same_sidecars i j \<longleftrightarrow>
     vx_plan_input_step_ids i = vx_plan_input_step_ids j \<and> vx_material_effect_ids i = vx_material_effect_ids j
     \<and> vx_receipt_ids i = vx_receipt_ids j \<and> vx_receipt_digests i = vx_receipt_digests j
     \<and> vx_receipt_effect_ids i = vx_receipt_effect_ids j \<and> vx_receipt_head_digest i = vx_receipt_head_digest j
     \<and> vx_tool_output_effect_ids i = vx_tool_output_effect_ids j \<and> vx_tool_output_ids i = vx_tool_output_ids j
     \<and> vx_tool_output_record_digests i = vx_tool_output_record_digests j
     \<and> vx_tool_output_digests i = vx_tool_output_digests j \<and> vx_tool_output_sizes i = vx_tool_output_sizes j"

lemma commit_event_sidecars: "commit_event r an idx = Inr i \<Longrightarrow> same_sidecars i idx"
  by (cases "re_body (er_event r)")
    (auto simp: commit_event_def same_sidecars_def result_simps commit_planned_steps split: option.splits)

lemma commit_event_intents:
  assumes "commit_event r an idx = Inr i" and "vx_intents idx = intents"
  shows "vx_intents i = (case re_body (er_event r) of EffectIntentCommitted v x \<Rightarrow> bm_insert (ei_effect_id x)
      \<lparr>eia_event_sequence = er_sequence r, eia_step_id = v, eia_intent = x\<rparr> intents | _ \<Rightarrow> intents)"
  using assms by (cases "re_body (er_event r)")
    (auto simp: commit_event_def result_simps commit_planned_steps split: option.splits)

lemma commit_event_plans:
  assumes "commit_event r an idx = Inr i" and "vx_planned_invocations idx = plans"
  shows "vx_planned_invocations i = (case re_body (er_event r) of PlanAccepted _ steps \<Rightarrow>
        fold (\<lambda>a. bm_insert (aps_step_id a) \<lparr>pia_event_sequence = er_sequence r, pia_binding = aps_invocation a\<rparr>) steps plans
      | _ \<Rightarrow> plans)"
  using assms by (cases "re_body (er_event r)")
    (auto simp: commit_event_def result_simps commit_planned_steps_keys split: option.splits)

lemma commit_event_positions:
  assumes "commit_event r an idx = Inr i"
  shows "bm_contains_key (vx_step_positions i) v \<longleftrightarrow> bm_contains_key (vx_step_positions idx) v
    \<or> (case re_body (er_event r) of StepPlanned w _ _ \<Rightarrow> v = w | PlanAccepted _ steps \<Rightarrow> v \<in> aps_step_id ` set steps
       | _ \<Rightarrow> False)"
proof (cases "re_body (er_event r)")
  case (PlanAccepted d steps)
  have "(aps_step_id \<circ> snd) ` set (List.enumerate 0 steps) = aps_step_id ` set steps"
    by (metis image_comp list.set_map map_snd_enumerate)
  then show ?thesis using assms by (auto simp: PlanAccepted commit_event_def commit_planned_steps_keys)
qed (use assms in \<open>auto simp: commit_event_def result_simps split: option.splits\<close>)

lemma commit_event_anchors:
  assumes "commit_event r an idx = Inr i"
    and "can_output an \<noteq> None \<longleftrightarrow> (\<exists>v e ev d. re_body (er_event r) = EffectSucceeded v e ev (Some d))"
    and "can_completion_output an \<noteq> None \<longleftrightarrow>
      (\<exists>d c s g. re_body (er_event r) = CompletionCandidateRecorded d c s (Some g))"
    and "can_receipt an \<noteq> None \<longleftrightarrow> (\<exists>v e d x g. re_body (er_event r) = VerificationRecorded v e d x g)"
  shows "vx_tool_output_events i = (case can_output an of None \<Rightarrow> vx_tool_output_events idx
           | Some a \<Rightarrow> bm_insert (toa_effect_id a) a (vx_tool_output_events idx))"
    and "vx_completion_output_event i = (case can_completion_output an of None \<Rightarrow> vx_completion_output_event idx
           | Some a \<Rightarrow> Some a)"
    and "vx_receipt_events i = (case can_receipt an of None \<Rightarrow> vx_receipt_events idx
           | Some a \<Rightarrow> vx_receipt_events idx @ [a])"
    and "vx_receipt_event_positions i = (case can_receipt an of None \<Rightarrow> vx_receipt_event_positions idx
           | Some a \<Rightarrow> bm_insert (rea_effect_id a) (length (vx_receipt_events idx)) (vx_receipt_event_positions idx))"
  using assms by (cases "re_body (er_event r)";
    auto simp: commit_event_def result_simps commit_planned_steps split: option.splits)+

lemma admitted_kinds:
  assumes "sidecars_admitted cr env st rec sc an"
  shows "can_output an \<noteq> None \<longleftrightarrow> (\<exists>v e ev d. re_body (er_event rec) = EffectSucceeded v e ev (Some d))"
    and "can_completion_output an \<noteq> None \<longleftrightarrow>
      (\<exists>d c s g. re_body (er_event rec) = CompletionCandidateRecorded d c s (Some g))"
    and "can_receipt an \<noteq> None \<longleftrightarrow> (\<exists>v e d x g. re_body (er_event rec) = VerificationRecorded v e d x g)"
    and "csc_material sc \<noteq> None \<longleftrightarrow> (\<exists>v i. re_body (er_event rec) = EffectIntentCommitted v i)"
proof -
  let ?b = "re_body (er_event rec)"
  have bundles: "verify_material_bundle cr (er_event rec) (csc_material sc) = Inr ()"
    "verify_receipt_bundle cr env (er_event rec) (csc_receipt sc) = Inr ()"
    "verify_tool_output_bundle (er_event rec) (csc_output sc) = Inr ()"
    "verify_completion_output_bundle (er_event rec) (csc_completion_output sc) = Inr ()"
    using assms by (auto simp: sidecars_admitted_def verify_commit_sidecars_def result_simps)
  have "csc_output sc \<noteq> None \<longleftrightarrow> (\<exists>v e ev d. ?b = EffectSucceeded v e ev (Some d))"
    using bundles(3) by (cases ?b; cases "csc_output sc") (auto simp: verify_tool_output_bundle_def split: option.splits)
  moreover have "csc_completion_output sc \<noteq> None \<longleftrightarrow> (\<exists>d c s g. ?b = CompletionCandidateRecorded d c s (Some g))"
    using bundles(4) by (cases ?b; cases "csc_completion_output sc")
      (auto simp: verify_completion_output_bundle_def split: option.splits)
  moreover have "csc_receipt sc \<noteq> None \<longleftrightarrow> (\<exists>v e d x g. ?b = VerificationRecorded v e d x g)"
    using bundles(2) by (cases ?b; cases "csc_receipt sc") (auto simp: verify_receipt_bundle_def result_simps)
  ultimately show "can_output an \<noteq> None \<longleftrightarrow> (\<exists>v e ev d. ?b = EffectSucceeded v e ev (Some d))"
    "can_completion_output an \<noteq> None \<longleftrightarrow> (\<exists>d c s g. ?b = CompletionCandidateRecorded d c s (Some g))"
    "can_receipt an \<noteq> None \<longleftrightarrow> (\<exists>v e d x g. ?b = VerificationRecorded v e d x g)"
    using assms by (auto simp: sidecars_admitted_def split: option.splits)
  show "csc_material sc \<noteq> None \<longleftrightarrow> (\<exists>v i. ?b = EffectIntentCommitted v i)"
    using bundles(1) by (cases ?b; cases "csc_material sc") (auto simp: verify_material_bundle_def result_simps)
qed

lemma committed_fields:
  assumes "commits cr env st c sc an st'"
  shows "vx_state (ms_index st') = Some (cm_state c)
    \<and> vx_last_record (ms_index st') = Some (cm_record c)
    \<and> vx_plan_input_step_ids (ms_index st') = (case csc_plan_inputs sc of None \<Rightarrow> vx_plan_input_step_ids (ms_index st)
           | Some is \<Rightarrow> fold (\<lambda>i. bs_insert (pimr_step_id i)) is (vx_plan_input_step_ids (ms_index st)))
    \<and> vx_material_effect_ids (ms_index st') = (case csc_material sc of None \<Rightarrow> vx_material_effect_ids (ms_index st)
           | Some m \<Rightarrow> bs_insert (imr_effect_id m) (vx_material_effect_ids (ms_index st)))
    \<and> vx_tool_output_effect_ids (ms_index st') = (case csc_output sc of None \<Rightarrow> vx_tool_output_effect_ids (ms_index st)
           | Some r \<Rightarrow> bs_insert (tor_effect_id r) (vx_tool_output_effect_ids (ms_index st)))
    \<and> vx_tool_output_ids (ms_index st') = (case csc_output sc of None \<Rightarrow> vx_tool_output_ids (ms_index st)
           | Some r \<Rightarrow> bs_insert (tor_output_id r) (vx_tool_output_ids (ms_index st)))
    \<and> vx_tool_output_record_digests (ms_index st') =
           (case csc_output sc of None \<Rightarrow> vx_tool_output_record_digests (ms_index st)
            | Some r \<Rightarrow> bs_insert (tor_record_digest r) (vx_tool_output_record_digests (ms_index st)))
    \<and> vx_tool_output_digests (ms_index st') = (case csc_output sc of None \<Rightarrow> vx_tool_output_digests (ms_index st)
           | Some r \<Rightarrow> bm_insert (tor_effect_id r) (tor_output_digest r) (vx_tool_output_digests (ms_index st)))
    \<and> vx_tool_output_sizes (ms_index st') = (case csc_output sc of None \<Rightarrow> vx_tool_output_sizes (ms_index st)
           | Some r \<Rightarrow> bm_insert (tor_effect_id r) (tor_canonical_size_bytes r) (vx_tool_output_sizes (ms_index st)))
    \<and> vx_receipt_ids (ms_index st') = (case csc_receipt sc of None \<Rightarrow> vx_receipt_ids (ms_index st)
           | Some r \<Rightarrow> bs_insert (erb_receipt_id r) (vx_receipt_ids (ms_index st)))
    \<and> vx_receipt_digests (ms_index st') = (case csc_receipt sc of None \<Rightarrow> vx_receipt_digests (ms_index st)
           | Some r \<Rightarrow> bs_insert (erb_receipt_digest r) (vx_receipt_digests (ms_index st)))
    \<and> vx_receipt_effect_ids (ms_index st') = (case can_receipt an of None \<Rightarrow> vx_receipt_effect_ids (ms_index st)
           | Some a \<Rightarrow> bs_insert (rea_effect_id a) (vx_receipt_effect_ids (ms_index st)))
    \<and> vx_receipt_head_digest (ms_index st') = (case csc_receipt sc of None \<Rightarrow> vx_receipt_head_digest (ms_index st)
           | Some r \<Rightarrow> Some (erb_receipt_digest r))
    \<and> vx_intents (ms_index st') = (case re_body (er_event (cm_record c)) of
           EffectIntentCommitted v x \<Rightarrow> bm_insert (ei_effect_id x)
             \<lparr>eia_event_sequence = er_sequence (cm_record c), eia_step_id = v, eia_intent = x\<rparr> (vx_intents (ms_index st))
         | _ \<Rightarrow> vx_intents (ms_index st))
    \<and> vx_planned_invocations (ms_index st') = (case re_body (er_event (cm_record c)) of PlanAccepted _ steps \<Rightarrow>
           fold (\<lambda>a. bm_insert (aps_step_id a)
               \<lparr>pia_event_sequence = er_sequence (cm_record c), pia_binding = aps_invocation a\<rparr>) steps
             (vx_planned_invocations (ms_index st)) | _ \<Rightarrow> vx_planned_invocations (ms_index st))
    \<and> (\<forall>v. bm_contains_key (vx_step_positions (ms_index st')) v \<longleftrightarrow> bm_contains_key (vx_step_positions (ms_index st)) v
      \<or> (case re_body (er_event (cm_record c)) of StepPlanned w _ _ \<Rightarrow> v = w
         | PlanAccepted _ steps \<Rightarrow> v \<in> aps_step_id ` set steps | _ \<Rightarrow> False))
    \<and> vx_tool_output_events (ms_index st') = (case can_output an of None \<Rightarrow> vx_tool_output_events (ms_index st)
           | Some a \<Rightarrow> bm_insert (toa_effect_id a) a (vx_tool_output_events (ms_index st)))
    \<and> vx_completion_output_event (ms_index st') =
           (case can_completion_output an of None \<Rightarrow> vx_completion_output_event (ms_index st) | Some a \<Rightarrow> Some a)
    \<and> vx_receipt_events (ms_index st') = (case can_receipt an of None \<Rightarrow> vx_receipt_events (ms_index st)
           | Some a \<Rightarrow> vx_receipt_events (ms_index st) @ [a])
    \<and> vx_receipt_event_positions (ms_index st') = (case can_receipt an of None \<Rightarrow> vx_receipt_event_positions (ms_index st)
           | Some a \<Rightarrow> bm_insert (rea_effect_id a) (length (vx_receipt_events (ms_index st)))
               (vx_receipt_event_positions (ms_index st)))"
proof -
  let ?r = "cm_record c"
  let ?b = "re_body (er_event ?r)"
  let ?i = "(ms_index st)\<lparr>vx_event_ids := bs_insert (re_event_id (er_event ?r)) (vx_event_ids (ms_index st))\<rparr>"
  have ok: "sidecars_admitted cr env st ?r sc an" using assms by (simp add: commits_def)
  obtain i1 where i1: "commit_event ?r an ?i = Inr i1"
    and new: "ms_index st' = (commit_receipt ?b (csc_receipt sc) (commit_output (csc_output sc)
        (commit_material (csc_material sc) (commit_plan_inputs (csc_plan_inputs sc) i1))))
        \<lparr>vx_state := Some (cm_state c), vx_last_record := Some ?r\<rparr>"
    using assms by (auto simp: commits_def apply_committed_def Let_def result_simps)
  note defs = commit_receipt_def commit_output_def commit_material_def commit_plan_inputs_def
  note side = commit_event_sidecars [OF i1, unfolded same_sidecars_def, simplified]
  note anch = commit_event_anchors [OF i1 admitted_kinds(1-3) [OF ok]]
  have eff: "vx_receipt_effect_ids (ms_index st') = (case can_receipt an of None \<Rightarrow> vx_receipt_effect_ids (ms_index st)
      | Some a \<Rightarrow> bs_insert (rea_effect_id a) (vx_receipt_effect_ids (ms_index st)))"
  proof (cases "csc_receipt sc")
    case None
    then show ?thesis using ok side by (simp add: new defs sidecars_admitted_def split: option.splits)
  next
    case (Some r)
    then obtain a where a: "can_receipt an = Some a" "verify_receipt_candidate env (ms_index st) ?r r = Inr a"
      using ok by (auto simp: sidecars_admitted_def)
    then obtain v d x g where "?b = VerificationRecorded v (rea_effect_id a) d x g"
      using receipt_anchor_effect by (fastforce simp: verify_receipt_candidate_def result_simps)
    then show ?thesis using a(1) Some side by (simp add: new defs split: option.splits)
  qed
  show ?thesis
    by (intro conjI eff allI)
      (simp_all add: new defs side anch commit_event_intents [OF i1, of "vx_intents (ms_index st)"] commit_event_plans [OF i1, of "vx_planned_invocations (ms_index st)"]
        commit_event_positions [OF i1] split: option.splits)
qed


end
