(* ===== verification/Store_Audit.thy ===== *)
theory Store_Audit
  imports Store_Commits
begin

text \<open>
  The invariant of the in-memory store: the index maintained commit by commit agrees with the
  journal and with every stored sidecar, so that an audit from scratch succeeds and rebuilds
  exactly this index.
\<close>

section \<open>Journal and projection\<close>

definition index_steps :: "verified_run_index \<Rightarrow> (string, step_state) btreemap" where
  "index_steps idx = (case vx_state idx of None \<Rightarrow> bm_empty | Some s \<Rightarrow> rs_steps s)"

definition journal_ok :: "crypto \<Rightarrow> memory_run_store \<Rightarrow> bool" where
  "journal_ok cr st \<longleftrightarrow>
     ms_projection st = vx_state (ms_index st)
     \<and> (case vx_state (ms_index st) of None \<Rightarrow> st = ms_new | Some s \<Rightarrow> replay cr (ms_records st) = Inr s)
     \<and> vx_last_record (ms_index st) = (if ms_records st = [] then None else Some (last (ms_records st)))
     \<and> try_fold index_record (ms_records st) vx_default = Inr (journal_part (ms_index st))"

definition steps_ok :: "verified_run_index \<Rightarrow> bool" where
  "steps_ok idx \<longleftrightarrow>
     (\<forall>v. bm_contains_key (vx_step_positions idx) v \<longleftrightarrow> bm_contains_key (index_steps idx) v)
     \<and> (\<forall>v. bm_contains_key (vx_planned_invocations idx) v \<longrightarrow> bm_contains_key (index_steps idx) v)
     \<and> (\<forall>e a. bm_get (vx_intents idx) e = Some a \<longrightarrow> ei_effect_id (eia_intent a) = e
          \<and> (\<exists>x. bm_get (index_steps idx) (eia_step_id a) = Some x \<and> ss_intent x = Some (eia_intent a)))"

lemma steps_ok_keyed: "steps_ok idx \<Longrightarrow> intents_keyed idx"
  by (simp add: steps_ok_def intents_keyed_def)

lemma commits_record:
  assumes "commits cr env st c sc an st'"
  shows "apply_record cr (vx_state (ms_index st)) (cm_record c) = Inr (cm_state c)"
    and "\<not> bs_contains (vx_event_ids (ms_index st)) (re_event_id (er_event (cm_record c)))"
  using assms prepare_commit_Inr(3,5) by (auto simp: commits_def)

lemma commits_cases:
  assumes "commits cr env st c sc an st'" and "journal_ok cr st"
  obtains (created) goal where "vx_state (ms_index st) = None" and "st = ms_new" and "body_of (cm_record c) = RunCreated goal"
      and "index_steps (ms_index st') = bm_empty" and "index_steps (ms_index st) = bm_empty"
      and "replay cr (ms_records st') = Inr (cm_state c)" and "rs_run_id (cm_state c) = re_run_id (er_event (cm_record c))"
  | (extended) s s' where "vx_state (ms_index st) = Some s" and "replay cr (ms_records st) = Inr s"
      and "record_follows cr s (cm_record c)" and "apply_body cr s (body_of (cm_record c)) = Inr s'"
      and "cm_state c = advance_head (cm_record c) s'"
      and "index_steps (ms_index st) = rs_steps s" and "index_steps (ms_index st') = rs_steps s'"
      and "replay cr (ms_records st') = Inr (cm_state c)" and "rs_run_id s' = rs_run_id s"
proof (cases "vx_state (ms_index st)")
  case None
  then have "apply_record cr None (cm_record c) = Inr (cm_state c)" using commits_record(1) [OF assms(1)] by simp
  moreover have "st = ms_new" using assms(2) None by (simp add: journal_ok_def)
  moreover have "ms_records st' = ms_records st @ [cm_record c]" using assms(1) by (simp add: commits_def)
  ultimately show thesis
    using created None committed_fields [OF assms(1)]
    by (auto simp: apply_record_None_iff index_steps_def ms_new_def)
next
  case (Some s)
  then have run: "replay cr (ms_records st) = Inr s" using assms(2) by (simp add: journal_ok_def)
  moreover from Some have a: "apply_record cr (Some s) (cm_record c) = Inr (cm_state c)"
    using commits_record(1) [OF assms(1)] by simp
  moreover have "ms_records st' = ms_records st @ [cm_record c]" using assms(1) by (simp add: commits_def)
  moreover have "ms_records st \<noteq> []" using run by auto
  ultimately have "replay cr (ms_records st') = Inr (cm_state c)" by (simp add: replay_snoc_iff)
  with run a Some show thesis
    using extended committed_fields [OF assms(1)] apply_body_identity(1)
    by (auto simp: apply_record_Some_iff index_steps_def)
qed

lemma apply_body_domain:
  assumes "apply_body cr s body = Inr s'"
  shows "bm_contains_key (rs_steps s') v \<longleftrightarrow> bm_contains_key (rs_steps s) v
    \<or> (case body of StepPlanned w _ _ \<Rightarrow> v = w | PlanAccepted _ steps \<Rightarrow> v \<in> aps_step_id ` set steps | _ \<Rightarrow> False)"
  using assms
proof (cases rule: apply_body_cases)
  case (loop l)
  then show ?thesis by (cases body) auto
next
  case (plan decision steps)
  then obtain l' where "fresh_steps s (map accepted_step steps)" "s' = put_loop l' (add_steps (map accepted_step steps) s)"
    by (auto elim: accept_plan_Inr)
  moreover from this have "bm_contains_key (rs_steps s') v \<longleftrightarrow>
      bm_contains_key (rs_steps s) v \<or> map_of (map accepted_step steps) v \<noteq> None"
    by (cases "map_of (map accepted_step steps) v")
      (simp_all add: fresh_steps_def bm_contains_key_def get_add_steps del: not_None_eq)
  moreover have "map_of (map accepted_step steps) v \<noteq> None \<longleftrightarrow> v \<in> fst ` set (map accepted_step steps)"
    by (simp add: map_of_eq_None_iff)
  moreover have "fst ` set (map accepted_step steps) = aps_step_id ` set steps"
    by (force simp: accepted_step_def)
  ultimately show ?thesis using plan by simp
next
  case (add w obj deps)
  then show ?thesis by auto
next
  case (commit w i)
  then obtain x st where "rs_steps s' = bm_insert w x (rs_steps s)" "bm_get (rs_steps s) w = Some st"
    by (auto simp: commit_effect_intent_Inr_iff)
  then have "rs_steps s' = bm_insert w x (rs_steps s)" "bm_contains_key (rs_steps s) w" by (auto simp: bm_contains_key_def)
  then show ?thesis using commit(1) by auto
next
  case (life w st st')
  then have "bm_contains_key (rs_steps s) w" by (simp add: bm_contains_key_def)
  moreover from life
  have "\<nexists>d ss. body = PlanAccepted d ss" "\<nexists>x y z. body = StepPlanned x y z"
    using lifecycle_targets by fastforce+
  ultimately show ?thesis using life(4) by (cases body) auto
qed

lemma commits_domain:
  assumes "commits cr env st c sc an st'" and "journal_ok cr st"
  shows "bm_contains_key (index_steps (ms_index st')) v \<longleftrightarrow> bm_contains_key (index_steps (ms_index st)) v
      \<or> (case body_of (cm_record c) of StepPlanned w _ _ \<Rightarrow> v = w | PlanAccepted _ steps \<Rightarrow> v \<in> aps_step_id ` set steps
         | _ \<Rightarrow> False)"
  using assms by (cases rule: commits_cases) (simp_all add: apply_body_domain)

lemma commits_keep_intents:
  assumes "commits cr env st c sc an st'" and "journal_ok cr st"
    and "bm_get (index_steps (ms_index st)) v = Some x" and "ss_intent x = Some i"
  shows "\<exists>y. bm_get (index_steps (ms_index st')) v = Some y \<and> ss_intent y = Some i"
  using assms(1,2)
proof (cases rule: commits_cases)
  case (extended s s')
  have "run_extends s (advance_head (cm_record c) s')" using persist.extended extended(2,4) by blast
  then show ?thesis
    using extended(6,7) assms(3,4) by (fastforce simp: run_extends_def step_extends_def)
qed (use assms(3) in simp)

lemma contains_fold_insert [simp]:
  "bm_contains_key (fold (\<lambda>a. bm_insert (k a) (g a)) xs m) v \<longleftrightarrow> bm_contains_key m v \<or> v \<in> k ` set xs"
  by (induction xs arbitrary: m) auto

lemma commits_intent:
  assumes "commits cr env st c sc an st'" and "journal_ok cr st" and "body_of (cm_record c) = EffectIntentCommitted v i"
  shows "\<exists>x. bm_get (index_steps (ms_index st')) v = Some x \<and> ss_intent x = Some i"
    and "bm_get (index_steps (ms_index st)) w = Some y \<Longrightarrow> \<not> holds_effect y (ei_effect_id i)"
  using assms(1,2)
  by (cases rule: commits_cases; use assms(3) in \<open>auto simp: apply_body_def commit_effect_intent_Inr_iff\<close>)+

lemma steps_ok_step:
  assumes "commits cr env st c sc an st'" and "journal_ok cr st" and "steps_ok (ms_index st)"
  shows "steps_ok (ms_index st')"
proof -
  note F = committed_fields [OF assms(1)]
  note D = commits_domain [OF assms(1,2)]
  have "bm_contains_key (vx_planned_invocations (ms_index st')) v \<Longrightarrow> bm_contains_key (index_steps (ms_index st')) v" for v
    using assms(3) by (cases "body_of (cm_record c)") (auto simp: F D steps_ok_def)
  moreover have "ei_effect_id (eia_intent a) = e \<and>
      (\<exists>x. bm_get (index_steps (ms_index st')) (eia_step_id a) = Some x \<and> ss_intent x = Some (eia_intent a))"
    if a: "bm_get (vx_intents (ms_index st')) e = Some a" for e a
  proof (cases "bm_get (vx_intents (ms_index st)) e = Some a")
    case True
    then show ?thesis using assms(3) commits_keep_intents [OF assms(1,2)] unfolding steps_ok_def by metis
  next
    case False
    with a obtain v i where "body_of (cm_record c) = EffectIntentCommitted v i"
      "a = \<lparr>eia_event_sequence = er_sequence (cm_record c), eia_step_id = v, eia_intent = i\<rparr>" "e = ei_effect_id i"
      by (auto simp: F split: run_event_body.splits if_splits)
    then show ?thesis using commits_intent(1) [OF assms(1,2)] by simp
  qed
  ultimately show ?thesis
    using assms(3) unfolding steps_ok_def by (simp add: F D)
qed

section \<open>Identities are new\<close>

definition identities_ok :: "verified_run_index \<Rightarrow> bool" where
  "identities_ok idx \<longleftrightarrow>
     (\<forall>e. bs_contains (vx_tool_output_effect_ids idx) e \<longleftrightarrow> bm_contains_key (vx_tool_output_events idx) e)
     \<and> (\<forall>e. bs_contains (vx_receipt_effect_ids idx) e \<longleftrightarrow> bm_contains_key (vx_receipt_event_positions idx) e)"

lemma commits_fresh:
  assumes "commits cr env st c sc an st'" and "journal_ok cr st" and "steps_ok (ms_index st)"
    and "identities_ok (ms_index st)"
  shows "fresh_event (ms_index st) (body_of (cm_record c))"
proof -
  let ?r = "cm_record c"
  have ok: "sidecars_admitted cr env st ?r sc an" using assms(1) by (simp add: commits_def)
  note K = admitted_kinds [OF ok]
  show ?thesis
  proof (cases "body_of ?r")
    case (StepPlanned v obj deps)
    from assms(1,2) show ?thesis
      by (cases rule: commits_cases)
        (use StepPlanned assms(3) in \<open>auto simp: fresh_event_def steps_ok_def apply_body_def plan_step_Inr_iff\<close>)
  next
    case (PlanAccepted d steps)
    from assms(1,2) show ?thesis
    proof (cases rule: commits_cases)
      case (extended s s')
      then have "fresh_steps s (map accepted_step steps)"
        using PlanAccepted by (auto simp: apply_body_def elim: accept_plan_Inr)
      then have "distinct (map aps_step_id steps)" "\<forall>a \<in> set steps. \<not> bm_contains_key (rs_steps s) (aps_step_id a)"
        by (auto simp: fresh_steps_def accepted_step_def comp_def)
      then show ?thesis
        using assms(3) extended(6) by (auto simp: PlanAccepted fresh_event_def steps_ok_def)
    qed (simp add: PlanAccepted)
  next
    case (EffectIntentCommitted v i)
    have "\<not> bm_contains_key (vx_intents (ms_index st)) (ei_effect_id i)"
    proof
      assume "bm_contains_key (vx_intents (ms_index st)) (ei_effect_id i)"
      then obtain a where "bm_get (vx_intents (ms_index st)) (ei_effect_id i) = Some a"
        by (auto simp: bm_contains_key_def)
      then have "\<exists>x. bm_get (index_steps (ms_index st)) (eia_step_id a) = Some x \<and> holds_effect x (ei_effect_id i)"
        using assms(3) by (fastforce simp: steps_ok_def holds_effect_def)
      then show False using commits_intent(2) [OF assms(1,2) EffectIntentCommitted] by blast
    qed
    then show ?thesis by (simp add: EffectIntentCommitted fresh_event_def)
  next
    case (EffectSucceeded v e ev d)
    show ?thesis
    proof (cases d)
      case (Some g)
      then obtain a r where "can_output an = Some a" "verify_tool_output_candidate cr (ms_index st) ?r r = Inr a"
        using K(1) ok EffectSucceeded by (auto simp: sidecars_admitted_def split: option.splits)
      then have "tool_output_anchor_for (ms_index st) ?r = Inr a"
        "\<not> bs_contains (vx_tool_output_effect_ids (ms_index st)) (toa_effect_id a)"
        by (auto elim: tool_output_candidate)
      then show ?thesis
        using tool_output_anchor_effect [of "ms_index st" ?r a] assms(4) EffectSucceeded Some
        by (auto simp: fresh_event_def identities_ok_def)
    qed (simp add: EffectSucceeded fresh_event_def)
  next
    case (CompletionCandidateRecorded d cid sd g)
    then show ?thesis
      using K(2) ok by (auto simp: fresh_event_def sidecars_admitted_def verify_completion_output_candidate_def result_simps
          split: option.splits)
  next
    case (VerificationRecorded v e d i g)
    then obtain a r where "can_receipt an = Some a" "verify_receipt_candidate env (ms_index st) ?r r = Inr a"
      using K(3) ok by (auto simp: sidecars_admitted_def split: option.splits)
    then have "receipt_anchor_for (ms_index st) ?r = Inr a"
      "\<not> bs_contains (vx_receipt_effect_ids (ms_index st)) (rea_effect_id a)"
      by (auto simp: verify_receipt_candidate_def result_simps)
    then show ?thesis
      using receipt_anchor_effect [of "ms_index st" ?r a] assms(4) VerificationRecorded
      by (auto simp: fresh_event_def identities_ok_def)
  qed (simp_all add: fresh_event_def)
qed

lemma admitted_anchors:
  assumes "sidecars_admitted cr env st r sc an"
  shows "anchors_ok (ms_index st) r an"
  using assms
  by (auto simp: sidecars_admitted_def anchors_ok_def verify_tool_output_candidate_def
      verify_completion_output_candidate_def verify_receipt_candidate_def result_simps split: option.splits)

lemma journal_ok_step:
  assumes "commits cr env st c sc an st'" and "journal_ok cr st" and "steps_ok (ms_index st)"
    and "identities_ok (ms_index st)"
  shows "journal_ok cr st'"
proof -
  note F = committed_fields [OF assms(1)]
  have records: "ms_records st' = ms_records st @ [cm_record c]" "ms_projection st' = Some (cm_state c)"
    and ok: "sidecars_admitted cr env st (cm_record c) sc an"
    and idx: "apply_committed c sc an (ms_index st) = Inr (ms_index st')"
    using assms(1) by (simp_all add: commits_def)
  have "replay cr (ms_records st') = Inr (cm_state c)" using assms(1,2) by (cases rule: commits_cases)
  moreover have "index_record (cm_record c) (journal_part (ms_index st)) = Inr (journal_part (ms_index st'))"
    using idx commits_record(2) [OF assms(1)] commits_fresh [OF assms] admitted_anchors [OF ok] by (rule index_committed)
  then have "try_fold index_record (ms_records st') vx_default = Inr (journal_part (ms_index st'))"
    using assms(2) by (simp add: journal_ok_def records try_fold_append)
  ultimately show ?thesis
    by (simp add: journal_ok_def F records(2)) (simp add: records(1))
qed

end
