(* ===== verification/Store_Sidecars.thy ===== *)
theory Store_Sidecars
  imports Store_Audit
begin

text \<open>
  The invariants that tie each kind of stored sidecar to the index, their preservation by a
  commit, and the audit of each kind from scratch.
\<close>

section \<open>Folded insertions\<close>

lemma get_fold_insert:
  "bm_get (fold (\<lambda>x. bm_insert (k x) (g x)) xs m) v =
     (case map_of (rev (map (\<lambda>x. (k x, g x)) xs)) v of Some y \<Rightarrow> Some y | None \<Rightarrow> bm_get m v)"
proof (induction xs arbitrary: m)
  case (Cons x xs)
  show ?case by (auto simp: Cons.IH map_add_def split: option.splits)
qed simp

lemma get_fold_insert_in:
  assumes "distinct (map k xs)" and "x \<in> set xs"
  shows "bm_get (fold (\<lambda>x. bm_insert (k x) (g x)) xs m) (k x) = Some (g x)"
proof -
  have "distinct (map fst (rev (map (\<lambda>x. (k x, g x)) xs)))"
    using assms(1) by (simp add: comp_def flip: rev_map)
  moreover have "(k x, g x) \<in> set (rev (map (\<lambda>x. (k x, g x)) xs))" using assms(2) by auto
  ultimately show ?thesis by (simp add: get_fold_insert)
qed

lemma get_fold_insert_other:
  "v \<notin> k ` set xs \<Longrightarrow> bm_get (fold (\<lambda>x. bm_insert (k x) (g x)) xs m) v = bm_get m v"
  by (induction xs arbitrary: m) auto

lemma contains_fold_bs_insert [simp]:
  "bs_contains (fold (\<lambda>x. bs_insert (k x)) xs s) v \<longleftrightarrow> bs_contains s v \<or> v \<in> k ` set xs"
  by (induction xs arbitrary: s) auto

lemma len_by_keys: "(\<And>k. bm_contains_key m k \<longleftrightarrow> bm_contains_key n k) \<Longrightarrow> bm_len m = bm_len n"
  using bm.length_entries [of m] bm.length_entries [of n]
  by (simp add: bm_len_def bm_contains_key_def dom_def)

section \<open>The run of an index\<close>

lemma commits_run:
  assumes "commits cr env st c sc an st'" and "journal_ok cr st"
  shows "rs_run_id (cm_state c) = re_run_id (er_event (cm_record c))"
    and "vx_state (ms_index st) = Some s \<Longrightarrow> rs_run_id (cm_state c) = rs_run_id s"
  using assms by (cases rule: commits_cases; simp add: record_follows_def)+

section \<open>Accepted-plan inputs\<close>

definition inputs_ok :: "crypto \<Rightarrow> memory_run_store \<Rightarrow> bool" where
  "inputs_ok cr st \<longleftrightarrow>
     (\<forall>v. bm_contains_key (ms_plan_inputs st) v \<longleftrightarrow> bm_contains_key (vx_planned_invocations (ms_index st)) v)
     \<and> (\<forall>v. bs_contains (vx_plan_input_step_ids (ms_index st)) v \<longleftrightarrow> bm_contains_key (ms_plan_inputs st) v)
     \<and> (\<forall>s v a i. vx_state (ms_index st) = Some s \<and> bm_get (vx_planned_invocations (ms_index st)) v = Some a
          \<and> bm_get (ms_plan_inputs st) v = Some i \<longrightarrow> material_verify_for cr i (rs_run_id s) v (pia_binding a) = Inr ())"

lemma index_plan_input_iff:
  "index_plan_input i m = Inr m' \<longleftrightarrow> \<not> bm_contains_key m (pimr_step_id i) \<and> m' = bm_insert (pimr_step_id i) i m"
  by (auto simp: index_plan_input_def result_simps)

lemma index_plan_inputs:
  "try_fold index_plan_input ins m = Inr m' \<Longrightarrow>
     m' = fold (\<lambda>i. bm_insert (pimr_step_id i) i) ins m \<and> distinct (map pimr_step_id ins)
     \<and> (\<forall>i \<in> set ins. \<not> bm_contains_key m (pimr_step_id i))"
proof (induction ins arbitrary: m)
  case (Cons i ins)
  then have new: "\<not> bm_contains_key m (pimr_step_id i)" "try_fold index_plan_input ins (bm_insert (pimr_step_id i) i m) = Inr m'"
    by (auto simp: index_plan_input_iff result_simps)
  show ?case using new(1) Cons.IH [OF new(2)] by force
qed simp

lemma plan_bundle:
  assumes "verify_plan_input_bundle cr ev sc = Inr ()" and "re_body ev = PlanAccepted d steps"
    and "distinct (map aps_step_id steps)"
  obtains ins where "sc = Some ins" and "distinct (map pimr_step_id ins)" and "pimr_step_id ` set ins = aps_step_id ` set steps"
    and "\<forall>a \<in> set steps. \<exists>i. bm_get (fold (\<lambda>i. bm_insert (pimr_step_id i) i) ins m) (aps_step_id a) = Some i
      \<and> material_verify_for cr i (re_run_id ev) (aps_step_id a) (aps_invocation a) = Inr ()"
proof -
  obtain ins by_step where ins: "sc = Some ins" "length ins = length steps" "try_fold index_plan_input ins bm_empty = Inr by_step"
    and each: "\<forall>a \<in> set steps. verify_plan_step_input cr (re_run_id ev) by_step a = Inr ()"
    using assms(1,2) by (cases sc) (auto simp: verify_plan_input_bundle_def result_simps)
  have folded: "by_step = fold (\<lambda>i. bm_insert (pimr_step_id i) i) ins bm_empty" and dist: "distinct (map pimr_step_id ins)"
    using index_plan_inputs [OF ins(3)] by simp_all
  have "aps_step_id ` set steps \<subseteq> pimr_step_id ` set ins"
  proof
    fix v assume "v \<in> aps_step_id ` set steps"
    then have "bm_contains_key by_step v"
      using each by (force simp: verify_plan_step_input_def result_simps bm_contains_key_def)
    then show "v \<in> pimr_step_id ` set ins" by (simp add: folded)
  qed
  moreover have "card (aps_step_id ` set steps) = card (pimr_step_id ` set ins)"
    using assms(3) dist ins(2) distinct_card [of "map aps_step_id steps"] distinct_card [of "map pimr_step_id ins"] by simp
  ultimately have keys: "pimr_step_id ` set ins = aps_step_id ` set steps" 
    using card_subset_eq [of "pimr_step_id ` set ins" "aps_step_id ` set steps"] by simp
  have "\<exists>i. bm_get (fold (\<lambda>i. bm_insert (pimr_step_id i) i) ins m) (aps_step_id a) = Some i
      \<and> material_verify_for cr i (re_run_id ev) (aps_step_id a) (aps_invocation a) = Inr ()" if a: "a \<in> set steps" for a
  proof -
    obtain i where i: "i \<in> set ins" "pimr_step_id i = aps_step_id a" using keys a by (metis image_iff)
    have "bm_get by_step (aps_step_id a) = Some i"
      unfolding folded i(2) [symmetric] using dist i(1) by (rule get_fold_insert_in)
    moreover have "bm_get (fold (\<lambda>i. bm_insert (pimr_step_id i) i) ins m) (aps_step_id a) = Some i"
      unfolding i(2) [symmetric] using dist i(1) by (rule get_fold_insert_in)
    ultimately show ?thesis using each a by (auto simp: verify_plan_step_input_def result_simps)
  qed
  then show thesis using that [OF ins(1) dist keys] by blast
qed

lemma inputs_ok_step:
  assumes "commits cr env st c sc an st'" and "journal_ok cr st" and "steps_ok (ms_index st)"
    and "identities_ok (ms_index st)" and "inputs_ok cr st"
  shows "inputs_ok cr st'"
proof -
  note F = committed_fields [OF assms(1)]
  have checked: "verify_plan_input_bundle cr (er_event (cm_record c)) (csc_plan_inputs sc) = Inr ()"
    and stored: "ms_plan_inputs st' = (case csc_plan_inputs sc of None \<Rightarrow> ms_plan_inputs st
          | Some ins \<Rightarrow> fold (\<lambda>i. bm_insert (pimr_step_id i) i) ins (ms_plan_inputs st))"
    using assms(1) by (auto simp: commits_def sidecars_admitted_def verify_commit_sidecars_def result_simps)
  note run = commits_run [OF assms(1,2)]
  show ?thesis
  proof (cases "\<exists>d steps. body_of (cm_record c) = PlanAccepted d steps")
    case False
    then have "csc_plan_inputs sc = None \<or> csc_plan_inputs sc = Some []"
      using checked by (cases "body_of (cm_record c)"; cases "csc_plan_inputs sc")
        (auto simp: verify_plan_input_bundle_def result_simps)
    moreover have "vx_planned_invocations (ms_index st') = vx_planned_invocations (ms_index st)"
      using False by (cases "body_of (cm_record c)") (simp_all add: F)
    moreover have "vx_planned_invocations (ms_index st) = bm_empty" if "vx_state (ms_index st) = None"
      using assms(2) that by (simp add: journal_ok_def ms_new_def vx_default_def)
    ultimately show ?thesis
      using assms(5) run(2) unfolding inputs_ok_def
      by (cases "vx_state (ms_index st)") (auto simp: F stored)
  next
    case True
    then obtain d steps where body: "body_of (cm_record c) = PlanAccepted d steps" by blast
    have fresh: "distinct (map aps_step_id steps)"
      "\<forall>a \<in> set steps. \<not> bm_contains_key (vx_planned_invocations (ms_index st)) (aps_step_id a)"
      using commits_fresh [OF assms(1-4)] by (simp_all add: body fresh_event_def)
    obtain ins where ins: "csc_plan_inputs sc = Some ins" "pimr_step_id ` set ins = aps_step_id ` set steps"
      and each: "\<forall>a \<in> set steps. \<exists>i. bm_get (fold (\<lambda>i. bm_insert (pimr_step_id i) i) ins (ms_plan_inputs st)) (aps_step_id a) = Some i
        \<and> material_verify_for cr i (re_run_id (er_event (cm_record c))) (aps_step_id a) (aps_invocation a) = Inr ()"
      using checked body fresh(1) by (rule plan_bundle)
    have planned: "vx_planned_invocations (ms_index st') = fold (\<lambda>a. bm_insert (aps_step_id a)
        \<lparr>pia_event_sequence = er_sequence (cm_record c), pia_binding = aps_invocation a\<rparr>) steps
        (vx_planned_invocations (ms_index st))"
      by (simp add: F body)
    have "material_verify_for cr i (rs_run_id (cm_state c)) v (pia_binding a) = Inr ()"
      if "bm_get (vx_planned_invocations (ms_index st')) v = Some a" "bm_get (ms_plan_inputs st') v = Some i" for v a i
    proof (cases "v \<in> aps_step_id ` set steps")
      case True
      then obtain x where x: "x \<in> set steps" "v = aps_step_id x" by blast
      then have "pia_binding a = aps_invocation x"
        using that(1) by (auto simp: planned get_fold_insert_in [OF fresh(1) x(1)])
      then show ?thesis using each x that(2) run(1) by (fastforce simp: stored ins(1))
    next
      case False
      then have old: "bm_get (vx_planned_invocations (ms_index st)) v = Some a" "bm_get (ms_plan_inputs st) v = Some i"
        using that ins by (simp_all add: planned stored get_fold_insert_other)
      moreover obtain s where "vx_state (ms_index st) = Some s"
        using assms(2) old(2) by (cases "vx_state (ms_index st)") (auto simp: journal_ok_def ms_new_def)
      ultimately show ?thesis using assms(5) run(2) by (auto simp: inputs_ok_def)
    qed
    then show ?thesis
      using assms(5) ins unfolding inputs_ok_def by (simp add: F body stored)
  qed
qed

lemma audit_inputs:
  assumes "inputs_ok cr st" and "vx_state (ms_index st) = Some s" and "vx_state idx = Some s"
    and "vx_planned_invocations idx = vx_planned_invocations (ms_index st)"
  shows "verify_plan_input_records cr idx (ms_plan_inputs st)
    = Inr (idx\<lparr>vx_plan_input_step_ids := vx_plan_input_step_ids (ms_index st)\<rparr>)"
proof -
  have "verify_plan_input_entry cr idx (ms_plan_inputs st) (v, a) = Inr ()"
    if "(v, a) \<in> set (bm_entries (vx_planned_invocations idx))" for v a
  proof -
    have a: "bm_get (vx_planned_invocations (ms_index st)) v = Some a"
      using that assms(4) by (simp add: bm.in_entries_iff)
    then obtain i where "bm_get (ms_plan_inputs st) v = Some i"
      using assms(1) unfolding inputs_ok_def bm_contains_key_def by (metis option.exhaust option.distinct(1))
    then show ?thesis
      using assms(1-3) a by (auto simp: inputs_ok_def verify_plan_input_entry_def index_run_id_def result_simps)
  qed
  then have "try_each (verify_plan_input_entry cr idx (ms_plan_inputs st)) (bm_entries (vx_planned_invocations idx)) = Inr ()"
    by (auto simp: try_each_Inr_iff)
  moreover have "bm_len (ms_plan_inputs st) = bm_len (vx_planned_invocations idx)"
    using assms(1,4) by (intro len_by_keys) (simp add: inputs_ok_def)
  moreover have "bs_of_list (bm_keys (ms_plan_inputs st)) = vx_plan_input_step_ids (ms_index st)"
    using assms(1) by (intro bs_eqI) (simp add: in_bm_keys_iff inputs_ok_def)
  ultimately show ?thesis by (simp add: verify_plan_input_records_def)
qed

section \<open>Invocation material\<close>

definition materials_ok :: "crypto \<Rightarrow> memory_run_store \<Rightarrow> bool" where
  "materials_ok cr st \<longleftrightarrow>
     (\<forall>e. bm_contains_key (ms_materials st) e \<longleftrightarrow> bm_contains_key (vx_intents (ms_index st)) e)
     \<and> (\<forall>e. bs_contains (vx_material_effect_ids (ms_index st)) e \<longleftrightarrow> bm_contains_key (ms_materials st) e)
     \<and> (\<forall>s e a m. vx_state (ms_index st) = Some s \<and> bm_get (vx_intents (ms_index st)) e = Some a
          \<and> bm_get (ms_materials st) e = Some m \<longrightarrow>
          material_record_verify_for cr m (rs_run_id s) (eia_step_id a) (eia_intent a) = Inr ())"

lemma materials_ok_step:
  assumes "commits cr env st c sc an st'" and "journal_ok cr st" and "materials_ok cr st"
  shows "materials_ok cr st'"
proof -
  note F = committed_fields [OF assms(1)]
  have checked: "verify_material_bundle cr (er_event (cm_record c)) (csc_material sc) = Inr ()"
    and ok: "sidecars_admitted cr env st (cm_record c) sc an"
    and stored: "ms_materials st' = (case csc_material sc of None \<Rightarrow> ms_materials st
          | Some m \<Rightarrow> bm_insert (imr_effect_id m) m (ms_materials st))"
    using assms(1) by (auto simp: commits_def sidecars_admitted_def verify_commit_sidecars_def result_simps)
  note run = commits_run [OF assms(1,2)]
  have old: "material_record_verify_for cr m (rs_run_id (cm_state c)) (eia_step_id a) (eia_intent a) = Inr ()"
    if intent: "bm_get (vx_intents (ms_index st)) e = Some a" and m: "bm_get (ms_materials st) e = Some m" for e a m
  proof -
    obtain s where "vx_state (ms_index st) = Some s"
      using assms(2) m by (cases "vx_state (ms_index st)") (auto simp: journal_ok_def ms_new_def)
    then show ?thesis using assms(3) intent m run(2) by (auto simp: materials_ok_def)
  qed
  show ?thesis
  proof (cases "csc_material sc")
    case None
    then have "\<nexists>v i. body_of (cm_record c) = EffectIntentCommitted v i" using admitted_kinds(4) [OF ok] by blast
    then have "vx_intents (ms_index st') = vx_intents (ms_index st)"
      by (cases "body_of (cm_record c)") (simp_all add: F)
    then show ?thesis using assms(3) old None unfolding materials_ok_def by (auto simp: F stored)
  next
    case (Some m)
    then obtain v i where body: "body_of (cm_record c) = EffectIntentCommitted v i" and m: "imr_effect_id m = ei_effect_id i"
      "material_record_verify_for cr m (re_run_id (er_event (cm_record c))) v i = Inr ()"
      using checked material_of_intent by fastforce
    then show ?thesis
      using assms(3) old run(1) Some unfolding materials_ok_def by (auto simp: F stored split: if_splits)
  qed
qed

lemma audit_materials:
  assumes "materials_ok cr st" and "vx_state (ms_index st) = Some s" and "vx_state idx = Some s"
    and "vx_intents idx = vx_intents (ms_index st)"
  shows "verify_material_records cr idx (ms_materials st)
    = Inr (idx\<lparr>vx_material_effect_ids := vx_material_effect_ids (ms_index st)\<rparr>)"
proof -
  have "verify_material_entry cr idx (ms_materials st) (e, a) = Inr ()"
    if "(e, a) \<in> set (bm_entries (vx_intents idx))" for e a
  proof -
    have a: "bm_get (vx_intents (ms_index st)) e = Some a"
      using that assms(4) by (simp add: bm.in_entries_iff)
    then obtain m where "bm_get (ms_materials st) e = Some m"
      using assms(1) unfolding materials_ok_def bm_contains_key_def by (metis option.exhaust option.distinct(1))
    then show ?thesis
      using assms(1-3) a by (auto simp: materials_ok_def verify_material_entry_def index_run_id_def result_simps)
  qed
  then have "try_each (verify_material_entry cr idx (ms_materials st)) (bm_entries (vx_intents idx)) = Inr ()"
    by (auto simp: try_each_Inr_iff)
  moreover have "bm_len (ms_materials st) = bm_len (vx_intents idx)"
    using assms(1,4) by (intro len_by_keys) (simp add: materials_ok_def)
  moreover have "bs_of_list (bm_keys (ms_materials st)) = vx_material_effect_ids (ms_index st)"
    using assms(1) by (intro bs_eqI) (simp add: in_bm_keys_iff materials_ok_def)
  ultimately show ?thesis by (simp add: verify_material_records_def)
qed

section \<open>Completion output\<close>

definition completion_ok :: "crypto \<Rightarrow> memory_run_store \<Rightarrow> bool" where
  "completion_ok cr st \<longleftrightarrow> verify_completion_output_record cr (ms_index st) (ms_completion_output st) = Inr ()"

lemma completion_ok_step:
  assumes "commits cr env st c sc an st'" and "completion_ok cr st"
  shows "completion_ok cr st'"
proof -
  note F = committed_fields [OF assms(1)]
  have ok: "sidecars_admitted cr env st (cm_record c) sc an"
    and stored: "ms_completion_output st' = (case csc_completion_output sc of None \<Rightarrow> ms_completion_output st
          | Some r \<Rightarrow> Some \<lparr>sco_event_sequence = er_sequence (cm_record c), sco_record = r\<rparr>)"
    using assms(1) by (auto simp: commits_def)
  show ?thesis
  proof (cases "csc_completion_output sc")
    case None
    then have "vx_completion_output_event (ms_index st') = vx_completion_output_event (ms_index st)"
      using ok by (simp add: F sidecars_admitted_def)
    then show ?thesis
      using assms(2) None by (simp add: completion_ok_def verify_completion_output_record_def stored)
  next
    case (Some r)
    then obtain a d where a: "can_completion_output an = Some a" "completion_output_anchor_for (cm_record c) = Inr a"
      and d: "completion_anchor_decision a = Inr d" "cor_record_digest r = coa_record_digest a"
      and v: "completion_verify_for cr r (coa_run_id a) d (coa_candidate_id a) (coa_summary_digest a) = Inr ()"
      using ok by (auto simp: sidecars_admitted_def verify_completion_output_candidate_def result_simps)
    have "coa_event_sequence a = er_sequence (cm_record c)"
      using a(2) by (auto simp: completion_output_anchor_for_def result_simps split: run_event_body.splits option.splits)
    moreover have "cor_candidate_id r = coa_candidate_id a"
      using v by (auto simp: completion_verify_for_def result_simps)
    ultimately show ?thesis
      using a(1) d v Some
      by (simp add: completion_ok_def verify_completion_output_record_def stored F verify_stored_completion_output_def)
  qed
qed

end
