(* ===== verification/Store_Outputs.thy ===== *)
theory Store_Outputs
  imports Store_Sidecars
begin

text \<open>
  Tool outputs and receipts: the invariants that tie them to the index, their preservation by a
  commit, and their audit from scratch. An audited receipt stays valid when later commits extend
  the index, because intents and output digests are never replaced.
\<close>

section \<open>What a commit keeps\<close>

lemma intents_persist:
  assumes "commits cr env st c sc an st'" and "journal_ok cr st" and "steps_ok (ms_index st)"
    and "identities_ok (ms_index st)" and "bm_get (vx_intents (ms_index st)) e = Some a"
  shows "bm_get (vx_intents (ms_index st')) e = Some a"
  using commits_fresh [OF assms(1-4)] assms(5) committed_fields [OF assms(1)]
  by (auto simp: fresh_event_def bm_contains_key_def split: run_event_body.splits)

lemma commits_output:
  assumes "commits cr env st c sc an st'" and "steps_ok (ms_index st)" and "csc_output sc = Some r"
  obtains a intent where "can_output an = Some a" and "tool_output_anchor_for (ms_index st) (cm_record c) = Inr a"
    and "bm_get (vx_intents (ms_index st)) (tor_effect_id r) = Some intent" and "toa_effect_id a = tor_effect_id r"
    and "tool_output_verify_for cr r (toa_run_id a) (toa_step_id a) (eia_intent intent) (toa_execution_attempt a)
      (toa_evidence_digest a) = Inr ()"
    and "tor_record_digest r = toa_record_digest a" and "toa_event_sequence a = er_sequence (cm_record c)"
    and "intent_output_profile (eia_intent intent) = Some TOOL_OUTPUT_PROFILE_V1"
    and "\<not> bs_contains (vx_tool_output_effect_ids (ms_index st)) (tor_effect_id r)"
    and "\<not> bs_contains (vx_tool_output_ids (ms_index st)) (tor_output_id r)"
    and "\<not> bs_contains (vx_tool_output_record_digests (ms_index st)) (tor_record_digest r)"
proof -
  obtain a where a: "can_output an = Some a" "verify_tool_output_candidate cr (ms_index st) (cm_record c) r = Inr a"
    using assms(1,3) by (auto simp: commits_def sidecars_admitted_def)
  have key: "toa_effect_id a = tor_effect_id r" using a(2) steps_ok_keyed [OF assms(2)] by (rule output_of_success)
  from a(2) obtain intent where c: "tool_output_anchor_for (ms_index st) (cm_record c) = Inr a"
    "bm_get (vx_intents (ms_index st)) (toa_effect_id a) = Some intent"
    "tool_output_verify_for cr r (toa_run_id a) (toa_step_id a) (eia_intent intent) (toa_execution_attempt a)
      (toa_evidence_digest a) = Inr ()"
    "tor_record_digest r = toa_record_digest a"
    "\<not> bs_contains (vx_tool_output_effect_ids (ms_index st)) (toa_effect_id a)"
    "\<not> bs_contains (vx_tool_output_ids (ms_index st)) (tor_output_id r)"
    "\<not> bs_contains (vx_tool_output_record_digests (ms_index st)) (tor_record_digest r)"
    by (rule tool_output_candidate)
  have "toa_event_sequence a = er_sequence (cm_record c)" "intent_output_profile (eia_intent intent) = Some TOOL_OUTPUT_PROFILE_V1"
    using c(1,2) by (auto simp: tool_output_anchor_for_def result_simps split: run_event_body.splits option.splits)
  with a c key show thesis using that by simp
qed

lemma commits_no_output:
  "commits cr env st c sc an st' \<Longrightarrow> csc_output sc = None \<Longrightarrow> can_output an = None"
  by (simp add: commits_def sidecars_admitted_def)

lemma commits_receipt:
  assumes "commits cr env st c sc an st'" and "csc_receipt sc = Some r"
  obtains a where "can_receipt an = Some a" and "verify_receipt_candidate env (ms_index st) (cm_record c) r = Inr a"
    and "validate_execution_receipt cr env r = Inr ()" and "rea_event_sequence a = er_sequence (cm_record c)"
proof -
  obtain a where a: "can_receipt an = Some a" "verify_receipt_candidate env (ms_index st) (cm_record c) r = Inr a"
    and v: "verify_receipt_bundle cr env (er_event (cm_record c)) (Some r) = Inr ()"
    using assms by (auto simp: commits_def sidecars_admitted_def verify_commit_sidecars_def result_simps)
  have "receipt_anchor_for (ms_index st) (cm_record c) = Inr a"
    using a(2) by (auto simp: verify_receipt_candidate_def result_simps)
  then have "rea_event_sequence a = er_sequence (cm_record c)"
    by (auto simp: receipt_anchor_for_def result_simps split: run_event_body.splits)
  moreover have "validate_execution_receipt cr env r = Inr ()"
    using v by (auto simp: verify_receipt_bundle_def result_simps split: run_event_body.splits)
  ultimately show thesis using a that by blast
qed

lemma commits_no_receipt:
  "commits cr env st c sc an st' \<Longrightarrow> csc_receipt sc = None \<Longrightarrow> can_receipt an = None"
  by (simp add: commits_def sidecars_admitted_def)

lemma identities_ok_step:
  assumes "commits cr env st c sc an st'" and "steps_ok (ms_index st)" and "identities_ok (ms_index st)"
  shows "identities_ok (ms_index st')"
proof -
  note F = committed_fields [OF assms(1)]
  have "bs_contains (vx_tool_output_effect_ids (ms_index st')) e \<longleftrightarrow> bm_contains_key (vx_tool_output_events (ms_index st')) e" for e
  proof (cases "csc_output sc")
    case None
    then show ?thesis using assms(3) commits_no_output [OF assms(1)] by (simp add: F identities_ok_def)
  next
    case (Some r)
    obtain a where "can_output an = Some a" "toa_effect_id a = tor_effect_id r"
      using assms(1,2) Some by (rule commits_output)
    with Some assms(3) show ?thesis by (simp add: F identities_ok_def)
  qed
  moreover have "bs_contains (vx_receipt_effect_ids (ms_index st')) e \<longleftrightarrow>
      bm_contains_key (vx_receipt_event_positions (ms_index st')) e" for e
    using assms(3) by (cases "can_receipt an") (simp_all add: F identities_ok_def)
  ultimately show ?thesis by (simp add: identities_ok_def)
qed

section \<open>Tool outputs\<close>

text \<open>A set that records one value per entry of a map, all values different.\<close>

definition tracks :: "string btreeset \<Rightarrow> ('v \<Rightarrow> string) \<Rightarrow> (string, 'v) btreemap \<Rightarrow> bool" where
  "tracks s f m \<longleftrightarrow> (\<forall>x. bs_contains s x \<longleftrightarrow> (\<exists>k v. bm_get m k = Some v \<and> f v = x))
     \<and> (\<forall>k k' v v'. bm_get m k = Some v \<and> bm_get m k' = Some v' \<and> f v = f v' \<longrightarrow> k = k')"

lemma tracks_empty: "tracks bs_empty f bm_empty"
  by (simp add: tracks_def)

lemma tracks_insert:
  assumes "tracks s f m" and "\<not> bs_contains s (f v)" and "\<not> bm_contains_key m k"
  shows "tracks (bs_insert (f v) s) f (bm_insert k v m)"
proof -
  have "bs_contains (bs_insert (f v) s) x \<longleftrightarrow> (\<exists>k' w. bm_get (bm_insert k v m) k' = Some w \<and> f w = x)" for x
  proof -
    have "(\<exists>k' w. bm_get (bm_insert k v m) k' = Some w \<and> f w = x) \<longleftrightarrow>
        f v = x \<or> (\<exists>k' w. k' \<noteq> k \<and> bm_get m k' = Some w \<and> f w = x)"
      by (auto split: if_splits)
    also have "\<dots> \<longleftrightarrow> f v = x \<or> (\<exists>k' w. bm_get m k' = Some w \<and> f w = x)"
      using assms(3) unfolding bm_contains_key_def by (metis option.distinct(1))
    finally show ?thesis using assms(1) by (auto simp: tracks_def)
  qed
  moreover have "k1 = k2" if "bm_get (bm_insert k v m) k1 = Some v1" "bm_get (bm_insert k v m) k2 = Some v2" "f v1 = f v2"
    for k1 k2 v1 v2
    using that assms(1,2) unfolding tracks_def by (auto split: if_splits)
  ultimately show ?thesis unfolding tracks_def by blast
qed

definition outputs_ok :: "crypto \<Rightarrow> memory_run_store \<Rightarrow> bool" where
  "outputs_ok cr st \<longleftrightarrow>
     (\<forall>e. bm_contains_key (ms_outputs st) e \<longleftrightarrow> bm_contains_key (vx_tool_output_events (ms_index st)) e)
     \<and> (\<forall>e a x. bm_get (vx_tool_output_events (ms_index st)) e = Some a \<and> bm_get (ms_outputs st) e = Some x \<longrightarrow>
          toa_effect_id a = e \<and> verify_stored_tool_output cr (ms_index st) a x = Inr ())
     \<and> tracks (vx_tool_output_ids (ms_index st)) (tor_output_id \<circ> sto_record) (ms_outputs st)
     \<and> tracks (vx_tool_output_record_digests (ms_index st)) (tor_record_digest \<circ> sto_record) (ms_outputs st)
     \<and> (\<forall>e. bm_get (vx_tool_output_digests (ms_index st)) e = map_option (tor_output_digest \<circ> sto_record) (bm_get (ms_outputs st) e))
     \<and> (\<forall>e. bm_get (vx_tool_output_sizes (ms_index st)) e = map_option (tor_canonical_size_bytes \<circ> sto_record) (bm_get (ms_outputs st) e))"

lemma verify_stored_tool_output_iff:
  "verify_stored_tool_output cr idx a x = Inr () \<longleftrightarrow>
     sto_event_sequence x = toa_event_sequence a \<and> tor_effect_id (sto_record x) = toa_effect_id a
     \<and> tor_record_digest (sto_record x) = toa_record_digest a
     \<and> (\<exists>i. bm_get (vx_intents idx) (toa_effect_id a) = Some i
          \<and> tool_output_verify_for cr (sto_record x) (toa_run_id a) (toa_step_id a) (eia_intent i)
              (toa_execution_attempt a) (toa_evidence_digest a) = Inr ())"
  by (auto simp: verify_stored_tool_output_def result_simps)

lemma outputs_ok_step:
  assumes "commits cr env st c sc an st'" and "journal_ok cr st" and "steps_ok (ms_index st)"
    and "identities_ok (ms_index st)" and "outputs_ok cr st"
  shows "outputs_ok cr st'"
proof -
  note F = committed_fields [OF assms(1)]
  have stored: "ms_outputs st' = (case csc_output sc of None \<Rightarrow> ms_outputs st
      | Some r \<Rightarrow> bm_insert (tor_effect_id r) \<lparr>sto_event_sequence = er_sequence (cm_record c), sto_record = r\<rparr> (ms_outputs st))"
    using assms(1) by (simp add: commits_def)
  have kept: "verify_stored_tool_output cr (ms_index st') a x = Inr ()"
    if "verify_stored_tool_output cr (ms_index st) a x = Inr ()" for a x
    using that intents_persist [OF assms(1-4)] by (auto simp: verify_stored_tool_output_iff)
  show ?thesis
  proof (cases "csc_output sc")
    case None
    then show ?thesis
      using assms(5) kept commits_no_output [OF assms(1)] unfolding outputs_ok_def by (simp add: F stored)
  next
    case (Some r)
    let ?x = "\<lparr>sto_event_sequence = er_sequence (cm_record c), sto_record = r\<rparr>"
    obtain a intent where a: "can_output an = Some a" "toa_effect_id a = tor_effect_id r"
      "bm_get (vx_intents (ms_index st)) (tor_effect_id r) = Some intent"
      "tool_output_verify_for cr r (toa_run_id a) (toa_step_id a) (eia_intent intent) (toa_execution_attempt a)
        (toa_evidence_digest a) = Inr ()"
      "tor_record_digest r = toa_record_digest a" "toa_event_sequence a = er_sequence (cm_record c)"
      and new: "\<not> bs_contains (vx_tool_output_effect_ids (ms_index st)) (tor_effect_id r)"
        "\<not> bs_contains (vx_tool_output_ids (ms_index st)) (tor_output_id r)"
        "\<not> bs_contains (vx_tool_output_record_digests (ms_index st)) (tor_record_digest r)"
      using assms(1,3) Some by (rule commits_output)
    have "\<not> bm_contains_key (ms_outputs st) (tor_effect_id r)"
      using new(1) assms(4,5) by (simp add: identities_ok_def outputs_ok_def)
    then have "tracks (vx_tool_output_ids (ms_index st')) (tor_output_id \<circ> sto_record) (ms_outputs st')"
      "tracks (vx_tool_output_record_digests (ms_index st')) (tor_record_digest \<circ> sto_record) (ms_outputs st')"
      using assms(5) new(2,3) tracks_insert [of _ "tor_output_id \<circ> sto_record" "ms_outputs st" ?x]
        tracks_insert [of _ "tor_record_digest \<circ> sto_record" "ms_outputs st" ?x]
      unfolding outputs_ok_def by (simp_all add: F Some stored)
    moreover have "verify_stored_tool_output cr (ms_index st') a ?x = Inr ()"
      using a by (intro kept) (simp add: verify_stored_tool_output_iff)
    ultimately show ?thesis
      using assms(5) kept a(1,2) Some unfolding outputs_ok_def by (auto simp: F stored split: if_splits)
  qed
qed

subsection \<open>The audit\<close>

definition output_new :: "verified_run_index \<Rightarrow> tool_output_record \<Rightarrow> bool" where
  "output_new j r \<longleftrightarrow> \<not> bs_contains (vx_tool_output_effect_ids j) (tor_effect_id r)
     \<and> \<not> bs_contains (vx_tool_output_ids j) (tor_output_id r)
     \<and> \<not> bs_contains (vx_tool_output_record_digests j) (tor_record_digest r)
     \<and> \<not> bm_contains_key (vx_tool_output_digests j) (tor_effect_id r)
     \<and> \<not> bm_contains_key (vx_tool_output_sizes j) (tor_effect_id r)"

lemma output_new_commit:
  "output_new (commit_output (Some r) j) q \<longleftrightarrow>
     output_new j q \<and> tor_effect_id q \<noteq> tor_effect_id r \<and> tor_output_id q \<noteq> tor_output_id r
     \<and> tor_record_digest q \<noteq> tor_record_digest r"
  by (auto simp: output_new_def commit_output_def)

lemma audit_tool_outputs:
  assumes "distinct (map tor_effect_id (map R xs))" and "distinct (map tor_output_id (map R xs))"
    and "distinct (map tor_record_digest (map R xs))" and "\<forall>a \<in> set xs. output_new j (R a)"
    and "\<forall>a \<in> set xs. tor_effect_id (R a) = toa_effect_id a
      \<and> (\<exists>x. bm_get outs (toa_effect_id a) = Some x \<and> sto_record x = R a \<and> verify_stored_tool_output cr j a x = Inr ())"
  shows "try_fold (audit_tool_output cr outs) xs j = Inr (fold (\<lambda>a. commit_output (Some (R a))) xs j)"
  using assms
proof (induction xs arbitrary: j)
  case (Cons a xs)
  have "verify_stored_tool_output cr (commit_output (Some (R a)) j) b x = verify_stored_tool_output cr j b x" for b x
    by (simp add: verify_stored_tool_output_def commit_output_def)
  moreover have "audit_tool_output cr outs a j = Inr (commit_output (Some (R a)) j)"
    using Cons.prems(4,5) by (auto simp: audit_tool_output_def index_tool_output_def output_new_def commit_output_def result_simps)
  moreover have "\<forall>b \<in> set xs. output_new (commit_output (Some (R a)) j) (R b)"
    using Cons.prems by (auto simp: output_new_commit) (metis image_eqI)+
  ultimately show ?case using Cons.prems by (simp add: Cons.IH)
qed simp

text \<open>The five tool output collections of an index, written over those of another.\<close>

definition with_outputs_of :: "verified_run_index \<Rightarrow> verified_run_index \<Rightarrow> verified_run_index" where
  "with_outputs_of i j = j\<lparr>vx_tool_output_effect_ids := vx_tool_output_effect_ids i, vx_tool_output_ids := vx_tool_output_ids i,
     vx_tool_output_record_digests := vx_tool_output_record_digests i, vx_tool_output_digests := vx_tool_output_digests i,
     vx_tool_output_sizes := vx_tool_output_sizes i\<rparr>"

lemma with_outputs_of_twice: "with_outputs_of i (with_outputs_of k j) = with_outputs_of i j"
  by (simp add: with_outputs_of_def)

lemma commit_output_frame: "commit_output o' j = with_outputs_of (commit_output o' j) j"
  by (cases o') (simp_all add: with_outputs_of_def commit_output_def)

lemma fold_commit_output_frame:
  "fold (\<lambda>a. commit_output (Some (R a))) xs j = with_outputs_of (fold (\<lambda>a. commit_output (Some (R a))) xs j) j"
proof (induction xs arbitrary: j)
  case Nil
  show ?case using commit_output_frame [of None j] by (simp add: commit_output_def)
next
  case (Cons a xs)
  show ?case
    using Cons [of "commit_output (Some (R a)) j"] commit_output_frame [of "Some (R a)" j] with_outputs_of_twice
    by (metis fold_simps(2))
qed

lemma fold_commit_output:
  fixes R :: "'a \<Rightarrow> tool_output_record" and xs j
  defines "g \<equiv> fold (\<lambda>a. commit_output (Some (R a))) xs j"
  shows "bs_contains (vx_tool_output_effect_ids g) e \<longleftrightarrow>
      bs_contains (vx_tool_output_effect_ids j) e \<or> e \<in> (\<lambda>a. tor_effect_id (R a)) ` set xs"
    and "bs_contains (vx_tool_output_ids g) e \<longleftrightarrow> bs_contains (vx_tool_output_ids j) e \<or> e \<in> (\<lambda>a. tor_output_id (R a)) ` set xs"
    and "bs_contains (vx_tool_output_record_digests g) e \<longleftrightarrow>
      bs_contains (vx_tool_output_record_digests j) e \<or> e \<in> (\<lambda>a. tor_record_digest (R a)) ` set xs"
    and "vx_tool_output_digests g =
      fold (\<lambda>a. bm_insert (tor_effect_id (R a)) (tor_output_digest (R a))) xs (vx_tool_output_digests j)"
    and "vx_tool_output_sizes g =
      fold (\<lambda>a. bm_insert (tor_effect_id (R a)) (tor_canonical_size_bytes (R a))) xs (vx_tool_output_sizes j)"
  unfolding g_def by (induction xs arbitrary: j) (auto simp: commit_output_def)

lemma distinct_map_sort_key [simp]: "distinct (map f (sort_key k xs)) \<longleftrightarrow> distinct (map f xs)"
  by (simp add: distinct_map)

text \<open>The recorded output of an anchor, and the anchors in journal order.\<close>

definition output_at :: "memory_run_store \<Rightarrow> tool_output_event_anchor \<Rightarrow> tool_output_record" where
  "output_at st a = sto_record (the (bm_get (ms_outputs st) (toa_effect_id a)))"

definition output_anchors :: "memory_run_store \<Rightarrow> tool_output_event_anchor list" where
  "output_anchors st = sort_key toa_event_sequence (bm_values (vx_tool_output_events (ms_index st)))"

lemma output_anchor:
  assumes "outputs_ok cr st" and "a \<in> set (output_anchors st)"
  obtains x where "bm_get (vx_tool_output_events (ms_index st)) (toa_effect_id a) = Some a"
    and "bm_get (ms_outputs st) (toa_effect_id a) = Some x" and "sto_record x = output_at st a"
    and "verify_stored_tool_output cr (ms_index st) a x = Inr ()" and "tor_effect_id (output_at st a) = toa_effect_id a"
proof -
  obtain e where e: "bm_get (vx_tool_output_events (ms_index st)) e = Some a"
    using assms(2) by (auto simp: output_anchors_def in_bm_values_iff)
  then obtain x where x: "bm_get (ms_outputs st) e = Some x"
    using assms(1) by (fastforce simp: bm_contains_key_def outputs_ok_def)
  have a: "toa_effect_id a = e" "verify_stored_tool_output cr (ms_index st) a x = Inr ()"
    using assms(1) e x by (auto simp: outputs_ok_def)
  then have "tor_effect_id (sto_record x) = e" by (simp add: verify_stored_tool_output_iff)
  then show thesis using that e x a by (simp add: output_at_def)
qed

lemma output_anchored:
  assumes "outputs_ok cr st" and "bm_get (ms_outputs st) e = Some x"
  obtains a where "a \<in> set (output_anchors st)" and "toa_effect_id a = e" and "sto_record x = output_at st a"
proof -
  obtain a where a: "bm_get (vx_tool_output_events (ms_index st)) e = Some a"
    using assms by (fastforce simp: bm_contains_key_def outputs_ok_def)
  then have "a \<in> set (output_anchors st)" "toa_effect_id a = e"
    using assms by (auto simp: output_anchors_def in_bm_values_iff outputs_ok_def)
  then show thesis using that assms(2) by (simp add: output_at_def)
qed

lemma distinct_output_anchors:
  assumes "outputs_ok cr st"
  shows "distinct (map toa_effect_id (output_anchors st))"
    and "distinct (map (\<lambda>a. tor_effect_id (output_at st a)) (output_anchors st))"
proof -
  let ?ev = "vx_tool_output_events (ms_index st)"
  have "toa_effect_id (snd p) = fst p" if p: "p \<in> set (bm_entries ?ev)" for p
  proof -
    have e: "bm_get ?ev (fst p) = Some (snd p)" using p by (simp add: bm.in_entries_iff [symmetric])
    moreover obtain x where "bm_get (ms_outputs st) (fst p) = Some x"
      using assms e by (fastforce simp: bm_contains_key_def outputs_ok_def)
    ultimately show ?thesis using assms by (auto simp: outputs_ok_def)
  qed
  then have "map toa_effect_id (bm_values ?ev) = bm_keys ?ev" by (simp add: bm_values_def bm_keys_def)
  then have "distinct (map toa_effect_id (bm_values ?ev))" by simp
  then show ids: "distinct (map toa_effect_id (output_anchors st))" unfolding output_anchors_def distinct_map_sort_key .
  have "tor_effect_id (output_at st a) = toa_effect_id a" if "a \<in> set (output_anchors st)" for a
    using assms that by (rule output_anchor)
  then show "distinct (map (\<lambda>a. tor_effect_id (output_at st a)) (output_anchors st))"
    using ids by (metis (mono_tags, lifting) map_eq_conv)
qed

lemma tracked_outputs:
  assumes "outputs_ok cr st" and "tracks s (f \<circ> sto_record) (ms_outputs st)"
  shows "distinct (map f (map (output_at st) (output_anchors st)))"
    and "bs_contains s v \<longleftrightarrow> v \<in> (\<lambda>a. f (output_at st a)) ` set (output_anchors st)"
proof -
  have "a = b" if ab: "a \<in> set (output_anchors st)" "b \<in> set (output_anchors st)" "f (output_at st a) = f (output_at st b)" for a b
  proof -
    obtain x where x: "bm_get (vx_tool_output_events (ms_index st)) (toa_effect_id a) = Some a"
      "bm_get (ms_outputs st) (toa_effect_id a) = Some x" "sto_record x = output_at st a"
      using assms(1) ab(1) by (rule output_anchor)
    obtain y where y: "bm_get (vx_tool_output_events (ms_index st)) (toa_effect_id b) = Some b"
      "bm_get (ms_outputs st) (toa_effect_id b) = Some y" "sto_record y = output_at st b"
      using assms(1) ab(2) by (rule output_anchor)
    show ?thesis using assms(2) x y ab(3) unfolding tracks_def by (metis comp_apply option.inject)
  qed
  moreover have "distinct (output_anchors st)" using distinct_output_anchors(1) [OF assms(1)] by (simp add: distinct_map)
  ultimately show "distinct (map f (map (output_at st) (output_anchors st)))" by (auto simp: distinct_map inj_on_def)
  have "bs_contains s v \<longleftrightarrow> (\<exists>e x. bm_get (ms_outputs st) e = Some x \<and> f (sto_record x) = v)"
    using assms(2) by (simp add: tracks_def)
  also have "\<dots> \<longleftrightarrow> v \<in> (\<lambda>a. f (output_at st a)) ` set (output_anchors st)"
  proof (intro iffI; elim exE conjE imageE)
    fix e x assume "bm_get (ms_outputs st) e = Some x" "f (sto_record x) = v"
    then show "v \<in> (\<lambda>a. f (output_at st a)) ` set (output_anchors st)"
      using output_anchored [OF assms(1)] by (metis (mono_tags, lifting) imageI)
  next
    fix a assume a: "v = f (output_at st a)" "a \<in> set (output_anchors st)"
    obtain x where "bm_get (ms_outputs st) (toa_effect_id a) = Some x" "sto_record x = output_at st a"
      using assms(1) a(2) by (rule output_anchor)
    then show "\<exists>e x. bm_get (ms_outputs st) e = Some x \<and> f (sto_record x) = v" using a(1) by metis
  qed
  finally show "bs_contains s v \<longleftrightarrow> v \<in> (\<lambda>a. f (output_at st a)) ` set (output_anchors st)" .
qed

lemma collected_outputs:
  assumes "outputs_ok cr st"
  shows "bm_get (fold (\<lambda>a. bm_insert (tor_effect_id (output_at st a)) (f (output_at st a))) (output_anchors st) bm_empty) e
    = map_option (f \<circ> sto_record) (bm_get (ms_outputs st) e)" (is "bm_get ?m e = _")
    and "e \<in> (\<lambda>a. tor_effect_id (output_at st a)) ` set (output_anchors st) \<longleftrightarrow> bm_contains_key (ms_outputs st) e"
proof -
  show keys: "e \<in> (\<lambda>a. tor_effect_id (output_at st a)) ` set (output_anchors st) \<longleftrightarrow> bm_contains_key (ms_outputs st) e"
  proof
    assume "e \<in> (\<lambda>a. tor_effect_id (output_at st a)) ` set (output_anchors st)"
    then show "bm_contains_key (ms_outputs st) e"
      by (auto simp: bm_contains_key_def elim: output_anchor [OF assms])
  next
    assume "bm_contains_key (ms_outputs st) e"
    then obtain x where "bm_get (ms_outputs st) e = Some x" by (auto simp: bm_contains_key_def)
    with assms obtain a where a: "a \<in> set (output_anchors st)" "toa_effect_id a = e" by (rule output_anchored)
    moreover from assms a(1) have "tor_effect_id (output_at st a) = toa_effect_id a" by (rule output_anchor)
    ultimately show "e \<in> (\<lambda>a. tor_effect_id (output_at st a)) ` set (output_anchors st)" by force
  qed
  show "bm_get ?m e = map_option (f \<circ> sto_record) (bm_get (ms_outputs st) e)"
  proof (cases "bm_get (ms_outputs st) e")
    case None
    then have "e \<notin> (\<lambda>a. tor_effect_id (output_at st a)) ` set (output_anchors st)"
      using keys by (simp add: bm_contains_key_def)
    then show ?thesis using None by (simp add: get_fold_insert_other)
  next
    case (Some x)
    obtain a where a: "a \<in> set (output_anchors st)" "toa_effect_id a = e" "sto_record x = output_at st a"
      using assms Some by (rule output_anchored)
    have "tor_effect_id (output_at st a) = e" using output_anchor [OF assms a(1)] a(2) by metis
    then show ?thesis using get_fold_insert_in [OF distinct_output_anchors(2) [OF assms] a(1)] a(3) Some by simp
  qed
qed

lemma audit_outputs:
  assumes "outputs_ok cr st" and "identities_ok (ms_index st)"
    and "vx_tool_output_events idx = vx_tool_output_events (ms_index st)" and "vx_intents idx = vx_intents (ms_index st)"
    and "vx_tool_output_effect_ids idx = bs_empty" and "vx_tool_output_ids idx = bs_empty"
    and "vx_tool_output_record_digests idx = bs_empty" and "vx_tool_output_digests idx = bm_empty"
    and "vx_tool_output_sizes idx = bm_empty"
  shows "verify_tool_output_records cr idx (ms_outputs st) = Inr (with_outputs_of (ms_index st) idx)"
proof -
  let ?xs = "output_anchors st"
  let ?g = "fold (\<lambda>a. commit_output (Some (output_at st a))) ?xs idx"
  note G = fold_commit_output [where R = "output_at st" and xs = ?xs and j = idx]
  have trk: "tracks (vx_tool_output_ids (ms_index st)) (tor_output_id \<circ> sto_record) (ms_outputs st)"
    "tracks (vx_tool_output_record_digests (ms_index st)) (tor_record_digest \<circ> sto_record) (ms_outputs st)"
    and keys: "bm_contains_key (ms_outputs st) e \<longleftrightarrow> bm_contains_key (vx_tool_output_events (ms_index st)) e" for e
    using assms(1) by (simp_all add: outputs_ok_def)
  have fields: "vx_tool_output_effect_ids ?g = vx_tool_output_effect_ids (ms_index st)"
    "vx_tool_output_ids ?g = vx_tool_output_ids (ms_index st)"
    "vx_tool_output_record_digests ?g = vx_tool_output_record_digests (ms_index st)"
    "vx_tool_output_digests ?g = vx_tool_output_digests (ms_index st)"
    "vx_tool_output_sizes ?g = vx_tool_output_sizes (ms_index st)"
    using assms(1,2)
    by (intro bs_eqI bm.map_eqI; simp add: G assms(5-9) collected_outputs [OF assms(1)] identities_ok_def keys
        tracked_outputs(2) [OF assms(1) trk(1)] tracked_outputs(2) [OF assms(1) trk(2)] outputs_ok_def)+
  have "try_fold (audit_tool_output cr (ms_outputs st)) ?xs idx = Inr ?g"
  proof (rule audit_tool_outputs)
    show "distinct (map tor_effect_id (map (output_at st) ?xs))"
      using distinct_output_anchors(2) [OF assms(1)] by (simp add: comp_def)
    show "distinct (map tor_output_id (map (output_at st) ?xs))" using assms(1) trk(1) by (rule tracked_outputs)
    show "distinct (map tor_record_digest (map (output_at st) ?xs))" using assms(1) trk(2) by (rule tracked_outputs)
    show "\<forall>a\<in>set ?xs. output_new idx (output_at st a)" by (simp add: output_new_def assms(5-9))
    show "\<forall>a\<in>set ?xs. tor_effect_id (output_at st a) = toa_effect_id a \<and>
        (\<exists>x. bm_get (ms_outputs st) (toa_effect_id a) = Some x \<and> sto_record x = output_at st a
          \<and> verify_stored_tool_output cr idx a x = Inr ())"
    proof
      fix a assume "a \<in> set ?xs"
      with assms(1) show "tor_effect_id (output_at st a) = toa_effect_id a \<and>
        (\<exists>x. bm_get (ms_outputs st) (toa_effect_id a) = Some x \<and> sto_record x = output_at st a
          \<and> verify_stored_tool_output cr idx a x = Inr ())"
        by (rule output_anchor) (simp add: verify_stored_tool_output_iff assms(4))
    qed
  qed
  moreover have "?g = with_outputs_of (ms_index st) idx"
    using fold_commit_output_frame [of "output_at st" ?xs idx] by (simp add: with_outputs_of_def fields)
  moreover have "bm_len (vx_tool_output_events (ms_index st)) = bm_len (ms_outputs st)" using keys by (intro len_by_keys) simp
  ultimately show ?thesis by (simp add: verify_tool_output_records_def assms(3) flip: output_anchors_def)
qed

end
