(* ===== verification/Store_Receipts.thy ===== *)
theory Store_Receipts
  imports Store_Outputs
begin

text \<open>
  Execution receipts: the invariant that ties the receipt chain to the index, its preservation by a
  commit, and the audit of the chain from scratch. A receipt that was bound to its intent and its
  tool output stays bound under every later index, because both are never replaced.
\<close>

section \<open>One receipt\<close>

definition receipt_bound ::
    "crypto \<Rightarrow> protocol_env \<Rightarrow> verified_run_index \<Rightarrow> receipt_event_anchor \<Rightarrow> stored_execution_receipt \<Rightarrow> bool" where
  "receipt_bound cr env idx a x \<longleftrightarrow> (let r = ser_receipt x in
     validate_execution_receipt cr env r = Inr ()
     \<and> ser_event_sequence x = rea_event_sequence a \<and> ser_effect_id x = rea_effect_id a
     \<and> erb_receipt_id r = rea_receipt_id a \<and> erb_receipt_digest r = rea_receipt_digest a
     \<and> erb_run_id r = rea_run_id a \<and> erb_step_id r = rea_step_id a
     \<and> (\<exists>intent prov. bm_get (vx_intents idx) (rea_effect_id a) = Some intent
          \<and> ei_receipt_provenance (eia_intent intent) = Some prov
          \<and> verify_receipt_intent_binding r (eia_intent intent) prov (rea_disposition a) = Inr ())
     \<and> verify_receipt_tool_output_binding idx (rea_effect_id a) r = Inr ()
     \<and> verify_receipt_timestamps env a r = Inr ())"

definition record_receipt :: "stored_execution_receipt \<Rightarrow> verified_run_index \<Rightarrow> verified_run_index" where
  "record_receipt x j = j
     \<lparr>vx_receipt_ids := bs_insert (erb_receipt_id (ser_receipt x)) (vx_receipt_ids j),
      vx_receipt_digests := bs_insert (erb_receipt_digest (ser_receipt x)) (vx_receipt_digests j),
      vx_receipt_effect_ids := bs_insert (ser_effect_id x) (vx_receipt_effect_ids j)\<rparr>"

definition receipt_new :: "verified_run_index \<Rightarrow> stored_execution_receipt \<Rightarrow> bool" where
  "receipt_new j x \<longleftrightarrow> \<not> bs_contains (vx_receipt_ids j) (erb_receipt_id (ser_receipt x))
     \<and> \<not> bs_contains (vx_receipt_digests j) (erb_receipt_digest (ser_receipt x))
     \<and> \<not> bs_contains (vx_receipt_effect_ids j) (ser_effect_id x)"

lemma audit_receipt_bound:
  assumes "receipt_bound cr env j a x" and "receipt_new j x" and "erb_previous_receipt_digest (ser_receipt x) = p"
  shows "audit_receipt cr env (a, x) (p, j) = Inr (Some (erb_receipt_digest (ser_receipt x)), record_receipt x j)"
proof -
  obtain intent prov where "bm_get (vx_intents j) (rea_effect_id a) = Some intent"
    "ei_receipt_provenance (eia_intent intent) = Some prov"
    "verify_receipt_intent_binding (ser_receipt x) (eia_intent intent) prov (rea_disposition a) = Inr ()"
    using assms(1) by (auto simp: receipt_bound_def Let_def)
  then show ?thesis
    using assms by (simp add: audit_receipt_def receipt_bound_def receipt_new_def record_receipt_def Let_def)
qed

section \<open>A chain of receipts\<close>

fun receipts_chained :: "string option \<Rightarrow> stored_execution_receipt list \<Rightarrow> string option \<Rightarrow> bool" where
  "receipts_chained p [] h \<longleftrightarrow> p = h"
| "receipts_chained p (x # xs) h \<longleftrightarrow>
     erb_previous_receipt_digest (ser_receipt x) = p \<and> receipts_chained (Some (erb_receipt_digest (ser_receipt x))) xs h"

lemma receipts_chained_snoc:
  "receipts_chained p (xs @ [x]) h \<longleftrightarrow>
     receipts_chained p xs (erb_previous_receipt_digest (ser_receipt x)) \<and> h = Some (erb_receipt_digest (ser_receipt x))"
  by (induction xs arbitrary: p) auto

definition receipts_distinct :: "stored_execution_receipt list \<Rightarrow> bool" where
  "receipts_distinct xs \<longleftrightarrow> distinct (map (\<lambda>x. erb_receipt_id (ser_receipt x)) xs)
     \<and> distinct (map (\<lambda>x. erb_receipt_digest (ser_receipt x)) xs) \<and> distinct (map ser_effect_id xs)"

lemma receipt_new_record:
  "receipt_new (record_receipt x j) y \<longleftrightarrow> receipt_new j y
     \<and> erb_receipt_id (ser_receipt y) \<noteq> erb_receipt_id (ser_receipt x)
     \<and> erb_receipt_digest (ser_receipt y) \<noteq> erb_receipt_digest (ser_receipt x) \<and> ser_effect_id y \<noteq> ser_effect_id x"
  by (auto simp: receipt_new_def record_receipt_def)

lemma receipt_bound_record [simp]: "receipt_bound cr env (record_receipt x j) a y \<longleftrightarrow> receipt_bound cr env j a y"
  by (simp add: receipt_bound_def record_receipt_def verify_receipt_tool_output_binding_def)

lemma audit_receipt_chain:
  assumes "length as = length xs" and "\<forall>(a, x) \<in> set (zip as xs). receipt_bound cr env j a x" and "receipts_chained p xs h"
    and "receipts_distinct xs" and "\<forall>x \<in> set xs. receipt_new j x"
  shows "try_fold (audit_receipt cr env) (zip as xs) (p, j) = Inr (h, fold record_receipt xs j)"
  using assms
proof (induction as xs arbitrary: p j rule: list_induct2)
  case (Cons a as x xs)
  have "audit_receipt cr env (a, x) (p, j) = Inr (Some (erb_receipt_digest (ser_receipt x)), record_receipt x j)"
    using Cons.prems by (intro audit_receipt_bound) simp_all
  moreover have "\<forall>y \<in> set xs. receipt_new (record_receipt x j) y"
    using Cons.prems(3,4) by (auto simp: receipt_new_record receipts_distinct_def) (metis image_eqI)+
  ultimately show ?case
    using Cons.prems by (simp add: Cons.IH receipts_distinct_def case_prod_beta)
qed simp

section \<open>The invariant\<close>

definition receipts_ok :: "crypto \<Rightarrow> protocol_env \<Rightarrow> memory_run_store \<Rightarrow> bool" where
  "receipts_ok cr env st \<longleftrightarrow>
     length (vx_receipt_events (ms_index st)) = length (ms_receipts st)
     \<and> (\<forall>(a, x) \<in> set (zip (vx_receipt_events (ms_index st)) (ms_receipts st)). receipt_bound cr env (ms_index st) a x)
     \<and> receipts_chained None (ms_receipts st) (vx_receipt_head_digest (ms_index st))
     \<and> receipts_distinct (ms_receipts st)
     \<and> (\<forall>v. bs_contains (vx_receipt_ids (ms_index st)) v \<longleftrightarrow> v \<in> (\<lambda>x. erb_receipt_id (ser_receipt x)) ` set (ms_receipts st))
     \<and> (\<forall>v. bs_contains (vx_receipt_digests (ms_index st)) v \<longleftrightarrow>
          v \<in> (\<lambda>x. erb_receipt_digest (ser_receipt x)) ` set (ms_receipts st))
     \<and> (\<forall>v. bs_contains (vx_receipt_effect_ids (ms_index st)) v \<longleftrightarrow> v \<in> ser_effect_id ` set (ms_receipts st))"

lemma tool_output_binding_persists:
  assumes "commits cr env st c sc an st'" and "journal_ok cr st" and "steps_ok (ms_index st)"
    and "identities_ok (ms_index st)" and "outputs_ok cr st"
    and "verify_receipt_tool_output_binding (ms_index st) e r = Inr ()"
  shows "verify_receipt_tool_output_binding (ms_index st') e r = Inr ()"
proof -
  note F = committed_fields [OF assms(1)]
  from assms(6) obtain i where i: "bm_get (vx_intents (ms_index st)) e = Some i"
    by (auto simp: verify_receipt_tool_output_binding_def result_simps)
  then have i': "bm_get (vx_intents (ms_index st')) e = Some i" using intents_persist [OF assms(1-4)] by simp
  have "bm_get (vx_tool_output_digests (ms_index st')) e = bm_get (vx_tool_output_digests (ms_index st)) e"
  proof (cases "csc_output sc")
    case (Some q)
    obtain intent where q: "bm_get (vx_intents (ms_index st)) (tor_effect_id q) = Some intent"
      "intent_output_profile (eia_intent intent) = Some TOOL_OUTPUT_PROFILE_V1"
      "\<not> bs_contains (vx_tool_output_effect_ids (ms_index st)) (tor_effect_id q)"
      using assms(1,3) Some by (rule commits_output)
    have "bm_get (vx_tool_output_digests (ms_index st)) (tor_effect_id q) = None"
    proof -
      have "\<not> bm_contains_key (ms_outputs st) (tor_effect_id q)"
        using q(3) assms(4,5) by (simp add: identities_ok_def outputs_ok_def)
      then show ?thesis using assms(5) by (auto simp: outputs_ok_def bm_contains_key_def)
    qed
    then have "e \<noteq> tor_effect_id q"
      using assms(6) i q(1,2) by (auto simp: verify_receipt_tool_output_binding_def)
    then show ?thesis by (simp add: F Some)
  qed (simp add: F)
  then show ?thesis using assms(6) i i' by (simp add: verify_receipt_tool_output_binding_def)
qed

lemma receipt_bound_persists:
  assumes "commits cr env st c sc an st'" and "journal_ok cr st" and "steps_ok (ms_index st)"
    and "identities_ok (ms_index st)" and "outputs_ok cr st" and "receipt_bound cr env (ms_index st) a x"
  shows "receipt_bound cr env (ms_index st') a x"
  using assms(6) tool_output_binding_persists [OF assms(1-5)] intents_persist [OF assms(1-4)]
  unfolding receipt_bound_def Let_def by blast

lemma candidate_bound:
  assumes "verify_receipt_candidate env idx rec r = Inr a" and "validate_execution_receipt cr env r = Inr ()"
    and "ser_receipt x = r" and "ser_event_sequence x = rea_event_sequence a" and "ser_effect_id x = rea_effect_id a"
  shows "receipt_bound cr env idx a x" and "receipt_new idx x" and "erb_previous_receipt_digest r = vx_receipt_head_digest idx"
  using assms by (auto simp: verify_receipt_candidate_def receipt_bound_def receipt_new_def Let_def result_simps)

lemma receipts_ok_step:
  assumes "commits cr env st c sc an st'" and "journal_ok cr st" and "steps_ok (ms_index st)"
    and "identities_ok (ms_index st)" and "outputs_ok cr st" and "receipts_ok cr env st"
  shows "receipts_ok cr env st'"
proof -
  note F = committed_fields [OF assms(1)]
  note kept = receipt_bound_persists [OF assms(1-5)]
  have stored: "ms_receipts st' = (case csc_receipt sc of None \<Rightarrow> ms_receipts st
          | Some r \<Rightarrow> ms_receipts st @ [new_receipt (cm_record c) an r])"
    using assms(1) by (simp add: commits_def)
  show ?thesis
  proof (cases "csc_receipt sc")
    case None
    then show ?thesis
      using assms(6) kept commits_no_receipt [OF assms(1)] unfolding receipts_ok_def by (auto simp: F stored)
  next
    case (Some r)
    obtain a where a: "can_receipt an = Some a" "verify_receipt_candidate env (ms_index st) (cm_record c) r = Inr a"
      "validate_execution_receipt cr env r = Inr ()" "rea_event_sequence a = er_sequence (cm_record c)"
      using assms(1) Some by (rule commits_receipt)
    let ?x = "new_receipt (cm_record c) an r"
    have x: "ser_receipt ?x = r" "ser_event_sequence ?x = rea_event_sequence a" "ser_effect_id ?x = rea_effect_id a"
      by (simp_all add: new_receipt_def a)
    note B = candidate_bound [OF a(2,3) x]
    have "receipt_bound cr env (ms_index st') a ?x" using B(1) by (rule kept)
    moreover have "receipts_distinct (ms_receipts st @ [?x])"
      using B(2) assms(6) by (auto simp: receipts_ok_def receipts_distinct_def receipt_new_def)
    ultimately show ?thesis
      using assms(6) kept B(3) unfolding receipts_ok_def
      by (auto simp: F stored Some a(1) receipts_chained_snoc x)
  qed
qed

section \<open>The audit\<close>

definition with_receipts_of :: "verified_run_index \<Rightarrow> verified_run_index \<Rightarrow> verified_run_index" where
  "with_receipts_of i j = j\<lparr>vx_receipt_ids := vx_receipt_ids i, vx_receipt_digests := vx_receipt_digests i,
     vx_receipt_effect_ids := vx_receipt_effect_ids i\<rparr>"

lemma fold_record_receipt_frame: "fold record_receipt xs j = with_receipts_of (fold record_receipt xs j) j"
proof (induction xs arbitrary: j)
  case (Cons x xs)
  have "with_receipts_of i (record_receipt x j) = with_receipts_of i j" for i
    by (simp add: with_receipts_of_def record_receipt_def)
  then show ?case unfolding fold_simps by (rule trans [OF Cons])
qed (simp add: with_receipts_of_def)

lemma fold_record_receipt [simp]:
  "vx_receipt_ids (fold record_receipt xs j) = fold (\<lambda>x. bs_insert (erb_receipt_id (ser_receipt x))) xs (vx_receipt_ids j)"
  "vx_receipt_digests (fold record_receipt xs j) =
     fold (\<lambda>x. bs_insert (erb_receipt_digest (ser_receipt x))) xs (vx_receipt_digests j)"
  "vx_receipt_effect_ids (fold record_receipt xs j) = fold (\<lambda>x. bs_insert (ser_effect_id x)) xs (vx_receipt_effect_ids j)"
  by (induction xs arbitrary: j) (simp_all add: record_receipt_def)

lemma receipt_bound_cong:
  "vx_intents i = vx_intents j \<Longrightarrow> vx_tool_output_digests i = vx_tool_output_digests j \<Longrightarrow>
     receipt_bound cr env i a x \<longleftrightarrow> receipt_bound cr env j a x"
  by (simp add: receipt_bound_def verify_receipt_tool_output_binding_def)

lemma audit_receipts:
  assumes "receipts_ok cr env st" and "vx_intents idx = vx_intents (ms_index st)"
    and "vx_tool_output_digests idx = vx_tool_output_digests (ms_index st)"
    and "vx_receipt_events idx = vx_receipt_events (ms_index st)"
    and "vx_receipt_ids idx = bs_empty" and "vx_receipt_digests idx = bs_empty" and "vx_receipt_effect_ids idx = bs_empty"
  shows "verify_receipt_records cr env idx (ms_receipts st) =
    Inr ((with_receipts_of (ms_index st) idx)\<lparr>vx_receipt_head_digest := vx_receipt_head_digest (ms_index st)\<rparr>)"
proof -
  let ?xs = "ms_receipts st"
  have "try_fold (audit_receipt cr env) (zip (vx_receipt_events idx) ?xs) (None, idx)
      = Inr (vx_receipt_head_digest (ms_index st), fold record_receipt ?xs idx)"
  proof (rule audit_receipt_chain)
    show "\<forall>(a, x) \<in> set (zip (vx_receipt_events idx) ?xs). receipt_bound cr env idx a x"
      using assms(1,4) receipt_bound_cong [OF assms(2,3)] by (auto simp: receipts_ok_def)
    show "\<forall>x \<in> set ?xs. receipt_new idx x" by (simp add: receipt_new_def assms(5-7))
  qed (use assms(1,4) in \<open>simp_all add: receipts_ok_def\<close>)
  moreover have "fold record_receipt ?xs idx = with_receipts_of (ms_index st) idx"
  proof -
    have "fold (\<lambda>x. bs_insert (erb_receipt_id (ser_receipt x))) ?xs bs_empty = vx_receipt_ids (ms_index st)"
      "fold (\<lambda>x. bs_insert (erb_receipt_digest (ser_receipt x))) ?xs bs_empty = vx_receipt_digests (ms_index st)"
      "fold (\<lambda>x. bs_insert (ser_effect_id x)) ?xs bs_empty = vx_receipt_effect_ids (ms_index st)"
      using assms(1) by (intro bs_eqI; simp add: receipts_ok_def)+
    then show ?thesis
      by (subst fold_record_receipt_frame) (simp add: with_receipts_of_def assms(5-7))
  qed
  moreover have "length (vx_receipt_events idx) = length ?xs" using assms(1,4) by (simp add: receipts_ok_def)
  ultimately show ?thesis by (simp add: verify_receipt_records_def)
qed

end
