(* ===== verification/Store_Properties.thy ===== *)
theory Store_Properties
  imports Store_Receipts Sample_Crypto "HOL-Library.Sublist"
begin

text \<open>
  Properties of the in-memory run store: the index kept commit by commit is the audited one, an
  append is an atomic compare-and-append, committed sidecars stay readable, and the planning
  snapshot keeps its output budget.
\<close>

section \<open>The store invariant\<close>

definition store_ok :: "crypto \<Rightarrow> protocol_env \<Rightarrow> memory_run_store \<Rightarrow> bool" where
  "store_ok cr env st \<longleftrightarrow> journal_ok cr st \<and> steps_ok (ms_index st) \<and> identities_ok (ms_index st)
     \<and> inputs_ok cr st \<and> materials_ok cr st \<and> outputs_ok cr st \<and> receipts_ok cr env st \<and> completion_ok cr st"

lemma store_ok_new: "store_ok cr env ms_new"
  by (simp add: store_ok_def journal_ok_def steps_ok_def identities_ok_def inputs_ok_def materials_ok_def outputs_ok_def
      receipts_ok_def completion_ok_def ms_new_def vx_default_def journal_part_def tracks_empty index_steps_def
      receipts_distinct_def verify_completion_output_record_def)

lemma store_ok_commit:
  assumes "commits cr env st c sc an st'" and "store_ok cr env st"
  shows "store_ok cr env st'"
  using assms journal_ok_step [OF assms(1)] steps_ok_step [OF assms(1)] identities_ok_step [OF assms(1)]
    inputs_ok_step [OF assms(1)] materials_ok_step [OF assms(1)] outputs_ok_step [OF assms(1)]
    receipts_ok_step [OF assms(1)] completion_ok_step [OF assms(1)]
  by (simp add: store_ok_def)

lemma store_ok_append:
  assumes "store_ok cr env st" and "ms_appends cr env st h c st'"
  obtains sc an where "h = index_head (ms_index st)" and "commits cr env st c sc an st'" and "store_ok cr env st'"
proof -
  have "intents_keyed (ms_index st)" using assms(1) by (simp add: store_ok_def steps_ok_keyed)
  then obtain sc an where "h = index_head (ms_index st)" "commits cr env st c sc an st'"
    using appends_commit [OF assms(2)] by blast
  then show thesis using that store_ok_commit assms(1) by blast
qed

lemma store_built_ok: "store_built cr env st \<Longrightarrow> store_ok cr env st"
  by (induction rule: store_built.induct) (auto intro: store_ok_new elim: store_ok_append)

section \<open>The contract of a run store\<close>

text \<open>
  What the trait \<open>RunStore\<close> promises of its append operations, for any store with a journal and a
  head: a successful append names the current head, adds one record, and the records are numbered
  from 1. It follows that a head is consumed by the append that names it.
\<close>

locale run_store =
  fixes good :: "'st \<Rightarrow> bool" and appends :: "'st \<Rightarrow> expected_head \<Rightarrow> commit \<Rightarrow> 'st \<Rightarrow> bool"
    and journal :: "'st \<Rightarrow> event_record list" and head :: "'st \<Rightarrow> expected_head"
  assumes keeps: "good st \<Longrightarrow> appends st h c st' \<Longrightarrow> good st'"
    and compares: "good st \<Longrightarrow> appends st h c st' \<Longrightarrow> h = head st"
    and adds: "good st \<Longrightarrow> appends st h c st' \<Longrightarrow> journal st' = journal st @ [cm_record c]"
    and numbered: "good st \<Longrightarrow> head st = (if journal st = [] then HeadEmpty
        else HeadExact (er_sequence (last (journal st))) (er_digest (last (journal st))))
      \<and> (journal st \<noteq> [] \<longrightarrow> unat (er_sequence (last (journal st))) = length (journal st))"
begin

definition later :: "'st \<Rightarrow> 'st \<Rightarrow> bool" where
  "later = (\<lambda>a b. \<exists>h c. appends a h c b)\<^sup>*\<^sup>*"

lemma later_good:
  assumes "later st st'" and "good st"
  shows "good st' \<and> prefix (journal st) (journal st')"
  using assms unfolding later_def
proof (induction rule: rtranclp_induct)
  case (step a b)
  then show ?case using keeps adds by (metis prefix_order.trans prefixI)
qed simp

lemma equal_heads:
  assumes "good a" and "good b" and "head a = head b"
  shows "length (journal a) = length (journal b)"
  using assms(3) numbered [OF assms(1)] numbered [OF assms(2)] by (auto split: if_splits)

lemma head_consumed:
  assumes "good st" and "appends st h c st'" and "later st' st''"
  shows "h = head st" and "prefix (journal st @ [cm_record c]) (journal st'')" and "\<not> appends st'' h c' z"
proof -
  show h: "h = head st" using assms(1,2) by (rule compares)
  have st': "good st'" "journal st' = journal st @ [cm_record c]" using assms(1,2) by (auto intro: keeps adds)
  then show pre: "prefix (journal st @ [cm_record c]) (journal st'')" and "\<not> appends st'' h c' z"
    using later_good [OF assms(3)] equal_heads [OF assms(1), of st''] compares [of st'' h c' z] h
    by (auto dest: prefix_length_le)
qed

end

lemma index_head_numbered:
  assumes "journal_ok cr st"
  shows "index_head (ms_index st) = (if ms_records st = [] then HeadEmpty
      else HeadExact (er_sequence (last (ms_records st))) (er_digest (last (ms_records st))))
    \<and> (ms_records st \<noteq> [] \<longrightarrow> unat (er_sequence (last (ms_records st))) = length (ms_records st))"
proof (cases "vx_state (ms_index st)")
  case None
  then show ?thesis using assms by (simp add: journal_ok_def ms_new_def index_head_def vx_default_def)
next
  case (Some s)
  then have run: "replay cr (ms_records st) = Inr s" using assms by (simp add: journal_ok_def)
  then show ?thesis
    using assms journal_length [OF run] chain.reachable [OF run]
    by (auto simp: journal_ok_def index_head_def chained_def)
qed

interpretation mem: run_store "store_ok cr env" "ms_appends cr env" ms_records "\<lambda>st. index_head (ms_index st)" for cr env
proof unfold_locales
  fix st h c st'
  assume "store_ok cr env st" and "ms_appends cr env st h c st'"
  then obtain sc an where "h = index_head (ms_index st)" "commits cr env st c sc an st'" "store_ok cr env st'"
    by (rule store_ok_append)
  then show "store_ok cr env st'" "h = index_head (ms_index st)" "ms_records st' = ms_records st @ [cm_record c]"
    by (simp_all add: commits_def)
qed (use index_head_numbered in \<open>auto simp: store_ok_def\<close>)

lemma later_built: "mem.later cr env st st' \<Longrightarrow> store_built cr env st \<Longrightarrow> store_built cr env st'"
  unfolding mem.later_def by (induction rule: rtranclp_induct) (auto intro: store_built.appended)

section \<open>The audit from scratch\<close>

lemma ms_load_empty: "ms_load cr env ms_new = Inr None"
  by (simp add: ms_load_def ms_new_def audit_snapshot_def verified_snapshot_def from_snapshot_def
      verify_plan_input_records_def verify_material_records_def verify_tool_output_records_def
      verify_receipt_records_def verify_completion_output_record_def vx_default_def
      bm_keys_def bm_values_def bs_of_list_def)

lemma ms_load_audits:
  assumes "store_ok cr env st" and "vx_state (ms_index st) = Some s"
  shows "ms_load cr env st = Inr (Some \<lparr>rsn_records = ms_records st, rsn_state = s\<rparr>)"
proof -
  let ?i = "ms_index st"
  let ?j = "with_state (Some s) (journal_part ?i)"
  let ?k = "?j\<lparr>vx_plan_input_step_ids := vx_plan_input_step_ids ?i\<rparr>"
  let ?m = "?k\<lparr>vx_material_effect_ids := vx_material_effect_ids ?i\<rparr>"
  let ?n = "with_outputs_of ?i ?m"
  let ?p = "(with_receipts_of ?i ?n)\<lparr>vx_receipt_head_digest := vx_receipt_head_digest ?i\<rparr>"
  have ok: "journal_ok cr st" "identities_ok ?i" "inputs_ok cr st" "materials_ok cr st" "outputs_ok cr st"
    "receipts_ok cr env st" "completion_ok cr st"
    using assms(1) by (simp_all add: store_ok_def)
  have run: "replay cr (ms_records st) = Inr s" "ms_projection st = Some s"
    and idx: "try_fold index_record (ms_records st) vx_default = Inr (journal_part ?i)"
    using ok(1) assms(2) by (simp_all add: journal_ok_def)
  have "ms_records st \<noteq> []" using run(1) by auto
  then have "audit_snapshot cr (ms_records st) (ms_projection st) = Inr (Some \<lparr>rsn_records = ms_records st, rsn_state = s\<rparr>, ?j)"
    using run from_snapshot_rebuilds [OF idx] by (simp add: audit_snapshot_def verified_snapshot_def)
  moreover have "verify_plan_input_records cr ?j (ms_plan_inputs st) = Inr ?k"
    using ok(3) assms(2) by (rule audit_inputs) (simp_all add: with_state_def journal_part_def)
  moreover have "verify_material_records cr ?k (ms_materials st) = Inr ?m"
    using ok(4) assms(2) by (rule audit_materials) (simp_all add: with_state_def journal_part_def)
  moreover have "verify_tool_output_records cr ?m (ms_outputs st) = Inr ?n"
    using ok(5,2) by (rule audit_outputs) (simp_all add: with_state_def journal_part_def)
  moreover have "verify_receipt_records cr env ?n (ms_receipts st) = Inr ?p"
    using ok(6) by (rule audit_receipts) (simp_all add: with_outputs_of_def with_state_def journal_part_def)
  moreover have rebuilt: "?p = ?i"
    using assms(2) by (simp add: with_receipts_of_def with_outputs_of_def with_state_def journal_part_def)
  moreover have "verify_completion_output_record cr ?p (ms_completion_output st) = Inr ()"
    unfolding rebuilt using ok(7) by (simp add: completion_ok_def)
  ultimately show ?thesis by (simp only: ms_load_def and_then_simps prod.case) simp
qed

section \<open>A concrete store\<close>

definition sample_env :: protocol_env where
  "sample_env = \<lparr>pv_validator = \<lambda>_. Inr (\<lambda>_. None), pv_instant = \<lambda>_. Some 0\<rparr>"

definition sample_event :: "string \<Rightarrow> run_event_body \<Rightarrow> run_event" where
  "sample_event n b = \<lparr>re_event_id = n, re_run_id = ''r'', re_authority = ''u'', re_authority_epoch = 1,
     re_recorded_at = ''t'', re_body = b\<rparr>"

definition sample_commit1 :: commit where
  "sample_commit1 = (let r = \<lparr>er_sequence = 1, er_previous_digest = None,
       er_event = sample_event ''e1'' (RunCreated ''g''), er_digest = sample_digest\<rparr> in
     \<lparr>cm_record = r, cm_state = advance_head r (initial_state r ''g'')\<rparr>)"

definition sample_commit2 :: commit where
  "sample_commit2 = (let r = \<lparr>er_sequence = 2, er_previous_digest = Some sample_digest,
       er_event = sample_event ''e2'' (StepPlanned ''a'' ''o'' []), er_digest = sample_digest\<rparr> in
     \<lparr>cm_record = r, cm_state = advance_head r (put_step ''a'' (new_step ''a'' ''o'' [] None) (cm_state sample_commit1))\<rparr>)"

definition sample_store1 :: memory_run_store where
  "sample_store1 = ms_new\<lparr>ms_records := [cm_record sample_commit1], ms_projection := Some (cm_state sample_commit1),
     ms_index := vx_default\<lparr>vx_event_ids := bs_insert ''e1'' bs_empty, vx_state := Some (cm_state sample_commit1),
       vx_last_record := Some (cm_record sample_commit1)\<rparr>\<rparr>"

definition sample_store2 :: memory_run_store where
  "sample_store2 = sample_store1\<lparr>ms_records := [cm_record sample_commit1, cm_record sample_commit2],
     ms_projection := Some (cm_state sample_commit2),
     ms_index := (ms_index sample_store1)\<lparr>vx_event_ids := bs_insert ''e2'' (bs_insert ''e1'' bs_empty),
       vx_step_positions := bm_insert ''a'' \<lparr>sjp_event_sequence = 2, sjp_event_step_index = 0\<rparr> bm_empty,
       vx_state := Some (cm_state sample_commit2), vx_last_record := Some (cm_record sample_commit2)\<rparr>\<rparr>"

lemmas sample_store_defs = ms_append_def verify_commit_sidecars_def verify_plan_input_bundle_def verify_material_bundle_def
  verify_receipt_bundle_def verify_tool_output_bundle_def verify_completion_output_bundle_def sample_event_def
  prepare_commit_def ms_new_def vx_default_def index_head_def event_record_next_def record_digest_def ms_commit_def
  apply_committed_def commit_event_def commit_plan_inputs_def commit_material_def commit_output_def commit_receipt_def
  verify_record_against_state_def verify_digest_def apply_record_def

lemma sample_append1:
  "ms_append sample_crypto sample_env ms_new HeadEmpty (sample_event ''e1'' (RunCreated ''g'')) = Inr (sample_commit1, sample_store1)"
  by (simp add: sample_store_defs sample_commit1_def sample_store1_def Let_def)

lemma sample_append2:
  "ms_append sample_crypto sample_env sample_store1 (HeadExact 1 sample_digest)
     (sample_event ''e2'' (StepPlanned ''a'' ''o'' [])) = Inr (sample_commit2, sample_store2)"
  by (simp add: sample_store_defs sample_commit1_def sample_commit2_def sample_store1_def sample_store2_def Let_def
     checked_add_def apply_body_def plan_step_def put_step_def)

lemma sample_appends:
  "ms_appends sample_crypto sample_env ms_new HeadEmpty sample_commit1 sample_store1"
  "ms_appends sample_crypto sample_env sample_store1 (HeadExact 1 sample_digest) sample_commit2 sample_store2"
  using sample_append1 sample_append2 unfolding ms_appends_def by blast+

lemma sample_built: "store_built sample_crypto sample_env sample_store1" "store_built sample_crypto sample_env sample_store2"
  using sample_appends store_built.empty_store store_built.appended by blast+

text \<open>
  C37. The incremental index of the in-memory store is the index of a full audit. Whatever sequence
  of successful appends (with or without plan inputs, invocation material, tool output, receipt or
  completion output) built the store, \<open>load\<close> re-verifies the whole journal and every sidecar from
  scratch, finds no corruption, rebuilds exactly the incrementally maintained index, and returns
  the journal with the state that replaying it gives, which is also the stored projection.
\<close>

theorem load_audits_incremental_index:
  assumes "store_built cr env st"
  shows "(ms_records st = [] \<and> ms_load cr env st = Inr None) \<or>
    (\<exists>s. replay cr (ms_records st) = Inr s \<and> ms_load_current st = Some s
       \<and> ms_load cr env st = Inr (Some \<lparr>rsn_records = ms_records st, rsn_state = s\<rparr>))"
proof (cases "vx_state (ms_index st)")
  case None
  then have "st = ms_new" using store_built_ok [OF assms] by (simp add: store_ok_def journal_ok_def)
  then show ?thesis using ms_load_empty by (simp add: ms_new_def)
next
  case (Some s)
  then have "replay cr (ms_records st) = Inr s" "ms_projection st = Some s"
    using store_built_ok [OF assms] by (simp_all add: store_ok_def journal_ok_def)
  then show ?thesis using ms_load_audits [OF store_built_ok [OF assms] Some] by (simp add: ms_load_current_def)
qed

theorem load_audits_incremental_index_witness:
  "store_built sample_crypto sample_env sample_store2
     \<and> (\<exists>s. replay sample_crypto (ms_records sample_store2) = Inr s \<and> ms_load_current sample_store2 = Some s
          \<and> ms_load sample_crypto sample_env sample_store2 =
              Inr (Some \<lparr>rsn_records = [cm_record sample_commit1, cm_record sample_commit2], rsn_state = s\<rparr>))"
  using load_audits_incremental_index [OF sample_built(2)] sample_built(2) by (simp add: sample_store2_def)

text \<open>
  C38. An append is an atomic compare-and-append, so no update is lost. A successful append names
  exactly the current head of the store, and adds one record to the journal; every store reached by
  further appends keeps that record in its place, and refuses every append that still names the
  consumed head, whatever operation it uses and whatever event and sidecars it carries.
\<close>

theorem append_consumes_head:
  assumes "store_built cr env st" and "ms_appends cr env st h c st'"
    and "(\<lambda>a b. \<exists>h c. ms_appends cr env a h c b)\<^sup>*\<^sup>* st' st''"
  shows "h = index_head (ms_index st) \<and> prefix (ms_records st @ [cm_record c]) (ms_records st'')
    \<and> \<not> ms_appends cr env st'' h c' z"
  using mem.head_consumed [OF store_built_ok [OF assms(1)] assms(2), unfolded mem.later_def, OF assms(3)] by blast

theorem append_consumes_head_witness:
  "\<not> ms_appends sample_crypto sample_env sample_store2 HeadEmpty sample_commit1 sample_store1
     \<and> prefix [cm_record sample_commit1] (ms_records sample_store2)"
  using append_consumes_head [OF store_built.empty_store sample_appends(1), of sample_store2 sample_commit1 sample_store1]
    sample_appends(2) by (auto simp: ms_new_def)

end
