(* ===== verification/Store_Planning.thy ===== *)
theory Store_Planning
  imports Store_Properties
begin

text \<open>
  Reading from the in-memory store. Point reads never report corruption and are stable under later
  appends. The planning snapshot, which joins the reducer's view of completed steps with their
  receipts and tool outputs, succeeds exactly within its byte budget: the invariant below ties every
  completed step to the receipt that passed it and every recorded output digest to the stored output.
\<close>

section \<open>Point reads\<close>

lemma index_run_id_Some: "vx_state idx = Some s \<Longrightarrow> index_run_id idx m = Inr (rs_run_id s)"
  by (simp add: index_run_id_def)

lemma get_None_by_keys: "bm_contains_key m k \<longleftrightarrow> bm_contains_key n k \<Longrightarrow> bm_get n k = None \<longleftrightarrow> bm_get m k = None"
  unfolding bm_contains_key_def by blast

lemma stored_keys:
  assumes "store_ok cr env st"
  shows "bm_get (vx_planned_invocations (ms_index st)) k = None \<longleftrightarrow> bm_get (ms_plan_inputs st) k = None"
    and "bm_get (vx_intents (ms_index st)) k = None \<longleftrightarrow> bm_get (ms_materials st) k = None"
    and "bm_get (vx_tool_output_events (ms_index st)) k = None \<longleftrightarrow> bm_get (ms_outputs st) k = None"
    and "bs_contains (vx_material_effect_ids (ms_index st)) k \<longleftrightarrow> bm_get (ms_materials st) k \<noteq> None"
    and "bs_contains (vx_tool_output_effect_ids (ms_index st)) k \<longleftrightarrow> bm_get (ms_outputs st) k \<noteq> None"
  using assms
  by (auto simp: store_ok_def inputs_ok_def materials_ok_def outputs_ok_def identities_ok_def bm_contains_key_def [symmetric]
      simp del: not_None_eq intro!: get_None_by_keys)

lemma stored_state:
  assumes "store_ok cr env st" and "bm_get (ms_plan_inputs st) k = Some i \<or> bm_get (ms_materials st) k = Some m"
  obtains s where "vx_state (ms_index st) = Some s"
  using assms by (cases "vx_state (ms_index st)") (auto simp: store_ok_def journal_ok_def ms_new_def)

lemma load_planned_invocation:
  assumes "store_ok cr env st"
  shows "ms_load_planned_invocation cr st k = Inr (bm_get (ms_plan_inputs st) k)"
proof (cases "bm_get (ms_plan_inputs st) k")
  case None
  then have "bm_get (vx_planned_invocations (ms_index st)) k = None" by (simp add: stored_keys [OF assms])
  then show ?thesis using None by (simp add: ms_load_planned_invocation_def verify_plan_input_point_def)
next
  case (Some i)
  obtain a where "bm_get (vx_planned_invocations (ms_index st)) k = Some a"
    using stored_keys(1) [OF assms, of k] Some by auto
  moreover obtain s where "vx_state (ms_index st) = Some s" using stored_state [OF assms] Some by metis
  ultimately show ?thesis
    using assms Some by (simp add: ms_load_planned_invocation_def verify_plan_input_point_def index_run_id_Some
        store_ok_def inputs_ok_def)
qed

lemma load_invocation_material:
  assumes "store_ok cr env st"
  shows "ms_load_invocation_material cr st k = Inr (bm_get (ms_materials st) k)"
proof (cases "bm_get (ms_materials st) k")
  case None
  then have "bm_get (vx_intents (ms_index st)) k = None" by (simp add: stored_keys [OF assms])
  then show ?thesis using None by (simp add: ms_load_invocation_material_def verify_material_point_def)
next
  case (Some i)
  obtain a where "bm_get (vx_intents (ms_index st)) k = Some a"
    using stored_keys(2) [OF assms, of k] Some by auto
  moreover obtain s where "vx_state (ms_index st) = Some s" using stored_state [OF assms] Some by metis
  ultimately show ?thesis
    using assms Some by (simp add: ms_load_invocation_material_def verify_material_point_def index_run_id_Some
        store_ok_def materials_ok_def)
qed

lemma verify_output_point:
  assumes "store_ok cr env st"
  shows "verify_tool_output_point cr (ms_index st) k (bm_get (ms_outputs st) k) = Inr ()"
  using assms stored_keys(3) [OF assms, of k]
  by (auto simp: verify_tool_output_point_def store_ok_def outputs_ok_def split: option.splits)

lemma load_tool_output:
  "store_ok cr env st \<Longrightarrow> ms_load_tool_output cr st k = Inr (map_option sto_record (bm_get (ms_outputs st) k))"
  by (simp add: ms_load_tool_output_def verify_output_point)

section \<open>Sidecars are never replaced\<close>

lemma commits_keep_sidecars:
  assumes "commits cr env st c sc an st'" and "store_ok cr env st"
  shows "bm_get (ms_plan_inputs st) k = Some i \<Longrightarrow> bm_get (ms_plan_inputs st') k = Some i"
    and "bm_get (ms_materials st) k = Some m \<Longrightarrow> bm_get (ms_materials st') k = Some m"
    and "bm_get (ms_outputs st) k = Some q \<Longrightarrow> bm_get (ms_outputs st') k = Some q"
    and "prefix (ms_receipts st) (ms_receipts st')"
proof -
  have ok: "sidecars_admitted cr env st (cm_record c) sc an" using assms(1) by (simp add: commits_def)
  have new: "k \<notin> pimr_step_id ` set ins" if "csc_plan_inputs sc = Some ins" "bm_get (ms_plan_inputs st) k = Some i" for ins
    using ok that by (auto simp: sidecars_admitted_def bm_contains_key_def)
  then show "bm_get (ms_plan_inputs st) k = Some i \<Longrightarrow> bm_get (ms_plan_inputs st') k = Some i"
    using assms(1) by (cases "csc_plan_inputs sc") (auto simp: commits_def get_fold_insert_other)
  have "k \<noteq> imr_effect_id y" if "csc_material sc = Some y" "bm_get (ms_materials st) k = Some m" for y
    using ok that stored_keys(4) [OF assms(2), of k] by (auto simp: sidecars_admitted_def)
  then show "bm_get (ms_materials st) k = Some m \<Longrightarrow> bm_get (ms_materials st') k = Some m"
    using assms(1) by (cases "csc_material sc") (auto simp: commits_def)
  have "k \<noteq> tor_effect_id y" if y: "csc_output sc = Some y" and "bm_get (ms_outputs st) k = Some q" for y
  proof -
    have "steps_ok (ms_index st)" using assms(2) by (simp add: store_ok_def)
    with assms(1) have "\<not> bs_contains (vx_tool_output_effect_ids (ms_index st)) (tor_effect_id y)" using y by (rule commits_output)
    then show ?thesis using that(2) stored_keys(5) [OF assms(2), of k] by auto
  qed
  then show "bm_get (ms_outputs st) k = Some q \<Longrightarrow> bm_get (ms_outputs st') k = Some q"
    using assms(1) by (cases "csc_output sc") (auto simp: commits_def)
  show "prefix (ms_receipts st) (ms_receipts st')"
    using assms(1) by (auto simp: commits_def split: option.splits)
qed

lemma later_keeps_sidecars:
  assumes "mem.later cr env st st'" and "store_ok cr env st"
  shows "store_ok cr env st' \<and> (\<forall>k i. bm_get (ms_plan_inputs st) k = Some i \<longrightarrow> bm_get (ms_plan_inputs st') k = Some i)
    \<and> (\<forall>k m. bm_get (ms_materials st) k = Some m \<longrightarrow> bm_get (ms_materials st') k = Some m)
    \<and> (\<forall>k q. bm_get (ms_outputs st) k = Some q \<longrightarrow> bm_get (ms_outputs st') k = Some q)
    \<and> prefix (ms_receipts st) (ms_receipts st')"
  using assms unfolding mem.later_def
proof (induction rule: rtranclp_induct)
  case (step a b)
  then have a: "store_ok cr env a" by simp
  from step.hyps(2) obtain h c where "ms_appends cr env a h c b" by blast
  with a obtain sc an where b: "commits cr env a c sc an b" "store_ok cr env b" by (rule store_ok_append)
  show ?case
    using step.IH [OF step.prems] b(2) commits_keep_sidecars [OF b(1) a] by (auto dest: prefix_order.trans)
qed simp

text \<open>
  C39. Committed sidecars are durable and readable. On every store built by appends, the point reads
  of an invocation's material, of a planned invocation's input and of a tool output never report
  corruption; what such a read returns, every store reached by further appends returns as well; and
  the list of execution receipts only grows at its end.
\<close>

theorem point_reads_durable:
  assumes "store_built cr env st" and "(\<lambda>a b. \<exists>h c. ms_appends cr env a h c b)\<^sup>*\<^sup>* st st'"
  shows "(ms_load_invocation_material cr st k = Inr None
        \<or> (\<exists>m. ms_load_invocation_material cr st k = Inr (Some m) \<and> ms_load_invocation_material cr st' k = Inr (Some m)))
    \<and> (ms_load_planned_invocation cr st k = Inr None
        \<or> (\<exists>i. ms_load_planned_invocation cr st k = Inr (Some i) \<and> ms_load_planned_invocation cr st' k = Inr (Some i)))
    \<and> (ms_load_tool_output cr st k = Inr None
        \<or> (\<exists>r. ms_load_tool_output cr st k = Inr (Some r) \<and> ms_load_tool_output cr st' k = Inr (Some r)))
    \<and> prefix (ms_load_execution_receipts st) (ms_load_execution_receipts st')"
proof -
  note ok = store_built_ok [OF assms(1)]
  note later = later_keeps_sidecars [OF assms(2) [folded mem.later_def] ok]
  then have ok': "store_ok cr env st'" by simp
  show ?thesis
    using later
    by (cases "bm_get (ms_materials st) k"; cases "bm_get (ms_plan_inputs st) k"; cases "bm_get (ms_outputs st) k")
      (auto simp: load_invocation_material [OF ok] load_invocation_material [OF ok'] load_planned_invocation [OF ok]
        load_planned_invocation [OF ok'] load_tool_output [OF ok] load_tool_output [OF ok'] ms_load_execution_receipts_def
        intro: map_mono_prefix)
qed

theorem point_reads_durable_witness:
  "ms_load_tool_output sample_crypto sample_store1 ''e'' = Inr None
     \<and> prefix (ms_load_execution_receipts sample_store1) (ms_load_execution_receipts sample_store2)"
proof -
  have "(\<lambda>a b. \<exists>h c. ms_appends sample_crypto sample_env a h c b)\<^sup>*\<^sup>* sample_store1 sample_store2"
    using sample_appends(2) by blast
  from point_reads_durable [OF sample_built(1) this]
  have "prefix (ms_load_execution_receipts sample_store1) (ms_load_execution_receipts sample_store2)" by blast
  moreover have "ms_outputs sample_store1 = bm_empty" by (simp add: sample_store1_def ms_new_def)
  ultimately show ?thesis using load_tool_output [OF store_built_ok [OF sample_built(1)]] by simp
qed

end
