(* ===== verification/Store_Snapshots.thy ===== *)
theory Store_Snapshots
  imports Store_Planning
begin

text \<open>
  The planning snapshot joins three views of a run: the reducer's completed steps, the receipts that
  passed them and the tool outputs they recorded. The invariant of this theory ties the three
  together along every sequence of appends, so that building the snapshot cannot find them in
  disagreement.
\<close>

section \<open>Steps, receipts and outputs agree\<close>

definition output_recorded :: "memory_run_store \<Rightarrow> string \<Rightarrow> step_state \<Rightarrow> bool" where
  "output_recorded st v x \<longleftrightarrow> (\<forall>d. ss_output_record_digest x = Some d \<longrightarrow>
     (\<exists>i q. ss_intent x = Some i \<and> bm_get (ms_outputs st) (ei_effect_id i) = Some q
        \<and> tor_record_digest (sto_record q) = d \<and> tor_step_id (sto_record q) = v))"

definition verdict_recorded :: "verified_run_index \<Rightarrow> string \<Rightarrow> step_state \<Rightarrow> bool" where
  "verdict_recorded idx v x \<longleftrightarrow> (ss_status x = Completed \<longrightarrow>
     (\<exists>i k a. ss_intent x = Some i \<and> bm_get (vx_receipt_event_positions idx) (ei_effect_id i) = Some k
        \<and> k < length (vx_receipt_events idx) \<and> vx_receipt_events idx ! k = a
        \<and> rea_step_id a = v \<and> rea_disposition a = VerdictPassed
        \<and> ss_execution_receipt_id x = Some (rea_receipt_id a) \<and> ss_execution_receipt_digest x = Some (rea_receipt_digest a)))"

definition passed_receipts :: "verified_run_index \<Rightarrow> receipt_event_anchor list" where
  "passed_receipts idx = filter (\<lambda>a. rea_disposition a = VerdictPassed) (vx_receipt_events idx)"

definition snapshots_ok :: "memory_run_store \<Rightarrow> bool" where
  "snapshots_ok st \<longleftrightarrow>
     (\<forall>v x. bm_get (index_steps (ms_index st)) v = Some x \<longrightarrow> output_recorded st v x \<and> verdict_recorded (ms_index st) v x)
     \<and> distinct (map rea_step_id (passed_receipts (ms_index st)))
     \<and> (\<forall>a \<in> set (passed_receipts (ms_index st)). \<exists>x. bm_get (index_steps (ms_index st)) (rea_step_id a) = Some x
          \<and> ss_status x = Completed)"

lemma commits_success:
  assumes "commits cr env st c sc an st'" and "store_ok cr env st"
    and "body_of (cm_record c) = EffectSucceeded v e ev (Some d)"
  obtains q where "bm_get (ms_outputs st') e = Some q" and "tor_record_digest (sto_record q) = d"
    and "tor_step_id (sto_record q) = v"
proof -
  have ok: "sidecars_admitted cr env st (cm_record c) sc an" and steps: "steps_ok (ms_index st)"
    using assms(1,2) by (simp_all add: commits_def store_ok_def)
  obtain r where r: "csc_output sc = Some r"
    using admitted_kinds(1) [OF ok] ok assms(3) by (auto simp: sidecars_admitted_def split: option.splits)
  obtain a and i :: effect_intent_anchor where a: "tool_output_anchor_for (ms_index st) (cm_record c) = Inr a" "toa_effect_id a = tor_effect_id r"
    "tool_output_verify_for cr r (toa_run_id a) (toa_step_id a) (eia_intent i) (toa_execution_attempt a)
      (toa_evidence_digest a) = Inr ()" "tor_record_digest r = toa_record_digest a"
    using assms(1) steps r by (rule commits_output)
  have "toa_step_id a = v" "toa_effect_id a = e" "toa_record_digest a = d"
    using a(1) assms(3) by (auto simp: tool_output_anchor_for_def result_simps)
  moreover have "tor_step_id r = toa_step_id a"
    using a(3) by (auto simp: tool_output_verify_for_def result_simps)
  ultimately show thesis
    using that [of "\<lparr>sto_event_sequence = er_sequence (cm_record c), sto_record = r\<rparr>"] a(2,4) assms(1) r
    by (simp add: commits_def)
qed

lemma commits_verdict:
  assumes "commits cr env st c sc an st'" and "body_of (cm_record c) = VerificationRecorded v e d i g"
  obtains a where "can_receipt an = Some a" and "rea_step_id a = v" and "rea_effect_id a = e" and "rea_disposition a = d"
    and "rea_receipt_id a = i" and "rea_receipt_digest a = g"
proof -
  have ok: "sidecars_admitted cr env st (cm_record c) sc an" using assms(1) by (simp add: commits_def)
  obtain a r where a: "can_receipt an = Some a" "verify_receipt_candidate env (ms_index st) (cm_record c) r = Inr a"
    using admitted_kinds(3) [OF ok] ok assms(2) by (auto simp: sidecars_admitted_def split: option.splits)
  have "receipt_anchor_for (ms_index st) (cm_record c) = Inr a"
    using a(2) by (auto simp: verify_receipt_candidate_def result_simps)
  then show thesis using that a(1) assms(2) by (auto simp: receipt_anchor_for_def result_simps)
qed

lemma commits_no_legacy:
  "commits cr env st c sc an st' \<Longrightarrow> body_of (cm_record c) \<noteq> VerificationPassed v"
  by (cases "csc_receipt sc") (auto simp: commits_def sidecars_admitted_def verify_commit_sidecars_def verify_receipt_bundle_def
      result_simps)

lemma commits_move:
  assumes "commits cr env st c sc an st'" and "store_ok cr env st" and "bm_get (index_steps (ms_index st')) v = Some y"
  obtains (same) "bm_get (index_steps (ms_index st)) v = Some y" and "\<not> targets (body_of (cm_record c)) v"
  | (new) obj deps p where "y = new_step v obj deps p"
  | (intent) x i where "bm_get (index_steps (ms_index st)) v = Some x" and "ss_status x = Planned" and "ss_intent x = None"
      and "y = x\<lparr>ss_status := IntentCommitted, ss_intent := Some i\<rparr>"
  | (life) x where "bm_get (index_steps (ms_index st)) v = Some x" and "lifecycle v (body_of (cm_record c)) x y"
proof -
  have j: "journal_ok cr st" using assms(2) by (simp add: store_ok_def)
  from assms(1) j show thesis
  proof (cases rule: commits_cases)
    case (extended s s')
    have "step_move cr s (body_of (cm_record c)) v (bm_get (rs_steps s) v) (bm_get (rs_steps s') v)"
      using extended(4) by (rule apply_body_step_move)
    then show thesis
      using assms(3) planned.reachable [OF extended(2)] unfolding extended(7)
      by (cases rule: step_move.cases) (auto simp: extended(6) intro: same new intent life)
  qed (use assms(3) in simp)
qed

lemma output_recorded_step:
  assumes "commits cr env st c sc an st'" and "store_ok cr env st" and "snapshots_ok st"
    and "bm_get (index_steps (ms_index st')) v = Some y"
  shows "output_recorded st' v y"
proof -
  have kept: "output_recorded st' v x" if "bm_get (index_steps (ms_index st)) v = Some x" for x
    using assms(3) that commits_keep_sidecars(3) [OF assms(1,2)] unfolding snapshots_ok_def output_recorded_def by blast
  from assms(1,2,4) show ?thesis
  proof (cases rule: commits_move)
    case (life x)
    have x: "output_recorded st' v x" using life(1) by (rule kept)
    from life(2) show ?thesis
    proof (cases rule: lifecycle.cases)
      case (effect_succeeded e out ev)
      show ?thesis
      proof (cases out)
        case (Some d)
        with effect_succeeded(1) have "body_of (cm_record c) = EffectSucceeded v e ev (Some d)" by simp
        with assms(1,2) obtain q where "bm_get (ms_outputs st') e = Some q" "tor_record_digest (sto_record q) = d"
          "tor_step_id (sto_record q) = v" by (rule commits_success)
        then show ?thesis using effect_succeeded Some by (auto simp: output_recorded_def holds_effect_def)
      qed (use effect_succeeded in \<open>simp add: output_recorded_def\<close>)
    qed (use x in \<open>simp_all add: output_recorded_def\<close>)
  next
    case (intent x i)
    then show ?thesis using kept [of x] by (auto simp: output_recorded_def)
  qed (use kept in \<open>auto simp: output_recorded_def new_step_def\<close>)
qed

lemma receipts_only_grow:
  assumes "commits cr env st c sc an st'" and "store_ok cr env st" and "verdict_recorded (ms_index st) v x"
  shows "verdict_recorded (ms_index st') v x"
proof (cases "can_receipt an")
  case (Some a)
  note F = committed_fields [OF assms(1)]
  have ok: "journal_ok cr st" "steps_ok (ms_index st)" "identities_ok (ms_index st)"
    and adm: "sidecars_admitted cr env st (cm_record c) sc an" using assms(1,2) by (simp_all add: store_ok_def commits_def)
  obtain u e d i g where b: "body_of (cm_record c) = VerificationRecorded u e d i g"
    using admitted_kinds(3) [OF adm] Some by auto
  have "rea_effect_id a = e" using assms(1) b Some by (auto elim: commits_verdict)
  then have "\<not> bm_contains_key (vx_receipt_event_positions (ms_index st)) (rea_effect_id a)"
    using commits_fresh [OF assms(1) ok] by (simp add: b fresh_event_def)
  then show ?thesis
    using assms(3) unfolding verdict_recorded_def by (auto simp: F Some nth_append bm_contains_key_def)
qed (use assms(3) committed_fields [OF assms(1)] in \<open>simp add: verdict_recorded_def\<close>)

lemma verdict_recorded_step:
  assumes "commits cr env st c sc an st'" and "store_ok cr env st" and "snapshots_ok st"
    and "bm_get (index_steps (ms_index st')) v = Some y"
  shows "verdict_recorded (ms_index st') v y"
proof -
  have kept: "verdict_recorded (ms_index st') v x" if "bm_get (index_steps (ms_index st)) v = Some x" for x
    using assms(3) that receipts_only_grow [OF assms(1,2)] by (simp add: snapshots_ok_def)
  from assms(1,2,4) show ?thesis
  proof (cases rule: commits_move)
    case (life x)
    from life(2) show ?thesis
    proof (cases rule: lifecycle.cases)
      case (verification_recorded e d i g)
      from assms(1) verification_recorded(1) obtain a where "can_receipt an = Some a" "rea_step_id a = v" "rea_effect_id a = e"
        "rea_disposition a = d" "rea_receipt_id a = i" "rea_receipt_digest a = g" by (rule commits_verdict)
      then show ?thesis
        using verification_recorded committed_fields [OF assms(1)]
        by (auto simp: verdict_recorded_def holds_effect_def split: verification_disposition.splits)
    qed (use life commits_no_legacy [OF assms(1)] in \<open>auto simp: verdict_recorded_def split: reconciliation_resolution.splits\<close>)
  qed (use kept in \<open>auto simp: verdict_recorded_def new_step_def\<close>)
qed

lemma completed_stays:
  assumes "commits cr env st c sc an st'" and "store_ok cr env st"
    and "bm_get (index_steps (ms_index st)) v = Some x" and "ss_status x = Completed"
  shows "\<exists>y. bm_get (index_steps (ms_index st')) v = Some y \<and> ss_status y = Completed"
proof -
  have "journal_ok cr st" using assms(2) by (simp add: store_ok_def)
  with assms(1) show ?thesis
  proof (cases rule: commits_cases)
    case (extended s s')
    have "run_extends s (advance_head (cm_record c) s')" using persist.extended extended(2,4) by blast
    then show ?thesis
      using extended(6,7) assms(3,4) by (fastforce simp: run_extends_def step_extends_def terminal_status_def)
  qed (use assms(3) in simp)
qed

lemma verdict_step:
  assumes "commits cr env st c sc an st'" and "store_ok cr env st" and "can_receipt an = Some a"
    and "rea_disposition a = VerdictPassed"
  obtains x y where "bm_get (index_steps (ms_index st)) (rea_step_id a) = Some x" and "ss_status x = Validating"
    and "bm_get (index_steps (ms_index st')) (rea_step_id a) = Some y" and "ss_status y = Completed"
proof -
  have adm: "sidecars_admitted cr env st (cm_record c) sc an" and j: "journal_ok cr st"
    using assms(1,2) by (simp_all add: commits_def store_ok_def)
  obtain v e d i g where b: "body_of (cm_record c) = VerificationRecorded v e d i g"
    using admitted_kinds(3) [OF adm] assms(3) by auto
  have a: "rea_step_id a = v" "d = VerdictPassed" using assms(1,3,4) b by (auto elim: commits_verdict)
  from assms(1) j show thesis
  proof (cases rule: commits_cases)
    case (extended s s')
    have "apply_body cr s (VerificationRecorded v e d i g) = Inr s'" using extended(4) by (simp add: b)
    then show thesis
      by (cases rule: apply_body_cases) (use extended(6,7) a that in \<open>auto simp: lifecycle_simps\<close>)
  qed (simp add: b)
qed

lemma passed_receipts_step:
  assumes "commits cr env st c sc an st'"
  shows "passed_receipts (ms_index st') = passed_receipts (ms_index st)
    @ (case can_receipt an of None \<Rightarrow> [] | Some a \<Rightarrow> if rea_disposition a = VerdictPassed then [a] else [])"
  using committed_fields [OF assms] by (simp add: passed_receipts_def split: option.splits)

lemma snapshots_ok_step:
  assumes "commits cr env st c sc an st'" and "store_ok cr env st" and "snapshots_ok st"
  shows "snapshots_ok st'"
proof -
  have kept: "\<exists>y. bm_get (index_steps (ms_index st')) (rea_step_id a) = Some y \<and> ss_status y = Completed"
    if "a \<in> set (passed_receipts (ms_index st))" for a
    using assms(3) that completed_stays [OF assms(1,2)] unfolding snapshots_ok_def by blast
  have "distinct (map rea_step_id (passed_receipts (ms_index st'))) \<and>
    (\<forall>a \<in> set (passed_receipts (ms_index st')). \<exists>y. bm_get (index_steps (ms_index st')) (rea_step_id a) = Some y
      \<and> ss_status y = Completed)"
  proof (cases "\<exists>a. can_receipt an = Some a \<and> rea_disposition a = VerdictPassed")
    case True
    then obtain a where a: "can_receipt an = Some a" "rea_disposition a = VerdictPassed" by blast
    with assms(1,2) obtain x y where x: "bm_get (index_steps (ms_index st)) (rea_step_id a) = Some x" "ss_status x = Validating"
      and y: "bm_get (index_steps (ms_index st')) (rea_step_id a) = Some y" "ss_status y = Completed" by (rule verdict_step)
    have "rea_step_id a \<notin> rea_step_id ` set (passed_receipts (ms_index st))"
      using assms(3) x by (force simp: snapshots_ok_def)
    then show ?thesis
      using assms(3) kept y a by (auto simp: passed_receipts_step [OF assms(1)] snapshots_ok_def)
  next
    case False
    then have "passed_receipts (ms_index st') = passed_receipts (ms_index st)"
      by (auto simp: passed_receipts_step [OF assms(1)] split: option.splits)
    then show ?thesis using assms(3) kept by (simp add: snapshots_ok_def)
  qed
  then show ?thesis
    using output_recorded_step [OF assms] verdict_recorded_step [OF assms] by (simp add: snapshots_ok_def)
qed

lemma store_built_snapshots: "store_built cr env st \<Longrightarrow> snapshots_ok st"
proof (induction rule: store_built.induct)
  case empty_store
  show ?case by (simp add: snapshots_ok_def ms_new_def index_steps_def vx_default_def passed_receipts_def)
next
  case (appended st h c st')
  have ok: "store_ok cr env st" using appended(1) by (rule store_built_ok)
  then obtain sc an where "commits cr env st c sc an st'" using appended(2) by (rule store_ok_append)
  then show ?case using ok appended(3) by (rule snapshots_ok_step)
qed

end
