(* ===== verification/Store_Snapshot_Properties.thy ===== *)
theory Store_Snapshot_Properties
  imports Store_Snapshots
begin

text \<open>
  The planning snapshot of a store built by appends: which outputs it holds, in which order, and
  that the byte budget is the only reason for which it is refused.
\<close>

section \<open>Specification\<close>

definition output_bound :: "step_state \<Rightarrow> bool" where
  "output_bound x \<longleftrightarrow> ss_status x = Completed \<and> ss_output_record_digest x \<noteq> None"

definition planning_output :: "memory_run_store \<Rightarrow> step_state \<Rightarrow> tool_output_record option" where
  "planning_output st x = (if output_bound x
     then map_option sto_record (Option.bind (ss_intent x) (\<lambda>i. bm_get (ms_outputs st) (ei_effect_id i))) else None)"

definition output_bytes :: "memory_run_store \<Rightarrow> step_state \<Rightarrow> nat" where
  "output_bytes st x = (case planning_output st x of None \<Rightarrow> 0 | Some r \<Rightarrow> unat (tor_canonical_size_bytes r))"

definition selection_of :: "string \<times> step_state \<Rightarrow> selection" where
  "selection_of e = (fst e, ei_effect_id (the (ss_intent (snd e))), the (ss_output_record_digest (snd e)))"

section \<open>One completed step\<close>

definition joined :: "memory_run_store \<Rightarrow> string \<times> step_state \<Rightarrow> bool" where
  "joined st e \<longleftrightarrow> output_recorded st (fst e) (snd e) \<and> verdict_recorded (ms_index st) (fst e) (snd e)"

lemma joined_output:
  assumes "joined st (v, x)" and "output_bound x"
  obtains i q d where "ss_intent x = Some i" and "ss_output_record_digest x = Some d"
    and "bm_get (ms_outputs st) (ei_effect_id i) = Some q" and "planning_output st x = Some (sto_record q)"
    and "tor_record_digest (sto_record q) = d" and "tor_step_id (sto_record q) = v"
  using assms by (auto simp: joined_def output_recorded_def output_bound_def planning_output_def)

lemma select_output_bound:
  assumes "store_ok cr env st" and "joined st (v, x)" and "output_bound x" and "unat b \<le> unat m"
  shows "select_output (ms_index st) m (v, x) (b, sel) =
    (if unat b + output_bytes st x \<le> unat m
     then Inr (b + of_nat (output_bytes st x), sel @ [selection_of (v, x)])
     else Inl SE_PlanningSnapshotBudgetExceeded)"
proof -
  obtain i q d where i: "ss_intent x = Some i" and d: "ss_output_record_digest x = Some d"
    and q: "bm_get (ms_outputs st) (ei_effect_id i) = Some q" "planning_output st x = Some (sto_record q)"
    using assms(2,3) by (rule joined_output)
  have size: "bm_get (vx_tool_output_sizes (ms_index st)) (ei_effect_id i) = Some (tor_canonical_size_bytes (sto_record q))"
    using assms(1) q(1) by (simp add: store_ok_def outputs_ok_def)
  obtain k where k: "bm_get (vx_receipt_event_positions (ms_index st)) (ei_effect_id i) = Some k"
    "k < length (vx_receipt_events (ms_index st))" "rea_step_id (vx_receipt_events (ms_index st) ! k) = v"
    "rea_disposition (vx_receipt_events (ms_index st) ! k) = VerdictPassed"
    "ss_execution_receipt_id x = Some (rea_receipt_id (vx_receipt_events (ms_index st) ! k))"
    "ss_execution_receipt_digest x = Some (rea_receipt_digest (vx_receipt_events (ms_index st) ! k))"
    using assms(2,3) i by (auto simp: joined_def verdict_recorded_def output_bound_def)
  have known: "bs_contains (vx_receipt_effect_ids (ms_index st)) (ei_effect_id i)"
    using assms(1) k(1) by (simp add: store_ok_def identities_ok_def bm_contains_key_def)
  let ?n = "tor_canonical_size_bytes (sto_record q)"
  have bytes: "output_bytes st x = unat ?n" by (simp add: output_bytes_def q(2))
  have "select_output (ms_index st) m (v, x) (b, sel) =
      and_then (ok_or SE_PlanningSnapshotBudgetExceeded (checked_add b ?n)) (\<lambda>t.
      and_then (reject_if (t > m) SE_PlanningSnapshotBudgetExceeded) (\<lambda>_.
      Inr (t, sel @ [selection_of (v, x)])))"
    using assms(3) by (simp add: select_output_def output_bound_def i d k known size selection_of_def)
  also have "\<dots> = (if unat b + unat ?n \<le> unat m then Inr (b + ?n, sel @ [selection_of (v, x)])
      else Inl SE_PlanningSnapshotBudgetExceeded)"
  proof (cases "checked_add b ?n")
    case None
    then have "2 ^ LENGTH(64) \<le> unat b + unat ?n" by (simp only: checked_add_None_iff)
    moreover have "unat m < 2 ^ LENGTH(64)" by (rule unsigned_less)
    ultimately show ?thesis using None by simp
  next
    case (Some t)
    then have "unat t = unat b + unat ?n" by (simp add: checked_add_Some_iff)
    moreover from Some have "t = b + ?n" by (simp add: checked_add_def split: if_splits)
    ultimately show ?thesis using Some by (auto simp: word_less_nat_alt)
  qed
  finally show ?thesis by (simp add: bytes)
qed

lemma select_outputs:
  assumes "store_ok cr env st" and "\<forall>e \<in> set xs. joined st e" and "unat b \<le> unat m"
  shows "try_fold (select_output (ms_index st) m) xs (b, sel) =
    (if unat b + (\<Sum>e\<leftarrow>xs. output_bytes st (snd e)) \<le> unat m
     then Inr (b + of_nat (\<Sum>e\<leftarrow>xs. output_bytes st (snd e)), sel @ map selection_of (filter (\<lambda>e. output_bound (snd e)) xs))
     else Inl SE_PlanningSnapshotBudgetExceeded)"
  using assms(2,3)
proof (induction xs arbitrary: b sel)
  case (Cons e xs)
  obtain v x where e: "e = (v, x)" by (cases e)
  show ?case
  proof (cases "output_bound x")
    case False
    then have "select_output (ms_index st) m e (b, sel) = Inr (b, sel)" "output_bytes st x = 0"
      by (auto simp: e select_output_def output_bound_def output_bytes_def planning_output_def)
    then show ?thesis using Cons False by (simp add: e)
  next
    case True
    let ?n = "output_bytes st x"
    have one: "select_output (ms_index st) m e (b, sel) = (if unat b + ?n \<le> unat m
        then Inr (b + of_nat ?n, sel @ [selection_of e]) else Inl SE_PlanningSnapshotBudgetExceeded)"
      using select_output_bound [OF assms(1), of v x b m sel] Cons.prems True by (simp add: e)
    show ?thesis
    proof (cases "unat b + ?n \<le> unat m")
      case fits: True
      moreover have "unat m < 2 ^ LENGTH(64)" by (rule unsigned_less)
      ultimately have "unat (b + of_nat ?n) = unat b + ?n" by (simp add: unat_word_ariths unat_of_nat)
      then show ?thesis using Cons one fits True by (simp add: e add.assoc)
    qed (use one in \<open>simp add: e\<close>)
  qed
qed simp

section \<open>The outputs\<close>

lemma load_selection_bound:
  assumes "store_ok cr env st" and "joined st (v, x)" and "output_bound x" and "\<not> bm_contains_key m v"
  shows "load_selection cr (ms_index st) (\<lambda>e. Inr (bm_get (ms_outputs st) e)) (selection_of (v, x)) m
    = Inr (bm_insert v (the (planning_output st x)) m)"
proof -
  obtain i q d where i: "ss_intent x = Some i" and d: "ss_output_record_digest x = Some d"
    and q: "bm_get (ms_outputs st) (ei_effect_id i) = Some q" "planning_output st x = Some (sto_record q)"
    "tor_record_digest (sto_record q) = d" "tor_step_id (sto_record q) = v"
    using assms(2,3) by (rule joined_output)
  have "bm_get (vx_tool_output_digests (ms_index st)) (ei_effect_id i) = Some (tor_output_digest (sto_record q))"
    using assms(1) q(1) by (simp add: store_ok_def outputs_ok_def)
  moreover have "verify_tool_output_point cr (ms_index st) (ei_effect_id i) (Some q) = Inr ()"
    using verify_output_point [OF assms(1), of "ei_effect_id i"] q(1) by simp
  ultimately show ?thesis
    using assms(4) by (simp add: load_selection_def selection_of_def i d q)
qed

lemma load_selections:
  assumes "store_ok cr env st" and "\<forall>e \<in> set xs. joined st e \<and> output_bound (snd e)" and "distinct (map fst xs)"
    and "\<forall>e \<in> set xs. \<not> bm_contains_key m (fst e)"
  shows "try_fold (load_selection cr (ms_index st) (\<lambda>e. Inr (bm_get (ms_outputs st) e))) (map selection_of xs) m
    = Inr (fold (\<lambda>e. bm_insert (fst e) (the (planning_output st (snd e)))) xs m)"
  using assms(2-4)
proof (induction xs arbitrary: m)
  case (Cons e xs)
  obtain v x where e: "e = (v, x)" by (cases e)
  have "load_selection cr (ms_index st) (\<lambda>e. Inr (bm_get (ms_outputs st) e)) (selection_of e) m
      = Inr (bm_insert v (the (planning_output st x)) m)"
    using load_selection_bound [OF assms(1), of v x m] Cons.prems by (simp add: e)
  moreover have "\<forall>y \<in> set xs. \<not> bm_contains_key (bm_insert v (the (planning_output st x)) m) (fst y)"
    using Cons.prems(2,3) by (force simp: e)
  ultimately show ?case using Cons by (simp add: e)
qed simp

section \<open>The orders\<close>

lemma order_receipts:
  assumes "distinct (map rea_step_id as)" and "\<forall>a \<in> set as. \<not> bs_contains seen (rea_step_id a)"
  shows "try_fold order_receipt as (done', seen)
    = Inr (done' @ map rea_step_id as, fold (\<lambda>a. bs_insert (rea_step_id a)) as seen)"
  using assms
proof (induction as arbitrary: done' seen)
  case (Cons a as)
  have "\<forall>b \<in> set as. \<not> bs_contains (bs_insert (rea_step_id a) seen) (rea_step_id b)"
    using Cons.prems by (auto simp: image_iff)
  then show ?case using Cons by (simp add: order_receipt_def)
qed simp

lemma completed_order:
  assumes "distinct (map rea_step_id (passed_receipts idx))"
    and "\<forall>v. bs_contains expected v \<longrightarrow> v \<in> rea_step_id ` set (passed_receipts idx)"
  shows "\<exists>order. completed_tool_output_order idx expected = Inr order \<and> distinct order
    \<and> (\<forall>v. v \<in> set order \<longleftrightarrow> bs_contains expected v)"
proof -
  let ?as = "sort_key (\<lambda>a. (rea_event_sequence a, rea_step_id a)) (filter (\<lambda>a. bs_contains expected (rea_step_id a)) (passed_receipts idx))"
  have set: "v \<in> rea_step_id ` set ?as \<longleftrightarrow> bs_contains expected v" for v
    using assms(2) by auto
  have dist: "distinct (map rea_step_id ?as)"
    using assms(1) by (simp add: distinct_map_filter)
  have "filter (\<lambda>a. rea_disposition a = VerdictPassed \<and> bs_contains expected (rea_step_id a)) (vx_receipt_events idx)
      = filter (\<lambda>a. bs_contains expected (rea_step_id a)) (passed_receipts idx)"
    by (simp add: passed_receipts_def conj_commute)
  moreover have "fold (\<lambda>a. bs_insert (rea_step_id a)) ?as bs_empty = expected"
    using set by (intro bs_eqI) (simp only: contains_fold_bs_insert, simp)
  ultimately have "completed_tool_output_order idx expected = Inr (map rea_step_id ?as)"
    using order_receipts [OF dist, of bs_empty "[]"] by (simp add: completed_tool_output_order_def)
  then show ?thesis using dist set by auto
qed

lemma planning_order:
  assumes "steps_ok idx" and "vx_state idx = Some s"
  shows "\<exists>order. planning_step_order idx s = Inr order \<and> distinct order \<and> set order = set (bm_keys (rs_steps s))"
proof -
  let ?es = "sort_key (\<lambda>(step_id, position). (sjp_event_sequence position, sjp_event_step_index position, step_id))
    (bm_entries (vx_step_positions idx))"
  have keys: "bm_contains_key (vx_step_positions idx) v \<longleftrightarrow> bm_contains_key (rs_steps s) v" for v
    using assms by (simp add: steps_ok_def index_steps_def)
  then have "bm_len (vx_step_positions idx) = bm_len (rs_steps s)" by (rule len_by_keys)
  moreover have "list_all (bm_contains_key (rs_steps s)) (bm_keys (vx_step_positions idx))"
    by (simp add: list_all_iff in_bm_keys_iff keys)
  ultimately have "planning_step_order idx s = Inr (map fst ?es)"
    by (simp add: planning_step_order_def list_ex_iff list_all_iff)
  moreover have "distinct (map fst ?es)" using distinct_bm_keys [of "vx_step_positions idx"] by (simp add: bm_keys_def)
  moreover have "set (map fst ?es) = set (bm_keys (vx_step_positions idx))" by (simp add: bm_keys_def)
  moreover have "set (bm_keys (vx_step_positions idx)) = set (bm_keys (rs_steps s))"
    by (auto simp: in_bm_keys_iff keys)
  ultimately show ?thesis by auto
qed

section \<open>The snapshot\<close>

definition bound_entries :: "run_state \<Rightarrow> (string \<times> step_state) list" where
  "bound_entries s = filter (\<lambda>e. output_bound (snd e)) (bm_entries (rs_steps s))"

definition planning_outputs :: "memory_run_store \<Rightarrow> run_state \<Rightarrow> (string, tool_output_record) btreemap" where
  "planning_outputs st s = fold (\<lambda>e. bm_insert (fst e) (the (planning_output st (snd e)))) (bound_entries s) bm_empty"

lemma bound_entries:
  "distinct (map fst (bound_entries s))"
  "(v, x) \<in> set (bound_entries s) \<longleftrightarrow> bm_get (rs_steps s) v = Some x \<and> output_bound x"
  using bm.distinct_keys [of "rs_steps s"] by (simp_all add: bound_entries_def distinct_map_filter bm.in_entries_iff)

lemma get_planning_outputs:
  assumes "\<And>v x. bm_get (rs_steps s) v = Some x \<Longrightarrow> joined st (v, x)"
  shows "bm_get (planning_outputs st s) v = Option.bind (bm_get (rs_steps s) v) (planning_output st)"
proof (cases "v \<in> fst ` set (bound_entries s)")
  case True
  then obtain x where x: "(v, x) \<in> set (bound_entries s)" by force
  then have "bm_get (rs_steps s) v = Some x" "output_bound x" by (simp_all add: bound_entries)
  moreover from this obtain r where "planning_output st x = Some r" using assms joined_output by metis
  ultimately show ?thesis
    using get_fold_insert_in [OF bound_entries(1) x, of "\<lambda>e. the (planning_output st (snd e))" bm_empty]
    by (simp add: planning_outputs_def)
next
  case False
  then have "planning_output st x = None" if "bm_get (rs_steps s) v = Some x" for x
    using that bound_entries(2) [of v x s] by (force simp: planning_output_def)
  then show ?thesis
    using False by (cases "bm_get (rs_steps s) v") (simp_all add: planning_outputs_def get_fold_insert_other)
qed

lemma planning_keys_passed:
  assumes "snapshots_ok st" and "vx_state (ms_index st) = Some s" and "v \<in> fst ` set (bound_entries s)"
  shows "v \<in> rea_step_id ` set (passed_receipts (ms_index st))"
proof -
  obtain x where x: "bm_get (rs_steps s) v = Some x" "output_bound x" using assms(3) bound_entries(2) by force
  then have "verdict_recorded (ms_index st) v x" "ss_status x = Completed"
    using assms(1,2) by (simp_all add: snapshots_ok_def index_steps_def output_bound_def)
  then show ?thesis by (force simp: verdict_recorded_def passed_receipts_def)
qed

text \<open>
  C40. The planning snapshot is exact, and only its budget can refuse it. On every store built by
  appends, the snapshot asked for at the current head holds the projected state, exactly the stored
  tool output of each completed step that recorded one (and nothing for any other step), an order
  that lists every step once and an order that lists every step with an output once. It is returned
  if the canonical sizes of these outputs add up to at most the byte budget (the sum taken without
  overflow), and refused as exceeding the budget otherwise; disagreement between steps, receipts and
  outputs is never found.
\<close>

theorem planning_snapshot_exact:
  assumes "store_built cr env st" and "ms_load_current st = Some s"
  shows "\<exists>p. rps_state p = s
    \<and> (\<forall>v. bm_get (rps_completed_tool_outputs p) v = Option.bind (bm_get (rs_steps s) v) (planning_output st))
    \<and> distinct (rps_planning_step_order p) \<and> set (rps_planning_step_order p) = set (bm_keys (rs_steps s))
    \<and> distinct (rps_completed_tool_output_order p)
    \<and> set (rps_completed_tool_output_order p) = set (bm_keys (rps_completed_tool_outputs p))
    \<and> ms_load_planning_snapshot cr st (index_head (ms_index st)) max_output_bytes =
        (if (\<Sum>e\<leftarrow>bm_entries (rs_steps s). output_bytes st (snd e)) \<le> unat max_output_bytes
         then Inr (Some p) else Inl SE_PlanningSnapshotBudgetExceeded)"
proof -
  note ok = store_built_ok [OF assms(1)] and snap = store_built_snapshots [OF assms(1)]
  have s: "vx_state (ms_index st) = Some s" and steps: "steps_ok (ms_index st)"
    using ok assms(2) by (simp_all add: store_ok_def journal_ok_def ms_load_current_def)
  have joined: "joined st (v, x)" if "bm_get (rs_steps s) v = Some x" for v x
    using snap that s by (simp add: joined_def snapshots_ok_def index_steps_def)
  have select: "try_fold (select_output (ms_index st) max_output_bytes) (bm_entries (rs_steps s)) (0, []) =
      (if (\<Sum>e\<leftarrow>bm_entries (rs_steps s). output_bytes st (snd e)) \<le> unat max_output_bytes
       then Inr (of_nat (\<Sum>e\<leftarrow>bm_entries (rs_steps s). output_bytes st (snd e)), map selection_of (bound_entries s))
       else Inl SE_PlanningSnapshotBudgetExceeded)"
  proof -
    have "\<forall>e \<in> set (bm_entries (rs_steps s)). joined st e" using joined by (auto simp: bm.in_entries_iff)
    from select_outputs [OF ok this, of 0 max_output_bytes "[]"] show ?thesis by (simp add: bound_entries_def)
  qed
  have load: "try_fold (load_selection cr (ms_index st) (\<lambda>e. Inr (bm_get (ms_outputs st) e)))
      (map selection_of (bound_entries s)) bm_empty = Inr (planning_outputs st s)"
    unfolding planning_outputs_def using joined bound_entries
    by (intro load_selections [OF ok]) auto
  have keys: "set (bm_keys (planning_outputs st s)) = fst ` set (bound_entries s)"
    by (simp add: set_eq_iff in_bm_keys_iff planning_outputs_def)
  obtain order where order: "completed_tool_output_order (ms_index st) (bs_of_list (bm_keys (planning_outputs st s))) = Inr order"
    "distinct order" "set order = set (bm_keys (planning_outputs st s))"
    using completed_order [of "ms_index st" "bs_of_list (bm_keys (planning_outputs st s))"] snap
      planning_keys_passed [OF snap s] unfolding snapshots_ok_def bs_contains_of_list keys set_eq_iff by blast
  obtain steps_order where all: "planning_step_order (ms_index st) s = Inr steps_order" "distinct steps_order"
    "set steps_order = set (bm_keys (rs_steps s))"
    using planning_order [OF steps s] by blast
  let ?p = "\<lparr>rps_state = s, rps_planning_step_order = steps_order, rps_completed_tool_output_order = order,
    rps_completed_tool_outputs = planning_outputs st s\<rparr>"
  have "ms_load_planning_snapshot cr st (index_head (ms_index st)) max_output_bytes =
      (if (\<Sum>e\<leftarrow>bm_entries (rs_steps s). output_bytes st (snd e)) \<le> unat max_output_bytes
       then Inr (Some ?p) else Inl SE_PlanningSnapshotBudgetExceeded)"
    by (simp add: ms_load_planning_snapshot_def build_planning_snapshot_def s all(1) select load order(1))
  then show ?thesis
    using get_planning_outputs [of s st, OF joined] all(2,3) order(2,3) by (intro exI [of _ ?p]) simp
qed

theorem planning_snapshot_exact_witness:
  "\<exists>p. ms_load_planning_snapshot sample_crypto sample_store2 (index_head (ms_index sample_store2)) 0 = Inr (Some p)
     \<and> set (rps_planning_step_order p) = {''a''}"
proof -
  have cur: "ms_load_current sample_store2 = Some (cm_state sample_commit2)"
    by (simp add: ms_load_current_def sample_store2_def)
  have steps: "rs_steps (cm_state sample_commit2) = bm_insert ''a'' (new_step ''a'' ''o'' [] None) bm_empty"
    by (simp add: sample_commit2_def sample_commit1_def Let_def)
  have bytes: "(\<Sum>e\<leftarrow>bm_entries (rs_steps (cm_state sample_commit2)). output_bytes sample_store2 (snd e)) = 0"
    by (simp add: steps output_bytes_def planning_output_def output_bound_def new_step_def)
  show ?thesis
    using planning_snapshot_exact [OF sample_built(2) cur, of 0] unfolding bytes
    by (auto simp: steps bm_keys_def)
qed

end
