(* ===== verification/Effect_Runtime.thy ===== *)
theory Effect_Runtime
  imports Store_Snapshots
begin

text \<open>
  The durable effect runtime, \<open>crates/xgeny-runtime/src/runtime.rs\<close>: it advances one step from the
  state the store holds, with an effect sink, an event factory and a lease. Here the store is the
  in-memory store. The sink, the event factory and the calendar parser are other code: the sink and
  the factory are the fields of \<open>effect_ports\<close>, over states of their own, and the parser is that of
  \<open>protocol_env\<close>. The world also records the calls made to the sink, for the statements about them.
\<close>

section \<open>Values\<close>

record event_metadata =
  em_event_id :: string
  em_recorded_at :: string

datatype execution_observation =
    EO_Succeeded string
  | EO_SucceededWithOutput string json
  | EO_Failed string
  | EO_Unknown string

datatype reconciliation_observation =
    RO_Applied string
  | RO_NotApplied string
  | RO_Failed string
  | RO_Inconclusive string

datatype drive_action =
    DA_EffectSucceeded | DA_EffectFailed | DA_EffectUnknown | DA_ExecutionRecoveredAsUnknown
  | DA_ReconciliationApplied | DA_ReconciliationNotApplied | DA_ReconciliationFailed | DA_ManualRequired
  | DA_VerificationPassed | DA_VerificationFailed | DA_VerificationInconclusive | DA_NoAction

record drive_report =
  dr_action :: drive_action
  dr_state :: run_state

record prepared_effect_binding =
  peb_run_id :: string
  peb_authority :: string
  peb_authority_epoch :: u64
  peb_journal_sequence :: u64
  peb_journal_head_digest :: string
  peb_step_id :: string
  peb_effect_id :: string
  peb_material_record :: invocation_material_record

record 'p prepared_effect =
  pe_binding :: prepared_effect_binding
  pe_invocation :: 'p

datatype (plugins only:) runtime_error =
    RTE_Store store_error
  | RTE_EventFactory string
  | RTE_EventMetadata
  | RTE_RunNotInitialized
  | RTE_StepNotFound string
  | RTE_IntentMissing string
  | RTE_PreparedEffectRequired string
  | RTE_PreparedEffectHeadChanged string
  | RTE_PreparedEffectBindingMismatch string
  | RTE_PreparedMaterialRecordInvalid invocation_material_error
  | RTE_PreparedMaterialRecordMissing string
  | RTE_PreparedMaterialRecordChanged string
  | RTE_ExecutionAttemptLimitReached string u32 u32
  | RTE_InvalidSinkObservation string string
  | RTE_LeaseRunMismatch string string

definition from_verified :: "run_state \<Rightarrow> string \<Rightarrow> effect_intent \<Rightarrow> invocation_material_record \<Rightarrow> prepared_effect_binding" where
  "from_verified state step_id intent material_record =
     \<lparr>peb_run_id = rs_run_id state, peb_authority = rs_authority state, peb_authority_epoch = rs_authority_epoch state,
      peb_journal_sequence = rs_journal_sequence state, peb_journal_head_digest = rs_journal_head_digest state,
      peb_step_id = step_id, peb_effect_id = ei_effect_id intent, peb_material_record = material_record\<rparr>"

section \<open>White space\<close>

text \<open>
  \<open>str::trim\<close> on UTF-8 bytes: the characters with the Unicode property White_Space are the six of
  ASCII, U+0085, U+00A0, U+1680, U+2000 to U+200A, U+2028, U+2029, U+202F, U+205F and U+3000.
\<close>

fun leading_white_space :: "nat list \<Rightarrow> nat" where
  "leading_white_space (a # bs) =
     (if 9 \<le> a \<and> a \<le> 13 \<or> a = 32 then 1
      else case bs of
        b # cs \<Rightarrow>
          if a = 0xC2 \<and> (b = 0x85 \<or> b = 0xA0) then 2
          else (case cs of
            c # _ \<Rightarrow>
              if a = 0xE1 \<and> b = 0x9A \<and> c = 0x80
                \<or> a = 0xE2 \<and> b = 0x80 \<and> (0x80 \<le> c \<and> c \<le> 0x8A \<or> c = 0xA8 \<or> c = 0xA9 \<or> c = 0xAF)
                \<or> a = 0xE2 \<and> b = 0x81 \<and> c = 0x9F
                \<or> a = 0xE3 \<and> b = 0x80 \<and> c = 0x80
              then 3 else 0
          | [] \<Rightarrow> 0)
      | [] \<Rightarrow> 0)"
| "leading_white_space [] = 0"

function (sequential) blank_bytes :: "nat list \<Rightarrow> bool" where
  "blank_bytes [] = True"
| "blank_bytes bs = (let n = leading_white_space bs in if n = 0 then False else blank_bytes (drop n bs))"
  by pat_completeness auto
termination
  by (relation "measure length") (auto simp del: leading_white_space.simps)

definition trim_is_empty :: "string \<Rightarrow> bool" where
  "trim_is_empty value' = blank_bytes (map byte_val value')"

section \<open>The world\<close>

datatype sink_call = CallExecute string effect_intent | CallReconcile effect_intent

record ('w, 'f, 'p) effect_ports =
  po_execute :: "'w \<Rightarrow> effect_intent \<Rightarrow> 'p \<Rightarrow> execution_observation \<times> 'w"
  po_reconcile :: "'w \<Rightarrow> effect_intent \<Rightarrow> reconciliation_observation \<times> 'w"
  po_metadata :: "'f \<Rightarrow> run_state \<Rightarrow> (string + event_metadata) \<times> 'f"
  po_lease_run_id :: string
  po_max_attempts :: u32

record ('w, 'f) runtime_world =
  rw_store :: memory_run_store
  rw_sink :: 'w
  rw_events :: 'f
  rw_calls :: "sink_call list"

type_synonym ('w, 'f, 'a) runtime_op = "('w, 'f) runtime_world \<Rightarrow> (runtime_error + 'a) \<times> ('w, 'f) runtime_world"

text \<open>A fallible operation on a state \<open>'s\<close>; the state survives an error, as mutated places do.\<close>

definition rt_bind :: "('s \<Rightarrow> ('e + 'a) \<times> 's) \<Rightarrow> ('a \<Rightarrow> 's \<Rightarrow> ('e + 'b) \<times> 's) \<Rightarrow> 's \<Rightarrow> ('e + 'b) \<times> 's" where
  "rt_bind m k w = (case m w of (Inl e, w') \<Rightarrow> (Inl e, w') | (Inr x, w') \<Rightarrow> k x w')"

definition rt_try :: "'e + 'a \<Rightarrow> 's \<Rightarrow> ('e + 'a) \<times> 's" where
  "rt_try r w = (r, w)"

section \<open>Helpers\<close>

definition require_intent :: "step_state \<Rightarrow> runtime_error + effect_intent" where
  "require_intent step = ok_or (RTE_IntentMissing (ss_step_id step)) (ss_intent step)"

definition supports_query :: "sink_guarantee \<Rightarrow> bool" where
  "supports_query guarantee \<longleftrightarrow> guarantee = QueryByKey \<or> guarantee = DeduplicateAndQuery"

definition require_observation_value :: "string \<Rightarrow> string \<Rightarrow> string \<Rightarrow> runtime_error + string" where
  "require_observation_value observation field value' =
     and_then (reject_if (trim_is_empty value') (RTE_InvalidSinkObservation observation field)) (\<lambda>_. Inr value')"

definition metadata_validate :: "protocol_env \<Rightarrow> event_metadata \<Rightarrow> runtime_error + unit" where
  "metadata_validate env metadata = reject_if (pv_instant env (em_recorded_at metadata) = None) RTE_EventMetadata"

definition runtime_event :: "run_state \<Rightarrow> event_metadata \<Rightarrow> run_event_body \<Rightarrow> run_event" where
  "runtime_event state metadata body =
     \<lparr>re_event_id = em_event_id metadata, re_run_id = rs_run_id state, re_authority = rs_authority state,
      re_authority_epoch = rs_authority_epoch state, re_recorded_at = em_recorded_at metadata, re_body = body\<rparr>"

definition create_metadata :: "('w, 'f, 'p) effect_ports \<Rightarrow> run_state \<Rightarrow> ('w, 'f, event_metadata) runtime_op" where
  "create_metadata ports state w =
     (case po_metadata ports (rw_events w) state of (r, f) \<Rightarrow> (map_err RTE_EventFactory r, w\<lparr>rw_events := f\<rparr>))"

definition store_commit ::
    "(memory_run_store \<Rightarrow> store_error + commit \<times> memory_run_store) \<Rightarrow> ('w, 'f, commit) runtime_op" where
  "store_commit op w = (case op (rw_store w) of Inl e \<Rightarrow> (Inl (RTE_Store e), w)
     | Inr (c, st) \<Rightarrow> (Inr c, w\<lparr>rw_store := st\<rparr>))"

definition append_event ::
    "crypto \<Rightarrow> protocol_env \<Rightarrow> ('w, 'f, 'p) effect_ports \<Rightarrow> run_state \<Rightarrow> run_event_body \<Rightarrow> ('w, 'f, commit) runtime_op" where
  "append_event cr env ports state body =
     rt_bind (create_metadata ports state) (\<lambda>metadata.
     rt_bind (rt_try (metadata_validate env metadata)) (\<lambda>_.
     store_commit (\<lambda>st. ms_append cr env st (expected_head_from_state state) (runtime_event state metadata body))))"

definition commit_report ::
    "crypto \<Rightarrow> protocol_env \<Rightarrow> ('w, 'f, 'p) effect_ports \<Rightarrow> run_state \<Rightarrow> run_event_body \<Rightarrow> drive_action
      \<Rightarrow> ('w, 'f, drive_report) runtime_op" where
  "commit_report cr env ports state body action =
     rt_bind (append_event cr env ports state body) (\<lambda>c.
     rt_try (Inr \<lparr>dr_action = action, dr_state = cm_state c\<rparr>))"

definition commit_tool_output_report ::
    "crypto \<Rightarrow> protocol_env \<Rightarrow> ('w, 'f, 'p) effect_ports \<Rightarrow> run_state \<Rightarrow> run_event_body \<Rightarrow> drive_action
      \<Rightarrow> tool_output_record \<Rightarrow> ('w, 'f, drive_report) runtime_op" where
  "commit_tool_output_report cr env ports state body action tool_output =
     rt_bind (create_metadata ports state) (\<lambda>metadata.
     rt_bind (rt_try (metadata_validate env metadata)) (\<lambda>_.
     rt_bind (store_commit (\<lambda>st. ms_append_with_tool_output cr env st (expected_head_from_state state)
         (runtime_event state metadata body) tool_output)) (\<lambda>c.
     rt_try (Inr \<lparr>dr_action = action, dr_state = cm_state c\<rparr>))))"

section \<open>Observations of the sink\<close>

record pending_execution_commit =
  pec_body :: run_event_body
  pec_action :: drive_action
  pec_output :: "tool_output_record option"

definition pending_succeeded ::
    "step_state \<Rightarrow> effect_intent \<Rightarrow> string \<Rightarrow> tool_output_record option \<Rightarrow> pending_execution_commit" where
  "pending_succeeded step intent evidence_digest tool_output =
     \<lparr>pec_body = EffectSucceeded (ss_step_id step) (ei_effect_id intent) evidence_digest
        (map_option tor_record_digest tool_output),
      pec_action = DA_EffectSucceeded, pec_output = tool_output\<rparr>"

definition pending_failed :: "step_state \<Rightarrow> effect_intent \<Rightarrow> string \<Rightarrow> pending_execution_commit" where
  "pending_failed step intent evidence_digest =
     \<lparr>pec_body = EffectFailed (ss_step_id step) (ei_effect_id intent) evidence_digest,
      pec_action = DA_EffectFailed, pec_output = None\<rparr>"

definition pending_unknown :: "step_state \<Rightarrow> effect_intent \<Rightarrow> string \<Rightarrow> pending_execution_commit" where
  "pending_unknown step intent reason =
     \<lparr>pec_body = EffectBecameUnknown (ss_step_id step) (ei_effect_id intent) reason,
      pec_action = DA_EffectUnknown, pec_output = None\<rparr>"

definition classify_output_success ::
    "crypto \<Rightarrow> run_state \<Rightarrow> step_state \<Rightarrow> effect_intent \<Rightarrow> bool \<Rightarrow> string \<Rightarrow> json
      \<Rightarrow> runtime_error + pending_execution_commit" where
  "classify_output_success cr started step intent output_required evidence_digest candidate =
     and_then (require_observation_value ''execution_succeeded'' ''evidence_digest'' evidence_digest) (\<lambda>evidence_digest.
     and_then (ok_or (RTE_StepNotFound (ss_step_id step))
       (map_option ss_attempts (bm_get (rs_steps started) (ss_step_id step)))) (\<lambda>execution_attempt.
     if \<not> output_required
     then Inr (pending_unknown step intent ''adapter returned an unexpected tool output'')
     else (case tool_output_new cr (rs_run_id started) (ss_step_id step) intent execution_attempt evidence_digest candidate of
         Inr r \<Rightarrow> Inr (pending_succeeded step intent evidence_digest (Some r))
       | Inl _ \<Rightarrow> Inr (pending_unknown step intent ''adapter tool output is invalid''))))"

definition classify_execution_observation ::
    "crypto \<Rightarrow> run_state \<Rightarrow> step_state \<Rightarrow> effect_intent \<Rightarrow> bool \<Rightarrow> execution_observation
      \<Rightarrow> runtime_error + pending_execution_commit" where
  "classify_execution_observation cr started step intent output_required observation =
     (case observation of
        EO_Succeeded evidence_digest \<Rightarrow>
          and_then (require_observation_value ''execution_succeeded'' ''evidence_digest'' evidence_digest) (\<lambda>evidence_digest.
          if output_required
          then Inr (pending_unknown step intent ''adapter returned no durable tool output'')
          else Inr (pending_succeeded step intent evidence_digest None))
      | EO_SucceededWithOutput evidence_digest candidate \<Rightarrow>
          classify_output_success cr started step intent output_required evidence_digest candidate
      | EO_Failed evidence_digest \<Rightarrow>
          and_then (require_observation_value ''execution_failed'' ''evidence_digest'' evidence_digest) (\<lambda>evidence_digest.
          Inr (pending_failed step intent evidence_digest))
      | EO_Unknown reason \<Rightarrow>
          and_then (require_observation_value ''execution_unknown'' ''reason'' reason) (\<lambda>reason.
          Inr (pending_unknown step intent reason)))"

definition verify_prepared_invocation ::
    "crypto \<Rightarrow> run_state \<Rightarrow> step_state \<Rightarrow> effect_intent \<Rightarrow> prepared_effect_binding \<Rightarrow> runtime_error + unit" where
  "verify_prepared_invocation cr state step intent binding =
     and_then (reject_if (peb_run_id binding \<noteq> rs_run_id state \<or> peb_authority binding \<noteq> rs_authority state
         \<or> peb_authority_epoch binding \<noteq> rs_authority_epoch state
         \<or> peb_journal_sequence binding \<noteq> rs_journal_sequence state
         \<or> peb_journal_head_digest binding \<noteq> rs_journal_head_digest state)
       (RTE_PreparedEffectHeadChanged (ss_step_id step))) (\<lambda>_.
     and_then (reject_if (peb_step_id binding \<noteq> ss_step_id step \<or> peb_effect_id binding \<noteq> ei_effect_id intent)
       (RTE_PreparedEffectBindingMismatch (ss_step_id step))) (\<lambda>_.
     map_err RTE_PreparedMaterialRecordInvalid
       (material_record_verify_for cr (peb_material_record binding) (rs_run_id state) (ss_step_id step) intent)))"

section \<open>Driving one step\<close>

definition sink_execute :: "('w, 'f, 'p) effect_ports \<Rightarrow> string \<Rightarrow> effect_intent \<Rightarrow> 'p \<Rightarrow> ('w, 'f, execution_observation) runtime_op" where
  "sink_execute ports step_id intent invocation w =
     (case po_execute ports (rw_sink w) intent invocation of (observation, sink) \<Rightarrow>
        (Inr observation, w\<lparr>rw_sink := sink, rw_calls := rw_calls w @ [CallExecute step_id intent]\<rparr>))"

definition sink_reconcile :: "('w, 'f, 'p) effect_ports \<Rightarrow> effect_intent \<Rightarrow> ('w, 'f, reconciliation_observation) runtime_op" where
  "sink_reconcile ports intent w =
     (case po_reconcile ports (rw_sink w) intent of (observation, sink) \<Rightarrow>
        (Inr observation, w\<lparr>rw_sink := sink, rw_calls := rw_calls w @ [CallReconcile intent]\<rparr>))"

definition execute_intent ::
    "crypto \<Rightarrow> protocol_env \<Rightarrow> ('w, 'f, 'p) effect_ports \<Rightarrow> run_state \<Rightarrow> step_state \<Rightarrow> 'p prepared_effect option
      \<Rightarrow> ('w, 'f, drive_report) runtime_op" where
  "execute_intent cr env ports state step prepared =
     rt_bind (rt_try (require_intent step)) (\<lambda>intent.
     rt_bind (rt_try (reject_if (ss_attempts step \<ge> po_max_attempts ports)
       (RTE_ExecutionAttemptLimitReached (ss_step_id step) (ss_attempts step) (po_max_attempts ports)))) (\<lambda>_.
     rt_bind (rt_try (ok_or (RTE_PreparedEffectRequired (ss_step_id step)) prepared)) (\<lambda>prepared.
     rt_bind (rt_try (verify_prepared_invocation cr state step intent (pe_binding prepared))) (\<lambda>_.
     rt_bind (\<lambda>w. (map_err RTE_Store (ms_load_invocation_material cr (rw_store w) (ei_effect_id intent)), w)) (\<lambda>loaded.
     rt_bind (rt_try (ok_or (RTE_PreparedMaterialRecordMissing (ei_effect_id intent)) loaded)) (\<lambda>current_record.
     rt_bind (rt_try (reject_if (current_record \<noteq> peb_material_record (pe_binding prepared))
       (RTE_PreparedMaterialRecordChanged (ss_step_id step)))) (\<lambda>_.
     rt_bind (append_event cr env ports state (EffectExecutionStarted (ss_step_id step) (ei_effect_id intent))) (\<lambda>started.
     rt_bind (sink_execute ports (ss_step_id step) intent (pe_invocation prepared)) (\<lambda>observation.
     let output_required = intent_output_profile intent = Some TOOL_OUTPUT_PROFILE_V1 in
     rt_bind (rt_try (classify_execution_observation cr (cm_state started) step intent output_required observation)) (\<lambda>pending.
     case pec_output pending of
       Some tool_output \<Rightarrow>
         commit_tool_output_report cr env ports (cm_state started) (pec_body pending) (pec_action pending) tool_output
     | None \<Rightarrow> commit_report cr env ports (cm_state started) (pec_body pending) (pec_action pending)))))))))))"

definition mark_recovered_execution_unknown ::
    "crypto \<Rightarrow> protocol_env \<Rightarrow> ('w, 'f, 'p) effect_ports \<Rightarrow> run_state \<Rightarrow> step_state \<Rightarrow> ('w, 'f, drive_report) runtime_op" where
  "mark_recovered_execution_unknown cr env ports state step =
     rt_bind (rt_try (require_intent step)) (\<lambda>intent.
     commit_report cr env ports state
       (EffectBecameUnknown (ss_step_id step) (ei_effect_id intent) ''runtime resumed with no committed effect outcome'')
       DA_ExecutionRecoveredAsUnknown)"

definition classify_reconciliation ::
    "step_state \<Rightarrow> effect_intent \<Rightarrow> reconciliation_observation \<Rightarrow> runtime_error + run_event_body \<times> drive_action" where
  "classify_reconciliation step intent observation =
     (case observation of
        RO_Applied evidence_digest \<Rightarrow>
          and_then (require_observation_value ''reconciliation_applied'' ''evidence_digest'' evidence_digest) (\<lambda>evidence_digest.
          Inr (ReconciliationResolved (ss_step_id step) (ei_effect_id intent) ProvedApplied evidence_digest,
            DA_ReconciliationApplied))
      | RO_NotApplied evidence_digest \<Rightarrow>
          and_then (require_observation_value ''reconciliation_not_applied'' ''evidence_digest'' evidence_digest) (\<lambda>evidence_digest.
          Inr (ReconciliationResolved (ss_step_id step) (ei_effect_id intent) ProvedNotApplied evidence_digest,
            DA_ReconciliationNotApplied))
      | RO_Failed evidence_digest \<Rightarrow>
          and_then (require_observation_value ''reconciliation_failed'' ''evidence_digest'' evidence_digest) (\<lambda>evidence_digest.
          Inr (ReconciliationResolved (ss_step_id step) (ei_effect_id intent) ReconcileFailed evidence_digest,
            DA_ReconciliationFailed))
      | RO_Inconclusive reason \<Rightarrow>
          and_then (require_observation_value ''reconciliation_inconclusive'' ''reason'' reason) (\<lambda>reason.
          Inr (ManualInterventionRequired (ss_step_id step) (ei_effect_id intent) reason, DA_ManualRequired)))"

definition finish_reconciliation ::
    "crypto \<Rightarrow> protocol_env \<Rightarrow> ('w, 'f, 'p) effect_ports \<Rightarrow> run_state \<Rightarrow> step_state \<Rightarrow> ('w, 'f, drive_report) runtime_op" where
  "finish_reconciliation cr env ports state step =
     rt_bind (rt_try (require_intent step)) (\<lambda>intent.
     if \<not> supports_query (ei_sink_guarantee intent)
     then commit_report cr env ports state
       (ManualInterventionRequired (ss_step_id step) (ei_effect_id intent)
         ''reconciliation state has no query-capable sink contract'') DA_ManualRequired
     else
       rt_bind (sink_reconcile ports intent) (\<lambda>observation.
       rt_bind (rt_try (classify_reconciliation step intent observation)) (\<lambda>(body, action).
       commit_report cr env ports state body action)))"

definition begin_reconciliation ::
    "crypto \<Rightarrow> protocol_env \<Rightarrow> ('w, 'f, 'p) effect_ports \<Rightarrow> run_state \<Rightarrow> step_state \<Rightarrow> ('w, 'f, drive_report) runtime_op" where
  "begin_reconciliation cr env ports state step =
     rt_bind (rt_try (require_intent step)) (\<lambda>intent.
     if \<not> supports_query (ei_sink_guarantee intent)
     then commit_report cr env ports state
       (ManualInterventionRequired (ss_step_id step) (ei_effect_id intent)
         ''sink cannot query the effect by its stable key; blind retry is disabled'') DA_ManualRequired
     else
       rt_bind (append_event cr env ports state (ReconciliationStarted (ss_step_id step) (ei_effect_id intent))) (\<lambda>reconciling.
       rt_bind (rt_try (ok_or (RTE_StepNotFound (ss_step_id step))
         (bm_get (rs_steps (cm_state reconciling)) (ss_step_id step)))) (\<lambda>reconciling_step.
       finish_reconciliation cr env ports (cm_state reconciling) reconciling_step)))"

definition verify_lease :: "('w, 'f, 'p) effect_ports \<Rightarrow> run_state \<Rightarrow> runtime_error + unit" where
  "verify_lease ports state =
     reject_if (po_lease_run_id ports \<noteq> rs_run_id state)
       (RTE_LeaseRunMismatch (po_lease_run_id ports) (rs_run_id state))"

definition drive_step ::
    "crypto \<Rightarrow> protocol_env \<Rightarrow> ('w, 'f, 'p) effect_ports \<Rightarrow> string \<Rightarrow> 'p prepared_effect option
      \<Rightarrow> ('w, 'f, drive_report) runtime_op" where
  "drive_step cr env ports step_id prepared w =
     rt_bind (rt_try (ok_or RTE_RunNotInitialized (ms_load_current (rw_store w)))) (\<lambda>state.
     rt_bind (rt_try (verify_lease ports state)) (\<lambda>_.
     rt_bind (rt_try (ok_or (RTE_StepNotFound step_id) (bm_get (rs_steps state) step_id))) (\<lambda>step.
     case ss_status step of
       IntentCommitted \<Rightarrow> execute_intent cr env ports state step prepared
     | Executing \<Rightarrow> mark_recovered_execution_unknown cr env ports state step
     | EffectUnknown \<Rightarrow> begin_reconciliation cr env ports state step
     | Reconciling \<Rightarrow> finish_reconciliation cr env ports state step
     | _ \<Rightarrow> rt_try (Inr \<lparr>dr_action = DA_NoAction, dr_state = state\<rparr>)))) w"

end
