(* ===== verification/Admission_Digests.thy ===== *)
theory Admission_Digests
  imports Effect_Runtime Capability_Router
begin

text \<open>
  What the admission of \<open>crates/xgeny-runtime/src/admission.rs\<close> digests, and the policy decision it
  commits to (\<open>crates/xgeny-domain/src/policy.rs\<close>, \<open>validate_policy_decision\<close> of
  \<open>crates/xgeny-protocol/src/lib.rs\<close>). Each private \<open>...DigestInput\<close> struct is a constructor of
  \<open>admission_input\<close>, with the struct's fields in order. The canonicalizer, the JSON-schema
  compiler and the names of the platform are library code: they are the fields of \<open>admission_env\<close>.
\<close>

section \<open>Errors\<close>

datatype (plugins only:) admission_error =
    AE_Store store_error
  | AE_EventFactory string
  | AE_EventMetadata
  | AE_Resolution invocation_resolution_error
  | AE_Broker broker_error
  | AE_Route route_input_error
  | AE_AuthorizationDigest authorization_digest_error
  | AE_InvocationMaterial invocation_material_error
  | AE_PlanningContract planning_contract_error
  | AE_Protocol protocol_error
  | AE_RunNotInitialized
  | AE_LeaseRunMismatch string string
  | AE_StepNotFound string
  | AE_StepNotPlanned string step_status
  | AE_StepDependencyUnknown string string
  | AE_StepDependencyNotReleased string string dependency_block_reason
  | AE_PlannedInputMissing string
  | AE_PlannedInvocationMismatch string string
  | AE_RunHeadChanged
  | AE_DefinitionNotFound string string
  | AE_DefinitionChanged
  | AE_UnsupportedExecutionStyle
  | AE_UnplannedReadOnlyUnsupported
  | AE_IdempotencyKeyFeatureRequired
  | AE_DefinitionDoesNotSupportIdempotencyKey
  | AE_UnsupportedEffectClass domain_effect_class
  | AE_DefinitionInputSchemaInvalid
  | AE_ArgumentsDoNotConform
  | AE_ArgumentsTooLarge usize usize
  | AE_Canonicalization string
  | AE_ManagedPolicyUnsupported
  | AE_SelectedInstanceMissing string
  | AE_UnsupportedExecutorPlacement placement
  | AE_SelectedRouteWithoutPolicyAllow
  | AE_NonOnceAuthorization
  | AE_CriticalAuthorizationUnsupported
  | AE_PolicyAllowanceDetached
  | AE_PolicyDecisionInvalid

section \<open>What is digested\<close>

record canonical_resource_digest_input =
  crd_scope :: string
  crd_resource :: string

datatype (plugins only:) admission_input =
    RequestIdentityDigestInput string string string capability_ref json
  | DefinitionContractDigestInput string string string capability_spec "string list"
  | SemanticActionDigestInput string capability_ref string domain_effect_class json
      "canonical_resource_digest_input list"
  | ExecutableBindingDigestInput string string capability_ref capability_source placement platform trust_level
      data_boundary instance_features instance_binding "string option" "string list"
  | PolicyEvidenceDigestInput string string string string string capability_ref domain_effect_class "string list"
      "canonical_resource_digest_input list" "critical_action list" grant_lifetime "policy_source list"
  | EffectIdentityDigestInput string string string
  | PlannedActionOccurrenceDigestInput string string string string

text \<open>
  \<open>ae_jcs\<close> canonicalizes an input. \<open>ae_schema\<close> compiles a JSON schema (draft 2020-12, offline, with
  formats) to its validator, if it compiles. \<open>ae_os\<close> and \<open>ae_arch\<close> are \<open>std::env::consts\<close>.
\<close>

record admission_env =
  ae_jcs :: "admission_input \<Rightarrow> string + string"
  ae_schema :: "json \<Rightarrow> (json \<Rightarrow> bool) option"
  ae_os :: string
  ae_arch :: string

definition digest_serializable :: "crypto \<Rightarrow> admission_env \<Rightarrow> admission_input \<Rightarrow> admission_error + string" where
  "digest_serializable cr ae i =
     and_then (map_err AE_Canonicalization (ae_jcs ae i)) (\<lambda>canonical. Inr (sha256_digest cr canonical))"

definition content_id :: "string \<Rightarrow> string \<Rightarrow> string" where
  "content_id prfx digest =
     prfx @ ''-'' @ (case strip_prefix ''sha256:'' digest of None \<Rightarrow> digest | Some e \<Rightarrow> e)"

definition resource_digest_inputs :: "resolved_permission_request \<Rightarrow> canonical_resource_digest_input list" where
  "resource_digest_inputs request =
     map (\<lambda>r. \<lparr>crd_scope = res_scope r, crd_resource = res_canonical_resource r\<rparr>) (rpr_resources request)"

definition planned_action_occurrence_digest ::
    "crypto \<Rightarrow> admission_env \<Rightarrow> string \<Rightarrow> string \<Rightarrow> string \<Rightarrow> admission_error + string" where
  "planned_action_occurrence_digest cr ae run_id step_id semantic_action_digest =
     digest_serializable cr ae (PlannedActionOccurrenceDigestInput ''xgeny.planned-action-occurrence/v1''
       run_id step_id semantic_action_digest)"

definition definition_contract_digest ::
    "crypto \<Rightarrow> admission_env \<Rightarrow> capability_definition_body \<Rightarrow> admission_error + string" where
  "definition_contract_digest cr ae d =
     digest_serializable cr ae (DefinitionContractDigestInput ''xgeny.capability-contract/v1''
       (cm_id (cdb_metadata d)) (cm_contract_version (cdb_metadata d)) (cdb_spec d) (cdb_required_extensions d))"

definition semantic_action_digest ::
    "crypto \<Rightarrow> admission_env \<Rightarrow> capability_ref \<Rightarrow> string \<Rightarrow> domain_effect_class \<Rightarrow> json
      \<Rightarrow> resolved_permission_request \<Rightarrow> admission_error + string" where
  "semantic_action_digest cr ae capability definition_digest effect_class arguments request =
     digest_serializable cr ae (SemanticActionDigestInput ''xgeny.semantic-action/v1'' capability definition_digest
       effect_class arguments (resource_digest_inputs request))"

definition executable_binding_digest ::
    "crypto \<Rightarrow> admission_env \<Rightarrow> capability_instance_body \<Rightarrow> admission_error + string" where
  "executable_binding_digest cr ae i =
     digest_serializable cr ae (ExecutableBindingDigestInput ''xgeny.executable-binding/v2''
       (cib_instance_id i) (cib_definition i) (cib_source i) (cib_placement i) (cib_platform i) (cib_trust i)
       (cib_data_boundary i) (cib_features i) (cib_binding i) (at_auth_ref (cib_auth i)) (cib_required_extensions i))"

definition policy_evidence_digest ::
    "crypto \<Rightarrow> admission_env \<Rightarrow> resolved_permission_request \<Rightarrow> provisional_authorization \<Rightarrow> policy_source list
      \<Rightarrow> admission_error + string" where
  "policy_evidence_digest cr ae request provisional sources =
     and_then (reject_if (pz_scopes provisional \<noteq> rpr_requested_scopes request
         \<or> pz_resources provisional \<noteq> rpr_resources request
         \<or> pz_critical_actions provisional \<noteq> rpr_critical_actions request) AE_PolicyAllowanceDetached) (\<lambda>_.
     digest_serializable cr ae (PolicyEvidenceDigestInput ''xgeny.policy-evidence/v1'' (rpr_api_version request)
       (rpr_request_id request) (rpr_run_id request) (rpr_step_id request) (rpr_capability request)
       (rpr_effect_class request) (rpr_requested_scopes request) (resource_digest_inputs request)
       (rpr_critical_actions request) (pz_lifetime provisional) sources))"

section \<open>The policy decision\<close>

datatype decision = DecisionAllow | DecisionAsk | DecisionDeny

record grant =
  gr_lifetime :: grant_lifetime
  gr_expires_at :: "string option"
  gr_scopes :: "string list"
  gr_resources :: "resolved_resource list"
  gr_critical_actions :: "critical_action list"

record policy_decision_body =
  pdb_api_version :: string
  pdb_extensions :: extensions
  pdb_required_extensions :: "string list"
  pdb_decision_id :: string
  pdb_request_id :: string
  pdb_decision :: decision
  pdb_policy_sources :: "policy_source list"
  pdb_grant :: "grant option"
  pdb_interaction_id :: "string option"
  pdb_deny_reasons :: "string list"
  pdb_decided_at :: string

fun decision_name :: "decision \<Rightarrow> string" where
  "decision_name DecisionAllow = ''allow''"
| "decision_name DecisionAsk = ''ask''"
| "decision_name DecisionDeny = ''deny''"

fun policy_source_kind_name :: "policy_source_kind \<Rightarrow> string" where
  "policy_source_kind_name PSK_Host = ''host''"
| "policy_source_kind_name PSK_UserProfile = ''user_profile''"
| "policy_source_kind_name PSK_RunGrant = ''run_grant''"
| "policy_source_kind_name PSK_ManagedLease = ''managed_lease''"

fun grant_lifetime_name :: "grant_lifetime \<Rightarrow> string" where
  "grant_lifetime_name GL_Once = ''once''"
| "grant_lifetime_name GL_Run = ''run''"
| "grant_lifetime_name GL_Session = ''session''"
| "grant_lifetime_name GL_Project = ''project''"
| "grant_lifetime_name GL_Persistent = ''persistent''"

fun critical_action_name :: "critical_action \<Rightarrow> string" where
  "critical_action_name IrreversibleDelete = ''irreversible_delete''"
| "critical_action_name CredentialExport = ''credential_export''"
| "critical_action_name PaymentOrPurchase = ''payment_or_purchase''"
| "critical_action_name ExternalPublishOrMessage = ''external_publish_or_message''"
| "critical_action_name ProductionDeploy = ''production_deploy''"
| "critical_action_name PrivilegeEscalation = ''privilege_escalation''"
| "critical_action_name PersistentStartup = ''persistent_startup''"

definition policy_source_value :: "policy_source \<Rightarrow> json" where
  "policy_source_value s = json_object
     [[(''kind'', JString (policy_source_kind_name (ps_kind s))), (''id'', JString (ps_id s)),
       (''digest'', JString (ps_digest s))]]"

definition resolved_resource_value :: "resolved_resource \<Rightarrow> json" where
  "resolved_resource_value r = json_object
     [[(''scope'', JString (rr_scope r)), (''resource'', JString (rr_resource r)),
       (''normalized'', JBool (rr_normalized r))],
      skip_empty_map ''metadata'' (rr_metadata r)]"

definition grant_value :: "grant \<Rightarrow> json" where
  "grant_value g = json_object
     [[(''lifetime'', JString (grant_lifetime_name (gr_lifetime g)))],
      skip_none ''expiresAt'' JString (gr_expires_at g),
      [(''scopes'', JArray (map JString (gr_scopes g))),
       (''resources'', JArray (map resolved_resource_value (gr_resources g))),
       (''criticalActions'', JArray (map (\<lambda>a. JString (critical_action_name a)) (gr_critical_actions g)))]]"

definition policy_decision_document :: "policy_decision_body \<Rightarrow> json" where
  "policy_decision_document d = json_object
     [[(''kind'', JString ''PolicyDecision''), (''apiVersion'', JString (pdb_api_version d))],
      skip_empty_map ''extensions'' (pdb_extensions d),
      skip_empty_list ''requiredExtensions'' (pdb_required_extensions d),
      [(''decisionId'', JString (pdb_decision_id d)), (''requestId'', JString (pdb_request_id d)),
       (''decision'', JString (decision_name (pdb_decision d))),
       (''policySources'', JArray (map policy_source_value (pdb_policy_sources d)))],
      skip_none ''grant'' grant_value (pdb_grant d),
      skip_none ''interactionId'' JString (pdb_interaction_id d),
      skip_empty_list ''denyReasons'' (pdb_deny_reasons d),
      [(''decidedAt'', JString (pdb_decided_at d))]]"

text \<open>A policy decision has no check of its own in \<open>validate_document_semantics\<close>.\<close>

definition validate_policy_decision :: "protocol_env \<Rightarrow> policy_decision_body \<Rightarrow> protocol_error + unit" where
  "validate_policy_decision env d =
     and_then (cached_document_validator env ''policy-decision.schema.json'') (\<lambda>validator.
     and_then (case validator (policy_decision_document d) of None \<Rightarrow> Inr () | Some e \<Rightarrow> Inl (PE_Fixture e)) (\<lambda>_.
     ensure_required_extensions_supported (pdb_required_extensions d) bs_empty))"

definition policy_decision_commitment ::
    "crypto \<Rightarrow> protocol_env \<Rightarrow> resolved_permission_request \<Rightarrow> provisional_authorization \<Rightarrow> policy_source list
      \<Rightarrow> string \<Rightarrow> string \<Rightarrow> admission_error + string \<times> string" where
  "policy_decision_commitment cr env request authorization sources evidence_digest decided_at =
     (let decision_id = content_id ''decision'' evidence_digest;
          resources = map (\<lambda>r. \<lparr>rr_scope = res_scope r, rr_resource = res_canonical_resource r,
            rr_normalized = True, rr_metadata = bm_empty\<rparr>) (pz_resources authorization);
          decision = \<lparr>pdb_api_version = rpr_api_version request, pdb_extensions = bm_empty,
            pdb_required_extensions = [], pdb_decision_id = decision_id, pdb_request_id = rpr_request_id request,
            pdb_decision = DecisionAllow, pdb_policy_sources = sources,
            pdb_grant = Some \<lparr>gr_lifetime = pz_lifetime authorization, gr_expires_at = None,
              gr_scopes = pz_scopes authorization, gr_resources = resources,
              gr_critical_actions = pz_critical_actions authorization\<rparr>,
            pdb_interaction_id = None, pdb_deny_reasons = [], pdb_decided_at = decided_at\<rparr> in
      and_then (map_err (\<lambda>_. AE_PolicyDecisionInvalid) (validate_policy_decision env decision)) (\<lambda>_.
      and_then (map_err AE_Protocol (document_digest cr (policy_decision_document decision))) (\<lambda>digest.
      Inr (decision_id, digest))))"

end
