(* ===== verification/Admission.thy ===== *)
theory Admission
  imports Admission_Digests
begin

text \<open>
  \<open>crates/xgeny-runtime/src/admission.rs\<close>: an invocation is prepared against the durable state (its
  permission request is derived from its exact arguments) and then authorized: the broker evaluates
  the request, the router selects an instance, and one effect intent with a one-shot authorization
  is appended together with its material record. The store is the in-memory store; the resource
  resolver, the JSON pointers and the event factory are parameters.
\<close>

section \<open>Values\<close>

definition MAX_ARGUMENTS_SIZE_BYTES :: usize where
  "MAX_ARGUMENTS_SIZE_BYTES = 1024 * 1024"

definition ONCE_MAX_USES :: u32 where
  "ONCE_MAX_USES = 1"

definition LOCAL_EXECUTOR_ID :: string where
  "LOCAL_EXECUTOR_ID = ''xgeny-local''"

definition local_executor_platform :: "admission_env \<Rightarrow> string" where
  "local_executor_platform ae = ae_os ae @ ''-'' @ ae_arch ae"

record admission_request =
  aq_step_id :: string
  aq_route :: route_request
  aq_arguments :: json

record pending_run_binding =
  prb_of_run_id :: string
  prb_of_authority :: string
  prb_of_authority_epoch :: u64
  prb_of_journal_sequence :: u64
  prb_of_journal_head_digest :: string

definition pending_from_state :: "run_state \<Rightarrow> pending_run_binding" where
  "pending_from_state state =
     \<lparr>prb_of_run_id = rs_run_id state, prb_of_authority = rs_authority state,
      prb_of_authority_epoch = rs_authority_epoch state, prb_of_journal_sequence = rs_journal_sequence state,
      prb_of_journal_head_digest = rs_journal_head_digest state\<rparr>"

definition pending_matches :: "pending_run_binding \<Rightarrow> run_state \<Rightarrow> bool" where
  "pending_matches b state \<longleftrightarrow> prb_of_run_id b = rs_run_id state \<and> prb_of_authority b = rs_authority state
     \<and> prb_of_authority_epoch b = rs_authority_epoch state
     \<and> prb_of_journal_sequence b = rs_journal_sequence state
     \<and> prb_of_journal_head_digest b = rs_journal_head_digest state"

record pending_invocation =
  pn_run_binding :: pending_run_binding
  pn_route :: route_request
  pn_normalized_arguments :: json
  pn_permission_request :: resolved_permission_request
  pn_definition_digest :: string
  pn_action_digest :: string
  pn_material_digest :: string
  pn_material_retention :: invocation_material_retention
  pn_plan_id :: "string option"

definition with_reconstructable_material ::
    "pending_invocation \<Rightarrow> reconstructable_material_reference \<Rightarrow> pending_invocation" where
  "with_reconstructable_material p reference =
     (if pn_plan_id p = None then p\<lparr>pn_material_retention := ReconstructableReference reference\<rparr> else p)"

record admitted_effect =
  ad_normalized_arguments :: json
  ad_capability :: capability_ref
  ad_selected_instance_id :: string
  ad_definition_digest :: string
  ad_instance_binding_digest :: string
  ad_action_digest :: string
  ad_effect_id :: string
  ad_material_record :: invocation_material_record
  ad_commit :: commit

datatype (plugins only:) admission_outcome = Authorized admitted_effect | NotAuthorized route_outcome

record prepared_invocation_facts =
  pf_normalized_arguments :: json
  pf_permission_request :: resolved_permission_request
  pf_definition_digest :: string
  pf_semantic_action_digest :: string
  pf_material_digest :: string

section \<open>Checks on the durable state\<close>

definition admission_verify_lease :: "string \<Rightarrow> run_state \<Rightarrow> admission_error + unit" where
  "admission_verify_lease lease_run_id state =
     reject_if (lease_run_id \<noteq> rs_run_id state) (AE_LeaseRunMismatch lease_run_id (rs_run_id state))"

definition admission_step :: "run_state \<Rightarrow> string \<Rightarrow> admission_error + step_state" where
  "admission_step state step_id = ok_or (AE_StepNotFound step_id) (bm_get (rs_steps state) step_id)"

definition note_blocker ::
    "run_state \<Rightarrow> string \<Rightarrow> string \<Rightarrow> (string \<times> dependency_block_reason) option
      \<Rightarrow> admission_error + (string \<times> dependency_block_reason) option" where
  "note_blocker state step_id dependency_id first_blocker =
     and_then (ok_or (AE_StepDependencyUnknown step_id dependency_id) (bm_get (rs_steps state) dependency_id)) (\<lambda>dependency.
     Inr (case dependency_release_block_reason dependency of None \<Rightarrow> first_blocker
       | Some reason \<Rightarrow>
           if (case first_blocker of None \<Rightarrow> True | Some current \<Rightarrow> dependency_id < fst current)
           then Some (dependency_id, reason) else first_blocker))"

definition require_admission_ready_step :: "run_state \<Rightarrow> string \<Rightarrow> admission_error + unit" where
  "require_admission_ready_step state step_id =
     and_then (admission_step state step_id) (\<lambda>step.
     and_then (reject_if (ss_status step \<noteq> Planned) (AE_StepNotPlanned step_id (ss_status step))) (\<lambda>_.
     and_then (try_fold (note_blocker state step_id) (ss_depends_on step) None) (\<lambda>first_blocker.
     case first_blocker of None \<Rightarrow> Inr ()
     | Some (dependency_id, reason) \<Rightarrow> Inl (AE_StepDependencyNotReleased step_id dependency_id reason))))"

definition definition_of :: "capability_registry \<Rightarrow> capability_ref \<Rightarrow> admission_error + capability_definition_body" where
  "definition_of registry capability =
     ok_or (AE_DefinitionNotFound (cf_capability_id capability) (cf_contract_version capability))
       (registry_definition registry capability)"

definition verify_unplanned_read_only_boundary ::
    "run_state \<Rightarrow> string \<Rightarrow> capability_ref \<Rightarrow> capability_registry \<Rightarrow> admission_error + unit" where
  "verify_unplanned_read_only_boundary state step_id capability registry =
     and_then (admission_step state step_id) (\<lambda>step.
     if ss_planned_invocation step \<noteq> None then Inr ()
     else
       and_then (definition_of registry capability) (\<lambda>d.
       reject_if (ce_class (cs_effect (cdb_spec d)) = DE_ReadOnly) AE_UnplannedReadOnlyUnsupported))"

text \<open>\<open>checks.into_iter().find(|(_, matches)| !matches)\<close>: the first field that differs, if any.\<close>

definition require_checks :: "string \<Rightarrow> (string \<times> bool) list \<Rightarrow> admission_error + unit" where
  "require_checks step_id checks =
     (case find (\<lambda>(_, m). \<not> m) checks of None \<Rightarrow> Inr ()
      | Some (field, _) \<Rightarrow> Inl (AE_PlannedInvocationMismatch step_id field))"

fun operating_system_name :: "operating_system \<Rightarrow> string" where
  "operating_system_name OS_Linux = ''linux''"
| "operating_system_name OS_Macos = ''macos''"
| "operating_system_name OS_Windows = ''windows''"
| "operating_system_name OS_Any = ''any''"

fun architecture_name :: "architecture \<Rightarrow> string" where
  "architecture_name ARCH_X86_64 = ''x86_64''"
| "architecture_name ARCH_Aarch64 = ''aarch64''"
| "architecture_name ARCH_Any = ''any''"

definition verify_planned_route_binding :: "run_state \<Rightarrow> string \<Rightarrow> route_request \<Rightarrow> admission_error + unit" where
  "verify_planned_route_binding state step_id q =
     and_then (reject_if (rf_execution_style (rt_required_features q) \<noteq> ES_Sync) AE_UnsupportedExecutionStyle) (\<lambda>_.
     and_then (admission_step state step_id) (\<lambda>step.
     case ss_planned_invocation step of
       None \<Rightarrow> reject_if (\<not> rf_idempotency_key (rt_required_features q)) AE_IdempotencyKeyFeatureRequired
     | Some planned \<Rightarrow>
         let idempotency_feature_matches = (case pib_execution_profile planned of
               LocalSyncOnceV1 \<Rightarrow> rf_idempotency_key (rt_required_features q)
             | LocalSyncOnceOccurrenceV1 \<Rightarrow> rf_idempotency_key (rt_required_features q)
             | LocalSyncReadOnlyV1 \<Rightarrow> \<not> rf_idempotency_key (rt_required_features q)
             | LocalSyncReadOnlyOccurrenceV1 \<Rightarrow> \<not> rf_idempotency_key (rt_required_features q)) in
         require_checks step_id
           [(''capability_id'', pib_capability_id planned = cf_capability_id (rt_capability q)),
            (''contract_version'', pib_contract_version planned = cf_contract_version (rt_capability q)),
            (''execution_profile'', idempotency_feature_matches),
            (''target_os'', pib_target_os planned = operating_system_name (pf_os (rt_target_platform q))),
            (''target_arch'', pib_target_arch planned = architecture_name (pf_arch (rt_target_platform q)))]))"

definition profile_matches_class :: "planned_execution_profile \<Rightarrow> domain_effect_class \<Rightarrow> bool" where
  "profile_matches_class profile c \<longleftrightarrow>
     (profile = LocalSyncReadOnlyV1 \<or> profile = LocalSyncReadOnlyOccurrenceV1) \<and> c = DE_ReadOnly
     \<or> (profile = LocalSyncOnceV1 \<or> profile = LocalSyncOnceOccurrenceV1) \<and> (c = DE_Idempotent \<or> c = DE_NonIdempotent)"

definition verify_planned_definition_binding ::
    "crypto \<Rightarrow> admission_env \<Rightarrow> run_state \<Rightarrow> string \<Rightarrow> capability_registry \<Rightarrow> admission_error + unit" where
  "verify_planned_definition_binding cr ae state step_id registry =
     and_then (admission_step state step_id) (\<lambda>step.
     case ss_planned_invocation step of None \<Rightarrow> Inr ()
     | Some planned \<Rightarrow>
         and_then (definition_of registry \<lparr>cf_capability_id = pib_capability_id planned,
           cf_contract_version = pib_contract_version planned\<rparr>) (\<lambda>d.
         and_then (definition_contract_digest cr ae d) (\<lambda>digest.
         and_then (reject_if (digest \<noteq> pib_definition_digest planned) AE_DefinitionChanged) (\<lambda>_.
         reject_if (\<not> profile_matches_class (pib_execution_profile planned) (ce_class (cs_effect (cdb_spec d))))
           (AE_PlannedInvocationMismatch step_id ''execution_profile'')))))"

definition verify_planned_input_sidecar ::
    "crypto \<Rightarrow> memory_run_store \<Rightarrow> run_state \<Rightarrow> string \<Rightarrow> admission_error + planned_invocation_material_record option" where
  "verify_planned_input_sidecar cr st state step_id =
     and_then (admission_step state step_id) (\<lambda>step.
     case ss_planned_invocation step of None \<Rightarrow> Inr None
     | Some binding \<Rightarrow>
         and_then (map_err AE_Store (ms_load_planned_invocation cr st step_id)) (\<lambda>loaded.
         and_then (ok_or (AE_PlannedInputMissing step_id) loaded) (\<lambda>input.
         and_then (map_err AE_PlanningContract (material_verify_for cr input (rs_run_id state) step_id binding)) (\<lambda>_.
         Inr (Some input)))))"

definition verify_planned_admission_binding ::
    "run_state \<Rightarrow> admission_request \<Rightarrow> string \<Rightarrow> string \<Rightarrow> string \<Rightarrow> admission_error + string option" where
  "verify_planned_admission_binding state request definition_digest action_digest material_digest =
     and_then (verify_planned_route_binding state (aq_step_id request) (aq_route request)) (\<lambda>_.
     and_then (admission_step state (aq_step_id request)) (\<lambda>step.
     case ss_planned_invocation step of None \<Rightarrow> Inr None
     | Some planned \<Rightarrow>
         and_then (require_checks (aq_step_id request)
           [(''definition_digest'', pib_definition_digest planned = definition_digest),
            (''action_digest'', pib_action_digest planned = action_digest),
            (''plan_input_digest'', pib_plan_input_digest planned = material_digest)]) (\<lambda>_.
         Inr (Some (pib_plan_id planned)))))"

definition verify_pending_planned_material ::
    "run_state \<Rightarrow> string \<Rightarrow> pending_invocation \<Rightarrow> planned_invocation_material_record option \<Rightarrow> admission_error + unit" where
  "verify_pending_planned_material state step_id pending input =
     and_then (admission_step state step_id) (\<lambda>step.
     case ss_planned_invocation step of
       None \<Rightarrow> reject_if (pn_plan_id pending \<noteq> None \<or> input \<noteq> None)
         (AE_PlannedInvocationMismatch step_id ''plan_input_sidecar'')
     | Some planned \<Rightarrow>
         and_then (reject_if (pn_plan_id pending \<noteq> Some (pib_plan_id planned))
           (AE_PlannedInvocationMismatch step_id ''plan_id'')) (\<lambda>_.
         and_then (ok_or (AE_PlannedInputMissing step_id) input) (\<lambda>input.
         reject_if (pn_material_retention pending \<noteq> ReconstructableReference (pimr_reference input))
           (AE_PlannedInvocationMismatch step_id ''material_retention.reference''))))"

section \<open>Invocation facts\<close>

definition validate_argument_size :: "crypto \<Rightarrow> json \<Rightarrow> admission_error + unit" where
  "validate_argument_size cr arguments =
     and_then (map_err AE_Canonicalization (jcs cr (ToolOutputValueInput arguments))) (\<lambda>canonical.
     reject_if (length canonical > MAX_ARGUMENTS_SIZE_BYTES)
       (AE_ArgumentsTooLarge (length canonical) MAX_ARGUMENTS_SIZE_BYTES))"

definition validate_arguments ::
    "crypto \<Rightarrow> admission_env \<Rightarrow> capability_definition_body \<Rightarrow> json \<Rightarrow> admission_error + unit" where
  "validate_arguments cr ae d arguments =
     and_then (validate_argument_size cr arguments) (\<lambda>_.
     and_then (ok_or AE_DefinitionInputSchemaInvalid (ae_schema ae (cs_input_schema (cdb_spec d)))) (\<lambda>is_valid.
     reject_if (\<not> is_valid arguments) AE_ArgumentsDoNotConform))"

fun map_effect_class :: "domain_effect_class \<Rightarrow> admission_error + effect_class" where
  "map_effect_class DE_ReadOnly = Inr ReadOnly"
| "map_effect_class DE_Idempotent = Inr Idempotent"
| "map_effect_class DE_NonIdempotent = Inr NonIdempotent"
| "map_effect_class c = Inl (AE_UnsupportedEffectClass c)"

definition prepare_invocation_facts ::
    "crypto \<Rightarrow> admission_env \<Rightarrow> json_pointers \<Rightarrow> resource_resolver \<Rightarrow> string \<Rightarrow> string \<Rightarrow> capability_ref \<Rightarrow> json
      \<Rightarrow> capability_registry \<Rightarrow> admission_error + prepared_invocation_facts" where
  "prepare_invocation_facts cr ae jp resolve run_id step_id capability arguments registry =
     and_then (definition_of registry capability) (\<lambda>d.
     let effect_class = ce_class (cs_effect (cdb_spec d)) in
     and_then (map_effect_class effect_class) (\<lambda>_.
     and_then (reject_if (effect_class \<noteq> DE_ReadOnly \<and> \<not> cx_idempotency_key_supported (cs_execution (cdb_spec d)))
       AE_DefinitionDoesNotSupportIdempotencyKey) (\<lambda>_.
     and_then (validate_arguments cr ae d arguments) (\<lambda>_.
     and_then (digest_serializable cr ae (RequestIdentityDigestInput ''xgeny.permission-request/v1''
       run_id step_id capability arguments)) (\<lambda>request_identity.
     and_then (map_err AE_Resolution (resolve_invocation jp resolve (content_id ''permission'' request_identity)
       run_id step_id d arguments GL_Once)) (\<lambda>derived.
     and_then (validate_arguments cr ae d (rir_normalized_arguments derived)) (\<lambda>_.
     and_then (definition_contract_digest cr ae d) (\<lambda>definition_digest.
     and_then (semantic_action_digest cr ae capability definition_digest effect_class
       (rir_normalized_arguments derived) (rir_permission_request derived)) (\<lambda>action_digest.
     and_then (map_err AE_InvocationMaterial (invocation_material_digest cr (rir_normalized_arguments derived))) (\<lambda>material_digest.
     Inr \<lparr>pf_normalized_arguments = rir_normalized_arguments derived,
          pf_permission_request = rir_permission_request derived,
          pf_definition_digest = definition_digest, pf_semantic_action_digest = action_digest,
          pf_material_digest = material_digest\<rparr>))))))))))"

definition planned_action_digest ::
    "crypto \<Rightarrow> admission_env \<Rightarrow> run_state \<Rightarrow> string \<Rightarrow> string \<Rightarrow> admission_error + string" where
  "planned_action_digest cr ae state step_id semantic =
     and_then (admission_step state step_id) (\<lambda>step.
     case map_option pib_execution_profile (ss_planned_invocation step) of
       Some LocalSyncOnceOccurrenceV1 \<Rightarrow> planned_action_occurrence_digest cr ae (rs_run_id state) step_id semantic
     | Some LocalSyncReadOnlyOccurrenceV1 \<Rightarrow> planned_action_occurrence_digest cr ae (rs_run_id state) step_id semantic
     | _ \<Rightarrow> Inr semantic)"

section \<open>Preparation\<close>

definition prepare ::
    "crypto \<Rightarrow> admission_env \<Rightarrow> json_pointers \<Rightarrow> resource_resolver \<Rightarrow> string \<Rightarrow> capability_registry
      \<Rightarrow> memory_run_store \<Rightarrow> admission_request \<Rightarrow> admission_error + pending_invocation" where
  "prepare cr ae jp resolve lease_run_id registry st request =
     and_then (ok_or AE_RunNotInitialized (ms_load_current st)) (\<lambda>state.
     and_then (admission_verify_lease lease_run_id state) (\<lambda>_.
     and_then (require_admission_ready_step state (aq_step_id request)) (\<lambda>_.
     and_then (verify_unplanned_read_only_boundary state (aq_step_id request) (rt_capability (aq_route request)) registry) (\<lambda>_.
     and_then (verify_planned_route_binding state (aq_step_id request) (aq_route request)) (\<lambda>_.
     and_then (verify_planned_definition_binding cr ae state (aq_step_id request) registry) (\<lambda>_.
     and_then (verify_planned_input_sidecar cr st state (aq_step_id request)) (\<lambda>planned_input.
     and_then (prepare_invocation_facts cr ae jp resolve (rs_run_id state) (aq_step_id request)
       (rt_capability (aq_route request)) (aq_arguments request) registry) (\<lambda>facts.
     and_then (planned_action_digest cr ae state (aq_step_id request) (pf_semantic_action_digest facts)) (\<lambda>action_digest.
     and_then (verify_planned_admission_binding state request (pf_definition_digest facts) action_digest
       (pf_material_digest facts)) (\<lambda>plan_id.
     and_then (case (plan_id, planned_input) of
         (Some _, Some input) \<Rightarrow> Inr (ReconstructableReference (pimr_reference input))
       | (None, None) \<Rightarrow> Inr Ephemeral
       | _ \<Rightarrow> Inl (AE_PlannedInvocationMismatch (aq_step_id request) ''plan_input_sidecar'')) (\<lambda>material_retention.
     Inr \<lparr>pn_run_binding = pending_from_state state, pn_route = aq_route request,
          pn_normalized_arguments = pf_normalized_arguments facts,
          pn_permission_request = pf_permission_request facts,
          pn_definition_digest = pf_definition_digest facts, pn_action_digest = action_digest,
          pn_material_digest = pf_material_digest facts, pn_material_retention = material_retention,
          pn_plan_id = plan_id\<rparr>)))))))))))"

section \<open>Issuing the effect\<close>

fun receipt_placement_of :: "placement \<Rightarrow> receipt_placement" where
  "receipt_placement_of PL_Local = PlacementLocal"
| "receipt_placement_of PL_Device = PlacementDevice"
| "receipt_placement_of PL_Remote = PlacementRemote"

fun receipt_verification_strategy_of :: "verification_strategy \<Rightarrow> receipt_verification_strategy" where
  "receipt_verification_strategy_of VS_OutputSchema = StrategyOutputSchema"
| "receipt_verification_strategy_of VS_Postcondition = StrategyPostcondition"
| "receipt_verification_strategy_of VS_ArtifactDigest = StrategyArtifactDigest"
| "receipt_verification_strategy_of VS_Receipt = StrategyReceipt"
| "receipt_verification_strategy_of VS_Human = StrategyHuman"

definition build_receipt_provenance ::
    "admission_env \<Rightarrow> string \<Rightarrow> string option \<Rightarrow> string \<Rightarrow> string \<Rightarrow> capability_instance_body
      \<Rightarrow> capability_definition_body \<Rightarrow> receipt_provenance" where
  "build_receipt_provenance ae effect_identity_digest planned_plan_id policy_decision_id policy_decision_digest i d =
     (let durable_tool_output = (ce_class (cs_effect (cdb_spec d)) = DE_ReadOnly
          \<or> ce_class (cs_effect (cdb_spec d)) \<in> {DE_Idempotent, DE_NonIdempotent}
            \<and> cx_durable_tool_output (cs_execution (cdb_spec d))) in
      \<lparr>rp_profile_version = (if durable_tool_output then CORE_RECEIPT_PROFILE_V2 else CORE_RECEIPT_PROFILE_V1),
       rp_tool_output_profile = (if durable_tool_output then Some TOOL_OUTPUT_PROFILE_V1 else None),
       rp_invocation_id = content_id ''invocation'' effect_identity_digest,
       rp_plan_id = (case planned_plan_id of None \<Rightarrow> content_id ''plan'' effect_identity_digest | Some p \<Rightarrow> p),
       rp_policy_decision_id = policy_decision_id, rp_policy_decision_digest = policy_decision_digest,
       rp_executor_id = LOCAL_EXECUTOR_ID, rp_executor_placement = receipt_placement_of (cib_placement i),
       rp_executor_platform = local_executor_platform ae, rp_input_summary = CORE_RECEIPT_INPUT_SUMMARY_V1,
       rp_verification_plan = map (\<lambda>rule. \<lparr>rvr_strategy = receipt_verification_strategy_of (vr_strategy rule),
         rvr_required = vr_required rule\<rparr>) (cs_verification (cdb_spec d))\<rparr>)"

record issued_effect =
  is_intent :: effect_intent
  is_instance_binding_digest :: string
  is_effect_id :: string
  is_material_record :: invocation_material_record

definition once_invocation :: "pending_invocation \<Rightarrow> string \<Rightarrow> string \<Rightarrow> invocation_binding" where
  "once_invocation pending selected_instance_id instance_binding_digest =
     \<lparr>ib_capability_id = cf_capability_id (rt_capability (pn_route pending)),
      ib_contract_version = cf_contract_version (rt_capability (pn_route pending)),
      ib_definition_digest = pn_definition_digest pending, ib_instance_id = selected_instance_id,
      ib_instance_binding_digest = instance_binding_digest\<rparr>"

definition once_binding ::
    "pending_invocation \<Rightarrow> run_state \<Rightarrow> invocation_binding \<Rightarrow> string \<Rightarrow> string \<Rightarrow> string \<Rightarrow> authorization_binding" where
  "once_binding pending state invocation retention_digest evidence_digest provenance_digest =
     \<lparr>ab_run_id = rs_run_id state, ab_step_id = rpr_step_id (pn_permission_request pending),
      ab_authority = rs_authority state, ab_authority_epoch = rs_authority_epoch state,
      ab_issued_at_sequence = rs_journal_sequence state, ab_issued_at_head_digest = rs_journal_head_digest state,
      ab_capability_id = ib_capability_id invocation, ab_contract_version = ib_contract_version invocation,
      ab_definition_digest = ib_definition_digest invocation, ab_instance_id = ib_instance_id invocation,
      ab_instance_binding_digest = ib_instance_binding_digest invocation,
      ab_action_digest = pn_action_digest pending, ab_material_digest = pn_material_digest pending,
      ab_material_retention_digest = retention_digest, ab_policy_evidence_digest = evidence_digest,
      ab_receipt_provenance_digest = Some provenance_digest\<rparr>"

definition issue_once_effect ::
    "crypto \<Rightarrow> admission_env \<Rightarrow> protocol_env \<Rightarrow> pending_invocation \<Rightarrow> run_state \<Rightarrow> capability_definition_body
      \<Rightarrow> capability_instance_body \<Rightarrow> string \<Rightarrow> bound_policy_evaluation \<Rightarrow> string
      \<Rightarrow> admission_error + issued_effect" where
  "issue_once_effect cr ae env pending state d i selected_instance_id evaluation decided_at =
     (case bpe_outcome evaluation of
        BO_Allow authorization sources \<Rightarrow>
          let request = pn_permission_request pending in
          and_then (reject_if (pz_lifetime authorization \<noteq> GL_Once \<or> rpr_requested_lifetime request \<noteq> GL_Once)
            AE_NonOnceAuthorization) (\<lambda>_.
          and_then (reject_if (pz_critical_actions authorization \<noteq> []) AE_CriticalAuthorizationUnsupported) (\<lambda>_.
          and_then (digest_serializable cr ae (EffectIdentityDigestInput ''xgeny.effect.once/v1''
            (rs_run_id state) (pn_action_digest pending))) (\<lambda>effect_identity.
          and_then (policy_evidence_digest cr ae request authorization sources) (\<lambda>evidence.
          and_then (policy_decision_commitment cr env request authorization sources evidence decided_at)
            (\<lambda>(decision_id, decision_digest).
          let provenance = build_receipt_provenance ae effect_identity (pn_plan_id pending) decision_id
            decision_digest i d in
          and_then (map_err AE_AuthorizationDigest (receipt_provenance_digest cr provenance)) (\<lambda>provenance_digest.
          and_then (executable_binding_digest cr ae i) (\<lambda>instance_binding_digest.
          let invocation = once_invocation pending selected_instance_id instance_binding_digest in
          and_then (map_err AE_InvocationMaterial (invocation_material_retention_digest cr
            (pn_material_retention pending))) (\<lambda>retention_digest.
          let binding = once_binding pending state invocation retention_digest evidence provenance_digest in
          and_then (map_err AE_AuthorizationDigest (authorization_digest cr binding ONCE_MAX_USES)) (\<lambda>grant_digest.
          let effect_id = content_id ''effect'' effect_identity in
          and_then (map_effect_class (ce_class (cs_effect (cdb_spec d)))) (\<lambda>effect_class.
          and_then (map_err AE_AuthorizationDigest (once_authorization_id cr (rs_run_id state)
            (pn_action_digest pending))) (\<lambda>grant_id.
          let intent = \<lparr>ei_effect_id = effect_id, ei_action_digest = pn_action_digest pending,
                ei_invocation = invocation, ei_effect_class = effect_class,
                ei_idempotency_key = (if effect_class \<noteq> ReadOnly then Some (content_id ''xgeny'' effect_identity)
                  else None),
                ei_sink_guarantee = SinkNone,
                ei_authorization = \<lparr>au_grant_id = grant_id, au_grant_digest = grant_digest,
                  au_max_uses = ONCE_MAX_USES, au_binding = binding\<rparr>,
                ei_receipt_provenance = Some provenance\<rparr> in
          and_then (map_err AE_InvocationMaterial (material_record_new cr (rs_run_id state) (rpr_step_id request)
            intent (pn_material_digest pending) (pn_material_retention pending))) (\<lambda>material_record.
          Inr \<lparr>is_intent = intent, is_instance_binding_digest = instance_binding_digest,
               is_effect_id = effect_id, is_material_record = material_record\<rparr>))))))))))))
      | _ \<Rightarrow> Inl AE_SelectedRouteWithoutPolicyAllow)"

section \<open>Authorization\<close>

definition is_managed :: "policy_inputs \<Rightarrow> bool" where
  "is_managed i = (case pi_layers i of PolicyManaged _ _ _ \<Rightarrow> True | PolicyLocal _ _ \<Rightarrow> False)"

text \<open>
  The part of \<open>authorize_and_commit\<close> before the event factory is called: the checks, the evaluation
  and the routing. \<open>Inl\<close> inside the result is the router's non-selection.
\<close>

definition authorize_selection ::
    "crypto \<Rightarrow> admission_env \<Rightarrow> string \<Rightarrow> capability_registry \<Rightarrow> policy_inputs \<Rightarrow> pending_invocation \<Rightarrow> memory_run_store
      \<Rightarrow> admission_error + (route_outcome
          + run_state \<times> capability_definition_body \<times> bound_policy_evaluation \<times> string \<times> capability_instance_body)" where
  "authorize_selection cr ae lease_run_id registry policy_inputs pending st =
     and_then (reject_if (is_managed policy_inputs) AE_ManagedPolicyUnsupported) (\<lambda>_.
     and_then (ok_or AE_RunNotInitialized (ms_load_current st)) (\<lambda>state.
     and_then (admission_verify_lease lease_run_id state) (\<lambda>_.
     and_then (reject_if (\<not> pending_matches (pn_run_binding pending) state) AE_RunHeadChanged) (\<lambda>_.
     let step_id = rpr_step_id (pn_permission_request pending) in
     and_then (require_admission_ready_step state step_id) (\<lambda>_.
     and_then (verify_planned_input_sidecar cr st state step_id) (\<lambda>planned_input.
     and_then (verify_pending_planned_material state step_id pending planned_input) (\<lambda>_.
     and_then (definition_of registry (rt_capability (pn_route pending))) (\<lambda>d.
     and_then (definition_contract_digest cr ae d) (\<lambda>digest.
     and_then (reject_if (digest \<noteq> pn_definition_digest pending) AE_DefinitionChanged) (\<lambda>_.
     and_then (map_err AE_Broker (evaluate_bound (pn_permission_request pending) policy_inputs)) (\<lambda>evaluation.
     and_then (map_err AE_Route (route registry (pn_route pending) (Some evaluation))) (\<lambda>outcome.
     case outcome of
       RouteSelected selected_instance_id _ _ _ \<Rightarrow>
         and_then (ok_or (AE_SelectedInstanceMissing selected_instance_id)
           (registry_instance registry selected_instance_id)) (\<lambda>i.
         and_then (reject_if (cib_placement i \<noteq> PL_Local) (AE_UnsupportedExecutorPlacement (cib_placement i))) (\<lambda>_.
         Inr (Inr (state, d, evaluation, selected_instance_id, i))))
     | _ \<Rightarrow> Inr (Inl outcome)))))))))))))"

text \<open>The part after it: the effect is issued and appended with its material record.\<close>

definition issue_and_append ::
    "crypto \<Rightarrow> admission_env \<Rightarrow> protocol_env \<Rightarrow> pending_invocation \<Rightarrow> run_state \<Rightarrow> capability_definition_body
      \<Rightarrow> bound_policy_evaluation \<Rightarrow> string \<Rightarrow> capability_instance_body \<Rightarrow> event_metadata \<Rightarrow> memory_run_store
      \<Rightarrow> admission_error + admission_outcome \<times> memory_run_store" where
  "issue_and_append cr ae env pending state d evaluation selected_instance_id i metadata st =
     and_then (reject_if (pv_instant env (em_recorded_at metadata) = None) AE_EventMetadata) (\<lambda>_.
     and_then (issue_once_effect cr ae env pending state d i selected_instance_id evaluation
       (em_recorded_at metadata)) (\<lambda>issued.
     and_then (map_err AE_Store (ms_append_with_invocation_material cr env st (expected_head_from_state state)
       (runtime_event state metadata (EffectIntentCommitted (rpr_step_id (pn_permission_request pending))
         (is_intent issued))) (is_material_record issued))) (\<lambda>(c, st').
     Inr (Authorized \<lparr>ad_normalized_arguments = pn_normalized_arguments pending,
            ad_capability = rt_capability (pn_route pending), ad_selected_instance_id = selected_instance_id,
            ad_definition_digest = pn_definition_digest pending,
            ad_instance_binding_digest = is_instance_binding_digest issued,
            ad_action_digest = pn_action_digest pending, ad_effect_id = is_effect_id issued,
            ad_material_record = is_material_record issued, ad_commit = c\<rparr>, st'))))"

definition authorize_and_commit ::
    "crypto \<Rightarrow> admission_env \<Rightarrow> protocol_env \<Rightarrow> ('f \<Rightarrow> run_state \<Rightarrow> (string + event_metadata) \<times> 'f) \<Rightarrow> string
      \<Rightarrow> capability_registry \<Rightarrow> policy_inputs \<Rightarrow> pending_invocation \<Rightarrow> memory_run_store \<times> 'f
      \<Rightarrow> (admission_error + admission_outcome) \<times> memory_run_store \<times> 'f" where
  "authorize_and_commit cr ae env factory lease_run_id registry policy_inputs pending w =
     (case w of (st, f) \<Rightarrow>
      case authorize_selection cr ae lease_run_id registry policy_inputs pending st of
        Inl e \<Rightarrow> (Inl e, st, f)
      | Inr (Inl outcome) \<Rightarrow> (Inr (NotAuthorized outcome), st, f)
      | Inr (Inr (state, d, evaluation, selected_instance_id, i)) \<Rightarrow>
          (case factory f state of
             (Inl e, f') \<Rightarrow> (Inl (AE_EventFactory e), st, f')
           | (Inr metadata, f') \<Rightarrow>
               (case issue_and_append cr ae env pending state d evaluation selected_instance_id i metadata st of
                  Inl e \<Rightarrow> (Inl e, st, f')
                | Inr (outcome, st') \<Rightarrow> (Inr outcome, st', f'))))"

section \<open>Material records\<close>

lemma material_record_new_Inr:
  assumes "material_record_new cr run step x digest retention = Inr m"
  shows "imr_effect_id m = ei_effect_id x" and "imr_material_digest m = digest" and "imr_retention m = retention"
    and "imr_action_digest m = ei_action_digest x" and "material_record_verify_for cr m run step x = Inr ()"
  using assms by (auto simp: material_record_new_def result_simps Let_def)

end
