(* ===== verification/Direct_Executor.thy ===== *)
theory Direct_Executor
  imports Admission "HOL-Library.Option_ord"
begin

text \<open>
  \<open>crates/xgeny-runtime/src/executor.rs\<close>: the coordinator between verified invocation material and one
  exact adapter. An adapter is a parameter, a pair of functions over a state \<open>'a\<close> that stands for
  whatever the adapters keep and touch; what its \<open>prepare\<close> returns is the closure that performs the
  effect. \<open>drive_step\<close> of the durable runtime is used with the ports that the source's \<open>DirectSink\<close>
  implements. The two \<open>expect\<close> calls of that sink set a flag in the model.
\<close>

section \<open>Adapter bindings\<close>

definition MAX_BINDING_COMPONENT_BYTES :: usize where
  "MAX_BINDING_COMPONENT_BYTES = 2048"

datatype adapter_binding_key =
  AdapterBindingKey (abk_binding_ref: string) (abk_operation_ref: "string option") (abk_protocol_version: "string option")

text \<open>The derived order compares the three fields in turn.\<close>

instantiation adapter_binding_key :: linorder
begin

definition less_eq_adapter_binding_key :: "adapter_binding_key \<Rightarrow> adapter_binding_key \<Rightarrow> bool" where
  "less_eq_adapter_binding_key a b \<longleftrightarrow> abk_binding_ref a < abk_binding_ref b
     \<or> abk_binding_ref a = abk_binding_ref b \<and> (abk_operation_ref a < abk_operation_ref b
       \<or> abk_operation_ref a = abk_operation_ref b \<and> abk_protocol_version a \<le> abk_protocol_version b)"

definition less_adapter_binding_key :: "adapter_binding_key \<Rightarrow> adapter_binding_key \<Rightarrow> bool" where
  "less_adapter_binding_key a b \<longleftrightarrow> abk_binding_ref a < abk_binding_ref b
     \<or> abk_binding_ref a = abk_binding_ref b \<and> (abk_operation_ref a < abk_operation_ref b
       \<or> abk_operation_ref a = abk_operation_ref b \<and> abk_protocol_version a < abk_protocol_version b)"

instance
proof
  fix a b :: adapter_binding_key
  assume "a \<le> b" and "b \<le> a"
  then show "a = b" by (cases a; cases b) (auto simp: less_eq_adapter_binding_key_def)
qed (auto simp: less_eq_adapter_binding_key_def less_adapter_binding_key_def)

end

datatype adapter_registry_error = ARE_InvalidBinding | ARE_DuplicateBinding

text \<open>
  \<open>component.trim() != component\<close>: the text begins or ends with a white-space character. At the end
  the candidates are its last one, two or three bytes.
\<close>

definition has_white_space_edge :: "string \<Rightarrow> bool" where
  "has_white_space_edge v \<longleftrightarrow>
     (let bs = map byte_val v in
      leading_white_space bs \<noteq> 0
      \<or> list_ex (\<lambda>k. k \<le> length bs \<and> leading_white_space (drop (length bs - k) bs) = k) [1, 2, 3])"

definition validate_binding_component :: "string \<Rightarrow> adapter_registry_error + unit" where
  "validate_binding_component component =
     reject_if (component = [] \<or> length component > MAX_BINDING_COMPONENT_BYTES
         \<or> has_white_space_edge component \<or> has_control component) ARE_InvalidBinding"

definition validate_optional_component :: "string option \<Rightarrow> adapter_registry_error + unit" where
  "validate_optional_component m = (case m of None \<Rightarrow> Inr () | Some v \<Rightarrow> validate_binding_component v)"

definition from_binding :: "instance_binding \<Rightarrow> adapter_registry_error + adapter_binding_key" where
  "from_binding binding =
     and_then (validate_binding_component (ibd_binding_ref binding)) (\<lambda>_.
     and_then (validate_optional_component (ibd_operation_ref binding)) (\<lambda>_.
     and_then (validate_optional_component (ibd_protocol_version binding)) (\<lambda>_.
     Inr (AdapterBindingKey (ibd_binding_ref binding) (ibd_operation_ref binding) (ibd_protocol_version binding)))))"

section \<open>Adapters\<close>

definition evidence_digest_new :: "string \<Rightarrow> string option" where
  "evidence_digest_new v =
     (case strip_prefix ''sha256:'' v of None \<Rightarrow> None
      | Some hex \<Rightarrow> if length hex \<noteq> 64 \<or> \<not> list_all (\<lambda>b. is_ascii_digit b \<or> in_a_to_f b) hex then None else Some v)"

typedef adapter_evidence_digest = "{v. evidence_digest_new v = Some v}"
  by (rule exI [of _ "''sha256:'' @ replicate 64 CHR ''0''"]) (simp add: evidence_digest_new_def is_ascii_digit_def byte_val_def list_all_iff del: append.simps)

datatype adapter_prepare_failure = APF_Unavailable | APF_UnsupportedProtocol | APF_InvalidMaterial | APF_ResourceUnavailable

datatype adapter_execution_unknown_reason = TransportOutcomeUnknown | AdapterTerminated | ResponseUnverifiable

fun execution_unknown_code :: "adapter_execution_unknown_reason \<Rightarrow> string" where
  "execution_unknown_code TransportOutcomeUnknown = ''adapter_transport_outcome_unknown''"
| "execution_unknown_code AdapterTerminated = ''adapter_terminated_after_start''"
| "execution_unknown_code ResponseUnverifiable = ''adapter_response_unverifiable''"

datatype adapter_execution_observation =
    AEO_Succeeded adapter_evidence_digest
  | AEO_SucceededWithOutput adapter_evidence_digest json
  | AEO_Failed adapter_evidence_digest
  | AEO_Unknown adapter_execution_unknown_reason

datatype adapter_reconciliation_inconclusive_reason =
    QueryUnavailable | ReconciliationUnverifiable | StableKeyUnsupported

fun inconclusive_code :: "adapter_reconciliation_inconclusive_reason \<Rightarrow> string" where
  "inconclusive_code QueryUnavailable = ''adapter_reconciliation_query_unavailable''"
| "inconclusive_code ReconciliationUnverifiable = ''adapter_reconciliation_response_unverifiable''"
| "inconclusive_code StableKeyUnsupported = ''adapter_reconciliation_stable_key_unsupported''"

datatype adapter_reconciliation_observation =
    ARO_Applied adapter_evidence_digest
  | ARO_NotApplied adapter_evidence_digest
  | ARO_Failed adapter_evidence_digest
  | ARO_Inconclusive adapter_reconciliation_inconclusive_reason

type_synonym 'a prepared_adapter_invocation = "'a \<Rightarrow> adapter_execution_observation \<times> 'a"

record 'a effect_adapter =
  ea_prepare :: "'a \<Rightarrow> effect_intent \<Rightarrow> capability_instance_body \<Rightarrow> json
    \<Rightarrow> (adapter_prepare_failure + 'a prepared_adapter_invocation) \<times> 'a"
  ea_reconcile :: "'a \<Rightarrow> effect_intent \<Rightarrow> capability_instance_body \<Rightarrow> adapter_reconciliation_observation \<times> 'a"

type_synonym 'a effect_adapter_registry = "(adapter_binding_key, 'a effect_adapter) btreemap"

definition register_adapter ::
    "'a effect_adapter_registry \<Rightarrow> instance_binding \<Rightarrow> 'a effect_adapter \<Rightarrow> adapter_registry_error + 'a effect_adapter_registry" where
  "register_adapter adapters binding adapter =
     and_then (from_binding binding) (\<lambda>key.
     and_then (reject_if (bm_contains_key adapters key) ARE_DuplicateBinding) (\<lambda>_.
     Inr (bm_insert key adapter adapters)))"

section \<open>The sink\<close>

record 'a core_prepared =
  cp_adapter_key :: adapter_binding_key
  cp_invocation :: "'a prepared_adapter_invocation"

record 'a direct_sink =
  ds_adapter :: "'a effect_adapter option"
  ds_reconciliation_instance :: "capability_instance_body option"
  ds_output_validator :: "(json \<Rightarrow> bool) option"

text \<open>The state of the sink is that of the adapters and whether an \<open>expect\<close> has failed.\<close>

type_synonym 'a sink_state = "'a \<times> bool"

definition classify_adapter_execution ::
    "crypto \<Rightarrow> (json \<Rightarrow> bool) option \<Rightarrow> adapter_execution_observation \<Rightarrow> execution_observation" where
  "classify_adapter_execution cr output_validator observation =
     (case observation of
        AEO_Succeeded evidence_digest \<Rightarrow>
          if output_validator \<noteq> None then EO_Unknown (execution_unknown_code ResponseUnverifiable)
          else EO_Succeeded (Rep_adapter_evidence_digest evidence_digest)
      | AEO_SucceededWithOutput evidence_digest v \<Rightarrow>
          if validate_tool_output_candidate cr v = Inr ()
            \<and> (case output_validator of None \<Rightarrow> False | Some is_valid \<Rightarrow> is_valid v)
          then EO_SucceededWithOutput (Rep_adapter_evidence_digest evidence_digest) v
          else EO_Unknown (execution_unknown_code ResponseUnverifiable)
      | AEO_Failed evidence_digest \<Rightarrow> EO_Failed (Rep_adapter_evidence_digest evidence_digest)
      | AEO_Unknown reason \<Rightarrow> EO_Unknown (execution_unknown_code reason))"

definition direct_execute ::
    "crypto \<Rightarrow> 'a direct_sink \<Rightarrow> 'a sink_state \<Rightarrow> effect_intent \<Rightarrow> 'a core_prepared \<Rightarrow> execution_observation \<times> 'a sink_state" where
  "direct_execute cr sink s intent prepared =
     (case cp_invocation prepared (fst s) of (observation, a) \<Rightarrow>
        (classify_adapter_execution cr (ds_output_validator sink) observation, a, snd s))"

fun reconciliation_of :: "adapter_reconciliation_observation \<Rightarrow> reconciliation_observation" where
  "reconciliation_of (ARO_Applied e) = RO_Applied (Rep_adapter_evidence_digest e)"
| "reconciliation_of (ARO_NotApplied e) = RO_NotApplied (Rep_adapter_evidence_digest e)"
| "reconciliation_of (ARO_Failed e) = RO_Failed (Rep_adapter_evidence_digest e)"
| "reconciliation_of (ARO_Inconclusive reason) = RO_Inconclusive (inconclusive_code reason)"

definition direct_reconcile ::
    "'a direct_sink \<Rightarrow> 'a sink_state \<Rightarrow> effect_intent \<Rightarrow> reconciliation_observation \<times> 'a sink_state" where
  "direct_reconcile sink s intent =
     (case (ds_adapter sink, ds_reconciliation_instance sink) of
        (Some adapter, Some i) \<Rightarrow>
          (case ea_reconcile adapter (fst s) intent i of (observation, a) \<Rightarrow> (reconciliation_of observation, a, snd s))
      | _ \<Rightarrow> (RO_Inconclusive ''panic'', fst s, True))"

section \<open>Gates\<close>

datatype (plugins only:) direct_executor_error =
    DXE_Store store_error
  | DXE_Runtime runtime_error
  | DXE_Admission admission_error
  | DXE_MaterialRecord invocation_material_error
  | DXE_AdapterRegistry adapter_registry_error
  | DXE_RunNotInitialized
  | DXE_StepNotFound string
  | DXE_IntentMissing string
  | DXE_MaterialRequired string
  | DXE_MaterialRecordMissing string
  | DXE_MaterialRecordChanged
  | DXE_MaterialDigestMismatch
  | DXE_ReceiptProvenanceUnavailable string
  | DXE_UnsupportedReceiptProfile
  | DXE_UnsupportedToolOutputProfile
  | DXE_ToolOutputSchemaInvalid
  | DXE_ReceiptProvenanceBindingMismatch
  | DXE_ReceiptVerificationPlanMismatch
  | DXE_ReceiptExecutorProvenanceMismatch
  | DXE_DefinitionNotFound string string
  | DXE_DefinitionChanged
  | DXE_InstanceNotFound string
  | DXE_InstanceBindingChanged
  | DXE_InstanceNotAvailable health_status
  | DXE_CredentialWitnessUnavailable
  | DXE_UnsupportedExecutorPlacement placement
  | DXE_AdapterNotRegistered string
  | DXE_AdapterPrepare adapter_prepare_failure
  | DXE_LeaseRunMismatch string string

record invocation_material =
  im_record :: invocation_material_record
  im_normalized_arguments :: json

definition executor_verify_lease :: "string \<Rightarrow> run_state \<Rightarrow> direct_executor_error + unit" where
  "executor_verify_lease lease_run_id state =
     reject_if (lease_run_id \<noteq> rs_run_id state) (DXE_LeaseRunMismatch lease_run_id (rs_run_id state))"

definition verify_material ::
    "crypto \<Rightarrow> memory_run_store \<Rightarrow> run_state \<Rightarrow> string \<Rightarrow> effect_intent \<Rightarrow> invocation_material_record \<Rightarrow> json
      \<Rightarrow> direct_executor_error + unit" where
  "verify_material cr st state step_id intent r arguments =
     and_then (map_err DXE_MaterialRecord (material_record_verify_for cr r (rs_run_id state) step_id intent)) (\<lambda>_.
     and_then (map_err DXE_Store (ms_load_invocation_material cr st (ei_effect_id intent))) (\<lambda>loaded.
     and_then (ok_or (DXE_MaterialRecordMissing (ei_effect_id intent)) loaded) (\<lambda>durable_record.
     and_then (reject_if (durable_record \<noteq> r) DXE_MaterialRecordChanged) (\<lambda>_.
     and_then (map_err DXE_MaterialRecord (invocation_material_digest cr arguments)) (\<lambda>digest.
     reject_if (digest \<noteq> imr_material_digest r) DXE_MaterialDigestMismatch)))))"

fun runtime_protocol_strategy :: "receipt_verification_strategy \<Rightarrow> verification_strategy" where
  "runtime_protocol_strategy StrategyOutputSchema = VS_OutputSchema"
| "runtime_protocol_strategy StrategyPostcondition = VS_Postcondition"
| "runtime_protocol_strategy StrategyArtifactDigest = VS_ArtifactDigest"
| "runtime_protocol_strategy StrategyReceipt = VS_Receipt"
| "runtime_protocol_strategy StrategyHuman = VS_Human"

definition receipt_verification_plan_matches :: "capability_definition_body \<Rightarrow> receipt_provenance \<Rightarrow> bool" where
  "receipt_verification_plan_matches d provenance \<longleftrightarrow>
     length (cs_verification (cdb_spec d)) = length (rp_verification_plan provenance)
     \<and> list_all (\<lambda>(definition_rule, durable_rule). vr_required definition_rule = rvr_required durable_rule
           \<and> vr_strategy definition_rule = runtime_protocol_strategy (rvr_strategy durable_rule))
         (zip (cs_verification (cdb_spec d)) (rp_verification_plan provenance))"

definition intent_capability :: "effect_intent \<Rightarrow> capability_ref" where
  "intent_capability intent = \<lparr>cf_capability_id = ib_capability_id (ei_invocation intent),
     cf_contract_version = ib_contract_version (ei_invocation intent)\<rparr>"

definition executor_definition :: "capability_registry \<Rightarrow> effect_intent \<Rightarrow> direct_executor_error + capability_definition_body" where
  "executor_definition registry intent =
     ok_or (DXE_DefinitionNotFound (ib_capability_id (ei_invocation intent)) (ib_contract_version (ei_invocation intent)))
       (registry_definition registry (intent_capability intent))"

definition verify_current_instance ::
    "crypto \<Rightarrow> admission_env \<Rightarrow> capability_registry \<Rightarrow> effect_intent \<Rightarrow> direct_executor_error + capability_instance_body" where
  "verify_current_instance cr ae registry intent =
     and_then (executor_definition registry intent) (\<lambda>d.
     and_then (map_err DXE_Admission (definition_contract_digest cr ae d)) (\<lambda>digest.
     and_then (reject_if (digest \<noteq> ib_definition_digest (ei_invocation intent)) DXE_DefinitionChanged) (\<lambda>_.
     and_then (ok_or (DXE_ReceiptProvenanceUnavailable (ei_effect_id intent)) (ei_receipt_provenance intent)) (\<lambda>provenance.
     and_then (reject_if (\<not> receipt_verification_plan_matches d provenance) DXE_ReceiptVerificationPlanMismatch) (\<lambda>_.
     and_then (ok_or (DXE_InstanceNotFound (ib_instance_id (ei_invocation intent)))
       (registry_instance registry (ib_instance_id (ei_invocation intent)))) (\<lambda>i.
     if cib_definition i \<noteq> intent_capability intent then Inl DXE_InstanceBindingChanged
     else
       and_then (map_err DXE_Admission (executable_binding_digest cr ae i)) (\<lambda>binding_digest.
       and_then (reject_if (binding_digest \<noteq> ib_instance_binding_digest (ei_invocation intent))
         DXE_InstanceBindingChanged) (\<lambda>_. Inr i))))))))"

definition verify_dynamic_execution_gate :: "capability_instance_body \<Rightarrow> direct_executor_error + unit" where
  "verify_dynamic_execution_gate i =
     and_then (reject_if (cib_placement i \<noteq> PL_Local) (DXE_UnsupportedExecutorPlacement (cib_placement i))) (\<lambda>_.
     and_then (reject_if (he_status (cib_health i) \<noteq> HS_Available)
       (DXE_InstanceNotAvailable (he_status (cib_health i)))) (\<lambda>_.
     reject_if (at_state (cib_auth i) \<noteq> AS_NotRequired \<or> at_auth_ref (cib_auth i) \<noteq> None)
       DXE_CredentialWitnessUnavailable))"

definition executor_receipt_profile_matches :: "string \<Rightarrow> effect_class \<Rightarrow> bool" where
  "executor_receipt_profile_matches profile c \<longleftrightarrow>
     profile = CORE_RECEIPT_PROFILE_V2 \<and> c \<in> {ReadOnly, Idempotent, NonIdempotent}
     \<or> profile = CORE_RECEIPT_PROFILE_V1 \<and> c \<in> {Reversible, Idempotent, NonIdempotent}"

definition executor_output_profile_matches :: "effect_class \<Rightarrow> receipt_provenance \<Rightarrow> bool" where
  "executor_output_profile_matches c provenance =
     (if c \<in> {ReadOnly, Idempotent, NonIdempotent} \<and> rp_profile_version provenance = CORE_RECEIPT_PROFILE_V2
      then rp_tool_output_profile provenance = Some TOOL_OUTPUT_PROFILE_V1
      else if c \<in> {Reversible, Idempotent, NonIdempotent} \<and> rp_profile_version provenance = CORE_RECEIPT_PROFILE_V1
      then rp_tool_output_profile provenance = None
      else False)"

definition verify_receipt_provenance :: "crypto \<Rightarrow> admission_env \<Rightarrow> effect_intent \<Rightarrow> direct_executor_error + unit" where
  "verify_receipt_provenance cr ae intent =
     and_then (ok_or (DXE_ReceiptProvenanceUnavailable (ei_effect_id intent)) (ei_receipt_provenance intent)) (\<lambda>provenance.
     and_then (reject_if (\<not> executor_receipt_profile_matches (rp_profile_version provenance) (ei_effect_class intent))
       DXE_UnsupportedReceiptProfile) (\<lambda>_.
     and_then (reject_if (\<not> executor_output_profile_matches (ei_effect_class intent) provenance)
       DXE_UnsupportedToolOutputProfile) (\<lambda>_.
     and_then (reject_if (rp_input_summary provenance \<noteq> CORE_RECEIPT_INPUT_SUMMARY_V1)
       DXE_ReceiptProvenanceBindingMismatch) (\<lambda>_.
     and_then (reject_if (rp_executor_id provenance \<noteq> LOCAL_EXECUTOR_ID
         \<or> rp_executor_placement provenance \<noteq> PlacementLocal
         \<or> rp_executor_platform provenance \<noteq> local_executor_platform ae) DXE_ReceiptExecutorProvenanceMismatch) (\<lambda>_.
     and_then (ok_or DXE_ReceiptProvenanceBindingMismatch
       (ab_receipt_provenance_digest (au_binding (ei_authorization intent)))) (\<lambda>expected.
     and_then (map_err (\<lambda>_. DXE_ReceiptProvenanceBindingMismatch) (receipt_provenance_digest cr provenance)) (\<lambda>actual.
     reject_if (actual \<noteq> expected) DXE_ReceiptProvenanceBindingMismatch)))))))"

definition build_tool_output_validator ::
    "admission_env \<Rightarrow> capability_registry \<Rightarrow> effect_intent \<Rightarrow> direct_executor_error + (json \<Rightarrow> bool) option" where
  "build_tool_output_validator ae registry intent =
     (case ei_receipt_provenance intent of None \<Rightarrow> Inr None
      | Some provenance \<Rightarrow>
          if rp_tool_output_profile provenance \<noteq> Some TOOL_OUTPUT_PROFILE_V1 then Inr None
          else
            and_then (executor_definition registry intent) (\<lambda>d.
            and_then (ok_or DXE_ToolOutputSchemaInvalid (ae_schema ae (cs_output_schema (cdb_spec d)))) (\<lambda>validator.
            Inr (Some validator))))"

section \<open>Driving one step\<close>

text \<open>
  What the executor is given besides the store and the adapters: the event factory, the lease and the
  attempt limit of the runtime policy.
\<close>

record 'f executor_host =
  eh_metadata :: "'f \<Rightarrow> run_state \<Rightarrow> (string + event_metadata) \<times> 'f"
  eh_lease_run_id :: string
  eh_max_attempts :: u32

type_synonym ('a, 'f) executor_world = "('a sink_state, 'f) runtime_world"

definition direct_ports :: "crypto \<Rightarrow> 'f executor_host \<Rightarrow> 'a direct_sink \<Rightarrow> ('a sink_state, 'f, 'a core_prepared) effect_ports" where
  "direct_ports cr host sink =
     \<lparr>po_execute = direct_execute cr sink, po_reconcile = direct_reconcile sink, po_metadata = eh_metadata host,
      po_lease_run_id = eh_lease_run_id host, po_max_attempts = eh_max_attempts host\<rparr>"

definition run_runtime ::
    "crypto \<Rightarrow> protocol_env \<Rightarrow> 'f executor_host \<Rightarrow> 'a direct_sink \<Rightarrow> string \<Rightarrow> 'a core_prepared prepared_effect option
      \<Rightarrow> ('a, 'f) executor_world \<Rightarrow> (direct_executor_error + drive_report) \<times> ('a, 'f) executor_world" where
  "run_runtime cr env host sink step_id prepared w =
     (case drive_step cr env (direct_ports cr host sink) step_id prepared w of (r, w') \<Rightarrow> (map_err DXE_Runtime r, w'))"

definition no_sink :: "'a direct_sink" where
  "no_sink = \<lparr>ds_adapter = None, ds_reconciliation_instance = None, ds_output_validator = None\<rparr>"

definition drive_without_adapter ::
    "crypto \<Rightarrow> protocol_env \<Rightarrow> 'f executor_host \<Rightarrow> string
      \<Rightarrow> ('a, 'f) executor_world \<Rightarrow> (direct_executor_error + drive_report) \<times> ('a, 'f) executor_world" where
  "drive_without_adapter cr env host step_id = run_runtime cr env host no_sink step_id None"

definition step_intent_of :: "step_state \<Rightarrow> string \<Rightarrow> direct_executor_error + effect_intent" where
  "step_intent_of step step_id = ok_or (DXE_IntentMissing step_id) (ss_intent step)"

text \<open>The checks of the \<open>IntentCommitted\<close> arm, up to the lookup of the adapter.\<close>

record 'a execution_ticket =
  et_intent :: effect_intent
  et_material :: invocation_material
  et_instance :: capability_instance_body
  et_validator :: "(json \<Rightarrow> bool) option"
  et_key :: adapter_binding_key
  et_adapter :: "'a effect_adapter"

definition execution_gate ::
    "crypto \<Rightarrow> admission_env \<Rightarrow> u32 \<Rightarrow> capability_registry \<Rightarrow> 'a effect_adapter_registry \<Rightarrow> memory_run_store \<Rightarrow> run_state
      \<Rightarrow> step_state \<Rightarrow> string \<Rightarrow> invocation_material option \<Rightarrow> direct_executor_error + 'a execution_ticket" where
  "execution_gate cr ae max_attempts capabilities adapters st state step step_id material =
     and_then (step_intent_of step step_id) (\<lambda>intent.
     and_then (verify_receipt_provenance cr ae intent) (\<lambda>_.
     and_then (reject_if (ss_attempts step \<ge> max_attempts)
       (DXE_Runtime (RTE_ExecutionAttemptLimitReached step_id (ss_attempts step) max_attempts))) (\<lambda>_.
     and_then (ok_or (DXE_MaterialRequired step_id) material) (\<lambda>material.
     and_then (verify_material cr st state step_id intent (im_record material) (im_normalized_arguments material)) (\<lambda>_.
     and_then (verify_current_instance cr ae capabilities intent) (\<lambda>i.
     and_then (verify_dynamic_execution_gate i) (\<lambda>_.
     and_then (build_tool_output_validator ae capabilities intent) (\<lambda>validator.
     and_then (map_err DXE_AdapterRegistry (from_binding (cib_binding i))) (\<lambda>key.
     and_then (ok_or (DXE_AdapterNotRegistered (cib_instance_id i)) (bm_get adapters key)) (\<lambda>adapter.
     Inr \<lparr>et_intent = intent, et_material = material, et_instance = i, et_validator = validator, et_key = key,
          et_adapter = adapter\<rparr>))))))))))"

definition adapter_prepare ::
    "'a execution_ticket \<Rightarrow> ('a, 'f) executor_world
      \<Rightarrow> (direct_executor_error + 'a prepared_adapter_invocation) \<times> ('a, 'f) executor_world" where
  "adapter_prepare ticket w =
     (case ea_prepare (et_adapter ticket) (fst (rw_sink w)) (et_intent ticket) (et_instance ticket)
         (im_normalized_arguments (et_material ticket)) of
        (r, a) \<Rightarrow> (map_err DXE_AdapterPrepare r, w\<lparr>rw_sink := (a, snd (rw_sink w))\<rparr>))"

definition execute_arm ::
    "crypto \<Rightarrow> admission_env \<Rightarrow> protocol_env \<Rightarrow> 'f executor_host \<Rightarrow> capability_registry \<Rightarrow> 'a effect_adapter_registry \<Rightarrow> run_state
      \<Rightarrow> step_state \<Rightarrow> string \<Rightarrow> invocation_material option
      \<Rightarrow> ('a, 'f) executor_world \<Rightarrow> (direct_executor_error + drive_report) \<times> ('a, 'f) executor_world" where
  "execute_arm cr ae env host capabilities adapters state step step_id material w =
     rt_bind (rt_try (execution_gate cr ae (eh_max_attempts host) capabilities adapters (rw_store w) state step step_id
       material)) (\<lambda>ticket.
     rt_bind (adapter_prepare ticket) (\<lambda>invocation.
     run_runtime cr env host (no_sink\<lparr>ds_output_validator := et_validator ticket\<rparr>) step_id
       (Some \<lparr>pe_binding = from_verified state step_id (et_intent ticket) (im_record (et_material ticket)),
              pe_invocation = \<lparr>cp_adapter_key = et_key ticket, cp_invocation = invocation\<rparr>\<rparr>))) w"

definition reconcile_gate ::
    "crypto \<Rightarrow> admission_env \<Rightarrow> capability_registry \<Rightarrow> 'a effect_adapter_registry \<Rightarrow> effect_intent
      \<Rightarrow> direct_executor_error + 'a direct_sink" where
  "reconcile_gate cr ae capabilities adapters intent =
     and_then (verify_current_instance cr ae capabilities intent) (\<lambda>i.
     and_then (verify_dynamic_execution_gate i) (\<lambda>_.
     and_then (map_err DXE_AdapterRegistry (from_binding (cib_binding i))) (\<lambda>key.
     and_then (ok_or (DXE_AdapterNotRegistered (cib_instance_id i)) (bm_get adapters key)) (\<lambda>adapter.
     Inr \<lparr>ds_adapter = Some adapter, ds_reconciliation_instance = Some i, ds_output_validator = None\<rparr>))))"

definition reconcile_arm ::
    "crypto \<Rightarrow> admission_env \<Rightarrow> protocol_env \<Rightarrow> 'f executor_host \<Rightarrow> capability_registry \<Rightarrow> 'a effect_adapter_registry
      \<Rightarrow> step_state \<Rightarrow> string
      \<Rightarrow> ('a, 'f) executor_world \<Rightarrow> (direct_executor_error + drive_report) \<times> ('a, 'f) executor_world" where
  "reconcile_arm cr ae env host capabilities adapters step step_id =
     rt_bind (rt_try (step_intent_of step step_id)) (\<lambda>intent.
     rt_bind (rt_try (verify_receipt_provenance cr ae intent)) (\<lambda>_.
     if \<not> supports_query (ei_sink_guarantee intent) then drive_without_adapter cr env host step_id
     else
       rt_bind (rt_try (reconcile_gate cr ae capabilities adapters intent)) (\<lambda>sink.
       run_runtime cr env host sink step_id None)))"

definition direct_drive_step ::
    "crypto \<Rightarrow> admission_env \<Rightarrow> protocol_env \<Rightarrow> 'f executor_host \<Rightarrow> capability_registry \<Rightarrow> 'a effect_adapter_registry
      \<Rightarrow> string \<Rightarrow> invocation_material option
      \<Rightarrow> ('a, 'f) executor_world \<Rightarrow> (direct_executor_error + drive_report) \<times> ('a, 'f) executor_world" where
  "direct_drive_step cr ae env host capabilities adapters step_id material w =
     rt_bind (rt_try (ok_or DXE_RunNotInitialized (ms_load_current (rw_store w)))) (\<lambda>state.
     rt_bind (rt_try (executor_verify_lease (eh_lease_run_id host) state)) (\<lambda>_.
     rt_bind (rt_try (ok_or (DXE_StepNotFound step_id) (bm_get (rs_steps state) step_id))) (\<lambda>step.
     case ss_status step of
       IntentCommitted \<Rightarrow> execute_arm cr ae env host capabilities adapters state step step_id material
     | EffectUnknown \<Rightarrow> reconcile_arm cr ae env host capabilities adapters step step_id
     | Reconciling \<Rightarrow> reconcile_arm cr ae env host capabilities adapters step step_id
     | _ \<Rightarrow> drive_without_adapter cr env host step_id))) w"

end
