(* ===== verification/Material_Recovery.thy ===== *)
theory Material_Recovery
  imports Direct_Executor
begin

text \<open>
  \<open>crates/xgeny-runtime/src/material.rs\<close>: the registry of material providers, the reconstruction of
  invocation arguments after a restart, before and after admission, and the durable closing of an
  intent whose material is lost. A provider is a parameter, a function over a state \<open>'m\<close> of its own.
\<close>

datatype material_provider_failure = MPF_Unavailable | MPF_NotFound | MPF_RevisionChanged | MPF_UnsupportedVersion

type_synonym 'm material_provider = "'m \<Rightarrow> string \<Rightarrow> string \<Rightarrow> (material_provider_failure + json) \<times> 'm"

type_synonym 'm material_provider_registry = "(string, 'm material_provider) btreemap"

datatype material_provider_registry_error = MPE_InvalidProviderId | MPE_DuplicateProvider

definition validate_provider_id :: "string \<Rightarrow> material_provider_registry_error + unit" where
  "validate_provider_id provider_id =
     reject_if (provider_id = [] \<or> provider_id \<in> {''.'', ''..''} \<or> length provider_id > 128
         \<or> \<not> list_all (\<lambda>b. is_ascii_alphanumeric b \<or> b \<in> set ''._-'') provider_id) MPE_InvalidProviderId"

definition register_provider ::
    "'m material_provider_registry \<Rightarrow> string \<Rightarrow> 'm material_provider
      \<Rightarrow> material_provider_registry_error + 'm material_provider_registry" where
  "register_provider providers provider_id provider =
     and_then (validate_provider_id provider_id) (\<lambda>_.
     and_then (reject_if (bm_contains_key providers provider_id) MPE_DuplicateProvider) (\<lambda>_.
     Inr (bm_insert provider_id provider providers)))"

datatype (plugins only:) material_recovery_error =
    MRE_Store store_error
  | MRE_EventFactory string
  | MRE_Admission admission_error
  | MRE_InvocationResolution invocation_resolution_error
  | MRE_MaterialRecord invocation_material_error
  | MRE_PlanningContract planning_contract_error
  | MRE_RunNotInitialized
  | MRE_StepNotFound string
  | MRE_IntentMissing string
  | MRE_StepNotIntentCommitted string step_status
  | MRE_StepNotPlanned string step_status
  | MRE_PlannedInvocationMissing string
  | MRE_PlannedInputRecordMissing string
  | MRE_MaterialRecordMissing string
  | MRE_EphemeralMaterialUnavailable
  | MRE_NotEphemeral
  | MRE_ProviderNotRegistered
  | MRE_Provider material_provider_failure
  | MRE_DefinitionNotFound string string
  | MRE_DefinitionChanged
  | MRE_InstanceNotFound string
  | MRE_InstanceBindingChanged
  | MRE_MaterialDigestMismatch
  | MRE_ActionDigestMismatch
  | MRE_LeaseRunMismatch string string

definition into_ephemeral_material :: "crypto \<Rightarrow> admitted_effect \<Rightarrow> material_recovery_error + invocation_material" where
  "into_ephemeral_material cr admitted =
     and_then (reject_if (imr_retention (ad_material_record admitted) \<noteq> Ephemeral) MRE_NotEphemeral) (\<lambda>_.
     and_then (map_err MRE_MaterialRecord (invocation_material_digest cr (ad_normalized_arguments admitted))) (\<lambda>actual.
     and_then (reject_if (actual \<noteq> imr_material_digest (ad_material_record admitted)) MRE_MaterialDigestMismatch) (\<lambda>_.
     Inr \<lparr>im_record = ad_material_record admitted, im_normalized_arguments = ad_normalized_arguments admitted\<rparr>)))"

definition recovery_verify_lease :: "string \<Rightarrow> string \<Rightarrow> material_recovery_error + unit" where
  "recovery_verify_lease lease_run_id run_id =
     reject_if (lease_run_id \<noteq> run_id) (MRE_LeaseRunMismatch lease_run_id run_id)"

definition recovery_step :: "run_state \<Rightarrow> string \<Rightarrow> material_recovery_error + step_state" where
  "recovery_step state step_id = ok_or (MRE_StepNotFound step_id) (bm_get (rs_steps state) step_id)"

definition reconstruct_material ::
    "'m material_provider_registry \<Rightarrow> reconstructable_material_reference \<Rightarrow> 'm \<Rightarrow> (material_recovery_error + json) \<times> 'm" where
  "reconstruct_material providers reference m =
     (case bm_get providers (rmr_provider_id reference) of
        None \<Rightarrow> (Inl MRE_ProviderNotRegistered, m)
      | Some provider \<Rightarrow>
          (case provider m (rmr_reference_id reference) (rmr_revision reference) of
             (r, m') \<Rightarrow> (map_err MRE_Provider r, m')))"

section \<open>Before admission\<close>

definition planned_recovery_reference ::
    "crypto \<Rightarrow> admission_env \<Rightarrow> string \<Rightarrow> capability_registry \<Rightarrow> memory_run_store \<Rightarrow> string \<Rightarrow> route_request
      \<Rightarrow> material_recovery_error + reconstructable_material_reference" where
  "planned_recovery_reference cr ae lease_run_id registry st step_id q =
     and_then (ok_or MRE_RunNotInitialized (ms_load_current st)) (\<lambda>state.
     and_then (recovery_verify_lease lease_run_id (rs_run_id state)) (\<lambda>_.
     and_then (recovery_step state step_id) (\<lambda>step.
     and_then (reject_if (ss_status step \<noteq> Planned) (MRE_StepNotPlanned step_id (ss_status step))) (\<lambda>_.
     and_then (map_err MRE_Admission (require_admission_ready_step state step_id)) (\<lambda>_.
     and_then (map_err MRE_Admission (verify_planned_route_binding state step_id q)) (\<lambda>_.
     and_then (map_err MRE_Admission (verify_planned_definition_binding cr ae state step_id registry)) (\<lambda>_.
     and_then (ok_or (MRE_PlannedInvocationMissing step_id) (ss_planned_invocation step)) (\<lambda>binding.
     and_then (map_err MRE_Store (ms_load_planned_invocation cr st step_id)) (\<lambda>loaded.
     and_then (ok_or (MRE_PlannedInputRecordMissing step_id) loaded) (\<lambda>input.
     and_then (map_err MRE_PlanningContract (material_verify_for cr input (rs_run_id state) step_id binding)) (\<lambda>_.
     Inr (pimr_reference input))))))))))))"

definition prepare_planned_admission ::
    "crypto \<Rightarrow> admission_env \<Rightarrow> json_pointers \<Rightarrow> resource_resolver \<Rightarrow> string \<Rightarrow> capability_registry
      \<Rightarrow> 'm material_provider_registry \<Rightarrow> memory_run_store \<Rightarrow> string \<Rightarrow> route_request
      \<Rightarrow> 'm \<Rightarrow> (material_recovery_error + pending_invocation) \<times> 'm" where
  "prepare_planned_admission cr ae jp resolve lease_run_id registry providers st step_id q =
     rt_bind (rt_try (planned_recovery_reference cr ae lease_run_id registry st step_id q)) (\<lambda>reference.
     rt_bind (reconstruct_material providers reference) (\<lambda>reconstructed.
     rt_try (map_err MRE_Admission (prepare cr ae jp resolve lease_run_id registry st
       \<lparr>aq_step_id = step_id, aq_route = q, aq_arguments = reconstructed\<rparr>))))"

section \<open>After admission\<close>

record recovery_subject =
  ry_state :: run_state
  ry_intent :: effect_intent
  ry_record :: invocation_material_record
  ry_reference :: reconstructable_material_reference
  ry_definition :: capability_definition_body

definition recovery_gate ::
    "crypto \<Rightarrow> admission_env \<Rightarrow> string \<Rightarrow> capability_registry \<Rightarrow> memory_run_store \<Rightarrow> string
      \<Rightarrow> material_recovery_error + recovery_subject" where
  "recovery_gate cr ae lease_run_id registry st step_id =
     and_then (ok_or MRE_RunNotInitialized (ms_load_current st)) (\<lambda>state.
     and_then (recovery_verify_lease lease_run_id (rs_run_id state)) (\<lambda>_.
     and_then (recovery_step state step_id) (\<lambda>step.
     and_then (reject_if (ss_status step \<noteq> IntentCommitted) (MRE_StepNotIntentCommitted step_id (ss_status step))) (\<lambda>_.
     and_then (ok_or (MRE_IntentMissing step_id) (ss_intent step)) (\<lambda>intent.
     and_then (map_err MRE_Store (ms_load_invocation_material cr st (ei_effect_id intent))) (\<lambda>loaded.
     and_then (ok_or (MRE_MaterialRecordMissing (ei_effect_id intent)) loaded) (\<lambda>r.
     and_then (map_err MRE_MaterialRecord (material_record_verify_for cr r (rs_run_id state) step_id intent)) (\<lambda>_.
     and_then (case imr_retention r of ReconstructableReference reference \<Rightarrow> Inr reference
       | Ephemeral \<Rightarrow> Inl MRE_EphemeralMaterialUnavailable) (\<lambda>reference.
     let capability = intent_capability intent in
     and_then (ok_or (MRE_DefinitionNotFound (cf_capability_id capability) (cf_contract_version capability))
       (registry_definition registry capability)) (\<lambda>d.
     and_then (map_err MRE_Admission (definition_contract_digest cr ae d)) (\<lambda>definition_digest.
     and_then (reject_if (definition_digest \<noteq> ib_definition_digest (ei_invocation intent)) MRE_DefinitionChanged) (\<lambda>_.
     and_then (ok_or (MRE_InstanceNotFound (ib_instance_id (ei_invocation intent)))
       (registry_instance registry (ib_instance_id (ei_invocation intent)))) (\<lambda>i.
     and_then (reject_if (cib_definition i \<noteq> capability) MRE_InstanceBindingChanged) (\<lambda>_.
     and_then (map_err MRE_Admission (executable_binding_digest cr ae i)) (\<lambda>binding_digest.
     and_then (reject_if (binding_digest \<noteq> ib_instance_binding_digest (ei_invocation intent))
       MRE_InstanceBindingChanged) (\<lambda>_.
     Inr \<lparr>ry_state = state, ry_intent = intent, ry_record = r, ry_reference = reference, ry_definition = d\<rparr>))))))))))))))))"

definition revalidate_material ::
    "crypto \<Rightarrow> admission_env \<Rightarrow> json_pointers \<Rightarrow> resource_resolver \<Rightarrow> string \<Rightarrow> recovery_subject \<Rightarrow> json
      \<Rightarrow> material_recovery_error + invocation_material" where
  "revalidate_material cr ae jp resolve step_id y reconstructed =
     (let d = ry_definition y; r = ry_record y; intent = ry_intent y in
      and_then (map_err MRE_Admission (validate_arguments cr ae d reconstructed)) (\<lambda>_.
      and_then (map_err MRE_InvocationResolution (resolve_invocation jp resolve
        (''material-recovery-'' @ imr_material_id r) (rs_run_id (ry_state y)) step_id d reconstructed GL_Once)) (\<lambda>recovered.
      and_then (map_err MRE_Admission (validate_arguments cr ae d (rir_normalized_arguments recovered))) (\<lambda>_.
      and_then (map_err MRE_MaterialRecord (invocation_material_digest cr (rir_normalized_arguments recovered))) (\<lambda>digest.
      and_then (reject_if (digest \<noteq> imr_material_digest r) MRE_MaterialDigestMismatch) (\<lambda>_.
      and_then (map_err MRE_Admission (semantic_action_digest cr ae (intent_capability intent)
        (ib_definition_digest (ei_invocation intent)) (ce_class (cs_effect (cdb_spec d)))
        (rir_normalized_arguments recovered) (rir_permission_request recovered))) (\<lambda>semantic.
      and_then (map_err MRE_Admission (planned_action_digest cr ae (ry_state y) step_id semantic)) (\<lambda>action_digest.
      and_then (reject_if (action_digest \<noteq> ei_action_digest intent \<or> action_digest \<noteq> imr_action_digest r)
        MRE_ActionDigestMismatch) (\<lambda>_.
      Inr \<lparr>im_record = r, im_normalized_arguments = rir_normalized_arguments recovered\<rparr>)))))))))"

definition recover ::
    "crypto \<Rightarrow> admission_env \<Rightarrow> json_pointers \<Rightarrow> resource_resolver \<Rightarrow> string \<Rightarrow> capability_registry
      \<Rightarrow> 'm material_provider_registry \<Rightarrow> memory_run_store \<Rightarrow> string
      \<Rightarrow> 'm \<Rightarrow> (material_recovery_error + invocation_material) \<times> 'm" where
  "recover cr ae jp resolve lease_run_id registry providers st step_id =
     rt_bind (rt_try (recovery_gate cr ae lease_run_id registry st step_id)) (\<lambda>y.
     rt_bind (reconstruct_material providers (ry_reference y)) (\<lambda>reconstructed.
     rt_try (revalidate_material cr ae jp resolve step_id y reconstructed)))"

definition mark_unavailable ::
    "crypto \<Rightarrow> protocol_env \<Rightarrow> ('f \<Rightarrow> run_state \<Rightarrow> (string + event_metadata) \<times> 'f) \<Rightarrow> string \<Rightarrow> string
      \<Rightarrow> invocation_material_unavailable_reason \<Rightarrow> memory_run_store \<times> 'f
      \<Rightarrow> (material_recovery_error + commit) \<times> memory_run_store \<times> 'f" where
  "mark_unavailable cr env factory lease_run_id step_id reason w =
     rt_bind (rt_try (ok_or MRE_RunNotInitialized (ms_load_current (fst w)))) (\<lambda>state.
     rt_bind (rt_try (recovery_verify_lease lease_run_id (rs_run_id state))) (\<lambda>_.
     rt_bind (rt_try (recovery_step state step_id)) (\<lambda>step.
     rt_bind (rt_try (ok_or (MRE_IntentMissing step_id) (ss_intent step))) (\<lambda>intent.
     rt_bind (\<lambda>(st, f). case factory f state of (r, f') \<Rightarrow> (map_err MRE_EventFactory r, st, f')) (\<lambda>metadata.
     (\<lambda>(st, f). case ms_append cr env st (expected_head_from_state state)
          (runtime_event state metadata (InvocationMaterialUnavailable step_id (ei_effect_id intent) reason)) of
        Inl e \<Rightarrow> (Inl (MRE_Store e), st, f) | Inr (c, st') \<Rightarrow> (Inr c, st', f))))))) w"

end
