(* ===== verification/Runtime_Properties.thy ===== *)
theory Runtime_Properties
  imports Effect_Runtime
begin

text \<open>
  The effect runtime over the store: a call to the sink is always preceded by its durable start
  record, an effect is executed once, plus once for each reconciliation that proved it was not
  applied, whatever fails in between, and the report of a drive is the durable state.
\<close>

section \<open>Steps carry their own identifier\<close>

interpretation keyed: step_invariant cr "\<lambda>_ v st. ss_step_id st = v" for cr
proof unfold_locales
  fix v r st st'
  assume "ss_step_id st = v" and "lifecycle v (body_of r) st st'"
  from this(2,1) show "ss_step_id st' = v" by (cases rule: lifecycle.cases) simp_all
qed (simp_all add: new_step_def)

section \<open>Runtime operations\<close>

lemma rt_bind_cases:
  assumes "rt_bind m k w = (r, w')"
  obtains (failed) e where "m w = (Inl e, w')" and "r = Inl e"
  | (continued) x w1 where "m w = (Inr x, w1)" and "k x w1 = (r, w')"
  using assms by (auto simp: rt_bind_def split: prod.splits sum.splits)

lemma rt_try_iff [simp]: "rt_try q w = (r, w') \<longleftrightarrow> r = q \<and> w' = w"
  by (auto simp: rt_try_def)

lemma rt_bind_try [simp]:
  "rt_bind (rt_try (Inr x)) k w = k x w"
  "rt_bind (rt_try (Inl e)) k w = (Inl e, w)"
  by (simp_all add: rt_bind_def rt_try_def)

lemma rt_bind_try_cases:
  assumes "rt_bind (rt_try q) k w = (r, w')"
  obtains (failed) e where "q = Inl e" and "r = Inl e" and "w' = w"
  | (continued) x where "q = Inr x" and "k x w = (r, w')"
  using assms by (cases q) auto

definition quiet :: "('w, 'f) runtime_world \<Rightarrow> ('w, 'f) runtime_world \<Rightarrow> bool" where
  "quiet w w' \<longleftrightarrow> rw_store w' = rw_store w \<and> rw_sink w' = rw_sink w \<and> rw_calls w' = rw_calls w"

lemma create_metadata_quiet: "create_metadata ports s w = (r, w') \<Longrightarrow> quiet w w'"
  by (auto simp: create_metadata_def quiet_def split: prod.splits)

definition appended ::
    "crypto \<Rightarrow> protocol_env \<Rightarrow> run_event_body \<Rightarrow> ('w, 'f) runtime_world \<Rightarrow> commit \<Rightarrow> ('w, 'f) runtime_world \<Rightarrow> bool" where
  "appended cr env body w c w' \<longleftrightarrow> ms_appends cr env (rw_store w) (index_head (ms_index (rw_store w))) c (rw_store w')
     \<and> body_of (cm_record c) = body \<and> ms_load_current (rw_store w') = Some (cm_state c)
     \<and> rw_sink w' = rw_sink w \<and> rw_calls w' = rw_calls w"

definition finished ::
    "crypto \<Rightarrow> protocol_env \<Rightarrow> run_event_body \<Rightarrow> drive_action \<Rightarrow> ('w, 'f) runtime_world
      \<Rightarrow> runtime_error + drive_report \<Rightarrow> ('w, 'f) runtime_world \<Rightarrow> bool" where
  "finished cr env body action w r w' \<longleftrightarrow> (\<exists>e. r = Inl e) \<and> quiet w w'
     \<or> (\<exists>c. appended cr env body w c w' \<and> r = Inr \<lparr>dr_action = action, dr_state = cm_state c\<rparr>)"

lemma store_appended:
  assumes "ms_append cr env (rw_store w) h ev = Inr (c, rw_store w') \<or>
      ms_append_with_tool_output cr env (rw_store w) h ev q = Inr (c, rw_store w')"
    and "store_ok cr env (rw_store w)" and "rw_sink w' = rw_sink w" and "rw_calls w' = rw_calls w"
  shows "appended cr env (re_body ev) w c w'"
proof -
  have "ms_appends cr env (rw_store w) h c (rw_store w')" using assms(1) unfolding ms_appends_def by blast
  moreover from assms(2) this obtain sc an where "h = index_head (ms_index (rw_store w))"
    "commits cr env (rw_store w) c sc an (rw_store w')" by (rule store_ok_append)
  moreover have "er_event (cm_record c) = ev"
    using assms(1) by (auto simp: ms_append_def ms_append_with_tool_output_def ms_commit_def Let_def result_simps
        dest: prepare_commit_Inr(2))
  ultimately show ?thesis using assms(3,4) by (simp add: appended_def commits_def ms_load_current_def)
qed

lemma append_event_cases:
  assumes "append_event cr env ports s body w = (r, w')" and "store_ok cr env (rw_store w)"
  obtains (refused) e where "r = Inl e" and "quiet w w'"
  | (committed) c where "r = Inr c" and "appended cr env body w c w'"
  using assms(1) unfolding append_event_def
proof (cases rule: rt_bind_cases)
  case (failed e)
  then show thesis using create_metadata_quiet refused by blast
next
  case (continued m w1)
  have q: "quiet w w1" using continued(1) by (rule create_metadata_quiet)
  from continued(2) show thesis
  proof (cases rule: rt_bind_try_cases)
    case (failed e)
    then show thesis using q refused by blast
  next
    case (continued u)
    let ?ev = "runtime_event s m body"
    show thesis
    proof (cases "ms_append cr env (rw_store w1) (expected_head_from_state s) ?ev")
      case (Inl e)
      then show thesis using continued(2) q refused by (auto simp: store_commit_def)
    next
      case (Inr p)
      then obtain c st where "ms_append cr env (rw_store w1) (expected_head_from_state s) ?ev = Inr (c, st)" by (cases p) simp
      then have "r = Inr c" "appended cr env (re_body ?ev) w c w'"
        using continued(2) q assms(2) by (auto simp: store_commit_def quiet_def intro!: store_appended)
      then show thesis using committed by (simp add: runtime_event_def)
    qed
  qed
qed

lemma commit_report_finished:
  assumes "commit_report cr env ports s body action w = (r, w')" and "store_ok cr env (rw_store w)"
  shows "finished cr env body action w r w'"
  using assms(1) unfolding commit_report_def
proof (cases rule: rt_bind_cases)
  case (failed e)
  from failed(1) assms(2) show ?thesis by (cases rule: append_event_cases) (simp_all add: finished_def failed(2))
next
  case (continued c w1)
  from continued(1) assms(2) show ?thesis
    using continued(2) by (cases rule: append_event_cases) (auto simp: finished_def)
qed

lemma commit_tool_output_report_finished:
  assumes "commit_tool_output_report cr env ports s body action q w = (r, w')" and "store_ok cr env (rw_store w)"
  shows "finished cr env body action w r w'"
  using assms(1) unfolding commit_tool_output_report_def
proof (cases rule: rt_bind_cases)
  case (failed e)
  then show ?thesis using create_metadata_quiet by (auto simp: finished_def)
next
  case (continued m w1)
  have q: "quiet w w1" using continued(1) by (rule create_metadata_quiet)
  from continued(2) show ?thesis
  proof (cases rule: rt_bind_try_cases)
    case (failed e)
    then show ?thesis using q by (simp add: finished_def)
  next
    case (continued u)
    let ?ev = "runtime_event s m body"
    show ?thesis
    proof (cases "ms_append_with_tool_output cr env (rw_store w1) (expected_head_from_state s) ?ev q")
      case (Inl e)
      then show ?thesis using continued(2) q by (auto simp: store_commit_def rt_bind_def finished_def)
    next
      case (Inr p)
      then obtain c st where "ms_append_with_tool_output cr env (rw_store w1) (expected_head_from_state s) ?ev q = Inr (c, st)"
        by (cases p) simp
      then have "r = Inr \<lparr>dr_action = action, dr_state = cm_state c\<rparr>" "appended cr env (re_body ?ev) w c w'"
        using continued(2) q assms(2)
        by (auto simp: store_commit_def rt_bind_def rt_try_def quiet_def intro!: store_appended)
      then show ?thesis by (auto simp: runtime_event_def finished_def)
    qed
  qed
qed

section \<open>Driving one step\<close>

definition outcome_event :: "string \<Rightarrow> effect_intent \<Rightarrow> run_event_body \<Rightarrow> drive_action \<Rightarrow> bool" where
  "outcome_event v i body action \<longleftrightarrow>
     (\<exists>ev d. body = EffectSucceeded v (ei_effect_id i) ev d \<and> action = DA_EffectSucceeded)
     \<or> (\<exists>ev. body = EffectFailed v (ei_effect_id i) ev \<and> action = DA_EffectFailed)
     \<or> (\<exists>why. body = EffectBecameUnknown v (ei_effect_id i) why \<and> action = DA_EffectUnknown)"

definition resolution_event :: "string \<Rightarrow> effect_intent \<Rightarrow> run_event_body \<Rightarrow> drive_action \<Rightarrow> bool" where
  "resolution_event v i body action \<longleftrightarrow>
     (\<exists>ev. body = ReconciliationResolved v (ei_effect_id i) ProvedApplied ev \<and> action = DA_ReconciliationApplied)
     \<or> (\<exists>ev. body = ReconciliationResolved v (ei_effect_id i) ProvedNotApplied ev \<and> action = DA_ReconciliationNotApplied)
     \<or> (\<exists>ev. body = ReconciliationResolved v (ei_effect_id i) ReconcileFailed ev \<and> action = DA_ReconciliationFailed)
     \<or> (\<exists>why. body = ManualInterventionRequired v (ei_effect_id i) why \<and> action = DA_ManualRequired)"

lemma classified_outcome:
  assumes "classify_execution_observation cr s x i req obs = Inr p"
  shows "outcome_event (ss_step_id x) i (pec_body p) (pec_action p)"
  using assms
  by (auto simp: classify_execution_observation_def classify_output_success_def outcome_event_def pending_succeeded_def
      pending_failed_def pending_unknown_def result_simps split: execution_observation.splits if_splits sum.splits)

lemma classified_resolution:
  assumes "classify_reconciliation x i obs = Inr (body, action)"
  shows "resolution_event (ss_step_id x) i body action"
  using assms
  by (auto simp: classify_reconciliation_def resolution_event_def result_simps split: reconciliation_observation.splits)

text \<open>What follows a call to the sink: nothing more, or one record that states its outcome.\<close>

definition settled ::
    "crypto \<Rightarrow> protocol_env \<Rightarrow> (run_event_body \<Rightarrow> drive_action \<Rightarrow> bool) \<Rightarrow> ('w, 'f) runtime_world
      \<Rightarrow> runtime_error + drive_report \<Rightarrow> ('w, 'f) runtime_world \<Rightarrow> bool" where
  "settled cr env P w r w' \<longleftrightarrow> (\<exists>e. r = Inl e) \<and> quiet w w' \<or> (\<exists>body action. P body action \<and> finished cr env body action w r w')"

definition called :: "sink_call \<Rightarrow> 'w \<Rightarrow> ('w, 'f) runtime_world \<Rightarrow> ('w, 'f) runtime_world \<Rightarrow> bool" where
  "called k u w w' \<longleftrightarrow> rw_store w' = rw_store w \<and> rw_calls w' = rw_calls w @ [k] \<and> rw_sink w' = u"

lemma quiet_refl [simp]: "quiet w w"
  by (simp add: quiet_def)

lemma sink_execute_iff [simp]:
  "sink_execute ports v i p w = (q, w') \<longleftrightarrow> (\<exists>obs u. po_execute ports (rw_sink w) i p = (obs, u) \<and> q = Inr obs
     \<and> w' = w\<lparr>rw_sink := u, rw_calls := rw_calls w @ [CallExecute v i]\<rparr>)"
  by (auto simp: sink_execute_def split: prod.splits)

lemma sink_reconcile_iff [simp]:
  "sink_reconcile ports i w = (q, w') \<longleftrightarrow> (\<exists>obs u. po_reconcile ports (rw_sink w) i = (obs, u) \<and> q = Inr obs
     \<and> w' = w\<lparr>rw_sink := u, rw_calls := rw_calls w @ [CallReconcile i]\<rparr>)"
  by (auto simp: sink_reconcile_def split: prod.splits)

lemma after_execution:
  assumes "classify_execution_observation cr s x i req obs = Inr p" and "store_ok cr env (rw_store w)"
    and "(case pec_output p of
        Some q \<Rightarrow> commit_tool_output_report cr env ports s (pec_body p) (pec_action p) q
      | None \<Rightarrow> commit_report cr env ports s (pec_body p) (pec_action p)) w = (r, w')"
  shows "settled cr env (outcome_event (ss_step_id x) i) w r w'"
proof -
  have "finished cr env (pec_body p) (pec_action p) w r w'"
    using assms(2,3) commit_report_finished commit_tool_output_report_finished by (fastforce split: option.splits)
  then show ?thesis using classified_outcome [OF assms(1)] by (auto simp: settled_def)
qed

lemma append_event_Inl: "append_event cr env ports s body w = (Inl e, w') \<Longrightarrow> quiet w w'"
  by (auto simp: append_event_def store_commit_def elim!: rt_bind_cases rt_bind_try_cases dest!: create_metadata_quiet
      split: sum.splits prod.splits)

lemma execute_intent_cases:
  assumes "execute_intent cr env ports s x prepared w = (r, w')" and "store_ok cr env (rw_store w)"
  obtains (refused) e where "r = Inl e" and "quiet w w'"
  | (executed) i c w1 w2 p where "ss_intent x = Some i" and "ss_attempts x < po_max_attempts ports"
      and "appended cr env (EffectExecutionStarted (ss_step_id x) (ei_effect_id i)) w c w1"
      and "called (CallExecute (ss_step_id x) i) (snd (po_execute ports (rw_sink w) i (pe_invocation p))) w1 w2"
      and "settled cr env (outcome_event (ss_step_id x) i) w2 r w'" and "prepared = Some p"
proof -
  have run: thesis if i: "ss_intent x = Some i" and n: "ss_attempts x < po_max_attempts ports" and p: "prepared = Some p"
    and a: "append_event cr env ports s (EffectExecutionStarted (ss_step_id x) (ei_effect_id i)) w = (Inr c, w1)"
    and u: "po_execute ports (rw_sink w1) i (pe_invocation p) = (obs, u)"
    and w2: "w2 = w1\<lparr>rw_sink := u, rw_calls := rw_calls w1 @ [CallExecute (ss_step_id x) i]\<rparr>"
    and k: "store_ok cr env (rw_store w2) \<Longrightarrow> settled cr env (outcome_event (ss_step_id x) i) w2 r w'" for i c w1 w2 u p obs
  proof -
    from a assms(2) have ap: "appended cr env (EffectExecutionStarted (ss_step_id x) (ei_effect_id i)) w c w1"
      by (cases rule: append_event_cases) simp_all
    then have "store_ok cr env (rw_store w2)"
      using assms(2) by (auto simp: appended_def w2 elim: store_ok_append)
    then have "settled cr env (outcome_event (ss_step_id x) i) w2 r w'" by (rule k)
    moreover have "rw_sink w1 = rw_sink w" using ap by (simp add: appended_def)
    ultimately show thesis using executed [OF i n ap, of p w2] u p by (simp add: called_def w2)
  qed
  show thesis
    using assms(1) unfolding execute_intent_def Let_def
    apply (elim rt_bind_try_cases rt_bind_cases)
    subgoal using refused by simp
    subgoal using refused by simp
    subgoal using refused by simp
    subgoal using refused by simp
    subgoal using refused by simp
    subgoal using refused by simp
    subgoal using refused by simp
    subgoal using refused by (auto dest: append_event_Inl)
    subgoal by simp
    subgoal by (auto simp: require_intent_def result_simps not_le settled_def intro: run)
    subgoal by (auto simp: require_intent_def result_simps not_le intro!: run elim: after_execution)
    done
qed

lemma finish_reconciliation_cases:
  assumes "finish_reconciliation cr env ports s x w = (r, w')" and "store_ok cr env (rw_store w)"
  obtains (refused) e where "r = Inl e" and "quiet w w'"
  | (manual) i why where "ss_intent x = Some i" and "\<not> supports_query (ei_sink_guarantee i)"
      and "finished cr env (ManualInterventionRequired (ss_step_id x) (ei_effect_id i) why) DA_ManualRequired w r w'"
  | (queried) i w1 where "ss_intent x = Some i" and "supports_query (ei_sink_guarantee i)"
      and "called (CallReconcile i) (snd (po_reconcile ports (rw_sink w) i)) w w1" and "settled cr env (resolution_event (ss_step_id x) i) w1 r w'"
proof (cases "ss_intent x")
  case None
  then show thesis using assms(1) refused by (auto simp: finish_reconciliation_def require_intent_def)
next
  case (Some i)
  show thesis
  proof (cases "supports_query (ei_sink_guarantee i)")
    case False
    then show thesis
      using assms manual [OF Some] commit_report_finished by (fastforce simp: finish_reconciliation_def require_intent_def Some)
  next
    case True
    obtain obs u where obs: "po_reconcile ports (rw_sink w) i = (obs, u)" by (cases "po_reconcile ports (rw_sink w) i")
    define w1 where "w1 = w\<lparr>rw_sink := u, rw_calls := rw_calls w @ [CallReconcile i]\<rparr>"
    have "rt_bind (sink_reconcile ports i) (\<lambda>observation.
       rt_bind (rt_try (classify_reconciliation x i observation)) (\<lambda>(body, action).
       commit_report cr env ports s body action)) w = (r, w')"
      using assms(1) True by (simp add: finish_reconciliation_def require_intent_def Some)
    then have "rt_bind (rt_try (classify_reconciliation x i obs)) (\<lambda>(body, action). commit_report cr env ports s body action) w1
        = (r, w')"
      by (auto simp: obs w1_def elim: rt_bind_cases)
    moreover have "store_ok cr env (rw_store w1)" using assms(2) by (simp add: w1_def)
    ultimately have "settled cr env (resolution_event (ss_step_id x) i) w1 r w'"
      by (auto simp: settled_def dest: classified_resolution commit_report_finished elim!: rt_bind_try_cases)
    then show thesis using queried [OF Some True, of w1] by (simp add: called_def w1_def obs)
  qed
qed

lemma begin_reconciliation_cases:
  assumes "begin_reconciliation cr env ports s x w = (r, w')" and "store_ok cr env (rw_store w)"
  obtains (refused) e where "r = Inl e" and "quiet w w'"
  | (manual) i why where "ss_intent x = Some i" and "\<not> supports_query (ei_sink_guarantee i)"
      and "finished cr env (ManualInterventionRequired (ss_step_id x) (ei_effect_id i) why) DA_ManualRequired w r w'"
  | (started) i c w1 where "ss_intent x = Some i" and "supports_query (ei_sink_guarantee i)"
      and "appended cr env (ReconciliationStarted (ss_step_id x) (ei_effect_id i)) w c w1"
      and "(\<exists>e. r = Inl e) \<and> w' = w1 \<or> (\<exists>y. bm_get (rs_steps (cm_state c)) (ss_step_id x) = Some y
          \<and> finish_reconciliation cr env ports (cm_state c) y w1 = (r, w'))"
proof (cases "ss_intent x")
  case None
  then show thesis using assms(1) refused by (auto simp: begin_reconciliation_def require_intent_def)
next
  case (Some i)
  show thesis
  proof (cases "supports_query (ei_sink_guarantee i)")
    case False
    then show thesis
      using assms manual [OF Some] commit_report_finished by (fastforce simp: begin_reconciliation_def require_intent_def Some)
  next
    case True
    then have "rt_bind (append_event cr env ports s (ReconciliationStarted (ss_step_id x) (ei_effect_id i))) (\<lambda>c.
       rt_bind (rt_try (ok_or (RTE_StepNotFound (ss_step_id x)) (bm_get (rs_steps (cm_state c)) (ss_step_id x)))) (\<lambda>y.
       finish_reconciliation cr env ports (cm_state c) y)) w = (r, w')"
      using assms(1) by (simp add: begin_reconciliation_def require_intent_def Some)
    then show thesis
    proof (cases rule: rt_bind_cases)
      case (failed e)
      from failed(1) assms(2) show thesis using failed(2) refused by (cases rule: append_event_cases) auto
    next
      case (continued c w1)
      from continued(1) assms(2) have "appended cr env (ReconciliationStarted (ss_step_id x) (ei_effect_id i)) w c w1"
        by (cases rule: append_event_cases) auto
      then show thesis
        using continued(2) started [OF Some True] by (elim rt_bind_try_cases) (auto simp: result_simps)
    qed
  qed
qed

lemma drive_step_cases:
  assumes "drive_step cr env ports v prepared w = (r, w')"
  obtains (refused) e where "r = Inl e" and "quiet w w'"
  | (driven) s x where "ms_load_current (rw_store w) = Some s" and "rs_run_id s = po_lease_run_id ports"
      and "bm_get (rs_steps s) v = Some x"
      and "(case ss_status x of
          IntentCommitted \<Rightarrow> execute_intent cr env ports s x prepared
        | Executing \<Rightarrow> mark_recovered_execution_unknown cr env ports s x
        | EffectUnknown \<Rightarrow> begin_reconciliation cr env ports s x
        | Reconciling \<Rightarrow> finish_reconciliation cr env ports s x
        | _ \<Rightarrow> rt_try (Inr \<lparr>dr_action = DA_NoAction, dr_state = s\<rparr>)) w = (r, w')"
  using assms unfolding drive_step_def
  by (elim rt_bind_try_cases) (auto simp: result_simps verify_lease_def)

lemma recovered_cases:
  assumes "mark_recovered_execution_unknown cr env ports s x w = (r, w')" and "store_ok cr env (rw_store w)"
  obtains (refused) e where "r = Inl e" and "quiet w w'"
  | (recovered) i why where "ss_intent x = Some i"
      and "finished cr env (EffectBecameUnknown (ss_step_id x) (ei_effect_id i) why) DA_ExecutionRecoveredAsUnknown w r w'"
  using assms unfolding mark_recovered_execution_unknown_def
  by (elim rt_bind_try_cases) (auto simp: require_intent_def result_simps dest: commit_report_finished)

section \<open>The account of sink calls\<close>

definition executions :: "string \<Rightarrow> sink_call list \<Rightarrow> nat" where
  "executions v ks = length (filter (\<lambda>k. \<exists>i. k = CallExecute v i) ks)"

lemma executions_simps [simp]:
  "executions v [] = 0"
  "executions v (ks @ [CallExecute u i]) = executions v ks + (if u = v then 1 else 0)"
  "executions v (ks @ [CallReconcile i]) = executions v ks"
  by (simp_all add: executions_def)

definition accounted :: "crypto \<Rightarrow> protocol_env \<Rightarrow> ('w, 'f) runtime_world \<Rightarrow> bool" where
  "accounted cr env w \<longleftrightarrow> store_ok cr env (rw_store w)
     \<and> (\<forall>v i. CallExecute v i \<in> set (rw_calls w) \<longrightarrow>
          (\<exists>x. bm_get (index_steps (ms_index (rw_store w))) v = Some x \<and> ss_intent x = Some i))
     \<and> (\<forall>v. executions v (rw_calls w) \<le> count_events (starts_effect v) (ms_records (rw_store w)))"

lemma accounted_quiet: "accounted cr env w \<Longrightarrow> quiet w w' \<Longrightarrow> accounted cr env w'"
  by (simp add: accounted_def quiet_def)

lemma accounted_append:
  assumes "accounted cr env w" and "ms_appends cr env (rw_store w) h c (rw_store w')" and "rw_calls w' = rw_calls w"
  shows "accounted cr env w'" and "ms_records (rw_store w') = ms_records (rw_store w) @ [cm_record c]"
proof -
  have ok: "store_ok cr env (rw_store w)" "journal_ok cr (rw_store w)" using assms(1) by (simp_all add: accounted_def store_ok_def)
  from ok(1) assms(2) obtain sc an where c: "commits cr env (rw_store w) c sc an (rw_store w')" "store_ok cr env (rw_store w')"
    by (rule store_ok_append)
  show records: "ms_records (rw_store w') = ms_records (rw_store w) @ [cm_record c]" using c(1) by (simp add: commits_def)
  have "\<exists>y. bm_get (index_steps (ms_index (rw_store w'))) v = Some y \<and> ss_intent y = Some i"
    if call: "CallExecute v i \<in> set (rw_calls w')" for v i
  proof -
    obtain x where "bm_get (index_steps (ms_index (rw_store w))) v = Some x" "ss_intent x = Some i"
      using assms(1) call unfolding accounted_def assms(3) by blast
    then show ?thesis by (rule commits_keep_intents [OF c(1) ok(2)])
  qed
  moreover have "executions v (rw_calls w') \<le> count_events (starts_effect v) (ms_records (rw_store w'))" for v
    using assms(1,3) by (simp add: accounted_def records trans_le_add1)
  ultimately show "accounted cr env w'" using c(2) by (simp add: accounted_def)
qed

lemma accounted_finished: "accounted cr env w \<Longrightarrow> finished cr env body action w r w' \<Longrightarrow> accounted cr env w'"
  unfolding finished_def appended_def by (metis accounted_quiet accounted_append(1))

lemma accounted_settled: "accounted cr env w \<Longrightarrow> settled cr env P w r w' \<Longrightarrow> accounted cr env w'"
  unfolding settled_def by (metis accounted_quiet accounted_finished)

lemma accounted_query: "accounted cr env w \<Longrightarrow> called (CallReconcile i) u w w' \<Longrightarrow> accounted cr env w'"
  by (auto simp: accounted_def called_def)

lemma accounted_execute:
  assumes "accounted cr env w" and "appended cr env (EffectExecutionStarted v e) w c w1" and "called (CallExecute v i) u w1 w2"
    and "bm_get (index_steps (ms_index (rw_store w))) v = Some x" and "ss_intent x = Some i"
  shows "accounted cr env w2"
proof -
  have ap: "ms_appends cr env (rw_store w) (index_head (ms_index (rw_store w))) c (rw_store w1)"
    "rw_calls w1 = rw_calls w" "body_of (cm_record c) = EffectExecutionStarted v e"
    using assms(2) by (simp_all add: appended_def)
  note w1 = accounted_append [OF assms(1) ap(1,2)]
  have ok: "store_ok cr env (rw_store w)" "journal_ok cr (rw_store w)" using assms(1) by (simp_all add: accounted_def store_ok_def)
  from ok(1) ap(1) obtain sc an where "commits cr env (rw_store w) c sc an (rw_store w1)" by (rule store_ok_append)
  from commits_keep_intents [OF this ok(2) assms(4,5)]
  have "\<exists>y. bm_get (index_steps (ms_index (rw_store w2))) v = Some y \<and> ss_intent y = Some i"
    using assms(3) by (simp add: called_def)
  moreover have "executions u (rw_calls w2) \<le> count_events (starts_effect u) (ms_records (rw_store w2))" for u
    using assms(1,3) w1(2) ap(2,3) by (simp add: accounted_def called_def)
  ultimately show ?thesis
    using assms(3) w1(1) by (auto simp: accounted_def called_def)
qed

lemma current_step:
  assumes "store_ok cr env st" and "ms_load_current st = Some s" and "bm_get (rs_steps s) v = Some x"
  shows "bm_get (index_steps (ms_index st)) v = Some x" and "ss_step_id x = v" and "replay cr (ms_records st) = Inr s"
proof -
  have s: "vx_state (ms_index st) = Some s" "replay cr (ms_records st) = Inr s"
    using assms(1,2) by (auto simp: store_ok_def journal_ok_def ms_load_current_def)
  then show "bm_get (index_steps (ms_index st)) v = Some x" "replay cr (ms_records st) = Inr s"
    using assms(3) by (simp_all add: index_steps_def)
  show "ss_step_id x = v" using keyed.reachable [OF s(2)] assms(3) by blast
qed

lemma accounted_drive:
  assumes "drive_step cr env ports v prepared w = (r, w')" and "accounted cr env w"
  shows "accounted cr env w'"
  using assms(1)
proof (cases rule: drive_step_cases)
  case (refused e)
  then show ?thesis using assms(2) by (blast intro: accounted_quiet)
next
  case (driven s x)
  have ok: "store_ok cr env (rw_store w)" using assms(2) by (simp add: accounted_def)
  note x = current_step [OF ok driven(1,3)]
  have finish: "accounted cr env w2" if "finish_reconciliation cr env ports t y w1 = (r, w2)" "accounted cr env w1" for t y w1 w2
  proof -
    have "store_ok cr env (rw_store w1)" using that(2) by (simp add: accounted_def)
    with that(1) show ?thesis
      by (cases rule: finish_reconciliation_cases)
        (use that(2) in \<open>blast intro: accounted_quiet accounted_finished accounted_query accounted_settled\<close>)+
  qed
  show ?thesis
  proof (cases "ss_status x")
    case IntentCommitted
    then have "execute_intent cr env ports s x prepared w = (r, w')" using driven(4) by simp
    then show ?thesis
      using ok
    proof (cases rule: execute_intent_cases)
      case (executed i c w1 w2 p)
      have "accounted cr env w2" using assms(2) executed(3,4) x(1) executed(1) unfolding x(2) by (rule accounted_execute)
      then show ?thesis using executed(5) by (rule accounted_settled)
    qed (use assms(2) in \<open>blast intro: accounted_quiet\<close>)
  next
    case Executing
    then have "mark_recovered_execution_unknown cr env ports s x w = (r, w')" using driven(4) by simp
    then show ?thesis
      using ok by (cases rule: recovered_cases) (use assms(2) in \<open>blast intro: accounted_quiet accounted_finished\<close>)+
  next
    case EffectUnknown
    then have "begin_reconciliation cr env ports s x w = (r, w')" using driven(4) by simp
    then show ?thesis
      using ok
    proof (cases rule: begin_reconciliation_cases)
      case (started i c w1)
      have "accounted cr env w1"
        using accounted_append(1) [OF assms(2)] started(3) by (auto simp: appended_def)
      then show ?thesis using started(4) finish by blast
    qed (use assms(2) in \<open>blast intro: accounted_quiet accounted_finished\<close>)+
  next
    case Reconciling
    then show ?thesis using driven(4) finish assms(2) by simp
  qed (use driven(4) assms(2) in \<open>simp_all\<close>)
qed

section \<open>Reachable worlds\<close>

text \<open>
  A world is reached by booting on a store, by driving steps, whether the drive succeeds or fails at
  any of its points, by any other append to the store, and by restarting with another state of the
  outside world.
\<close>

inductive runtime_reached ::
    "crypto \<Rightarrow> protocol_env \<Rightarrow> ('w, 'f, 'p) effect_ports \<Rightarrow> ('w, 'f) runtime_world \<Rightarrow> bool" for cr env ports where
  booted: "store_built cr env (rw_store w) \<Longrightarrow> rw_calls w = [] \<Longrightarrow> runtime_reached cr env ports w"
| driven: "runtime_reached cr env ports w \<Longrightarrow> runtime_reached cr env ports (snd (drive_step cr env ports v prepared w))"
| other_append: "runtime_reached cr env ports w \<Longrightarrow> ms_appends cr env (rw_store w) h c st \<Longrightarrow>
    runtime_reached cr env ports (w\<lparr>rw_store := st\<rparr>)"
| restarted: "runtime_reached cr env ports w \<Longrightarrow> runtime_reached cr env ports (w\<lparr>rw_sink := u, rw_events := f\<rparr>)"

lemma reached_accounted: "runtime_reached cr env ports w \<Longrightarrow> accounted cr env w"
proof (induction rule: runtime_reached.induct)
  case (booted w)
  then show ?case by (simp add: accounted_def store_built_ok)
next
  case (driven w v prepared)
  show ?case using driven(2) by (rule accounted_drive [rotated]) (rule prod.collapse [symmetric])
next
  case (other_append w h c st)
  then show ?case using accounted_append(1) [of cr env w h c "w\<lparr>rw_store := st\<rparr>"] by simp
next
  case (restarted w u f)
  then show ?case by (simp add: accounted_def)
qed

section \<open>A concrete runtime\<close>

definition sample_ports :: "(nat, nat, unit) effect_ports" where
  "sample_ports = \<lparr>po_execute = \<lambda>n _ _. (EO_Succeeded ''d'', Suc n), po_reconcile = \<lambda>n _. (RO_NotApplied ''d'', n),
     po_metadata = \<lambda>n _. (Inr \<lparr>em_event_id = replicate n CHR ''x'', em_recorded_at = ''t''\<rparr>, Suc n),
     po_lease_run_id = ''r'', po_max_attempts = 3\<rparr>"

definition sample_world :: "(nat, nat) runtime_world" where
  "sample_world = \<lparr>rw_store = sample_store2, rw_sink = 0, rw_events = 0, rw_calls = []\<rparr>"

lemma sample_reached: "runtime_reached sample_crypto sample_env sample_ports sample_world"
  using sample_built(2) by (intro booted) (simp_all add: sample_world_def)

lemma sample_drive:
  "drive_step sample_crypto sample_env sample_ports ''a'' None sample_world =
     (Inr \<lparr>dr_action = DA_NoAction, dr_state = cm_state sample_commit2\<rparr>, sample_world)"
proof -
  have "bm_get (rs_steps (cm_state sample_commit2)) ''a'' = Some (new_step ''a'' ''o'' [] None)"
    "rs_run_id (cm_state sample_commit2) = ''r''" "ms_load_current (rw_store sample_world) = Some (cm_state sample_commit2)"
    by (simp_all add: sample_commit2_def sample_commit1_def sample_event_def Let_def sample_world_def sample_store2_def
        ms_load_current_def)
  then show ?thesis
    by (simp add: drive_step_def verify_lease_def sample_ports_def new_step_def)
qed

section \<open>Executions\<close>

text \<open>
  C20. An effect is executed once, plus once for each proof that it was not applied. In every world
  the runtime can reach, through any sequence of drives that succeed or fail anywhere, of other
  appends and of restarts, the sink has been asked to execute a step at most once more than the
  journal records a reconciliation that proved the step's effect not applied; and every intent the
  sink was asked to execute is the one the durable state holds for that step.
\<close>

theorem effects_execute_once:
  assumes "runtime_reached cr env ports w"
  shows "executions v (rw_calls w) \<le> count_events (clears_retry v) (ms_records (rw_store w)) + 1
    \<and> (\<forall>i. CallExecute v i \<in> set (rw_calls w) \<longrightarrow>
        (\<exists>s x. ms_load_current (rw_store w) = Some s \<and> bm_get (rs_steps s) v = Some x \<and> ss_intent x = Some i))"
proof -
  have acc: "accounted cr env w" using assms by (rule reached_accounted)
  have step: "\<exists>s x. ms_load_current (rw_store w) = Some s \<and> bm_get (rs_steps s) v = Some x \<and> ss_intent x = Some i"
    if call: "CallExecute v i \<in> set (rw_calls w)" for i
  proof -
    obtain x where x: "bm_get (index_steps (ms_index (rw_store w))) v = Some x" "ss_intent x = Some i"
      using acc call unfolding accounted_def by blast
    then obtain s where "vx_state (ms_index (rw_store w)) = Some s" "bm_get (rs_steps s) v = Some x"
      by (auto simp: index_steps_def split: option.splits)
    then show ?thesis using acc x(2) by (auto simp: accounted_def store_ok_def journal_ok_def ms_load_current_def)
  qed
  have "executions v (rw_calls w) \<le> count_events (clears_retry v) (ms_records (rw_store w)) + 1"
  proof (cases "\<exists>i. CallExecute v i \<in> set (rw_calls w)")
    case True
    then obtain s x where s: "ms_load_current (rw_store w) = Some s" "bm_get (rs_steps s) v = Some x" using step by blast
    have ok: "store_ok cr env (rw_store w)" using acc by (simp add: accounted_def)
    have "attempts_accounted (ms_records (rw_store w)) v x"
      using attempts.reachable [OF current_step(3) [OF ok s]] s(2) by blast
    then have "count_events (starts_effect v) (ms_records (rw_store w)) \<le> count_events (clears_retry v) (ms_records (rw_store w)) + 1"
      by (cases "ss_status x") (auto simp: attempts_accounted_def)
    then show ?thesis using acc le_trans unfolding accounted_def by blast
  next
    case False
    then have "filter (\<lambda>k. \<exists>i. k = CallExecute v i) (rw_calls w) = []" by (auto simp: filter_empty_conv)
    then show ?thesis by (simp add: executions_def)
  qed
  then show ?thesis using step by blast
qed

theorem effects_execute_once_witness:
  "runtime_reached sample_crypto sample_env sample_ports sample_world
     \<and> executions ''a'' (rw_calls sample_world) \<le> count_events (clears_retry ''a'') (ms_records (rw_store sample_world)) + 1"
  using effects_execute_once [OF sample_reached] sample_reached by blast

section \<open>One drive\<close>

lemma appended_frame:
  assumes "appended cr env body w c w'" and "store_ok cr env (rw_store w)"
  shows "rw_calls w' = rw_calls w" and "ms_records (rw_store w') = ms_records (rw_store w) @ [cm_record c]"
    and "store_ok cr env (rw_store w')" and "index_steps (ms_index (rw_store w')) = rs_steps (cm_state c)"
    and "body_of (cm_record c) = body" and "ms_load_current (rw_store w') = Some (cm_state c)" and "rw_sink w' = rw_sink w"
proof -
  show "rw_sink w' = rw_sink w" using assms(1) by (simp add: appended_def)
  have a: "ms_appends cr env (rw_store w) (index_head (ms_index (rw_store w))) c (rw_store w')"
    and calls: "rw_calls w' = rw_calls w" "body_of (cm_record c) = body" "ms_load_current (rw_store w') = Some (cm_state c)"
    using assms(1) by (simp_all add: appended_def)
  from assms(2) a obtain sc an where c: "commits cr env (rw_store w) c sc an (rw_store w')" and "store_ok cr env (rw_store w')"
    by (rule store_ok_append)
  then show "rw_calls w' = rw_calls w" "ms_records (rw_store w') = ms_records (rw_store w) @ [cm_record c]"
    "store_ok cr env (rw_store w')" "body_of (cm_record c) = body" "ms_load_current (rw_store w') = Some (cm_state c)"
    using calls by (simp_all add: commits_def)
  show "index_steps (ms_index (rw_store w')) = rs_steps (cm_state c)"
    using committed_fields [OF c] by (simp add: index_steps_def)
qed

lemma appended_life:
  assumes "appended cr env body w c w'" and "store_ok cr env (rw_store w)" and "targets body v"
    and "\<nexists>i. body = EffectIntentCommitted v i"
  obtains x y where "bm_get (index_steps (ms_index (rw_store w))) v = Some x" and "lifecycle v body x y"
    and "bm_get (rs_steps (cm_state c)) v = Some y"
proof -
  have a: "ms_appends cr env (rw_store w) (index_head (ms_index (rw_store w))) c (rw_store w')"
    and b: "body_of (cm_record c) = body" using assms(1) by (simp_all add: appended_def)
  from assms(2) a obtain sc an where c: "commits cr env (rw_store w) c sc an (rw_store w')" by (rule store_ok_append)
  have j: "journal_ok cr (rw_store w)" using assms(2) by (simp add: store_ok_def)
  from c j show thesis
  proof (cases rule: commits_cases)
    case (created g)
    then show thesis using assms(3) b by (simp add: targets_def)
  next
    case (extended s s')
    have "step_move cr s body v (bm_get (rs_steps s) v) (bm_get (rs_steps s') v)"
      using extended(4) unfolding b by (rule apply_body_step_move)
    then show thesis
      using assms(3,4) by (cases rule: step_move.cases) (use that extended(5,6) in auto)
  qed
qed

lemma finished_frame:
  assumes "finished cr env body action w r w'" and "store_ok cr env (rw_store w)"
  shows "rw_calls w' = rw_calls w \<and> rw_sink w' = rw_sink w \<and> prefix (ms_records (rw_store w)) (ms_records (rw_store w'))"
  using assms appended_frame(1,2,7) [OF _ assms(2)] by (fastforce simp: finished_def quiet_def)

lemma settled_frame:
  assumes "settled cr env P w r w'" and "store_ok cr env (rw_store w)"
  shows "rw_calls w' = rw_calls w \<and> rw_sink w' = rw_sink w \<and> prefix (ms_records (rw_store w)) (ms_records (rw_store w'))"
  using assms finished_frame [OF _ assms(2)] by (auto simp: settled_def quiet_def)

lemma finish_reconciliation_calls:
  assumes "finish_reconciliation cr env ports s x w = (r, w')" and "store_ok cr env (rw_store w)"
  shows "rw_calls w' = rw_calls w \<and> rw_sink w' = rw_sink w
    \<or> (\<exists>i. ss_intent x = Some i \<and> supports_query (ei_sink_guarantee i)
        \<and> rw_calls w' = rw_calls w @ [CallReconcile i] \<and> rw_sink w' = snd (po_reconcile ports (rw_sink w) i))"
  using assms
proof (cases rule: finish_reconciliation_cases)
  case (queried i w1)
  then show ?thesis using settled_frame [OF queried(4)] assms(2) by (simp add: called_def)
qed (use finished_frame [OF _ assms(2)] in \<open>auto simp: quiet_def\<close>)

lemma begin_reconciliation_calls:
  assumes "begin_reconciliation cr env ports s x w = (r, w')" and "store_ok cr env (rw_store w)"
    and "bm_get (index_steps (ms_index (rw_store w))) (ss_step_id x) = Some x"
  shows "rw_calls w' = rw_calls w \<and> rw_sink w' = rw_sink w
    \<or> (\<exists>i. ss_intent x = Some i \<and> supports_query (ei_sink_guarantee i)
        \<and> rw_calls w' = rw_calls w @ [CallReconcile i] \<and> rw_sink w' = snd (po_reconcile ports (rw_sink w) i))"
  using assms(1,2)
proof (cases rule: begin_reconciliation_cases)
  case (started i c w1)
  note f = appended_frame [OF started(3) assms(2)]
  obtain y where y: "bm_get (rs_steps (cm_state c)) (ss_step_id x) = Some y" "ss_intent y = Some i"
    using started(3) assms(2)
  proof (rule appended_life [where v = "ss_step_id x"])
    fix x' y
    assume "bm_get (index_steps (ms_index (rw_store w))) (ss_step_id x) = Some x'"
      "lifecycle (ss_step_id x) (ReconciliationStarted (ss_step_id x) (ei_effect_id i)) x' y"
      "bm_get (rs_steps (cm_state c)) (ss_step_id x) = Some y"
    then show thesis using that assms(3) started(1) by (auto simp: lifecycle_simps)
  qed (auto simp: targets_def)
  from started(4) show ?thesis
  proof (elim disjE exE conjE)
    fix z assume z: "bm_get (rs_steps (cm_state c)) (ss_step_id x) = Some z"
      and "finish_reconciliation cr env ports (cm_state c) z w1 = (r, w')"
    from finish_reconciliation_calls [OF this(2) f(3)] show ?thesis using z y started(1) f(1,7) by simp
  qed (simp add: f(1,7))
qed (use finished_frame [OF _ assms(2)] in \<open>auto simp: quiet_def\<close>)

lemma drive_step_calls:
  assumes ok: "store_ok cr env (rw_store w)" and "drive_step cr env ports v prepared w = (r, w')"
  shows "rw_calls w' = rw_calls w \<and> rw_sink w' = rw_sink w
    \<or> (\<exists>s x i c p. ms_load_current (rw_store w) = Some s \<and> rs_run_id s = po_lease_run_id ports \<and> bm_get (rs_steps s) v = Some x
        \<and> ss_status x = IntentCommitted \<and> ss_intent x = Some i \<and> ss_attempts x < po_max_attempts ports
        \<and> body_of c = EffectExecutionStarted v (ei_effect_id i)
        \<and> prefix (ms_records (rw_store w) @ [c]) (ms_records (rw_store w'))
        \<and> prepared = Some p \<and> rw_sink w' = snd (po_execute ports (rw_sink w) i (pe_invocation p))
        \<and> rw_calls w' = rw_calls w @ [CallExecute v i])
    \<or> (\<exists>s x i. ms_load_current (rw_store w) = Some s \<and> rs_run_id s = po_lease_run_id ports \<and> bm_get (rs_steps s) v = Some x
        \<and> ss_status x \<in> {EffectUnknown, Reconciling} \<and> ss_intent x = Some i \<and> supports_query (ei_sink_guarantee i)
        \<and> rw_sink w' = snd (po_reconcile ports (rw_sink w) i) \<and> rw_calls w' = rw_calls w @ [CallReconcile i])"
  using assms(2)
proof (cases rule: drive_step_cases)
  case (driven s x)
  note x = current_step [OF ok driven(1,3)]
  show ?thesis
  proof (cases "ss_status x")
    case IntentCommitted
    then have "execute_intent cr env ports s x prepared w = (r, w')" using driven(4) by simp
    then show ?thesis
      using ok
    proof (cases rule: execute_intent_cases)
      case (executed i c w1 w2 p)
      note f = appended_frame [OF executed(3) ok]
      have "store_ok cr env (rw_store w2)" using executed(4) f(3) by (simp add: called_def)
      from settled_frame [OF executed(5) this]
      have "rw_calls w' = rw_calls w @ [CallExecute v i]"
        "prefix (ms_records (rw_store w) @ [cm_record c]) (ms_records (rw_store w'))"
        "rw_sink w' = snd (po_execute ports (rw_sink w) i (pe_invocation p))"
        using executed(4) f(1,2) x(2) by (simp_all add: called_def)
      then show ?thesis using driven(1-3) IntentCommitted executed(1,2,6) f(5) x(2) by blast
    qed (simp add: quiet_def)
  next
    case Executing
    then have "mark_recovered_execution_unknown cr env ports s x w = (r, w')" using driven(4) by simp
    then show ?thesis
      using ok by (cases rule: recovered_cases) (use finished_frame [OF _ ok] in \<open>auto simp: quiet_def\<close>)
  next
    case EffectUnknown
    then have "begin_reconciliation cr env ports s x w = (r, w')" using driven(4) by simp
    from begin_reconciliation_calls [OF this ok] x(1) show ?thesis using driven(1-3) EffectUnknown x(2) by auto
  next
    case Reconciling
    then have "finish_reconciliation cr env ports s x w = (r, w')" using driven(4) by simp
    from finish_reconciliation_calls [OF this ok] show ?thesis using driven(1-3) Reconciling by auto
  qed (use driven(4) in simp_all)
qed (simp add: quiet_def)

text \<open>
  C22. The journal is written ahead of the sink. One drive makes at most one call to the sink. It
  asks the sink to execute only a step whose intent is committed, whose attempts are below the
  limit, under a lease for this run, and only after a record that starts exactly this effect has
  been appended to the journal it found; it queries the sink only for a step whose effect is
  unknown or reconciling and whose sink supports queries. A step found executing is never executed.
\<close>

theorem journal_ahead_of_sink:
  assumes "store_built cr env (rw_store w)" and "drive_step cr env ports v prepared w = (r, w')"
  shows "rw_calls w' = rw_calls w \<and> rw_sink w' = rw_sink w
    \<or> (\<exists>s x i c p. ms_load_current (rw_store w) = Some s \<and> rs_run_id s = po_lease_run_id ports \<and> bm_get (rs_steps s) v = Some x
        \<and> ss_status x = IntentCommitted \<and> ss_intent x = Some i \<and> ss_attempts x < po_max_attempts ports
        \<and> body_of c = EffectExecutionStarted v (ei_effect_id i)
        \<and> prefix (ms_records (rw_store w) @ [c]) (ms_records (rw_store w'))
        \<and> prepared = Some p \<and> rw_sink w' = snd (po_execute ports (rw_sink w) i (pe_invocation p))
        \<and> rw_calls w' = rw_calls w @ [CallExecute v i])
    \<or> (\<exists>s x i. ms_load_current (rw_store w) = Some s \<and> rs_run_id s = po_lease_run_id ports \<and> bm_get (rs_steps s) v = Some x
        \<and> ss_status x \<in> {EffectUnknown, Reconciling} \<and> ss_intent x = Some i \<and> supports_query (ei_sink_guarantee i)
        \<and> rw_sink w' = snd (po_reconcile ports (rw_sink w) i) \<and> rw_calls w' = rw_calls w @ [CallReconcile i])"
  using drive_step_calls [OF store_built_ok [OF assms(1)] assms(2)] .

theorem journal_ahead_of_sink_witness:
  "rw_calls (snd (drive_step sample_crypto sample_env sample_ports ''a'' None sample_world)) = []"
proof -
  have "store_built sample_crypto sample_env (rw_store sample_world)" using sample_built(2) by (simp add: sample_world_def)
  from journal_ahead_of_sink [OF this sample_drive] show ?thesis unfolding sample_drive by (auto simp: sample_world_def)
qed

section \<open>Reports\<close>

fun reported_status :: "drive_action \<Rightarrow> step_status option" where
  "reported_status DA_EffectSucceeded = Some Validating"
| "reported_status DA_EffectFailed = Some Failed"
| "reported_status DA_EffectUnknown = Some EffectUnknown"
| "reported_status DA_ExecutionRecoveredAsUnknown = Some EffectUnknown"
| "reported_status DA_ReconciliationApplied = Some Validating"
| "reported_status DA_ReconciliationNotApplied = Some IntentCommitted"
| "reported_status DA_ReconciliationFailed = Some Failed"
| "reported_status DA_ManualRequired = Some ManualRequired"
| "reported_status _ = None"

definition report_holds :: "string \<Rightarrow> drive_report \<Rightarrow> ('w, 'f) runtime_world \<Rightarrow> bool" where
  "report_holds v r w \<longleftrightarrow> ms_load_current (rw_store w) = Some (dr_state r)
     \<and> (\<exists>y q. bm_get (rs_steps (dr_state r)) v = Some y \<and> reported_status (dr_action r) = Some q \<and> ss_status y = q)"

definition announced :: "string \<Rightarrow> run_event_body \<Rightarrow> drive_action \<Rightarrow> bool" where
  "announced v body action \<longleftrightarrow> (\<exists>i. outcome_event v i body action \<or> resolution_event v i body action
     \<or> (\<exists>why. body = EffectBecameUnknown v (ei_effect_id i) why \<and> action = DA_ExecutionRecoveredAsUnknown))"

lemma announced_by:
  "outcome_event v i body action \<Longrightarrow> announced v body action"
  "resolution_event v i body action \<Longrightarrow> announced v body action"
  "announced v (ManualInterventionRequired v (ei_effect_id i) why) DA_ManualRequired"
  "announced v (EffectBecameUnknown v (ei_effect_id i) why) DA_ExecutionRecoveredAsUnknown"
  unfolding announced_def resolution_event_def by blast+

lemma finished_report:
  assumes "finished cr env body action w (Inr r) w'" and "store_ok cr env (rw_store w)" and "announced v body action"
  shows "report_holds v r w'"
proof -
  obtain c where c: "appended cr env body w c w'" and r: "r = \<lparr>dr_action = action, dr_state = cm_state c\<rparr>"
    using assms(1) by (auto simp: finished_def)
  have "targets body v" "\<nexists>j. body = EffectIntentCommitted v j"
    using assms(3) by (auto simp: announced_def outcome_event_def resolution_event_def targets_def)
  with c assms(2) obtain x y where "lifecycle v body x y" "bm_get (rs_steps (cm_state c)) v = Some y"
    by (rule appended_life)
  then show ?thesis
    using assms(3) appended_frame(6) [OF c assms(2)]
    by (auto simp: report_holds_def r announced_def outcome_event_def resolution_event_def lifecycle_simps)
qed

lemma settled_report:
  assumes "settled cr env P w (Inr r) w'" and "store_ok cr env (rw_store w)"
    and "\<And>body action. P body action \<Longrightarrow> announced v body action"
  shows "report_holds v r w'"
proof -
  obtain body action where "P body action" "finished cr env body action w (Inr r) w'"
    using assms(1) by (auto simp: settled_def)
  then show ?thesis using finished_report assms(2,3) by blast
qed

lemma finish_reconciliation_report:
  assumes "finish_reconciliation cr env ports s x w = (Inr r, w')" and "store_ok cr env (rw_store w)"
  shows "report_holds (ss_step_id x) r w'"
  using assms
proof (cases rule: finish_reconciliation_cases)
  case (queried i w1)
  have "store_ok cr env (rw_store w1)" using queried(3) assms(2) by (simp add: called_def)
  with queried(4) show ?thesis by (rule settled_report) (rule announced_by(2))
next
  case (manual i why)
  show ?thesis using manual(3) assms(2) announced_by(3) by (rule finished_report)
qed simp

text \<open>
  C27. The report of a drive is the durable truth. When a drive returns a report, the state it
  carries is the one the store now holds, and the step driven has exactly the status its action
  announces: validating after a success or a reconciliation that proved the effect applied,
  unknown after an uncertain or an interrupted execution, ready to start again only after a
  reconciliation that proved the effect not applied, failed or manual otherwise; and a drive that
  reports no action left the store alone, because the step is in none of the effect states.
\<close>

theorem drive_report_is_durable:
  assumes "store_built cr env (rw_store w)" and "drive_step cr env ports v prepared w = (Inr r, w')"
  shows "ms_load_current (rw_store w') = Some (dr_state r)
    \<and> (\<exists>y. bm_get (rs_steps (dr_state r)) v = Some y
        \<and> (reported_status (dr_action r) = Some (ss_status y)
           \<or> dr_action r = DA_NoAction \<and> rw_store w' = rw_store w
             \<and> ss_status y \<in> {Planned, Validating, Completed, Failed, ManualRequired}))"
  using assms(2)
proof (cases rule: drive_step_cases)
  case (driven s x)
  have ok: "store_ok cr env (rw_store w)" using assms(1) by (rule store_built_ok)
  note x = current_step [OF ok driven(1,3)]
  have "report_holds v r w' \<or> r = \<lparr>dr_action = DA_NoAction, dr_state = s\<rparr> \<and> w' = w
      \<and> ss_status x \<in> {Planned, Validating, Completed, Failed, ManualRequired}"
  proof (cases "ss_status x")
    case IntentCommitted
    then have "execute_intent cr env ports s x prepared w = (Inr r, w')" using driven(4) by simp
    then show ?thesis
      using ok
    proof (cases rule: execute_intent_cases)
      case (executed i c w1 w2 p)
      have "store_ok cr env (rw_store w2)" using executed(4) appended_frame(3) [OF executed(3) ok] by (simp add: called_def)
      with executed(5) have "report_holds (ss_step_id x) r w'" by (rule settled_report) (rule announced_by(1))
      then show ?thesis by (simp add: x(2))
    qed simp
  next
    case Executing
    then have "mark_recovered_execution_unknown cr env ports s x w = (Inr r, w')" using driven(4) by simp
    then show ?thesis
      using ok by (cases rule: recovered_cases) (use finished_report [OF _ ok announced_by(4)] x(2) in auto)
  next
    case EffectUnknown
    then have "begin_reconciliation cr env ports s x w = (Inr r, w')" using driven(4) by simp
    then show ?thesis
      using ok
    proof (cases rule: begin_reconciliation_cases)
      case (started i c w1)
      note f = appended_frame [OF started(3) ok]
      obtain y where y: "bm_get (rs_steps (cm_state c)) (ss_step_id x) = Some y"
        "finish_reconciliation cr env ports (cm_state c) y w1 = (Inr r, w')"
        using started(4) by auto
      have "ss_step_id y = v" using current_step(2) [OF f(3,6) y(1)] x(2) by simp
      then show ?thesis using finish_reconciliation_report [OF y(2) f(3)] by simp
    qed (use finished_report [OF _ ok announced_by(3)] x(2) in auto)
  next
    case Reconciling
    then have "finish_reconciliation cr env ports s x w = (Inr r, w')" using driven(4) by simp
    from finish_reconciliation_report [OF this ok] show ?thesis by (simp add: x(2))
  qed (use driven(4) in simp_all)
  then show ?thesis using driven(1,3) by (auto simp: report_holds_def)
qed simp

theorem drive_report_is_durable_witness:
  "ms_load_current (rw_store sample_world) = Some (cm_state sample_commit2)
     \<and> (\<exists>y. bm_get (rs_steps (cm_state sample_commit2)) ''a'' = Some y
          \<and> ss_status y \<in> {Planned, Validating, Completed, Failed, ManualRequired})"
proof -
  have "store_built sample_crypto sample_env (rw_store sample_world)" using sample_built(2) by (simp add: sample_world_def)
  from drive_report_is_durable [OF this sample_drive] show ?thesis by auto
qed

end
