(* ===== verification/Sample_Admission.thy ===== *)
theory Sample_Admission
  imports Material_Recovery Runtime_Properties Routing_Properties
begin

text \<open>
  A concrete admission: an idempotent capability with one resource argument, two local policy layers
  that allow it, and the store with one planned step. The library parameters are the constant
  canonicalizer and hash, a schema compiler that accepts everything, and the RFC 6901 pointers.
\<close>

definition sample_admission_env :: admission_env where
  "sample_admission_env = \<lparr>ae_jcs = \<lambda>_. Inr [], ae_schema = \<lambda>_. Some (\<lambda>_. True), ae_os = ''linux'', ae_arch = ''x86_64''\<rparr>"

definition write_definition :: capability_definition_body where
  "write_definition = sample_definition\<lparr>cdb_spec := (cdb_spec sample_definition)
     \<lparr>cs_effect := (cs_effect (cdb_spec sample_definition))\<lparr>ce_class := DE_Idempotent\<rparr>,
      cs_execution := (cs_execution (cdb_spec sample_definition))\<lparr>cx_idempotency_key_supported := True\<rparr>\<rparr>\<rparr>"

definition write_catalog :: capability_registry where
  "write_catalog = \<lparr>reg_definitions = bm_insert (DefinitionKey ''c'' ''1'') write_definition bm_empty,
     reg_instances = bm_insert ''i'' sample_instance bm_empty\<rparr>"

definition write_route :: route_request where
  "write_route = sample_route\<lparr>rt_required_features := (rt_required_features sample_route)\<lparr>rf_idempotency_key := True\<rparr>\<rparr>"

definition write_arguments :: json where
  "write_arguments = JObject [(''p'', JString ''x'')]"

definition write_request :: admission_request where
  "write_request = \<lparr>aq_step_id = ''a'', aq_route = write_route, aq_arguments = write_arguments\<rparr>"

definition write_permission :: resolved_permission_request where
  "write_permission = sample_request\<lparr>rpr_request_id := ''permission-'' @ sample_hex, rpr_effect_class := DE_Idempotent\<rparr>"

definition write_reference :: reconstructable_material_reference where
  "write_reference = \<lparr>rmr_provider_id = ''p'', rmr_reference_id = ''x'', rmr_revision = ''1''\<rparr>"

definition write_pending :: "invocation_material_retention \<Rightarrow> pending_invocation" where
  "write_pending R = \<lparr>pn_run_binding = pending_from_state (cm_state sample_commit2), pn_route = write_route,
     pn_normalized_arguments = write_arguments, pn_permission_request = write_permission,
     pn_definition_digest = sample_digest, pn_action_digest = sample_digest, pn_material_digest = sample_digest,
     pn_material_retention = R, pn_plan_id = None\<rparr>"

definition write_inputs :: policy_inputs where
  "write_inputs = \<lparr>pi_request = write_permission,
     pi_layers = PolicyLocal (sample_allow PSK_Host) (sample_allow PSK_UserProfile)\<rparr>"

lemma sample_serializable [simp]: "digest_serializable sample_crypto sample_admission_env i = Inr sample_digest"
  by (simp add: digest_serializable_def sample_admission_env_def sha256_digest_def sample_crypto_def sample_digest_def
      sample_hex_def)

lemma sample_content_id [simp]: "content_id p sample_digest = p @ ''-'' @ sample_hex"
  by (simp add: content_id_def sample_digest_def del: append.simps)

lemma write_catalog_built: "registry_built write_catalog"
proof -
  let ?r = "\<lparr>reg_definitions = bm_insert (DefinitionKey ''c'' ''1'') write_definition bm_empty, reg_instances = bm_empty\<rparr>"
  have "register_schema_validated_definition registry_new write_definition = Inr ?r"
    by (simp add: register_definition_iff definition_sound_def registry_new_def sample_definition_def write_definition_def
        key_from_definition_def)
  then have "registry_built ?r" by (rule registry_built.intros(2) [OF registry_built.intros(1)])
  moreover have "register_schema_validated_instance ?r sample_instance = Inr write_catalog"
    by (simp add: register_instance_iff features_sound_def sample_instance_def sample_definition_def write_definition_def
        key_from_reference_def write_catalog_def)
  ultimately show ?thesis by (rule registry_built.intros(3))
qed

lemma write_lookup:
  "registry_definition write_catalog (rt_capability write_route) = Some write_definition"
  "registry_instance write_catalog ''i'' = Some sample_instance"
  by (simp_all add: registry_definition_def registry_instance_def write_catalog_def write_route_def sample_route_def
      key_from_reference_def)

lemma write_state:
  "ms_load_current sample_store2 = Some (cm_state sample_commit2)"
  "bm_get (rs_steps (cm_state sample_commit2)) ''a'' = Some (new_step ''a'' ''o'' [] None)"
  "rs_run_id (cm_state sample_commit2) = ''r''"
  "rs_authorization_consumption (cm_state sample_commit2) = bm_empty"
  by (simp_all add: sample_commit2_def sample_commit1_def sample_event_def Let_def sample_store2_def ms_load_current_def)

lemma bs_list_single [simp]: "bs_list (bs_insert x bs_empty) = [x]"
  using bs_list_of_list [of "[x]"] by (simp add: bs_of_list_def)

lemma write_resolves:
  assumes "request_id \<noteq> []"
  shows "resolve_invocation rfc_pointers (\<lambda>_ x. Inr x) request_id ''r'' ''a'' write_definition write_arguments GL_Once
     = Inr \<lparr>rir_permission_request = write_permission\<lparr>rpr_request_id := request_id\<rparr>, rir_normalized_arguments = write_arguments\<rparr>"
proof -
  have get: "pointer rfc_pointers write_arguments ''/p'' = Some (JString ''x'')"
    "pointer_set rfc_pointers write_arguments ''/p'' (JString ''x'') = Some write_arguments"
    by (simp_all add: rfc_pointers_def pointer_tokens_def write_arguments_def)
  show ?thesis
    by (simp add: resolve_invocation_def validate_derived_request_shape_def derive_invocation_resources_def
        sample_definition_def write_definition_def collect_selected_def resolve_selected_resource_def as_str_def get
        normalize_resource_arguments_def normalized_critical_actions_def write_permission_def sample_request_def assms)
qed

lemma write_arguments_valid: "validate_arguments sample_crypto sample_admission_env write_definition write_arguments = Inr ()"
  by (simp add: validate_arguments_def validate_argument_size_def sample_admission_env_def sample_crypto_def
      MAX_ARGUMENTS_SIZE_BYTES_def)

lemma write_prepared:
  "prepare sample_crypto sample_admission_env rfc_pointers (\<lambda>_ x. Inr x) ''r'' write_catalog sample_store2 write_request
     = Inr (write_pending Ephemeral)"
proof -
  have request: "write_permission\<lparr>rpr_request_id := ''permission-'' @ sample_hex\<rparr> = write_permission"
    by (simp add: write_permission_def)
  have class': "ce_class (cs_effect (cdb_spec write_definition)) = DE_Idempotent"
    "cx_idempotency_key_supported (cs_execution (cdb_spec write_definition))"
    by (simp_all add: write_definition_def)
  have facts: "prepare_invocation_facts sample_crypto sample_admission_env rfc_pointers (\<lambda>_ x. Inr x) ''r'' ''a''
      (rt_capability write_route) write_arguments write_catalog = Inr
      \<lparr>pf_normalized_arguments = write_arguments, pf_permission_request = write_permission,
       pf_definition_digest = sample_digest, pf_semantic_action_digest = sample_digest, pf_material_digest = sample_digest\<rparr>"
    using write_resolves [of "''permission-'' @ sample_hex", unfolded request]
    by (simp add: prepare_invocation_facts_def definition_of_def write_lookup class' write_arguments_valid definition_contract_digest_def
        semantic_action_digest_def invocation_material_digest_def)
  have "verify_planned_route_binding (cm_state sample_commit2) ''a'' write_route = Inr ()"
    by (simp add: verify_planned_route_binding_def admission_step_def write_state new_step_def write_route_def sample_route_def)
  then show ?thesis
    using facts
    by (simp add: prepare_def write_state admission_verify_lease_def write_request_def require_admission_ready_step_def
        admission_step_def new_step_def verify_unplanned_read_only_boundary_def definition_of_def write_lookup class'
        verify_planned_definition_binding_def verify_planned_input_sidecar_def planned_action_digest_def
        verify_planned_admission_binding_def write_pending_def)
qed


lemma write_allowed:
  "evaluate write_permission write_inputs = Inr (BO_Allow
     \<lparr>pz_lifetime = GL_Once, pz_scopes = [''fs.read''], pz_resources = [ConcreteResource ''fs.read'' ''x''],
      pz_critical_actions = []\<rparr> [sample_source PSK_Host, sample_source PSK_UserProfile])"
proof -
  have "layers_valid write_inputs"
    using sample_layers(2) by (simp add: layers_valid_def inputs_ordered_def write_inputs_def sample_inputs_def)
  then show ?thesis
    unfolding evaluate_outcome_iff(3)
    by (auto simp: write_inputs_def refused_def questioned_def inputs_ordered_def sample_allow_def covers_def
        write_permission_def sample_request_def from_trusted_evaluation_def)
qed

lemma write_selected:
  "\<exists>ranked cands reason. route write_catalog write_route (Some \<lparr>bpe_request = write_permission, bpe_outcome = BO_Allow z ss\<rparr>)
     = Inr (RouteSelected ''i'' ranked cands reason)"
proof -
  have "instances_for write_catalog (rt_capability write_route) = [sample_instance]"
    by (simp add: instances_for_def write_catalog_def bm_values_def write_route_def sample_route_def sample_instance_def)
  moreover have "placement_ok sample_instance write_definition write_route"
    by (simp add: placement_ok_def sample_instance_def sample_definition_def write_definition_def write_route_def
        sample_route_def hint_cost_def hint_reliability_def)
  moreover have "validate_policy_binding write_definition write_route
      (Some \<lparr>bpe_request = write_permission, bpe_outcome = BO_Allow z ss\<rparr>) = Inr ()"
    by (simp add: validate_policy_binding_def write_permission_def sample_request_def write_route_def sample_route_def
        sample_definition_def write_definition_def same_members_def)
  moreover have "rt_pinned_instance_id write_route = None" "cib_instance_id sample_instance = ''i''"
    "ce_critical_actions (cs_effect (cdb_spec write_definition)) = []" "validate_request write_route = Inr ()"
    using sample_route_valid
    by (simp_all add: sample_route_def write_route_def sample_instance_def sample_definition_def write_definition_def
        validate_request_def)
  ultimately show ?thesis
    using rank_candidates_eq [of "[sample_instance]" write_definition write_route]
    by (simp add: route_def write_lookup pin_block_reason_def apply_policy_def)
qed

lemma write_selection:
  "\<exists>e. authorize_selection sample_crypto sample_admission_env ''r'' write_catalog write_inputs (write_pending R) sample_store2
      = Inr (Inr (cm_state sample_commit2, write_definition, e, ''i'', sample_instance))
    \<and> bpe_outcome e = BO_Allow \<lparr>pz_lifetime = GL_Once, pz_scopes = [''fs.read''],
        pz_resources = [ConcreteResource ''fs.read'' ''x''], pz_critical_actions = []\<rparr>
        [sample_source PSK_Host, sample_source PSK_UserProfile]"
proof -
  let ?z = "\<lparr>pz_lifetime = GL_Once, pz_scopes = [''fs.read''], pz_resources = [ConcreteResource ''fs.read'' ''x''],
    pz_critical_actions = []\<rparr>"
  let ?ss = "[sample_source PSK_Host, sample_source PSK_UserProfile]"
  obtain ranked cands reason where "route write_catalog write_route
      (Some \<lparr>bpe_request = write_permission, bpe_outcome = BO_Allow ?z ?ss\<rparr>) = Inr (RouteSelected ''i'' ranked cands reason)"
    using write_selected by blast
  moreover have "cib_placement sample_instance = PL_Local" by (simp add: sample_instance_def)
  moreover have "\<not> is_managed write_inputs" by (simp add: is_managed_def write_inputs_def)
  moreover have "rpr_step_id write_permission = ''a''" by (simp add: write_permission_def sample_request_def)
  ultimately show ?thesis
    using write_allowed
    by (simp add: authorize_selection_def write_state admission_verify_lease_def write_pending_def pending_matches_def
        pending_from_state_def require_admission_ready_step_def admission_step_def new_step_def verify_planned_input_sidecar_def
        verify_pending_planned_material_def definition_of_def write_lookup definition_contract_digest_def evaluate_bound_def)
qed


section \<open>The committed effect\<close>

definition write_provenance :: receipt_provenance where
  "write_provenance = build_receipt_provenance sample_admission_env sample_digest None (''decision-'' @ sample_hex)
     sample_digest sample_instance write_definition"

definition write_intent :: effect_intent where
  "write_intent = (let invocation = once_invocation (write_pending Ephemeral) ''i'' sample_digest in
     \<lparr>ei_effect_id = ''effect-'' @ sample_hex, ei_action_digest = sample_digest, ei_invocation = invocation,
      ei_effect_class = Idempotent, ei_idempotency_key = Some (''xgeny-'' @ sample_hex), ei_sink_guarantee = SinkNone,
      ei_authorization = \<lparr>au_grant_id = ''authorization-'' @ sample_hex, au_grant_digest = sample_digest, au_max_uses = 1,
        au_binding = once_binding (write_pending Ephemeral) (cm_state sample_commit2) invocation sample_digest sample_digest sample_digest\<rparr>,
      ei_receipt_provenance = Some write_provenance\<rparr>)"

definition write_material :: "invocation_material_retention \<Rightarrow> invocation_material_record" where
  "write_material R = \<lparr>imr_format_version = INVOCATION_MATERIAL_FORMAT_VERSION, imr_material_id = ''material-'' @ sample_hex,
     imr_run_id = ''r'', imr_step_id = ''a'', imr_effect_id = ''effect-'' @ sample_hex, imr_action_digest = sample_digest,
     imr_invocation = ei_invocation write_intent, imr_material_digest = sample_digest, imr_retention = R,
     imr_record_digest = sample_digest\<rparr>"

lemma sample_digest_nonempty [simp]: "sample_digest \<noteq> []"
  by (simp add: sample_digest_def)

definition write_retention :: "invocation_material_retention \<Rightarrow> bool" where
  "write_retention R \<longleftrightarrow> R = Ephemeral \<or> R = ReconstructableReference write_reference"

lemma write_reference_valid: "reference_validate write_reference = Inr ()"
  by (simp add: reference_validate_def write_reference_def validate_reference_component_def
      MAX_MATERIAL_REFERENCE_COMPONENT_BYTES_def, code_simp)

lemma write_bindings:
  "once_invocation (write_pending R) = once_invocation (write_pending Ephemeral)"
  "once_binding (write_pending R) = once_binding (write_pending Ephemeral)"
  by (intro ext, simp add: once_invocation_def once_binding_def write_pending_def)+

lemma write_material_new:
  "write_retention R \<Longrightarrow> material_record_new sample_crypto ''r'' ''a'' write_intent sample_digest R = Inr (write_material R)"
  by (auto simp: write_retention_def write_reference_valid material_record_new_def material_record_validate_shape_def write_intent_def Let_def invocation_material_id_def
      invocation_material_record_digest_def material_record_verify_for_def invocation_material_retention_digest_def
      write_material_def once_binding_def write_pending_def)

lemma write_issued:
  assumes "write_retention R" and "bpe_outcome e = BO_Allow \<lparr>pz_lifetime = GL_Once, pz_scopes = [''fs.read''],
        pz_resources = [ConcreteResource ''fs.read'' ''x''], pz_critical_actions = []\<rparr> ss"
  shows "issue_once_effect sample_crypto sample_admission_env sample_env (write_pending R) (cm_state sample_commit2)
      write_definition sample_instance ''i'' e t = Inr \<lparr>is_intent = write_intent, is_instance_binding_digest = sample_digest,
        is_effect_id = ''effect-'' @ sample_hex, is_material_record = write_material R\<rparr>"
proof -
  have commitment: "policy_decision_commitment sample_crypto sample_env write_permission \<lparr>pz_lifetime = GL_Once, pz_scopes = [''fs.read''],
      pz_resources = [ConcreteResource ''fs.read'' ''x''], pz_critical_actions = []\<rparr> ss sample_digest t
      = Inr (''decision-'' @ sample_hex, sample_digest)"
    by (simp add: policy_decision_commitment_def validate_policy_decision_def sample_env_def cached_document_validator_def
        ensure_required_extensions_supported_def document_digest_def)
  have pending: "pn_permission_request (write_pending R) = write_permission" "pn_action_digest (write_pending R) = sample_digest"
    "pn_plan_id (write_pending R) = None" "pn_material_retention (write_pending R) = R"
    "pn_material_digest (write_pending R) = sample_digest" "rpr_step_id write_permission = ''a''"
    "rpr_requested_lifetime write_permission = GL_Once" "ce_class (cs_effect (cdb_spec write_definition)) = DE_Idempotent"
    "rpr_requested_scopes write_permission = [''fs.read'']" "rpr_critical_actions write_permission = []"
    "rpr_resources write_permission = [ConcreteResource ''fs.read'' ''x'']"
    by (simp_all add: write_pending_def write_permission_def sample_request_def write_definition_def)
  show ?thesis
    using commitment write_material_new [OF assms(1), unfolded write_intent_def write_provenance_def Let_def]
    by (simp add: issue_once_effect_def assms(2) pending write_bindings [where R = R] policy_evidence_digest_def receipt_provenance_digest_def
        executable_binding_digest_def invocation_material_retention_digest_def authorization_digest_def once_authorization_id_def
        write_state ONCE_MAX_USES_def write_provenance_def write_intent_def Let_def)
qed


definition write_event :: run_event where
  "write_event = sample_event ''e3'' (EffectIntentCommitted ''a'' write_intent)"

definition sample_factory :: "nat \<Rightarrow> run_state \<Rightarrow> (string + event_metadata) \<times> nat" where
  "sample_factory n s = (Inr \<lparr>em_event_id = ''e3'', em_recorded_at = ''t''\<rparr>, Suc n)"

lemma write_intent_commits:
  "\<exists>s. commit_effect_intent sample_crypto (cm_state sample_commit2) ''a'' write_intent = Inr s"
proof -
  have steps: "bm_values (rs_steps (cm_state sample_commit2)) = [new_step ''a'' ''o'' [] None]"
    by (simp add: sample_commit2_def sample_commit1_def sample_event_def Let_def bm_values_def put_step_def
        advance_head_def initial_state_def)
  have step: "rpr_step_id write_permission = ''a''" by (simp add: write_permission_def sample_request_def)
  have provenance: "rp_tool_output_profile write_provenance = None"
    by (simp add: write_provenance_def build_receipt_provenance_def write_definition_def sample_definition_def)
  show ?thesis
    by (simp add: commit_effect_intent_def validate_tool_output_profile_def tool_output_profile_of_def
        validate_receipt_provenance_binding_def receipt_provenance_digest_def steps step_mut_def write_state new_step_def
        require_status_def first_unreleased_dependency_def validate_planned_invocation_binding_def write_intent_def Let_def
        step provenance validate_authorization_binding_def once_binding_def once_invocation_def write_pending_def
        once_authorization_id_def authorization_digest_def consume_authorization_def)
qed


lemma write_intent_fields:
  "ei_receipt_provenance write_intent = Some write_provenance" "ei_effect_class write_intent = Idempotent"
  "rp_profile_version write_provenance = CORE_RECEIPT_PROFILE_V1" "rp_tool_output_profile write_provenance = None"
  "ei_effect_id write_intent = ''effect-'' @ sample_hex"
  by (simp_all add: write_intent_def Let_def write_provenance_def build_receipt_provenance_def write_definition_def
      sample_definition_def)

lemma write_appends:
  assumes "write_retention R"
  shows "\<exists>c st. ms_append_with_invocation_material sample_crypto sample_env sample_store2
     (expected_head_from_state (cm_state sample_commit2)) write_event (write_material R) = Inr (c, st)"
proof -
  obtain s where s: "commit_effect_intent sample_crypto (cm_state sample_commit2) ''a'' write_intent = Inr s"
    using write_intent_commits by blast
  have head: "expected_head_from_state (cm_state sample_commit2) = HeadExact 2 sample_digest"
    by (simp add: expected_head_from_state_def sample_commit2_def Let_def advance_head_def)
  have sidecar: "verify_material_bundle sample_crypto write_event (Some (write_material R)) = Inr ()"
    using material_record_new_Inr(5) [OF write_material_new [OF assms]]
    by (simp add: verify_material_bundle_def write_event_def sample_event_def write_intent_fields
        receipt_profile_matches_def output_profile_matches_def CORE_RECEIPT_PROFILE_V1_def CORE_RECEIPT_PROFILE_V2_def)
  have "prepare_commit sample_crypto (ms_index sample_store2) (HeadExact 2 sample_digest) write_event = Inr
      (let r = \<lparr>er_sequence = 3, er_previous_digest = Some sample_digest, er_event = write_event, er_digest = sample_digest\<rparr> in
       \<lparr>cm_record = r, cm_state = advance_head r s\<rparr>)"
    using s by (simp add: sample_store_defs write_event_def sample_store2_def sample_store1_def sample_commit2_def
        sample_commit1_def Let_def checked_add_def apply_body_def)
  then show ?thesis
    using sidecar
    by (simp add: ms_append_with_invocation_material_def head verify_commit_sidecars_def write_event_def sample_event_def
        verify_plan_input_bundle_def verify_receipt_bundle_def verify_tool_output_bundle_def
        verify_completion_output_bundle_def verify_planned_material_retention_def Let_def sample_store2_def sample_store1_def
        ms_new_def vx_default_def ms_commit_def apply_committed_def commit_event_def commit_plan_inputs_def commit_material_def
        commit_output_def commit_receipt_def write_material_def write_intent_fields)
qed

lemma write_admitted:
  assumes "write_retention R"
  shows "\<exists>ad st. authorize_and_commit sample_crypto sample_admission_env sample_env sample_factory ''r'' write_catalog write_inputs
     (write_pending R) (sample_store2, 0) = (Inr (Authorized ad), st, 1) \<and> ad_selected_instance_id ad = ''i''
     \<and> ad_capability ad = rt_capability write_route"
proof -
  obtain c st where a: "ms_append_with_invocation_material sample_crypto sample_env sample_store2
     (expected_head_from_state (cm_state sample_commit2)) write_event (write_material R) = Inr (c, st)"
    using write_appends [OF assms] by blast
  obtain e where e: "authorize_selection sample_crypto sample_admission_env ''r'' write_catalog write_inputs (write_pending R) sample_store2
      = Inr (Inr (cm_state sample_commit2, write_definition, e, ''i'', sample_instance))"
    "bpe_outcome e = BO_Allow \<lparr>pz_lifetime = GL_Once, pz_scopes = [''fs.read''],
        pz_resources = [ConcreteResource ''fs.read'' ''x''], pz_critical_actions = []\<rparr>
        [sample_source PSK_Host, sample_source PSK_UserProfile]"
    using write_selection by blast
  have "runtime_event (cm_state sample_commit2) \<lparr>em_event_id = ''e3'', em_recorded_at = ''t''\<rparr>
      (EffectIntentCommitted (rpr_step_id (pn_permission_request (write_pending R))) write_intent) = write_event"
    by (simp add: runtime_event_def write_event_def sample_event_def sample_commit2_def sample_commit1_def Let_def
        advance_head_def initial_state_def put_step_def write_pending_def write_permission_def sample_request_def)
  then show ?thesis
    using e(1) write_issued [OF assms e(2)] a
    by (simp add: authorize_and_commit_def sample_factory_def issue_and_append_def sample_env_def write_pending_def)
qed

section \<open>An adapter and a provider\<close>

definition sample_adapter :: "nat effect_adapter" where
  "sample_adapter = \<lparr>ea_prepare = \<lambda>n x i arguments. (Inr (\<lambda>k. (AEO_Unknown TransportOutcomeUnknown, Suc k)), n),
     ea_reconcile = \<lambda>n x i. (ARO_Inconclusive QueryUnavailable, n)\<rparr>"

definition sample_adapters :: "nat effect_adapter_registry" where
  "sample_adapters = bm_insert (AdapterBindingKey ''b'' None None) sample_adapter bm_empty"

definition sample_host :: "nat executor_host" where
  "sample_host = \<lparr>eh_metadata = sample_factory, eh_lease_run_id = ''r'', eh_max_attempts = 1\<rparr>"

definition sample_providers :: "unit material_provider_registry" where
  "sample_providers = bm_insert ''p'' (\<lambda>m reference revision. (Inr write_arguments, m)) bm_empty"

lemma sample_adapter_bound:
  "from_binding (cib_binding sample_instance) = Inr (AdapterBindingKey ''b'' None None)"
  "bm_get sample_adapters (AdapterBindingKey ''b'' None None) = Some sample_adapter"
proof -
  have "validate_binding_component ''b'' = Inr ()" by code_simp
  then show "from_binding (cib_binding sample_instance) = Inr (AdapterBindingKey ''b'' None None)"
    by (simp add: from_binding_def validate_optional_component_def sample_instance_def)
  show "bm_get sample_adapters (AdapterBindingKey ''b'' None None) = Some sample_adapter"
    by (simp add: sample_adapters_def)
qed

end
