(* ===== verification/Admission_Properties.thy ===== *)
theory Admission_Properties
  imports Sample_Admission
begin

text \<open>
  The admission over the store: what an authorized invocation commits, that nothing else is ever
  appended, that a prepared invocation is authorized at most once, and that what was admitted passes
  every gate of the executor.
\<close>

section \<open>Selection\<close>

lemma require_checks_iff [simp]: "require_checks v cs = Inr () \<longleftrightarrow> (\<forall>(n, b) \<in> set cs. b)"
  by (induction cs) (auto simp: require_checks_def split: if_splits)

lemma evaluate_bound_iff [result_simps]:
  "evaluate_bound q i = Inr e \<longleftrightarrow> bpe_request e = q \<and> evaluate q i = Inr (bpe_outcome e)"
  by (cases e) (auto simp: evaluate_bound_def result_simps)

lemma selected_outcome_iff:
  "(case q of RouteSelected a _ _ _ \<Rightarrow> f a | _ \<Rightarrow> Inr (Inl q)) = Inr (Inr x) \<longleftrightarrow>
     (\<exists>a b c d. q = RouteSelected a b c d \<and> f a = Inr (Inr x))"
  by (cases q) simp_all

lemma authorize_selection_Selected:
  assumes "authorize_selection cr ae lease registry inputs pending st = Inr (Inr (s, d, e, sel, i))"
  shows "\<not> is_managed inputs" and "ms_load_current st = Some s" and "lease = rs_run_id s"
    and "pending_matches (pn_run_binding pending) s"
    and "registry_definition registry (rt_capability (pn_route pending)) = Some d"
    and "definition_contract_digest cr ae d = Inr (pn_definition_digest pending)"
    and "evaluate (pn_permission_request pending) inputs = Inr (bpe_outcome e)"
    and "bpe_request e = pn_permission_request pending"
    and "registry_instance registry sel = Some i" and "cib_placement i = PL_Local"
    and "\<exists>ranked cands reason. route registry (pn_route pending) (Some e) = Inr (RouteSelected sel ranked cands reason)"
  using assms
  by (auto simp: authorize_selection_def result_simps Let_def definition_of_def admission_verify_lease_def
      selected_outcome_iff)

section \<open>The issued effect\<close>

definition bound_intent ::
    "pending_invocation \<Rightarrow> run_state \<Rightarrow> string \<Rightarrow> effect_intent \<Rightarrow> bool" where
  "bound_intent pending s sel x \<longleftrightarrow>
     ei_sink_guarantee x = SinkNone \<and> ei_action_digest x = pn_action_digest pending
     \<and> ib_capability_id (ei_invocation x) = cf_capability_id (rt_capability (pn_route pending))
     \<and> ib_contract_version (ei_invocation x) = cf_contract_version (rt_capability (pn_route pending))
     \<and> ib_definition_digest (ei_invocation x) = pn_definition_digest pending
     \<and> ib_instance_id (ei_invocation x) = sel
     \<and> au_max_uses (ei_authorization x) = 1
     \<and> (let b = au_binding (ei_authorization x) in
          ab_run_id b = rs_run_id s \<and> ab_step_id b = rpr_step_id (pn_permission_request pending)
          \<and> ab_authority b = rs_authority s \<and> ab_authority_epoch b = rs_authority_epoch s
          \<and> ab_issued_at_sequence b = rs_journal_sequence s \<and> ab_issued_at_head_digest b = rs_journal_head_digest s
          \<and> ab_action_digest b = pn_action_digest pending \<and> ab_material_digest b = pn_material_digest pending)"

lemma issue_once_effect_Inr:
  assumes "issue_once_effect cr ae env pending s d i sel e t = Inr x"
  obtains z ss identity did dd where "bpe_outcome e = BO_Allow z ss" and "pz_lifetime z = GL_Once"
    and "rpr_requested_lifetime (pn_permission_request pending) = GL_Once" and "pz_critical_actions z = []"
    and "bound_intent pending s sel (is_intent x)"
    and "ei_effect_id (is_intent x) = is_effect_id x"
    and "map_effect_class (ce_class (cs_effect (cdb_spec d))) = Inr (ei_effect_class (is_intent x))"
    and "ei_receipt_provenance (is_intent x) = Some (build_receipt_provenance ae identity (pn_plan_id pending) did dd i d)"
    and "\<exists>pd. ab_receipt_provenance_digest (au_binding (ei_authorization (is_intent x))) = Some pd
      \<and> receipt_provenance_digest cr (build_receipt_provenance ae identity (pn_plan_id pending) did dd i d) = Inr pd"
    and "executable_binding_digest cr ae i = Inr (ib_instance_binding_digest (ei_invocation (is_intent x)))"
    and "is_instance_binding_digest x = ib_instance_binding_digest (ei_invocation (is_intent x))"
    and "material_record_new cr (rs_run_id s) (rpr_step_id (pn_permission_request pending)) (is_intent x)
      (pn_material_digest pending) (pn_material_retention pending) = Inr (is_material_record x)"
proof -
  obtain z ss where o: "bpe_outcome e = BO_Allow z ss"
    using assms by (auto simp: issue_once_effect_def split: broker_outcome.splits)
  show thesis
    using assms unfolding issue_once_effect_def o broker_outcome.case Let_def
    by (simp only: result_simps sum.inject case_prod_beta', elim exE conjE, hypsubst)
      (rule that [OF o]; simp add: bound_intent_def once_binding_def once_invocation_def ONCE_MAX_USES_def)
qed


section \<open>What is appended\<close>

lemma authorize_cases:
  assumes "authorize_and_commit cr ae env factory lease registry inputs pending (st, f) = (r, st', f')"
  obtains (kept) "st' = st" and "\<nexists>ad. r = Inr (Authorized ad)"
  | (admitted) s d e sel i metadata x c where
      "authorize_selection cr ae lease registry inputs pending st = Inr (Inr (s, d, e, sel, i))"
      and "issue_once_effect cr ae env pending s d i sel e (em_recorded_at metadata) = Inr x"
      and "ms_append_with_invocation_material cr env st (expected_head_from_state s)
        (runtime_event s metadata (EffectIntentCommitted (rpr_step_id (pn_permission_request pending)) (is_intent x)))
        (is_material_record x) = Inr (c, st')"
      and "r = Inr (Authorized \<lparr>ad_normalized_arguments = pn_normalized_arguments pending,
        ad_capability = rt_capability (pn_route pending), ad_selected_instance_id = sel,
        ad_definition_digest = pn_definition_digest pending,
        ad_instance_binding_digest = is_instance_binding_digest x,
        ad_action_digest = pn_action_digest pending, ad_effect_id = is_effect_id x,
        ad_material_record = is_material_record x, ad_commit = c\<rparr>)"
proof (cases "authorize_selection cr ae lease registry inputs pending st")
  case (Inl e)
  then show thesis using assms kept by (auto simp: authorize_and_commit_def)
next
  case (Inr q)
  show thesis
  proof (cases q)
    case (Inl outcome)
    then show thesis using assms Inr kept by (auto simp: authorize_and_commit_def)
  next
    case sel: (Inr t)
    obtain s d e v i where t: "t = (s, d, e, v, i)" by (cases t)
    note sel = Inr [unfolded sel t]
    show thesis
    proof (cases "factory f s")
      case (Pair m f1)
      show thesis
      proof (cases m)
        case (Inl err)
        then show thesis using assms sel Pair kept by (auto simp: authorize_and_commit_def)
      next
        case (Inr metadata)
        show thesis
        proof (cases "issue_and_append cr ae env pending s d e v i metadata st")
          case (Inl err)
          then show thesis using assms sel Pair Inr kept by (auto simp: authorize_and_commit_def)
        next
          case fin: (Inr p)
          then obtain out st1 where p: "p = (out, st1)" by (cases p)
          then have "r = Inr out" "st1 = st'" using assms sel Pair Inr fin by (simp_all add: authorize_and_commit_def)
          then show thesis
            using admitted [OF sel] fin p by (auto simp: issue_and_append_def result_simps)
        qed
      qed
    qed
  qed
qed


lemma admitted_appends:
  assumes "store_ok cr env st"
    and "ms_append_with_invocation_material cr env st (expected_head_from_state s) (runtime_event s metadata body) m = Inr (c, st')"
  shows "ms_appends cr env st (expected_head_from_state s) c st'" and "store_ok cr env st'"
    and "ms_records st' = ms_records st @ [cm_record c]" and "body_of (cm_record c) = body"
    and "ms_load_current st' = Some (cm_state c)" and "bm_get (ms_materials st') (imr_effect_id m) = Some m"
    and "commits cr env st c (no_sidecars\<lparr>csc_material := Some m\<rparr>) no_anchors st'"
proof -
  show a: "ms_appends cr env st (expected_head_from_state s) c st'" using assms(2) unfolding ms_appends_def by blast
  show c: "commits cr env st c (no_sidecars\<lparr>csc_material := Some m\<rparr>) no_anchors st'"
    using append_with_invocation_material_commits [OF assms(2)] by simp
  show "store_ok cr env st'" using assms(1) a by (rule store_ok_append)
  show "ms_records st' = ms_records st @ [cm_record c]" "ms_load_current st' = Some (cm_state c)"
    "bm_get (ms_materials st') (imr_effect_id m) = Some m"
    using c by (simp_all add: commits_def ms_load_current_def)
  have "er_event (cm_record c) = runtime_event s metadata body"
    using assms(2) by (auto simp: ms_append_with_invocation_material_def Let_def result_simps ms_commit_def
        dest: prepare_commit_Inr(2))
  then show "body_of (cm_record c) = body" by (simp add: runtime_event_def)
qed

text \<open>
  C19. Admission appends one bound intent or nothing. Whatever the broker, the router, the event
  factory and the store answer, \<open>authorize_and_commit\<close> leaves the store as it was unless it returns
  an authorized effect. If it does, then the lease and the prepared head are those of the durable run,
  the local policy layers are valid, none refuses the prepared request and none asks, the instance is
  registered and local, and exactly one record was appended: the intent of the prepared step with a
  one-use authorization bound to that head, to the definition, to the instance, to the action and to
  the material digest, without a sink guarantee, and its material record can be read back.
\<close>

theorem admission_appends_bound_intent:
  assumes "store_built cr env st"
    and "authorize_and_commit cr ae env factory lease registry inputs pending (st, f) = (r, st', f')"
  shows "st' = st \<and> (\<nexists>ad. r = Inr (Authorized ad))
    \<or> (\<exists>ad s i x. r = Inr (Authorized ad) \<and> ms_load_current st = Some s \<and> rs_run_id s = lease
        \<and> pending_matches (pn_run_binding pending) s
        \<and> \<not> is_managed inputs \<and> pi_request inputs = pn_permission_request pending \<and> layers_valid inputs
        \<and> \<not> refused (pn_permission_request pending) inputs \<and> \<not> questioned (pn_permission_request pending) inputs
        \<and> registry_instance registry (ad_selected_instance_id ad) = Some i \<and> cib_placement i = PL_Local
        \<and> ms_records st' = ms_records st @ [cm_record (ad_commit ad)]
        \<and> body_of (cm_record (ad_commit ad)) = EffectIntentCommitted (rpr_step_id (pn_permission_request pending)) x
        \<and> bound_intent pending s (ad_selected_instance_id ad) x \<and> ad_effect_id ad = ei_effect_id x
        \<and> ms_load_invocation_material cr st' (ei_effect_id x) = Inr (Some (ad_material_record ad)))"
  using assms(2)
proof (cases rule: authorize_cases)
  case (admitted s d e sel i metadata x c)
  have ok: "store_ok cr env st" using assms(1) by (rule store_built_ok)
  note a = admitted_appends [OF ok admitted(3)] and q = authorize_selection_Selected [OF admitted(1)]
  from admitted(2) obtain z ss where z: "bpe_outcome e = BO_Allow z ss" "bound_intent pending s sel (is_intent x)"
    "ei_effect_id (is_intent x) = is_effect_id x"
    and m: "material_record_new cr (rs_run_id s) (rpr_step_id (pn_permission_request pending)) (is_intent x)
      (pn_material_digest pending) (pn_material_retention pending) = Inr (is_material_record x)"
    by (rule issue_once_effect_Inr)
  have "ms_load_invocation_material cr st' (ei_effect_id (is_intent x)) = Inr (Some (is_material_record x))"
    using a(6) load_invocation_material [OF a(2)] by (simp add: material_record_new_Inr(1) [OF m])
  moreover have "evaluate (pn_permission_request pending) inputs = Inr (BO_Allow z ss)" using q(7) z(1) by simp
  then have "pi_request inputs = pn_permission_request pending" "layers_valid inputs"
    "\<not> refused (pn_permission_request pending) inputs" "\<not> questioned (pn_permission_request pending) inputs"
    unfolding evaluate_outcome_iff(3) by simp_all
  ultimately show ?thesis using admitted(4) q a z by (intro disjI2) auto
qed simp

theorem admission_appends_bound_intent_witness:
  "\<exists>ad st s x. authorize_and_commit sample_crypto sample_admission_env sample_env sample_factory ''r'' write_catalog write_inputs
       (write_pending Ephemeral) (sample_store2, 0) = (Inr (Authorized ad), st, 1)
     \<and> ms_records st = ms_records sample_store2 @ [cm_record (ad_commit ad)]
     \<and> body_of (cm_record (ad_commit ad)) = EffectIntentCommitted ''a'' x
     \<and> bound_intent (write_pending Ephemeral) s (ad_selected_instance_id ad) x"
proof -
  have step: "rpr_step_id (pn_permission_request (write_pending Ephemeral)) = ''a''"
    by (simp add: write_pending_def write_permission_def sample_request_def)
  obtain ad st where a: "authorize_and_commit sample_crypto sample_admission_env sample_env sample_factory ''r'' write_catalog
      write_inputs (write_pending Ephemeral) (sample_store2, 0) = (Inr (Authorized ad), st, 1)"
    using write_admitted [of Ephemeral] by (auto simp: write_retention_def)
  show ?thesis using admission_appends_bound_intent [OF sample_built(2) a] a unfolding step by blast
qed


section \<open>At most once\<close>

lemma current_head:
  assumes "store_ok cr env st" and "ms_load_current st = Some s"
  shows "expected_head_from_state s = index_head (ms_index st)"
proof -
  have j: "journal_ok cr st" "replay cr (ms_records st) = Inr s"
    using assms by (auto simp: store_ok_def journal_ok_def ms_load_current_def)
  then show ?thesis
    using index_head_numbered [OF j(1)] journal_length [OF j(2)] chain.reachable [OF j(2)]
    by (auto simp: expected_head_from_state_def chained_def)
qed

lemma pending_heads:
  "pending_matches b s \<Longrightarrow> pending_matches b t \<Longrightarrow> expected_head_from_state s = expected_head_from_state t"
  by (simp add: pending_matches_def expected_head_from_state_def)

text \<open>
  C23. A prepared invocation is admitted at most once. After an admission, in every store reached by
  further appends, the same invocation, and any other that was prepared at the same head, is refused
  before policy is consulted, whatever registry, policy layers, event factory and lease are used, and
  neither the store nor the event factory is touched.
\<close>

theorem pending_admitted_once:
  assumes "store_built cr env st"
    and "authorize_and_commit cr ae env factory lease registry inputs pending (st, f) = (Inr (Authorized ad), st', f')"
    and "(\<lambda>a b. \<exists>h c. ms_appends cr env a h c b)\<^sup>*\<^sup>* st' st''"
    and "pn_run_binding pending' = pn_run_binding pending"
    and "authorize_and_commit cr ae' env factory' lease' registry' inputs' pending' (st'', g) = (r, z, g')"
  shows "z = st'' \<and> g' = g \<and> (r = Inl AE_ManagedPolicyUnsupported \<or> r = Inl AE_RunHeadChanged
    \<or> (\<exists>s. ms_load_current st'' = Some s \<and> lease' \<noteq> rs_run_id s \<and> r = Inl (AE_LeaseRunMismatch lease' (rs_run_id s))))"
proof -
  note ok = store_built_ok [OF assms(1)]
  from assms(2) show ?thesis
  proof (cases rule: authorize_cases)
    case (admitted s d e sel i metadata x c)
    note a = admitted_appends [OF ok admitted(3)] and q = authorize_selection_Selected [OF admitted(1)]
    note later = assms(3) [folded mem.later_def]
    note used = mem.head_consumed [OF ok a(1) later]
    have ok'': "store_ok cr env st''" using mem.later_good [OF later a(2)] by simp
    have "ms_records st'' \<noteq> []" using used(2) by (auto simp: prefix_def)
    then obtain t where t: "ms_load_current st'' = Some t"
      using ok'' by (cases "vx_state (ms_index st'')") (auto simp: store_ok_def journal_ok_def ms_load_current_def ms_new_def)
    have "\<not> pending_matches (pn_run_binding pending') t"
    proof
      assume "pending_matches (pn_run_binding pending') t"
      then have "index_head (ms_index st'') = index_head (ms_index st)"
        using pending_heads q(4) current_head [OF ok q(2)] current_head [OF ok'' t] assms(4) by metis
      then show False using mem.equal_heads [OF ok'' ok] used(2) by (auto dest: prefix_length_le)
    qed
    then show ?thesis
      using assms(5) t by (cases "is_managed inputs'"; cases "lease' = rs_run_id t")
        (auto simp: authorize_and_commit_def authorize_selection_def admission_verify_lease_def)
  qed simp
qed

theorem pending_admitted_once_witness:
  "\<exists>ad st e. authorize_and_commit sample_crypto sample_admission_env sample_env sample_factory ''r'' write_catalog write_inputs
       (write_pending Ephemeral) (sample_store2, 0) = (Inr (Authorized ad), st, 1)
     \<and> authorize_and_commit sample_crypto sample_admission_env sample_env sample_factory ''r'' write_catalog write_inputs
       (write_pending Ephemeral) (st, 1) = (Inl e, st, 1)"
proof -
  obtain ad st where a: "authorize_and_commit sample_crypto sample_admission_env sample_env sample_factory ''r'' write_catalog
      write_inputs (write_pending Ephemeral) (sample_store2, 0) = (Inr (Authorized ad), st, 1)"
    using write_admitted [of Ephemeral] by (auto simp: write_retention_def)
  obtain r z g where b: "authorize_and_commit sample_crypto sample_admission_env sample_env sample_factory ''r'' write_catalog
      write_inputs (write_pending Ephemeral) (st, 1) = (r, z, g)"
    by (metis prod_cases3)
  show ?thesis
    using pending_admitted_once [OF sample_built(2) a rtranclp.rtrancl_refl refl b] a b by auto
qed


section \<open>From admission to execution\<close>

lemma strategies_agree [simp]: "runtime_protocol_strategy (receipt_verification_strategy_of v) = v"
  by (cases v) simp_all

lemma built_plan_matches: "receipt_verification_plan_matches d (build_receipt_provenance ae identity p did dd i d)"
  by (auto simp: receipt_verification_plan_matches_def build_receipt_provenance_def Let_def list_all_iff set_zip)

lemma profiles_differ [simp]: "CORE_RECEIPT_PROFILE_V1 \<noteq> CORE_RECEIPT_PROFILE_V2" "CORE_RECEIPT_PROFILE_V2 \<noteq> CORE_RECEIPT_PROFILE_V1"
  by (simp_all add: CORE_RECEIPT_PROFILE_V1_def CORE_RECEIPT_PROFILE_V2_def)

lemma built_profiles:
  assumes "map_effect_class (ce_class (cs_effect (cdb_spec d))) = Inr c"
  shows "executor_receipt_profile_matches (rp_profile_version (build_receipt_provenance ae identity p did dd i d)) c"
    and "executor_output_profile_matches c (build_receipt_provenance ae identity p did dd i d)"
  using assms
  by (cases "ce_class (cs_effect (cdb_spec d))"; cases "cx_durable_tool_output (cs_execution (cdb_spec d))";
      auto simp: build_receipt_provenance_def Let_def executor_receipt_profile_matches_def executor_output_profile_matches_def)+

lemma issued_provenance_verifies:
  assumes "issue_once_effect cr ae env pending s d i sel e t = Inr x" and "cib_placement i = PL_Local"
  shows "verify_receipt_provenance cr ae (is_intent x) = Inr ()"
  using assms(1)
proof (rule issue_once_effect_Inr)
  fix identity did dd
  let ?p = "build_receipt_provenance ae identity (pn_plan_id pending) did dd i d"
  assume "map_effect_class (ce_class (cs_effect (cdb_spec d))) = Inr (ei_effect_class (is_intent x))"
    and p: "ei_receipt_provenance (is_intent x) = Some ?p"
    and dg: "\<exists>pd. ab_receipt_provenance_digest (au_binding (ei_authorization (is_intent x))) = Some pd
      \<and> receipt_provenance_digest cr ?p = Inr pd"
  note profiles = built_profiles [OF this(1)]
  have "rp_input_summary ?p = CORE_RECEIPT_INPUT_SUMMARY_V1" "rp_executor_id ?p = LOCAL_EXECUTOR_ID"
    "rp_executor_placement ?p = PlacementLocal" "rp_executor_platform ?p = local_executor_platform ae"
    using assms(2) by (simp_all add: build_receipt_provenance_def Let_def)
  then show ?thesis using p dg profiles by (auto simp: verify_receipt_provenance_def)
qed


text \<open>A planned step has never been attempted.\<close>

interpretation unattempted: step_invariant cr "\<lambda>_ _ st. ss_status st = Planned \<longrightarrow> ss_attempts st = 0" for cr
proof unfold_locales
  fix v r st st'
  assume "ss_status st = Planned \<longrightarrow> ss_attempts st = 0" and "lifecycle v (body_of r) st st'"
  from this(2,1) show "ss_status st' = Planned \<longrightarrow> ss_attempts st' = 0"
    by (cases rule: lifecycle.cases) (simp_all split: reconciliation_resolution.splits verification_disposition.splits)
qed (simp_all add: new_step_def)

lemma admitted_step:
  assumes "store_ok cr env st" and "ms_load_current st = Some s"
    and "commits cr env st c sc an st'" and "body_of (cm_record c) = EffectIntentCommitted v x"
  obtains y where "bm_get (rs_steps (cm_state c)) v = Some y" and "ss_status y = IntentCommitted"
    and "ss_intent y = Some x" and "ss_attempts y = 0" and "rs_run_id (cm_state c) = rs_run_id s"
    and "map_option ss_planned_invocation (bm_get (rs_steps s) v) = Some (ss_planned_invocation y)"
proof -
  have j: "journal_ok cr st" using assms(1) by (simp add: store_ok_def)
  from assms(3) j show thesis
  proof (cases rule: commits_cases)
    case (extended t s')
    have "t = s" using extended(1) assms(2) j by (simp add: journal_ok_def ms_load_current_def)
    have "step_move cr t (body_of (cm_record c)) v (bm_get (rs_steps t) v) (bm_get (rs_steps s') v)"
      using extended(4) by (rule apply_body_step_move)
    then show thesis
    proof (cases rule: step_move.cases)
      case (committed i z y)
      have "ss_attempts y = 0" using unattempted.reachable [OF extended(2)] committed by simp
      then show thesis using that committed assms(4) extended(5,9) \<open>t = s\<close> by simp
    next
      case (moved y y')
      then show thesis using assms(4) by (auto simp: lifecycle_simps)
    qed (use assms(4) in \<open>simp_all add: targets_def\<close>)
  qed (use assms(4) in simp)
qed

lemma prepare_Inr:
  assumes "prepare cr ae jp resolve lease registry st q = Inr p"
  obtains s facts where "ms_load_current st = Some s" and "lease = rs_run_id s"
    and "require_admission_ready_step s (aq_step_id q) = Inr ()"
    and "verify_unplanned_read_only_boundary s (aq_step_id q) (rt_capability (aq_route q)) registry = Inr ()"
    and "verify_planned_definition_binding cr ae s (aq_step_id q) registry = Inr ()"
    and "pn_run_binding p = pending_from_state s" and "pn_route p = aq_route q"
    and "prepare_invocation_facts cr ae jp resolve (rs_run_id s) (aq_step_id q) (rt_capability (aq_route q))
      (aq_arguments q) registry = Inr facts"
    and "pn_normalized_arguments p = pf_normalized_arguments facts" and "pn_permission_request p = pf_permission_request facts"
    and "pn_definition_digest p = pf_definition_digest facts" and "pn_material_digest p = pf_material_digest facts"
    and "planned_action_digest cr ae s (aq_step_id q) (pf_semantic_action_digest facts) = Inr (pn_action_digest p)"
    and "verify_planned_admission_binding s q (pf_definition_digest facts) (pn_action_digest p) (pf_material_digest facts)
      = Inr (pn_plan_id p)"
    and "pn_plan_id p = None \<longrightarrow> pn_material_retention p = Ephemeral"
  using assms unfolding prepare_def
  by (simp only: result_simps sum.inject, elim exE conjE, hypsubst)
    (rule that, auto simp: admission_verify_lease_def result_simps split: option.splits)

lemma prepare_facts_Inr:
  assumes "prepare_invocation_facts cr ae jp resolve run step capability arguments registry = Inr facts"
  obtains d rq where "registry_definition registry capability = Some d"
    and "resolve_invocation jp resolve (rpr_request_id (pf_permission_request facts)) run step d arguments GL_Once = Inr rq"
    and "pf_normalized_arguments facts = rir_normalized_arguments rq" and "pf_permission_request facts = rir_permission_request rq"
    and "definition_contract_digest cr ae d = Inr (pf_definition_digest facts)"
    and "invocation_material_digest cr (pf_normalized_arguments facts) = Inr (pf_material_digest facts)"
    and "semantic_action_digest cr ae capability (pf_definition_digest facts) (ce_class (cs_effect (cdb_spec d)))
      (pf_normalized_arguments facts) (pf_permission_request facts) = Inr (pf_semantic_action_digest facts)"
proof -
  have "rpr_request_id (rir_permission_request rq) = rid" if "resolve_invocation jp resolve rid run step d arguments GL_Once = Inr rq"
    for rid d rq
    using that by (auto simp: resolve_invocation_def result_simps)
  then show thesis
    using assms unfolding prepare_invocation_facts_def Let_def
    by (simp only: result_simps sum.inject, elim exE conjE, hypsubst)
      (rule that, auto simp: definition_of_def result_simps)
qed

lemma prepared_material:
  assumes "prepare cr ae jp resolve lease registry st q = Inr p"
  shows "invocation_material_digest cr (pn_normalized_arguments p) = Inr (pn_material_digest p)"
    and "pn_plan_id p = None \<Longrightarrow> pn_material_retention p = Ephemeral"
proof -
  from assms obtain s :: run_state and facts where f: "prepare_invocation_facts cr ae jp resolve (rs_run_id s) (aq_step_id q)
      (rt_capability (aq_route q)) (aq_arguments q) registry = Inr facts"
    "pn_normalized_arguments p = pf_normalized_arguments facts" "pn_material_digest p = pf_material_digest facts"
    "pn_plan_id p = None \<longrightarrow> pn_material_retention p = Ephemeral"
    by (rule prepare_Inr) (rule that)
  from f(1) show "invocation_material_digest cr (pn_normalized_arguments p) = Inr (pn_material_digest p)"
    unfolding f(2,3) by (rule prepare_facts_Inr)
  show "pn_material_retention p = Ephemeral" if "pn_plan_id p = None" using f(4) that by simp
qed


lemma selected_instance_definition:
  assumes "registry_built registry" and "route registry q policy = Inr (RouteSelected sel ranked cands reason)"
    and "registry_instance registry sel = Some i"
  shows "cib_definition i = rt_capability q"
proof -
  have ok: "registry_ok registry" using assms(1) by (rule registry_invariant)
  from assms(2) obtain d rest where "rank_candidates (instances_for registry (rt_capability q))
      (map (\<lambda>i. evaluate_candidate i d q) (instances_for registry (rt_capability q))) q = sel # rest"
    by (rule route_Selected) (rule that)
  then obtain j where "j \<in> set (instances_for registry (rt_capability q))" "cib_instance_id j = sel"
    by (rule head_of_ranking) (rule that)
  then show ?thesis using assms(3) by (auto simp: instances_for_iff [OF ok])
qed

lemma admission_established:
  assumes "store_ok cr env st"
    and "authorize_and_commit cr ae env factory lease registry inputs pending (st, f) = (Inr (Authorized ad), st', f')"
  obtains s d e i t x s' y where
    "authorize_selection cr ae lease registry inputs pending st = Inr (Inr (s, d, e, ad_selected_instance_id ad, i))"
    and "issue_once_effect cr ae env pending s d i (ad_selected_instance_id ad) e t = Inr x"
    and "ms_load_current st' = Some s'" and "rs_run_id s' = rs_run_id s"
    and "bm_get (rs_steps s') (rpr_step_id (pn_permission_request pending)) = Some y" and "ss_status y = IntentCommitted"
    and "ss_intent y = Some (is_intent x)" and "ss_attempts y = 0"
    and "map_option ss_planned_invocation (bm_get (rs_steps s) (rpr_step_id (pn_permission_request pending)))
      = Some (ss_planned_invocation y)"
    and "ms_load_invocation_material cr st' (ei_effect_id (is_intent x)) = Inr (Some (ad_material_record ad))"
    and "ad_material_record ad = is_material_record x" and "ad_normalized_arguments ad = pn_normalized_arguments pending"
    and "ad_capability ad = rt_capability (pn_route pending)" and "ad_effect_id ad = is_effect_id x"
    and "store_ok cr env st'" and "ms_records st' \<noteq> []"
  using assms(2)
proof (cases rule: authorize_cases)
  case (admitted s d e sel i metadata x c)
  note a = admitted_appends [OF assms(1) admitted(3)] and q = authorize_selection_Selected [OF admitted(1)]
  from admitted(2) have m: "material_record_new cr (rs_run_id s) (rpr_step_id (pn_permission_request pending)) (is_intent x)
      (pn_material_digest pending) (pn_material_retention pending) = Inr (is_material_record x)"
    by (rule issue_once_effect_Inr)
  have l: "ms_load_invocation_material cr st' (ei_effect_id (is_intent x)) = Inr (Some (is_material_record x))"
    using a(6) load_invocation_material [OF a(2)] by (simp add: material_record_new_Inr(1) [OF m])
  show thesis
  proof (rule admitted_step [OF assms(1) q(2) a(7,4)])
    fix y
    assume y: "bm_get (rs_steps (cm_state c)) (rpr_step_id (pn_permission_request pending)) = Some y" "ss_status y = IntentCommitted"
      "ss_intent y = Some (is_intent x)" "ss_attempts y = 0" "rs_run_id (cm_state c) = rs_run_id s"
      "map_option ss_planned_invocation (bm_get (rs_steps s) (rpr_step_id (pn_permission_request pending)))
        = Some (ss_planned_invocation y)"
    show thesis
      by (rule that [of s d e i "em_recorded_at metadata" x "cm_state c" y]) (use admitted a l y in simp_all)
  qed
qed simp

lemma issued_passes_gate:
  assumes "registry_built registry"
    and "authorize_selection cr ae lease registry inputs pending st = Inr (Inr (s, d, e, sel, i))"
    and "issue_once_effect cr ae env pending s d i sel e t = Inr x"
    and "he_status (cib_health i) = HS_Available" and "cib_auth i = \<lparr>at_state = AS_NotRequired, at_auth_ref = None\<rparr>"
    and "ae_schema ae (cs_output_schema (cdb_spec d)) = Some valid"
  shows "verify_receipt_provenance cr ae (is_intent x) = Inr ()" and "verify_current_instance cr ae registry (is_intent x) = Inr i"
    and "verify_dynamic_execution_gate i = Inr ()" and "\<exists>w. build_tool_output_validator ae registry (is_intent x) = Inr w"
proof -
  note q = authorize_selection_Selected [OF assms(2)]
  show "verify_receipt_provenance cr ae (is_intent x) = Inr ()" using issued_provenance_verifies [OF assms(3)] q(10) by simp
  show "verify_dynamic_execution_gate i = Inr ()" using q(10) assms(4,5) by (simp add: verify_dynamic_execution_gate_def)
  from assms(3) obtain identity did dd where b: "bound_intent pending s sel (is_intent x)"
    "ei_receipt_provenance (is_intent x) = Some (build_receipt_provenance ae identity (pn_plan_id pending) did dd i d)"
    "executable_binding_digest cr ae i = Inr (ib_instance_binding_digest (ei_invocation (is_intent x)))"
    by (rule issue_once_effect_Inr) (rule that)
  have cap: "intent_capability (is_intent x) = rt_capability (pn_route pending)"
    using b(1) by (simp add: intent_capability_def bound_intent_def)
  show "verify_current_instance cr ae registry (is_intent x) = Inr i"
    using b q(5,6,9,11) cap selected_instance_definition [OF assms(1)] built_plan_matches
    by (auto simp: verify_current_instance_def executor_definition_def bound_intent_def)
  show "\<exists>w. build_tool_output_validator ae registry (is_intent x) = Inr w"
    using q(5) cap assms(6) b(2) by (simp add: build_tool_output_validator_def executor_definition_def)
qed

text \<open>
  C28. What admission commits, the executor accepts. An unplanned invocation that was prepared and
  then admitted can be turned into verified material in the same process; with the registry unchanged,
  the selected instance available and without credentials, its adapter registered, a compilable output
  schema and an attempt allowed, every check that the executor makes before it asks the adapter passes
  on the new durable state, for exactly the committed intent, the prepared arguments and the selected
  instance.
\<close>

theorem admitted_effect_is_executable:
  assumes "store_built cr env st" and "registry_built registry"
    and "prepare cr ae jp resolve lease registry st0 q = Inr pending" and "pn_plan_id pending = None"
    and "authorize_and_commit cr ae env factory lease registry inputs pending (st, f) = (Inr (Authorized ad), st', f')"
    and "registry_instance registry (ad_selected_instance_id ad) = Some i"
    and "he_status (cib_health i) = HS_Available" and "cib_auth i = \<lparr>at_state = AS_NotRequired, at_auth_ref = None\<rparr>"
    and "from_binding (cib_binding i) = Inr key" and "bm_get adapters key = Some adapter"
    and "registry_definition registry (ad_capability ad) = Some d" and "ae_schema ae (cs_output_schema (cdb_spec d)) = Some valid"
    and "0 < max_attempts"
  shows "\<exists>m s y ticket. into_ephemeral_material cr ad = Inr m
    \<and> ms_load_current st' = Some s \<and> bm_get (rs_steps s) (rpr_step_id (pn_permission_request pending)) = Some y
    \<and> ss_status y = IntentCommitted
    \<and> execution_gate cr ae max_attempts registry adapters st' s y (rpr_step_id (pn_permission_request pending)) (Some m) = Inr ticket
    \<and> ss_intent y = Some (et_intent ticket) \<and> ei_effect_id (et_intent ticket) = ad_effect_id ad
    \<and> im_normalized_arguments (et_material ticket) = pn_normalized_arguments pending
    \<and> et_instance ticket = i \<and> et_adapter ticket = adapter"
  using store_built_ok [OF assms(1)] assms(5)
proof (rule admission_established)
  fix s d' e i' t x s' y
  let ?v = "rpr_step_id (pn_permission_request pending)"
  assume sel: "authorize_selection cr ae lease registry inputs pending st = Inr (Inr (s, d', e, ad_selected_instance_id ad, i'))"
    and iss: "issue_once_effect cr ae env pending s d' i' (ad_selected_instance_id ad) e t = Inr x"
    and y: "ms_load_current st' = Some s'" "rs_run_id s' = rs_run_id s" "bm_get (rs_steps s') ?v = Some y"
      "ss_status y = IntentCommitted" "ss_intent y = Some (is_intent x)" "ss_attempts y = 0"
    and load: "ms_load_invocation_material cr st' (ei_effect_id (is_intent x)) = Inr (Some (ad_material_record ad))"
    and ad: "ad_material_record ad = is_material_record x" "ad_normalized_arguments ad = pn_normalized_arguments pending"
      "ad_capability ad = rt_capability (pn_route pending)" "ad_effect_id ad = is_effect_id x"
  have [simp]: "i' = i" "d' = d" using authorize_selection_Selected(5,9) [OF sel] assms(6,11) ad by simp_all
  note gate = issued_passes_gate [OF assms(2) sel iss, simplified, OF assms(7,8,12)]
  from iss have m: "material_record_new cr (rs_run_id s) ?v (is_intent x) (pn_material_digest pending)
      (pn_material_retention pending) = Inr (is_material_record x)" and eid: "ei_effect_id (is_intent x) = is_effect_id x"
    by (rule issue_once_effect_Inr, simp)+
  note m = material_record_new_Inr [OF m] and pm = prepared_material [OF assms(3)]
  let ?m = "\<lparr>im_record = is_material_record x, im_normalized_arguments = pn_normalized_arguments pending\<rparr>"
  have mat: "into_ephemeral_material cr ad = Inr ?m"
    using pm assms(4) m(2,3) ad by (simp add: into_ephemeral_material_def)
  have "verify_material cr st' s' ?v (is_intent x) (is_material_record x) (pn_normalized_arguments pending) = Inr ()"
    using m(2,5) pm(1) load ad(1) y(2) by (simp add: verify_material_def)
  moreover from gate(4) obtain w where "build_tool_output_validator ae registry (is_intent x) = Inr w" by blast
  ultimately have "execution_gate cr ae max_attempts registry adapters st' s' y ?v (Some ?m) =
      Inr \<lparr>et_intent = is_intent x, et_material = ?m, et_instance = i, et_validator = w, et_key = key, et_adapter = adapter\<rparr>"
    using gate(1-3) assms(9,10,13) y by (simp add: execution_gate_def step_intent_of_def not_le [symmetric])
  then show ?thesis using mat y ad eid by auto
qed

theorem admitted_effect_is_executable_witness:
  "\<exists>ad st s y m ticket. authorize_and_commit sample_crypto sample_admission_env sample_env sample_factory ''r'' write_catalog
       write_inputs (write_pending Ephemeral) (sample_store2, 0) = (Inr (Authorized ad), st, 1)
     \<and> into_ephemeral_material sample_crypto ad = Inr m
     \<and> execution_gate sample_crypto sample_admission_env 1 write_catalog sample_adapters st s y ''a'' (Some m) = Inr ticket
     \<and> im_normalized_arguments (et_material ticket) = write_arguments \<and> et_adapter ticket = sample_adapter"
proof -
  have pending: "rpr_step_id (pn_permission_request (write_pending Ephemeral)) = ''a''"
    "pn_plan_id (write_pending Ephemeral) = None" "pn_normalized_arguments (write_pending Ephemeral) = write_arguments"
    by (simp_all add: write_pending_def write_permission_def sample_request_def)
  obtain ad st where a: "authorize_and_commit sample_crypto sample_admission_env sample_env sample_factory ''r'' write_catalog
      write_inputs (write_pending Ephemeral) (sample_store2, 0) = (Inr (Authorized ad), st, 1)"
    and ad: "ad_selected_instance_id ad = ''i''" "ad_capability ad = rt_capability write_route"
    using write_admitted [of Ephemeral] by (auto simp: write_retention_def)
  have i: "he_status (cib_health sample_instance) = HS_Available"
    "cib_auth sample_instance = \<lparr>at_state = AS_NotRequired, at_auth_ref = None\<rparr>"
    by (simp_all add: sample_instance_def)
  have schema: "ae_schema sample_admission_env (cs_output_schema (cdb_spec write_definition)) = Some (\<lambda>_. True)"
    by (simp add: sample_admission_env_def)
  show ?thesis
    using admitted_effect_is_executable [OF sample_built(2) write_catalog_built write_prepared pending(2) a
        write_lookup(2) [folded ad(1)] i sample_adapter_bound write_lookup(1) [folded ad(2)] schema, of 1] a
    unfolding pending by auto
qed

end
