(* ===== verification/Executor_Properties.thy ===== *)
theory Executor_Properties
  imports Admission_Properties
begin

text \<open>
  The executor and the material recovery over the store: an adapter is reached only behind every
  gate and after the durable start record, no \<open>expect\<close> of the sink can fail, and recovered arguments
  are those that were admitted.
\<close>

section \<open>What the gates establish\<close>

definition instance_cleared ::
    "crypto \<Rightarrow> admission_env \<Rightarrow> capability_registry \<Rightarrow> 'a effect_adapter_registry \<Rightarrow> effect_intent \<Rightarrow> capability_instance_body \<Rightarrow> bool" where
  "instance_cleared cr ae capabilities adapters x i \<longleftrightarrow>
     (\<exists>d. registry_definition capabilities (intent_capability x) = Some d
        \<and> definition_contract_digest cr ae d = Inr (ib_definition_digest (ei_invocation x)))
     \<and> registry_instance capabilities (ib_instance_id (ei_invocation x)) = Some i \<and> cib_definition i = intent_capability x
     \<and> executable_binding_digest cr ae i = Inr (ib_instance_binding_digest (ei_invocation x))
     \<and> cib_placement i = PL_Local \<and> he_status (cib_health i) = HS_Available
     \<and> at_state (cib_auth i) = AS_NotRequired \<and> at_auth_ref (cib_auth i) = None
     \<and> (\<exists>key adapter. from_binding (cib_binding i) = Inr key \<and> bm_get adapters key = Some adapter)"

definition material_cleared ::
    "crypto \<Rightarrow> memory_run_store \<Rightarrow> effect_intent \<Rightarrow> invocation_material \<Rightarrow> bool" where
  "material_cleared cr st x m \<longleftrightarrow>
     ms_load_invocation_material cr st (ei_effect_id x) = Inr (Some (im_record m))
     \<and> invocation_material_digest cr (im_normalized_arguments m) = Inr (ab_material_digest (au_binding (ei_authorization x)))"

lemma current_instance_cleared:
  assumes "verify_current_instance cr ae capabilities x = Inr i" and "verify_dynamic_execution_gate i = Inr ()"
    and "from_binding (cib_binding i) = Inr key" and "bm_get adapters key = Some adapter"
  shows "instance_cleared cr ae capabilities adapters x i"
  using assms
  by (auto simp: verify_current_instance_def verify_dynamic_execution_gate_def instance_cleared_def executor_definition_def
      result_simps split: if_splits)

lemma verify_material_iff:
  "verify_material cr st s v x r args = Inr () \<longleftrightarrow>
     material_record_verify_for cr r (rs_run_id s) v x = Inr () \<and> material_cleared cr st x \<lparr>im_record = r, im_normalized_arguments = args\<rparr>"
  by (auto simp: verify_material_def material_cleared_def material_record_verify_for_def result_simps)

lemma execution_gate_Inr:
  assumes "execution_gate cr ae n capabilities adapters st s x v material = Inr t"
  shows "ss_intent x = Some (et_intent t)" and "material = Some (et_material t)" and "ss_attempts x < n"
    and "material_cleared cr st (et_intent t) (et_material t)"
    and "instance_cleared cr ae capabilities adapters (et_intent t) (et_instance t)"
proof -
  from assms show "ss_intent x = Some (et_intent t)" "material = Some (et_material t)" "ss_attempts x < n"
    by (auto simp: execution_gate_def step_intent_of_def result_simps not_le)
  from assms have m: "verify_material cr st s v (et_intent t) (im_record (et_material t)) (im_normalized_arguments (et_material t)) = Inr ()"
    and i: "verify_current_instance cr ae capabilities (et_intent t) = Inr (et_instance t)"
      "verify_dynamic_execution_gate (et_instance t) = Inr ()" "from_binding (cib_binding (et_instance t)) = Inr (et_key t)"
      "bm_get adapters (et_key t) = Some (et_adapter t)"
    by (auto simp: execution_gate_def result_simps)
  from m show "material_cleared cr st (et_intent t) (et_material t)"
    by (simp add: verify_material_iff material_cleared_def)
  from i show "instance_cleared cr ae capabilities adapters (et_intent t) (et_instance t)" by (rule current_instance_cleared)
qed

lemma reconcile_gate_Inr:
  assumes "reconcile_gate cr ae capabilities adapters x = Inr sink"
  obtains i adapter where "instance_cleared cr ae capabilities adapters x i"
    and "ds_adapter sink = Some adapter" and "ds_reconciliation_instance sink = Some i"
  using assms by (auto simp: reconcile_gate_def result_simps dest: current_instance_cleared)

section \<open>The sink never panics\<close>

lemma direct_execute_flag [simp]: "snd (snd (direct_execute cr sink u x p)) = snd u"
  by (simp add: direct_execute_def split: prod.splits)

lemma direct_reconcile_flag:
  "ds_adapter sink = Some a \<Longrightarrow> ds_reconciliation_instance sink = Some i \<Longrightarrow> snd (snd (direct_reconcile sink u x)) = snd u"
  by (simp add: direct_reconcile_def split: prod.splits)

lemma direct_ports_simps [simp]:
  "po_execute (direct_ports cr host sink) = direct_execute cr sink"
  "po_reconcile (direct_ports cr host sink) = direct_reconcile sink"
  "po_lease_run_id (direct_ports cr host sink) = eh_lease_run_id host"
  "po_max_attempts (direct_ports cr host sink) = eh_max_attempts host"
  by (simp_all add: direct_ports_def)

lemma run_runtime_calls:
  assumes "run_runtime cr env host sink v prepared w = (r, w')" and "store_ok cr env (rw_store w)"
    and "ms_load_current (rw_store w) = Some s" and "bm_get (rs_steps s) v = Some x"
  obtains (silent) "rw_calls w' = rw_calls w" and "rw_sink w' = rw_sink w"
  | (executed) i c p where "ss_status x = IntentCommitted" and "ss_intent x = Some i"
      and "body_of c = EffectExecutionStarted v (ei_effect_id i)" and "prepared = Some p"
      and "prefix (ms_records (rw_store w) @ [c]) (ms_records (rw_store w'))"
      and "rw_calls w' = rw_calls w @ [CallExecute v i]" and "snd (rw_sink w') = snd (rw_sink w)"
  | (queried) i where "ss_status x \<in> {EffectUnknown, Reconciling}" and "ss_intent x = Some i"
      and "supports_query (ei_sink_guarantee i)" and "rw_calls w' = rw_calls w @ [CallReconcile i]"
      and "rw_sink w' = snd (direct_reconcile sink (rw_sink w) i)"
proof -
  obtain q where "drive_step cr env (direct_ports cr host sink) v prepared w = (q, w')"
    using assms(1) by (auto simp: run_runtime_def split: prod.splits)
  from drive_step_calls [OF assms(2) this] show thesis
    using assms(3,4) silent executed queried by auto
qed


text \<open>The step that the executor dispatches on.\<close>

definition driven_step :: "memory_run_store \<Rightarrow> string \<Rightarrow> run_state \<Rightarrow> step_state \<Rightarrow> bool" where
  "driven_step st v s x \<longleftrightarrow> ms_load_current st = Some s \<and> bm_get (rs_steps s) v = Some x"

lemma undispatched:
  assumes "direct_drive_step cr ae env host capabilities adapters v material w = (r, w')"
    and "\<nexists>s x. driven_step (rw_store w) v s x \<and> eh_lease_run_id host = rs_run_id s"
  shows "w' = w"
  using assms by (auto simp: direct_drive_step_def driven_step_def executor_verify_lease_def rt_bind_def rt_try_def
      ok_or_def reject_if_def split: option.splits if_splits)

lemma dispatched:
  assumes "driven_step (rw_store w) v s x" and "eh_lease_run_id host = rs_run_id s"
  shows "direct_drive_step cr ae env host capabilities adapters v material w =
     (case ss_status x of IntentCommitted \<Rightarrow> execute_arm cr ae env host capabilities adapters s x v material
      | EffectUnknown \<Rightarrow> reconcile_arm cr ae env host capabilities adapters x v
      | Reconciling \<Rightarrow> reconcile_arm cr ae env host capabilities adapters x v
      | _ \<Rightarrow> drive_without_adapter cr env host v) w"
  using assms by (simp add: direct_drive_step_def driven_step_def executor_verify_lease_def rt_bind_def rt_try_def
      ok_or_def reject_if_def)

lemma direct_drive_step_cases:
  assumes "direct_drive_step cr ae env host capabilities adapters v material w = (r, w')"
  obtains (refused) "rw_calls w' = rw_calls w" and "snd (rw_sink w') = snd (rw_sink w)"
  | (execute) s x t w1 sink prepared where "driven_step (rw_store w) v s x" and "ss_status x = IntentCommitted"
      and "execution_gate cr ae (eh_max_attempts host) capabilities adapters (rw_store w) s x v material = Inr t"
      and "run_runtime cr env host sink v prepared w1 = (r, w')"
      and "rw_store w1 = rw_store w" and "rw_calls w1 = rw_calls w" and "snd (rw_sink w1) = snd (rw_sink w)"
  | (reconcile) s x i sink where "driven_step (rw_store w) v s x" and "ss_status x \<in> {EffectUnknown, Reconciling}"
      and "ss_intent x = Some i" and "reconcile_gate cr ae capabilities adapters i = Inr sink"
      and "run_runtime cr env host sink v None w = (r, w')"
  | (plain) s x where "driven_step (rw_store w) v s x" and "ss_status x \<noteq> IntentCommitted"
      and "ss_status x \<in> {EffectUnknown, Reconciling} \<Longrightarrow>
        \<exists>i. ss_intent x = Some i \<and> \<not> supports_query (ei_sink_guarantee i)"
      and "run_runtime cr env host no_sink v None w = (r, w')"
proof (cases "\<exists>s x. driven_step (rw_store w) v s x \<and> eh_lease_run_id host = rs_run_id s")
  case False
  then show thesis using refused undispatched [OF assms] by simp
next
  case True
  then obtain s x where d: "driven_step (rw_store w) v s x" and "eh_lease_run_id host = rs_run_id s" by auto
  then have run: "(case ss_status x of IntentCommitted \<Rightarrow> execute_arm cr ae env host capabilities adapters s x v material
      | EffectUnknown \<Rightarrow> reconcile_arm cr ae env host capabilities adapters x v
      | Reconciling \<Rightarrow> reconcile_arm cr ae env host capabilities adapters x v
      | _ \<Rightarrow> drive_without_adapter cr env host v) w = (r, w')"
    using dispatched [of w v s x host] assms by simp
  consider "ss_status x = IntentCommitted" | "ss_status x \<in> {EffectUnknown, Reconciling}"
    | "ss_status x \<notin> {IntentCommitted, EffectUnknown, Reconciling}" by auto
  then show thesis
  proof cases
    case 1
    with run have "execute_arm cr ae env host capabilities adapters s x v material w = (r, w')" by simp
    then show thesis using 1 d
      by (auto simp: execute_arm_def adapter_prepare_def rt_bind_def rt_try_def split: sum.splits prod.splits
          intro: refused execute [of s x])
  next
    case 2
    with run have "reconcile_arm cr ae env host capabilities adapters x v w = (r, w')" by auto
    then show thesis using 2 d
      by (auto simp: reconcile_arm_def drive_without_adapter_def step_intent_of_def rt_bind_def rt_try_def ok_or_def
          split: option.splits sum.splits prod.splits if_splits intro: refused reconcile [of s x] plain [of s x])
  next
    case 3
    with run have "run_runtime cr env host no_sink v None w = (r, w')"
      by (cases "ss_status x") (auto simp: drive_without_adapter_def)
    then show thesis using 3 d by (intro plain) auto
  qed
qed

text \<open>
  C26. The executor reaches an adapter only behind its gates. Whatever adapters, registry, event
  factory and store a drive finds, no \<open>expect\<close> of the sink fails, and the drive makes no sink call
  except two. It executes only a step with a committed intent, with material whose record is the
  durable one and whose arguments have the digest the authorization binds, against a definition and a
  local, available instance without credentials whose current digests are those of the intent, with a
  registered adapter, and after the start was appended to the journal. It reconciles only an effect
  of unknown outcome whose sink supports queries, behind the same checks of the definition, the
  instance and the adapter.
\<close>

theorem executor_gates_every_call:
  assumes "direct_drive_step cr ae env host capabilities adapters v material w = (r, w')" and "store_ok cr env (rw_store w)"
  shows "snd (rw_sink w') = snd (rw_sink w)
     \<and> (rw_calls w' = rw_calls w
      \<or> (\<exists>s x i m inst c. driven_step (rw_store w) v s x \<and> ss_status x = IntentCommitted \<and> ss_intent x = Some i
          \<and> material = Some m \<and> material_cleared cr (rw_store w) i m \<and> instance_cleared cr ae capabilities adapters i inst
          \<and> body_of c = EffectExecutionStarted v (ei_effect_id i)
          \<and> prefix (ms_records (rw_store w) @ [c]) (ms_records (rw_store w'))
          \<and> rw_calls w' = rw_calls w @ [CallExecute v i])
      \<or> (\<exists>s x i inst. driven_step (rw_store w) v s x \<and> ss_status x \<in> {EffectUnknown, Reconciling} \<and> ss_intent x = Some i
          \<and> supports_query (ei_sink_guarantee i) \<and> instance_cleared cr ae capabilities adapters i inst
          \<and> rw_calls w' = rw_calls w @ [CallReconcile i]))"
  using assms(1)
proof (cases rule: direct_drive_step_cases)
  case refused
  then show ?thesis by simp
next
  case (execute s x t w1 sink prepared)
  note gate = execution_gate_Inr [OF execute(3)]
  from execute(4) show ?thesis
  proof (rule run_runtime_calls)
    show "store_ok cr env (rw_store w1)" "ms_load_current (rw_store w1) = Some s" "bm_get (rs_steps s) v = Some x"
      using assms(2) execute(1,5) by (simp_all add: driven_step_def)
  next
    assume "rw_calls w' = rw_calls w1" "rw_sink w' = rw_sink w1"
    then show ?thesis using execute(6,7) by simp
  next
    fix i c p
    assume "ss_intent x = Some i" "body_of c = EffectExecutionStarted v (ei_effect_id i)"
      "prefix (ms_records (rw_store w1) @ [c]) (ms_records (rw_store w'))"
      "rw_calls w' = rw_calls w1 @ [CallExecute v i]" "snd (rw_sink w') = snd (rw_sink w1)"
    moreover from this gate(1) have "i = et_intent t" by simp
    ultimately show ?thesis using execute gate by auto
  next
    assume "ss_status x \<in> {EffectUnknown, Reconciling}"
    then show ?thesis using execute(2) by simp
  qed
next
  case (reconcile s x i sink)
  from reconcile(4) obtain inst adapter where cleared: "instance_cleared cr ae capabilities adapters i inst"
    and sink: "ds_adapter sink = Some adapter" "ds_reconciliation_instance sink = Some inst"
    by (rule reconcile_gate_Inr)
  from reconcile(5) show ?thesis
  proof (rule run_runtime_calls)
    show "store_ok cr env (rw_store w)" "ms_load_current (rw_store w) = Some s" "bm_get (rs_steps s) v = Some x"
      using assms(2) reconcile(1) by (simp_all add: driven_step_def)
  next
    fix j
    assume "ss_intent x = Some j" "supports_query (ei_sink_guarantee j)" "rw_calls w' = rw_calls w @ [CallReconcile j]"
      "rw_sink w' = snd (direct_reconcile sink (rw_sink w) j)"
    then show ?thesis using reconcile(1-3) cleared direct_reconcile_flag [OF sink] by auto
  qed (use reconcile(2) in auto)
next
  case (plain s x)
  from plain(4) show ?thesis
    by (rule run_runtime_calls) (use assms(2) plain(1-3) in \<open>auto simp: driven_step_def\<close>)
qed

theorem executor_gates_every_call_witness:
  "\<exists>ad st m. authorize_and_commit sample_crypto sample_admission_env sample_env sample_factory ''r'' write_catalog
       write_inputs (write_pending Ephemeral) (sample_store2, 0) = (Inr (Authorized ad), st, 1)
     \<and> snd (rw_sink (snd (direct_drive_step sample_crypto sample_admission_env sample_env sample_host write_catalog
       sample_adapters ''a'' (Some m) \<lparr>rw_store = st, rw_sink = (0, False), rw_events = 0, rw_calls = []\<rparr>))) = False"
proof -
  obtain ad st where a: "authorize_and_commit sample_crypto sample_admission_env sample_env sample_factory ''r'' write_catalog
      write_inputs (write_pending Ephemeral) (sample_store2, 0) = (Inr (Authorized ad), st, 1)"
    using write_admitted [of Ephemeral] by (auto simp: write_retention_def)
  from store_built_ok [OF sample_built(2)] a have "store_ok sample_crypto sample_env st"
    by (rule admission_established)
  then show ?thesis
    using a executor_gates_every_call [of sample_crypto sample_admission_env sample_env sample_host write_catalog
        sample_adapters "''a''" "Some m" "\<lparr>rw_store = st, rw_sink = (0, False), rw_events = 0, rw_calls = []\<rparr>" for m]
    by (metis prod.collapse runtime_world.select_convs(1,2) snd_conv)
qed

section \<open>Recovered material\<close>

lemma reference_only_iff:
  "(case r of ReconstructableReference q \<Rightarrow> Inr q | Ephemeral \<Rightarrow> Inl e) = Inr q \<longleftrightarrow> r = ReconstructableReference q"
  by (cases r) auto

lemma recovery_gate_Inr:
  assumes "recovery_gate cr ae lease registry st v = Inr y"
  shows "\<exists>x. driven_step st v (ry_state y) x \<and> ss_status x = IntentCommitted \<and> ss_intent x = Some (ry_intent y)"
    and "lease = rs_run_id (ry_state y)"
    and "ms_load_invocation_material cr st (ei_effect_id (ry_intent y)) = Inr (Some (ry_record y))"
    and "material_record_verify_for cr (ry_record y) (rs_run_id (ry_state y)) v (ry_intent y) = Inr ()"
  using assms
  by (auto simp: recovery_gate_def recovery_verify_lease_def recovery_step_def driven_step_def Let_def result_simps
      reference_only_iff)

lemma recover_Inr:
  assumes "recover cr ae jp resolve lease registry providers st v u = (Inr m, u')"
  obtains s x i where "driven_step st v s x" and "lease = rs_run_id s" and "ss_status x = IntentCommitted"
    and "ss_intent x = Some i" and "verify_material cr st s v i (im_record m) (im_normalized_arguments m) = Inr ()"
proof -
  from assms obtain y rec where "recovery_gate cr ae lease registry st v = Inr y"
    and "revalidate_material cr ae jp resolve v y rec = Inr m"
    by (auto simp: recover_def rt_bind_def rt_try_def split: sum.splits prod.splits)
  note g = recovery_gate_Inr [OF this(1)] and this(2)
  then have "im_record m = ry_record y" "invocation_material_digest cr (im_normalized_arguments m) = Inr (imr_material_digest (ry_record y))"
    by (auto simp: revalidate_material_def Let_def result_simps)
  then have "verify_material cr st (ry_state y) v (ry_intent y) (im_record m) (im_normalized_arguments m) = Inr ()"
    using g by (simp add: verify_material_def)
  then show thesis using g(1) by (auto intro: that [OF _ g(2)])
qed

lemma driven_replays: "store_ok cr env st \<Longrightarrow> driven_step st v s x \<Longrightarrow> replay cr (ms_records st) = Inr s"
  by (auto simp: store_ok_def journal_ok_def ms_load_current_def driven_step_def)

lemma later_intent:
  assumes "store_ok cr env st" and "mem.later cr env st st'"
    and "driven_step st v s x" and "ss_intent x = Some i" and "driven_step st' v s' x'"
  shows "ss_intent x' = Some i" and "rs_run_id s' = rs_run_id s"
proof -
  have l: "store_ok cr env st'" "prefix (ms_records st) (ms_records st')" using mem.later_good [OF assms(2,1)] by simp_all
  then obtain ext where ext: "ms_records st' = ms_records st @ ext" by (auto simp: prefix_def)
  have "replay cr (ms_records st) = Inr s" "replay cr (ms_records st') = Inr s'"
    using driven_replays assms(1,3,5) l(1) by simp_all
  then have "run_extends s s'" unfolding ext by (rule persist.later)
  then show "ss_intent x' = Some i" "rs_run_id s' = rs_run_id s"
    using assms(3-5) by (fastforce simp: run_extends_def step_extends_def driven_step_def)+
qed

text \<open>
  C30. Recovered arguments are the admitted ones. Take an invocation that was prepared, perhaps
  made reconstructable, and admitted. In every store reached by further appends, under any registry,
  definition resolver and providers, a recovery of that step that returns material has found the step
  with the admitted effect still unexecuted, its record and arguments pass the executor's check of
  the material, and its arguments are those that were prepared, unless the two exhibit a digest
  confusion (equal canonical bytes or equal hashes of different values).
\<close>

theorem recovered_arguments_are_admitted:
  assumes "store_built cr env st"
    and "prepare cr ae jp resolve lease registry st0 q = Inr p"
    and "pending = p \<or> pending = with_reconstructable_material p reference"
    and "authorize_and_commit cr ae env factory lease registry inputs pending (st, f) = (Inr (Authorized ad), st', f')"
    and "(\<lambda>a b. \<exists>h c. ms_appends cr env a h c b)\<^sup>*\<^sup>* st' st''"
    and "recover cr ae' jp' resolve' lease' registry' providers st'' (rpr_step_id (pn_permission_request pending)) u = (Inr m, u')"
  shows "\<exists>s x i. driven_step st'' (rpr_step_id (pn_permission_request pending)) s x \<and> ss_status x = IntentCommitted
    \<and> ss_intent x = Some i \<and> ei_effect_id i = ad_effect_id ad
    \<and> verify_material cr st'' s (rpr_step_id (pn_permission_request pending)) i (im_record m) (im_normalized_arguments m) = Inr ()
    \<and> (im_normalized_arguments m = pn_normalized_arguments p
       \<or> digest_confusion cr (InvocationMaterialDigestInput ''xgeny.invocation-material.payload/v1'' (im_normalized_arguments m))
           (InvocationMaterialDigestInput ''xgeny.invocation-material.payload/v1'' (pn_normalized_arguments p)))"
  using store_built_ok [OF assms(1)] assms(4)
proof (rule admission_established)
  fix s d e i t x s' y
  let ?v = "rpr_step_id (pn_permission_request pending)"
  assume iss: "issue_once_effect cr ae env pending s d i (ad_selected_instance_id ad) e t = Inr x"
    and y: "ms_load_current st' = Some s'" "bm_get (rs_steps s') ?v = Some y" "ss_intent y = Some (is_intent x)"
    and ad: "ad_effect_id ad = is_effect_id x" and ok: "store_ok cr env st'"
  from iss have b: "bound_intent pending s (ad_selected_instance_id ad) (is_intent x)" "ei_effect_id (is_intent x) = is_effect_id x"
    by (rule issue_once_effect_Inr, simp)+
  from assms(6) obtain z a j where r: "driven_step st'' ?v z a" "ss_status a = IntentCommitted" "ss_intent a = Some j"
    "verify_material cr st'' z ?v j (im_record m) (im_normalized_arguments m) = Inr ()"
    by (rule recover_Inr) (rule that)
  have "ss_intent a = Some (is_intent x)"
    using later_intent(1) [OF ok assms(5) [folded mem.later_def] _ y(3) r(1)] y(1,2) by (simp add: driven_step_def)
  with r(3) have j: "j = is_intent x" by simp
  have "invocation_material_digest cr (im_normalized_arguments m) = Inr (pn_material_digest pending)"
    using r(4) b(1) by (simp add: verify_material_iff material_cleared_def j bound_intent_def Let_def)
  moreover have "invocation_material_digest cr (pn_normalized_arguments p) = Inr (pn_material_digest pending)"
    using prepared_material(1) [OF assms(2)] assms(3) by (auto simp: with_reconstructable_material_def)
  ultimately have "im_normalized_arguments m = pn_normalized_arguments p
     \<or> digest_confusion cr (InvocationMaterialDigestInput ''xgeny.invocation-material.payload/v1'' (im_normalized_arguments m))
         (InvocationMaterialDigestInput ''xgeny.invocation-material.payload/v1'' (pn_normalized_arguments p))"
    by (auto simp: invocation_material_digest_def result_simps dest: canonical_digest_eq)
  then show ?thesis using r b(2) ad unfolding j by auto
qed

lemma write_recovers:
  assumes "authorize_and_commit sample_crypto sample_admission_env sample_env sample_factory ''r'' write_catalog
      write_inputs (write_pending (ReconstructableReference write_reference)) (sample_store2, 0) = (Inr (Authorized ad), st, 1)"
  shows "recover sample_crypto sample_admission_env rfc_pointers (\<lambda>_ x. Inr x) ''r'' write_catalog sample_providers st ''a'' ()
    = (Inr \<lparr>im_record = ad_material_record ad, im_normalized_arguments = write_arguments\<rparr>, ())"
  using store_built_ok [OF sample_built(2)] assms
proof (rule admission_established)
  let ?p = "write_pending (ReconstructableReference write_reference)"
  fix s d e i t x s' y
  assume sel: "authorize_selection sample_crypto sample_admission_env ''r'' write_catalog write_inputs ?p sample_store2
      = Inr (Inr (s, d, e, ad_selected_instance_id ad, i))"
    and iss: "issue_once_effect sample_crypto sample_admission_env sample_env ?p s d i (ad_selected_instance_id ad) e t = Inr x"
    and y: "ms_load_current st = Some s'" "rs_run_id s' = rs_run_id s"
      "bm_get (rs_steps s') (rpr_step_id (pn_permission_request ?p)) = Some y" "ss_status y = IntentCommitted"
      "ss_intent y = Some (is_intent x)"
      "map_option ss_planned_invocation (bm_get (rs_steps s) (rpr_step_id (pn_permission_request ?p))) = Some (ss_planned_invocation y)"
    and m: "ms_load_invocation_material sample_crypto st (ei_effect_id (is_intent x)) = Inr (Some (ad_material_record ad))"
      "ad_material_record ad = is_material_record x"
  have p: "rpr_step_id (pn_permission_request ?p) = ''a''" "pn_route ?p = write_route" "pn_definition_digest ?p = sample_digest"
    "pn_material_digest ?p = sample_digest" "pn_action_digest ?p = sample_digest"
    "pn_material_retention ?p = ReconstructableReference write_reference"
    by (simp_all add: write_pending_def write_permission_def sample_request_def)
  note q = authorize_selection_Selected [OF sel]
  have s: "s = cm_state sample_commit2" "rs_run_id s = ''r''" using q(2,3) write_state(1) by simp_all
  have d: "d = write_definition" using q(5) write_lookup(1) p(2) by simp
  have sel': "ad_selected_instance_id ad = ''i''" "i = sample_instance"
    using write_selection [of "ReconstructableReference write_reference"] sel by auto
  have plan: "ss_planned_invocation y = None" using y(6) write_state(2) by (simp add: p s(1) new_step_def)
  from iss have b: "bound_intent ?p s (ad_selected_instance_id ad) (is_intent x)"
    "executable_binding_digest sample_crypto sample_admission_env i = Inr (ib_instance_binding_digest (ei_invocation (is_intent x)))"
    and new: "material_record_new sample_crypto (rs_run_id s) (rpr_step_id (pn_permission_request ?p)) (is_intent x)
      (pn_material_digest ?p) (pn_material_retention ?p) = Inr (is_material_record x)"
    by (rule issue_once_effect_Inr, simp)+
  note r = material_record_new_Inr [OF new]
  have cap: "intent_capability (is_intent x) = rt_capability write_route" "ei_action_digest (is_intent x) = sample_digest"
    "ib_instance_id (ei_invocation (is_intent x)) = ''i''" "ib_definition_digest (ei_invocation (is_intent x)) = sample_digest"
    using b(1) sel' p by (simp_all add: bound_intent_def intent_capability_def)
  have inst: "cib_definition sample_instance = rt_capability write_route"
    by (simp add: sample_instance_def write_route_def sample_route_def)
  let ?y = "\<lparr>ry_state = s', ry_intent = is_intent x, ry_record = is_material_record x, ry_reference = write_reference,
    ry_definition = write_definition\<rparr>"
  have "recovery_gate sample_crypto sample_admission_env ''r'' write_catalog st ''a'' = Inr ?y"
    using y m r b(2) s sel' cap inst write_lookup
    by (simp add: recovery_gate_def recovery_verify_lease_def recovery_step_def p definition_contract_digest_def)
  moreover have "revalidate_material sample_crypto sample_admission_env rfc_pointers (\<lambda>_ x. Inr x) ''a'' ?y write_arguments
      = Inr \<lparr>im_record = is_material_record x, im_normalized_arguments = write_arguments\<rparr>"
    using y r s cap plan write_resolves
    by (simp add: revalidate_material_def write_arguments_valid invocation_material_digest_def semantic_action_digest_def
        planned_action_digest_def admission_step_def p)
  ultimately show ?thesis
    by (simp add: recover_def rt_bind_def rt_try_def reconstruct_material_def sample_providers_def write_reference_def m(2))
qed

theorem recovered_arguments_are_admitted_witness:
  "\<exists>ad st m. authorize_and_commit sample_crypto sample_admission_env sample_env sample_factory ''r'' write_catalog
       write_inputs (write_pending (ReconstructableReference write_reference)) (sample_store2, 0) = (Inr (Authorized ad), st, 1)
     \<and> recover sample_crypto sample_admission_env rfc_pointers (\<lambda>_ x. Inr x) ''r'' write_catalog sample_providers st ''a'' () = (Inr m, ())
     \<and> (\<exists>s x i. driven_step st ''a'' s x \<and> ss_intent x = Some i \<and> ei_effect_id i = ad_effect_id ad
       \<and> verify_material sample_crypto st s ''a'' i (im_record m) write_arguments = Inr ())"
proof -
  let ?p = "write_pending (ReconstructableReference write_reference)"
  have p: "?p = with_reconstructable_material (write_pending Ephemeral) write_reference"
    "rpr_step_id (pn_permission_request ?p) = ''a''"
    by (simp_all add: with_reconstructable_material_def write_pending_def write_permission_def sample_request_def)
  obtain ad st where a: "authorize_and_commit sample_crypto sample_admission_env sample_env sample_factory ''r'' write_catalog
      write_inputs ?p (sample_store2, 0) = (Inr (Authorized ad), st, 1)"
    using write_admitted [of "ReconstructableReference write_reference"] by (auto simp: write_retention_def)
  note r = write_recovers [OF a]
  show ?thesis
    using recovered_arguments_are_admitted [OF sample_built(2) write_prepared disjI2 [OF p(1)] a rtranclp.rtrancl_refl,
        unfolded p(2), OF r] a r by auto
qed

end
