(* ===== verification/Verification_Runner.thy ===== *)
theory Verification_Runner
  imports Direct_Executor
begin

text \<open>
  \<open>crates/xgeny-runtime/src/verification.rs\<close>: the reports of trusted verifiers, their registry, and
  the runner that turns a step in \<open>Validating\<close> into a terminal one with an execution receipt. A
  verifier is a parameter, a function over a state of its own. A report can only be built by its
  constructors, so it is a type of its own.
\<close>

definition EMPTY_RECEIPT_DIGEST :: string where
  "EMPTY_RECEIPT_DIGEST = ''sha256:'' @ replicate 64 CHR ''0''"

definition MAX_VERIFIED_ARTIFACTS :: usize where
  "MAX_VERIFIED_ARTIFACTS = CORE_RECEIPT_MAX_ARTIFACTS_V2"
definition MAX_VERIFIED_ARTIFACT_SIZE_BYTES :: u64 where
  "MAX_VERIFIED_ARTIFACT_SIZE_BYTES = CORE_RECEIPT_MAX_ARTIFACT_SIZE_BYTES_V2"
definition MAX_VERIFIED_ARTIFACT_TOTAL_BYTES :: u64 where
  "MAX_VERIFIED_ARTIFACT_TOTAL_BYTES = CORE_RECEIPT_MAX_ARTIFACT_TOTAL_BYTES_V2"

section \<open>Reports\<close>

definition validate_digest :: "string \<Rightarrow> bool" where
  "validate_digest v =
     (case strip_prefix ''sha256:'' v of None \<Rightarrow> False
      | Some encoded \<Rightarrow> length encoded = 64 \<and> list_all (\<lambda>b. is_ascii_digit b \<or> in_a_to_f b) encoded)"

definition verifier_output_digest_new :: "string \<Rightarrow> string option" where
  "verifier_output_digest_new v = (if validate_digest v then Some v else None)"

record rule_verification_observation =
  rvo_strategy :: verification_strategy
  rvo_result :: verification_result
  rvo_evidence_digest :: "adapter_evidence_digest option"

record verified_artifact_descriptor =
  vad_artifact_id :: string
  vad_name :: "string option"
  vad_media_type :: string
  vad_size :: u64
  vad_digest :: string

datatype verified_artifact_descriptor_error =
    VAE_InvalidArtifactId | VAE_InvalidName | VAE_InvalidMediaType | VAE_ArtifactSizeExceeded | VAE_InvalidDigest

definition valid_artifact_identifier :: "string \<Rightarrow> bool" where
  "valid_artifact_identifier v \<longleftrightarrow>
     v \<noteq> [] \<and> length v \<le> 200
     \<and> list_all (\<lambda>(index, b). is_ascii_alphanumeric b
           \<or> index > 0 \<and> b \<in> {CHR ''.'', CHR ''_'', CHR '':'', CHR ''-''}) (List.enumerate 0 v)"

definition artifact_descriptor_new ::
    "string \<Rightarrow> string option \<Rightarrow> string \<Rightarrow> u64 \<Rightarrow> string
      \<Rightarrow> verified_artifact_descriptor_error + verified_artifact_descriptor" where
  "artifact_descriptor_new artifact_id nm media_type sz digest =
     and_then (reject_if (\<not> valid_artifact_identifier artifact_id) VAE_InvalidArtifactId) (\<lambda>_.
     and_then (reject_if (case nm of None \<Rightarrow> False | Some n \<Rightarrow> n = [] \<or> length n > 512 \<or> has_control n)
       VAE_InvalidName) (\<lambda>_.
     and_then (reject_if (\<not> (3 \<le> length media_type \<and> length media_type \<le> 200) \<or> has_control media_type)
       VAE_InvalidMediaType) (\<lambda>_.
     and_then (reject_if (sz > MAX_VERIFIED_ARTIFACT_SIZE_BYTES) VAE_ArtifactSizeExceeded) (\<lambda>_.
     and_then (reject_if (\<not> validate_digest digest) VAE_InvalidDigest) (\<lambda>_.
     Inr \<lparr>vad_artifact_id = artifact_id, vad_name = nm, vad_media_type = media_type, vad_size = sz, vad_digest = digest\<rparr>)))))"

record report_fields =
  vrf_output_digest :: string
  vrf_rules :: "rule_verification_observation list"
  vrf_artifacts :: "verified_artifact_descriptor list"

datatype verification_report_error = VPE_ArtifactCountExceeded | VPE_DuplicateArtifactId | VPE_ArtifactTotalSizeExceeded

definition account_artifact ::
    "verified_artifact_descriptor \<Rightarrow> string btreeset \<times> u64 \<Rightarrow> verification_report_error + string btreeset \<times> u64" where
  "account_artifact artifact acc =
     (case acc of (identifiers, sum_bytes) \<Rightarrow>
        and_then (reject_if (bs_contains identifiers (vad_artifact_id artifact)) VPE_DuplicateArtifactId) (\<lambda>_.
        and_then (ok_or VPE_ArtifactTotalSizeExceeded (checked_add sum_bytes (vad_size artifact))) (\<lambda>sum_bytes.
        and_then (reject_if (sum_bytes > MAX_VERIFIED_ARTIFACT_TOTAL_BYTES) VPE_ArtifactTotalSizeExceeded) (\<lambda>_.
        Inr (bs_insert (vad_artifact_id artifact) identifiers, sum_bytes)))))"

definition with_artifacts ::
    "report_fields \<Rightarrow> verified_artifact_descriptor list \<Rightarrow> verification_report_error + report_fields" where
  "with_artifacts report artifacts =
     and_then (reject_if (length artifacts > MAX_VERIFIED_ARTIFACTS) VPE_ArtifactCountExceeded) (\<lambda>_.
     and_then (try_fold account_artifact artifacts (bs_empty, 0)) (\<lambda>_.
     Inr (report\<lparr>vrf_artifacts := artifacts\<rparr>)))"

text \<open>
  What the constructors can build: \<open>new\<close> with an output digest that was checked, followed by any number
  of calls of \<open>with_artifacts\<close> on descriptors that were checked. Only the last of these matters.
\<close>

definition descriptor_built :: "verified_artifact_descriptor \<Rightarrow> bool" where
  "descriptor_built d \<longleftrightarrow>
     artifact_descriptor_new (vad_artifact_id d) (vad_name d) (vad_media_type d) (vad_size d) (vad_digest d) = Inr d"

definition report_built :: "report_fields \<Rightarrow> bool" where
  "report_built r \<longleftrightarrow>
     verifier_output_digest_new (vrf_output_digest r) = Some (vrf_output_digest r)
     \<and> list_all descriptor_built (vrf_artifacts r) \<and> with_artifacts r (vrf_artifacts r) = Inr r"

typedef verification_report = "{r. report_built r}"
  morphisms report_fields Verification_Report
proof -
  have "report_built \<lparr>vrf_output_digest = EMPTY_RECEIPT_DIGEST, vrf_rules = [], vrf_artifacts = []\<rparr>"
    by (simp add: report_built_def verifier_output_digest_new_def validate_digest_def EMPTY_RECEIPT_DIGEST_def
        with_artifacts_def list_all_iff is_ascii_digit_def byte_val_def del: append.simps)
  then show ?thesis by blast
qed

section \<open>Verifiers\<close>

record verification_request =
  vq_intent :: effect_intent
  vq_definition :: capability_definition_body
  vq_instance :: capability_instance_body
  vq_outcome_evidence_digest :: adapter_evidence_digest
  vq_tool_output :: "tool_output_record option"

datatype verification_port_failure =
    VPF_Unavailable | VPF_UnsupportedStrategy | VPF_EvidenceUnavailable | VPF_ResponseUnverifiable

type_synonym 'v effect_verifier =
  "'v \<Rightarrow> verification_request \<Rightarrow> (verification_port_failure + verification_report) \<times> 'v"

type_synonym 'v effect_verifier_registry = "(adapter_binding_key, 'v effect_verifier) btreemap"

datatype verification_registry_error = VGE_InvalidBinding | VGE_DuplicateBinding

definition register_verifier ::
    "'v effect_verifier_registry \<Rightarrow> instance_binding \<Rightarrow> 'v effect_verifier
      \<Rightarrow> verification_registry_error + 'v effect_verifier_registry" where
  "register_verifier verifiers binding verifier =
     and_then (map_err (\<lambda>_. VGE_InvalidBinding) (from_binding binding)) (\<lambda>key.
     and_then (reject_if (bm_contains_key verifiers key) VGE_DuplicateBinding) (\<lambda>_.
     Inr (bm_insert key verifier verifiers)))"

section \<open>Errors\<close>

datatype (plugins only:) verification_runner_error =
    VRE_Store store_error
  | VRE_EventFactory string
  | VRE_EventMetadata
  | VRE_Admission admission_error
  | VRE_Protocol protocol_error
  | VRE_Verifier verification_port_failure
  | VRE_EvidenceDigest
  | VRE_RunNotInitialized
  | VRE_StepNotFound string
  | VRE_StepNotValidating string step_status
  | VRE_IntentMissing string
  | VRE_ReceiptProvenanceMissing string
  | VRE_UnsupportedReceiptProfile
  | VRE_UnsupportedToolOutputProfile
  | VRE_ReceiptProvenanceBindingMismatch
  | VRE_EffectEvidenceMissing string
  | VRE_DefinitionNotFound string string
  | VRE_DefinitionChanged
  | VRE_InstanceNotFound string
  | VRE_InstanceBindingChanged
  | VRE_InvalidVerifierBinding
  | VRE_VerifierNotRegistered string
  | VRE_VerificationPlanChanged
  | VRE_VerificationReportMismatch
  | VRE_ToolOutputMismatch
  | VRE_EffectStartMissing string
  | VRE_LeaseRunMismatch string string

definition verification_verify_lease :: "string \<Rightarrow> run_state \<Rightarrow> verification_runner_error + unit" where
  "verification_verify_lease lease_run_id state =
     reject_if (lease_run_id \<noteq> rs_run_id state) (VRE_LeaseRunMismatch lease_run_id (rs_run_id state))"

section \<open>Verifying a step\<close>

definition receipt_profile_matches_effect :: "effect_intent \<Rightarrow> receipt_provenance \<Rightarrow> bool" where
  "receipt_profile_matches_effect intent provenance \<longleftrightarrow>
     rp_profile_version provenance = CORE_RECEIPT_PROFILE_V2 \<and> ei_effect_class intent \<in> {ReadOnly, Idempotent, NonIdempotent}
     \<or> rp_profile_version provenance = CORE_RECEIPT_PROFILE_V1 \<and> ei_effect_class intent \<in> {Reversible, Idempotent, NonIdempotent}"

definition tool_output_profile_matches_effect :: "effect_intent \<Rightarrow> receipt_provenance \<Rightarrow> bool" where
  "tool_output_profile_matches_effect intent provenance =
     (if ei_effect_class intent \<in> {ReadOnly, Idempotent, NonIdempotent} \<and> rp_profile_version provenance = CORE_RECEIPT_PROFILE_V2
      then rp_tool_output_profile provenance = Some TOOL_OUTPUT_PROFILE_V1
      else if ei_effect_class intent \<in> {Reversible, Idempotent, NonIdempotent} \<and> rp_profile_version provenance = CORE_RECEIPT_PROFILE_V1
      then rp_tool_output_profile provenance = None
      else False)"

definition verify_current_definition ::
    "crypto \<Rightarrow> admission_env \<Rightarrow> capability_registry \<Rightarrow> effect_intent \<Rightarrow> verification_runner_error + capability_definition_body" where
  "verify_current_definition cr ae registry intent =
     (let capability = intent_capability intent in
      and_then (ok_or (VRE_DefinitionNotFound (cf_capability_id capability) (cf_contract_version capability))
        (registry_definition registry capability)) (\<lambda>d.
      and_then (map_err VRE_Admission (definition_contract_digest cr ae d)) (\<lambda>digest.
      and_then (reject_if (digest \<noteq> ib_definition_digest (ei_invocation intent)) VRE_DefinitionChanged) (\<lambda>_.
      Inr d))))"

definition verification_current_instance ::
    "crypto \<Rightarrow> admission_env \<Rightarrow> capability_registry \<Rightarrow> effect_intent \<Rightarrow> verification_runner_error + capability_instance_body" where
  "verification_current_instance cr ae registry intent =
     and_then (ok_or (VRE_InstanceNotFound (ib_instance_id (ei_invocation intent)))
       (registry_instance registry (ib_instance_id (ei_invocation intent)))) (\<lambda>i.
     if cf_capability_id (cib_definition i) \<noteq> ib_capability_id (ei_invocation intent)
       \<or> cf_contract_version (cib_definition i) \<noteq> ib_contract_version (ei_invocation intent)
     then Inl VRE_InstanceBindingChanged
     else
       and_then (map_err VRE_Admission (executable_binding_digest cr ae i)) (\<lambda>digest.
       and_then (reject_if (digest \<noteq> ib_instance_binding_digest (ei_invocation intent)) VRE_InstanceBindingChanged) (\<lambda>_.
       Inr i)))"

definition verify_verification_plan :: "capability_definition_body \<Rightarrow> receipt_provenance \<Rightarrow> verification_runner_error + unit" where
  "verify_verification_plan d provenance =
     reject_if (\<not> receipt_verification_plan_matches d provenance) VRE_VerificationPlanChanged"

definition evidence_of :: "string \<Rightarrow> adapter_evidence_digest option" where
  "evidence_of v = map_option Abs_adapter_evidence_digest (evidence_digest_new v)"

text \<open>The checks of \<open>verify_step\<close> up to the call of the verifier: what is asked, and of whom.\<close>

definition verification_subject ::
    "crypto \<Rightarrow> admission_env \<Rightarrow> capability_registry \<Rightarrow> 'v effect_verifier_registry \<Rightarrow> step_state \<Rightarrow> tool_output_record option
      \<Rightarrow> verification_runner_error + receipt_provenance \<times> verification_request \<times> 'v effect_verifier" where
  "verification_subject cr ae capabilities verifiers step tool_output =
     and_then (ok_or (VRE_IntentMissing (ss_step_id step)) (ss_intent step)) (\<lambda>intent.
     and_then (ok_or (VRE_ReceiptProvenanceMissing (ei_effect_id intent)) (ei_receipt_provenance intent)) (\<lambda>provenance.
     and_then (reject_if (\<not> receipt_profile_matches_effect intent provenance) VRE_UnsupportedReceiptProfile) (\<lambda>_.
     and_then (reject_if (\<not> tool_output_profile_matches_effect intent provenance) VRE_UnsupportedToolOutputProfile) (\<lambda>_.
     and_then (reject_if (rp_input_summary provenance \<noteq> CORE_RECEIPT_INPUT_SUMMARY_V1)
       VRE_ReceiptProvenanceBindingMismatch) (\<lambda>_.
     and_then (ok_or VRE_ReceiptProvenanceBindingMismatch
       (ab_receipt_provenance_digest (au_binding (ei_authorization intent)))) (\<lambda>expected.
     and_then (map_err (\<lambda>_. VRE_ReceiptProvenanceBindingMismatch) (receipt_provenance_digest cr provenance)) (\<lambda>actual.
     and_then (reject_if (actual \<noteq> expected) VRE_ReceiptProvenanceBindingMismatch) (\<lambda>_.
     and_then (verify_current_definition cr ae capabilities intent) (\<lambda>d.
     and_then (verify_verification_plan d provenance) (\<lambda>_.
     and_then (verification_current_instance cr ae capabilities intent) (\<lambda>i.
     and_then (ok_or (VRE_EffectEvidenceMissing (ei_effect_id intent))
       (case ss_effect_evidence_digest step of Some e \<Rightarrow> Some e | None \<Rightarrow> ss_reconciliation_evidence_digest step)) (\<lambda>evidence.
     and_then (ok_or VRE_EvidenceDigest (evidence_of evidence)) (\<lambda>evidence.
     and_then (map_err (\<lambda>_. VRE_InvalidVerifierBinding) (from_binding (cib_binding i))) (\<lambda>key.
     and_then (ok_or (VRE_VerifierNotRegistered (cib_instance_id i)) (bm_get verifiers key)) (\<lambda>verifier.
     Inr (provenance, \<lparr>vq_intent = intent, vq_definition = d, vq_instance = i, vq_outcome_evidence_digest = evidence,
       vq_tool_output = tool_output\<rparr>, verifier))))))))))))))))"

definition verify_report_profile ::
    "effect_intent \<Rightarrow> receipt_provenance \<Rightarrow> report_fields \<Rightarrow> verification_runner_error + unit" where
  "verify_report_profile intent provenance report =
     reject_if (\<not> (if rp_profile_version provenance = CORE_RECEIPT_PROFILE_V1 then vrf_artifacts report = []
        else if rp_profile_version provenance = CORE_RECEIPT_PROFILE_V2
        then ei_effect_class intent \<in> {ReadOnly, Idempotent, NonIdempotent} \<and> vrf_artifacts report \<noteq> []
        else False)) VRE_VerificationReportMismatch"

definition verify_tool_output_agrees ::
    "receipt_provenance \<Rightarrow> tool_output_record option \<Rightarrow> report_fields \<Rightarrow> verification_runner_error + unit" where
  "verify_tool_output_agrees provenance tool_output report =
     (case (rp_tool_output_profile provenance, tool_output) of
        (Some profile, Some output) \<Rightarrow>
          reject_if (\<not> (profile = TOOL_OUTPUT_PROFILE_V1 \<and> vrf_output_digest report = tor_output_digest output))
            VRE_ToolOutputMismatch
      | (None, None) \<Rightarrow> Inr ()
      | _ \<Rightarrow> Inl VRE_ToolOutputMismatch)"

definition rule_evidence ::
    "rule_verification_observation \<times> receipt_verification_rule \<Rightarrow> verification_evidence list
      \<Rightarrow> verification_runner_error + verification_evidence list" where
  "rule_evidence entry evidence =
     (case entry of (observed, rule) \<Rightarrow>
        let strategy = runtime_protocol_strategy (rvr_strategy rule) in
        and_then (reject_if (rvo_strategy observed \<noteq> strategy
            \<or> rvo_result observed = VR_Passed \<and> rvo_evidence_digest observed = None) VRE_VerificationReportMismatch) (\<lambda>_.
        Inr (evidence @ [\<lparr>ve_strategy = strategy, ve_required = rvr_required rule, ve_result = rvo_result observed,
          ve_summary = core_verification_summary_v1 (rvo_result observed),
          ve_evidence_digest = map_option Rep_adapter_evidence_digest (rvo_evidence_digest observed),
          ve_artifact = None\<rparr>])))"

definition verify_report ::
    "receipt_provenance \<Rightarrow> report_fields
      \<Rightarrow> verification_runner_error + core_verification_outcome \<times> verification_evidence list" where
  "verify_report provenance report =
     and_then (reject_if (length (vrf_rules report) \<noteq> length (rp_verification_plan provenance))
       VRE_VerificationReportMismatch) (\<lambda>_.
     and_then (try_fold rule_evidence (zip (vrf_rules report) (rp_verification_plan provenance)) []) (\<lambda>evidence.
     Inr (evaluate_core_verification_v1 evidence, evidence)))"

fun verdict_of :: "core_verification_outcome \<Rightarrow> verification_disposition" where
  "verdict_of CV_OutcomePassed = VerdictPassed"
| "verdict_of CV_OutcomeFailed = VerdictFailed"
| "verdict_of CV_OutcomeInconclusive = VerdictInconclusive"

record verified_step =
  vs_intent :: effect_intent
  vs_provenance :: receipt_provenance
  vs_report :: report_fields
  vs_outcome :: core_verification_outcome
  vs_disposition :: verification_disposition
  vs_verification :: "verification_evidence list"

text \<open>The checks of \<open>verify_step\<close> after the call.\<close>

definition judge_report ::
    "effect_intent \<Rightarrow> receipt_provenance \<Rightarrow> tool_output_record option \<Rightarrow> report_fields
      \<Rightarrow> verification_runner_error + verified_step" where
  "judge_report intent provenance tool_output report =
     and_then (verify_report_profile intent provenance report) (\<lambda>_.
     and_then (verify_tool_output_agrees provenance tool_output report) (\<lambda>_.
     and_then (verify_report provenance report) (\<lambda>(outcome, verification).
     Inr \<lparr>vs_intent = intent, vs_provenance = provenance, vs_report = report, vs_outcome = outcome,
       vs_disposition = verdict_of outcome, vs_verification = verification\<rparr>)))"

section \<open>The receipt\<close>

fun runtime_protocol_effect_class :: "effect_class \<Rightarrow> domain_effect_class" where
  "runtime_protocol_effect_class ReadOnly = DE_ReadOnly"
| "runtime_protocol_effect_class Reversible = DE_Compensatable"
| "runtime_protocol_effect_class Idempotent = DE_Idempotent"
| "runtime_protocol_effect_class NonIdempotent = DE_NonIdempotent"

fun runtime_protocol_placement :: "receipt_placement \<Rightarrow> placement" where
  "runtime_protocol_placement PlacementLocal = PL_Local"
| "runtime_protocol_placement PlacementDevice = PL_Device"
| "runtime_protocol_placement PlacementRemote = PL_Remote"

definition execution_receipt_digest :: "crypto \<Rightarrow> execution_receipt_body \<Rightarrow> verification_runner_error + string" where
  "execution_receipt_digest cr receipt =
     map_err VRE_Protocol (canonical_digest_without_field cr (execution_receipt_document receipt) ''receiptDigest'')"

definition receipt_artifact :: "run_state \<Rightarrow> string \<Rightarrow> string \<Rightarrow> verified_artifact_descriptor \<Rightarrow> artifact_ref" where
  "receipt_artifact state step_id receipt_id artifact =
     \<lparr>ar_artifact_id = vad_artifact_id artifact, ar_name = vad_name artifact, ar_media_type = vad_media_type artifact,
      ar_size = vad_size artifact, ar_digest = vad_digest artifact,
      ar_provenance = Some \<lparr>ap_run_id = rs_run_id state, ap_step_id = step_id, ap_receipt_id = Some receipt_id\<rparr>,
      ar_extensions = bm_empty, ar_required_extensions = []\<rparr>"

definition draft_receipt ::
    "run_state \<Rightarrow> string \<Rightarrow> string \<Rightarrow> string \<Rightarrow> string option \<Rightarrow> verified_step \<Rightarrow> execution_receipt_body" where
  "draft_receipt state step_id started_at ended_at previous_receipt_digest verified =
     (let intent = vs_intent verified; provenance = vs_provenance verified;
          receipt_id = core_receipt_id_v1 (ei_effect_id intent) in
      \<lparr>erb_api_version = API_VERSION_V1ALPHA1, erb_extensions = bm_empty, erb_required_extensions = [],
       erb_receipt_id = receipt_id, erb_run_id = rs_run_id state, erb_step_id = step_id,
       erb_invocation_id = rp_invocation_id provenance, erb_plan_id = rp_plan_id provenance,
       erb_capability = intent_capability intent, erb_instance_id = ib_instance_id (ei_invocation intent),
       erb_input_digest = ab_material_digest (au_binding (ei_authorization intent)),
       erb_input_summary = rp_input_summary provenance,
       erb_policy = \<lparr>rpo_decision_id = rp_policy_decision_id provenance,
         rpo_decision_digest = rp_policy_decision_digest provenance, rpo_lease_id = None, rpo_lease_digest = None\<rparr>,
       erb_executor = \<lparr>ex_id = rp_executor_id provenance,
         ex_placement = runtime_protocol_placement (rp_executor_placement provenance),
         ex_platform = rp_executor_platform provenance\<rparr>,
       erb_effect = \<lparr>ref_class = runtime_protocol_effect_class (ei_effect_class intent), ref_started = True,
         ref_started_at = Some started_at, ref_idempotency_key = ei_idempotency_key intent\<rparr>,
       erb_status = core_receipt_status_v1 (vs_outcome verified), erb_started_at = started_at, erb_ended_at = ended_at,
       erb_output_digest = vrf_output_digest (vs_report verified),
       erb_artifacts = map (receipt_artifact state step_id receipt_id) (vrf_artifacts (vs_report verified)),
       erb_verification = vs_verification verified, erb_redactions_applied = CORE_RECEIPT_REDACTIONS_V1,
       erb_previous_receipt_digest = previous_receipt_digest, erb_receipt_digest = EMPTY_RECEIPT_DIGEST\<rparr>)"

definition build_execution_receipt ::
    "crypto \<Rightarrow> protocol_env \<Rightarrow> run_state \<Rightarrow> string \<Rightarrow> string \<Rightarrow> string \<Rightarrow> string option \<Rightarrow> verified_step
      \<Rightarrow> verification_runner_error + execution_receipt_body" where
  "build_execution_receipt cr env state step_id started_at ended_at previous_receipt_digest verified =
     (let draft = draft_receipt state step_id started_at ended_at previous_receipt_digest verified in
      and_then (execution_receipt_digest cr draft) (\<lambda>digest.
      let receipt = draft\<lparr>erb_receipt_digest := digest\<rparr> in
      and_then (map_err VRE_Protocol (validate_execution_receipt cr env receipt)) (\<lambda>_.
      Inr receipt)))"

section \<open>Driving one step\<close>

record ('v, 'f) verification_world =
  vw_store :: memory_run_store
  vw_verifier :: 'v
  vw_events :: 'f
  vw_calls :: "verification_request list"

type_synonym ('v, 'f, 'a) verification_op =
  "('v, 'f) verification_world \<Rightarrow> (verification_runner_error + 'a) \<times> ('v, 'f) verification_world"

definition call_verifier ::
    "'v effect_verifier \<Rightarrow> verification_request \<Rightarrow> ('v, 'f, verification_report) verification_op" where
  "call_verifier verifier request w =
     (case verifier (vw_verifier w) request of
        (r, v) \<Rightarrow> (map_err VRE_Verifier r, w\<lparr>vw_verifier := v, vw_calls := vw_calls w @ [request]\<rparr>))"

definition verify_step ::
    "crypto \<Rightarrow> admission_env \<Rightarrow> capability_registry \<Rightarrow> 'v effect_verifier_registry \<Rightarrow> step_state \<Rightarrow> tool_output_record option
      \<Rightarrow> ('v, 'f, verified_step) verification_op" where
  "verify_step cr ae capabilities verifiers step tool_output =
     rt_bind (rt_try (verification_subject cr ae capabilities verifiers step tool_output)) (\<lambda>(provenance, request, verifier).
     rt_bind (call_verifier verifier request) (\<lambda>report.
     rt_try (judge_report (vq_intent request) provenance tool_output (report_fields report))))"

definition verification_metadata ::
    "protocol_env \<Rightarrow> ('f \<Rightarrow> run_state \<Rightarrow> (string + event_metadata) \<times> 'f) \<Rightarrow> run_state \<Rightarrow> ('v, 'f, event_metadata) verification_op" where
  "verification_metadata env factory state w =
     (case factory (vw_events w) state of
        (r, f) \<Rightarrow> (and_then (map_err VRE_EventFactory r) (\<lambda>metadata.
          and_then (map_err (\<lambda>_. VRE_EventMetadata) (metadata_validate env metadata)) (\<lambda>_. Inr metadata)), w\<lparr>vw_events := f\<rparr>))"

fun verdict_action :: "verification_disposition \<Rightarrow> drive_action" where
  "verdict_action VerdictPassed = DA_VerificationPassed"
| "verdict_action VerdictFailed = DA_VerificationFailed"
| "verdict_action VerdictInconclusive = DA_VerificationInconclusive"

definition verdict_event ::
    "run_state \<Rightarrow> event_metadata \<Rightarrow> string \<Rightarrow> verified_step \<Rightarrow> execution_receipt_body \<Rightarrow> run_event" where
  "verdict_event state metadata step_id verified receipt =
     runtime_event state metadata (VerificationRecorded step_id (ei_effect_id (vs_intent verified)) (vs_disposition verified)
       (erb_receipt_id receipt) (erb_receipt_digest receipt))"

definition commit_verdict ::
    "crypto \<Rightarrow> protocol_env \<Rightarrow> run_verification_snapshot \<Rightarrow> string \<Rightarrow> verified_step \<Rightarrow> event_metadata
      \<Rightarrow> ('v, 'f, drive_report) verification_op" where
  "commit_verdict cr env snapshot step_id verified metadata w =
     (case and_then (ok_or (VRE_EffectStartMissing (ei_effect_id (vs_intent verified))) (rvs_effect_started_at snapshot)) (\<lambda>started_at.
        and_then (build_execution_receipt cr env (rvs_state snapshot) step_id started_at (em_recorded_at metadata)
          (rvs_previous_receipt_digest snapshot) verified) (\<lambda>receipt.
        map_err VRE_Store (ms_append_with_execution_receipt cr env (vw_store w) (expected_head_from_state (rvs_state snapshot))
          (verdict_event (rvs_state snapshot) metadata step_id verified receipt) receipt))) of
        Inl e \<Rightarrow> (Inl e, w)
      | Inr (c, st) \<Rightarrow> (Inr \<lparr>dr_action = verdict_action (vs_disposition verified), dr_state = cm_state c\<rparr>, w\<lparr>vw_store := st\<rparr>))"

definition verification_drive_step ::
    "crypto \<Rightarrow> admission_env \<Rightarrow> protocol_env \<Rightarrow> ('f \<Rightarrow> run_state \<Rightarrow> (string + event_metadata) \<times> 'f) \<Rightarrow> string
      \<Rightarrow> capability_registry \<Rightarrow> 'v effect_verifier_registry \<Rightarrow> string \<Rightarrow> ('v, 'f, drive_report) verification_op" where
  "verification_drive_step cr ae env factory lease_run_id capabilities verifiers step_id w =
     rt_bind (rt_try (map_err VRE_Store (ms_load_verification_snapshot cr (vw_store w) step_id))) (\<lambda>loaded.
     rt_bind (rt_try (ok_or VRE_RunNotInitialized loaded)) (\<lambda>snapshot.
     rt_bind (rt_try (verification_verify_lease lease_run_id (rvs_state snapshot))) (\<lambda>_.
     rt_bind (rt_try (ok_or (VRE_StepNotFound step_id) (bm_get (rs_steps (rvs_state snapshot)) step_id))) (\<lambda>step.
     if ss_status step \<in> {Completed, Failed, ManualRequired}
     then rt_try (Inr \<lparr>dr_action = DA_NoAction, dr_state = rvs_state snapshot\<rparr>)
     else if ss_status step \<noteq> Validating then rt_try (Inl (VRE_StepNotValidating step_id (ss_status step)))
     else
       rt_bind (verify_step cr ae capabilities verifiers step (rvs_tool_output snapshot)) (\<lambda>verified.
       rt_bind (verification_metadata env factory (rvs_state snapshot)) (\<lambda>metadata.
       commit_verdict cr env snapshot step_id verified metadata)))))) w"

end
