(* ===== verification/Verification_Properties.thy ===== *)
theory Verification_Properties
  imports Verification_Runner Executor_Properties
begin

text \<open>
  The verification runner over the store: the receipts it builds pass the audit of the store, a drive of
  it records one justified verdict or nothing, and the type of reports is what a receipt can carry.
\<close>

section \<open>Reports fit the receipt profile\<close>

lemma descriptor_built_iff:
  "descriptor_built d \<longleftrightarrow> core_artifact_descriptor_v2_is_valid (vad_artifact_id d) (vad_name d) (vad_media_type d)
     (vad_size d) (vad_digest d)"
  by (auto simp: descriptor_built_def artifact_descriptor_new_def core_artifact_descriptor_v2_is_valid_def
      valid_artifact_identifier_def validate_digest_def MAX_VERIFIED_ARTIFACT_SIZE_BYTES_def result_simps
      split: option.splits)

lemma report_fields_built: "report_built (report_fields r)"
  using report_fields [of r] by simp

lemma account_artifact_audited:
  assumes "account_artifact d (ids, n) = Inr (ids', n')" and "descriptor_built d"
    and "erb_run_id receipt = rs_run_id s" and "erb_step_id receipt = v" and "erb_receipt_id receipt = q"
  shows "verify_receipt_artifact receipt (receipt_artifact s v q d) (n, ids) = Inr (n', ids')"
  using assms(1,3-) descriptor_built_iff [THEN iffD1, OF assms(2)]
  by (auto simp: account_artifact_def verify_receipt_artifact_def receipt_artifact_def MAX_VERIFIED_ARTIFACT_TOTAL_BYTES_def
      Let_def result_simps)

lemma account_artifacts_audited:
  assumes "try_fold account_artifact ds (ids, n) = Inr b" and "list_all descriptor_built ds"
    and "erb_run_id receipt = rs_run_id s" and "erb_step_id receipt = v" and "erb_receipt_id receipt = q"
  shows "\<exists>b'. try_fold (verify_receipt_artifact receipt) (map (receipt_artifact s v q) ds) (n, ids) = Inr b'"
  using assms(1,2)
proof (induction ds arbitrary: ids n)
  case (Cons d ds)
  then obtain ids' n' where "account_artifact d (ids, n) = Inr (ids', n')" "try_fold account_artifact ds (ids', n') = Inr b"
    by (auto simp: and_then_Inr_iff)
  then show ?case using Cons assms(3-) account_artifact_audited by fastforce
qed simp

definition evidence_for :: "rule_verification_observation \<times> receipt_verification_rule \<Rightarrow> verification_evidence" where
  "evidence_for z = \<lparr>ve_strategy = rvo_strategy (fst z), ve_required = rvr_required (snd z), ve_result = rvo_result (fst z),
     ve_summary = core_verification_summary_v1 (rvo_result (fst z)),
     ve_evidence_digest = map_option Rep_adapter_evidence_digest (rvo_evidence_digest (fst z)), ve_artifact = None\<rparr>"

lemma rule_evidence_Inr:
  "rule_evidence z es = Inr es' \<Longrightarrow> es' = es @ [evidence_for z] \<and> verify_receipt_evidence (evidence_for z, snd z) = Inr ()"
  by (cases z; cases "rvr_strategy (snd z)")
     (auto simp: rule_evidence_def evidence_for_def verify_receipt_evidence_def Let_def result_simps)

lemma rule_evidence_audited:
  assumes "try_fold rule_evidence zs es = Inr es'"
  shows "es' = es @ map evidence_for zs \<and> (\<forall>z \<in> set zs. verify_receipt_evidence (evidence_for z, snd z) = Inr ())"
  using assms
proof (induction zs arbitrary: es)
  case (Cons z zs)
  from Cons.prems obtain a where "rule_evidence z es = Inr a" "try_fold rule_evidence zs a = Inr es'"
    by (auto simp: and_then_Inr_iff)
  then show ?case using Cons.IH [of a] rule_evidence_Inr [of z es a] by auto
qed simp

lemma verify_report_audited:
  assumes "verify_report provenance r = Inr (outcome, es)"
  shows "outcome = evaluate_core_verification_v1 es" and "length es = length (rp_verification_plan provenance)"
    and "try_each verify_receipt_evidence (zip es (rp_verification_plan provenance)) = Inr ()"
proof -
  let ?plan = "rp_verification_plan provenance"
  from assms have l: "length (vrf_rules r) = length ?plan" and f: "try_fold rule_evidence (zip (vrf_rules r) ?plan) [] = Inr es"
    and "outcome = evaluate_core_verification_v1 es"
    by (auto simp: verify_report_def result_simps)
  then show "outcome = evaluate_core_verification_v1 es" by simp
  from rule_evidence_audited [OF f] have es: "es = map evidence_for (zip (vrf_rules r) ?plan)"
    and ok: "\<forall>z \<in> set (zip (vrf_rules r) ?plan). verify_receipt_evidence (evidence_for z, snd z) = Inr ()" by auto
  from es l show "length es = length ?plan" by simp
  have "zip es ?plan = map (\<lambda>z. (evidence_for z, snd z)) (zip (vrf_rules r) ?plan)"
    using l by (simp add: es list_eq_iff_nth_eq)
  then show "try_each verify_receipt_evidence (zip es ?plan) = Inr ()" using ok by (auto simp: try_each_Inr_iff)
qed

section \<open>Receipts pass the audit\<close>

lemma runtime_protocol_simps [simp]:
  "runtime_protocol_effect_class c = protocol_effect_class c" "runtime_protocol_placement p = protocol_placement p"
  "verdict_of o' = outcome_disposition o'"
  by (cases c; simp) ((cases p; simp), (cases o'; simp))

lemma report_artifacts_audited:
  assumes "verify_report_profile x provenance (report_fields r) = Inr ()" and "receipt_profile_matches_effect x provenance"
    and "erb_artifacts receipt = map (receipt_artifact s v q) (vrf_artifacts (report_fields r))"
    and "erb_run_id receipt = rs_run_id s" and "erb_step_id receipt = v" and "erb_receipt_id receipt = q"
  shows "verify_core_receipt_artifacts receipt x provenance = Inr ()"
proof -
  have b: "length (vrf_artifacts (report_fields r)) \<le> CORE_RECEIPT_MAX_ARTIFACTS_V2"
    "list_all descriptor_built (vrf_artifacts (report_fields r))"
    "\<exists>z. try_fold account_artifact (vrf_artifacts (report_fields r)) (bs_empty, 0) = Inr z"
    using report_fields_built [of r] by (auto simp: report_built_def with_artifacts_def MAX_VERIFIED_ARTIFACTS_def result_simps)
  then obtain z where z: "try_fold (verify_receipt_artifact receipt) (erb_artifacts receipt) (0, bs_empty) = Inr z"
    using assms account_artifacts_audited by metis
  have "CORE_RECEIPT_PROFILE_V1 \<noteq> CORE_RECEIPT_PROFILE_V2" by (simp add: CORE_RECEIPT_PROFILE_V1_def CORE_RECEIPT_PROFILE_V2_def)
  then show ?thesis
    using assms(1,2) b(1) z
    by (auto simp: verify_core_receipt_artifacts_def verify_report_profile_def receipt_profile_matches_effect_def assms(3)
        result_simps split: if_splits)
qed


lemma subject_checked:
  assumes "verification_subject cr ae capabilities verifiers x out = Inr (provenance, q, verifier)"
  shows "ss_intent x = Some (vq_intent q)" and "ei_receipt_provenance (vq_intent q) = Some provenance"
    and "receipt_profile_matches_effect (vq_intent q) provenance"
    and "rp_input_summary provenance = CORE_RECEIPT_INPUT_SUMMARY_V1"
  using assms by (auto simp: verification_subject_def result_simps)

lemma judged:
  assumes "judge_report x provenance out r = Inr y"
  shows "vs_intent y = x" and "vs_provenance y = provenance" and "vs_report y = r"
    and "verify_report_profile x provenance r = Inr ()" and "verify_tool_output_agrees provenance out r = Inr ()"
    and "verify_report provenance r = Inr (vs_outcome y, vs_verification y)"
    and "vs_disposition y = outcome_disposition (vs_outcome y)"
  using assms by (auto simp: judge_report_def result_simps)

lemma receipt_built:
  assumes "build_execution_receipt cr env s v t0 t1 p y = Inr receipt"
  obtains digest where "receipt = (draft_receipt s v t0 t1 p y)\<lparr>erb_receipt_digest := digest\<rparr>"
    and "validate_execution_receipt cr env receipt = Inr ()"
  using assms by (auto simp: build_execution_receipt_def Let_def result_simps)

lemma receipt_bound_to_intent:
  assumes "judge_report x provenance out (report_fields r) = Inr y"
    and "receipt_profile_matches_effect x provenance" and "rp_input_summary provenance = CORE_RECEIPT_INPUT_SUMMARY_V1"
    and "receipt = (draft_receipt s v t0 t1 p y)\<lparr>erb_receipt_digest := digest\<rparr>"
  shows "verify_receipt_intent_binding receipt x provenance (vs_disposition y) = Inr ()"
proof -
  note j = judged [OF assms(1)]
  note es = verify_report_audited [OF j(6)]
  have "verify_core_receipt_artifacts receipt x provenance = Inr ()"
    using j(4) assms(2) by (rule report_artifacts_audited) (simp_all add: assms(4) draft_receipt_def Let_def j)
  then show ?thesis
    by (simp add: verify_receipt_intent_binding_def assms(4) draft_receipt_def Let_def j es assms(3)
        has_core_redactions_def intent_capability_def reject_if_def)
qed

lemma receipt_bound_to_output:
  assumes "verify_tool_output_agrees provenance out r = Inr ()" and "ei_receipt_provenance x = Some provenance"
    and "erb_output_digest receipt = vrf_output_digest r" and "bm_get (vx_intents idx) e = Some a" and "eia_intent a = x"
    and "bm_get (vx_tool_output_digests idx) e = map_option tor_output_digest out"
  shows "verify_receipt_tool_output_binding idx e receipt = Inr ()"
  using assms by (auto simp: verify_receipt_tool_output_binding_def verify_tool_output_agrees_def intent_output_profile_def
      result_simps split: option.splits)

section \<open>A concrete verification\<close>

text \<open>The admitted effect of \<open>Sample_Admission\<close>, under a definition with one required rule, and a verifier that passes it.\<close>

definition check_definition :: capability_definition_body where
  "check_definition = write_definition\<lparr>cdb_spec := (cdb_spec write_definition)
     \<lparr>cs_verification := [\<lparr>vr_strategy = VS_Postcondition, vr_required = True, vr_description = None\<rparr>]\<rparr>\<rparr>"

definition check_catalog :: capability_registry where
  "check_catalog = write_catalog\<lparr>reg_definitions := bm_insert (DefinitionKey ''c'' ''1'') check_definition bm_empty\<rparr>"

definition check_provenance :: receipt_provenance where
  "check_provenance = build_receipt_provenance sample_admission_env sample_digest None (''decision-'' @ sample_hex)
     sample_digest sample_instance check_definition"

definition check_intent :: effect_intent where
  "check_intent = write_intent\<lparr>ei_receipt_provenance := Some check_provenance\<rparr>"

definition check_step :: step_state where
  "check_step = (new_step ''a'' ''o'' [] None)\<lparr>ss_status := Validating, ss_intent := Some check_intent,
     ss_effect_evidence_digest := Some sample_digest\<rparr>"

definition check_question :: verification_request where
  "check_question = \<lparr>vq_intent = check_intent, vq_definition = check_definition, vq_instance = sample_instance,
     vq_outcome_evidence_digest = Abs_adapter_evidence_digest sample_digest, vq_tool_output = None\<rparr>"

definition check_report :: report_fields where
  "check_report = \<lparr>vrf_output_digest = EMPTY_RECEIPT_DIGEST,
     vrf_rules = [\<lparr>rvo_strategy = VS_Postcondition, rvo_result = VR_Passed,
       rvo_evidence_digest = Some (Abs_adapter_evidence_digest sample_digest)\<rparr>], vrf_artifacts = []\<rparr>"

definition check_verifier :: "nat effect_verifier" where
  "check_verifier n q = (Inr (Verification_Report check_report), Suc n)"

definition check_verifiers :: "nat effect_verifier_registry" where
  "check_verifiers = bm_insert (AdapterBindingKey ''b'' None None) check_verifier bm_empty"

definition check_verified :: verified_step where
  "check_verified = \<lparr>vs_intent = check_intent, vs_provenance = check_provenance, vs_report = check_report,
     vs_outcome = CV_OutcomePassed, vs_disposition = VerdictPassed,
     vs_verification = [\<lparr>ve_strategy = VS_Postcondition, ve_required = True, ve_result = VR_Passed,
       ve_summary = core_verification_summary_v1 VR_Passed, ve_evidence_digest = Some sample_digest, ve_artifact = None\<rparr>]\<rparr>"

definition check_receipt :: execution_receipt_body where
  "check_receipt = (draft_receipt (cm_state sample_commit2) ''a'' ''t'' ''t'' None check_verified)\<lparr>erb_receipt_digest := sample_digest\<rparr>"

lemma sample_digest_evidence: "evidence_digest_new sample_digest = Some sample_digest"
  by (simp add: evidence_digest_new_def sample_digest_def sample_hex_def, code_simp)

lemma check_report_fields: "report_fields (Verification_Report check_report) = check_report"
proof (rule Verification_Report_inverse)
  show "check_report \<in> {r. report_built r}"
    by (simp add: check_report_def report_built_def verifier_output_digest_new_def validate_digest_def EMPTY_RECEIPT_DIGEST_def
        with_artifacts_def list_all_iff is_ascii_digit_def byte_val_def del: append.simps)
qed

lemma check_plan:
  "rp_verification_plan check_provenance = [\<lparr>rvr_strategy = StrategyPostcondition, rvr_required = True\<rparr>]"
  "rp_profile_version check_provenance = CORE_RECEIPT_PROFILE_V1" "rp_tool_output_profile check_provenance = None"
  "rp_input_summary check_provenance = CORE_RECEIPT_INPUT_SUMMARY_V1"
  by (simp_all add: check_provenance_def build_receipt_provenance_def check_definition_def write_definition_def
      sample_definition_def)

lemma check_subject:
  "verification_subject sample_crypto sample_admission_env check_catalog check_verifiers check_step None
     = Inr (check_provenance, check_question, check_verifier)"
proof -
  have i: "ei_invocation check_intent = once_invocation (write_pending Ephemeral) ''i'' sample_digest"
    "ei_effect_class check_intent = Idempotent" "ab_receipt_provenance_digest (au_binding (ei_authorization check_intent)) = Some sample_digest"
    "ei_receipt_provenance check_intent = Some check_provenance"
    by (simp_all add: check_intent_def write_intent_def Let_def once_binding_def)
  have "registry_definition check_catalog (intent_capability check_intent) = Some check_definition"
    "registry_instance check_catalog ''i'' = Some sample_instance"
    "cib_definition sample_instance = intent_capability check_intent" "cib_instance_id sample_instance = ''i''"
    by (simp_all add: registry_definition_def registry_instance_def check_catalog_def write_catalog_def intent_capability_def i
        once_invocation_def write_pending_def write_route_def sample_route_def key_from_reference_def sample_instance_def)
  moreover have "receipt_verification_plan_matches check_definition check_provenance"
    by (simp add: receipt_verification_plan_matches_def check_plan check_definition_def)
  moreover have "receipt_profile_matches_effect check_intent check_provenance" "tool_output_profile_matches_effect check_intent check_provenance"
    by (simp_all add: receipt_profile_matches_effect_def tool_output_profile_matches_effect_def check_plan i
        CORE_RECEIPT_PROFILE_V1_def CORE_RECEIPT_PROFILE_V2_def)
  moreover have "pn_definition_digest (write_pending Ephemeral) = sample_digest" by (simp add: write_pending_def)
  ultimately show ?thesis
    by (simp add: verification_subject_def check_step_def i check_plan receipt_provenance_digest_def verify_current_definition_def
        definition_contract_digest_def verify_verification_plan_def verification_current_instance_def executable_binding_digest_def
        evidence_of_def sample_digest_evidence sample_adapter_bound(1) check_verifiers_def check_question_def
        once_invocation_def intent_capability_def Let_def)
qed

lemma check_judged:
  "judge_report (vq_intent check_question) check_provenance None (report_fields (Verification_Report check_report)) = Inr check_verified"
proof -
  have "Rep_adapter_evidence_digest (Abs_adapter_evidence_digest sample_digest) = sample_digest"
    by (rule Abs_adapter_evidence_digest_inverse) (simp add: sample_digest_evidence)
  then show ?thesis
    unfolding check_report_fields
    by (simp add: judge_report_def check_report_def check_question_def check_plan verify_report_profile_def
        verify_tool_output_agrees_def verify_report_def rule_evidence_def Let_def evaluate_core_verification_v1_def check_verified_def)
qed

lemma check_built:
  "build_execution_receipt sample_crypto sample_env (cm_state sample_commit2) ''a'' ''t'' ''t'' None check_verified = Inr check_receipt"
proof -
  have "canonical_digest_without_field sample_crypto (execution_receipt_document r) ''receiptDigest'' = Inr sample_digest" for r
    by (simp add: canonical_digest_without_field_def execution_receipt_document_def json_object_def document_digest_def
        set_put_entry_keys)
  then show ?thesis
    by (simp add: build_execution_receipt_def execution_receipt_digest_def Let_def check_receipt_def validate_execution_receipt_def
        cached_document_validator_def sample_env_def ensure_required_extensions_supported_def draft_receipt_def
        verify_derived_digest_def)
qed

section \<open>The audit\<close>

text \<open>
  C25. The receipt of the runner passes the audit of the store. Whatever report a verifier returned, when
  the runner accepted it for a step and built a receipt from it, the receipt is a valid document, it is
  bound to the intent and to the provenance that admission recorded, its result justifies the verdict,
  its artifacts keep the limits and carry the provenance of the run, and its output digest is that
  of the durable tool output. So the checks that the runner and the store make
  independently agree.
\<close>

theorem runner_receipt_passes_audit:
  assumes "verification_subject cr ae capabilities verifiers x out = Inr (provenance, q, verifier)"
    and "judge_report (vq_intent q) provenance out (report_fields r) = Inr y"
    and "build_execution_receipt cr env s v t0 t1 p y = Inr receipt"
    and "bm_get (vx_intents idx) (ei_effect_id (vq_intent q)) = Some a" and "eia_intent a = vq_intent q"
    and "bm_get (vx_tool_output_digests idx) (ei_effect_id (vq_intent q)) = map_option tor_output_digest out"
  shows "validate_execution_receipt cr env receipt = Inr ()
    \<and> verify_receipt_intent_binding receipt (vq_intent q) provenance (vs_disposition y) = Inr ()
    \<and> verify_receipt_tool_output_binding idx (ei_effect_id (vq_intent q)) receipt = Inr ()
    \<and> erb_run_id receipt = rs_run_id s \<and> erb_step_id receipt = v \<and> erb_started_at receipt = t0 \<and> erb_ended_at receipt = t1
    \<and> erb_previous_receipt_digest receipt = p"
proof -
  note q = subject_checked [OF assms(1)]
  note j = judged [OF assms(2)]
  obtain digest where d: "receipt = (draft_receipt s v t0 t1 p y)\<lparr>erb_receipt_digest := digest\<rparr>"
    and valid: "validate_execution_receipt cr env receipt = Inr ()"
    using assms(3) by (rule receipt_built)
  have "verify_receipt_intent_binding receipt (vq_intent q) provenance (vs_disposition y) = Inr ()"
    using assms(2) q(3,4) d by (rule receipt_bound_to_intent)
  moreover have "verify_receipt_tool_output_binding idx (ei_effect_id (vq_intent q)) receipt = Inr ()"
    using j(5) q(2) _ assms(4-6) by (rule receipt_bound_to_output) (simp add: d draft_receipt_def Let_def j)
  ultimately show ?thesis using valid by (simp add: d draft_receipt_def Let_def)
qed

theorem runner_receipt_passes_audit_witness:
  "verify_receipt_intent_binding check_receipt check_intent check_provenance VerdictPassed = Inr ()"
proof -
  let ?a = "\<lparr>eia_event_sequence = 3, eia_step_id = ''a'', eia_intent = check_intent\<rparr>"
  let ?idx = "vx_default\<lparr>vx_intents := bm_insert (ei_effect_id check_intent) ?a bm_empty\<rparr>"
  have "bm_get (vx_intents ?idx) (ei_effect_id (vq_intent check_question)) = Some ?a"
    "eia_intent ?a = vq_intent check_question"
    "bm_get (vx_tool_output_digests ?idx) (ei_effect_id (vq_intent check_question)) = map_option tor_output_digest None"
    by (simp_all add: check_question_def vx_default_def)
  from runner_receipt_passes_audit [OF check_subject check_judged check_built this]
  show ?thesis by (simp add: check_question_def check_verified_def)
qed

section \<open>One drive\<close>

definition same_ledger :: "('v, 'f) verification_world \<Rightarrow> ('v, 'f) verification_world \<Rightarrow> bool" where
  "same_ledger w w' \<longleftrightarrow> vw_store w' = vw_store w \<and> vw_calls w' = vw_calls w"

lemma metadata_silent: "verification_metadata env factory s w = (r, w') \<Longrightarrow> same_ledger w w'"
  by (auto simp: verification_metadata_def same_ledger_def split: prod.splits)

lemma verify_step_cases:
  assumes "verify_step cr ae capabilities verifiers x out w = (r, w')"
  obtains (refused) e where "r = Inl e" and "w' = w"
  | (asked) provenance q verifier where "verification_subject cr ae capabilities verifiers x out = Inr (provenance, q, verifier)"
      and "vw_store w' = vw_store w" and "vw_calls w' = vw_calls w @ [q]"
      and "\<And>y. r = Inr y \<Longrightarrow> \<exists>report. judge_report (vq_intent q) provenance out (report_fields report) = Inr y"
  using assms
proof (cases "verification_subject cr ae capabilities verifiers x out")
  case (Inr t)
  obtain provenance q verifier where t: "t = (provenance, q, verifier)" by (cases t)
  show thesis
    using assms Inr t
    by (auto simp: verify_step_def rt_bind_def rt_try_def call_verifier_def split: prod.splits sum.splits
        intro!: asked [of provenance q verifier])
qed (auto simp: verify_step_def)

lemma commit_verdict_cases:
  assumes "commit_verdict cr env snap v y m w = (r, w')"
  obtains (failed) e where "r = Inl e" and "w' = w"
  | (committed) receipt c t0 where "r = Inr \<lparr>dr_action = verdict_action (vs_disposition y), dr_state = cm_state c\<rparr>"
      and "build_execution_receipt cr env (rvs_state snap) v t0 (em_recorded_at m) (rvs_previous_receipt_digest snap) y = Inr receipt"
      and "ms_append_with_execution_receipt cr env (vw_store w) (expected_head_from_state (rvs_state snap))
          (verdict_event (rvs_state snap) m v y receipt) receipt = Inr (c, vw_store w')"
      and "vw_calls w' = vw_calls w"
proof (cases r)
  case (Inl e)
  then show thesis using assms failed by (auto simp: commit_verdict_def split: sum.splits)
next
  case (Inr d)
  then show thesis
    using assms by (auto simp: commit_verdict_def map_err_Inr_iff result_simps split: sum.splits intro!: committed)
qed

lemma verification_snapshot_state:
  assumes "ms_load_verification_snapshot cr st v = Inr (Some snap)"
  shows "vx_state (ms_index st) = Some (rvs_state snap)" and "rvs_previous_receipt_digest snap = vx_receipt_head_digest (ms_index st)"
  using assms by (auto simp: ms_load_verification_snapshot_def verification_snapshot_def Let_def result_simps split: option.splits)


text \<open>What a verdict says of the evidence it rests on.\<close>

definition verdict_justified :: "verification_disposition \<Rightarrow> verification_evidence list \<Rightarrow> bool" where
  "verdict_justified d es \<longleftrightarrow>
     (d = VerdictPassed \<longleftrightarrow> (\<forall>e \<in> set es. ve_required e \<longrightarrow> ve_result e = VR_Passed)
        \<and> (\<exists>e \<in> set es. ve_result e = VR_Passed))
     \<and> (d = VerdictFailed \<longleftrightarrow> (\<exists>e \<in> set es. ve_required e \<and> ve_result e = VR_Failed))"

lemma outcome_justified: "verdict_justified (outcome_disposition (evaluate_core_verification_v1 es)) es"
proof -
  have "ve_result e = VR_Passed \<or> ve_result e = VR_Failed \<or> ve_result e = VR_Inconclusive" for e
    by (cases "ve_result e") auto
  then show ?thesis
    unfolding verdict_justified_def evaluate_core_verification_v1_def by (auto simp: Let_def list_ex_iff)
qed

fun verdict_status :: "verification_disposition \<Rightarrow> step_status" where
  "verdict_status VerdictPassed = Completed"
| "verdict_status VerdictFailed = Failed"
| "verdict_status VerdictInconclusive = ManualRequired"

lemma verdict_committed:
  assumes "ms_append_with_execution_receipt cr env st h (verdict_event s m v y receipt) receipt = Inr (c, st')"
    and "store_ok cr env st"
  shows "store_ok cr env st'" and "ms_load_current st' = Some (cm_state c)"
    and "ms_records st' = ms_records st @ [cm_record c]" and "er_event (cm_record c) = verdict_event s m v y receipt"
    and "\<exists>z. ms_receipts st' = ms_receipts st @ [z] \<and> ser_receipt z = receipt"
    and "\<exists>z. bm_get (rs_steps (cm_state c)) v = Some z \<and> ss_status z = verdict_status (vs_disposition y)
        \<and> ss_execution_receipt_digest z = Some (erb_receipt_digest receipt)"
proof -
  obtain a where c: "commits cr env st c (no_sidecars\<lparr>csc_receipt := Some receipt\<rparr>) (no_anchors\<lparr>can_receipt := Some a\<rparr>) st'"
    using append_with_execution_receipt_commits [OF assms(1)] by blast
  show "store_ok cr env st'" using c assms(2) by (rule store_ok_commit)
  show "ms_load_current st' = Some (cm_state c)" using c by (simp add: commits_def ms_load_current_def)
  show "ms_records st' = ms_records st @ [cm_record c]" using c by (simp add: commits_def)
  show "\<exists>z. ms_receipts st' = ms_receipts st @ [z] \<and> ser_receipt z = receipt" using c by (simp add: commits_def new_receipt_def)
  show e: "er_event (cm_record c) = verdict_event s m v y receipt"
  proof -
    have "prepare_commit cr (ms_index st) h (verdict_event s m v y receipt) = Inr c"
      using assms(1) by (auto simp: ms_append_with_execution_receipt_def append_simps)
    then show ?thesis by (rule prepare_commit_Inr(2))
  qed
  have j: "journal_ok cr st" using assms(2) by (simp add: store_ok_def)
  let ?body = "VerificationRecorded v (ei_effect_id (vs_intent y)) (vs_disposition y) (erb_receipt_id receipt) (erb_receipt_digest receipt)"
  have b: "re_body (er_event (cm_record c)) = ?body" by (simp add: e verdict_event_def runtime_event_def)
  from c j show "\<exists>z. bm_get (rs_steps (cm_state c)) v = Some z \<and> ss_status z = verdict_status (vs_disposition y)
        \<and> ss_execution_receipt_digest z = Some (erb_receipt_digest receipt)"
  proof (cases rule: commits_cases)
    case (created g)
    then show ?thesis using b by simp
  next
    case (extended t t')
    have "step_move cr t ?body v (bm_get (rs_steps t) v) (bm_get (rs_steps t') v)"
      using extended(4) unfolding b by (rule apply_body_step_move)
    then show ?thesis
      by (cases rule: step_move.cases)
         (cases "vs_disposition y"; auto simp: targets_def extended(5) lifecycle_simps)+
  qed
qed

text \<open>A drive that leaves the journal alone asks at most one question, about a step in \<open>Validating\<close>.\<close>

definition asked_about :: "string \<Rightarrow> ('v, 'f) verification_world \<Rightarrow> verification_request \<Rightarrow> ('v, 'f) verification_world \<Rightarrow> bool" where
  "asked_about v w q w' \<longleftrightarrow>
     (\<exists>s x. driven_step (vw_store w) v s x \<and> ss_status x = Validating \<and> ss_intent x = Some (vq_intent q))
     \<and> vw_calls w' = vw_calls w @ [q]"

definition verdict_recorded ::
    "string \<Rightarrow> ('v, 'f) verification_world \<Rightarrow> verification_request \<Rightarrow> drive_report \<Rightarrow> ('v, 'f) verification_world \<Rightarrow> bool" where
  "verdict_recorded v w q r w' \<longleftrightarrow>
     (\<exists>c z d y. ms_records (vw_store w') = ms_records (vw_store w) @ [c] \<and> ms_receipts (vw_store w') = ms_receipts (vw_store w) @ [z]
        \<and> re_body (er_event c) = VerificationRecorded v (ei_effect_id (vq_intent q)) d (erb_receipt_id (ser_receipt z))
            (erb_receipt_digest (ser_receipt z))
        \<and> verdict_justified d (erb_verification (ser_receipt z))
        \<and> dr_action r = verdict_action d \<and> ms_load_current (vw_store w') = Some (dr_state r)
        \<and> bm_get (rs_steps (dr_state r)) v = Some y \<and> ss_status y = verdict_status d
        \<and> ss_execution_receipt_digest y = Some (erb_receipt_digest (ser_receipt z)))"

lemma judged_verdict_recorded:
  assumes "commit_verdict cr env snap v y m w = (Inr r, w')" and "store_ok cr env (vw_store w)"
    and "judge_report (vq_intent q) provenance out (report_fields report) = Inr y"
  shows "verdict_recorded v w q r w'" and "vw_calls w' = vw_calls w" and "store_ok cr env (vw_store w')"
proof -
  from assms(1) obtain receipt c t0 where r: "r = \<lparr>dr_action = verdict_action (vs_disposition y), dr_state = cm_state c\<rparr>"
    and b: "build_execution_receipt cr env (rvs_state snap) v t0 (em_recorded_at m) (rvs_previous_receipt_digest snap) y = Inr receipt"
    and a: "ms_append_with_execution_receipt cr env (vw_store w) (expected_head_from_state (rvs_state snap))
          (verdict_event (rvs_state snap) m v y receipt) receipt = Inr (c, vw_store w')"
    and "vw_calls w' = vw_calls w"
    by (rule commit_verdict_cases) simp_all
  note c = verdict_committed [OF a assms(2)]
  show "store_ok cr env (vw_store w')" "vw_calls w' = vw_calls w" by fact+
  note j = judged [OF assms(3)]
  have "erb_verification receipt = vs_verification y"
    using b by (rule receipt_built) (simp add: draft_receipt_def Let_def)
  then have "verdict_justified (vs_disposition y) (erb_verification receipt)"
    using outcome_justified verify_report_audited(1) [OF j(6)] j(7) by simp
  moreover have "re_body (er_event (cm_record c)) = VerificationRecorded v (ei_effect_id (vq_intent q)) (vs_disposition y)
      (erb_receipt_id receipt) (erb_receipt_digest receipt)"
    by (simp add: c(4) verdict_event_def runtime_event_def j)
  ultimately show "verdict_recorded v w q r w'"
    using c(2,3,5,6) unfolding verdict_recorded_def r by fastforce
qed


lemma verification_drive_cases:
  assumes "verification_drive_step cr ae env factory lease capabilities verifiers v w = (r, w')"
  obtains (refused) e where "r = Inl e" and "w' = w"
  | (terminal) snap x where "ms_load_verification_snapshot cr (vw_store w) v = Inr (Some snap)"
      and "bm_get (rs_steps (rvs_state snap)) v = Some x" and "ss_status x \<in> {Completed, Failed, ManualRequired}"
      and "r = Inr \<lparr>dr_action = DA_NoAction, dr_state = rvs_state snap\<rparr>" and "w' = w"
  | (validating) snap x where "ms_load_verification_snapshot cr (vw_store w) v = Inr (Some snap)"
      and "bm_get (rs_steps (rvs_state snap)) v = Some x" and "ss_status x = Validating"
      and "rt_bind (verify_step cr ae capabilities verifiers x (rvs_tool_output snap)) (\<lambda>verified.
         rt_bind (verification_metadata env factory (rvs_state snap)) (\<lambda>metadata. commit_verdict cr env snap v verified metadata)) w = (r, w')"
  using assms unfolding verification_drive_step_def
  by (elim rt_bind_try_cases)
     (auto simp: result_simps split: if_splits intro: refused terminal validating)

lemma validating_drive:
  assumes "rt_bind (verify_step cr ae capabilities verifiers x (rvs_tool_output snap)) (\<lambda>verified.
      rt_bind (verification_metadata env factory (rvs_state snap)) (\<lambda>metadata. commit_verdict cr env snap v verified metadata)) w = (r, w')"
    and "store_ok cr env (vw_store w)"
  obtains (refused) e where "r = Inl e" and "same_ledger w w'"
  | (asked) e q where "r = Inl e" and "ss_intent x = Some (vq_intent q)" and "vw_store w' = vw_store w" and "vw_calls w' = vw_calls w @ [q]"
  | (recorded) d q where "r = Inr d" and "ss_intent x = Some (vq_intent q)" and "verdict_recorded v w q d w'"
      and "vw_calls w' = vw_calls w @ [q]"
  using assms(1)
proof (cases rule: rt_bind_cases)
  case (failed e)
  from failed(1) show thesis
  proof (cases rule: verify_step_cases)
    case (asked provenance q verifier)
    then show thesis using subject_checked(1) [OF asked(1)] that(2) failed(2) by blast
  qed (use failed(2) refused in \<open>simp add: same_ledger_def\<close>)
next
  case (continued y w1)
  from continued(1) obtain provenance q verifier report
    where q: "verification_subject cr ae capabilities verifiers x (rvs_tool_output snap) = Inr (provenance, q, verifier)"
      and w1: "vw_store w1 = vw_store w" "vw_calls w1 = vw_calls w @ [q]"
      and j: "judge_report (vq_intent q) provenance (rvs_tool_output snap) (report_fields report) = Inr y"
    by (cases rule: verify_step_cases) auto
  note i = subject_checked(1) [OF q]
  from continued(2) show thesis
  proof (cases rule: rt_bind_cases)
    case (failed e)
    then show thesis using asked i w1 metadata_silent by (metis same_ledger_def)
  next
    case (continued m w2)
    have w2: "vw_store w2 = vw_store w" "vw_calls w2 = vw_calls w @ [q]"
      using metadata_silent [OF continued(1)] w1 by (simp_all add: same_ledger_def)
    show thesis
    proof (cases r)
      case (Inl e)
      with continued(2) have "w' = w2" by (auto elim: commit_verdict_cases)
      then show thesis using asked Inl i w2 by simp
    next
      case (Inr d)
      have c: "commit_verdict cr env snap v y m w2 = (Inr d, w')" "store_ok cr env (vw_store w2)"
        using continued(2) Inr assms(2) w2 by simp_all
      note recorded' = judged_verdict_recorded [OF c j]
      then have "verdict_recorded v w q d w'" by (simp add: verdict_recorded_def w2)
      then show thesis using recorded Inr i recorded'(2) w2(2) by simp
    qed
  qed
qed

text \<open>
  C33. A drive of the runner records one justified verdict or nothing. Whatever verifiers, registry, event
  source and lease, on every store built by appends: either the store is left as it was, a verifier
  was asked at most once and only about the intent of a step in \<open>Validating\<close>, and a report, if there
  is one, says that nothing was done and carries the stored state; or exactly one verdict on that
  intent was appended together with its receipt, after the one question, and it is justified: it is
  a pass exactly if every required rule passed and some rule did, a failure exactly if a required
  rule failed. Then the step has the status of the verdict, its receipt is the stored one, and the
  report carries the new stored state.
\<close>

theorem verification_records_one_verdict:
  assumes "store_built cr env (vw_store w)"
    and "verification_drive_step cr ae env factory lease capabilities verifiers v w = (r, w')"
  shows "vw_store w' = vw_store w \<and> (vw_calls w' = vw_calls w \<or> (\<exists>q. asked_about v w q w'))
      \<and> (\<forall>d. r = Inr d \<longrightarrow> dr_action d = DA_NoAction \<and> ms_load_current (vw_store w) = Some (dr_state d) \<and> vw_calls w' = vw_calls w)
    \<or> (\<exists>q d. r = Inr d \<and> asked_about v w q w' \<and> verdict_recorded v w q d w')"
proof -
  have ok: "store_ok cr env (vw_store w)" using assms(1) by (rule store_built_ok)
  have driven: "driven_step (vw_store w) v (rvs_state snap) x"
    if "ms_load_verification_snapshot cr (vw_store w) v = Inr (Some snap)" "bm_get (rs_steps (rvs_state snap)) v = Some x" for snap x
    using verification_snapshot_state(1) [OF that(1)] that(2) ok
    by (auto simp: driven_step_def ms_load_current_def store_ok_def journal_ok_def)
  from assms(2) show ?thesis
  proof (cases rule: verification_drive_cases)
    case (terminal snap x)
    then show ?thesis using driven by (auto simp: driven_step_def)
  next
    case (validating snap x)
    note d = driven [OF validating(1,2)]
    from validating(4) ok show ?thesis
    proof (cases rule: validating_drive)
      case (asked e q)
      then have "asked_about v w q w'" using d validating(3) by (auto simp: asked_about_def)
      then show ?thesis using asked by auto
    next
      case (recorded e q)
      then have "asked_about v w q w'" using d validating(3) by (auto simp: asked_about_def)
      then show ?thesis using recorded by auto
    qed (simp add: same_ledger_def)
  qed simp
qed

theorem verification_records_one_verdict_witness:
  "vw_store (snd (verification_drive_step sample_crypto sample_admission_env sample_env sample_factory ''r'' check_catalog check_verifiers
       ''a'' \<lparr>vw_store = sample_store2, vw_verifier = 0, vw_events = 0, vw_calls = []\<rparr>)) = sample_store2"
proof -
  let ?w = "\<lparr>vw_store = sample_store2, vw_verifier = 0::nat, vw_events = 0::nat, vw_calls = []\<rparr>"
  obtain r w' where d: "verification_drive_step sample_crypto sample_admission_env sample_env sample_factory ''r'' check_catalog
      check_verifiers ''a'' ?w = (r, w')" by (cases "verification_drive_step sample_crypto sample_admission_env sample_env
      sample_factory ''r'' check_catalog check_verifiers ''a'' ?w")
  have "store_built sample_crypto sample_env (vw_store ?w)" using sample_built(2) by simp
  from verification_records_one_verdict [OF this d] show ?thesis
    using d write_state by (auto simp: asked_about_def driven_step_def new_step_def)
qed

section \<open>The type of reports\<close>

lemma account_artifact_Inr_iff:
  "account_artifact d (ids, n) = Inr z \<longleftrightarrow> \<not> bs_contains ids (vad_artifact_id d)
     \<and> unat n + unat (vad_size d) \<le> unat MAX_VERIFIED_ARTIFACT_TOTAL_BYTES
     \<and> z = (bs_insert (vad_artifact_id d) ids, n + vad_size d)"
proof -
  have "unat MAX_VERIFIED_ARTIFACT_TOTAL_BYTES < 2 ^ 64" using unsigned_less [of MAX_VERIFIED_ARTIFACT_TOTAL_BYTES, where ?'a = nat] by simp
  then show ?thesis
    by (auto simp: account_artifact_def result_simps checked_add_def word_le_nat_alt unat_word_ariths not_less split: if_splits)
qed

lemma account_artifacts_Inr_iff:
  assumes "unat n \<le> unat MAX_VERIFIED_ARTIFACT_TOTAL_BYTES"
  shows "(\<exists>z. try_fold account_artifact ds (ids, n) = Inr z) \<longleftrightarrow>
     distinct (map vad_artifact_id ds) \<and> (\<forall>d \<in> set ds. \<not> bs_contains ids (vad_artifact_id d))
     \<and> unat n + sum_list (map (\<lambda>d. unat (vad_size d)) ds) \<le> unat MAX_VERIFIED_ARTIFACT_TOTAL_BYTES"
  using assms
proof (induction ds arbitrary: ids n)
  case (Cons d ds)
  show ?case
  proof (cases "\<exists>z. account_artifact d (ids, n) = Inr z")
    case True
    then have d: "\<not> bs_contains ids (vad_artifact_id d)" "unat n + unat (vad_size d) \<le> unat MAX_VERIFIED_ARTIFACT_TOTAL_BYTES"
      "account_artifact d (ids, n) = Inr (bs_insert (vad_artifact_id d) ids, n + vad_size d)"
      by (auto simp: account_artifact_Inr_iff)
    have "unat (n + vad_size d) = unat n + unat (vad_size d)"
      using d(2) unsigned_less [of MAX_VERIFIED_ARTIFACT_TOTAL_BYTES, where ?'a = nat] by (simp add: unat_word_ariths)
    then show ?thesis using d Cons.IH [of "n + vad_size d" "bs_insert (vad_artifact_id d) ids"] by (auto simp: add.assoc image_iff)
  next
    case False
    then have "\<not> (\<exists>z. try_fold account_artifact (d # ds) (ids, n) = Inr z)" by (auto simp: and_then_Inr_iff)
    then show ?thesis using False by (auto simp: account_artifact_Inr_iff)
  qed
qed simp

text \<open>
  C9. The type of verification reports is exactly what a receipt can carry: a record is a report that
  the constructors build iff its output digest is a canonical SHA-256 digest, it has at most the profile's
  number of artifacts, each a valid core descriptor, with distinct identifiers and a total size within
  the profile's limit, where no addition of sizes wraps around.
\<close>

theorem report_type_exact:
  "r \<in> range report_fields \<longleftrightarrow>
     validate_digest (vrf_output_digest r)
     \<and> length (vrf_artifacts r) \<le> CORE_RECEIPT_MAX_ARTIFACTS_V2
     \<and> list_all (\<lambda>d. core_artifact_descriptor_v2_is_valid (vad_artifact_id d) (vad_name d) (vad_media_type d)
           (vad_size d) (vad_digest d)) (vrf_artifacts r)
     \<and> distinct (map vad_artifact_id (vrf_artifacts r))
     \<and> sum_list (map (\<lambda>d. unat (vad_size d)) (vrf_artifacts r)) \<le> unat CORE_RECEIPT_MAX_ARTIFACT_TOTAL_BYTES_V2"
proof -
  have "r \<in> range report_fields \<longleftrightarrow> report_built r" by (metis Verification_Report_inverse mem_Collect_eq rangeE rangeI report_fields)
  moreover have "report_built r \<longleftrightarrow> validate_digest (vrf_output_digest r) \<and> list_all descriptor_built (vrf_artifacts r)
      \<and> length (vrf_artifacts r) \<le> MAX_VERIFIED_ARTIFACTS \<and> (\<exists>z. try_fold account_artifact (vrf_artifacts r) (bs_empty, 0) = Inr z)"
    by (auto simp: report_built_def verifier_output_digest_new_def with_artifacts_def and_then_Inr_iff not_less reject_if_def)
  ultimately show ?thesis
    using account_artifacts_Inr_iff [of 0 "vrf_artifacts r" bs_empty]
    by (auto simp: list_all_iff descriptor_built_iff MAX_VERIFIED_ARTIFACTS_def MAX_VERIFIED_ARTIFACT_TOTAL_BYTES_def)
qed

end
