(* ===== verification/Planning_Types.thy ===== *)
theory Planning_Types
  imports Admission
begin

text \<open>
  The data of the agent loop, \<open>crates/xgeny-runtime/src/agent_loop.rs\<close>: the context that a planner
  reads, the proposal it returns, the outcomes of a tick and the errors. What the loop serializes,
  to measure or to digest it, is a constructor of \<open>planning_input\<close> with the fields of the struct in
  order; the canonicalizer is a parameter. So is the first violation that the JSON-schema library
  reports, which \<open>crates/xgeny-runtime/src/invocation_diagnostic.rs\<close> reduces to fixed words.
\<close>

section \<open>Limits\<close>

definition PLANNING_CONTEXT_PROFILE_V3 :: string where
  "PLANNING_CONTEXT_PROFILE_V3 = ''xgeny.planning-context/v3''"
definition MAX_PROPOSAL_BYTES :: usize where "MAX_PROPOSAL_BYTES = 256 * 1024"
definition MAX_PROPOSAL_KEY_BYTES :: usize where "MAX_PROPOSAL_KEY_BYTES = 128"
definition MAX_CAPABILITY_SUMMARY_BYTES :: usize where "MAX_CAPABILITY_SUMMARY_BYTES = 512"
definition MAX_PLANNING_CONTEXT_BYTES :: u64 where "MAX_PLANNING_CONTEXT_BYTES = 512 * 1024"
definition MAX_PLANNING_CATALOG_DEFINITIONS :: usize where "MAX_PLANNING_CATALOG_DEFINITIONS = 1024"
definition MAX_PLANNING_SOURCE_STEPS :: usize where "MAX_PLANNING_SOURCE_STEPS = 4096"
definition MAX_PLANNING_DEFINITION_BYTES :: usize where "MAX_PLANNING_DEFINITION_BYTES = 256 * 1024"
definition MAX_PLANNING_STEP_BYTES :: usize where "MAX_PLANNING_STEP_BYTES = 64 * 1024"
definition MAX_PLANNING_SOURCE_BYTES :: usize where "MAX_PLANNING_SOURCE_BYTES = 8 * 1024 * 1024"
definition MAX_PLANNING_VALUE_DEPTH :: usize where "MAX_PLANNING_VALUE_DEPTH = 64"
definition MAX_PLANNING_VALUE_NODES :: usize where "MAX_PLANNING_VALUE_NODES = 32768"
definition MAX_PLANNING_VALUE_TEXT_BYTES :: usize where "MAX_PLANNING_VALUE_TEXT_BYTES = 256 * 1024"
definition MAX_PLANNING_DEFINITION_COLLECTION_ITEMS :: usize where "MAX_PLANNING_DEFINITION_COLLECTION_ITEMS = 4096"
definition MAX_PLANNING_HEADER_TEXT_BYTES :: usize where "MAX_PLANNING_HEADER_TEXT_BYTES = 256 * 1024"
definition MAX_PLANNING_CONSTRAINTS :: usize where "MAX_PLANNING_CONSTRAINTS = 16"
definition MAX_PLANNING_CONSTRAINT_ID_BYTES :: usize where "MAX_PLANNING_CONSTRAINT_ID_BYTES = 128"
definition MAX_PLANNING_CONSTRAINT_DESCRIPTION_BYTES :: usize where
  "MAX_PLANNING_CONSTRAINT_DESCRIPTION_BYTES = 16 * 1024"

definition usize_saturating_add :: "usize \<Rightarrow> usize \<Rightarrow> usize" where
  "usize_saturating_add a b = (case usize_checked_add a b of None \<Rightarrow> 2 ^ 64 - 1 | Some c \<Rightarrow> c)"

section \<open>The context\<close>

record agent_loop_head =
  alh_sequence :: u64
  alh_digest :: string

definition head_from_state :: "run_state \<Rightarrow> agent_loop_head" where
  "head_from_state state = \<lparr>alh_sequence = rs_journal_sequence state, alh_digest = rs_journal_head_digest state\<rparr>"

record planning_resource_selector =
  prs_scope :: string
  prs_argument_pointer :: string

record planning_capability_summary =
  pcs_capability :: capability_ref
  pcs_definition_digest :: string
  pcs_summary :: string
  pcs_input_schema :: json
  pcs_output_schema :: json
  pcs_effect_class :: domain_effect_class
  pcs_resource_selectors :: "planning_resource_selector list"
  pcs_critical_actions :: "critical_action list"
  pcs_execution_styles :: "execution_style list"
  pcs_idempotency_key_supported :: bool
  pcs_default_timeout_ms :: u64
  pcs_max_timeout_ms :: u64

record planning_step_summary =
  pss_step_id :: string
  pss_objective :: string
  pss_depends_on :: "string list"
  pss_status :: step_status
  pss_attempts :: u32
  pss_capability :: "capability_ref option"
  pss_dependency_released :: bool

record planning_tool_output =
  pto_step_id :: string
  pto_capability :: capability_ref
  pto_output_id :: string
  pto_output_digest :: string
  pto_receipt_digest :: string
  pto_canonical_size_bytes :: u64
  pto_output :: json

record planning_constraint =
  pcn_constraint_id :: string
  pcn_description :: string

record planning_context_payload =
  plp_profile_version :: string
  plp_capabilities :: "planning_capability_summary list"
  plp_omitted_capabilities :: usize
  plp_catalog_digest :: string
  plp_goal :: string
  plp_planning_constraints :: "planning_constraint list"
  plp_steps :: "planning_step_summary list"
  plp_omitted_steps :: usize
  plp_tool_outputs :: "planning_tool_output list"
  plp_total_steps :: usize
  plp_verified_completed_steps :: usize
  plp_run_id :: string
  plp_authority :: string
  plp_authority_epoch :: u64
  plp_journal_sequence :: u64
  plp_journal_head_digest :: string

record planning_context =
  pcx_payload :: planning_context_payload
  pcx_context_digest :: string
  pcx_canonical_size_bytes :: u64

section \<open>Constraints\<close>

datatype (plugins only:) planning_constraint_error =
    PNE_InvalidIdentifier | PNE_InvalidDescription | PNE_TooMany | PNE_DuplicateIdentifier

definition valid_bounded_text :: "string \<Rightarrow> usize \<Rightarrow> bool" where
  "valid_bounded_text v maximum \<longleftrightarrow> v \<noteq> [] \<and> length v \<le> maximum \<and> \<not> has_control v"

definition planning_constraint_new :: "string \<Rightarrow> string \<Rightarrow> planning_constraint_error + planning_constraint" where
  "planning_constraint_new constraint_id description =
     and_then (reject_if (constraint_id = [] \<or> length constraint_id > MAX_PLANNING_CONSTRAINT_ID_BYTES
         \<or> \<not> list_all identifier_byte constraint_id) PNE_InvalidIdentifier) (\<lambda>_.
     and_then (reject_if (\<not> valid_bounded_text description MAX_PLANNING_CONSTRAINT_DESCRIPTION_BYTES)
       PNE_InvalidDescription) (\<lambda>_.
     Inr \<lparr>pcn_constraint_id = constraint_id, pcn_description = description\<rparr>))"

record agent_loop =
  al_budget :: agent_loop_budget
  al_model_call_budget :: model_call_budget
  al_planning_constraints :: "planning_constraint list"

text \<open>\<open>AgentLoop::new\<close> panics on a budget that was not built by its constructor.\<close>

definition agent_loop_new :: "agent_loop_budget \<Rightarrow> string + agent_loop" where
  "agent_loop_new budget =
     and_then (map_err (\<lambda>_. ''a validated AgentLoop budget has a non-zero model-turn limit'')
       (model_call_budget_new (alb_max_model_turns budget))) (\<lambda>calls.
     Inr \<lparr>al_budget = budget, al_model_call_budget = calls, al_planning_constraints = []\<rparr>)"

definition with_model_call_budget :: "agent_loop_budget \<Rightarrow> model_call_budget \<Rightarrow> agent_loop" where
  "with_model_call_budget budget calls = \<lparr>al_budget = budget, al_model_call_budget = calls, al_planning_constraints = []\<rparr>"

definition note_identifier :: "planning_constraint \<Rightarrow> string btreeset \<Rightarrow> planning_constraint_error + string btreeset" where
  "note_identifier c identifiers =
     and_then (reject_if (bs_contains identifiers (pcn_constraint_id c)) PNE_DuplicateIdentifier) (\<lambda>_.
     Inr (bs_insert (pcn_constraint_id c) identifiers))"

definition with_planning_constraints ::
    "agent_loop \<Rightarrow> planning_constraint list \<Rightarrow> planning_constraint_error + agent_loop" where
  "with_planning_constraints al constraints =
     and_then (reject_if (length constraints > MAX_PLANNING_CONSTRAINTS) PNE_TooMany) (\<lambda>_.
     and_then (try_fold note_identifier constraints bs_empty) (\<lambda>_.
     Inr (al\<lparr>al_planning_constraints := constraints\<rparr>)))"

section \<open>Proposals\<close>

datatype plan_dependency = ExistingStep string | ProposedStep string

text \<open>The derived order: by variant, then by the text.\<close>

fun dependency_rank :: "plan_dependency \<Rightarrow> nat" where
  "dependency_rank (ExistingStep _) = 0"
| "dependency_rank (ProposedStep _) = 1"

fun dependency_text :: "plan_dependency \<Rightarrow> string" where
  "dependency_text (ExistingStep v) = v"
| "dependency_text (ProposedStep v) = v"

instantiation plan_dependency :: linorder
begin

definition less_plan_dependency :: "plan_dependency \<Rightarrow> plan_dependency \<Rightarrow> bool" where
  "a < b \<longleftrightarrow> dependency_rank a < dependency_rank b
     \<or> dependency_rank a = dependency_rank b \<and> dependency_text a < dependency_text b"

definition less_eq_plan_dependency :: "plan_dependency \<Rightarrow> plan_dependency \<Rightarrow> bool" where
  "a \<le> b \<longleftrightarrow> dependency_rank a < dependency_rank b
     \<or> dependency_rank a = dependency_rank b \<and> dependency_text a \<le> dependency_text b"

instance
proof
  fix a b c :: plan_dependency
  show "a \<le> b \<Longrightarrow> b \<le> a \<Longrightarrow> a = b"
    by (cases a; cases b) (auto simp: less_eq_plan_dependency_def)
qed (auto simp: less_plan_dependency_def less_eq_plan_dependency_def)

end

record proposed_plan_step =
  pps_key :: string
  pps_objective :: string
  pps_depends_on :: "plan_dependency list"
  pps_capability :: capability_ref
  pps_arguments :: json

datatype (plugins only:) plan_proposal = PP_Plan "proposed_plan_step list" | PP_CompletionCandidate string

datatype (plugins only:) planner_port_failure =
    PF_Timeout | PF_Unavailable | PF_InvalidResponse | PF_ProviderLimit | PF_RequestTooLarge
  | PF_RateLimited | PF_OutputTruncated | PF_ProviderRejected

record planner_call_request =
  pcr_call_id :: string
  pcr_request_digest :: string
  pcr_context :: planning_context

record plan_materialization_request =
  pmq_run_id :: string
  pmq_step_id :: string
  pmq_proposal_digest :: string
  pmq_capability :: capability_ref
  pmq_normalized_arguments :: json
  pmq_material_digest :: string

datatype plan_materializer_failure = PMF_Unavailable | PMF_Rejected | PMF_PersistenceFailed

record validated_plan_step =
  vps_key :: string
  vps_objective :: string
  vps_depends_on :: "plan_dependency list"
  vps_capability :: capability_ref
  vps_normalized_arguments :: json
  vps_definition_digest :: string
  vps_semantic_action_digest :: string
  vps_material_digest :: string
  vps_effect_class :: domain_effect_class

record prepared_plan_step =
  ppp_step_id :: string
  ppp_objective :: string
  ppp_depends_on :: "string list"
  ppp_capability :: capability_ref
  ppp_normalized_arguments :: json
  ppp_definition_digest :: string
  ppp_action_digest :: string
  ppp_material_digest :: string
  ppp_effect_class :: domain_effect_class

record prepared_plan =
  ppn_proposal_digest :: string
  ppn_steps :: "prepared_plan_step list"

section \<open>What is serialized\<close>

record catalog_digest_entry =
  cde_capability_id :: string
  cde_contract_version :: string
  cde_definition_digest :: string

record accepted_plan_digest_step =
  apd_proposal_key :: string
  apd_objective :: string
  apd_depends_on :: "plan_dependency list"
  apd_capability :: capability_ref
  apd_definition_digest :: string
  apd_semantic_action_digest :: string
  apd_material_digest :: string

datatype (plugins only:) planning_input =
    ConstraintInput planning_constraint
  | ToolOutputInput planning_tool_output
  | DefinitionInput capability_definition_body
  | CapabilitySummaryInput planning_capability_summary
  | StepSummaryInput planning_step_summary
  | PayloadInput planning_context_payload
  | CatalogDigestInput string "catalog_digest_entry list"
  | ContextDigestInput string planning_context_payload
  | PlannerRequestDigestInput string string string string
  | RawPlanProposalSizeInput string string string "proposed_plan_step list"
  | AcceptedPlanDigestInput string string string "accepted_plan_digest_step list"
  | StepIdDigestInput string string string string
  | PreflightStepIdDigestInput string string string string

section \<open>Diagnostics of rejected arguments\<close>

datatype (plugins only:) schema_violation_kind =
    SV_FalseSchema
  | SV_Required json
  | SV_Type
  | SV_AdditionalProperties
  | SV_MinLength
  | SV_Pattern
  | SV_OneOfNotValid
  | SV_OneOfMultipleValid
  | SV_Other

record schema_violation =
  svi_kind :: schema_violation_kind
  svi_instance_path :: string
  svi_schema_path :: string

text \<open>
  \<open>pe_jcs\<close> is the canonicalizer of RFC 8785. \<open>pe_schema_errors\<close> compiles a schema, if it compiles, to the
  function that returns the first violation of a value, if there is one.
\<close>

record planning_env =
  pe_jcs :: "planning_input \<Rightarrow> string + string"
  pe_schema_errors :: "json \<Rightarrow> (json \<Rightarrow> schema_violation option) option"

record invocation_diagnostic =
  idg_category :: string
  idg_field :: string

definition known_field :: "string \<Rightarrow> string" where
  "known_field nm =
     (if nm = ''path'' then ''path'' else if nm = ''content'' then ''content''
      else if nm = ''expectedDigest'' then ''expectedDigest'' else ''other'')"

definition ends_with :: "string \<Rightarrow> string \<Rightarrow> bool" where
  "ends_with v sfx \<longleftrightarrow> length sfx \<le> length v \<and> drop (length v - length sfx) v = sfx"

definition diagnose_violation :: "schema_violation \<Rightarrow> invocation_diagnostic" where
  "diagnose_violation e =
     (let path = svi_instance_path e;
          field = (if path = ''/path'' then ''path'' else if path = ''/content'' then ''content''
            else if path = ''/expectedDigest'' then ''expectedDigest'' else ''other'');
          diagnostic = (\<lambda>category field. \<lparr>idg_category = category, idg_field = field\<rparr>) in
      case svi_kind e of
        SV_FalseSchema \<Rightarrow>
          if ends_with (svi_schema_path e) ''/additionalProperties'' then diagnostic ''schema_additional_property'' ''other''
          else diagnostic ''schema_other'' field
      | SV_Required prop \<Rightarrow> diagnostic ''schema_required''
          (if path = [] then known_field (case prop of JString p \<Rightarrow> p | _ \<Rightarrow> []) else ''other'')
      | SV_Type \<Rightarrow> diagnostic ''schema_type'' field
      | SV_AdditionalProperties \<Rightarrow> diagnostic ''schema_additional_property'' ''other''
      | SV_MinLength \<Rightarrow> diagnostic ''schema_min_length'' field
      | SV_Pattern \<Rightarrow> diagnostic ''schema_pattern'' field
      | SV_OneOfNotValid \<Rightarrow> diagnostic ''schema_one_of'' field
      | SV_OneOfMultipleValid \<Rightarrow> diagnostic ''schema_one_of'' field
      | SV_Other \<Rightarrow> diagnostic ''schema_other'' field)"

definition schema_diagnostic :: "planning_env \<Rightarrow> json \<Rightarrow> json \<Rightarrow> invocation_diagnostic option" where
  "schema_diagnostic pe schema arguments =
     Option.bind (pe_schema_errors pe schema) (\<lambda>first_error. map_option diagnose_violation (first_error arguments))"

definition from_admission :: "planning_env \<Rightarrow> admission_error \<Rightarrow> json \<Rightarrow> json \<Rightarrow> invocation_diagnostic option" where
  "from_admission pe e schema arguments =
     (case e of AE_ArgumentsDoNotConform \<Rightarrow> schema_diagnostic pe schema arguments
      | AE_Resolution _ \<Rightarrow> Some \<lparr>idg_category = ''resource_resolution'', idg_field = ''other''\<rparr>
      | _ \<Rightarrow> None)"

section \<open>Outcomes\<close>

datatype (plugins only:) agent_loop_quiescence =
    QU_FailedSteps | QU_ManualIntervention | QU_UnverifiedCompletion | QU_BlockedDependencies | QU_WaitingDependencies
  | QU_ModelTurnBudgetExhausted | QU_ModelCallBudgetExhausted | QU_PlannedStepBudgetExhausted
  | QU_ToolCallBudgetExhausted | QU_ContextBudgetExceeded | QU_ContextInputLimitExceeded | QU_NoActionableWork

text \<open>\<open>PR_Panic\<close> stands for the \<open>expect\<close> calls on indexed keys.\<close>

datatype (plugins only:) proposal_rejection =
    PR_EmptyPlan | PR_TooManySteps | PR_TooManyEdges | PR_ProposalTooLarge | PR_InvalidStepKey | PR_DuplicateStepKey
  | PR_InvalidObjective | PR_InvalidDependency | PR_DuplicateDependency | PR_UnknownDependency
  | PR_BlockedExistingDependency | PR_SelfDependency | PR_DependencyCycle | PR_CapabilityUnavailable
  | PR_CapabilityUnsupported | PR_InvocationInvalid | PR_InvocationDiagnosed invocation_diagnostic
  | PR_DuplicateSemanticAction | PR_PlannedStepBudgetExceeded | PR_ToolCallBudgetExhausted
  | PR_CompletionWithoutReceiptCompletedPlan | PR_InvalidCompletionSummary | PR_Panic string

datatype (plugins only:) agent_loop_error =
    ALE_Store store_error
  | ALE_CompletionOutput completion_output_error
  | ALE_EventFactory string
  | ALE_EventMetadata
  | ALE_Frontier frontier_error
  | ALE_PlanningContract planning_contract_error
  | ALE_RunNotInitialized
  | ALE_LeaseRunMismatch
  | ALE_BudgetMismatch
  | ALE_ModelCallBudgetMismatch
  | ALE_AgentLoopNotConfigured
  | ALE_ModelCallLifecycleNotConfigured
  | ALE_ModelCallNotActive
  | ALE_ModelCallIdMismatch
  | ALE_ModelCallNoLongerActive
  | ALE_BudgetCounterOverflow
  | ALE_InvalidPlannerRequestProfileDigest
  | ALE_Canonicalization
  | ALE_CapabilityCatalog
  | ALE_PlanningSnapshotMismatch
  | ALE_CompletionCandidateNotProjected
  | ALE_CompletionOutputMissing
  | ALE_CompletionOutputMismatch
  | ALE_Panic string

datatype (plugins only:) agent_loop_tick =
    AT_Configured agent_loop_head
  | AT_ModelCallLifecycleConfigured agent_loop_head
  | AT_ActionRequired frontier_action agent_loop_head
  | AT_PlanAccepted "string list" agent_loop_head
  | AT_CompletionCandidate completion_candidate_state "completion_output_record option" bool agent_loop_head
  | AT_Quiescent agent_loop_quiescence agent_loop_head
  | AT_PlannerUnavailable planner_port_failure agent_loop_head
  | AT_ProposalRejected proposal_rejection agent_loop_head
  | AT_MaterializerUnavailable plan_materializer_failure agent_loop_head
  | AT_ModelCallRecoveryRequired string model_call_unknown_reason bool agent_loop_head
  | AT_ModelCallRejected model_call_rejection_reason agent_loop_head
  | AT_ModelCallAbandoned string agent_loop_head

section \<open>Canonical sizes and digests\<close>

definition canonical_size :: "planning_env \<Rightarrow> planning_input \<Rightarrow> agent_loop_error + usize" where
  "canonical_size pe i = map_err (\<lambda>_. ALE_Canonicalization) (and_then (pe_jcs pe i) (\<lambda>canonical. Inr (length canonical)))"

definition planning_digest :: "crypto \<Rightarrow> planning_env \<Rightarrow> planning_input \<Rightarrow> agent_loop_error + string" where
  "planning_digest cr pe i =
     and_then (map_err (\<lambda>_. ALE_Canonicalization) (pe_jcs pe i)) (\<lambda>canonical. Inr (sha256_digest cr canonical))"

definition planner_request_digest :: "crypto \<Rightarrow> planning_env \<Rightarrow> string \<Rightarrow> string \<Rightarrow> string \<Rightarrow> agent_loop_error + string" where
  "planner_request_digest cr pe planner_id request_profile_digest context_digest =
     planning_digest cr pe (PlannerRequestDigestInput ''xgeny.model-call-request/v1'' planner_id request_profile_digest context_digest)"

definition valid_sha256_digest :: "string \<Rightarrow> bool" where
  "valid_sha256_digest v =
     (case strip_prefix ''sha256:'' v of None \<Rightarrow> False
      | Some encoded \<Rightarrow> length encoded = 64 \<and> list_all (\<lambda>b. is_ascii_digit b \<or> in_a_to_f b) encoded)"

end
