(* ===== verification/Planning_Context.thy ===== *)
theory Planning_Context
  imports Planning_Types
begin

text \<open>
  The bounded planning context, \<open>build_context_ordered\<close> and its helpers in
  \<open>crates/xgeny-runtime/src/agent_loop.rs\<close>: what a planner is shown of a run.
\<close>

datatype (plugins only:) context_build_error =
    CBE_BudgetExceeded | CBE_InputLimitExceeded | CBE_Canonicalization | CBE_Catalog | CBE_OutputBinding

section \<open>Tool outputs\<close>

definition planning_output_of ::
    "crypto \<Rightarrow> run_state \<Rightarrow> (string, tool_output_record) btreemap \<Rightarrow> string \<Rightarrow> planning_tool_output list \<times> string btreeset
      \<Rightarrow> context_build_error + planning_tool_output list \<times> string btreeset" where
  "planning_output_of cr state completed step_id acc =
     (case acc of (outputs, seen) \<Rightarrow>
        and_then (reject_if (bs_contains seen step_id) CBE_OutputBinding) (\<lambda>_.
        let seen = bs_insert step_id seen in
        and_then (ok_or CBE_OutputBinding (bm_get (rs_steps state) step_id)) (\<lambda>step.
        and_then (reject_if (ss_status step \<noteq> Completed \<or> ss_output_record_digest step = None) CBE_OutputBinding) (\<lambda>_.
        and_then (reject_if (\<not> receipt_releases_dependency step) CBE_OutputBinding) (\<lambda>_.
        and_then (ok_or CBE_OutputBinding (ss_intent step)) (\<lambda>intent.
        and_then (ok_or CBE_OutputBinding (ss_effect_evidence_digest step)) (\<lambda>evidence_digest.
        and_then (ok_or CBE_OutputBinding (ss_execution_receipt_digest step)) (\<lambda>receipt_digest.
        and_then (ok_or CBE_OutputBinding (bm_get completed step_id)) (\<lambda>output'.
        and_then (map_err (\<lambda>_. CBE_OutputBinding)
          (tool_output_verify_for cr output' (rs_run_id state) step_id intent (ss_attempts step) evidence_digest)) (\<lambda>_.
        and_then (reject_if (ss_output_record_digest step \<noteq> Some (tor_record_digest output')) CBE_OutputBinding) (\<lambda>_.
        Inr (outputs @ [\<lparr>pto_step_id = step_id,
          pto_capability = \<lparr>cf_capability_id = ib_capability_id (tor_invocation output'), cf_contract_version = ib_contract_version (tor_invocation output')\<rparr>,
          pto_output_id = tor_output_id output', pto_output_digest = tor_output_digest output',
          pto_receipt_digest = receipt_digest, pto_canonical_size_bytes = tor_canonical_size_bytes output',
          pto_output = tor_output output'\<rparr>], seen))))))))))))"

definition build_planning_tool_outputs ::
    "crypto \<Rightarrow> run_state \<Rightarrow> (string, tool_output_record) btreemap \<Rightarrow> string list
      \<Rightarrow> context_build_error + planning_tool_output list" where
  "build_planning_tool_outputs cr state completed order =
     (let expected_count = length (filter (\<lambda>step. ss_status step = Completed \<and> ss_output_record_digest step \<noteq> None)
            (bm_values (rs_steps state))) in
      and_then (reject_if (expected_count \<noteq> bm_len completed \<or> length order \<noteq> bm_len completed) CBE_OutputBinding) (\<lambda>_.
      and_then (try_fold (planning_output_of cr state completed) order ([], bs_empty)) (\<lambda>(outputs, seen).
      and_then (reject_if (bm_len seen \<noteq> expected_count) CBE_OutputBinding) (\<lambda>_.
      Inr outputs))))"

section \<open>Shapes\<close>

definition planning_context_preflight :: "run_state \<Rightarrow> capability_registry \<Rightarrow> bool" where
  "planning_context_preflight state registry \<longleftrightarrow>
     (case Option.bind (Option.bind (usize_checked_add (length (rs_run_id state)) (length (rs_authority state)))
             (\<lambda>n. usize_checked_add n (length (rs_journal_head_digest state))))
           (\<lambda>n. usize_checked_add n (length (rs_goal state))) of
        None \<Rightarrow> False | Some n \<Rightarrow> n \<le> MAX_PLANNING_HEADER_TEXT_BYTES)
     \<and> bm_len (reg_definitions registry) \<le> MAX_PLANNING_CATALOG_DEFINITIONS
     \<and> bm_len (rs_steps state) \<le> MAX_PLANNING_SOURCE_STEPS"

record planning_value_stats =
  pvs_nodes :: usize
  pvs_text_bytes :: usize

definition add_planning_text :: "usize \<Rightarrow> planning_value_stats \<Rightarrow> context_build_error + planning_value_stats" where
  "add_planning_text bytes stats =
     and_then (ok_or CBE_InputLimitExceeded (option_filter (\<lambda>n. n \<le> MAX_PLANNING_VALUE_TEXT_BYTES)
       (usize_checked_add (pvs_text_bytes stats) bytes))) (\<lambda>n.
     Inr (stats\<lparr>pvs_text_bytes := n\<rparr>))"

text \<open>One turn of the loop that schedules the members of an object.\<close>

definition schedule_planning_member ::
    "usize \<Rightarrow> string \<times> json \<Rightarrow> planning_value_stats \<times> (json \<times> usize) list
      \<Rightarrow> context_build_error + planning_value_stats \<times> (json \<times> usize) list" where
  "schedule_planning_member child_depth member acc =
     (case (member, acc) of ((key, v), (stats, pending)) \<Rightarrow>
        and_then (add_planning_text (length key) stats) (\<lambda>stats. Inr (stats, (v, child_depth) # pending)))"

lemma schedule_planning_members:
  "try_fold (schedule_planning_member d) ms (t, p) = Inr (t', p') \<Longrightarrow> p' = rev (map (\<lambda>m. (snd m, d)) ms) @ p"
  by (induction ms arbitrary: t p) (auto simp: schedule_planning_member_def result_simps)

function planning_value_loop ::
    "(json \<times> usize) list \<Rightarrow> planning_value_stats \<Rightarrow> context_build_error + planning_value_stats" where
  "planning_value_loop [] stats = Inr stats"
| "planning_value_loop ((v, depth) # pending) stats =
     and_then (reject_if (depth > MAX_PLANNING_VALUE_DEPTH) CBE_InputLimitExceeded) (\<lambda>_.
     and_then (ok_or CBE_InputLimitExceeded (option_filter (\<lambda>n. n \<le> MAX_PLANNING_VALUE_NODES)
       (usize_checked_add (pvs_nodes stats) 1))) (\<lambda>n.
     let stats = stats\<lparr>pvs_nodes := n\<rparr> in
     case v of
       JString s \<Rightarrow> and_then (add_planning_text (length s) stats) (\<lambda>stats. planning_value_loop pending stats)
     | JArray vs \<Rightarrow> planning_value_loop (fold (\<lambda>v p. (v, depth + 1) # p) vs pending) stats
     | JObject ms \<Rightarrow>
         and_then (try_fold (schedule_planning_member (depth + 1)) ms (stats, pending)) (\<lambda>(stats, pending).
         planning_value_loop pending stats)
     | _ \<Rightarrow> planning_value_loop pending stats))"
  by pat_completeness auto

text \<open>Every turn replaces one value on the stack by its proper parts.\<close>

termination planning_value_loop
proof (relation "measure (\<lambda>(p, _). stack_size p)")
  have rev_size: "stack_size (rev p) = stack_size p" for p by (simp add: stack_size_def rev_map [symmetric] sum_list_rev)
  show "((fold (\<lambda>v p. (v, depth + 1) # p) vs pending, stats'), ((v, depth) # pending, stats)) \<in> measure (\<lambda>(p, _). stack_size p)"
    if "v = JArray vs" for v vs depth pending and stats stats' :: planning_value_stats
    using that by (simp add: schedule_values rev_size stack_size_values)
  show "((pending', stats''), ((v, depth) # pending, stats)) \<in> measure (\<lambda>(p, _). stack_size p)"
    if "v = JObject ms" and "try_fold (schedule_planning_member (depth + 1)) ms (stats', pending) = Inr r" and "(stats'', pending') = r"
    for v ms depth pending pending' r and stats stats' stats'' :: planning_value_stats
    using that stack_size_members [of "depth + 1" ms] by (auto simp: rev_size dest!: schedule_planning_members)
qed simp_all

declare planning_value_loop.simps(2) [simp del]

definition validate_planning_value :: "json \<Rightarrow> planning_value_stats \<Rightarrow> context_build_error + planning_value_stats" where
  "validate_planning_value root stats = planning_value_loop [(root, 1)] stats"

text \<open>The texts of a definition, in the order in which they are counted.\<close>

definition definition_texts :: "capability_definition_body \<Rightarrow> string list" where
  "definition_texts d =
     [cdb_api_version d] @ cdb_required_extensions d @ bm_keys (cdb_extensions d)
     @ [cm_id (cdb_metadata d), cm_contract_version (cdb_metadata d), cm_display_name (cdb_metadata d)]
     @ concat (map (\<lambda>(key, v). [key, v]) (bm_entries (cm_labels (cdb_metadata d))))
     @ [cs_summary (cdb_spec d)]
     @ concat (map (\<lambda>r. [cf_capability_id r, cf_contract_version r]) (cs_required_capabilities (cdb_spec d)))
     @ concat (map (\<lambda>s. [sel_scope s, sel_argument_pointer s]) (ce_resource_selectors (cs_effect (cdb_spec d))))
     @ List.map_filter vr_description (cs_verification (cdb_spec d))
     @ (case cs_discovery (cdb_spec d) of None \<Rightarrow> []
        | Some y \<Rightarrow> cd_keywords y @ cd_examples y @ (case cd_details_ref y of None \<Rightarrow> [] | Some r \<Rightarrow> [r]))"

definition definition_collection_items :: "capability_definition_body \<Rightarrow> usize" where
  "definition_collection_items d =
     foldl usize_saturating_add (bm_len (cdb_extensions d))
       [length (cdb_required_extensions d), bm_len (cm_labels (cdb_metadata d)),
        length (cs_required_capabilities (cdb_spec d)), length (ce_resource_selectors (cs_effect (cdb_spec d))),
        length (ce_critical_actions (cs_effect (cdb_spec d))), length (cx_styles (cs_execution (cdb_spec d))),
        length (cs_verification (cdb_spec d)),
        (case cs_discovery (cdb_spec d) of None \<Rightarrow> 0
         | Some y \<Rightarrow> usize_saturating_add (length (cd_keywords y)) (length (cd_examples y)))]"

definition validate_planning_definition_shape :: "capability_definition_body \<Rightarrow> context_build_error + unit" where
  "validate_planning_definition_shape d =
     and_then (reject_if (definition_collection_items d > MAX_PLANNING_DEFINITION_COLLECTION_ITEMS) CBE_InputLimitExceeded) (\<lambda>_.
     and_then (try_fold add_planning_text (map length (definition_texts d)) \<lparr>pvs_nodes = 0, pvs_text_bytes = 0\<rparr>) (\<lambda>stats.
     and_then (validate_planning_value (cs_input_schema (cdb_spec d)) stats) (\<lambda>stats.
     and_then (validate_planning_value (cs_output_schema (cdb_spec d)) stats) (\<lambda>stats.
     and_then (try_fold validate_planning_value (bm_values (cdb_extensions d)) stats) (\<lambda>_.
     Inr ())))))"

definition add_dependency_text :: "string \<Rightarrow> usize \<Rightarrow> context_build_error + usize" where
  "add_dependency_text dependency text_bytes =
     ok_or CBE_InputLimitExceeded (option_filter (\<lambda>n. n \<le> MAX_PLANNING_STEP_BYTES)
       (usize_checked_add text_bytes (length dependency)))"

definition validate_planning_step_shape :: "step_state \<Rightarrow> context_build_error + unit" where
  "validate_planning_step_shape step =
     and_then (reject_if (length (ss_depends_on step) > MAX_PLANNING_DEFINITION_COLLECTION_ITEMS) CBE_InputLimitExceeded) (\<lambda>_.
     and_then (ok_or CBE_InputLimitExceeded
       (usize_checked_add (length (ss_step_id step)) (length (ss_objective step)))) (\<lambda>text_bytes.
     and_then (try_fold add_dependency_text (ss_depends_on step) text_bytes) (\<lambda>text_bytes.
     and_then (case ss_planned_invocation step of None \<Rightarrow> Inr text_bytes
       | Some invocation \<Rightarrow> ok_or CBE_InputLimitExceeded
           (Option.bind (usize_checked_add text_bytes (length (pib_capability_id invocation)))
             (\<lambda>n. usize_checked_add n (length (pib_contract_version invocation))))) (\<lambda>text_bytes.
     reject_if (text_bytes > MAX_PLANNING_STEP_BYTES) CBE_InputLimitExceeded))))"

section \<open>Summaries\<close>

text \<open>The characters of a UTF-8 text, each the list of its bytes; the lead byte gives the length.\<close>

definition utf8_width :: "char \<Rightarrow> nat" where
  "utf8_width c =
     (if byte_val c < 192 then 1 else if byte_val c < 224 then 2 else if byte_val c < 240 then 3 else 4)"

function utf8_chars :: "string \<Rightarrow> string list" where
  "utf8_chars [] = []"
| "utf8_chars (c # cs) = take (utf8_width c) (c # cs) # utf8_chars (drop (utf8_width c - 1) cs)"
  by pat_completeness auto
termination utf8_chars by (relation "measure length") auto

fun push_bounded :: "string \<Rightarrow> string list \<Rightarrow> string" where
  "push_bounded acc [] = acc"
| "push_bounded acc (ch # chs) =
     (if length acc + length ch > MAX_CAPABILITY_SUMMARY_BYTES then acc else push_bounded (acc @ ch) chs)"

definition bounded_summary :: "string \<Rightarrow> string" where
  "bounded_summary v = push_bounded [] (filter (\<lambda>ch. \<not> has_control ch) (utf8_chars v))"

definition capability_summary_of :: "capability_definition_body \<Rightarrow> string \<Rightarrow> planning_capability_summary" where
  "capability_summary_of d digest =
     \<lparr>pcs_capability = \<lparr>cf_capability_id = cm_id (cdb_metadata d), cf_contract_version = cm_contract_version (cdb_metadata d)\<rparr>,
      pcs_definition_digest = digest, pcs_summary = bounded_summary (cs_summary (cdb_spec d)),
      pcs_input_schema = cs_input_schema (cdb_spec d), pcs_output_schema = cs_output_schema (cdb_spec d),
      pcs_effect_class = ce_class (cs_effect (cdb_spec d)),
      pcs_resource_selectors = map (\<lambda>s. \<lparr>prs_scope = sel_scope s, prs_argument_pointer = sel_argument_pointer s\<rparr>)
        (ce_resource_selectors (cs_effect (cdb_spec d))),
      pcs_critical_actions = ce_critical_actions (cs_effect (cdb_spec d)),
      pcs_execution_styles = cx_styles (cs_execution (cdb_spec d)),
      pcs_idempotency_key_supported = cx_idempotency_key_supported (cs_execution (cdb_spec d)),
      pcs_default_timeout_ms = cx_default_timeout_ms (cs_execution (cdb_spec d)),
      pcs_max_timeout_ms = cx_max_timeout_ms (cs_execution (cdb_spec d))\<rparr>"

definition step_summary_of :: "step_state \<Rightarrow> planning_step_summary" where
  "step_summary_of step =
     \<lparr>pss_step_id = ss_step_id step, pss_objective = ss_objective step, pss_depends_on = ss_depends_on step,
      pss_status = ss_status step, pss_attempts = ss_attempts step,
      pss_capability = map_option (\<lambda>i. \<lparr>cf_capability_id = pib_capability_id i, cf_contract_version = pib_contract_version i\<rparr>)
        (ss_planned_invocation step),
      pss_dependency_released = receipt_releases_dependency step\<rparr>"

section \<open>The source\<close>

definition measured :: "planning_env \<Rightarrow> planning_input \<Rightarrow> context_build_error + usize" where
  "measured pe i = map_err (\<lambda>_. CBE_Canonicalization) (canonical_size pe i)"

definition account_source :: "usize \<Rightarrow> usize \<Rightarrow> context_build_error + usize" where
  "account_source size_bytes source_bytes =
     ok_or CBE_InputLimitExceeded (option_filter (\<lambda>n. n \<le> MAX_PLANNING_SOURCE_BYTES) (usize_checked_add source_bytes size_bytes))"

definition account_constraint :: "planning_env \<Rightarrow> planning_constraint \<Rightarrow> usize \<Rightarrow> context_build_error + usize" where
  "account_constraint pe c source_bytes = and_then (measured pe (ConstraintInput c)) (\<lambda>n. account_source n source_bytes)"

definition account_tool_output :: "planning_env \<Rightarrow> planning_tool_output \<Rightarrow> usize \<Rightarrow> context_build_error + usize" where
  "account_tool_output pe output' source_bytes = and_then (measured pe (ToolOutputInput output')) (\<lambda>n. account_source n source_bytes)"

definition summarize_definition ::
    "crypto \<Rightarrow> admission_env \<Rightarrow> planning_env \<Rightarrow> capability_definition_body \<Rightarrow> (planning_capability_summary \<times> usize) list \<times> usize
      \<Rightarrow> context_build_error + (planning_capability_summary \<times> usize) list \<times> usize" where
  "summarize_definition cr ae pe d acc =
     (case acc of (summaries, source_bytes) \<Rightarrow>
        and_then (validate_planning_definition_shape d) (\<lambda>_.
        and_then (measured pe (DefinitionInput d)) (\<lambda>definition_size.
        and_then (reject_if (definition_size > MAX_PLANNING_DEFINITION_BYTES) CBE_InputLimitExceeded) (\<lambda>_.
        and_then (account_source definition_size source_bytes) (\<lambda>source_bytes.
        and_then (map_err (\<lambda>_. CBE_Catalog) (definition_contract_digest cr ae d)) (\<lambda>digest.
        and_then (measured pe (CapabilitySummaryInput (capability_summary_of d digest))) (\<lambda>summary_size.
        Inr (summaries @ [(capability_summary_of d digest, summary_size)], source_bytes))))))))"

definition summarize_step ::
    "planning_env \<Rightarrow> run_state \<Rightarrow> string \<Rightarrow> (planning_step_summary \<times> usize) list \<times> usize
      \<Rightarrow> context_build_error + (planning_step_summary \<times> usize) list \<times> usize" where
  "summarize_step pe state step_id acc =
     (case acc of (summaries, source_bytes) \<Rightarrow>
        and_then (ok_or CBE_OutputBinding (bm_get (rs_steps state) step_id)) (\<lambda>step.
        and_then (validate_planning_step_shape step) (\<lambda>_.
        and_then (measured pe (StepSummaryInput (step_summary_of step))) (\<lambda>summary_size.
        and_then (reject_if (summary_size > MAX_PLANNING_STEP_BYTES) CBE_InputLimitExceeded) (\<lambda>_.
        and_then (account_source summary_size source_bytes) (\<lambda>source_bytes.
        Inr (summaries @ [(step_summary_of step, summary_size)], source_bytes)))))))"

definition sort_summaries :: "(planning_capability_summary \<times> usize) list \<Rightarrow> (planning_capability_summary \<times> usize) list" where
  "sort_summaries summaries = sort_key (\<lambda>e. key_from_reference (pcs_capability (fst e))) summaries"

definition catalog_digest_of ::
    "crypto \<Rightarrow> planning_env \<Rightarrow> (planning_capability_summary \<times> usize) list \<Rightarrow> agent_loop_error + string" where
  "catalog_digest_of cr pe summaries =
     planning_digest cr pe (CatalogDigestInput ''xgeny.capability-catalog/v1''
       (map (\<lambda>(s, _). \<lparr>cde_capability_id = cf_capability_id (pcs_capability s),
          cde_contract_version = cf_contract_version (pcs_capability s), cde_definition_digest = pcs_definition_digest s\<rparr>) summaries))"

section \<open>Packing\<close>

definition pack_step ::
    "usize \<Rightarrow> usize \<Rightarrow> planning_step_summary \<times> usize \<Rightarrow> planning_context_payload \<times> usize \<Rightarrow> planning_context_payload \<times> usize" where
  "pack_step maximum_size total_steps item acc =
     (case (item, acc) of ((step, item_size), (payload, conservative_size)) \<Rightarrow>
        let delta = usize_saturating_add item_size (if plp_steps payload \<noteq> [] then 1 else 0) in
        if usize_saturating_add conservative_size delta \<le> maximum_size then
          let steps = plp_steps payload @ [step] in
          (payload\<lparr>plp_steps := steps, plp_omitted_steps := total_steps - length steps\<rparr>, conservative_size + delta)
        else acc)"

definition pack_capability ::
    "usize \<Rightarrow> usize \<Rightarrow> planning_capability_summary \<times> usize \<Rightarrow> planning_context_payload \<times> usize
      \<Rightarrow> planning_context_payload \<times> usize" where
  "pack_capability maximum_size total_capabilities item acc =
     (case (item, acc) of ((summary, item_size), (payload, conservative_size)) \<Rightarrow>
        let delta = usize_saturating_add item_size (if plp_capabilities payload \<noteq> [] then 1 else 0) in
        if usize_saturating_add conservative_size delta \<le> maximum_size then
          let capabilities = plp_capabilities payload @ [summary] in
          (payload\<lparr>plp_capabilities := capabilities, plp_omitted_capabilities := total_capabilities - length capabilities\<rparr>,
           conservative_size + delta)
        else acc)"

definition pack_round ::
    "usize \<Rightarrow> (planning_step_summary \<times> usize) list \<Rightarrow> (planning_capability_summary \<times> usize) list \<Rightarrow> usize
      \<Rightarrow> planning_context_payload \<times> usize \<Rightarrow> planning_context_payload \<times> usize" where
  "pack_round maximum_size steps summaries index acc =
     (let acc = (if index < length steps then pack_step maximum_size (length steps) (steps ! index) acc else acc) in
      if index < length summaries then pack_capability maximum_size (length summaries) (summaries ! index) acc else acc)"

definition maximum_context_size :: "agent_loop_budget \<Rightarrow> usize" where
  "maximum_context_size budget = min (unat (alb_max_context_bytes budget)) (unat MAX_PLANNING_CONTEXT_BYTES)"

definition pack_context ::
    "crypto \<Rightarrow> planning_env \<Rightarrow> usize \<Rightarrow> (planning_step_summary \<times> usize) list \<Rightarrow> (planning_capability_summary \<times> usize) list
      \<Rightarrow> planning_context_payload \<Rightarrow> context_build_error + planning_context" where
  "pack_context cr pe maximum_size steps summaries payload =
     and_then (measured pe (PayloadInput payload)) (\<lambda>conservative_size.
     and_then (reject_if (conservative_size > maximum_size) CBE_BudgetExceeded) (\<lambda>_.
     let packed = fst (fold (pack_round maximum_size steps summaries)
           [0..<max (length steps) (length summaries)] (payload, conservative_size)) in
     and_then (measured pe (PayloadInput packed)) (\<lambda>exact_size.
     and_then (reject_if (exact_size > maximum_size) CBE_BudgetExceeded) (\<lambda>_.
     and_then (ok_or CBE_BudgetExceeded (u64_try_from exact_size)) (\<lambda>canonical_size_bytes.
     and_then (map_err (\<lambda>_. CBE_Canonicalization)
       (planning_digest cr pe (ContextDigestInput ''xgeny.planning-context.digest/v3'' packed))) (\<lambda>digest.
     Inr \<lparr>pcx_payload = packed, pcx_context_digest = digest, pcx_canonical_size_bytes = canonical_size_bytes\<rparr>))))))"

definition build_context_ordered ::
    "crypto \<Rightarrow> admission_env \<Rightarrow> planning_env \<Rightarrow> run_state \<Rightarrow> (string, tool_output_record) btreemap \<Rightarrow> string list \<Rightarrow> string list
      \<Rightarrow> work_frontier \<Rightarrow> capability_registry \<Rightarrow> planning_constraint list \<Rightarrow> agent_loop_budget
      \<Rightarrow> context_build_error + planning_context" where
  "build_context_ordered cr ae pe state completed step_order output_order frontier registry constraints budget =
     and_then (reject_if (\<not> planning_context_preflight state registry) CBE_InputLimitExceeded) (\<lambda>_.
     and_then (reject_if (length step_order \<noteq> bm_len (rs_steps state)) CBE_OutputBinding) (\<lambda>_.
     let step_set = bs_of_list step_order in
     and_then (reject_if (bm_len step_set \<noteq> bm_len (rs_steps state)
         \<or> \<not> list_all (\<lambda>v. bm_contains_key (rs_steps state) v) (bs_list step_set)) CBE_OutputBinding) (\<lambda>_.
     and_then (try_fold (account_constraint pe) constraints 0) (\<lambda>source_bytes.
     and_then (build_planning_tool_outputs cr state completed output_order) (\<lambda>tool_outputs.
     and_then (try_fold (account_tool_output pe) tool_outputs source_bytes) (\<lambda>source_bytes.
     and_then (try_fold (summarize_definition cr ae pe) (bm_values (reg_definitions registry)) ([], source_bytes))
       (\<lambda>(unsorted, source_bytes).
     let summaries = sort_summaries unsorted in
     and_then (map_err (\<lambda>_. CBE_Canonicalization) (catalog_digest_of cr pe summaries)) (\<lambda>catalog_digest.
     and_then (try_fold (summarize_step pe state) step_order ([], source_bytes)) (\<lambda>(steps, _).
     pack_context cr pe (maximum_context_size budget) steps summaries
       \<lparr>plp_profile_version = PLANNING_CONTEXT_PROFILE_V3, plp_capabilities = [], plp_omitted_capabilities = length summaries,
        plp_catalog_digest = catalog_digest, plp_goal = rs_goal state, plp_planning_constraints = constraints, plp_steps = [],
        plp_omitted_steps = length steps, plp_tool_outputs = tool_outputs, plp_total_steps = wf_total_steps frontier,
        plp_verified_completed_steps = length (wf_verified_completed_step_ids frontier), plp_run_id = rs_run_id state,
        plp_authority = rs_authority state, plp_authority_epoch = rs_authority_epoch state,
        plp_journal_sequence = rs_journal_sequence state, plp_journal_head_digest = rs_journal_head_digest state\<rparr>)))))))))"

end
