(* ===== verification/Plan_Proposals.thy ===== *)
theory Plan_Proposals
  imports Planning_Context
begin

text \<open>
  Untrusted proposals, \<open>prepare_plan\<close>, \<open>validate_proposal_structure\<close> and \<open>materialize_plan\<close> of
  \<open>crates/xgeny-runtime/src/agent_loop.rs\<close>.
\<close>

definition valid_proposal_identifier :: "string \<Rightarrow> bool" where
  "valid_proposal_identifier v \<longleftrightarrow> v \<noteq> [] \<and> length v \<le> MAX_PROPOSAL_KEY_BYTES \<and> list_all identifier_byte v"

definition valid_existing_step_id :: "string \<Rightarrow> bool" where
  "valid_existing_step_id v \<longleftrightarrow> v \<noteq> [] \<and> length v \<le> 256 \<and> \<not> has_control v"

section \<open>Structure\<close>

definition check_proposed_step :: "proposed_plan_step \<Rightarrow> string btreeset \<Rightarrow> proposal_rejection + string btreeset" where
  "check_proposed_step step keys =
     and_then (reject_if (\<not> valid_proposal_identifier (pps_key step)) PR_InvalidStepKey) (\<lambda>_.
     and_then (reject_if (bs_contains keys (pps_key step)) PR_DuplicateStepKey) (\<lambda>_.
     and_then (reject_if (\<not> valid_bounded_text (pps_objective step) MAX_ACCEPTED_OBJECTIVE_BYTES) PR_InvalidObjective) (\<lambda>_.
     Inr (bs_insert (pps_key step) keys))))"

record proposal_graph =
  pgr_edge_count :: usize
  pgr_indegree :: "(string, usize) btreemap"
  pgr_children :: "(string, string list) btreemap"

definition check_existing_dependency ::
    "run_state \<Rightarrow> work_frontier \<Rightarrow> planning_context \<Rightarrow> string \<Rightarrow> proposal_rejection + unit" where
  "check_existing_dependency state frontier ctxt step_id =
     and_then (reject_if (\<not> valid_existing_step_id step_id) PR_InvalidDependency) (\<lambda>_.
     and_then (reject_if (\<not> list_ex (\<lambda>s. pss_step_id s = step_id) (plp_steps (pcx_payload ctxt))) PR_UnknownDependency) (\<lambda>_.
     and_then (ok_or PR_UnknownDependency (bm_get (rs_steps state) step_id)) (\<lambda>existing.
     and_then (reject_if (dependency_release_block_reason existing
         \<in> {Some BlockFailed, Some BlockManualRequired, Some BlockReceiptMissing, Some BlockDependencyBlocked})
       PR_BlockedExistingDependency) (\<lambda>_.
     reject_if (list_ex (\<lambda>b. bst_step_id b = step_id) (wf_blocked frontier)) PR_BlockedExistingDependency))))"

definition check_proposed_dependency ::
    "string btreeset \<Rightarrow> string \<Rightarrow> string \<Rightarrow> proposal_graph \<Rightarrow> proposal_rejection + proposal_graph" where
  "check_proposed_dependency keys step_key key g =
     and_then (reject_if (\<not> valid_proposal_identifier key) PR_InvalidDependency) (\<lambda>_.
     and_then (reject_if (key = step_key) PR_SelfDependency) (\<lambda>_.
     and_then (reject_if (\<not> bs_contains keys key) PR_UnknownDependency) (\<lambda>_.
     and_then (ok_or (PR_Panic ''proposal keys were indexed'') (bm_get (pgr_indegree g) step_key)) (\<lambda>degree.
     and_then (ok_or PR_TooManyEdges (usize_checked_add degree 1)) (\<lambda>degree.
     and_then (ok_or (PR_Panic ''proposal dependency keys were indexed'') (bm_get (pgr_children g) key)) (\<lambda>children.
     Inr (g\<lparr>pgr_indegree := bm_insert step_key degree (pgr_indegree g),
            pgr_children := bm_insert key (children @ [step_key]) (pgr_children g)\<rparr>)))))))"

definition check_dependency ::
    "run_state \<Rightarrow> work_frontier \<Rightarrow> planning_context \<Rightarrow> string btreeset \<Rightarrow> string \<Rightarrow> plan_dependency
      \<Rightarrow> plan_dependency btreeset \<times> proposal_graph \<Rightarrow> proposal_rejection + plan_dependency btreeset \<times> proposal_graph" where
  "check_dependency state frontier ctxt keys step_key dependency acc =
     (case acc of (unique, g) \<Rightarrow>
        and_then (ok_or PR_TooManyEdges (usize_checked_add (pgr_edge_count g) 1)) (\<lambda>edge_count.
        and_then (reject_if (edge_count > MAX_ACCEPTED_PLAN_EDGES) PR_TooManyEdges) (\<lambda>_.
        let g = g\<lparr>pgr_edge_count := edge_count\<rparr> in
        and_then (reject_if (bs_contains unique dependency) PR_DuplicateDependency) (\<lambda>_.
        and_then (case dependency of
            ExistingStep step_id \<Rightarrow> and_then (check_existing_dependency state frontier ctxt step_id) (\<lambda>_. Inr g)
          | ProposedStep key \<Rightarrow> check_proposed_dependency keys step_key key g) (\<lambda>g.
        Inr (bs_insert dependency unique, g))))))"

definition check_dependencies ::
    "run_state \<Rightarrow> work_frontier \<Rightarrow> planning_context \<Rightarrow> string btreeset \<Rightarrow> proposed_plan_step \<Rightarrow> proposal_graph
      \<Rightarrow> proposal_rejection + proposal_graph" where
  "check_dependencies state frontier ctxt keys step g =
     and_then (try_fold (check_dependency state frontier ctxt keys (pps_key step)) (pps_depends_on step) (bs_empty, g))
       (\<lambda>(_, g). Inr g)"

definition release_proposed ::
    "string \<Rightarrow> (string, usize) btreemap \<times> string btreeset \<Rightarrow> proposal_rejection + (string, usize) btreemap \<times> string btreeset" where
  "release_proposed child acc =
     (case acc of (indegree, ready) \<Rightarrow>
        and_then (ok_or (PR_Panic ''proposal child was indexed'') (bm_get indegree child)) (\<lambda>degree.
        and_then (reject_if (degree < 1) (PR_Panic ''a recorded dependency cannot underflow'')) (\<lambda>_.
        Inr (bm_insert child (degree - 1) indegree, if degree - 1 = 0 then bs_insert child ready else ready))))"

lemma release_proposed_measure:
  assumes "release_proposed child (indegree, ready) = Inr (indegree', ready')"
  shows "loop_measure indegree' ready' < loop_measure indegree ready"
proof -
  have "release_child child (indegree, ready) = Inr (indegree', ready')"
    using assms by (auto simp: release_proposed_def release_child_def result_simps not_less)
  then show ?thesis by (rule release_child_measure)
qed

lemma release_all_measure:
  assumes "try_fold release_proposed children (indegree, ready) = Inr (indegree', ready')"
  shows "loop_measure indegree' ready' \<le> loop_measure indegree ready"
  using try_fold_invariant [OF assms, of "\<lambda>(r, z). loop_measure r z \<le> loop_measure indegree ready"]
  by (fastforce dest: release_proposed_measure)

function proposal_loop ::
    "(string, string list) btreemap \<Rightarrow> (string, usize) btreemap \<Rightarrow> string btreeset \<Rightarrow> usize \<Rightarrow> proposal_rejection + usize" where
  "proposal_loop children indegree ready visited =
     (case bm_pop_first ready of None \<Rightarrow> Inr visited
      | Some (key, _, ready) \<Rightarrow>
          (case bm_get children key of None \<Rightarrow> Inl (PR_Panic ''no entry found for key'')
           | Some cs \<Rightarrow>
               (case try_fold release_proposed cs (indegree, ready) of Inl e \<Rightarrow> Inl e
                | Inr (indegree, ready) \<Rightarrow> proposal_loop children indegree ready (usize_saturating_add visited 1))))"
  by pat_completeness auto
termination
  by (relation "measure (\<lambda>(_, indegree, ready, _). loop_measure indegree ready)")
     (auto dest!: release_all_measure pop_first_measure intro: le_less_trans simp del: loop_measure_def)

declare proposal_loop.simps [simp del]

definition validate_proposal_structure ::
    "run_state \<Rightarrow> work_frontier \<Rightarrow> planning_context \<Rightarrow> proposed_plan_step list \<Rightarrow> proposal_rejection + unit" where
  "validate_proposal_structure state frontier ctxt steps =
     and_then (try_fold check_proposed_step steps bs_empty) (\<lambda>keys.
     and_then (try_fold (check_dependencies state frontier ctxt keys) steps
       \<lparr>pgr_edge_count = 0, pgr_indegree = bm_map_values (\<lambda>_. 0) keys, pgr_children = bm_map_values (\<lambda>_. []) keys\<rparr>) (\<lambda>g.
     let ready = bs_of_list (map fst (filter (\<lambda>(_, degree). degree = 0) (bm_entries (pgr_indegree g)))) in
     and_then (proposal_loop (pgr_children g) (pgr_indegree g) ready 0) (\<lambda>visited.
     reject_if (visited \<noteq> length steps) PR_DependencyCycle)))"

section \<open>Preparation\<close>

definition map_invocation_rejection :: "planning_env \<Rightarrow> admission_error \<Rightarrow> json \<Rightarrow> json \<Rightarrow> proposal_rejection" where
  "map_invocation_rejection pe e schema arguments =
     (case from_admission pe e schema arguments of Some diagnostic \<Rightarrow> PR_InvocationDiagnosed diagnostic
      | None \<Rightarrow> (case e of
          AE_DefinitionNotFound _ _ \<Rightarrow> PR_CapabilityUnavailable
        | AE_UnsupportedEffectClass _ \<Rightarrow> PR_CapabilityUnsupported
        | AE_DefinitionDoesNotSupportIdempotencyKey \<Rightarrow> PR_CapabilityUnsupported
        | AE_UnsupportedExecutionStyle \<Rightarrow> PR_CapabilityUnsupported
        | _ \<Rightarrow> PR_InvocationInvalid))"

definition preflight_step_id :: "crypto \<Rightarrow> planning_env \<Rightarrow> string \<Rightarrow> string \<Rightarrow> string \<Rightarrow> agent_loop_error + string" where
  "preflight_step_id cr pe run_id context_digest proposal_key =
     and_then (planning_digest cr pe (PreflightStepIdDigestInput ''xgeny.plan-step-preflight-id/v1'' run_id context_digest proposal_key))
       (\<lambda>digest. Inr (content_id ''preflight'' digest))"

definition derive_step_id ::
    "crypto \<Rightarrow> planning_env \<Rightarrow> string \<Rightarrow> string \<Rightarrow> validated_plan_step \<Rightarrow> (string, string) btreemap
      \<Rightarrow> agent_loop_error + (string, string) btreemap" where
  "derive_step_id cr pe run_id proposal_digest step ids =
     and_then (planning_digest cr pe (StepIdDigestInput ''xgeny.plan-step-id/v1'' run_id proposal_digest (vps_key step)))
       (\<lambda>digest. Inr (bm_insert (vps_key step) (content_id ''step'' digest) ids))"

definition derive_step_ids ::
    "crypto \<Rightarrow> planning_env \<Rightarrow> string \<Rightarrow> string \<Rightarrow> validated_plan_step list \<Rightarrow> agent_loop_error + (string, string) btreemap" where
  "derive_step_ids cr pe run_id proposal_digest steps = try_fold (derive_step_id cr pe run_id proposal_digest) steps bm_empty"

definition validate_plan_step ::
    "crypto \<Rightarrow> admission_env \<Rightarrow> planning_env \<Rightarrow> json_pointers \<Rightarrow> resource_resolver \<Rightarrow> run_state \<Rightarrow> planning_context
      \<Rightarrow> capability_registry \<Rightarrow> proposed_plan_step \<Rightarrow> string btreeset \<times> validated_plan_step list
      \<Rightarrow> proposal_rejection + string btreeset \<times> validated_plan_step list" where
  "validate_plan_step cr ae pe jp resolve state ctxt registry step acc =
     (case acc of (digests, validated) \<Rightarrow>
        and_then (reject_if (\<not> list_ex (\<lambda>s. pcs_capability s = pps_capability step) (plp_capabilities (pcx_payload ctxt)))
          PR_CapabilityUnavailable) (\<lambda>_.
        and_then (ok_or PR_CapabilityUnavailable (registry_definition registry (pps_capability step))) (\<lambda>d.
        and_then (reject_if (ES_Sync \<notin> set (cx_styles (cs_execution (cdb_spec d)))
            \<or> ce_critical_actions (cs_effect (cdb_spec d)) \<noteq> []) PR_CapabilityUnsupported) (\<lambda>_.
        and_then (map_err (\<lambda>_. PR_InvocationInvalid)
          (preflight_step_id cr pe (rs_run_id state) (pcx_context_digest ctxt) (pps_key step))) (\<lambda>preflight.
        and_then (map_err (\<lambda>e. map_invocation_rejection pe e (cs_input_schema (cdb_spec d)) (pps_arguments step))
          (prepare_invocation_facts cr ae jp resolve (rs_run_id state) preflight (pps_capability step) (pps_arguments step) registry)) (\<lambda>facts.
        and_then (reject_if (bs_contains digests (pf_semantic_action_digest facts)) PR_DuplicateSemanticAction) (\<lambda>_.
        Inr (bs_insert (pf_semantic_action_digest facts) digests, validated @ [\<lparr>vps_key = pps_key step,
          vps_objective = pps_objective step, vps_depends_on = pps_depends_on step, vps_capability = pps_capability step,
          vps_normalized_arguments = pf_normalized_arguments facts, vps_definition_digest = pf_definition_digest facts,
          vps_semantic_action_digest = pf_semantic_action_digest facts, vps_material_digest = pf_material_digest facts,
          vps_effect_class = ce_class (cs_effect (cdb_spec d))\<rparr>]))))))))"

definition indexed_step_id :: "(string, string) btreemap \<Rightarrow> string \<Rightarrow> proposal_rejection + string" where
  "indexed_step_id ids key = ok_or (PR_Panic ''no entry found for key'') (bm_get ids key)"

definition resolve_dependency ::
    "(string, string) btreemap \<Rightarrow> plan_dependency \<Rightarrow> string list \<Rightarrow> proposal_rejection + string list" where
  "resolve_dependency ids dependency acc =
     (case dependency of ExistingStep step_id \<Rightarrow> Inr (acc @ [step_id])
      | ProposedStep key \<Rightarrow> and_then (indexed_step_id ids key) (\<lambda>step_id. Inr (acc @ [step_id])))"

definition prepare_plan_step ::
    "crypto \<Rightarrow> admission_env \<Rightarrow> planning_env \<Rightarrow> json_pointers \<Rightarrow> resource_resolver \<Rightarrow> run_state \<Rightarrow> capability_registry
      \<Rightarrow> (string, string) btreemap \<Rightarrow> validated_plan_step \<Rightarrow> prepared_plan_step list
      \<Rightarrow> proposal_rejection + prepared_plan_step list" where
  "prepare_plan_step cr ae pe jp resolve state registry ids step prepared =
     and_then (indexed_step_id ids (vps_key step)) (\<lambda>step_id.
     and_then (map_err (\<lambda>e. case registry_definition registry (vps_capability step) of
           None \<Rightarrow> PR_Panic ''validated definition''
         | Some d \<Rightarrow> map_invocation_rejection pe e (cs_input_schema (cdb_spec d)) (vps_normalized_arguments step))
       (prepare_invocation_facts cr ae jp resolve (rs_run_id state) step_id (vps_capability step)
         (vps_normalized_arguments step) registry)) (\<lambda>facts.
     and_then (reject_if (pf_normalized_arguments facts \<noteq> vps_normalized_arguments step
         \<or> pf_definition_digest facts \<noteq> vps_definition_digest step
         \<or> pf_semantic_action_digest facts \<noteq> vps_semantic_action_digest step
         \<or> pf_material_digest facts \<noteq> vps_material_digest step) PR_InvocationInvalid) (\<lambda>_.
     and_then (map_err (\<lambda>_. PR_InvocationInvalid)
       (planned_action_occurrence_digest cr ae (rs_run_id state) step_id (pf_semantic_action_digest facts))) (\<lambda>action_digest.
     and_then (try_fold (resolve_dependency ids) (vps_depends_on step) []) (\<lambda>depends_on.
     Inr (prepared @ [\<lparr>ppp_step_id = step_id, ppp_objective = vps_objective step, ppp_depends_on = sort depends_on,
       ppp_capability = vps_capability step, ppp_normalized_arguments = pf_normalized_arguments facts,
       ppp_definition_digest = pf_definition_digest facts, ppp_action_digest = action_digest,
       ppp_material_digest = pf_material_digest facts, ppp_effect_class = vps_effect_class step\<rparr>]))))))"

definition normalize_proposal :: "proposed_plan_step list \<Rightarrow> proposed_plan_step list" where
  "normalize_proposal steps = map (\<lambda>s. s\<lparr>pps_depends_on := sort (pps_depends_on s)\<rparr>) (sort_key pps_key steps)"

definition accepted_plan_digest ::
    "crypto \<Rightarrow> planning_env \<Rightarrow> run_state \<Rightarrow> planning_context \<Rightarrow> validated_plan_step list \<Rightarrow> agent_loop_error + string" where
  "accepted_plan_digest cr pe state ctxt validated =
     planning_digest cr pe (AcceptedPlanDigestInput ''xgeny.plan-proposal.accepted/v3-action-occurrence'' (rs_run_id state)
       (pcx_context_digest ctxt) (map (\<lambda>s. \<lparr>apd_proposal_key = vps_key s, apd_objective = vps_objective s,
         apd_depends_on = vps_depends_on s, apd_capability = vps_capability s, apd_definition_digest = vps_definition_digest s,
         apd_semantic_action_digest = vps_semantic_action_digest s, apd_material_digest = vps_material_digest s\<rparr>) validated))"

definition prepare_plan ::
    "crypto \<Rightarrow> admission_env \<Rightarrow> planning_env \<Rightarrow> json_pointers \<Rightarrow> resource_resolver \<Rightarrow> run_state \<Rightarrow> work_frontier
      \<Rightarrow> planning_context \<Rightarrow> capability_registry \<Rightarrow> agent_loop_budget \<Rightarrow> proposed_plan_step list
      \<Rightarrow> proposal_rejection + prepared_plan" where
  "prepare_plan cr ae pe jp resolve state frontier ctxt registry budget steps =
     and_then (reject_if (steps = []) PR_EmptyPlan) (\<lambda>_.
     and_then (reject_if (length steps > MAX_ACCEPTED_PLAN_STEPS) PR_TooManySteps) (\<lambda>_.
     and_then (ok_or PR_PlannedStepBudgetExceeded (usize_checked_add (bm_len (rs_steps state)) (length steps))) (\<lambda>resulting_steps.
     and_then (reject_if (case u32_try_from resulting_steps of None \<Rightarrow> True | Some n \<Rightarrow> n > alb_max_planned_steps budget)
       PR_PlannedStepBudgetExceeded) (\<lambda>_.
     and_then (map_err (\<lambda>_. PR_InvocationInvalid) (canonical_size pe (RawPlanProposalSizeInput ''xgeny.plan-proposal.raw-size/v1''
       (rs_run_id state) (pcx_context_digest ctxt) steps))) (\<lambda>proposal_size.
     and_then (reject_if (proposal_size > MAX_PROPOSAL_BYTES) PR_ProposalTooLarge) (\<lambda>_.
     and_then (validate_proposal_structure state frontier ctxt steps) (\<lambda>_.
     and_then (try_fold (validate_plan_step cr ae pe jp resolve state ctxt registry) (normalize_proposal steps) (bs_empty, []))
       (\<lambda>(_, validated).
     and_then (map_err (\<lambda>_. PR_InvocationInvalid) (accepted_plan_digest cr pe state ctxt validated)) (\<lambda>proposal_digest.
     and_then (map_err (\<lambda>_. PR_InvocationInvalid) (derive_step_ids cr pe (rs_run_id state) proposal_digest validated)) (\<lambda>ids.
     and_then (try_fold (prepare_plan_step cr ae pe jp resolve state registry ids) validated []) (\<lambda>prepared.
     Inr \<lparr>ppn_proposal_digest = proposal_digest, ppn_steps = prepared\<rparr>)))))))))))"

section \<open>Materialization\<close>

type_synonym 'm plan_materializer =
  "'m \<Rightarrow> plan_materialization_request \<Rightarrow> (plan_materializer_failure + reconstructable_material_reference) \<times> 'm"

definition planned_profile_of :: "domain_effect_class \<Rightarrow> plan_materializer_failure + planned_execution_profile" where
  "planned_profile_of c =
     (case c of DE_ReadOnly \<Rightarrow> Inr LocalSyncReadOnlyOccurrenceV1
      | DE_Idempotent \<Rightarrow> Inr LocalSyncOnceOccurrenceV1
      | DE_NonIdempotent \<Rightarrow> Inr LocalSyncOnceOccurrenceV1
      | _ \<Rightarrow> Inl PMF_Rejected)"

definition planned_spec_of :: "admission_env \<Rightarrow> prepared_plan_step \<Rightarrow> plan_materializer_failure + planned_invocation_spec" where
  "planned_spec_of ae step =
     and_then (planned_profile_of (ppp_effect_class step)) (\<lambda>profile.
     map_err (\<lambda>_. PMF_Rejected) (spec_new (cf_capability_id (ppp_capability step)) (cf_contract_version (ppp_capability step))
       (ppp_definition_digest step) (ppp_action_digest step) (ppp_material_digest step) profile (ae_os ae) (ae_arch ae)))"

definition materialization_request :: "run_state \<Rightarrow> string \<Rightarrow> prepared_plan_step \<Rightarrow> plan_materialization_request" where
  "materialization_request state proposal_digest step =
     \<lparr>pmq_run_id = rs_run_id state, pmq_step_id = ppp_step_id step, pmq_proposal_digest = proposal_digest,
      pmq_capability = ppp_capability step, pmq_normalized_arguments = ppp_normalized_arguments step,
      pmq_material_digest = ppp_material_digest step\<rparr>"

definition bind_plan_step ::
    "crypto \<Rightarrow> run_state \<Rightarrow> string \<Rightarrow> prepared_plan_step \<Rightarrow> planned_invocation_spec \<Rightarrow> reconstructable_material_reference
      \<Rightarrow> plan_materializer_failure + accepted_plan_step \<times> planned_invocation_material_record" where
  "bind_plan_step cr state proposal_digest step spec reference =
     and_then (map_err (\<lambda>_. PMF_Rejected) (material_bind cr (rs_run_id state) (ppp_step_id step) proposal_digest spec reference))
       (\<lambda>(binding, input). Inr (\<lparr>aps_step_id = ppp_step_id step, aps_objective = ppp_objective step,
          aps_depends_on = ppp_depends_on step, aps_invocation = binding\<rparr>, input))"

definition materialize_step ::
    "crypto \<Rightarrow> admission_env \<Rightarrow> 'm plan_materializer \<Rightarrow> run_state \<Rightarrow> string \<Rightarrow> prepared_plan_step
      \<Rightarrow> 'm \<Rightarrow> (plan_materializer_failure + accepted_plan_step \<times> planned_invocation_material_record) \<times> 'm" where
  "materialize_step cr ae materializer state proposal_digest step =
     rt_bind (rt_try (planned_spec_of ae step)) (\<lambda>spec.
     rt_bind (\<lambda>m. materializer m (materialization_request state proposal_digest step)) (\<lambda>reference.
     rt_try (bind_plan_step cr state proposal_digest step spec reference)))"

fun materialize_plan ::
    "crypto \<Rightarrow> admission_env \<Rightarrow> 'm plan_materializer \<Rightarrow> run_state \<Rightarrow> string \<Rightarrow> prepared_plan_step list
      \<Rightarrow> 'm \<Rightarrow> (plan_materializer_failure + accepted_plan_step list \<times> planned_invocation_material_record list) \<times> 'm" where
  "materialize_plan cr ae materializer state proposal_digest [] = rt_try (Inr ([], []))"
| "materialize_plan cr ae materializer state proposal_digest (step # steps) =
     rt_bind (materialize_step cr ae materializer state proposal_digest step) (\<lambda>(a, i).
     rt_bind (materialize_plan cr ae materializer state proposal_digest steps) (\<lambda>(accepted, inputs).
     rt_try (Inr (a # accepted, i # inputs))))"

end
