(* ===== verification/Agent_Loop.thy ===== *)
theory Agent_Loop
  imports Plan_Proposals
begin

text \<open>
  \<open>AgentLoop\<close> of \<open>crates/xgeny-runtime/src/agent_loop.rs\<close> and \<open>WorkGraphCoordinator\<close> of
  \<open>crates/xgeny-runtime/src/frontier.rs\<close>: one tick of the orchestrator. It hands an action of the
  frontier to its caller, or makes one planner decision. A world holds the run store, the states of
  the planner, of the materializer and of the event source, and the log of planner calls. Other
  writers of the run can append to the store while the planner works: \<open>lp_rivals\<close> is what they leave.
\<close>

record loop_env =
  le_crypto :: crypto
  le_admission :: admission_env
  le_protocol :: protocol_env
  le_planning :: planning_env
  le_pointers :: json_pointers
  le_resolver :: resource_resolver

record ('p, 'm, 'f) loop_ports =
  lp_metadata :: "'f \<Rightarrow> run_state \<Rightarrow> (string + event_metadata) \<times> 'f"
  lp_lease_run_id :: string
  lp_planner_id :: "'p \<Rightarrow> string"
  lp_request_profile_digest :: "'p \<Rightarrow> string"
  lp_plan :: "'p \<Rightarrow> planner_call_request \<Rightarrow> (planner_port_failure + plan_proposal) \<times> 'p"
  lp_materialize :: "'m plan_materializer"
  lp_rivals :: "planner_call_request \<Rightarrow> memory_run_store \<Rightarrow> memory_run_store"

record ('p, 'm, 'f) loop_world =
  lw_store :: memory_run_store
  lw_planner :: 'p
  lw_materializer :: 'm
  lw_events :: 'f
  lw_calls :: "planner_call_request list"

type_synonym ('p, 'm, 'f, 'a) loop_op =
  "('p, 'm, 'f) loop_world \<Rightarrow> (agent_loop_error + 'a) \<times> ('p, 'm, 'f) loop_world"

section \<open>The coordinator\<close>

definition inspect :: "memory_run_store \<Rightarrow> frontier_error + work_frontier option" where
  "inspect st =
     (case ms_load_current st of None \<Rightarrow> Inr None
      | Some state \<Rightarrow> and_then (derive_frontier state) (\<lambda>f. Inr (Some f)))"

section \<open>Events\<close>

definition loop_event_of :: "loop_env \<Rightarrow> ('p, 'm, 'f) loop_ports \<Rightarrow> run_state \<Rightarrow> run_event_body \<Rightarrow> ('p, 'm, 'f, run_event) loop_op" where
  "loop_event_of E ports state body w =
     (case lp_metadata ports (lw_events w) state of
        (r, f) \<Rightarrow> (and_then (map_err ALE_EventFactory r) (\<lambda>metadata.
          and_then (map_err (\<lambda>_. ALE_EventMetadata) (metadata_validate (le_protocol E) metadata)) (\<lambda>_.
          Inr (runtime_event state metadata body))), w\<lparr>lw_events := f\<rparr>))"

definition loop_commit ::
    "(memory_run_store \<Rightarrow> store_error + commit \<times> memory_run_store) \<Rightarrow> ('p, 'm, 'f, commit) loop_op" where
  "loop_commit f w =
     (case f (lw_store w) of Inl e \<Rightarrow> (Inl (ALE_Store e), w) | Inr (c, st) \<Rightarrow> (Inr c, w\<lparr>lw_store := st\<rparr>))"

definition loop_append :: "loop_env \<Rightarrow> ('p, 'm, 'f) loop_ports \<Rightarrow> run_state \<Rightarrow> run_event_body \<Rightarrow> ('p, 'm, 'f, commit) loop_op" where
  "loop_append E ports state body =
     rt_bind (loop_event_of E ports state body) (\<lambda>event.
     loop_commit (\<lambda>st. ms_append (le_crypto E) (le_protocol E) st (expected_head_from_state state) event))"

definition append_model_call_unknown ::
    "loop_env \<Rightarrow> ('p, 'm, 'f) loop_ports \<Rightarrow> run_state \<Rightarrow> string \<Rightarrow> model_call_unknown_reason \<Rightarrow> ('p, 'm, 'f, commit) loop_op" where
  "append_model_call_unknown E ports state call_id reason = loop_append E ports state (ModelCallBecameUnknown call_id reason)"

definition append_model_call_rejection ::
    "loop_env \<Rightarrow> ('p, 'm, 'f) loop_ports \<Rightarrow> run_state \<Rightarrow> string \<Rightarrow> model_call_rejection_reason \<Rightarrow> ('p, 'm, 'f, commit) loop_op" where
  "append_model_call_rejection E ports state call_id reason = loop_append E ports state (ModelCallSettled call_id (model_call_settlement.Rejected reason))"

section \<open>Conflicts\<close>

datatype model_call_conflict_intent = MarkUnknown model_call_unknown_reason | RejectStale

fun is_head_conflict :: "agent_loop_error \<Rightarrow> bool" where
  "is_head_conflict (ALE_Store (SE_HeadConflict _ _)) = True"
| "is_head_conflict _ = False"

definition active_call_of :: "run_state \<Rightarrow> agent_loop_error + model_call_state" where
  "active_call_of state =
     and_then (ok_or ALE_AgentLoopNotConfigured (rs_agent_loop state)) (\<lambda>l.
     and_then (ok_or ALE_ModelCallLifecycleNotConfigured (als_model_calls l)) (\<lambda>c.
     ok_or ALE_ModelCallNoLongerActive (mcl_active_call c)))"

text \<open>The part of \<open>resolve_model_call_conflict\<close> on the state that was loaded.\<close>

definition resolve_active_call ::
    "loop_env \<Rightarrow> ('p, 'm, 'f) loop_ports \<Rightarrow> string \<Rightarrow> model_call_conflict_intent \<Rightarrow> run_state \<Rightarrow> ('p, 'm, 'f, agent_loop_tick) loop_op" where
  "resolve_active_call E ports call_id intent current =
     rt_bind (rt_try (active_call_of current)) (\<lambda>active.
     if mcr_call_id (mcs_reservation active) \<noteq> call_id then rt_try (Inl ALE_ModelCallNoLongerActive)
     else case mcs_status active of
       CallUnknown reason \<Rightarrow> rt_try (Inr (AT_ModelCallRecoveryRequired call_id reason False (head_from_state current)))
     | Reserved \<Rightarrow> (case intent of
         MarkUnknown reason \<Rightarrow>
           rt_bind (append_model_call_unknown E ports current call_id reason) (\<lambda>c.
           rt_try (Inr (AT_ModelCallRecoveryRequired call_id reason True (head_from_state (cm_state c)))))
       | RejectStale \<Rightarrow>
           rt_bind (append_model_call_rejection E ports current call_id StaleHead) (\<lambda>c.
           rt_try (Inr (AT_ModelCallRejected StaleHead (head_from_state (cm_state c)))))))"

definition resolve_model_call_conflict ::
    "loop_env \<Rightarrow> ('p, 'm, 'f) loop_ports \<Rightarrow> string \<Rightarrow> model_call_conflict_intent \<Rightarrow> ('p, 'm, 'f, agent_loop_tick) loop_op" where
  "resolve_model_call_conflict E ports call_id intent w =
     rt_bind (rt_try (ok_or ALE_RunNotInitialized (ms_load_current (lw_store w))))
       (resolve_active_call E ports call_id intent) w"

text \<open>A commit, with the conflict handled in its own way.\<close>

definition or_conflict ::
    "('p, 'm, 'f, commit) loop_op \<Rightarrow> (commit \<Rightarrow> agent_loop_error + agent_loop_tick) \<Rightarrow> ('p, 'm, 'f, agent_loop_tick) loop_op
      \<Rightarrow> ('p, 'm, 'f, agent_loop_tick) loop_op" where
  "or_conflict m k handler w =
     (case m w of (Inr c, w') \<Rightarrow> (k c, w')
      | (Inl e, w') \<Rightarrow> if is_head_conflict e then handler w' else (Inl e, w'))"

definition loop_mark_model_call_unknown ::
    "loop_env \<Rightarrow> ('p, 'm, 'f) loop_ports \<Rightarrow> run_state \<Rightarrow> string \<Rightarrow> model_call_unknown_reason \<Rightarrow> ('p, 'm, 'f, agent_loop_tick) loop_op" where
  "loop_mark_model_call_unknown E ports state call_id reason =
     or_conflict (append_model_call_unknown E ports state call_id reason)
       (\<lambda>c. Inr (AT_ModelCallRecoveryRequired call_id reason True (head_from_state (cm_state c))))
       (resolve_model_call_conflict E ports call_id (MarkUnknown reason))"

definition record_stale_model_call ::
    "loop_env \<Rightarrow> ('p, 'm, 'f) loop_ports \<Rightarrow> string \<Rightarrow> ('p, 'm, 'f, agent_loop_tick) loop_op" where
  "record_stale_model_call E ports call_id = resolve_model_call_conflict E ports call_id RejectStale"

definition record_proposal_rejection ::
    "loop_env \<Rightarrow> ('p, 'm, 'f) loop_ports \<Rightarrow> run_state \<Rightarrow> string \<Rightarrow> proposal_rejection \<Rightarrow> ('p, 'm, 'f, agent_loop_tick) loop_op" where
  "record_proposal_rejection E ports reserved call_id reason =
     or_conflict (append_model_call_rejection E ports reserved call_id ProposalRejected)
       (\<lambda>c. Inr (AT_ProposalRejected reason (head_from_state (cm_state c))))
       (resolve_model_call_conflict E ports call_id RejectStale)"

fun failure_outcome :: "planner_port_failure \<Rightarrow> model_call_unknown_reason + model_call_rejection_reason" where
  "failure_outcome PF_Timeout = Inl Timeout"
| "failure_outcome PF_Unavailable = Inl TransportUnavailable"
| "failure_outcome PF_InvalidResponse = Inr PlannerInvalidResponse"
| "failure_outcome PF_ProviderLimit = Inr ProviderLimit"
| "failure_outcome PF_RequestTooLarge = Inr RequestTooLarge"
| "failure_outcome PF_RateLimited = Inr RateLimited"
| "failure_outcome PF_OutputTruncated = Inr OutputTruncated"
| "failure_outcome PF_ProviderRejected = Inr ProviderRejected"

definition record_planner_failure ::
    "loop_env \<Rightarrow> ('p, 'm, 'f) loop_ports \<Rightarrow> run_state \<Rightarrow> string \<Rightarrow> planner_port_failure \<Rightarrow> ('p, 'm, 'f, agent_loop_tick) loop_op" where
  "record_planner_failure E ports reserved call_id failure =
     (case failure_outcome failure of
        Inl reason \<Rightarrow> or_conflict (append_model_call_unknown E ports reserved call_id reason)
          (\<lambda>c. Inr (AT_PlannerUnavailable failure (head_from_state (cm_state c))))
          (resolve_model_call_conflict E ports call_id (MarkUnknown reason))
      | Inr reason \<Rightarrow> or_conflict (append_model_call_rejection E ports reserved call_id reason)
          (\<lambda>c. Inr (AT_PlannerUnavailable failure (head_from_state (cm_state c))))
          (resolve_model_call_conflict E ports call_id RejectStale))"

section \<open>Proposals\<close>

definition next_turn_index :: "run_state \<Rightarrow> agent_loop_error + u32" where
  "next_turn_index state =
     and_then (ok_or ALE_AgentLoopNotConfigured (rs_agent_loop state)) (\<lambda>l.
     ok_or ALE_BudgetCounterOverflow (checked_add (als_accepted_model_turns l) 1))"

definition projected_candidate ::
    "completion_output_record \<Rightarrow> commit \<Rightarrow> agent_loop_error + agent_loop_tick" where
  "projected_candidate completion_output c =
     and_then (ok_or ALE_CompletionCandidateNotProjected
       (Option.bind (rs_agent_loop (cm_state c)) als_completion_candidate)) (\<lambda>candidate.
     Inr (AT_CompletionCandidate candidate (Some completion_output) True (head_from_state (cm_state c))))"

definition loop_record_completion_candidate ::
    "loop_env \<Rightarrow> ('p, 'm, 'f) loop_ports \<Rightarrow> run_state \<Rightarrow> run_state \<Rightarrow> work_frontier \<Rightarrow> planning_context \<Rightarrow> string \<Rightarrow> string
      \<Rightarrow> ('p, 'm, 'f, agent_loop_tick) loop_op" where
  "loop_record_completion_candidate E ports base reserved frontier ctxt call_id summary =
     (if \<not> all_steps_receipt_completed frontier
      then record_proposal_rejection E ports reserved call_id PR_CompletionWithoutReceiptCompletedPlan
      else if validate_completion_summary_candidate summary \<noteq> Inr ()
      then record_proposal_rejection E ports reserved call_id PR_InvalidCompletionSummary
      else
        rt_bind (rt_try (next_turn_index base)) (\<lambda>turn_index.
        rt_bind (rt_try (map_err ALE_CompletionOutput
          (completion_bind (le_crypto E) (rs_run_id base) turn_index call_id (pcx_context_digest ctxt) summary))) (\<lambda>out.
        rt_bind (rt_try (map_err ALE_CompletionOutput (completion_decision out))) (\<lambda>decision.
        or_conflict
          (rt_bind (loop_event_of E ports reserved (CompletionCandidateRecorded decision (cor_candidate_id out)
             (cor_summary_digest out) (Some (cor_record_digest out)))) (\<lambda>event.
           loop_commit (\<lambda>st. ms_append_with_completion_output (le_crypto E) (le_protocol E) st
             (expected_head_from_state reserved) event out)))
          (projected_candidate out)
          (record_stale_model_call E ports call_id)))))"

definition loop_materialize ::
    "loop_env \<Rightarrow> ('p, 'm, 'f) loop_ports \<Rightarrow> run_state \<Rightarrow> prepared_plan \<Rightarrow> ('p, 'm, 'f) loop_world
      \<Rightarrow> (plan_materializer_failure + accepted_plan_step list \<times> planned_invocation_material_record list) \<times> ('p, 'm, 'f) loop_world" where
  "loop_materialize E ports base prepared w =
     (case materialize_plan (le_crypto E) (le_admission E) (lp_materialize ports) base (ppn_proposal_digest prepared)
         (ppn_steps prepared) (lw_materializer w) of
        (r, m) \<Rightarrow> (r, w\<lparr>lw_materializer := m\<rparr>))"

definition accept_plan_proposal ::
    "loop_env \<Rightarrow> ('p, 'm, 'f) loop_ports \<Rightarrow> run_state \<Rightarrow> run_state \<Rightarrow> planning_context \<Rightarrow> string \<Rightarrow> string
      \<Rightarrow> accepted_plan_step list \<times> planned_invocation_material_record list \<Rightarrow> ('p, 'm, 'f, agent_loop_tick) loop_op" where
  "accept_plan_proposal E ports base reserved ctxt call_id proposal_digest accepted =
     rt_bind (rt_try (next_turn_index base)) (\<lambda>turn_index.
     rt_bind (rt_try (map_err ALE_PlanningContract
       (planning_turn_for_model_call turn_index call_id (pcx_context_digest ctxt) proposal_digest))) (\<lambda>decision.
     or_conflict
       (rt_bind (loop_event_of E ports reserved (PlanAccepted decision (fst accepted))) (\<lambda>event.
        loop_commit (\<lambda>st. ms_append_with_plan_inputs (le_crypto E) (le_protocol E) st
          (expected_head_from_state reserved) event (snd accepted))))
       (\<lambda>c. Inr (AT_PlanAccepted (map aps_step_id (fst accepted)) (head_from_state (cm_state c))))
       (record_stale_model_call E ports call_id)))"

definition handle_plan ::
    "loop_env \<Rightarrow> ('p, 'm, 'f) loop_ports \<Rightarrow> run_state \<Rightarrow> run_state \<Rightarrow> planning_context \<Rightarrow> string \<Rightarrow> prepared_plan
      \<Rightarrow> ('p, 'm, 'f, agent_loop_tick) loop_op" where
  "handle_plan E ports base reserved ctxt call_id prepared w =
     (case loop_materialize E ports base prepared w of
        (Inl failure, w) \<Rightarrow>
          or_conflict (append_model_call_rejection E ports reserved call_id MaterializationFailed)
            (\<lambda>c. Inr (AT_MaterializerUnavailable failure (head_from_state (cm_state c))))
            (resolve_model_call_conflict E ports call_id RejectStale) w
      | (Inr accepted, w) \<Rightarrow> accept_plan_proposal E ports base reserved ctxt call_id (ppn_proposal_digest prepared) accepted w)"

definition handle_proposal ::
    "loop_env \<Rightarrow> ('p, 'm, 'f) loop_ports \<Rightarrow> agent_loop \<Rightarrow> capability_registry \<Rightarrow> run_state \<Rightarrow> run_state \<Rightarrow> work_frontier
      \<Rightarrow> planning_context \<Rightarrow> string \<Rightarrow> plan_proposal \<Rightarrow> u32 \<Rightarrow> ('p, 'm, 'f, agent_loop_tick) loop_op" where
  "handle_proposal E ports al registry base reserved frontier ctxt call_id proposal tool_calls =
     (case proposal of
        PP_CompletionCandidate summary \<Rightarrow> loop_record_completion_candidate E ports base reserved frontier ctxt call_id summary
      | PP_Plan steps \<Rightarrow>
          if tool_calls \<ge> alb_max_tool_calls (al_budget al)
          then record_proposal_rejection E ports reserved call_id PR_ToolCallBudgetExhausted
          else case prepare_plan (le_crypto E) (le_admission E) (le_planning E) (le_pointers E) (le_resolver E) base frontier ctxt
              registry (al_budget al) steps of
            Inl (PR_Panic m) \<Rightarrow> rt_try (Inl (ALE_Panic m))
          | Inl reason \<Rightarrow> record_proposal_rejection E ports reserved call_id reason
          | Inr prepared \<Rightarrow> handle_plan E ports base reserved ctxt call_id prepared)"

section \<open>Selection\<close>

definition loop_verify_lease :: "string \<Rightarrow> run_state \<Rightarrow> agent_loop_error + unit" where
  "loop_verify_lease lease_run_id state = reject_if (lease_run_id \<noteq> rs_run_id state) ALE_LeaseRunMismatch"

definition total_tool_calls :: "run_state \<Rightarrow> agent_loop_error + u32" where
  "total_tool_calls state =
     try_fold (\<lambda>step n. ok_or ALE_BudgetCounterOverflow (checked_add n (ss_attempts step))) (bm_values (rs_steps state)) 0"

definition action_would_issue_new_tool_call :: "run_state \<Rightarrow> frontier_action \<Rightarrow> bool" where
  "action_would_issue_new_tool_call state action =
     (case fact_action action of Admit \<Rightarrow> False | Verify \<Rightarrow> False
      | DriveEffect \<Rightarrow> (case bm_get (rs_steps state) (fact_step_id action) of None \<Rightarrow> False
          | Some step \<Rightarrow> ss_status step = IntentCommitted))"

definition terminal_quiescence :: "work_frontier \<Rightarrow> agent_loop_quiescence option" where
  "terminal_quiescence f =
     (if wf_manual_required_step_ids f \<noteq> [] then Some QU_ManualIntervention
      else if wf_failed_step_ids f \<noteq> [] then Some QU_FailedSteps
      else if wf_unverified_completed_step_ids f \<noteq> [] then Some QU_UnverifiedCompletion
      else if wf_blocked f \<noteq> [] then Some QU_BlockedDependencies
      else if wf_waiting f \<noteq> [] then Some QU_WaitingDependencies
      else if wf_total_steps f > 0 \<and> \<not> all_steps_receipt_completed f then Some QU_NoActionableWork
      else None)"

definition stored_candidate ::
    "crypto \<Rightarrow> memory_run_store \<Rightarrow> run_state \<Rightarrow> completion_candidate_state \<Rightarrow> agent_loop_error + completion_output_record option" where
  "stored_candidate cr st state candidate =
     (case ccs_completion_output_record_digest candidate of None \<Rightarrow> Inr None
      | Some expected_record_digest \<Rightarrow>
          and_then (map_err ALE_Store (ms_load_completion_output cr st (expected_head_from_state state) (ccs_candidate_id candidate))) (\<lambda>loaded.
          and_then (ok_or ALE_CompletionOutputMissing loaded) (\<lambda>out.
          and_then (map_err ALE_CompletionOutput (completion_decision out)) (\<lambda>decision.
          and_then (map_err ALE_CompletionOutput (completion_verify_for cr out (rs_run_id state) decision (ccs_candidate_id candidate)
            (ccs_summary_digest candidate))) (\<lambda>_.
          and_then (reject_if (cor_record_digest out \<noteq> expected_record_digest
              \<or> cor_context_digest out \<noteq> ccs_context_digest candidate
              \<or> cor_proposal_digest out \<noteq> ccs_proposal_digest candidate) ALE_CompletionOutputMismatch) (\<lambda>_.
          Inr (Some out)))))))"

text \<open>The budgets and limits that are checked before a context is built.\<close>

definition planning_stop ::
    "run_state \<Rightarrow> agent_loop_state \<Rightarrow> model_call_lifecycle_state \<Rightarrow> work_frontier \<Rightarrow> capability_registry \<Rightarrow> agent_loop_quiescence option" where
  "planning_stop state l c frontier registry =
     (case terminal_quiescence frontier of Some reason \<Rightarrow> Some reason
      | None \<Rightarrow>
          if als_accepted_model_turns l \<ge> alb_max_model_turns (als_budget l) then Some QU_ModelTurnBudgetExhausted
          else if mcl_reserved_calls c \<ge> mcb_max_model_calls (mcl_budget c) then Some QU_ModelCallBudgetExhausted
          else if bm_len (rs_steps state) \<ge> unat (alb_max_planned_steps (als_budget l)) \<and> \<not> all_steps_receipt_completed frontier
          then Some QU_PlannedStepBudgetExhausted
          else if \<not> planning_context_preflight state registry then Some QU_ContextInputLimitExceeded
          else None)"

definition tick_context ::
    "loop_env \<Rightarrow> agent_loop \<Rightarrow> memory_run_store \<Rightarrow> run_state \<Rightarrow> agent_loop_state \<Rightarrow> work_frontier \<Rightarrow> capability_registry
      \<Rightarrow> agent_loop_error + agent_loop_quiescence + planning_context" where
  "tick_context E al st state l frontier registry =
     (case ms_load_planning_snapshot (le_crypto E) st (expected_head_from_state state)
         (min (alb_max_context_bytes (als_budget l)) MAX_PLANNING_CONTEXT_BYTES) of
        Inl SE_PlanningSnapshotBudgetExceeded \<Rightarrow> Inr (Inl QU_ContextBudgetExceeded)
      | Inl e \<Rightarrow> Inl (ALE_Store e)
      | Inr None \<Rightarrow> Inl ALE_RunNotInitialized
      | Inr (Some snap) \<Rightarrow>
          if rps_state snap \<noteq> state then Inl ALE_PlanningSnapshotMismatch
          else case build_context_ordered (le_crypto E) (le_admission E) (le_planning E) state (rps_completed_tool_outputs snap)
              (rps_planning_step_order snap) (rps_completed_tool_output_order snap) frontier registry (al_planning_constraints al)
              (als_budget l) of
            Inr ctxt \<Rightarrow> Inr (Inr ctxt)
          | Inl CBE_BudgetExceeded \<Rightarrow> Inr (Inl QU_ContextBudgetExceeded)
          | Inl CBE_InputLimitExceeded \<Rightarrow> Inr (Inl QU_ContextInputLimitExceeded)
          | Inl CBE_Canonicalization \<Rightarrow> Inl ALE_Canonicalization
          | Inl CBE_Catalog \<Rightarrow> Inl ALE_CapabilityCatalog
          | Inl CBE_OutputBinding \<Rightarrow> Inl ALE_PlanningSnapshotMismatch)"

section \<open>One planner call\<close>

definition tick_reservation ::
    "loop_env \<Rightarrow> ('p, 'm, 'f) loop_ports \<Rightarrow> 'p \<Rightarrow> run_state \<Rightarrow> model_call_lifecycle_state \<Rightarrow> planning_context
      \<Rightarrow> agent_loop_error + model_call_reservation" where
  "tick_reservation E ports planner state c ctxt =
     (let planner_id = lp_planner_id ports planner; profile_digest = lp_request_profile_digest ports planner in
      and_then (reject_if (\<not> valid_sha256_digest profile_digest) ALE_InvalidPlannerRequestProfileDigest) (\<lambda>_.
      and_then (planner_request_digest (le_crypto E) (le_planning E) planner_id profile_digest (pcx_context_digest ctxt)) (\<lambda>request_digest.
      and_then (ok_or ALE_BudgetCounterOverflow (checked_add (mcl_reserved_calls c) 1)) (\<lambda>call_index.
      and_then (next_turn_index state) (\<lambda>turn_index.
      map_err ALE_PlanningContract (reservation_new (le_crypto E) (rs_run_id state) (rs_authority_epoch state) planner_id call_index
        turn_index (rs_journal_sequence state) (rs_journal_head_digest state) (pcx_context_digest ctxt) request_digest))))))"

definition call_planner ::
    "('p, 'm, 'f) loop_ports \<Rightarrow> planner_call_request \<Rightarrow> ('p, 'm, 'f) loop_world
      \<Rightarrow> (planner_port_failure + plan_proposal) \<times> ('p, 'm, 'f) loop_world" where
  "call_planner ports request w =
     (case lp_plan ports (lw_planner w) request of
        (r, p) \<Rightarrow> (r, w\<lparr>lw_planner := p, lw_calls := lw_calls w @ [request], lw_store := lp_rivals ports request (lw_store w)\<rparr>))"

definition ask_planner ::
    "loop_env \<Rightarrow> ('p, 'm, 'f) loop_ports \<Rightarrow> agent_loop \<Rightarrow> capability_registry \<Rightarrow> run_state \<Rightarrow> run_state \<Rightarrow> work_frontier
      \<Rightarrow> planning_context \<Rightarrow> model_call_reservation \<Rightarrow> u32 \<Rightarrow> ('p, 'm, 'f, agent_loop_tick) loop_op" where
  "ask_planner E ports al registry state reserved frontier ctxt reservation tool_calls w =
     (case call_planner ports \<lparr>pcr_call_id = mcr_call_id reservation, pcr_request_digest = mcr_request_digest reservation,
         pcr_context = ctxt\<rparr> w of
        (Inl failure, w) \<Rightarrow> record_planner_failure E ports reserved (mcr_call_id reservation) failure w
      | (Inr proposal, w) \<Rightarrow>
          handle_proposal E ports al registry state reserved frontier ctxt (mcr_call_id reservation) proposal tool_calls w)"

definition plan_turn ::
    "loop_env \<Rightarrow> ('p, 'm, 'f) loop_ports \<Rightarrow> agent_loop \<Rightarrow> capability_registry \<Rightarrow> run_state \<Rightarrow> agent_loop_state
      \<Rightarrow> model_call_lifecycle_state \<Rightarrow> work_frontier \<Rightarrow> u32 \<Rightarrow> ('p, 'm, 'f, agent_loop_tick) loop_op" where
  "plan_turn E ports al registry state l c frontier tool_calls w =
     (case tick_context E al (lw_store w) state l frontier registry of
        Inl e \<Rightarrow> (Inl e, w)
      | Inr (Inl reason) \<Rightarrow> (Inr (AT_Quiescent reason (head_from_state state)), w)
      | Inr (Inr ctxt) \<Rightarrow>
          rt_bind (rt_try (tick_reservation E ports (lw_planner w) state c ctxt)) (\<lambda>reservation.
          rt_bind (loop_append E ports state (ModelCallReserved reservation)) (\<lambda>committed.
          ask_planner E ports al registry state (cm_state committed) frontier ctxt reservation tool_calls)) w)"

section \<open>A tick\<close>

definition loop_configure ::
    "loop_env \<Rightarrow> ('p, 'm, 'f) loop_ports \<Rightarrow> agent_loop \<Rightarrow> run_state \<Rightarrow> ('p, 'm, 'f, agent_loop_tick) loop_op" where
  "loop_configure E ports al state =
     rt_bind (loop_append E ports state (AgentLoopConfigured (al_budget al))) (\<lambda>c.
     rt_try (Inr (AT_Configured (head_from_state (cm_state c)))))"

definition loop_configure_model_calls ::
    "loop_env \<Rightarrow> ('p, 'm, 'f) loop_ports \<Rightarrow> agent_loop \<Rightarrow> run_state \<Rightarrow> ('p, 'm, 'f, agent_loop_tick) loop_op" where
  "loop_configure_model_calls E ports al state =
     rt_bind (loop_append E ports state (ModelCallLifecycleConfigured (al_model_call_budget al))) (\<lambda>c.
     rt_try (Inr (AT_ModelCallLifecycleConfigured (head_from_state (cm_state c)))))"

definition settled_tick ::
    "loop_env \<Rightarrow> ('p, 'm, 'f) loop_ports \<Rightarrow> agent_loop \<Rightarrow> capability_registry \<Rightarrow> run_state \<Rightarrow> agent_loop_state
      \<Rightarrow> model_call_lifecycle_state \<Rightarrow> work_frontier \<Rightarrow> u32 \<Rightarrow> ('p, 'm, 'f, agent_loop_tick) loop_op" where
  "settled_tick E ports al registry state l c frontier tool_calls w =
     (case als_completion_candidate l of
        Some candidate \<Rightarrow>
          rt_bind (rt_try (stored_candidate (le_crypto E) (lw_store w) state candidate)) (\<lambda>out.
          rt_try (Inr (AT_CompletionCandidate candidate out False (head_from_state state)))) w
      | None \<Rightarrow> (case planning_stop state l c frontier registry of
          Some reason \<Rightarrow> (Inr (AT_Quiescent reason (head_from_state state)), w)
        | None \<Rightarrow> plan_turn E ports al registry state l c frontier tool_calls w))"

definition configured_tick ::
    "loop_env \<Rightarrow> ('p, 'm, 'f) loop_ports \<Rightarrow> agent_loop \<Rightarrow> capability_registry \<Rightarrow> run_state \<Rightarrow> agent_loop_state
      \<Rightarrow> model_call_lifecycle_state \<Rightarrow> ('p, 'm, 'f, agent_loop_tick) loop_op" where
  "configured_tick E ports al registry state l c =
     rt_bind (rt_try (map_err ALE_Frontier (derive_frontier state))) (\<lambda>frontier.
     rt_bind (rt_try (total_tool_calls state)) (\<lambda>tool_calls.
     case next_action frontier of
       Some action \<Rightarrow>
         if action_would_issue_new_tool_call state action \<and> tool_calls \<ge> alb_max_tool_calls (als_budget l)
         then rt_try (Inr (AT_Quiescent QU_ToolCallBudgetExhausted (head_from_state state)))
         else rt_try (Inr (AT_ActionRequired action (head_from_state state)))
     | None \<Rightarrow> (case mcl_active_call c of
         Some active \<Rightarrow> (case mcs_status active of
             Reserved \<Rightarrow> loop_mark_model_call_unknown E ports state (mcr_call_id (mcs_reservation active)) Interrupted
           | CallUnknown reason \<Rightarrow> rt_try (Inr (AT_ModelCallRecoveryRequired (mcr_call_id (mcs_reservation active)) reason False
               (head_from_state state))))
       | None \<Rightarrow> settled_tick E ports al registry state l c frontier tool_calls)))"

definition tick ::
    "loop_env \<Rightarrow> ('p, 'm, 'f) loop_ports \<Rightarrow> agent_loop \<Rightarrow> capability_registry \<Rightarrow> ('p, 'm, 'f, agent_loop_tick) loop_op" where
  "tick E ports al registry w =
     rt_bind (rt_try (ok_or ALE_RunNotInitialized (ms_load_current (lw_store w)))) (\<lambda>state.
     rt_bind (rt_try (loop_verify_lease (lp_lease_run_id ports) state)) (\<lambda>_.
     case rs_agent_loop state of None \<Rightarrow> loop_configure E ports al state
     | Some l \<Rightarrow>
         if als_budget l \<noteq> al_budget al then rt_try (Inl ALE_BudgetMismatch)
         else case als_model_calls l of None \<Rightarrow> loop_configure_model_calls E ports al state
         | Some c \<Rightarrow>
             if mcl_budget c \<noteq> al_model_call_budget al then rt_try (Inl ALE_ModelCallBudgetMismatch)
             else configured_tick E ports al registry state l c)) w"

section \<open>Abandoning a call\<close>

definition abandon_model_call ::
    "loop_env \<Rightarrow> ('p, 'm, 'f) loop_ports \<Rightarrow> agent_loop \<Rightarrow> string \<Rightarrow> ('p, 'm, 'f, agent_loop_tick) loop_op" where
  "abandon_model_call E ports al call_id w =
     rt_bind (rt_try (ok_or ALE_RunNotInitialized (ms_load_current (lw_store w)))) (\<lambda>state.
     rt_bind (rt_try (loop_verify_lease (lp_lease_run_id ports) state)) (\<lambda>_.
     rt_bind (rt_try (ok_or ALE_AgentLoopNotConfigured (rs_agent_loop state))) (\<lambda>l.
     if als_budget l \<noteq> al_budget al then rt_try (Inl ALE_BudgetMismatch)
     else
       rt_bind (rt_try (ok_or ALE_ModelCallLifecycleNotConfigured (als_model_calls l))) (\<lambda>c.
       if mcl_budget c \<noteq> al_model_call_budget al then rt_try (Inl ALE_ModelCallBudgetMismatch)
       else
         rt_bind (rt_try (ok_or ALE_ModelCallNotActive (mcl_active_call c))) (\<lambda>active.
         if mcr_call_id (mcs_reservation active) \<noteq> call_id then rt_try (Inl ALE_ModelCallIdMismatch)
         else
           rt_bind (loop_append E ports state (ModelCallSettled call_id (Abandoned RecoveryDiscarded))) (\<lambda>committed.
           rt_try (Inr (AT_ModelCallAbandoned call_id (head_from_state (cm_state committed)))))))))) w"

end
