(* ===== verification/Loop_Accounting.thy ===== *)
theory Loop_Accounting
  imports Agent_Loop Executor_Properties Run_Budgets
begin

text \<open>
  The agent loop over the store: a planner is called only behind its durable reservation, the calls of
  a whole run stay within the budget whatever the other writers do, and ticking alone comes to rest.
\<close>

section \<open>What is left of the budget\<close>

text \<open>
  A bound on the ticks that still change the store: two to configure, then one to reserve and one to
  give up each call.
\<close>

definition loop_fuel :: "nat \<Rightarrow> run_state \<Rightarrow> nat" where
  "loop_fuel n s =
     (case rs_agent_loop s of None \<Rightarrow> 2 * n + 3
      | Some l \<Rightarrow> (case als_model_calls l of None \<Rightarrow> 2 * n + 2
          | Some c \<Rightarrow> 2 * (n - unat (mcl_reserved_calls c)) + reserved_now (mcl_active_call c)))"

definition calls_reserved :: "run_state \<Rightarrow> nat" where
  "calls_reserved s =
     (case rs_agent_loop s of None \<Rightarrow> 0
      | Some l \<Rightarrow> (case als_model_calls l of None \<Rightarrow> 0 | Some c \<Rightarrow> unat (mcl_reserved_calls c)))"

fun is_reservation :: "run_event_body \<Rightarrow> bool" where
  "is_reservation (ModelCallReserved _) = True"
| "is_reservation _ = False"

fun settles :: "run_event_body \<Rightarrow> bool" where
  "settles (ModelCallBecameUnknown _ _) = True"
| "settles (ModelCallSettled _ _) = True"
| "settles (PlanAccepted _ _) = True"
| "settles (CompletionCandidateRecorded _ _ _ _) = True"
| "settles _ = False"

lemma loop_account_simps [simp]:
  "loop_fuel n (advance_head r s) = loop_fuel n s" "calls_reserved (advance_head r s) = calls_reserved s"
  by (simp_all add: loop_fuel_def calls_reserved_def)

lemma settled_account:
  assumes "settle_successful_model_call l = Inr l'"
  shows "loop_fuel n (put_loop l' s) \<le> loop_fuel n (put_loop l s)"
    and "calls_reserved (put_loop l' s) = calls_reserved (put_loop l s)"
  using settle_successful_model_call_Inr [OF assms] by (auto simp: loop_fuel_def calls_reserved_def reserved_now_def)

lemma reserved_now_simps [simp]:
  "reserved_now None = 0" "reserved_now (Some \<lparr>mcs_reservation = r, mcs_status = q\<rparr>) = (if q = Reserved then 1 else 0)"
  "reserved_now (Some (a\<lparr>mcs_status := q\<rparr>)) = (if q = Reserved then 1 else 0)"
  by (simp_all add: reserved_now_def)

lemma apply_body_account:
  assumes "apply_body cr s body = Inr s'"
  shows "settles body \<Longrightarrow> loop_fuel n s' \<le> loop_fuel n s"
    and "calls_reserved s + (if is_reservation body then 1 else 0) \<le> calls_reserved s'"
    and "rs_agent_loop s = None \<Longrightarrow> body = AgentLoopConfigured b \<Longrightarrow> loop_fuel n s' < loop_fuel n s"
proof -
  have "(settles body \<longrightarrow> loop_fuel n s' \<le> loop_fuel n s)
     \<and> calls_reserved s + (if is_reservation body then 1 else 0) \<le> calls_reserved s'"
    using assms
  proof (cases body)
    case (AgentLoopConfigured b)
    with assms have "configure_agent_loop s b = Inr s'" by (simp add: apply_body_def)
    from configure_agent_loop_Inr(1,4) [OF this] show ?thesis by (simp add: AgentLoopConfigured calls_reserved_def)
  next
    case (ModelCallLifecycleConfigured b)
    with assms have "configure_model_call_lifecycle s b = Inr s'" by (simp add: apply_body_def)
    then show ?thesis by (rule configure_model_call_lifecycle_Inr) (simp add: ModelCallLifecycleConfigured calls_reserved_def)
  next
    case (ModelCallReserved rv)
    with assms have "reserve_model_call cr s rv = Inr s'" by (simp add: apply_body_def)
    then show ?thesis by (rule reserve_model_call_Inr) (simp add: ModelCallReserved calls_reserved_def)
  next
    case (ModelCallBecameUnknown call_id reason)
    with assms have "Reducer.mark_model_call_unknown s call_id reason = Inr s'" by (simp add: apply_body_def)
    then show ?thesis
      by (rule mark_model_call_unknown_Inr) (simp add: ModelCallBecameUnknown calls_reserved_def loop_fuel_def)
  next
    case (ModelCallSettled call_id settlement)
    with assms have "settle_model_call s call_id settlement = Inr s'" by (simp add: apply_body_def)
    then show ?thesis
      by (rule settle_model_call_Inr) (simp add: ModelCallSettled calls_reserved_def loop_fuel_def)
  next
    case (PlanAccepted decision steps)
    with assms have "accept_plan cr s decision steps = Inr s'" by (simp add: apply_body_def)
    then show ?thesis
    proof (rule accept_plan_Inr)
      fix l l' assume l: "rs_agent_loop s = Some l"
        and l': "settle_successful_model_call (l\<lparr>als_accepted_model_turns := ept_turn_index decision\<rparr>) = Inr l'"
        and "s' = put_loop l' (add_steps (map accepted_step steps) s)"
      then show ?thesis
        using settled_account(1) [OF l', of n "add_steps (map accepted_step steps) s"]
          settled_account(2) [OF l', of "add_steps (map accepted_step steps) s"]
        by (simp add: PlanAccepted calls_reserved_def loop_fuel_def)
    qed
  next
    case (CompletionCandidateRecorded decision cid sd od)
    with assms have "Reducer.record_completion_candidate s decision cid sd od = Inr s'" by (simp add: apply_body_def)
    then show ?thesis
    proof (rule record_completion_candidate_Inr)
      fix l l' assume l: "rs_agent_loop s = Some l"
        and l': "settle_successful_model_call (l\<lparr>als_accepted_model_turns := ept_turn_index decision,
          als_completion_candidate := Some
            \<lparr>ccs_candidate_id = cid, ccs_context_digest = ept_context_digest decision,
             ccs_proposal_digest = ept_proposal_digest decision, ccs_summary_digest = sd,
             ccs_completion_output_record_digest = od\<rparr>\<rparr>) = Inr l'"
        and "s' = put_loop l' s"
      then show ?thesis
        using settled_account(1) [OF l', of n s] settled_account(2) [OF l', of s] by (simp add: CompletionCandidateRecorded calls_reserved_def loop_fuel_def)
    qed
  qed (auto simp: apply_body_def plan_step_Inr_iff commit_effect_intent_Inr_iff apply_effect_lifecycle_iff calls_reserved_def)
  then show "settles body \<Longrightarrow> loop_fuel n s' \<le> loop_fuel n s"
    "calls_reserved s + (if is_reservation body then 1 else 0) \<le> calls_reserved s'" by auto
  assume "rs_agent_loop s = None" "body = AgentLoopConfigured b"
  then show "loop_fuel n s' < loop_fuel n s"
    using assms configure_agent_loop_Inr(4) by (fastforce simp: apply_body_def loop_fuel_def)
qed

lemma apply_body_spends:
  assumes "apply_body cr s body = Inr s'"
  shows "body = ModelCallLifecycleConfigured b \<Longrightarrow> loop_fuel n s' < loop_fuel n s"
    and "body = ModelCallBecameUnknown call_id reason \<Longrightarrow> loop_fuel n s' < loop_fuel n s"
    and "body = ModelCallReserved rv \<Longrightarrow> rs_agent_loop s = Some l \<Longrightarrow> als_model_calls l = Some c \<Longrightarrow>
      n = unat (mcb_max_model_calls (mcl_budget c)) \<Longrightarrow> loop_fuel n s' < loop_fuel n s"
proof -
  assume "body = ModelCallLifecycleConfigured b"
  with assms have "configure_model_call_lifecycle s b = Inr s'" by (simp add: apply_body_def)
  then show "loop_fuel n s' < loop_fuel n s"
    by (rule configure_model_call_lifecycle_Inr) (simp add: loop_fuel_def less_Suc_eq_le)
next
  assume "body = ModelCallBecameUnknown call_id reason"
  with assms have "Reducer.mark_model_call_unknown s call_id reason = Inr s'" by (simp add: apply_body_def)
  then show "loop_fuel n s' < loop_fuel n s"
    by (rule mark_model_call_unknown_Inr) (simp add: loop_fuel_def reserved_now_def)
next
  assume "body = ModelCallReserved rv" and l: "rs_agent_loop s = Some l" "als_model_calls l = Some c"
    "n = unat (mcb_max_model_calls (mcl_budget c))"
  with assms have "reserve_model_call cr s rv = Inr s'" by (simp add: apply_body_def)
  then show "loop_fuel n s' < loop_fuel n s"
    by (rule reserve_model_call_Inr) (use l in \<open>simp add: loop_fuel_def word_less_nat_alt\<close>)
qed

interpretation reservations: run_invariant cr "\<lambda>rs s. count_events is_reservation rs \<le> calls_reserved s" for cr
proof unfold_locales
  fix r s
  assume "apply_record cr None r = Inr s"
  then show "count_events is_reservation [r] \<le> calls_reserved s"
    by (auto simp: apply_record_None_iff count_events_def)
next
  fix rs s r s'
  assume "count_events is_reservation rs \<le> calls_reserved s" and "apply_body cr s (body_of r) = Inr s'"
  then show "count_events is_reservation (rs @ [r]) \<le> calls_reserved (advance_head r s')"
    using apply_body_account(2) [of cr s "body_of r" s'] by simp
qed


section \<open>Commits of the loop\<close>

abbreviation loop_store_ok :: "loop_env \<Rightarrow> memory_run_store \<Rightarrow> bool" where
  "loop_store_ok E st \<equiv> store_ok (le_crypto E) (le_protocol E) st"

abbreviation loop_commits ::
    "loop_env \<Rightarrow> memory_run_store \<Rightarrow> commit \<Rightarrow> commit_sidecars \<Rightarrow> commit_anchors \<Rightarrow> memory_run_store \<Rightarrow> bool" where
  "loop_commits E st c sc an st' \<equiv> commits (le_crypto E) (le_protocol E) st c sc an st'"

text \<open>A store operation that commits the event it is given.\<close>

definition commits_event :: "loop_env \<Rightarrow> (run_event \<Rightarrow> memory_run_store \<Rightarrow> store_error + commit \<times> memory_run_store) \<Rightarrow> bool" where
  "commits_event E f \<longleftrightarrow> (\<forall>ev st c st'. f ev st = Inr (c, st') \<longrightarrow>
     er_event (cm_record c) = ev \<and> (\<exists>sc an. loop_commits E st c sc an st'))"

lemma prepared_event:
  "ms_append cr env st h e = Inr (c, st') \<Longrightarrow> er_event (cm_record c) = e"
  "ms_append_with_plan_inputs cr env st h e inputs = Inr (c, st') \<Longrightarrow> er_event (cm_record c) = e"
  "ms_append_with_completion_output cr env st h e out = Inr (c, st') \<Longrightarrow> er_event (cm_record c) = e"
  by (auto simp: ms_append_def ms_append_with_plan_inputs_def ms_append_with_completion_output_def append_simps
      dest: prepare_commit_Inr(2))

lemma commits_event_ops:
  "commits_event E (\<lambda>ev st. ms_append (le_crypto E) (le_protocol E) st h ev)"
  "commits_event E (\<lambda>ev st. ms_append_with_plan_inputs (le_crypto E) (le_protocol E) st h ev inputs)"
  "commits_event E (\<lambda>ev st. ms_append_with_completion_output (le_crypto E) (le_protocol E) st h ev out)"
  unfolding commits_event_def
  by (intro allI impI conjI, erule prepared_event(1), blast dest: append_commits)
     (intro allI impI conjI, erule prepared_event(2), blast dest: append_with_plan_inputs_commits,
      intro allI impI conjI, erule prepared_event(3), blast dest: append_with_completion_output_commits)

definition same_run :: "('p, 'm, 'f) loop_world \<Rightarrow> ('p, 'm, 'f) loop_world \<Rightarrow> bool" where
  "same_run w w' \<longleftrightarrow> lw_store w' = lw_store w \<and> lw_calls w' = lw_calls w \<and> lw_planner w' = lw_planner w"

lemma same_run_simps [simp]:
  "same_run w w" "same_run w (w\<lparr>lw_events := f\<rparr>)" "same_run w (w\<lparr>lw_materializer := m\<rparr>)"
  by (simp_all add: same_run_def)

lemma commit_event_cases:
  assumes "rt_bind (loop_event_of E ports s body) (\<lambda>ev. loop_commit (f ev)) w = (r, w')" and "commits_event E f"
  obtains (failed) e where "r = Inl e" and "same_run w w'"
  | (committed) c sc an where "r = Inr c" and "loop_commits E (lw_store w) c sc an (lw_store w')"
      and "body_of (cm_record c) = body" and "lw_calls w' = lw_calls w"
  using assms(1)
proof (cases rule: rt_bind_cases)
  case (failed e)
  then have "same_run w w'" by (auto simp: loop_event_of_def same_run_def split: prod.splits)
  then show thesis using that(1) failed(2) by blast
next
  case (continued ev w1)
  from continued(1) have w1: "same_run w w1" "re_body ev = body"
    by (auto simp: loop_event_of_def same_run_def runtime_event_def result_simps split: prod.splits)
  show thesis
  proof (cases "f ev (lw_store w1)")
    case (Inl e)
    then show thesis using continued(2) w1(1) by (auto simp: loop_commit_def intro: that(1))
  next
    case (Inr z)
    obtain c st' where z: "z = (c, st')" by (cases z)
    then have r: "r = Inr c" "lw_store w' = st'" "lw_calls w' = lw_calls w"
      using continued(2) Inr w1(1) by (auto simp: loop_commit_def same_run_def)
    obtain sc an where "loop_commits E (lw_store w1) c sc an st'" "er_event (cm_record c) = ev"
      using assms(2) Inr z unfolding commits_event_def by blast
    then show thesis using that(2) r w1 by (simp add: same_run_def)
  qed
qed

lemma loop_append_cases:
  assumes "loop_append E ports s body w = (r, w')"
  obtains (failed) e where "r = Inl e" and "same_run w w'"
  | (committed) c sc an where "r = Inr c" and "loop_commits E (lw_store w) c sc an (lw_store w')"
      and "body_of (cm_record c) = body" and "lw_calls w' = lw_calls w"
  using assms unfolding loop_append_def by (rule commit_event_cases [OF _ commits_event_ops(1)]) (auto intro: that)

section \<open>Settling a call\<close>

definition store_fuel :: "nat \<Rightarrow> memory_run_store \<Rightarrow> nat" where
  "store_fuel n st = (case ms_load_current st of None \<Rightarrow> 0 | Some s \<Rightarrow> loop_fuel n s)"

definition settled_by :: "loop_env \<Rightarrow> nat \<Rightarrow> memory_run_store \<Rightarrow> memory_run_store \<Rightarrow> bool" where
  "settled_by E n st st' \<longleftrightarrow> loop_store_ok E st'
     \<and> (\<exists>ext. ms_records st' = ms_records st @ ext \<and> list_all (\<lambda>r. settles (body_of r)) ext)
     \<and> store_fuel n st' \<le> store_fuel n st"

lemma settled_by_refl: "loop_store_ok E st \<Longrightarrow> settled_by E n st st"
  by (simp add: settled_by_def)

lemma settled_by_trans: "settled_by E n a b \<Longrightarrow> settled_by E n b c \<Longrightarrow> settled_by E n a c"
  unfolding settled_by_def by (auto intro: order_trans)

lemma commit_extends:
  assumes "loop_commits E st c sc an st'" and "loop_store_ok E st"
    and "\<And>g. body_of (cm_record c) \<noteq> RunCreated g"
  obtains s s' where "ms_load_current st = Some s" and "apply_body (le_crypto E) s (body_of (cm_record c)) = Inr s'"
    and "ms_load_current st' = Some (advance_head (cm_record c) s')" and "cm_state c = advance_head (cm_record c) s'"
    and "loop_store_ok E st'" and "ms_records st' = ms_records st @ [cm_record c]"
proof -
  have j: "journal_ok (le_crypto E) st" using assms(2) by (simp add: store_ok_def)
  have ok: "loop_store_ok E st'" using assms(1,2) by (rule store_ok_commit)
  have st': "ms_load_current st' = Some (cm_state c)" "ms_records st' = ms_records st @ [cm_record c]"
    using assms(1) by (simp_all add: commits_def ms_load_current_def)
  from assms(1) j show thesis
  proof (cases rule: commits_cases)
    case (created g)
    then show thesis using assms(3) by simp
  next
    case (extended s s')
    have "ms_load_current st = Some s" using extended(1) j by (simp add: journal_ok_def ms_load_current_def)
    then show thesis using that extended(4,5) st' ok by simp
  qed
qed

lemma commit_settles:
  assumes "loop_commits E st c sc an st'" and "loop_store_ok E st" and "settles (body_of (cm_record c))"
  shows "settled_by E n st st'"
proof -
  have "body_of (cm_record c) \<noteq> RunCreated g" for g using assms(3) by auto
  with assms(1,2) obtain s s' where "ms_load_current st = Some s" "apply_body (le_crypto E) s (body_of (cm_record c)) = Inr s'"
    "ms_load_current st' = Some (advance_head (cm_record c) s')" "loop_store_ok E st'" "ms_records st' = ms_records st @ [cm_record c]"
    by (rule commit_extends)
  then show ?thesis using apply_body_account(1) assms(3) by (simp add: settled_by_def store_fuel_def)
qed

definition settling :: "loop_env \<Rightarrow> nat \<Rightarrow> ('p, 'm, 'f, 'a) loop_op \<Rightarrow> bool" where
  "settling E n m \<longleftrightarrow> (\<forall>w r w'. m w = (r, w') \<longrightarrow> loop_store_ok E (lw_store w) \<longrightarrow>
     settled_by E n (lw_store w) (lw_store w') \<and> lw_calls w' = lw_calls w)"

lemma settlingD:
  "settling E n m \<Longrightarrow> m w = (r, w') \<Longrightarrow> loop_store_ok E (lw_store w) \<Longrightarrow>
     settled_by E n (lw_store w) (lw_store w') \<and> lw_calls w' = lw_calls w"
  by (simp add: settling_def)

lemma settling_try [simp]: "settling E n (rt_try q)"
  by (auto simp: settling_def settled_by_refl)

lemma settling_bind:
  assumes "settling E n m" and "\<And>x. settling E n (k x)"
  shows "settling E n (rt_bind m k)"
  unfolding settling_def
proof (intro allI impI)
  fix w r w'
  assume "rt_bind m k w = (r, w')" and ok: "loop_store_ok E (lw_store w)"
  then show "settled_by E n (lw_store w) (lw_store w') \<and> lw_calls w' = lw_calls w"
  proof (cases rule: rt_bind_cases)
    case (failed e)
    then show ?thesis using settlingD [OF assms(1)] ok by blast
  next
    case (continued x w1)
    note a = settlingD [OF assms(1) continued(1) ok]
    then have "loop_store_ok E (lw_store w1)" by (simp add: settled_by_def)
    from settlingD [OF assms(2) continued(2) this] a show ?thesis by (auto intro: settled_by_trans)
  qed
qed

lemma settling_commit:
  assumes "commits_event E f" and "settles body"
  shows "settling E n (rt_bind (loop_event_of E ports s body) (\<lambda>ev. loop_commit (f ev)))"
  unfolding settling_def
proof (intro allI impI)
  fix w r w'
  assume "rt_bind (loop_event_of E ports s body) (\<lambda>ev. loop_commit (f ev)) w = (r, w')" and ok: "loop_store_ok E (lw_store w)"
  from this(1) assms(1) show "settled_by E n (lw_store w) (lw_store w') \<and> lw_calls w' = lw_calls w"
  proof (cases rule: commit_event_cases)
    case (committed c sc an)
    then show ?thesis using commit_settles [OF committed(2) ok] assms(2) by simp
  qed (use settled_by_refl [OF ok] in \<open>simp add: same_run_def\<close>)
qed

lemma settling_append [simp]: "settles body \<Longrightarrow> settling E n (loop_append E ports s body)"
  unfolding loop_append_def by (rule settling_commit [OF commits_event_ops(1)])

lemma settling_conflict:
  assumes "settling E n m" and "settling E n h"
  shows "settling E n (or_conflict m k h)"
  unfolding settling_def
proof (intro allI impI)
  fix w r w'
  assume run: "or_conflict m k h w = (r, w')" and ok: "loop_store_ok E (lw_store w)"
  obtain q w1 where m: "m w = (q, w1)" by (cases "m w")
  note a = settlingD [OF assms(1) m ok]
  then have ok1: "loop_store_ok E (lw_store w1)" by (simp add: settled_by_def)
  from run m consider "w' = w1" | "h w1 = (r, w')" by (auto simp: or_conflict_def split: sum.splits if_splits)
  then show "settled_by E n (lw_store w) (lw_store w') \<and> lw_calls w' = lw_calls w"
  proof cases
    case 2
    from settlingD [OF assms(2) 2 ok1] a show ?thesis by (auto intro: settled_by_trans)
  qed (use a in simp)
qed

lemma settling_resolve_active [simp]: "settling E n (resolve_active_call E ports call_id intent current)"
  unfolding resolve_active_call_def append_model_call_unknown_def append_model_call_rejection_def
  by (auto intro!: settling_bind split: model_call_status.splits model_call_conflict_intent.splits)

lemma settling_resolve [simp]: "settling E n (resolve_model_call_conflict E ports call_id intent)"
  unfolding settling_def
proof (intro allI impI)
  fix w r w'
  assume run: "resolve_model_call_conflict E ports call_id intent w = (r, w')" and ok: "loop_store_ok E (lw_store w)"
  from run show "settled_by E n (lw_store w) (lw_store w') \<and> lw_calls w' = lw_calls w"
    unfolding resolve_model_call_conflict_def
    by (rule rt_bind_try_cases) (use settled_by_refl [OF ok] settlingD [OF settling_resolve_active _ ok] in auto)
qed

lemma settling_outcomes [simp]:
  "settling E n (record_proposal_rejection E ports reserved call_id reason)"
  "settling E n (record_planner_failure E ports reserved call_id failure)"
  "settling E n (record_stale_model_call E ports call_id)"
  "settling E n (loop_mark_model_call_unknown E ports s call_id why)"
  by (auto intro!: settling_conflict simp: record_proposal_rejection_def record_planner_failure_def record_stale_model_call_def
      loop_mark_model_call_unknown_def append_model_call_unknown_def append_model_call_rejection_def split: sum.splits)

lemma settling_completion [simp]:
  "settling E n (loop_record_completion_candidate E ports base reserved frontier ctxt call_id summary)"
  unfolding loop_record_completion_candidate_def
  by (auto intro!: settling_bind settling_conflict settling_commit commits_event_ops)

lemma settling_accept [simp]:
  "settling E n (accept_plan_proposal E ports base reserved ctxt call_id digest accepted)"
  unfolding accept_plan_proposal_def
  by (auto intro!: settling_bind settling_conflict settling_commit commits_event_ops)

lemma settling_plan [simp]: "settling E n (handle_plan E ports base reserved ctxt call_id prepared)"
  unfolding settling_def
proof (intro allI impI)
  fix w r w'
  assume run: "handle_plan E ports base reserved ctxt call_id prepared w = (r, w')" and ok: "loop_store_ok E (lw_store w)"
  obtain q w1 where m: "loop_materialize E ports base prepared w = (q, w1)" by (cases "loop_materialize E ports base prepared w")
  then have w1: "lw_store w1 = lw_store w" "lw_calls w1 = lw_calls w" by (auto simp: loop_materialize_def split: prod.splits)
  have rejection: "settling E n (or_conflict (append_model_call_rejection E ports reserved call_id MaterializationFailed) k
      (resolve_model_call_conflict E ports call_id RejectStale))" for k
    by (intro settling_conflict) (simp_all add: append_model_call_rejection_def)
  show "settled_by E n (lw_store w) (lw_store w') \<and> lw_calls w' = lw_calls w"
    using run m ok w1 settlingD [OF rejection, of _ w1 r w'] settlingD [OF settling_accept, of _ _ _ _ _ _ _ _ w1 r w']
    by (auto simp: handle_plan_def split: sum.splits)
qed

lemma settling_proposal [simp]:
  "settling E n (handle_proposal E ports al registry base reserved frontier ctxt call_id proposal tool_calls)"
  by (auto simp: handle_proposal_def split: plan_proposal.splits sum.splits proposal_rejection.splits)


section \<open>Giving up a call\<close>

definition spent_by :: "loop_env \<Rightarrow> nat \<Rightarrow> ('p, 'm, 'f) loop_world \<Rightarrow> ('p, 'm, 'f) loop_world \<Rightarrow> bool" where
  "spent_by E n w w' \<longleftrightarrow> lw_calls w' = lw_calls w \<and> settled_by E n (lw_store w) (lw_store w')
     \<and> (lw_store w' = lw_store w \<or> store_fuel n (lw_store w') < store_fuel n (lw_store w))"

lemma spent_by_same: "same_run w w' \<Longrightarrow> loop_store_ok E (lw_store w) \<Longrightarrow> spent_by E n w w'"
  by (simp add: spent_by_def same_run_def settled_by_refl)

lemma commit_spends:
  assumes "loop_commits E st c sc an st'" and "loop_store_ok E st" and "\<And>g. body_of (cm_record c) \<noteq> RunCreated g"
    and "\<And>s s'. ms_load_current st = Some s \<Longrightarrow> apply_body (le_crypto E) s (body_of (cm_record c)) = Inr s' \<Longrightarrow> loop_fuel n s' < loop_fuel n s"
  shows "store_fuel n st' < store_fuel n st"
  using assms(1-3) by (rule commit_extends) (simp add: store_fuel_def assms(4))

lemma append_unknown_spends:
  assumes "append_model_call_unknown E ports s call_id why w = (r, w')" and "loop_store_ok E (lw_store w)"
  shows "spent_by E n w w'" and "\<And>e. r = Inl e \<Longrightarrow> same_run w w'"
proof -
  from assms(1) have "spent_by E n w w' \<and> (\<forall>e. r = Inl e \<longrightarrow> same_run w w')"
    unfolding append_model_call_unknown_def
  proof (cases rule: loop_append_cases)
    case (committed c sc an)
    have "store_fuel n (lw_store w') < store_fuel n (lw_store w)"
      using committed(2) assms(2) by (rule commit_spends) (simp_all add: committed(3) apply_body_spends(2))
    moreover have "settled_by E n (lw_store w) (lw_store w')"
      using committed(2) assms(2) by (rule commit_settles) (simp add: committed(3))
    ultimately show ?thesis using committed(1,4) by (simp add: spent_by_def)
  qed (use spent_by_same [OF _ assms(2)] in auto)
  then show "spent_by E n w w'" "\<And>e. r = Inl e \<Longrightarrow> same_run w w'" by auto
qed

lemma resolve_unknown_spends:
  assumes "resolve_model_call_conflict E ports call_id (MarkUnknown why) w = (r, w')" and "loop_store_ok E (lw_store w)"
  shows "spent_by E n w w'"
proof -
  have same: "spent_by E n w w" using assms(2) by (simp add: spent_by_same)
  have unknown: "spent_by E n w w'"
    if "rt_bind (append_model_call_unknown E ports s call_id why) k w = (r, w')" "\<And>c. \<exists>x. k c = rt_try x" for s k
    using that(1)
  proof (cases rule: rt_bind_cases)
    case (continued c w1)
    then show ?thesis using append_unknown_spends(1) [OF continued(1) assms(2)] that(2) by (metis rt_try_iff)
  qed (use append_unknown_spends(1) [OF _ assms(2)] in blast)
  from assms(1) show ?thesis
    unfolding resolve_model_call_conflict_def
  proof (cases rule: rt_bind_try_cases)
    case (continued s)
    from continued(2) show ?thesis
      unfolding resolve_active_call_def
    proof (cases rule: rt_bind_try_cases)
      case (continued a)
      then show ?thesis using same by (auto split: if_splits model_call_status.splits intro: unknown)
    qed (use same in simp)
  qed (use same in simp)
qed

lemma mark_unknown_spends:
  assumes "loop_mark_model_call_unknown E ports s call_id why w = (r, w')" and "loop_store_ok E (lw_store w)"
  shows "spent_by E n w w'"
proof -
  obtain q w1 where m: "append_model_call_unknown E ports s call_id why w = (q, w1)"
    by (cases "append_model_call_unknown E ports s call_id why w")
  note a = append_unknown_spends [OF m assms(2)]
  from assms(1) m consider "w' = w1" | e where "q = Inl e" "resolve_model_call_conflict E ports call_id (MarkUnknown why) w1 = (r, w')"
    by (auto simp: loop_mark_model_call_unknown_def or_conflict_def split: sum.splits if_splits)
  then show ?thesis
  proof cases
    case (2 e)
    then have w1: "same_run w w1" using a(2) by blast
    then have "spent_by E n w1 w'" using resolve_unknown_spends [OF 2(2)] assms(2) by (simp add: same_run_def)
    then show ?thesis using w1 by (simp add: spent_by_def same_run_def)
  qed (use a(1) in simp)
qed

section \<open>One tick\<close>

definition append_only :: "loop_env \<Rightarrow> ('p, 'm, 'f) loop_ports \<Rightarrow> bool" where
  "append_only E ports \<longleftrightarrow> (\<forall>q st. mem.later (le_crypto E) (le_protocol E) st (lp_rivals ports q st))"

definition request_of :: "model_call_reservation \<Rightarrow> planning_context \<Rightarrow> planner_call_request" where
  "request_of rv ctxt = \<lparr>pcr_call_id = mcr_call_id rv, pcr_request_digest = mcr_request_digest rv, pcr_context = ctxt\<rparr>"

lemma ask_planner_settles:
  assumes "ask_planner E ports al registry s reserved f ctxt rv tool_calls w = (r, w')"
    and "loop_store_ok E (lw_store w)" and "append_only E ports"
  shows "settled_by E n (lp_rivals ports (request_of rv ctxt) (lw_store w)) (lw_store w')"
    and "lw_calls w' = lw_calls w @ [request_of rv ctxt]"
proof -
  obtain q w1 where call: "call_planner ports (request_of rv ctxt) w = (q, w1)" by (cases "call_planner ports (request_of rv ctxt) w")
  then have w1: "lw_store w1 = lp_rivals ports (request_of rv ctxt) (lw_store w)" "lw_calls w1 = lw_calls w @ [request_of rv ctxt]"
    by (auto simp: call_planner_def split: prod.splits)
  have ok: "loop_store_ok E (lw_store w1)"
    unfolding w1(1) using assms(2,3) mem.later_good unfolding append_only_def by blast
  have "settled_by E n (lw_store w1) (lw_store w') \<and> lw_calls w' = lw_calls w1"
  proof (cases q)
    case (Inl e)
    then have "record_planner_failure E ports reserved (mcr_call_id rv) e w1 = (r, w')"
      using assms(1) call by (simp add: ask_planner_def request_of_def)
    then show ?thesis using settlingD [OF settling_outcomes(2)] ok by blast
  next
    case (Inr p)
    then have "handle_proposal E ports al registry s reserved f ctxt (mcr_call_id rv) p tool_calls w1 = (r, w')"
      using assms(1) call by (simp add: ask_planner_def request_of_def)
    then show ?thesis using settlingD [OF settling_proposal] ok by blast
  qed
  then show "settled_by E n (lp_rivals ports (request_of rv ctxt) (lw_store w)) (lw_store w')"
    "lw_calls w' = lw_calls w @ [request_of rv ctxt]" by (simp_all add: w1)
qed

definition asks ::
    "loop_env \<Rightarrow> ('p, 'm, 'f) loop_ports \<Rightarrow> agent_loop \<Rightarrow> memory_run_store \<Rightarrow> model_call_reservation \<Rightarrow> planning_context
      \<Rightarrow> commit \<Rightarrow> memory_run_store \<Rightarrow> bool" where
  "asks E ports al st rv ctxt c st' \<longleftrightarrow>
     body_of (cm_record c) = ModelCallReserved rv \<and> (\<exists>sc an. loop_commits E st c sc an st')
     \<and> mcr_context_digest rv = pcx_context_digest ctxt"

lemma reservation_context:
  "tick_reservation E ports p s c ctxt = Inr rv \<Longrightarrow> mcr_context_digest rv = pcx_context_digest ctxt"
  by (auto simp: tick_reservation_def reservation_new_def Let_def result_simps)

lemma plan_turn_cases:
  assumes "plan_turn E ports al registry s l c f tool_calls w = (r, w')"
    and "loop_store_ok E (lw_store w)" and "append_only E ports"
  obtains (quiet) "same_run w w'"
  | (asked) ctxt rv k st1 where "tick_context E al (lw_store w) s l f registry = Inr (Inr ctxt)"
      and "asks E ports al (lw_store w) rv ctxt k st1" and "lw_calls w' = lw_calls w @ [request_of rv ctxt]"
      and "\<And>n. settled_by E n (lp_rivals ports (request_of rv ctxt) st1) (lw_store w')"
proof (cases "\<exists>ctxt. tick_context E al (lw_store w) s l f registry = Inr (Inr ctxt)")
  case False
  then have "same_run w w'" using assms(1) by (auto simp: plan_turn_def split: sum.splits)
  then show thesis by (rule quiet)
next
  case True
  then obtain ctxt where ctxt: "tick_context E al (lw_store w) s l f registry = Inr (Inr ctxt)" by blast
  with assms(1) have "rt_bind (rt_try (tick_reservation E ports (lw_planner w) s c ctxt)) (\<lambda>rv.
      rt_bind (loop_append E ports s (ModelCallReserved rv)) (\<lambda>committed.
      ask_planner E ports al registry s (cm_state committed) f ctxt rv tool_calls)) w = (r, w')" by (simp add: plan_turn_def)
  then show thesis
  proof (cases rule: rt_bind_try_cases)
    case (continued rv)
    note rv = reservation_context [OF continued(1)]
    from continued(2) show thesis
    proof (cases rule: rt_bind_cases)
      case (failed e)
      from failed(1) have "same_run w w'" by (cases rule: loop_append_cases) auto
      then show thesis by (rule quiet)
    next
      case (continued k w1)
      from continued(1) obtain sc an where k: "loop_commits E (lw_store w) k sc an (lw_store w1)"
        "body_of (cm_record k) = ModelCallReserved rv" "lw_calls w1 = lw_calls w"
        by (cases rule: loop_append_cases) auto
      have ok: "loop_store_ok E (lw_store w1)" using k(1) assms(2) by (rule store_ok_commit)
      show thesis
      proof (rule asked [OF ctxt])
        show "asks E ports al (lw_store w) rv ctxt k (lw_store w1)" using k rv by (auto simp: asks_def)
        show "lw_calls w' = lw_calls w @ [request_of rv ctxt]"
          using ask_planner_settles(2) [OF continued(2) ok assms(3)] k(3) by simp
        show "settled_by E n (lp_rivals ports (request_of rv ctxt) (lw_store w1)) (lw_store w')" for n
          using continued(2) ok assms(3) by (rule ask_planner_settles(1))
      qed
    qed
  qed (simp add: quiet)
qed


text \<open>What the loop has established when it turns to the planner.\<close>

definition planning_due ::
    "agent_loop \<Rightarrow> capability_registry \<Rightarrow> memory_run_store \<Rightarrow> run_state \<Rightarrow> agent_loop_state \<Rightarrow> model_call_lifecycle_state \<Rightarrow> work_frontier \<Rightarrow> bool" where
  "planning_due al registry st s l c f \<longleftrightarrow>
     ms_load_current st = Some s \<and> rs_agent_loop s = Some l \<and> als_budget l = al_budget al
     \<and> als_model_calls l = Some c \<and> mcl_budget c = al_model_call_budget al \<and> mcl_active_call c = None
     \<and> als_completion_candidate l = None \<and> derive_frontier s = Inr f \<and> next_action f = None
     \<and> planning_stop s l c f registry = None"

lemma configure_commits:
  assumes "rt_bind (loop_append E ports s body) k w = (r, w')" and "\<And>c. \<exists>x. k c = rt_try x"
  obtains (failed) "same_run w w'"
  | (committed) c sc an where "loop_commits E (lw_store w) c sc an (lw_store w')" and "body_of (cm_record c) = body"
      and "lw_calls w' = lw_calls w"
  using assms(1)
proof (cases rule: rt_bind_cases)
  case (failed e)
  from failed(1) show thesis by (cases rule: loop_append_cases) (auto intro: that)
next
  case (continued c w1)
  then have "w' = w1" using assms(2) by (metis rt_try_iff)
  with continued(1) show thesis by (cases rule: loop_append_cases) (auto intro: that)
qed

lemma tick_cases:
  assumes "tick E ports al registry w = (r, w')" and "loop_store_ok E (lw_store w)" and "append_only E ports"
  obtains (quiet) "same_run w w'"
  | (configured) s k sc an where "ms_load_current (lw_store w) = Some s" and "rs_agent_loop s = None"
      and "loop_commits E (lw_store w) k sc an (lw_store w')" and "body_of (cm_record k) = AgentLoopConfigured (al_budget al)"
      and "lw_calls w' = lw_calls w"
  | (lifecycle) k sc an where "loop_commits E (lw_store w) k sc an (lw_store w')"
      and "body_of (cm_record k) = ModelCallLifecycleConfigured (al_model_call_budget al)" and "lw_calls w' = lw_calls w"
  | (interrupted) "\<And>n. spent_by E n w w'"
  | (asked) s l c f ctxt rv k st1 where "planning_due al registry (lw_store w) s l c f"
      and "tick_context E al (lw_store w) s l f registry = Inr (Inr ctxt)"
      and "asks E ports al (lw_store w) rv ctxt k st1" and "lw_calls w' = lw_calls w @ [request_of rv ctxt]"
      and "\<And>n. settled_by E n (lp_rivals ports (request_of rv ctxt) st1) (lw_store w')"
proof -
  from assms(1) consider "same_run w w'"
    | s where "ms_load_current (lw_store w) = Some s" "rs_agent_loop s = None" "loop_configure E ports al s w = (r, w')"
    | s where "loop_configure_model_calls E ports al s w = (r, w')"
    | s l c where "ms_load_current (lw_store w) = Some s" "rs_agent_loop s = Some l" "als_budget l = al_budget al"
        "als_model_calls l = Some c" "mcl_budget c = al_model_call_budget al" "configured_tick E ports al registry s l c w = (r, w')"
    unfolding tick_def by (elim rt_bind_try_cases) (auto simp: result_simps split: option.splits if_splits)
  then show thesis
  proof cases
    case 1
    then show thesis by (rule quiet)
  next
    case (2 s)
    from 2(3) show thesis
      unfolding loop_configure_def by (rule configure_commits) (use 2 in \<open>auto intro: quiet configured\<close>)
  next
    case (3 s)
    from 3 show thesis
      unfolding loop_configure_model_calls_def by (rule configure_commits) (auto intro: quiet lifecycle)
  next
    case (4 s l c)
    from 4(6) consider "same_run w w'"
      | i where "loop_mark_model_call_unknown E ports s i Interrupted w = (r, w')"
      | f n where "derive_frontier s = Inr f" "next_action f = None" "mcl_active_call c = None"
          "settled_tick E ports al registry s l c f n w = (r, w')"
      unfolding configured_tick_def
      by (elim rt_bind_try_cases) (auto simp: result_simps split: option.splits if_splits model_call_status.splits)
    then show thesis
    proof cases
      case 1
      then show thesis by (rule quiet)
    next
      case (2 i)
      then show thesis using mark_unknown_spends assms(2) interrupted by blast
    next
      case (3 f n)
      from 3(4) consider "same_run w w'"
        | "als_completion_candidate l = None" "planning_stop s l c f registry = None"
            "plan_turn E ports al registry s l c f n w = (r, w')"
        by (auto simp: settled_tick_def split: option.splits elim!: rt_bind_try_cases)
      then show thesis
      proof cases
        case 1
        then show thesis by (rule quiet)
      next
        case 2
        have due: "planning_due al registry (lw_store w) s l c f" using 2 3 4 by (simp add: planning_due_def)
        from 2(3) assms(2,3) show thesis by (cases rule: plan_turn_cases) (auto intro: quiet asked [OF due])
      qed
    qed
  qed
qed

section \<open>The context that is sent\<close>

lemma pack_context_bounds:
  assumes "pack_context cr pe m steps summaries payload = Inr ctxt"
  shows "unat (pcx_canonical_size_bytes ctxt) \<le> m" and "canonical_size pe (PayloadInput (pcx_payload ctxt)) = Inr (unat (pcx_canonical_size_bytes ctxt))"
proof -
  from assms obtain n where n: "measured pe (PayloadInput (pcx_payload ctxt)) = Inr n" "n \<le> m"
    "u64_try_from n = Some (pcx_canonical_size_bytes ctxt)"
    by (auto simp: pack_context_def Let_def result_simps not_less)
  from n(3) have "pcx_canonical_size_bytes ctxt = of_nat n" "n < 2 ^ 64" by (auto simp: u64_try_from_def split: if_splits)
  then have "unat (pcx_canonical_size_bytes ctxt) = n" by (simp add: unsigned_of_nat take_bit_nat_eq_self)
  with n show "unat (pcx_canonical_size_bytes ctxt) \<le> m"
    "canonical_size pe (PayloadInput (pcx_payload ctxt)) = Inr (unat (pcx_canonical_size_bytes ctxt))"
    by (simp_all add: measured_def map_err_Inr_iff)
qed

lemma context_bounds:
  assumes "build_context_ordered cr ae pe s outs so oo f reg cs b = Inr ctxt"
  shows "unat (pcx_canonical_size_bytes ctxt) \<le> min (unat (alb_max_context_bytes b)) 524288"
    and "canonical_size pe (PayloadInput (pcx_payload ctxt)) = Inr (unat (pcx_canonical_size_bytes ctxt))"
proof -
  have m: "maximum_context_size b = min (unat (alb_max_context_bytes b)) 524288"
    by (simp add: maximum_context_size_def MAX_PLANNING_CONTEXT_BYTES_def)
  from assms obtain steps summaries payload where "pack_context cr pe (maximum_context_size b) steps summaries payload = Inr ctxt"
    by (auto simp: build_context_ordered_def Let_def result_simps)
  from pack_context_bounds [OF this] m show "unat (pcx_canonical_size_bytes ctxt) \<le> min (unat (alb_max_context_bytes b)) 524288"
    "canonical_size pe (PayloadInput (pcx_payload ctxt)) = Inr (unat (pcx_canonical_size_bytes ctxt))" by simp_all
qed

lemma tick_context_Inr:
  assumes "tick_context E al st s l f registry = Inr (Inr ctxt)"
  obtains snap where "build_context_ordered (le_crypto E) (le_admission E) (le_planning E) s (rps_completed_tool_outputs snap)
      (rps_planning_step_order snap) (rps_completed_tool_output_order snap) f registry (al_planning_constraints al)
      (als_budget l) = Inr ctxt"
    and "ms_load_planning_snapshot (le_crypto E) st (expected_head_from_state s)
      (min (alb_max_context_bytes (als_budget l)) MAX_PLANNING_CONTEXT_BYTES) = Inr (Some snap)"
  using assms
  by (auto simp: tick_context_def split: sum.splits option.splits if_splits store_error.splits context_build_error.splits intro: that)


section \<open>Runs of the loop\<close>

definition call_identity :: "planner_call_request \<Rightarrow> string \<times> string \<times> string" where
  "call_identity q = (pcr_call_id q, pcr_request_digest q, pcx_context_digest (pcr_context q))"

fun reservation_identity :: "run_event_body \<Rightarrow> (string \<times> string \<times> string) option" where
  "reservation_identity (ModelCallReserved rv) = Some (mcr_call_id rv, mcr_request_digest rv, mcr_context_digest rv)"
| "reservation_identity _ = None"

definition reserved_identities :: "event_record list \<Rightarrow> (string \<times> string \<times> string) list" where
  "reserved_identities rs = List.map_filter (\<lambda>r. reservation_identity (body_of r)) rs"

lemma reserved_identities_simps [simp]:
  "reserved_identities [] = []"
  "reserved_identities (r # rs) = (case reservation_identity (body_of r) of None \<Rightarrow> reserved_identities rs
     | Some i \<Rightarrow> i # reserved_identities rs)"
  "reserved_identities (rs @ rs') = reserved_identities rs @ reserved_identities rs'"
  by (simp_all add: reserved_identities_def map_filter_def split: option.splits)

lemma reserved_identities_length: "length (reserved_identities rs) = count_events is_reservation rs"
proof (induction rs)
  case (Cons r rs)
  then show ?case by (cases "body_of r") (simp_all add: count_events_def)
qed (simp add: count_events_def)

lemma reserved_identities_prefix: "prefix rs rs' \<Longrightarrow> prefix (reserved_identities rs) (reserved_identities rs')"
  by (auto simp: prefix_def)

text \<open>
  A run of the loop: on a store built by appends, with no planner call made yet, any ticks and
  abandonments under any configurations, with other writers appending in between.
\<close>

inductive loop_run :: "loop_env \<Rightarrow> ('p, 'm, 'f) loop_ports \<Rightarrow> capability_registry \<Rightarrow> ('p, 'm, 'f) loop_world \<Rightarrow> bool"
  for E :: loop_env and ports :: "('p, 'm, 'f) loop_ports" and registry :: capability_registry where
  started: "store_built (le_crypto E) (le_protocol E) (lw_store w) \<Longrightarrow> lw_calls w = [] \<Longrightarrow> loop_run E ports registry w"
| ticked: "loop_run E ports registry w \<Longrightarrow> tick E ports al registry w = (r, w') \<Longrightarrow> loop_run E ports registry w'"
| abandoned: "loop_run E ports registry w \<Longrightarrow> abandon_model_call E ports al call_id w = (r, w') \<Longrightarrow> loop_run E ports registry w'"
| appended: "loop_run E ports registry w \<Longrightarrow> ms_appends (le_crypto E) (le_protocol E) (lw_store w) h c st \<Longrightarrow>
    loop_run E ports registry (w\<lparr>lw_store := st\<rparr>)"

definition calls_journaled :: "loop_env \<Rightarrow> ('p, 'm, 'f) loop_world \<Rightarrow> bool" where
  "calls_journaled E w \<longleftrightarrow> loop_store_ok E (lw_store w)
     \<and> subseq (map call_identity (lw_calls w)) (reserved_identities (ms_records (lw_store w)))"

lemma calls_journaled_kept:
  assumes "calls_journaled E w" and "lw_calls w' = lw_calls w" and "loop_store_ok E (lw_store w')"
    and "prefix (ms_records (lw_store w)) (ms_records (lw_store w'))"
  shows "calls_journaled E w'"
  using assms reserved_identities_prefix [OF assms(4)]
  by (auto simp: calls_journaled_def intro: subseq_order.trans prefix_imp_subseq)

lemma settled_by_D: "settled_by E n st st' \<Longrightarrow> loop_store_ok E st' \<and> prefix (ms_records st) (ms_records st')"
  by (auto simp: settled_by_def)

lemma commits_D:
  "loop_commits E st k sc an st' \<Longrightarrow> loop_store_ok E st \<Longrightarrow> loop_store_ok E st' \<and> ms_records st' = ms_records st @ [cm_record k]"
  by (auto simp: commits_def intro: store_ok_commit)

lemma asked_records:
  assumes "asks E ports al st rv ctxt k st1" and "loop_store_ok E st" and "append_only E ports"
    and "settled_by E n (lp_rivals ports q st1) st'"
  shows "loop_store_ok E st1" and "loop_store_ok E st'" and "prefix (ms_records st @ [cm_record k]) (ms_records st')"
    and "body_of (cm_record k) = ModelCallReserved rv" and "mcr_context_digest rv = pcx_context_digest ctxt"
proof -
  from assms(1) obtain sc an where k: "loop_commits E st k sc an st1" "body_of (cm_record k) = ModelCallReserved rv"
    "mcr_context_digest rv = pcx_context_digest ctxt" by (auto simp: asks_def)
  note a = commits_D [OF k(1) assms(2)]
  have "mem.later (le_crypto E) (le_protocol E) st1 (lp_rivals ports q st1)" using assms(3) by (simp add: append_only_def)
  from mem.later_good [OF this] a settled_by_D [OF assms(4)]
  show "loop_store_ok E st1" "loop_store_ok E st'" "prefix (ms_records st @ [cm_record k]) (ms_records st')"
    by (auto intro: prefix_order.trans)
qed (use assms(1) in \<open>auto simp: asks_def\<close>)

lemma tick_journaled:
  assumes "tick E ports al registry w = (r, w')" and "append_only E ports" and "calls_journaled E w"
  shows "calls_journaled E w'"
proof -
  have ok: "loop_store_ok E (lw_store w)" using assms(3) by (simp add: calls_journaled_def)
  from assms(1) ok assms(2) show ?thesis
  proof (cases rule: tick_cases)
    case quiet
    then show ?thesis using assms(3) by (simp add: same_run_def calls_journaled_def)
  next
    case (configured s k sc an)
    then show ?thesis by (intro calls_journaled_kept [OF assms(3)]) (use commits_D [OF configured(3) ok] in simp_all)
  next
    case (lifecycle k sc an)
    then show ?thesis by (intro calls_journaled_kept [OF assms(3)]) (use commits_D [OF lifecycle(1) ok] in simp_all)
  next
    case interrupted
    then have "settled_by E 0 (lw_store w) (lw_store w')" "lw_calls w' = lw_calls w" by (simp_all add: spent_by_def)
    then show ?thesis using calls_journaled_kept [OF assms(3)] settled_by_D by blast
  next
    case (asked s l c f ctxt rv k st1)
    note a = asked_records [OF asked(3) ok assms(2) asked(5) [of 0]]
    have "subseq (map call_identity (lw_calls w) @ [call_identity (request_of rv ctxt)])
        (reserved_identities (ms_records (lw_store w) @ [cm_record k]))"
      using assms(3) a(4,5)
      by (auto simp: calls_journaled_def call_identity_def request_of_def intro: list_emb_append_mono)
    then show ?thesis
      using a(2) asked(4) reserved_identities_prefix [OF a(3)]
      by (auto simp: calls_journaled_def intro: subseq_order.trans prefix_imp_subseq)
  qed
qed

lemma settling_abandon: "settling E n (abandon_model_call E ports al call_id)"
  unfolding settling_def
proof (intro allI impI)
  fix w r w'
  assume run: "abandon_model_call E ports al call_id w = (r, w')" and ok: "loop_store_ok E (lw_store w)"
  from run consider "w' = w"
    | s where "rt_bind (loop_append E ports s (ModelCallSettled call_id (Abandoned RecoveryDiscarded))) (\<lambda>k.
        rt_try (Inr (AT_ModelCallAbandoned call_id (head_from_state (cm_state k))))) w = (r, w')"
    unfolding abandon_model_call_def by (elim rt_bind_try_cases) (auto split: if_splits elim!: rt_bind_try_cases)
  then show "settled_by E n (lw_store w) (lw_store w') \<and> lw_calls w' = lw_calls w"
  proof cases
    case (2 s)
    have "settling E n (rt_bind (loop_append E ports s (ModelCallSettled call_id (Abandoned RecoveryDiscarded))) (\<lambda>k.
        rt_try (Inr (AT_ModelCallAbandoned call_id (head_from_state (cm_state k))))))"
      by (intro settling_bind) simp_all
    then show ?thesis using 2 ok by (rule settlingD)
  qed (use settled_by_refl [OF ok] in simp)
qed

lemma loop_run_journaled:
  assumes "loop_run E ports registry w" and "append_only E ports"
  shows "calls_journaled E w"
  using assms(1)
proof (induction rule: loop_run.induct)
  case (started w)
  then show ?case by (simp add: calls_journaled_def store_built_ok)
next
  case (ticked w al r w')
  then show ?case using tick_journaled assms(2) by blast
next
  case (abandoned w al call_id r w')
  have "loop_store_ok E (lw_store w)" using abandoned.IH by (simp add: calls_journaled_def)
  from settlingD [OF settling_abandon abandoned.hyps(2) this, of 0] show ?case
    using calls_journaled_kept [OF abandoned.IH] settled_by_D by blast
next
  case (appended w h c st)
  then show ?case
    by (intro calls_journaled_kept [OF appended.IH]) (auto simp: calls_journaled_def dest: mem.keeps mem.adds)
qed

section \<open>Ticking alone\<close>

definition ticks :: "loop_env \<Rightarrow> ('p, 'm, 'f) loop_ports \<Rightarrow> agent_loop \<Rightarrow> capability_registry \<Rightarrow> nat \<Rightarrow> ('p, 'm, 'f) loop_world
    \<Rightarrow> ('p, 'm, 'f) loop_world" where
  "ticks E ports al registry n = (\<lambda>w. snd (tick E ports al registry w)) ^^ n"

lemma ticks_Suc: "tick E ports al registry (ticks E ports al registry i w) = (r, w') \<Longrightarrow> ticks E ports al registry (Suc i) w = w'"
  by (simp add: ticks_def)

lemma fuel_bound: "store_fuel n st \<le> 2 * n + 3"
  by (auto simp: store_fuel_def loop_fuel_def reserved_now_def split: option.splits)

lemma tick_spends:
  assumes "tick E ports al registry w = (r, w')" and "loop_store_ok E (lw_store w)"
    and alone: "\<And>q st. lp_rivals ports q st = st" and "lw_store w' \<noteq> lw_store w"
  shows "store_fuel (unat (mcb_max_model_calls (al_model_call_budget al))) (lw_store w')
    < store_fuel (unat (mcb_max_model_calls (al_model_call_budget al))) (lw_store w)" (is "store_fuel ?n _ < _")
proof -
  have only: "append_only E ports" by (simp add: append_only_def alone mem.later_def)
  from assms(1,2) only show ?thesis
  proof (cases rule: tick_cases)
    case quiet
    then show ?thesis using assms(4) by (simp add: same_run_def)
  next
    case (configured s k sc an)
    from configured(3) assms(2) show ?thesis
      by (rule commit_spends) (use configured in \<open>auto intro: apply_body_account(3)\<close>)
  next
    case (lifecycle k sc an)
    from lifecycle(1) assms(2) show ?thesis
      by (rule commit_spends) (use lifecycle in \<open>auto intro: apply_body_spends(1)\<close>)
  next
    case interrupted
    from this [of ?n] show ?thesis using assms(4) by (simp add: spent_by_def)
  next
    case (asked s l c f ctxt rv k st1)
    from asked(3) obtain sc an where k: "loop_commits E (lw_store w) k sc an st1" "body_of (cm_record k) = ModelCallReserved rv"
      by (auto simp: asks_def)
    note due = asked(1) [unfolded planning_due_def]
    from k(1) assms(2) have "store_fuel ?n st1 < store_fuel ?n (lw_store w)"
    proof (rule commit_spends)
      fix x x'
      assume "ms_load_current (lw_store w) = Some x" "apply_body (le_crypto E) x (body_of (cm_record k)) = Inr x'"
      with due k(2) show "loop_fuel ?n x' < loop_fuel ?n x" by (intro apply_body_spends(3)) auto
    qed (simp add: k(2))
    moreover have "store_fuel ?n (lw_store w') \<le> store_fuel ?n st1"
      using asked(5) [of ?n] by (simp add: settled_by_def alone)
    ultimately show ?thesis by simp
  qed
qed

lemma tick_store_ok:
  assumes "tick E ports al registry w = (r, w')" and "append_only E ports" and "loop_store_ok E (lw_store w)"
  shows "loop_store_ok E (lw_store w')"
proof -
  from assms(1,3,2) show ?thesis
  proof (cases rule: tick_cases)
    case (asked s l c f ctxt rv k st1)
    then show ?thesis using asked_records(2) [OF asked(3) assms(3,2) asked(5) [of 0]] by simp
  next
    case interrupted
    from this [of 0] show ?thesis by (simp add: spent_by_def settled_by_def)
  qed (use assms(3) in \<open>auto simp: same_run_def dest: commits_D\<close>)
qed

text \<open>A measure that falls whenever a sequence moves bounds how often it moves.\<close>

lemma moves_bounded:
  fixes m :: "'a \<Rightarrow> nat" and x :: "nat \<Rightarrow> 'a"
  assumes "\<And>i. x (Suc i) \<noteq> x i \<Longrightarrow> m (x (Suc i)) < m (x i)"
  shows "card {i. i < n \<and> x (Suc i) \<noteq> x i} + m (x n) \<le> m (x 0)"
proof (induction n)
  case (Suc n)
  show ?case
  proof (cases "x (Suc n) = x n")
    case True
    then have "{i. i < Suc n \<and> x (Suc i) \<noteq> x i} = {i. i < n \<and> x (Suc i) \<noteq> x i}" by (auto simp: less_Suc_eq)
    then show ?thesis using Suc True by simp
  next
    case False
    then have "{i. i < Suc n \<and> x (Suc i) \<noteq> x i} = insert n {i. i < n \<and> x (Suc i) \<noteq> x i}" by (auto simp: less_Suc_eq)
    then show ?thesis using Suc assms [OF False] by simp
  qed
qed simp

lemma finitely_many_moves:
  fixes m :: "'a \<Rightarrow> nat" and x :: "nat \<Rightarrow> 'a"
  assumes "\<And>i. x (Suc i) \<noteq> x i \<Longrightarrow> m (x (Suc i)) < m (x i)"
  shows "finite {i. x (Suc i) \<noteq> x i}" and "card {i. x (Suc i) \<noteq> x i} \<le> m (x 0)"
proof -
  have le: "card F \<le> m (x 0)" if "finite F" "F \<subseteq> {i. x (Suc i) \<noteq> x i}" for F
  proof -
    from that(1) obtain n where "\<forall>i\<in>F. i < n" by (auto simp only: finite_nat_set_iff_bounded)
    then have "F \<subseteq> {i. i < n \<and> x (Suc i) \<noteq> x i}" using that(2) by auto
    then have "card F \<le> card {i. i < n \<and> x (Suc i) \<noteq> x i}" by (intro card_mono) auto
    then show ?thesis using moves_bounded [of x m n] assms by simp
  qed
  show fin: "finite {i. x (Suc i) \<noteq> x i}"
  proof (rule ccontr)
    assume "infinite {i. x (Suc i) \<noteq> x i}"
    then obtain F where "F \<subseteq> {i. x (Suc i) \<noteq> x i}" "finite F" "card F = Suc (m (x 0))"
      using infinite_arbitrarily_large by blast
    then show False using le by fastforce
  qed
  show "card {i. x (Suc i) \<noteq> x i} \<le> m (x 0)" using le [OF fin] by simp
qed

end
