(* ===== verification/Sample_Loop.thy ===== *)
theory Sample_Loop
  imports Loop_Accounting Sample_Run
begin

text \<open>
  A concrete run of the agent loop: a run with no step, the loop and its model calls configured, and a
  planner that times out. The planner is called by the next tick.
\<close>

definition quiet_state :: "u64 \<Rightarrow> agent_loop_state option \<Rightarrow> run_state" where
  "quiet_state n l = \<lparr>rs_run_id = ''r'', rs_authority = ''u'', rs_authority_epoch = 1, rs_goal = ''g'', rs_revision = n,
     rs_journal_sequence = n, rs_journal_head_digest = sample_digest, rs_steps = bm_empty,
     rs_authorization_consumption = bm_empty, rs_agent_loop = l\<rparr>"

definition quiet_store :: "event_record list \<Rightarrow> string btreeset \<Rightarrow> run_state \<Rightarrow> memory_run_store" where
  "quiet_store rs names s = ms_new\<lparr>ms_records := rs, ms_projection := Some s,
     ms_index := vx_default\<lparr>vx_event_ids := names, vx_state := Some s, vx_last_record := Some (last rs)\<rparr>\<rparr>"

definition quiet_record :: "u64 \<Rightarrow> string \<Rightarrow> run_event_body \<Rightarrow> event_record" where
  "quiet_record n i body = \<lparr>er_sequence = n, er_previous_digest = Some sample_digest, er_event = sample_event i body, er_digest = sample_digest\<rparr>"

fun quiet_body :: "run_event_body \<Rightarrow> bool" where
  "quiet_body (AgentLoopConfigured _) = True"
| "quiet_body (ModelCallLifecycleConfigured _) = True"
| "quiet_body (ModelCallReserved _) = True"
| "quiet_body _ = False"

lemma sample_store1_quiet: "sample_store1 = quiet_store [cm_record sample_commit1] (bs_insert ''e1'' bs_empty) (quiet_state 1 None)"
  by (simp add: sample_store1_def quiet_store_def quiet_state_def sample_commit1_def Let_def advance_head_def initial_state_def
      sample_event_def ms_new_def vx_default_def)

lemma quiet_record_simps [simp]:
  "er_sequence (quiet_record n i body) = n" "er_digest (quiet_record n i body) = sample_digest"
  "er_event (quiet_record n i body) = sample_event i body" "re_event_id (sample_event i body) = i" "re_body (sample_event i body) = body"
  by (simp_all add: quiet_record_def sample_event_def)

lemma quiet_state_simps [simp]:
  "rs_run_id (quiet_state n l) = ''r''" "rs_authority (quiet_state n l) = ''u''" "rs_authority_epoch (quiet_state n l) = 1"
  "rs_journal_sequence (quiet_state n l) = n" "rs_journal_head_digest (quiet_state n l) = sample_digest"
  "rs_steps (quiet_state n l) = bm_empty" "rs_agent_loop (quiet_state n l) = l" "rs_goal (quiet_state n l) = ''g''"
  "advance_head (quiet_record k i body) (quiet_state n l) = quiet_state k l"
  "put_loop l' (quiet_state n l) = quiet_state n (Some l')"
  by (simp_all add: quiet_state_def advance_head_def quiet_record_def)

lemma quiet_append:
  assumes "quiet_body body" and "\<not> bs_contains names i" and "rs \<noteq> []" and "er_sequence (last rs) = n"
    and "er_digest (last rs) = sample_digest" and "unat n < 100"
    and "apply_body sample_crypto (quiet_state n l) body = Inr (quiet_state n l')"
  shows "ms_append sample_crypto sample_env (quiet_store rs names (quiet_state n l)) (HeadExact n sample_digest) (sample_event i body)
    = Inr (\<lparr>cm_record = quiet_record (n + 1) i body, cm_state = quiet_state (n + 1) l'\<rparr>,
        quiet_store (rs @ [quiet_record (n + 1) i body]) (bs_insert i names) (quiet_state (n + 1) l'))"
proof -
  have digest: "event_record_next sample_crypto (Some (last rs)) (sample_event i body) = Inr (quiet_record (n + 1) i body)"
    using assms by (simp add: event_record_next_def record_digest_def quiet_record_def checked_add_def)
  have applied: "apply_record sample_crypto (Some (quiet_state n l)) (quiet_record (n + 1) i body) = Inr (quiet_state (n + 1) l')"
    using assms(1,6,7)
    by (cases body) (simp_all add: apply_record_def verify_record_against_state_def verify_digest_def record_digest_def
        checked_add_def quiet_state_simps(9) [unfolded quiet_record_def sample_event_def] quiet_record_def sample_event_def)
  have index: "index_head (ms_index (quiet_store rs names (quiet_state n l))) = HeadExact n sample_digest"
    using assms(4,5) by (simp add: quiet_store_def index_head_def)
  have commit: "commit_event (quiet_record (n + 1) i body) an idx = Inr idx" for an idx
    using assms(1) by (cases body) (simp_all add: commit_event_def quiet_record_def sample_event_def)
  have sidecars: "verify_commit_sidecars sample_crypto sample_env (sample_event i body) no_sidecars = Inr ()"
    using assms(1)
    by (cases body) (simp_all add: verify_commit_sidecars_def verify_plan_input_bundle_def verify_material_bundle_def
        verify_receipt_bundle_def verify_tool_output_bundle_def verify_completion_output_bundle_def sample_event_def)
  show ?thesis
    using assms(2)
    by (simp add: ms_append_def sidecars prepare_commit_def index ms_commit_def apply_committed_def commit Let_def)
       (simp add: quiet_store_def digest applied commit commit_plan_inputs_def commit_material_def commit_output_def
         commit_receipt_def)
qed


section \<open>Its environment\<close>

definition sample_planning_env :: planning_env where
  "sample_planning_env = \<lparr>pe_jcs = \<lambda>_. Inr [], pe_schema_errors = \<lambda>_. Some (\<lambda>_. None)\<rparr>"

definition sample_loop_env :: loop_env where
  "sample_loop_env = \<lparr>le_crypto = sample_crypto, le_admission = sample_admission_env, le_protocol = sample_env,
     le_planning = sample_planning_env, le_pointers = rfc_pointers, le_resolver = \<lambda>_ x. Inr x\<rparr>"

definition sample_loop_ports :: "(unit, unit, nat) loop_ports" where
  "sample_loop_ports = \<lparr>lp_metadata = \<lambda>n s. (Inr \<lparr>em_event_id = replicate n CHR ''x'', em_recorded_at = ''t''\<rparr>, Suc n),
     lp_lease_run_id = ''r'', lp_planner_id = \<lambda>_. ''p'', lp_request_profile_digest = \<lambda>_. sample_digest,
     lp_plan = \<lambda>p q. (Inl PF_Timeout, p), lp_materialize = \<lambda>m q. (Inl PMF_Unavailable, m), lp_rivals = \<lambda>q st. st\<rparr>"

definition sample_agent_loop :: agent_loop where
  "sample_agent_loop = \<lparr>al_budget = sample_budget, al_model_call_budget = \<lparr>mcb_max_model_calls = 2\<rparr>, al_planning_constraints = []\<rparr>"

definition empty_catalog :: capability_registry where
  "empty_catalog = \<lparr>reg_definitions = bm_empty, reg_instances = bm_empty\<rparr>"

definition idle_loop :: agent_loop_state where
  "idle_loop = sample_loop 0 (Some (sample_calls 0 0 None)) None"

definition idle_store :: memory_run_store where
  "idle_store = quiet_store [cm_record sample_commit1, quiet_record 2 ''x'' (AgentLoopConfigured sample_budget),
       quiet_record 3 ''xx'' (ModelCallLifecycleConfigured \<lparr>mcb_max_model_calls = 2\<rparr>)]
     (bs_insert ''xx'' (bs_insert ''x'' (bs_insert ''e1'' bs_empty))) (quiet_state 3 (Some idle_loop))"

definition idle_world :: "(unit, unit, nat) loop_world" where
  "idle_world = \<lparr>lw_store = idle_store, lw_planner = (), lw_materializer = (), lw_events = 3, lw_calls = []\<rparr>"

lemma idle_built: "store_built sample_crypto sample_env idle_store"
proof -
  have "apply_body sample_crypto (quiet_state 1 None) (AgentLoopConfigured sample_budget) = Inr (quiet_state 1 (Some (sample_loop 0 None None)))"
    by (simp add: apply_body_def configure_agent_loop_def sample_budget_def agent_loop_budget_validate_def total_attempts_def
        bm_values_def u32_try_from_def sample_loop_def)
  from quiet_append [OF _ _ _ _ _ _ this, of "bs_insert ''e1'' bs_empty" "''x''" "[cm_record sample_commit1]"]
  have "ms_append sample_crypto sample_env sample_store1 (HeadExact 1 sample_digest) (sample_event ''x'' (AgentLoopConfigured sample_budget))
    = Inr (\<lparr>cm_record = quiet_record 2 ''x'' (AgentLoopConfigured sample_budget), cm_state = quiet_state 2 (Some (sample_loop 0 None None))\<rparr>,
        quiet_store [cm_record sample_commit1, quiet_record 2 ''x'' (AgentLoopConfigured sample_budget)]
          (bs_insert ''x'' (bs_insert ''e1'' bs_empty)) (quiet_state 2 (Some (sample_loop 0 None None))))" (is "_ = Inr (?c, ?st)")
    by (simp add: sample_store1_quiet sample_commit1_def Let_def)
  then have "ms_appends sample_crypto sample_env sample_store1 (HeadExact 1 sample_digest) ?c ?st"
    unfolding ms_appends_def by blast
  with sample_built(1) have built: "store_built sample_crypto sample_env ?st" by (rule store_built.appended)
  have "apply_body sample_crypto (quiet_state 2 (Some (sample_loop 0 None None))) (ModelCallLifecycleConfigured \<lparr>mcb_max_model_calls = 2\<rparr>)
      = Inr (quiet_state 2 (Some idle_loop))"
    by (simp add: apply_body_def configure_model_call_lifecycle_def model_call_budget_validate_def sample_loop_def sample_calls_def
        idle_loop_def Let_def validate_model_call_counters_def)
  from quiet_append [OF _ _ _ _ _ _ this, of "bs_insert ''x'' (bs_insert ''e1'' bs_empty)" "''xx''"
      "[cm_record sample_commit1, quiet_record 2 ''x'' (AgentLoopConfigured sample_budget)]"]
  have "ms_append sample_crypto sample_env ?st (HeadExact 2 sample_digest) (sample_event ''xx'' (ModelCallLifecycleConfigured \<lparr>mcb_max_model_calls = 2\<rparr>))
    = Inr (\<lparr>cm_record = quiet_record 3 ''xx'' (ModelCallLifecycleConfigured \<lparr>mcb_max_model_calls = 2\<rparr>),
        cm_state = quiet_state 3 (Some idle_loop)\<rparr>, idle_store)"
    by (simp add: idle_store_def)
  then have "ms_appends sample_crypto sample_env ?st (HeadExact 2 sample_digest)
      \<lparr>cm_record = quiet_record 3 ''xx'' (ModelCallLifecycleConfigured \<lparr>mcb_max_model_calls = 2\<rparr>),
       cm_state = quiet_state 3 (Some idle_loop)\<rparr> idle_store" unfolding ms_appends_def by blast
  with built show ?thesis by (rule store_built.appended)
qed

section \<open>A tick that calls the planner\<close>

definition idle_reservation :: model_call_reservation where
  "idle_reservation = \<lparr>mcr_format_version = MODEL_CALL_FORMAT_VERSION, mcr_call_id = sample_call_id, mcr_planner_id = ''p'',
     mcr_call_index = 1, mcr_turn_index = 1, mcr_base_sequence = 3, mcr_base_head_digest = sample_digest,
     mcr_context_digest = sample_digest, mcr_request_digest = sample_digest\<rparr>"

lemma idle_frontier: "derive_frontier (quiet_state n l) = Inr (finish empty_assembly (quiet_state n l))"
proof -
  have "bm_pop_first (bm_empty :: string btreeset) = None" by (simp add: bm.pop_first_None_iff)
  then show ?thesis
    by (simp add: derive_frontier_def validate_frontier_graph_def frontier_loop.simps bs_of_list_def empty_assembly_def)
qed

lemma idle_snapshot:
  "ms_load_planning_snapshot sample_crypto idle_store (HeadExact 3 sample_digest) m
     = Inr (Some \<lparr>rps_state = quiet_state 3 (Some idle_loop), rps_planning_step_order = [],
         rps_completed_tool_output_order = [], rps_completed_tool_outputs = bm_empty\<rparr>)"
  by (simp add: ms_load_planning_snapshot_def build_planning_snapshot_def index_head_def idle_store_def quiet_store_def
      quiet_record_def planning_step_order_def completed_tool_output_order_def vx_default_def bm_keys_def bs_of_list_def)


lemma sample_planning [simp]:
  "sha256_digest sample_crypto v = sample_digest" "pe_jcs sample_planning_env i = Inr []" "Planning_Types.valid_sha256_digest sample_digest"
  "length sample_digest = 71"
proof -
  show "sha256_digest sample_crypto v = sample_digest" by (simp add: sha256_digest_def sample_crypto_def sample_digest_def sample_hex_def)
  show "pe_jcs sample_planning_env i = Inr []" by (simp add: sample_planning_env_def)
  show "Planning_Types.valid_sha256_digest sample_digest"
    using sample_hex_facts by (simp add: Planning_Types.valid_sha256_digest_def sample_digest_def strip_prefix_def del: append.simps)
  show "length sample_digest = 71" using sample_hex_facts(1) by (simp add: sample_digest_def)
qed

lemma sample_measures [simp]:
  "canonical_size sample_planning_env i = Inr 0" "measured sample_planning_env i = Inr 0"
  "planning_digest sample_crypto sample_planning_env i = Inr sample_digest"
  by (simp_all add: canonical_size_def planning_digest_def measured_def)

lemma idle_context:
  "\<exists>ctxt. tick_context sample_loop_env sample_agent_loop idle_store (quiet_state 3 (Some idle_loop)) idle_loop f empty_catalog = Inr (Inr ctxt)
     \<and> pcx_context_digest ctxt = sample_digest"
proof -
  have "pack_context sample_crypto sample_planning_env m [] [] payload
      = Inr \<lparr>pcx_payload = payload, pcx_context_digest = sample_digest, pcx_canonical_size_bytes = 0\<rparr>" for m payload
    by (simp add: pack_context_def u64_try_from_def)
  moreover have "sort_summaries [] = []" by (simp add: sort_summaries_def)
  ultimately show ?thesis
    by (simp add: tick_context_def sample_loop_env_def idle_snapshot expected_head_from_state_def build_context_ordered_def
      planning_context_preflight_def empty_catalog_def bs_of_list_def sample_agent_loop_def build_planning_tool_outputs_def
      catalog_digest_of_def bm_values_def bs_list_def bm_keys_def usize_checked_add_def MAX_PLANNING_HEADER_TEXT_BYTES_def Let_def)
qed

lemma idle_reserved:
  "tick_reservation sample_loop_env sample_loop_ports () (quiet_state 3 (Some idle_loop)) (sample_calls 0 0 None) ctxt = Inr idle_reservation"
  if "pcx_context_digest ctxt = sample_digest"
  using that
  by (simp add: tick_reservation_def sample_loop_env_def sample_loop_ports_def planner_request_digest_def Let_def
     next_turn_index_def idle_loop_def sample_loop_def sample_calls_def reservation_new_def idle_reservation_def checked_add_def
     identifier_ok require_model_call_identifier_def
      identifier_byte_def is_ascii_alphanumeric_def is_ascii_lowercase_def byte_val_def model_call_id_def
      require_planning_digest_def sample_call_id_def [symmetric] del: append.simps)

lemma idle_reservation_applies:
  "apply_body sample_crypto (quiet_state 3 (Some idle_loop)) (ModelCallReserved idle_reservation)
     = Inr (quiet_state 3 (Some (sample_loop 0 (Some (sample_calls 1 0 (Some \<lparr>mcs_reservation = idle_reservation, mcs_status = Reserved\<rparr>))) None)))"
proof -
  have "reservation_validate_for sample_crypto idle_reservation ''r'' 1 = Inr ()"
    by (simp add: reservation_validate_for_def idle_reservation_def identifier_ok require_model_call_identifier_def
      identifier_byte_def is_ascii_alphanumeric_def is_ascii_lowercase_def byte_val_def model_call_id_def
      require_planning_digest_def MODEL_CALL_FORMAT_VERSION_def sample_call_id_def [symmetric] del: append.simps)
  then show ?thesis
    by (simp add: apply_body_def reserve_model_call_def idle_loop_def sample_loop_def sample_calls_def sample_budget_def
        idle_reservation_def checked_add_def validate_model_call_counters_def Let_def)
qed

lemma idle_append_only: "append_only sample_loop_env sample_loop_ports"
  by (simp add: append_only_def sample_loop_ports_def mem.later_def)

lemma idle_simps [simp]:
  "als_budget idle_loop = sample_budget" "als_model_calls idle_loop = Some (sample_calls 0 0 None)"
  "als_completion_candidate idle_loop = None" "mcl_budget (sample_calls r q a) = \<lparr>mcb_max_model_calls = 2\<rparr>"
  "mcl_active_call (sample_calls r q a) = a" "al_budget sample_agent_loop = sample_budget"
  "al_model_call_budget sample_agent_loop = \<lparr>mcb_max_model_calls = 2\<rparr>" "lp_lease_run_id sample_loop_ports = ''r''"
  "lw_store idle_world = idle_store" "lw_planner idle_world = ()" "lw_calls idle_world = []" "le_crypto sample_loop_env = sample_crypto"
  "le_protocol sample_loop_env = sample_env"
  by (simp_all add: idle_loop_def sample_loop_def sample_calls_def sample_agent_loop_def sample_loop_ports_def idle_world_def
      sample_loop_env_def)

lemma idle_append:
  "\<exists>k w1. loop_append sample_loop_env sample_loop_ports (quiet_state 3 (Some idle_loop)) (ModelCallReserved idle_reservation) idle_world = (Inr k, w1)
     \<and> loop_store_ok sample_loop_env (lw_store w1)"
proof -
  let ?s = "quiet_state 3 (Some idle_loop)"
  let ?rs = "ms_records idle_store" let ?names = "bs_insert ''xx'' (bs_insert ''x'' (bs_insert ''e1'' bs_empty))"
  have st: "idle_store = quiet_store ?rs ?names ?s" by (simp add: idle_store_def quiet_store_def)
  have ev: "loop_event_of sample_loop_env sample_loop_ports ?s body idle_world
      = (Inr (sample_event ''xxx'' body), idle_world\<lparr>lw_events := 4\<rparr>)" for body
    by (simp add: loop_event_of_def sample_loop_ports_def idle_world_def metadata_validate_def sample_env_def runtime_event_def
        sample_event_def numeral_3_eq_3 sample_loop_env_def)
  from quiet_append [OF _ _ _ _ _ _ idle_reservation_applies, of ?names "''xxx''" ?rs]
  obtain k st' where a: "ms_append sample_crypto sample_env idle_store (HeadExact 3 sample_digest)
      (sample_event ''xxx'' (ModelCallReserved idle_reservation)) = Inr (k, st')"
    unfolding st [symmetric] by (auto simp: idle_store_def quiet_store_def)
  then have "ms_appends sample_crypto sample_env idle_store (HeadExact 3 sample_digest) k st'" unfolding ms_appends_def by blast
  then have "store_ok sample_crypto sample_env st'" using mem.keeps store_built_ok [OF idle_built] by blast
  then show ?thesis using a
    by (simp add: loop_append_def rt_bind_def ev loop_commit_def expected_head_from_state_def)
qed

lemma idle_tick: "lw_calls (snd (tick sample_loop_env sample_loop_ports sample_agent_loop empty_catalog idle_world)) \<noteq> []"
proof -
  let ?s = "quiet_state 3 (Some idle_loop)"
  let ?f = "finish empty_assembly ?s"
  obtain ctxt where c: "tick_context sample_loop_env sample_agent_loop idle_store ?s idle_loop ?f empty_catalog = Inr (Inr ctxt)"
    "pcx_context_digest ctxt = sample_digest" using idle_context by blast
  have m: "ms_load_current (lw_store idle_world) = Some ?s" by (simp add: idle_store_def quiet_store_def ms_load_current_def)
  have stop: "planning_stop ?s idle_loop (sample_calls 0 0 None) ?f empty_catalog = None"
    by (simp add: planning_stop_def terminal_quiescence_def finish_def empty_assembly_def idle_loop_def sample_loop_def sample_calls_def
        sample_budget_def planning_context_preflight_def empty_catalog_def usize_checked_add_def MAX_PLANNING_HEADER_TEXT_BYTES_def)
  have quiet: "next_action ?f = None" by (simp add: next_action_def finish_def empty_assembly_def)
  have "tick sample_loop_env sample_loop_ports sample_agent_loop empty_catalog idle_world
    = plan_turn sample_loop_env sample_loop_ports sample_agent_loop empty_catalog ?s idle_loop (sample_calls 0 0 None) ?f 0 idle_world"
    using m stop quiet
    by (simp add: tick_def idle_frontier loop_verify_lease_def configured_tick_def total_tool_calls_def bm_values_def settled_tick_def)
  also have "\<dots> = rt_bind (loop_append sample_loop_env sample_loop_ports ?s (ModelCallReserved idle_reservation)) (\<lambda>k.
      ask_planner sample_loop_env sample_loop_ports sample_agent_loop empty_catalog ?s (cm_state k) ?f ctxt idle_reservation 0) idle_world"
    by (simp add: plan_turn_def c(1) idle_reserved [OF c(2)])
  finally have tick: "tick sample_loop_env sample_loop_ports sample_agent_loop empty_catalog idle_world = \<dots>" .
  obtain k w1 where k: "loop_append sample_loop_env sample_loop_ports ?s (ModelCallReserved idle_reservation) idle_world = (Inr k, w1)"
    "loop_store_ok sample_loop_env (lw_store w1)" using idle_append by blast
  obtain r w' where w': "ask_planner sample_loop_env sample_loop_ports sample_agent_loop empty_catalog ?s (cm_state k) ?f ctxt idle_reservation 0 w1 = (r, w')"
    by (meson surj_pair)
  have "lw_calls w' \<noteq> []" using ask_planner_settles(2) [OF w' k(2) idle_append_only] by simp
  then show ?thesis using tick k(1) w' by (simp add: rt_bind_def)
qed

end
