(* ===== verification/Proposal_Structure.thy ===== *)
theory Proposal_Structure
  imports Plan_Proposals Frontier_Correctness
begin

text \<open>
  The structure check of an untrusted proposal is exact: it accepts precisely the proposals with
  distinct valid keys, bounded texts and edges, admissible dependencies and an acyclic graph, and none
  of its \<open>expect\<close>s is reached.
\<close>

section \<open>Specification\<close>

definition existing_dependency_ok :: "run_state \<Rightarrow> work_frontier \<Rightarrow> planning_context \<Rightarrow> string \<Rightarrow> bool" where
  "existing_dependency_ok s f ctxt v \<longleftrightarrow>
     valid_existing_step_id v \<and> v \<in> pss_step_id ` set (plp_steps (pcx_payload ctxt))
     \<and> (\<exists>x. bm_get (rs_steps s) v = Some x \<and> dependency_release_block_reason x
           \<notin> {Some BlockFailed, Some BlockManualRequired, Some BlockReceiptMissing, Some BlockDependencyBlocked})
     \<and> v \<notin> bst_step_id ` set (wf_blocked f)"

definition dependency_ok ::
    "run_state \<Rightarrow> work_frontier \<Rightarrow> planning_context \<Rightarrow> string set \<Rightarrow> string \<Rightarrow> plan_dependency \<Rightarrow> bool" where
  "dependency_ok s f ctxt K k d \<longleftrightarrow>
     (case d of ExistingStep v \<Rightarrow> existing_dependency_ok s f ctxt v
      | ProposedStep v \<Rightarrow> valid_proposal_identifier v \<and> v \<noteq> k \<and> v \<in> K)"

definition proposal_edges :: "proposed_plan_step list \<Rightarrow> (string \<times> string) set" where
  "proposal_edges steps = {(v, pps_key x) | v x. x \<in> set steps \<and> ProposedStep v \<in> set (pps_depends_on x)}"

definition proposal_well_formed ::
    "run_state \<Rightarrow> work_frontier \<Rightarrow> planning_context \<Rightarrow> proposed_plan_step list \<Rightarrow> bool" where
  "proposal_well_formed s f ctxt steps \<longleftrightarrow>
     distinct (map pps_key steps)
     \<and> (\<forall>x \<in> set steps. valid_proposal_identifier (pps_key x)
          \<and> valid_bounded_text (pps_objective x) MAX_ACCEPTED_OBJECTIVE_BYTES
          \<and> distinct (pps_depends_on x)
          \<and> (\<forall>d \<in> set (pps_depends_on x). dependency_ok s f ctxt (set (map pps_key steps)) (pps_key x) d))
     \<and> sum_list (map (\<lambda>x. length (pps_depends_on x)) steps) \<le> MAX_ACCEPTED_PLAN_EDGES
     \<and> acyclic (proposal_edges steps)"

text \<open>A refusal is an error other than a panic.\<close>

definition declined :: "proposal_rejection + 'a \<Rightarrow> bool" where
  "declined r \<longleftrightarrow> (\<exists>e. r = Inl e \<and> (\<forall>m. e \<noteq> PR_Panic m))"

lemma declined_simps [simp]: "declined (Inl e) \<longleftrightarrow> (\<forall>m. e \<noteq> PR_Panic m)" "\<not> declined (Inr x)"
  by (simp_all add: declined_def)

lemma declined_and_then: "declined (and_then r k) \<longleftrightarrow> declined r \<or> (\<exists>x. r = Inr x \<and> declined (k x))"
  by (cases r) simp_all

lemma declined_reject_if [simp]: "declined (reject_if b e) \<longleftrightarrow> b \<and> (\<forall>m. e \<noteq> PR_Panic m)"
  by (simp add: reject_if_def)

lemma declined_ok_or [simp]: "declined (ok_or e v) \<longleftrightarrow> v = None \<and> (\<forall>m. e \<noteq> PR_Panic m)"
  by (cases v) simp_all

section \<open>Keys\<close>

definition headers_ok :: "string set \<Rightarrow> proposed_plan_step list \<Rightarrow> bool" where
  "headers_ok K steps \<longleftrightarrow> distinct (map pps_key steps)
     \<and> (\<forall>x \<in> set steps. pps_key x \<notin> K \<and> valid_proposal_identifier (pps_key x)
          \<and> valid_bounded_text (pps_objective x) MAX_ACCEPTED_OBJECTIVE_BYTES)"

lemma headers_ok_Cons:
  "headers_ok K (x # steps) \<longleftrightarrow> pps_key x \<notin> K \<and> valid_proposal_identifier (pps_key x)
     \<and> valid_bounded_text (pps_objective x) MAX_ACCEPTED_OBJECTIVE_BYTES \<and> headers_ok (insert (pps_key x) K) steps"
  by (auto simp: headers_ok_def image_iff)

lemma check_keys:
  assumes "\<And>v. bs_contains keys v \<longleftrightarrow> v \<in> K"
  shows "if headers_ok K steps
    then \<exists>ks. try_fold check_proposed_step steps keys = Inr ks \<and> (\<forall>v. bs_contains ks v \<longleftrightarrow> v \<in> K \<union> pps_key ` set steps)
    else declined (try_fold check_proposed_step steps keys)"
  using assms
proof (induction steps arbitrary: keys K)
  case Nil
  then show ?case by (simp add: headers_ok_def)
next
  case (Cons x steps)
  have "\<And>v. bs_contains (bs_insert (pps_key x) keys) v \<longleftrightarrow> v \<in> insert (pps_key x) K" using Cons.prems by auto
  note IH = Cons.IH [OF this]
  show ?case
  proof (cases "pps_key x \<notin> K \<and> valid_proposal_identifier (pps_key x)
      \<and> valid_bounded_text (pps_objective x) MAX_ACCEPTED_OBJECTIVE_BYTES")
    case True
    then have "check_proposed_step x keys = Inr (bs_insert (pps_key x) keys)" by (simp add: check_proposed_step_def Cons.prems)
    then show ?thesis using IH True by (auto simp: headers_ok_Cons split: if_splits)
  next
    case False
    then have "declined (check_proposed_step x keys)" by (auto simp: check_proposed_step_def Cons.prems declined_and_then result_simps)
    then show ?thesis using False by (auto simp: headers_ok_Cons declined_def)
  qed
qed

section \<open>Dependencies of one step\<close>

definition proposed_in :: "plan_dependency list \<Rightarrow> nat" where
  "proposed_in ds = length (filter (\<lambda>d. case d of ProposedStep _ \<Rightarrow> True | _ \<Rightarrow> False) ds)"

definition indexed :: "string set \<Rightarrow> proposal_graph \<Rightarrow> bool" where
  "indexed K g \<longleftrightarrow> pgr_edge_count g \<le> MAX_ACCEPTED_PLAN_EDGES
     \<and> (\<forall>v \<in> K. \<exists>n. bm_get (pgr_indegree g) v = Some n \<and> n \<le> pgr_edge_count g) \<and> (\<forall>v \<in> K. \<exists>cs. bm_get (pgr_children g) v = Some cs)"

text \<open>What the dependencies \<open>ds\<close> of the step with key \<open>k\<close> add to the graph.\<close>

definition grown :: "string \<Rightarrow> plan_dependency list \<Rightarrow> proposal_graph \<Rightarrow> proposal_graph \<Rightarrow> bool" where
  "grown k ds g g' \<longleftrightarrow>
     pgr_edge_count g' = pgr_edge_count g + length ds
     \<and> (\<forall>x. bm_get (pgr_indegree g') x = (if x = k then map_option (\<lambda>n. n + proposed_in ds) (bm_get (pgr_indegree g) x)
           else bm_get (pgr_indegree g) x))
     \<and> (\<forall>x. bm_get (pgr_children g') x = map_option (\<lambda>cs. if ProposedStep x \<in> set ds then cs @ [k] else cs) (bm_get (pgr_children g) x))"

lemma existing_dependency_checked:
  "if existing_dependency_ok s f ctxt v then check_existing_dependency s f ctxt v = Inr ()
   else declined (check_existing_dependency s f ctxt v)"
proof (cases "bm_get (rs_steps s) v")
  case None
  then show ?thesis by (auto simp: check_existing_dependency_def existing_dependency_ok_def declined_and_then result_simps)
next
  case (Some x)
  then show ?thesis
    by (auto simp: check_existing_dependency_def existing_dependency_ok_def declined_and_then result_simps list_ex_iff image_iff)
qed

lemma grown_indexed:
  assumes "indexed K g" and "grown k ds g g'" and "pgr_edge_count g' \<le> MAX_ACCEPTED_PLAN_EDGES"
  shows "indexed K g'"
  unfolding indexed_def
proof (intro conjI ballI)
  fix v assume "v \<in> K"
  then obtain n cs where "bm_get (pgr_indegree g) v = Some n" "n \<le> pgr_edge_count g" "bm_get (pgr_children g) v = Some cs"
    using assms(1) unfolding indexed_def by blast
  moreover have "proposed_in ds \<le> length ds" by (simp add: proposed_in_def)
  ultimately show "\<exists>n. bm_get (pgr_indegree g') v = Some n \<and> n \<le> pgr_edge_count g'" "\<exists>cs. bm_get (pgr_children g') v = Some cs"
    using assms(2) by (auto simp: grown_def)
qed (rule assms(3))

lemma proposed_dependency_checked:
  assumes "indexed K g" and "k \<in> K" and "\<And>v. bs_contains keys v \<longleftrightarrow> v \<in> K" and "pgr_edge_count g < MAX_ACCEPTED_PLAN_EDGES"
  shows "if dependency_ok s f ctxt K k (ProposedStep v)
    then \<exists>g'. check_proposed_dependency keys k v (g\<lparr>pgr_edge_count := Suc (pgr_edge_count g)\<rparr>) = Inr g' \<and> grown k [ProposedStep v] g g'
    else declined (check_proposed_dependency keys k v (g\<lparr>pgr_edge_count := Suc (pgr_edge_count g)\<rparr>))"
proof (cases "dependency_ok s f ctxt K k (ProposedStep v)")
  case True
  then have v: "valid_proposal_identifier v" "v \<noteq> k" "v \<in> K" by (simp_all add: dependency_ok_def)
  obtain n cs where g: "bm_get (pgr_indegree g) k = Some n" "n \<le> pgr_edge_count g" "bm_get (pgr_children g) v = Some cs"
    using assms(1,2) v(3) unfolding indexed_def by blast
  have "usize_checked_add n 1 = Some (n + 1)"
    using g(2) assms(4) by (simp add: usize_checked_add_def MAX_ACCEPTED_PLAN_EDGES_def)
  then show ?thesis
    using True v g assms(3) by (auto simp: check_proposed_dependency_def grown_def proposed_in_def option.map_ident)
next
  case False
  then show ?thesis
    by (auto simp: check_proposed_dependency_def dependency_ok_def assms(3) declined_and_then result_simps)
qed

lemma dependency_checked:
  assumes "indexed K g" and "k \<in> K" and "\<And>v. bs_contains keys v \<longleftrightarrow> v \<in> K"
  shows "if pgr_edge_count g < MAX_ACCEPTED_PLAN_EDGES \<and> \<not> bs_contains u d \<and> dependency_ok s f ctxt K k d
    then \<exists>g'. check_dependency s f ctxt keys k d (u, g) = Inr (bs_insert d u, g') \<and> grown k [d] g g' \<and> indexed K g'
    else declined (check_dependency s f ctxt keys k d (u, g))"
proof (cases "pgr_edge_count g < MAX_ACCEPTED_PLAN_EDGES \<and> \<not> bs_contains u d")
  case False
  have "pgr_edge_count g \<le> MAX_ACCEPTED_PLAN_EDGES" using assms(1) by (simp add: indexed_def)
  then have "usize_checked_add (pgr_edge_count g) 1 = Some (pgr_edge_count g + 1)"
    by (simp add: usize_checked_add_def MAX_ACCEPTED_PLAN_EDGES_def)
  then show ?thesis using False by (auto simp: check_dependency_def declined_and_then result_simps Let_def)
next
  case True
  let ?g = "g\<lparr>pgr_edge_count := Suc (pgr_edge_count g)\<rparr>"
  have "usize_checked_add (pgr_edge_count g) 1 = Some (pgr_edge_count g + 1)"
    using True by (simp add: usize_checked_add_def MAX_ACCEPTED_PLAN_EDGES_def)
  then have run: "check_dependency s f ctxt keys k d (u, g) = and_then (case d of
      ExistingStep v \<Rightarrow> and_then (check_existing_dependency s f ctxt v) (\<lambda>_. Inr ?g)
    | ProposedStep v \<Rightarrow> check_proposed_dependency keys k v ?g) (\<lambda>g. Inr (bs_insert d u, g))"
    using True by (cases d) (simp_all add: check_dependency_def Let_def)
  have indexed: "indexed K g'" if "grown k [d] g g'" for g'
    using grown_indexed [OF assms(1) that] that True by (simp add: grown_def)
  show ?thesis
  proof (cases d)
    case (ExistingStep v)
    have "grown k [d] g ?g" by (auto simp: grown_def ExistingStep proposed_in_def option.map_ident)
    then show ?thesis
      using existing_dependency_checked [of s f ctxt v] True indexed
      by (auto simp: run [unfolded ExistingStep] ExistingStep dependency_ok_def declined_and_then split: if_splits)
  next
    case (ProposedStep v)
    show ?thesis
      using proposed_dependency_checked [OF assms(1-3) conjunct1 [OF True], of s f ctxt v] True indexed
      by (auto simp: run [unfolded ProposedStep] ProposedStep declined_and_then split: if_splits)
  qed
qed


lemma grown_Nil: "grown k [] g g"
  by (simp add: grown_def proposed_in_def option.map_ident option.map_id0 split: if_splits)

lemma grown_Cons:
  assumes "grown k [d] g g1" and "grown k ds g1 g2" and "d \<notin> set ds"
  shows "grown k (d # ds) g g2"
proof -
  have "proposed_in (d # ds) = proposed_in [d] + proposed_in ds" by (simp add: proposed_in_def)
  then show ?thesis using assms unfolding grown_def by (auto simp: option.map_comp comp_def add.assoc intro!: option.map_cong)
qed

definition dependencies_ok ::
    "run_state \<Rightarrow> work_frontier \<Rightarrow> planning_context \<Rightarrow> string set \<Rightarrow> proposed_plan_step \<Rightarrow> bool" where
  "dependencies_ok s f ctxt K x \<longleftrightarrow> distinct (pps_depends_on x) \<and> (\<forall>d \<in> set (pps_depends_on x). dependency_ok s f ctxt K (pps_key x) d)"

lemma dependency_list_checked:
  assumes "indexed K g" and "k \<in> K" and "\<And>v. bs_contains keys v \<longleftrightarrow> v \<in> K"
  shows "if pgr_edge_count g + length ds \<le> MAX_ACCEPTED_PLAN_EDGES \<and> distinct ds
      \<and> (\<forall>d \<in> set ds. \<not> bs_contains u d \<and> dependency_ok s f ctxt K k d)
    then \<exists>u' g'. try_fold (check_dependency s f ctxt keys k) ds (u, g) = Inr (u', g') \<and> grown k ds g g' \<and> indexed K g'
    else declined (try_fold (check_dependency s f ctxt keys k) ds (u, g))"
  using assms(1)
proof (induction ds arbitrary: u g)
  case Nil
  then show ?case by (auto simp: grown_Nil indexed_def)
next
  case (Cons d ds)
  note step = dependency_checked [OF Cons.prems assms(2,3), of u d s f ctxt]
  show ?case
  proof (cases "pgr_edge_count g < MAX_ACCEPTED_PLAN_EDGES \<and> \<not> bs_contains u d \<and> dependency_ok s f ctxt K k d")
    case False
    with step have "declined (check_dependency s f ctxt keys k d (u, g))" by simp
    then have "declined (try_fold (check_dependency s f ctxt keys k) (d # ds) (u, g))" by (auto simp: declined_def)
    then show ?thesis using False by (auto split: if_splits)
  next
    case True
    with step obtain g1 where g1: "check_dependency s f ctxt keys k d (u, g) = Inr (bs_insert d u, g1)" "grown k [d] g g1" "indexed K g1"
      by auto
    have count: "pgr_edge_count g1 = Suc (pgr_edge_count g)" using g1(2) by (simp add: grown_def)
    note IH = Cons.IH [OF g1(3), of "bs_insert d u", unfolded count]
    show ?thesis
    proof (cases "pgr_edge_count g + length (d # ds) \<le> MAX_ACCEPTED_PLAN_EDGES \<and> distinct (d # ds)
        \<and> (\<forall>d \<in> set (d # ds). \<not> bs_contains u d \<and> dependency_ok s f ctxt K k d)")
      case ok: True
      then obtain u' g' where "try_fold (check_dependency s f ctxt keys k) ds (bs_insert d u, g1) = Inr (u', g')" "grown k ds g1 g'" "indexed K g'"
        using IH by (auto split: if_splits)
      then show ?thesis using ok g1 grown_Cons [OF g1(2), of ds g'] by auto
    next
      case bad: False
      then have "declined (try_fold (check_dependency s f ctxt keys k) ds (bs_insert d u, g1))"
        using IH True by (auto split: if_splits)
      then show ?thesis using bad g1(1) by auto
    qed
  qed
qed

section \<open>The whole graph\<close>

text \<open>The graph of the steps that were read.\<close>

definition graph_of :: "proposed_plan_step list \<Rightarrow> string set \<Rightarrow> proposal_graph \<Rightarrow> bool" where
  "graph_of steps K g \<longleftrightarrow>
     pgr_edge_count g = sum_list (map (\<lambda>x. length (pps_depends_on x)) steps)
     \<and> (\<forall>v. bm_contains_key (pgr_indegree g) v \<longleftrightarrow> v \<in> K)
     \<and> (\<forall>v \<in> K. bm_get (pgr_indegree g) v = Some (sum_list (map (\<lambda>x. if pps_key x = v then proposed_in (pps_depends_on x) else 0) steps)))
     \<and> (\<forall>v \<in> K. bm_get (pgr_children g) v = Some (map pps_key (filter (\<lambda>x. ProposedStep v \<in> set (pps_depends_on x)) steps)))"

lemma graph_of_indexed:
  assumes "graph_of steps K g" and "pgr_edge_count g \<le> MAX_ACCEPTED_PLAN_EDGES"
  shows "indexed K g"
proof -
  have "sum_list (map (\<lambda>x. if pps_key x = v then proposed_in (pps_depends_on x) else 0) steps)
      \<le> sum_list (map (\<lambda>x. length (pps_depends_on x)) steps)" for v
    by (rule sum_list_mono) (simp add: proposed_in_def)
  then show ?thesis using assms by (simp add: graph_of_def indexed_def)
qed

lemma graph_of_snoc:
  assumes "graph_of steps K g" and "grown (pps_key x) (pps_depends_on x) g g'" and "pps_key x \<in> K"
  shows "graph_of (steps @ [x]) K g'"
proof -
  have "bm_contains_key (pgr_indegree g') v \<longleftrightarrow> bm_contains_key (pgr_indegree g) v" for v
    using assms(2) by (auto simp: grown_def bm_contains_key_def)
  then show ?thesis using assms by (auto simp: graph_of_def grown_def)
qed

lemma steps_checked:
  assumes "graph_of before K g" and "pgr_edge_count g \<le> MAX_ACCEPTED_PLAN_EDGES" and "pps_key ` set steps \<subseteq> K"
    and "\<And>v. bs_contains keys v \<longleftrightarrow> v \<in> K"
  shows "if pgr_edge_count g + sum_list (map (\<lambda>x. length (pps_depends_on x)) steps) \<le> MAX_ACCEPTED_PLAN_EDGES
      \<and> (\<forall>x \<in> set steps. dependencies_ok s f ctxt K x)
    then \<exists>g'. try_fold (check_dependencies s f ctxt keys) steps g = Inr g' \<and> graph_of (before @ steps) K g'
    else declined (try_fold (check_dependencies s f ctxt keys) steps g)"
  using assms(1-3)
proof (induction steps arbitrary: before g)
  case Nil
  then show ?case by simp
next
  case (Cons x steps)
  have x: "pps_key x \<in> K" using Cons.prems(3) by simp
  note deps = dependency_list_checked [OF graph_of_indexed [OF Cons.prems(1,2)] x assms(4), of "pps_depends_on x" bs_empty s f ctxt]
  show ?case
  proof (cases "pgr_edge_count g + length (pps_depends_on x) \<le> MAX_ACCEPTED_PLAN_EDGES \<and> dependencies_ok s f ctxt K x")
    case False
    with deps have "declined (try_fold (check_dependency s f ctxt keys (pps_key x)) (pps_depends_on x) (bs_empty, g))"
      by (auto simp: dependencies_ok_def split: if_splits)
    then have "declined (check_dependencies s f ctxt keys x g)" by (simp add: check_dependencies_def declined_and_then)
    then have "declined (try_fold (check_dependencies s f ctxt keys) (x # steps) g)" by (auto simp: declined_def)
    then show ?thesis using False by auto
  next
    case True
    with deps obtain u g1 where "try_fold (check_dependency s f ctxt keys (pps_key x)) (pps_depends_on x) (bs_empty, g) = Inr (u, g1)"
      and grown: "grown (pps_key x) (pps_depends_on x) g g1"
      by (auto simp: dependencies_ok_def split: if_splits)
    then have g1: "check_dependencies s f ctxt keys x g = Inr g1" by (simp add: check_dependencies_def)
    have count: "pgr_edge_count g1 = pgr_edge_count g + length (pps_depends_on x)" using grown by (simp add: grown_def)
    have sub: "pps_key ` set steps \<subseteq> K" using Cons.prems(3) by simp
    have "pgr_edge_count g1 \<le> MAX_ACCEPTED_PLAN_EDGES" using True count by simp
    note IH = Cons.IH [OF graph_of_snoc [OF Cons.prems(1) grown x] this sub, unfolded count]
    show ?thesis using IH True by (auto simp: g1 add.assoc split: if_splits)
  qed
qed


section \<open>The topological walk\<close>

lemma release_proposed_Inr:
  assumes "distinct cs" and "\<forall>c \<in> set cs. \<exists>n. bm_get r c = Some n \<and> 0 < n"
  shows "\<exists>r' z'. try_fold release_proposed cs (r, z) = Inr (r', z')
    \<and> (\<forall>x. bm_get r' x = (if x \<in> set cs then map_option (\<lambda>n. n - 1) (bm_get r x) else bm_get r x))
    \<and> (\<forall>x. bs_contains z' x \<longleftrightarrow> bs_contains z x \<or> x \<in> set cs \<and> bm_get r x = Some 1)"
proof -
  have same: "release_proposed c a = Inr b" if "release_child c a = Inr b" for c a b
  proof -
    obtain r z where a: "a = (r, z)" by (cases a)
    show ?thesis using that by (cases "bm_get r c") (auto simp: a release_proposed_def release_child_def reject_if_def split: if_splits)
  qed
  have "try_fold release_proposed cs a = Inr b" if "try_fold release_child cs a = Inr b" for a b
    using that
  proof (induction cs arbitrary: a)
    case (Cons c cs)
    then obtain a1 where "release_child c a = Inr a1" "try_fold release_child cs a1 = Inr b" by (auto simp: and_then_Inr_iff)
    then show ?case using Cons.IH same by simp
  qed simp
  then show ?thesis using release_children [OF assms, of z] by blast
qed

text \<open>
  The walk over the nodes \<open>K\<close> with dependencies \<open>D\<close>, from a set \<open>P\<close> of visited nodes that is closed
  under dependencies. It ends with all the nodes that are reached without a cycle.
\<close>

definition walk_state ::
    "string set \<Rightarrow> (string \<Rightarrow> string set) \<Rightarrow> string set \<Rightarrow> (string, usize) btreemap \<Rightarrow> string btreeset \<Rightarrow> bool" where
  "walk_state K D P indegree ready \<longleftrightarrow>
     P \<subseteq> K \<and> (\<forall>v \<in> P. D v \<subseteq> P) \<and> P \<subseteq> Wellfounded.acc {(d, v). v \<in> K \<and> d \<in> D v}
     \<and> (\<forall>v \<in> K. bm_get indegree v = Some (card (D v - P)))
     \<and> (\<forall>v. bs_contains ready v \<longleftrightarrow> v \<in> K \<and> v \<notin> P \<and> D v \<subseteq> P)"

lemma walk_step:
  assumes "finite K" and "\<And>v. v \<in> K \<Longrightarrow> D v \<subseteq> K \<and> v \<notin> D v"
    and "walk_state K D P indegree ready" and "bm_pop_first ready = Some (v, u, ready')"
    and "distinct cs" and "set cs = {w \<in> K. v \<in> D w}"
  obtains indegree' ready'' where "try_fold release_proposed cs (indegree, ready') = Inr (indegree', ready'')"
    and "walk_state K D (insert v P) indegree' ready''" and "v \<in> K" and "v \<notin> P"
proof -
  let ?E = "{(d, v). v \<in> K \<and> d \<in> D v}"
  note w = assms(3) [unfolded walk_state_def]
  have contains': "bs_contains ready' x \<longleftrightarrow> x \<noteq> v \<and> bs_contains ready x" for x
    using bm.pop_first_Some [OF assms(4)] by (cases "x = v") (auto simp: bs_contains_def bm_contains_key_def)
  have "bs_contains ready v"
    using bm.pop_first_Some(1) [OF assms(4)] by (simp add: bs_contains_def bm_contains_key_def)
  then have v: "v \<in> K" "v \<notin> P" "D v \<subseteq> P" using w by blast+
  have fin: "finite (D x)" if "x \<in> K" for x using assms(1,2) that finite_subset by blast
  have card_less: "card (D x - insert v P) = card (D x - P) - 1 \<and> 0 < card (D x - P)" if "x \<in> K" "v \<in> D x" for x
  proof -
    have "D x - insert v P = (D x - P) - {v}" "v \<in> D x - P" using that v(2) by auto
    then show ?thesis using fin [OF that(1)] by (metis card_Diff_singleton card_gt_0_iff empty_iff finite_Diff)
  qed
  have "\<forall>c \<in> set cs. \<exists>n. bm_get indegree c = Some n \<and> 0 < n"
    using assms(6) card_less w by auto
  from release_proposed_Inr [OF assms(5) this, of ready'] obtain r' z' where
    fold: "try_fold release_proposed cs (indegree, ready') = Inr (r', z')"
    and r': "\<And>x. bm_get r' x = (if x \<in> set cs then map_option (\<lambda>n. n - 1) (bm_get indegree x) else bm_get indegree x)"
    and z': "\<And>x. bs_contains z' x \<longleftrightarrow> bs_contains ready' x \<or> x \<in> set cs \<and> bm_get indegree x = Some 1"
    by blast
  have degrees: "bm_get r' x = Some (card (D x - insert v P))" if "x \<in> K" for x
  proof (cases "v \<in> D x")
    case True
    then show ?thesis using w that card_less [OF that True] assms(6) by (simp add: r')
  next
    case False
    then have "D x - insert v P = D x - P" by auto
    then show ?thesis using w that False assms(6) by (simp add: r')
  qed
  have waiting: "bs_contains z' x \<longleftrightarrow> x \<in> K \<and> x \<notin> insert v P \<and> D x \<subseteq> insert v P" for x
  proof (cases "x \<in> K \<and> v \<in> D x")
    case True
    have "card (D x - P) = 1 \<longleftrightarrow> D x \<subseteq> insert v P"
      using card_less [of x] True fin [of x] by (metis Diff_eq_empty_iff One_nat_def Suc_pred card_0_eq diff_Suc_1 finite_Diff)
    moreover have "x \<notin> P" "x \<noteq> v" "\<not> D x \<subseteq> P" using True w v(2) assms(2) by blast+
    ultimately show ?thesis using True w assms(6) by (auto simp: z' contains')
  next
    case False
    then have "x \<in> K \<Longrightarrow> D x \<subseteq> insert v P \<longleftrightarrow> D x \<subseteq> P" by auto
    then show ?thesis using False w assms(6) by (auto simp: z' contains')
  qed
  have "v \<in> Wellfounded.acc ?E"
  proof (rule Wellfounded.accI)
    fix d
    assume "(d, v) \<in> ?E"
    then show "d \<in> Wellfounded.acc ?E" using v(3) w by blast
  qed
  then have "walk_state K D (insert v P) r' z'"
    unfolding walk_state_def using w v degrees waiting by auto
  then show thesis using that fold v by blast
qed

lemma walk_correct:
  assumes "finite K" and "card K < 2 ^ 64" and "\<And>v. v \<in> K \<Longrightarrow> D v \<subseteq> K \<and> v \<notin> D v"
    and "\<And>v. v \<in> K \<Longrightarrow> \<exists>cs. bm_get children v = Some cs \<and> distinct cs \<and> set cs = {w \<in> K. v \<in> D w}"
    and "walk_state K D P indegree ready"
  shows "\<exists>P' indegree' ready'. proposal_loop children indegree ready (card P) = Inr (card P') \<and> walk_state K D P' indegree' ready'
    \<and> ready' = bm_empty"
  using assms(5)
proof (induction "loop_measure indegree ready" arbitrary: P indegree ready rule: less_induct)
  case less
  show ?case
  proof (cases "bm_pop_first ready")
    case None
    then have "ready = bm_empty" by (simp add: bm.pop_first_None_iff)
    then show ?thesis using less.prems None by (auto simp: proposal_loop.simps [of children indegree])
  next
    case (Some p)
    obtain v u ready1 where p: "bm_pop_first ready = Some (v, u, ready1)" using Some by (cases p) auto
    have "bs_contains ready v" using bm.pop_first_Some(1) [OF p] by (simp add: bs_contains_def bm_contains_key_def)
    then have "v \<in> K" using less.prems by (simp add: walk_state_def)
    then obtain cs where cs: "bm_get children v = Some cs" "distinct cs" "set cs = {w \<in> K. v \<in> D w}" using assms(4) by blast
    obtain r z where r: "try_fold release_proposed cs (indegree, ready1) = Inr (r, z)" "walk_state K D (insert v P) r z" "v \<notin> P"
      using walk_step [OF assms(1,3) less.prems p cs(2,3)] by blast
    have sub: "insert v P \<subseteq> K" using r(2) by (simp add: walk_state_def)
    then have fin: "finite P" using finite_subset [OF sub assms(1)] by simp
    then have "card (insert v P) < 2 ^ 64" using card_mono [OF assms(1) sub] assms(2) by linarith
    then have count: "usize_saturating_add (card P) (Suc 0) = card (insert v P)"
      using fin r(3) by (simp add: usize_saturating_add_def usize_checked_add_def)
    have step: "proposal_loop children indegree ready (card P) = proposal_loop children r z (card (insert v P))"
      by (simp add: proposal_loop.simps [of children indegree ready] p cs(1) r(1) count)
    have "loop_measure r z < loop_measure indegree ready"
      using release_all_measure [OF r(1)] pop_first_measure [OF p, of indegree] by simp
    from less.hyps [OF this r(2)] show ?thesis unfolding step .
  qed
qed

lemma walk_complete:
  assumes "finite K" and "\<And>v. v \<in> K \<Longrightarrow> D v \<subseteq> K" and "walk_state K D P indegree bm_empty"
  shows "card P = card K \<longleftrightarrow> acyclic {(d, v). v \<in> K \<and> d \<in> D v}"
proof
  let ?E = "{(d, v). v \<in> K \<and> d \<in> D v}"
  note w = assms(3) [unfolded walk_state_def]
  {
    assume "card P = card K"
    then have "P = K" using w assms(1) by (simp add: card_subset_eq)
    have "v \<in> Wellfounded.acc ?E" for v
    proof (cases "v \<in> K")
      case True
      then show ?thesis using w \<open>P = K\<close> by blast
    qed (auto intro: Wellfounded.accI)
    then show "acyclic ?E" by (intro wf_acyclic) (simp add: wf_iff_acc)
  }
  assume "acyclic ?E"
  moreover have "finite ?E" using assms(1,2) by (rule_tac finite_subset [of _ "K \<times> K"]) auto
  ultimately have "wf ?E" by (rule finite_acyclic_wf [rotated])
  then have "v \<in> K \<longrightarrow> v \<in> P" for v
  proof (induction v rule: wf_induct_rule)
    case (less v)
    have "D v \<subseteq> P" if "v \<in> K" using less that assms(2) [OF that] by blast
    then show ?case using w by auto
  qed
  then show "card P = card K" using w by (metis subsetI subset_antisym)
qed


section \<open>The check\<close>

definition proposed_deps :: "proposed_plan_step list \<Rightarrow> string \<Rightarrow> string set" where
  "proposed_deps steps v = {d. \<exists>x \<in> set steps. pps_key x = v \<and> ProposedStep d \<in> set (pps_depends_on x)}"

lemma proposed_in_card:
  assumes "distinct ds"
  shows "proposed_in ds = card {d. ProposedStep d \<in> set ds}"
proof -
  let ?ps = "filter (\<lambda>d. case d of ProposedStep _ \<Rightarrow> True | _ \<Rightarrow> False) ds"
  have "set ?ps = ProposedStep ` {d. ProposedStep d \<in> set ds}" 
  proof (rule set_eqI)
    fix x
    show "x \<in> set ?ps \<longleftrightarrow> x \<in> ProposedStep ` {d. ProposedStep d \<in> set ds}" by (cases x) auto
  qed
  moreover have "card (ProposedStep ` {d. ProposedStep d \<in> set ds}) = card {d. ProposedStep d \<in> set ds}"
    by (rule card_image) (simp add: inj_on_def)
  ultimately show ?thesis using distinct_card [of ?ps] assms by (simp add: proposed_in_def)
qed

lemma sum_of_key:
  assumes "distinct (map pps_key steps)" and "x \<in> set steps"
  shows "sum_list (map (\<lambda>y. if pps_key y = pps_key x then g y else 0) steps) = (g x :: nat)"
  using assms
proof (induction steps)
  case (Cons y steps)
  show ?case
  proof (cases "y = x")
    case True
    have "map (\<lambda>y. if pps_key y = pps_key x then g y else 0) steps = map (\<lambda>_. 0) steps"
      using Cons.prems True by (auto simp: image_iff)
    then show ?thesis using True by simp
  next
    case False
    then have "pps_key y \<noteq> pps_key x" using Cons.prems by (auto simp: image_iff)
    then show ?thesis using Cons False by simp
  qed
qed simp

lemma proposed_deps_key:
  assumes "distinct (map pps_key steps)" and "x \<in> set steps"
  shows "proposed_deps steps (pps_key x) = {d. ProposedStep d \<in> set (pps_depends_on x)}"
proof -
  have "y = x" if "y \<in> set steps" "pps_key y = pps_key x" for y
    using assms that by (auto simp: distinct_map inj_on_def)
  then show ?thesis using assms(2) by (auto simp: proposed_deps_def)
qed

lemma proposal_edges_eq: "proposal_edges steps = {(d, v). v \<in> pps_key ` set steps \<and> d \<in> proposed_deps steps v}"
proof (intro set_eqI iffI)
  fix e
  assume "e \<in> proposal_edges steps"
  then show "e \<in> {(d, v). v \<in> pps_key ` set steps \<and> d \<in> proposed_deps steps v}"
    by (auto simp: proposal_edges_def proposed_deps_def)
next
  fix e
  assume "e \<in> {(d, v). v \<in> pps_key ` set steps \<and> d \<in> proposed_deps steps v}"
  then obtain d v where e: "e = (d, v)" "d \<in> proposed_deps steps v" by auto
  from e(2) obtain x where "pps_key x = v" "x \<in> set steps" "ProposedStep d \<in> set (pps_depends_on x)" by (auto simp: proposed_deps_def)
  with e(1) show "e \<in> proposal_edges steps" by (auto simp: proposal_edges_def)
qed

lemma graph_starts_walk:
  assumes "graph_of steps K g" and "K = pps_key ` set steps" and "distinct (map pps_key steps)"
    and "\<And>x. x \<in> set steps \<Longrightarrow> dependencies_ok s f ctxt K x"
  shows "walk_state K (proposed_deps steps) {} (pgr_indegree g)
      (bs_of_list (map fst (filter (\<lambda>(_, degree). degree = 0) (bm_entries (pgr_indegree g)))))"
    and "v \<in> K \<Longrightarrow> proposed_deps steps v \<subseteq> K \<and> v \<notin> proposed_deps steps v"
    and "v \<in> K \<Longrightarrow> \<exists>cs. bm_get (pgr_children g) v = Some cs \<and> distinct cs \<and> set cs = {w \<in> K. v \<in> proposed_deps steps w}"
proof -
  have deps: "proposed_deps steps (pps_key x) = {d. ProposedStep d \<in> set (pps_depends_on x)}" if "x \<in> set steps" for x
    using assms(3) that by (rule proposed_deps_key)
  have degree: "bm_get (pgr_indegree g) v = Some (card (proposed_deps steps v))" if v: "v \<in> K" for v
  proof -
    obtain x where x: "x \<in> set steps" "v = pps_key x" using v assms(2) by auto
    have "bm_get (pgr_indegree g) v = Some (proposed_in (pps_depends_on x))"
      using assms(1) v by (simp add: graph_of_def x(2) sum_of_key [OF assms(3) x(1)])
    then show ?thesis using assms(4) [OF x(1)] by (simp add: x(2) deps [OF x(1)] proposed_in_card dependencies_ok_def)
  qed
  have fin: "finite (proposed_deps steps v)" if v: "v \<in> K" for v
  proof -
    obtain x where x: "x \<in> set steps" "v = pps_key x" using v assms(2) by auto
    have "finite (ProposedStep -` set (pps_depends_on x))" by (rule finite_vimageI) (simp_all add: inj_def)
    then show ?thesis by (simp add: x(2) deps [OF x(1)] vimage_def)
  qed
  have known: "bm_get (pgr_indegree g) v = None" if "v \<notin> K" for v
    using assms(1) that by (auto simp: graph_of_def bm_contains_key_def)
  have "bs_contains (bs_of_list (map fst (filter (\<lambda>(_, degree). degree = 0) (bm_entries (pgr_indegree g))))) v
      \<longleftrightarrow> bm_get (pgr_indegree g) v = Some 0" for v
    by (auto simp: bs_contains_of_list image_iff bm.in_entries_iff)
  moreover have "bm_get (pgr_indegree g) v = Some 0 \<longleftrightarrow> v \<in> K \<and> proposed_deps steps v = {}" for v
    using degree [of v] fin [of v] known [of v] by (cases "v \<in> K") auto
  ultimately show "walk_state K (proposed_deps steps) {} (pgr_indegree g)
      (bs_of_list (map fst (filter (\<lambda>(_, degree). degree = 0) (bm_entries (pgr_indegree g)))))"
    using degree by (simp add: walk_state_def)
  {
    assume "v \<in> K"
    then obtain x where x: "x \<in> set steps" "v = pps_key x" using assms(2) by auto
    show "proposed_deps steps v \<subseteq> K \<and> v \<notin> proposed_deps steps v"
      using assms(4) [OF x(1)] by (auto simp: x(2) deps [OF x(1)] dependencies_ok_def dependency_ok_def)
  }
  assume "v \<in> K"
  then have "bm_get (pgr_children g) v = Some (map pps_key (filter (\<lambda>x. ProposedStep v \<in> set (pps_depends_on x)) steps))"
    using assms(1) by (simp add: graph_of_def)
  moreover have "distinct (map pps_key (filter (\<lambda>x. ProposedStep v \<in> set (pps_depends_on x)) steps))"
    using assms(3) by (rule distinct_map_filter)
  moreover have "set (map pps_key (filter (\<lambda>x. ProposedStep v \<in> set (pps_depends_on x)) steps)) = {w \<in> K. v \<in> proposed_deps steps w}"
  proof (intro set_eqI iffI)
    fix w
    assume "w \<in> set (map pps_key (filter (\<lambda>x. ProposedStep v \<in> set (pps_depends_on x)) steps))"
    then obtain x where "x \<in> set steps" "ProposedStep v \<in> set (pps_depends_on x)" "w = pps_key x" by auto
    then show "w \<in> {w \<in> K. v \<in> proposed_deps steps w}" using assms(2) by (auto simp: proposed_deps_def)
  next
    fix w
    assume "w \<in> {w \<in> K. v \<in> proposed_deps steps w}"
    then obtain x where "x \<in> set steps" "ProposedStep v \<in> set (pps_depends_on x)" "pps_key x = w" by (auto simp: proposed_deps_def)
    then show "w \<in> set (map pps_key (filter (\<lambda>x. ProposedStep v \<in> set (pps_depends_on x)) steps))" by auto
  qed
  ultimately show "\<exists>cs. bm_get (pgr_children g) v = Some cs \<and> distinct cs \<and> set cs = {w \<in> K. v \<in> proposed_deps steps w}"
    by blast
qed

lemma structure_checked:
  assumes "length steps < 2 ^ 64"
  shows "if proposal_well_formed s f ctxt steps then validate_proposal_structure s f ctxt steps = Inr ()
    else declined (validate_proposal_structure s f ctxt steps)"
proof (cases "headers_ok {} steps")
  case False
  have "declined (try_fold check_proposed_step steps bs_empty)" using check_keys [of bs_empty "{}" steps] False by simp
  moreover have "\<not> proposal_well_formed s f ctxt steps" using False by (auto simp: proposal_well_formed_def headers_ok_def)
  ultimately show ?thesis by (simp add: validate_proposal_structure_def declined_and_then)
next
  case True
  let ?K = "pps_key ` set steps"
  obtain keys where keys: "try_fold check_proposed_step steps bs_empty = Inr keys" "\<And>v. bs_contains keys v \<longleftrightarrow> v \<in> ?K"
    using check_keys [of bs_empty "{}" steps] True by auto
  let ?g = "\<lparr>pgr_edge_count = 0, pgr_indegree = bm_map_values (\<lambda>_. 0) keys, pgr_children = bm_map_values (\<lambda>_. []) keys\<rparr>"
  have "graph_of [] ?K ?g" using keys(2) by (auto simp: graph_of_def bs_contains_def bm_contains_key_def)
  note checked = steps_checked [OF this _ _ keys(2), of steps s f ctxt, simplified]
  have wf: "proposal_well_formed s f ctxt steps \<longleftrightarrow> sum_list (map (\<lambda>x. length (pps_depends_on x)) steps) \<le> MAX_ACCEPTED_PLAN_EDGES
      \<and> (\<forall>x \<in> set steps. dependencies_ok s f ctxt ?K x) \<and> acyclic (proposal_edges steps)"
    using True by (auto simp: proposal_well_formed_def headers_ok_def dependencies_ok_def)
  show ?thesis
  proof (cases "sum_list (map (\<lambda>x. length (pps_depends_on x)) steps) \<le> MAX_ACCEPTED_PLAN_EDGES \<and> (\<forall>x \<in> set steps. dependencies_ok s f ctxt ?K x)")
    case False
    with checked have "declined (try_fold (check_dependencies s f ctxt keys) steps ?g)" by (auto split: if_splits)
    then show ?thesis using False wf by (auto simp: validate_proposal_structure_def keys(1) declined_and_then)
  next
    case deps: True
    with checked obtain g where g: "try_fold (check_dependencies s f ctxt keys) steps ?g = Inr g" "graph_of steps ?K g"
      by (auto split: if_splits)
    have distinct: "distinct (map pps_key steps)" using True by (simp add: headers_ok_def)
    then have size: "card ?K = length steps" by (metis distinct_card length_map set_map)
    note start = graph_starts_walk [OF g(2) refl distinct bspec [OF conjunct2 [OF deps]]]
    have "finite ?K" "card ?K < 2 ^ 64" using assms size by simp_all
    from walk_correct [OF this start(2,3,1)]
    obtain P r where walk: "proposal_loop (pgr_children g) (pgr_indegree g)
        (bs_of_list (map fst (filter (\<lambda>(_, degree). degree = 0) (bm_entries (pgr_indegree g))))) 0 = Inr (card P)"
      "walk_state ?K (proposed_deps steps) P r bm_empty"
      unfolding card.empty by blast
    have edges: "proposal_edges steps = {(d, v). v \<in> ?K \<and> d \<in> proposed_deps steps v}" by (rule proposal_edges_eq)
    have "card P = length steps \<longleftrightarrow> acyclic (proposal_edges steps)"
      unfolding edges size [symmetric] by (rule walk_complete [OF _ _ walk(2)]) (use start(2) in auto)
    then show ?thesis using deps wf walk(1) by (auto simp: validate_proposal_structure_def keys(1) g(1) Let_def)
  qed
qed

end
