(* ===== verification/Agent_Loop_Properties.thy ===== *)
theory Agent_Loop_Properties
  imports Sample_Loop Proposal_Structure
begin

text \<open>
  The properties of the agent loop over the in-memory store: a planner is called only behind its
  durable reservation, the planner calls of a whole run are journaled and stay within the budget,
  ticking alone comes to rest, and the structure of a proposal is checked exactly.
\<close>

section \<open>Facts of runs\<close>

lemma called_run_configured:
  assumes "loop_run E ports registry w" and "append_only E ports" and "lw_calls w \<noteq> []"
  obtains s l c where "ms_load_current (lw_store w) = Some s" and "rs_agent_loop s = Some l" and "als_model_calls l = Some c"
proof -
  have j: "calls_journaled E w" using assms(1,2) by (rule loop_run_journaled)
  then have n: "length (lw_calls w) \<le> count_events is_reservation (ms_records (lw_store w))"
    by (auto simp: calls_journaled_def reserved_identities_length dest: list_emb_length)
  then have "ms_records (lw_store w) \<noteq> []" using assms(3) by (auto simp: count_events_def)
  then obtain s where s: "ms_load_current (lw_store w) = Some s" "replay (le_crypto E) (ms_records (lw_store w)) = Inr s"
    using j by (auto simp: calls_journaled_def store_ok_def journal_ok_def ms_load_current_def ms_new_def split: option.splits)
  have "0 < length (lw_calls w)" using assms(3) by simp
  with n have "0 < calls_reserved s" using reservations.reachable [OF s(2)] by linarith
  then show thesis using that [OF s(1)] by (auto simp: calls_reserved_def split: option.splits)
qed

text \<open>The ticks of an endless series that change the store.\<close>

definition moving_ticks :: "loop_env \<Rightarrow> ('p, 'm, 'f) loop_ports \<Rightarrow> agent_loop \<Rightarrow> capability_registry \<Rightarrow> ('p, 'm, 'f) loop_world \<Rightarrow> nat set" where
  "moving_ticks E ports al registry w =
     {i. lw_store (ticks E ports al registry (Suc i) w) \<noteq> lw_store (ticks E ports al registry i w)}"

lemma ticks_step:
  "tick E ports al registry (ticks E ports al registry i w)
     = (fst (tick E ports al registry (ticks E ports al registry i w)), ticks E ports al registry (Suc i) w)"
  by (simp add: ticks_def)

lemma alone_append_only: "(\<And>q st. lp_rivals ports q st = st) \<Longrightarrow> append_only E ports"
  by (simp add: append_only_def mem.later_def)

lemma ticks_store_ok:
  assumes "loop_store_ok E (lw_store w)" and "\<And>q st. lp_rivals ports q st = st"
  shows "loop_store_ok E (lw_store (ticks E ports al registry i w))"
proof (induction i)
  case (Suc i)
  then show ?case using tick_store_ok [OF ticks_step alone_append_only [OF assms(2)]] by blast
qed (simp add: ticks_def assms(1))

lemma still_tick:
  assumes "tick E ports al registry w = (r, w')" and "loop_store_ok E (lw_store w)" and "\<And>q st. lp_rivals ports q st = st"
    and "lw_store w' = lw_store w"
  shows "lw_calls w' = lw_calls w"
  using assms(1,2) alone_append_only [OF assms(3)]
proof (cases rule: tick_cases)
  case interrupted
  from this [of 0] show ?thesis by (simp add: spent_by_def)
next
  case (asked s l c f ctxt rv k st1)
  note a = asked_records(3) [OF asked(3) assms(2) alone_append_only [OF assms(3)] asked(5) [of 0]]
  then show ?thesis using assms(4) prefix_length_le by fastforce
qed (auto simp: same_run_def)

section \<open>Reservations come first\<close>

text \<open>
  C11. Whatever other writers append while the planner works, a tick calls the planner at most once,
  and only when nothing else is due: no action, no active call, no completion candidate and no budget
  that is spent. Before the call the journal gets, as the very next record, the reservation of this
  call with its identifier, request digest and context digest; and the canonical context that is sent
  has the size it claims, within the byte budget and 512 KiB.
\<close>

theorem planner_call_is_reserved:
  assumes "store_built (le_crypto E) (le_protocol E) (lw_store w)" and "append_only E ports"
    and "tick E ports al registry w = (r, w')" and "lw_calls w' \<noteq> lw_calls w"
  shows "\<exists>s l c f q k rv. planning_due al registry (lw_store w) s l c f
    \<and> lw_calls w' = lw_calls w @ [q] \<and> prefix (ms_records (lw_store w) @ [k]) (ms_records (lw_store w'))
    \<and> body_of k = ModelCallReserved rv \<and> mcr_call_id rv = pcr_call_id q \<and> mcr_request_digest rv = pcr_request_digest q
    \<and> mcr_context_digest rv = pcx_context_digest (pcr_context q)
    \<and> canonical_size (le_planning E) (PayloadInput (pcx_payload (pcr_context q))) = Inr (unat (pcx_canonical_size_bytes (pcr_context q)))
    \<and> unat (pcx_canonical_size_bytes (pcr_context q)) \<le> min (unat (alb_max_context_bytes (al_budget al))) 524288"
proof -
  have ok: "loop_store_ok E (lw_store w)" using assms(1) by (rule store_built_ok)
  from assms(3) ok assms(2) show ?thesis
  proof (cases rule: tick_cases)
    case interrupted
    from this [of 0] show ?thesis using assms(4) by (simp add: spent_by_def)
  next
    case (asked s l c f ctxt rv k st1)
    note a = asked_records [OF asked(3) ok assms(2) asked(5) [of 0]]
    have budget: "als_budget l = al_budget al" using asked(1) by (simp add: planning_due_def)
    obtain outs so oo where "build_context_ordered (le_crypto E) (le_admission E) (le_planning E) s outs so oo f registry
        (al_planning_constraints al) (als_budget l) = Inr ctxt" using asked(2) by (rule tick_context_Inr)
    note size = context_bounds [OF this, unfolded budget]
    show ?thesis
      by (intro exI conjI) (rule asked(1), rule asked(4), rule a(3), rule a(4), use a(5) size in \<open>simp_all add: request_of_def\<close>)
  qed (use assms(4) in \<open>auto simp: same_run_def\<close>)
qed

theorem planner_call_is_reserved_witness:
  "\<exists>q k rv. lw_calls (snd (tick sample_loop_env sample_loop_ports sample_agent_loop empty_catalog idle_world)) = [q]
     \<and> prefix (ms_records idle_store @ [k])
         (ms_records (lw_store (snd (tick sample_loop_env sample_loop_ports sample_agent_loop empty_catalog idle_world))))
     \<and> body_of k = ModelCallReserved rv \<and> mcr_call_id rv = pcr_call_id q"
proof -
  obtain r w' where t: "tick sample_loop_env sample_loop_ports sample_agent_loop empty_catalog idle_world = (r, w')" by (meson surj_pair)
  have "store_built (le_crypto sample_loop_env) (le_protocol sample_loop_env) (lw_store idle_world)" using idle_built by simp
  moreover have "lw_calls w' \<noteq> lw_calls idle_world" using idle_tick t by simp
  ultimately show ?thesis
    using planner_call_is_reserved [OF _ idle_append_only t] t by auto
qed

section \<open>A whole run\<close>

text \<open>
  C36. Over a whole run of the loop, with ticks and abandonments under any configurations, planners of
  any behaviour and other writers in between, the planner calls that were made are, in their order,
  among the reservations of the journal, each with its call identifier, request digest and context
  digest; and they never outnumber the model call budget that the run was configured with.
\<close>

theorem planner_calls_bounded:
  assumes "loop_run E ports registry w" and "append_only E ports" and "ms_load_current (lw_store w) = Some s"
    and "rs_agent_loop s = Some l" and "als_model_calls l = Some c"
  shows "subseq (map call_identity (lw_calls w)) (reserved_identities (ms_records (lw_store w)))
    \<and> length (lw_calls w) \<le> unat (mcl_reserved_calls c)
    \<and> unat (mcl_reserved_calls c) \<le> unat (mcb_max_model_calls (mcl_budget c))"
proof -
  have j: "calls_journaled E w" using assms(1,2) by (rule loop_run_journaled)
  then have run: "replay (le_crypto E) (ms_records (lw_store w)) = Inr s"
    using assms(3) by (auto simp: calls_journaled_def store_ok_def journal_ok_def ms_load_current_def)
  have sub: "subseq (map call_identity (lw_calls w)) (reserved_identities (ms_records (lw_store w)))"
    using j by (simp add: calls_journaled_def)
  have "length (lw_calls w) \<le> count_events is_reservation (ms_records (lw_store w))"
    using list_emb_length [OF sub] by (simp add: reserved_identities_length)
  moreover have "count_events is_reservation (ms_records (lw_store w)) \<le> unat (mcl_reserved_calls c)"
    using reservations.reachable [OF run] assms(4,5) by (simp add: calls_reserved_def)
  moreover have "unat (mcl_reserved_calls c) \<le> unat (mcb_max_model_calls (mcl_budget c))"
    using turns.reachable [OF run] assms(4,5) by (simp add: turns_ok_def loop_ok_def calls_ok_def word_le_nat_alt)
  ultimately show ?thesis using sub by simp
qed

theorem planner_calls_bounded_witness:
  "\<exists>w s l c. loop_run sample_loop_env sample_loop_ports empty_catalog w \<and> lw_calls w \<noteq> []
     \<and> ms_load_current (lw_store w) = Some s \<and> rs_agent_loop s = Some l \<and> als_model_calls l = Some c
     \<and> length (lw_calls w) \<le> unat (mcl_reserved_calls c)
     \<and> unat (mcl_reserved_calls c) \<le> unat (mcb_max_model_calls (mcl_budget c))"
proof -
  obtain r w where t: "tick sample_loop_env sample_loop_ports sample_agent_loop empty_catalog idle_world = (r, w)" by (meson surj_pair)
  have run: "loop_run sample_loop_env sample_loop_ports empty_catalog w"
    by (rule ticked [OF started t]) (use idle_built in simp_all)
  have calls: "lw_calls w \<noteq> []" using idle_tick t by simp
  from run idle_append_only calls obtain s l c where "ms_load_current (lw_store w) = Some s" "rs_agent_loop s = Some l" "als_model_calls l = Some c"
    by (rule called_run_configured)
  with planner_calls_bounded [OF run idle_append_only this] run calls show ?thesis by blast
qed

section \<open>Ticking comes to rest\<close>

text \<open>
  C17. A loop that is alone on its run comes to rest: ticked forever under one configuration that
  allows $n$ model calls, with a planner and a materializer that answer as they like, it changes the
  store in at most $2n + 3$ of its ticks; from some tick on, the store and the log of planner calls
  stay as they are.
\<close>

theorem ticking_comes_to_rest:
  assumes "store_built (le_crypto E) (le_protocol E) (lw_store w)" and "\<And>q st. lp_rivals ports q st = st"
  shows "finite (moving_ticks E ports al registry w)
    \<and> card (moving_ticks E ports al registry w) \<le> 2 * unat (mcb_max_model_calls (al_model_call_budget al)) + 3
    \<and> (\<exists>i. \<forall>j\<ge>i. lw_store (ticks E ports al registry j w) = lw_store (ticks E ports al registry i w)
         \<and> lw_calls (ticks E ports al registry j w) = lw_calls (ticks E ports al registry i w))"
proof -
  let ?x = "\<lambda>i. ticks E ports al registry i w" let ?n = "unat (mcb_max_model_calls (al_model_call_budget al))"
  have ok: "loop_store_ok E (lw_store (?x i))" for i
    using store_built_ok [OF assms(1)] assms(2) by (rule ticks_store_ok)
  have falls: "store_fuel ?n (lw_store (?x (Suc i))) < store_fuel ?n (lw_store (?x i))" if "lw_store (?x (Suc i)) \<noteq> lw_store (?x i)" for i
    using tick_spends [OF _ ok assms(2)] that by (metis ticks_step)
  note moves = finitely_many_moves [of "\<lambda>i. lw_store (?x i)" "store_fuel ?n", OF falls, folded moving_ticks_def]
  moreover have "store_fuel ?n (lw_store (?x 0)) \<le> 2 * ?n + 3" by (rule fuel_bound)
  moreover obtain i where i: "\<forall>j\<in>moving_ticks E ports al registry w. j < i"
    using moves(1) by (auto simp only: finite_nat_set_iff_bounded)
  have "lw_store (?x j) = lw_store (?x i) \<and> lw_calls (?x j) = lw_calls (?x i)" if "i \<le> j" for j
    using that
  proof (induction rule: dec_induct)
    case (step j)
    have "j \<notin> moving_ticks E ports al registry w" using i step.hyps(1) by fastforce
    then have "lw_store (?x (Suc j)) = lw_store (?x j)" by (simp add: moving_ticks_def)
    then show ?case using step.IH still_tick [OF ticks_step ok assms(2)] by simp
  qed simp
  ultimately show ?thesis by (meson order_trans)
qed

theorem ticking_comes_to_rest_witness:
  "card (moving_ticks sample_loop_env sample_loop_ports sample_agent_loop empty_catalog idle_world) \<le> 7"
proof -
  have "store_built (le_crypto sample_loop_env) (le_protocol sample_loop_env) (lw_store idle_world)" using idle_built by simp
  moreover have "lp_rivals sample_loop_ports q st = st" for q st by (simp add: sample_loop_ports_def)
  ultimately show ?thesis
    using ticking_comes_to_rest [of sample_loop_env idle_world sample_loop_ports sample_agent_loop empty_catalog] by simp
qed

section \<open>Proposals are checked exactly\<close>

definition pair_step :: "string \<Rightarrow> plan_dependency list \<Rightarrow> proposed_plan_step" where
  "pair_step key depends = \<lparr>pps_key = key, pps_objective = ''o'', pps_depends_on = depends,
     pps_capability = \<lparr>cf_capability_id = ''c'', cf_contract_version = ''1''\<rparr>, pps_arguments = JNull\<rparr>"

definition empty_context :: planning_context where
  "empty_context = \<lparr>pcx_payload = \<lparr>plp_profile_version = ''v'', plp_capabilities = [], plp_omitted_capabilities = 0,
     plp_catalog_digest = sample_digest, plp_goal = ''g'', plp_planning_constraints = [], plp_steps = [], plp_omitted_steps = 0,
     plp_tool_outputs = [], plp_total_steps = 0, plp_verified_completed_steps = 0, plp_run_id = ''r'', plp_authority = ''u'',
     plp_authority_epoch = 1, plp_journal_sequence = 3, plp_journal_head_digest = sample_digest\<rparr>,
     pcx_context_digest = sample_digest, pcx_canonical_size_bytes = 0\<rparr>"

lemma pair_step_simps [simp]:
  "pps_key (pair_step k ds) = k" "pps_objective (pair_step k ds) = ''o''" "pps_depends_on (pair_step k ds) = ds"
  by (simp_all add: pair_step_def)

lemma pair_edges:
  "proposal_edges [pair_step k ds, pair_step k' ds']
     = {(v, k) | v. ProposedStep v \<in> set ds} \<union> {(v, k') | v. ProposedStep v \<in> set ds'}"
  unfolding proposal_edges_def
  by (intro set_eqI iffI; clarsimp) (metis pair_step_simps(1,3))+

text \<open>
  C15. The structure check of a planner's proposal is exact. Within the step limit it accepts precisely
  the proposals whose keys are valid and distinct, whose objectives are bounded texts, whose
  dependencies are listed once and are other keys of the proposal or steps of the context that exist
  and are not blocked, with edges within the limit and no cycle among the proposed steps; and it never
  reaches one of its \<open>expect\<close>s.
\<close>

theorem proposal_structure_exact:
  assumes "length steps \<le> MAX_ACCEPTED_PLAN_STEPS"
  shows "(validate_proposal_structure s f ctxt steps = Inr () \<longleftrightarrow> proposal_well_formed s f ctxt steps)
    \<and> (\<forall>m. validate_proposal_structure s f ctxt steps \<noteq> Inl (PR_Panic m))"
proof -
  have "length steps < 2 ^ 64" using assms by (simp add: MAX_ACCEPTED_PLAN_STEPS_def)
  from structure_checked [OF this, of s f ctxt] show ?thesis by (auto simp: declined_def split: if_splits)
qed

theorem proposal_structure_exact_witness:
  "validate_proposal_structure (quiet_state 3 None) (finish empty_assembly (quiet_state 3 None)) empty_context
      [pair_step ''b'' [ProposedStep ''a''], pair_step ''a'' []] = Inr ()
   \<and> validate_proposal_structure (quiet_state 3 None) (finish empty_assembly (quiet_state 3 None)) empty_context
      [pair_step ''b'' [ProposedStep ''a''], pair_step ''a'' [ProposedStep ''b'']] \<noteq> Inr ()"
proof -
  let ?s = "quiet_state 3 None"
  have key: "valid_proposal_identifier ''a''" "valid_proposal_identifier ''b''"
    by (simp_all add: valid_proposal_identifier_def MAX_PROPOSAL_KEY_BYTES_def identifier_byte_def is_ascii_alphanumeric_def
        is_ascii_lowercase_def byte_val_def)
  have objective: "valid_bounded_text ''o'' MAX_ACCEPTED_OBJECTIVE_BYTES"
    by (simp add: valid_bounded_text_def MAX_ACCEPTED_OBJECTIVE_BYTES_def has_control_def byte_val_def)
  have edges: "proposal_edges [pair_step ''b'' [ProposedStep ''a''], pair_step ''a'' []] = {(''a'', ''b'')}"
    by (auto simp: pair_edges)
  have "proposal_well_formed ?s (finish empty_assembly ?s) empty_context [pair_step ''b'' [ProposedStep ''a''], pair_step ''a'' []]"
    unfolding proposal_well_formed_def edges
    using key objective by (simp add: dependency_ok_def MAX_ACCEPTED_PLAN_EDGES_def acyclic_insert wf_acyclic)
  moreover have "{(''a'', ''b''), (''b'', ''a'')} \<subseteq> proposal_edges [pair_step ''b'' [ProposedStep ''a''], pair_step ''a'' [ProposedStep ''b'']]"
    (is "_ \<subseteq> ?e") by (simp add: pair_edges)
  then have "(''a'', ''a'') \<in> ?e\<^sup>+" by (meson insert_subset trancl.trancl_into_trancl r_into_trancl)
  then have "\<not> proposal_well_formed ?s (finish empty_assembly ?s) empty_context
      [pair_step ''b'' [ProposedStep ''a''], pair_step ''a'' [ProposedStep ''b'']]"
    by (auto simp: proposal_well_formed_def acyclic_def)
  ultimately show ?thesis
    using proposal_structure_exact [of "[pair_step ''b'' [ProposedStep ''a''], pair_step ''a'' []]" ?s "finish empty_assembly ?s" empty_context]
      proposal_structure_exact [of "[pair_step ''b'' [ProposedStep ''a''], pair_step ''a'' [ProposedStep ''b'']]" ?s "finish empty_assembly ?s" empty_context]
    by (simp add: MAX_ACCEPTED_PLAN_STEPS_def)
qed

end
