(* ===== verification/Spec2Isabelle.thy ===== *)
theory Spec2Isabelle
  imports Run_Properties Output_Correctness Routing_Properties Store_Snapshot_Properties Executor_Properties Contract_Correctness
    Verification_Properties Agent_Loop_Properties
begin

text \<open>
  xgeny is a local-first agent runtime: a model proposes plans, a policy authorizes single
  effects, adapters execute them, and everything that happens is a record of an append-only,
  hash-chained journal from which the state of the run is rebuilt. This development models that
  core, from the journal up to the agent loop, and proves what the parts promise each other.

  \<^bold>\<open>The parts and how they interact.\<close> The work graph (\<open>crates/xgeny-workgraph\<close>) owns the
  events, the projection of a journal and the frontier of steps that can be acted on. The policy
  (\<open>crates/xgeny-policy\<close>) resolves an invocation into concrete resources and composes policy layers
  into allow, ask or deny. The registry and the router (\<open>crates/xgeny-runtime\<close>) hold capability
  definitions and instances and select one. The admission joins them: it prepares an invocation,
  evaluates policy, routes, and appends one intent with a one-use authorization. The executor checks
  the durable intent again and drives it through the effect runtime, which writes the journal before
  it calls a sink and reconciles what it cannot know. The material recovery rebuilds arguments after a
  restart. The verification runner asks a verifier about an applied effect and records its verdict with
  a receipt, which releases the dependents. The agent loop closes the circle: a tick hands the next
  action of the frontier to its caller, or packs a bounded context, reserves a model call in the
  journal, asks the planner, and records what came of it. All of them write through the local store (\<open>crates/xgeny-local-store\<close>), which keeps the
  journal, its sidecars (plan inputs, materials, tool outputs, receipts, completion outputs) and a
  verified index of them.

  \<^bold>\<open>Conventions.\<close> A fallible function returns \<open>error + value\<close>; \<open>?\<close> is \<open>and_then\<close>, and an error
  enumeration has one constructor per variant (Prelude). A \<open>BTreeMap\<close> or \<open>BTreeSet\<close> is a sorted
  association list as a type of its own (Ordered_Collections). Machine integers are words; \<open>checked_add\<close>
  and \<open>try_from\<close> are written out. A string is the list of its UTF-8 bytes. A float is its bit pattern
  (Capability_Router). An \<open>expect\<close> or arithmetic that could panic is a value of its own
  (\<open>TE_Panic\<close>, \<open>FE_Panic\<close>, \<open>SE_Panic\<close>, \<open>PR_Panic\<close>, the flag of the executor's sink); theorems show of
  the reducer, the frontier, the executor and the structure check of a proposal that it is not reached.
  Code that mutates passes its state explicitly; an operation over a store, a sink and an event factory
  is a function of the world that holds them, and the world survives an error.

  \<^bold>\<open>Theories and sources.\<close>
  \<^item> Journal_Types, Journal_Digests, Sample_Crypto, Sample_Run: the events, states and digest inputs of
    \<open>xgeny-workgraph/src/lib.rs\<close>, with a concrete canonicalizer and journal for the witnesses.
  \<^item> Planning_Contracts, Contract_Correctness: reservations, planned invocations, material records.
  \<^item> Frontier, Frontier_Spec, Frontier_Correctness: \<open>derive_frontier\<close> as a worklist traversal, its
    declarative specification, and their equivalence.
  \<^item> Reducer, Effect_Lifecycle, Journal_Replay, Run_Safety, Run_Budgets, Run_Errors, Run_Properties:
    \<open>apply_record\<close> and \<open>replay\<close> with every event; the inductive step machine it implements; the locales
    \<open>run_invariant\<close>, \<open>step_invariant\<close> and \<open>run_relation\<close> that carry invariants through replay; and the
    properties of a run.
  \<^item> Output_Records, Output_Correctness: tool output and completion records, the limits of an output.
  \<^item> Domain_Types, Json_Pointers, Policy_Resolution, Policy_Broker: \<open>xgeny-domain\<close> and \<open>xgeny-policy\<close>.
  \<^item> Capability_Registry, Capability_Router, Routing_Properties: \<open>registry.rs\<close> and \<open>router.rs\<close>.
  \<^item> Receipt_Protocol, Receipt_Audit: the receipt documents of \<open>xgeny-protocol/src/lib.rs\<close> and their
    audit against the journal.
  \<^item> Store_Types, Store_Index, Memory_Store: the shared verification of \<open>xgeny-local-store/src/lib.rs\<close>
    and every operation of the in-memory store; Store_Commits, Store_Journal, Store_Sidecars,
    Store_Outputs, Store_Receipts, Store_Planning, Store_Snapshots, Store_Audit, Store_Properties and
    Store_Snapshot_Properties hold its invariant, the locale \<open>run_store\<close> and its properties.
  \<^item> Effect_Runtime, Runtime_Properties: \<open>xgeny-runtime/src/runtime.rs\<close>, the durable effect runtime.
  \<^item> Admission_Digests, Admission, Sample_Admission, Admission_Properties: \<open>admission.rs\<close>.
  \<^item> Direct_Executor, Executor_Properties: \<open>executor.rs\<close>; Material_Recovery: \<open>material.rs\<close>.
  \<^item> Verification_Runner, Verification_Properties: \<open>verification.rs\<close>.
  \<^item> Planning_Types, Planning_Context, Plan_Proposals, Agent_Loop: \<open>agent_loop.rs\<close>,
    \<open>invocation_diagnostic.rs\<close> and \<open>frontier.rs\<close>; Loop_Accounting, Proposal_Structure,
    Sample_Loop and Agent_Loop_Properties hold what a tick leaves behind, what the structure check of a
    proposal accepts, a concrete run and the properties of the loop.

  \<^bold>\<open>What is shown.\<close> Of a replayed journal: it is one hash chain, its head determines it, effects
  follow the step machine, are retried only after a proof that they were not applied, use each
  authorization once and at the head it was issued for, release dependencies by receipts only, stay
  within their budgets, and never reach an internal error; the frontier exists, is its specification
  and does not deadlock. Of records: verifiers accept exactly what constructors build. Of policy and
  routing: an allowance covers the request, the composition is monotone, the arguments that execute
  are the resources that were authorized, and the router's choice is admissible and best. Of the
  store: the incremental index is the audit from scratch, an append consumes its head, sidecars stay
  readable, and the planning snapshot is exact. Of the runtime: the journal is ahead of the sink, an
  effect executes once per proof, and reports are durable. Of admission, executor and recovery: an
  admission appends one bound intent or nothing, a prepared invocation is admitted at most once, what
  was admitted passes the executor's gates, no adapter is called outside them, and recovered
  arguments are the admitted ones. Of the verification runner: a verifier is asked at most once, only
  about a validating step, its verdict is recorded once, the receipt passes the store's own audit, and the type of reports
  holds exactly what a receipt can carry.
  Of the agent loop: a planner is called only behind its durable reservation and with a context within
  its budget, the calls of a run are journaled and bounded whatever other writers do, a loop that is
  alone comes to rest, and the structure check of a proposal accepts exactly the acyclic, bounded ones
  without reaching an \<open>expect\<close>.

  \<^bold>\<open>Termination.\<close> No definition uses fuel. Loops over collections are folds or structural
  recursion; the traversal of the frontier, the topological walk over a proposal, the stack walks over
  a tool output and a schema, and the scans of white space and of UTF-8 are functions with a termination
  measure (the visits that remain, the size of the stack, the length of the text), so each is total and
  its result is a value for every input. The loop of ticks itself is bounded by what is left of the
  model-call budget (\<open>store_fuel\<close>).

  \<^bold>\<open>Parameters.\<close> Library code is an argument: the canonicalizer and SHA-256 (\<open>crypto\<close>,
  \<open>admission_env\<close>, \<open>planning_env\<close>), JSON-schema validation and time stamps (\<open>protocol_env\<close> and again
  \<open>admission_env\<close> and \<open>planning_env\<close>), JSON
  pointers (\<open>json_pointers\<close>, with the algorithm of RFC 6901 as the instance), the host's resource
  resolver, adapters, verifiers, material providers, planners, materializers, event factories and
  leases; for the agent loop also the writers that append to the run while a planner works
  (\<open>lp_rivals\<close>, of which the theorems ask only that they append). Nothing is assumed of hashes;
  where a proof needs that two inputs do not collide, the theorem says so by a disjunct that exhibits
  the two inputs (\<open>digest_confusion\<close>).

  \<^bold>\<open>Not modelled.\<close> The SQLite store (SQL and files by a library; its verification is the shared index),
  the file-system, process and reference adapters, the model provider and the command line (input and
  output of the host), the conformance check of bundled fixtures, and \<open>Debug\<close>, accessors and
  serialization attributes throughout.
\<close>

end
